(* ===== verification/Go_Prelude.thy ===== *)
theory Go_Prelude
  imports Main
begin

text \<open>
  Shared vocabulary of the development: Go strings as byte lists with the operations of package
  \<^verbatim>\<open>strings\<close> that the control store uses, the error classes of the storage contract, chains of
  checks with early returns, and instants of time.  The lemma collections
  \<^verbatim>\<open>check_simps\<close> and \<^verbatim>\<open>go_string_simps\<close> carry the component proofs.
\<close>

named_theorems check_simps \<open>evaluation of chains of checks with early returns\<close>
named_theorems go_string_simps \<open>evaluation of Go string operations\<close>

section \<open>Errors and instants\<close>

text \<open>
  A Go error is represented by its class, the sentinel that \<^verbatim>\<open>errors.Is\<close> recognises; the
  formatted message is not part of the model.  \<open>ErrDriver\<close> stands for an error without a sentinel:
  one of the database driver that the store returns unchanged, or a plain \<^verbatim>\<open>fmt.Errorf\<close>;
  \<open>ErrCanceled\<close> is the error of a cancelled or expired context.
\<close>

datatype store_error =
    ErrNotFound
  | ErrConflict
  | ErrNotReady
  | ErrValidation
  | ErrFenced
  | ErrDatasetMismatch
  | ErrDatasetDetached
  | ErrIncompatible
  | ErrDuplicateMismatch
  | ErrOperationExpired
  | ErrOperationAborted
  | ErrClockSkew
  | ErrTooLarge
  | ErrGatewayOwnedSession
  | ErrTaskDataCleanupChanged
  | ErrTaskJobRevoked
  | ErrCanceled
  | ErrDriver

text \<open>
  \<open>time.Time\<close> as an instant: nanoseconds since Go's zero time, so the zero value is \<open>0\<close> and
  \<open>UTC\<close> is the identity on instants.  \<open>time.Time.Equal\<close> is equality, \<open>After\<close> is \<open>>\<close>.
\<close>

type_synonym gotime = int

abbreviation time_is_zero :: "gotime \<Rightarrow> bool" where
  "time_is_zero t \<equiv> t = 0"

section \<open>Chains of checks\<close>

text \<open>
  A Go \<open>error\<close> value is a \<open>store_error option\<close>, \<open>None\<close> being \<open>nil\<close>.
  \<open>checks [c1, c2] k\<close> is the sequence \<^verbatim>\<open>if err := c1; err != nil { return err }; ...; k\<close>.
\<close>

fun checks :: "store_error option list \<Rightarrow> (store_error + 'a) \<Rightarrow> store_error + 'a" where
  "checks [] k = k"
| "checks (None # cs) k = checks cs k"
| "checks (Some e # cs) k = Inl e"

definition fail_if :: "store_error \<Rightarrow> bool \<Rightarrow> store_error option" where
  "fail_if e b = (if b then Some e else None)"

text \<open>The first error of a sequence of checks that ends with \<^verbatim>\<open>return nil\<close>.\<close>

fun first_error :: "store_error option list \<Rightarrow> store_error option" where
  "first_error [] = None"
| "first_error (None # cs) = first_error cs"
| "first_error (Some e # cs) = Some e"

lemma fail_if_None [simp, check_simps]: "fail_if e b = None \<longleftrightarrow> \<not> b"
  by (simp add: fail_if_def)

lemma fail_if_Some [simp, check_simps]: "fail_if e b = Some x \<longleftrightarrow> b \<and> x = e"
  by (auto simp: fail_if_def)

lemma Some_eq_fail_if [simp, check_simps]: "Some x = fail_if e b \<longleftrightarrow> b \<and> x = e"
  by (auto simp: fail_if_def)

lemma fail_if_False [simp]: "fail_if e False = None"
  by (simp add: fail_if_def)

lemma fail_if_True [simp]: "fail_if e True = Some e"
  by (simp add: fail_if_def)

lemma checks_Cons: "checks (c # cs) k = (case c of None \<Rightarrow> checks cs k | Some e \<Rightarrow> Inl e)"
  by (cases c) simp_all

lemma checks_Inr [simp, check_simps]:
  "checks cs k = Inr v \<longleftrightarrow> list_all (\<lambda>c. c = None) cs \<and> k = Inr v"
  by (induction cs) (auto simp: checks_Cons split: option.splits)

lemma first_error_Cons:
  "first_error (c # cs) = (case c of None \<Rightarrow> first_error cs | Some e \<Rightarrow> Some e)"
  by (cases c) simp_all

lemma first_error_None [simp, check_simps]:
  "first_error cs = None \<longleftrightarrow> list_all (\<lambda>c. c = None) cs"
  by (induction cs) (auto simp: first_error_Cons split: option.splits)

lemma first_error_in_set: "first_error cs = Some e \<Longrightarrow> Some e \<in> set cs"
  by (induction cs) (auto simp: first_error_Cons split: option.splits)

lemma first_error_uniform:
  "list_all (\<lambda>c. c = None \<or> c = Some e) cs \<Longrightarrow>
   first_error cs = (if list_all (\<lambda>c. c = None) cs then None else Some e)"
  by (induction cs) (auto simp: first_error_Cons split: option.splits)

lemma checks_Inl_cases:
  "checks cs k = Inl e \<Longrightarrow> Some e \<in> set cs \<or> k = Inl e"
  by (induction cs) (auto simp: checks_Cons split: option.splits)

section \<open>Go strings\<close>

text \<open>
  A Go string is a sequence of bytes, a \<open>char list\<close> here.  \<open>strings.TrimSpace\<close> removes runs of
  Unicode white space at both ends.  White space is recognised by its UTF-8 encoding: the first or
  last rune of a byte string is the white-space rune \<open>r\<close> exactly when the encoding of \<open>r\<close> is a
  prefix or suffix of it (an encoding starts with the only rune-start byte it contains).
\<close>

definition has_prefix :: "string \<Rightarrow> string \<Rightarrow> bool" where
  "has_prefix s p \<longleftrightarrow> take (length p) s = p"

definition has_suffix :: "string \<Rightarrow> string \<Rightarrow> bool" where
  "has_suffix s p \<longleftrightarrow> length p \<le> length s \<and> drop (length s - length p) s = p"

definition trim_prefix :: "string \<Rightarrow> string \<Rightarrow> string" where
  "trim_prefix s p = (if has_prefix s p then drop (length p) s else s)"

fun contains :: "string \<Rightarrow> string \<Rightarrow> bool" where
  "contains [] p \<longleftrightarrow> p = []"
| "contains (c # s) p \<longleftrightarrow> has_prefix (c # s) p \<or> contains s p"

definition contains_any :: "string \<Rightarrow> string \<Rightarrow> bool" where
  "contains_any s cs \<longleftrightarrow> list_ex (\<lambda>c. c \<in> set cs) s"

definition white_space :: "string list" where
  "white_space =
    [[CHR 0x09], [CHR 0x0A], [CHR 0x0B], [CHR 0x0C], [CHR 0x0D], [CHR 0x20],
     [CHR 0xC2, CHR 0x85], [CHR 0xC2, CHR 0xA0], [CHR 0xE1, CHR 0x9A, CHR 0x80],
     [CHR 0xE2, CHR 0x80, CHR 0x80], [CHR 0xE2, CHR 0x80, CHR 0x81], [CHR 0xE2, CHR 0x80, CHR 0x82],
     [CHR 0xE2, CHR 0x80, CHR 0x83], [CHR 0xE2, CHR 0x80, CHR 0x84], [CHR 0xE2, CHR 0x80, CHR 0x85],
     [CHR 0xE2, CHR 0x80, CHR 0x86], [CHR 0xE2, CHR 0x80, CHR 0x87], [CHR 0xE2, CHR 0x80, CHR 0x88],
     [CHR 0xE2, CHR 0x80, CHR 0x89], [CHR 0xE2, CHR 0x80, CHR 0x8A], [CHR 0xE2, CHR 0x80, CHR 0xA8],
     [CHR 0xE2, CHR 0x80, CHR 0xA9], [CHR 0xE2, CHR 0x80, CHR 0xAF], [CHR 0xE2, CHR 0x81, CHR 0x9F],
     [CHR 0xE3, CHR 0x80, CHR 0x80]]"

lemma white_space_nonempty: "w \<in> set white_space \<Longrightarrow> w \<noteq> []"
  by (auto simp: white_space_def)

text \<open>Remove one element of \<open>ws\<close> from the front; \<open>None\<close> if none is there.\<close>

fun strip_one :: "string list \<Rightarrow> string \<Rightarrow> string option" where
  "strip_one [] s = None"
| "strip_one (w # ws) s = (if has_prefix s w then Some (drop (length w) s) else strip_one ws s)"

lemma strip_one_shorter:
  "list_all (\<lambda>w. w \<noteq> []) ws \<Longrightarrow> strip_one ws s = Some s' \<Longrightarrow> length s' < length s"
proof (induction ws)
  case Nil
  then show ?case by simp
next
  case (Cons w ws)
  show ?case
  proof (cases "has_prefix s w")
    case True
    then have "length w \<le> length s"
      unfolding has_prefix_def by (metis length_take min.cobounded1)
    moreover have "0 < length w" using Cons.prems(1) by simp
    ultimately have "length s - length w < length s" by linarith
    then show ?thesis using True Cons.prems(2) by auto
  next
    case False
    then show ?thesis using Cons by simp
  qed
qed

function trim_left_with :: "string list \<Rightarrow> string \<Rightarrow> string" where
  "trim_left_with ws s =
     (if list_all (\<lambda>w. w \<noteq> []) ws
      then case strip_one ws s of None \<Rightarrow> s | Some s' \<Rightarrow> trim_left_with ws s'
      else s)"
  by pat_completeness auto
termination
  by (relation "measure (\<lambda>(ws, s). length s)") (auto dest: strip_one_shorter)

declare trim_left_with.simps [simp del]

definition TrimSpace :: "string \<Rightarrow> string" where
  "TrimSpace s = rev (trim_left_with (map rev white_space) (rev (trim_left_with white_space s)))"

lemma trim_left_with_Nil [simp]: "trim_left_with ws [] = []"
proof -
  have "list_all (\<lambda>w. w \<noteq> []) ws \<Longrightarrow> strip_one ws [] = None"
    by (induction ws) (auto simp: has_prefix_def)
  then show ?thesis by (subst trim_left_with.simps) simp
qed

lemma TrimSpace_Nil [simp]: "TrimSpace [] = []"
  by (simp add: TrimSpace_def)

text \<open>Trimming from the left leaves a string that cannot be trimmed further.\<close>

lemma trim_left_with_fixed:
  "list_all (\<lambda>w. w \<noteq> []) ws \<Longrightarrow> strip_one ws (trim_left_with ws s) = None"
proof (induction ws s rule: trim_left_with.induct)
  case (1 ws s)
  then show ?case
    by (cases "strip_one ws s") (simp_all add: trim_left_with.simps [of ws s])
qed

lemma trim_left_with_id: "strip_one ws s = None \<Longrightarrow> trim_left_with ws s = s"
  by (subst trim_left_with.simps) simp

text \<open>Trimming twice is trimming once.\<close>

lemma strip_one_None: "strip_one ws s = None \<longleftrightarrow> (\<forall>w \<in> set ws. \<not> has_prefix s w)"
  by (induction ws) auto

lemma trim_left_with_suffix: "\<exists>p. s = p @ trim_left_with ws s"
proof (induction ws s rule: trim_left_with.induct)
  case (1 ws s)
  show ?case
  proof (cases "strip_one ws s")
    case None
    then show ?thesis by (simp add: trim_left_with_id)
  next
    case (Some s')
    have "\<exists>n. s' = drop n s" using Some by (induction ws) (auto split: if_splits)
    then obtain q where "s = q @ s'" by (metis append_take_drop_id)
    moreover have "trim_left_with ws s = (if list_all (\<lambda>w. w \<noteq> []) ws then trim_left_with ws s' else s)"
      using Some by (simp add: trim_left_with.simps [of ws s])
    moreover have "\<exists>p. s' = p @ trim_left_with ws s'" if "list_all (\<lambda>w. w \<noteq> []) ws"
      using 1 [OF that Some] .
    ultimately show ?thesis by (metis append.assoc append_Nil)
  qed
qed

lemma TrimSpace_idem [simp]: "TrimSpace (TrimSpace s) = TrimSpace s"
proof -
  define x where "x = trim_left_with white_space s"
  define y where "y = trim_left_with (map rev white_space) (rev x)"
  have left: "strip_one white_space x = None" and right: "strip_one (map rev white_space) y = None"
    unfolding x_def y_def by (rule trim_left_with_fixed, auto simp: list_all_iff dest: white_space_nonempty)+
  obtain p where "rev x = p @ y" unfolding y_def using trim_left_with_suffix by metis
  then have x: "x = rev y @ rev p" by (metis rev_append rev_rev_ident)
  have "\<not> has_prefix (rev y) w" if "w \<in> set white_space" for w
  proof
    assume "has_prefix (rev y) w"
    then have "has_prefix x w" unfolding x has_prefix_def by (metis append_take_drop_id length_append take_append append.assoc append_eq_conv_conj)
    with left that show False by (simp add: strip_one_None)
  qed
  then have "trim_left_with white_space (rev y) = rev y"
    by (intro trim_left_with_id) (simp add: strip_one_None)
  moreover have "trim_left_with (map rev white_space) y = y" using right by (rule trim_left_with_id)
  ultimately show ?thesis unfolding TrimSpace_def by (simp add: x_def y_def)
qed

subsection \<open>UTF-8 and hexadecimal\<close>

abbreviation byte :: "char \<Rightarrow> nat" where
  "byte c \<equiv> of_char c"

definition cont_byte :: "nat \<Rightarrow> bool" where
  "cont_byte b \<longleftrightarrow> 0x80 \<le> b \<and> b \<le> 0xBF"

text \<open>
  \<open>utf8.ValidString\<close> on the bytes of a string: the well-formed sequences of RFC 3629 (no
  overlong forms, no surrogates, nothing above U+10FFFF).
\<close>

function utf8_valid :: "nat list \<Rightarrow> bool" where
  "utf8_valid [] \<longleftrightarrow> True"
| "utf8_valid (a # bs) \<longleftrightarrow>
     (if a < 0x80 then utf8_valid bs
      else if 0xC2 \<le> a \<and> a \<le> 0xDF then
        1 \<le> length bs \<and> cont_byte (bs ! 0) \<and> utf8_valid (drop 1 bs)
      else if 0xE0 \<le> a \<and> a \<le> 0xEF then
        2 \<le> length bs \<and> cont_byte (bs ! 0) \<and> (a = 0xE0 \<longrightarrow> 0xA0 \<le> bs ! 0) \<and>
        (a = 0xED \<longrightarrow> bs ! 0 \<le> 0x9F) \<and> cont_byte (bs ! 1) \<and> utf8_valid (drop 2 bs)
      else if 0xF0 \<le> a \<and> a \<le> 0xF4 then
        3 \<le> length bs \<and> cont_byte (bs ! 0) \<and> (a = 0xF0 \<longrightarrow> 0x90 \<le> bs ! 0) \<and>
        (a = 0xF4 \<longrightarrow> bs ! 0 \<le> 0x8F) \<and> cont_byte (bs ! 1) \<and> cont_byte (bs ! 2) \<and>
        utf8_valid (drop 3 bs)
      else False)"
  by pat_completeness auto
termination
  by (relation "measure length") auto

definition ValidString :: "string \<Rightarrow> bool" where
  "ValidString s \<longleftrightarrow> utf8_valid (map byte s)"

lemma utf8_valid_ascii: "list_all (\<lambda>b. b < 0x80) bs \<Longrightarrow> utf8_valid bs"
  by (induction bs) simp_all

definition lower_hex_digits :: string where
  "lower_hex_digits = ''0123456789abcdef''"

definition upper_hex_letters :: string where
  "upper_hex_letters = ''ABCDEF''"

text \<open>\<open>hex.DecodeString\<close> succeeds on an even number of hexadecimal digits of either case.\<close>

definition hex_decodable :: "string \<Rightarrow> bool" where
  "hex_decodable s \<longleftrightarrow>
     even (length s) \<and> list_all (\<lambda>c. c \<in> set lower_hex_digits \<or> c \<in> set upper_hex_letters) s"

text \<open>
  \<open>strings.ToLower(s) != s\<close> for the strings that reach a hexadecimal decoder afterwards: an ASCII
  capital letter occurs.  (A string with other bytes is rejected by the decoder, with an error of
  the same class.)
\<close>

definition has_upper :: "string \<Rightarrow> bool" where
  "has_upper s \<longleftrightarrow> list_ex (\<lambda>c. 0x41 \<le> byte c \<and> byte c \<le> 0x5A) s"

subsection \<open>Decimal numerals\<close>

fun dec_digit :: "nat \<Rightarrow> char" where
  "dec_digit n = char_of (48 + n)"

fun format_nat :: "nat \<Rightarrow> string" where
  "format_nat n = (if n < 10 then [dec_digit n] else format_nat (n div 10) @ [dec_digit (n mod 10)])"

declare format_nat.simps [simp del]

text \<open>\<open>strconv.FormatInt(n, 10)\<close>.\<close>

definition FormatInt :: "int \<Rightarrow> string" where
  "FormatInt i = (if i < 0 then CHR ''-'' # format_nat (nat (- i)) else format_nat (nat i))"

end
