(* ===== verification/Sql_Tables.thy ===== *)
theory Sql_Tables
  imports Go_Prelude
begin

text \<open>
  The SQL statements of the store, as functions on tables.  A table is the list of its rows in
  insertion order; \<^verbatim>\<open>SELECT ... WHERE pk = ?\<close> is \<open>find_row\<close>, and \<open>sql_insert\<close>, \<open>sql_update\<close>,
  \<open>sql_delete\<close> are the statements of the same name with the number of affected rows and the
  constraint errors of the schema (primary key, \<^verbatim>\<open>UNIQUE\<close> and \<^verbatim>\<open>CHECK\<close>).  \<open>with_tx\<close> is
  \<^verbatim>\<open>BeginTx\<close>, the deferred \<^verbatim>\<open>Rollback\<close> and \<^verbatim>\<open>Commit\<close>.  The locale \<open>keyed_table\<close> states what the
  schema of one table promises; every table of the store is an interpretation of it.
\<close>

section \<open>Statements\<close>

definition find_row :: "('r \<Rightarrow> 'k) \<Rightarrow> 'k \<Rightarrow> 'r list \<Rightarrow> 'r option" where
  "find_row pk k t = List.find (\<lambda>r. pk r = k) t"

text \<open>
  \<open>sql_insert chk clash row t\<close>: \<open>None\<close> is a constraint error, either a violated \<^verbatim>\<open>CHECK\<close> or a row
  with the same primary key or unique columns (\<open>clash\<close>).
\<close>

definition sql_insert :: "('r \<Rightarrow> bool) \<Rightarrow> ('r \<Rightarrow> 'r \<Rightarrow> bool) \<Rightarrow> 'r \<Rightarrow> 'r list \<Rightarrow> 'r list option" where
  "sql_insert chk clash row t =
     (if \<not> chk row \<or> list_ex (\<lambda>r. clash r row) t then None else Some (t @ [row]))"

text \<open>
  \<open>sql_update chk W f t\<close>: the rows with \<open>W\<close> are replaced by \<open>f\<close>; the result carries the number of
  affected rows, and is \<open>None\<close> when a new row violates a \<^verbatim>\<open>CHECK\<close>.
\<close>

definition sql_update ::
  "('r \<Rightarrow> bool) \<Rightarrow> ('r \<Rightarrow> bool) \<Rightarrow> ('r \<Rightarrow> 'r) \<Rightarrow> 'r list \<Rightarrow> ('r list \<times> nat) option" where
  "sql_update chk W f t =
     (if list_ex (\<lambda>r. W r \<and> \<not> chk (f r)) t then None
      else Some (map (\<lambda>r. if W r then f r else r) t, length (filter W t)))"

definition sql_delete :: "('r \<Rightarrow> bool) \<Rightarrow> 'r list \<Rightarrow> 'r list \<times> nat" where
  "sql_delete W t = (filter (\<lambda>r. \<not> W r) t, length (filter W t))"

text \<open>The table after the row with primary key \<open>k\<close> has become \<open>r'\<close>.\<close>

definition put_row :: "('r \<Rightarrow> 'k) \<Rightarrow> 'k \<Rightarrow> 'r \<Rightarrow> 'r list \<Rightarrow> 'r list" where
  "put_row pk k r' t = map (\<lambda>r. if pk r = k then r' else r) t"

lemma find_row_Nil [simp]: "find_row pk k [] = None"
  by (simp add: find_row_def)

lemma find_row_Cons [simp]:
  "find_row pk k (r # t) = (if pk r = k then Some r else find_row pk k t)"
  by (simp add: find_row_def)

lemma find_row_append:
  "find_row pk k (t @ u) = (case find_row pk k t of None \<Rightarrow> find_row pk k u | Some r \<Rightarrow> Some r)"
  by (induction t) auto

lemma find_row_SomeD: "find_row pk k t = Some r \<Longrightarrow> r \<in> set t \<and> pk r = k"
  by (induction t) (auto split: if_splits)

lemma find_row_self: "find_row pk k t = Some r \<Longrightarrow> find_row pk (pk r) t = Some r"
  using find_row_SomeD [of pk k t r] by simp

lemma find_row_None: "find_row pk k t = None \<longleftrightarrow> (\<forall>r \<in> set t. pk r \<noteq> k)"
  by (induction t) auto

lemma find_row_put_row_same:
  "find_row pk k t = Some r \<Longrightarrow> pk r' = k \<Longrightarrow> find_row pk k (put_row pk k r' t) = Some r'"
  by (induction t) (auto simp: put_row_def split: if_splits)

lemma find_row_put_row_other:
  "k' \<noteq> k \<Longrightarrow> pk r' = k \<Longrightarrow> find_row pk k' (put_row pk k r' t) = find_row pk k' t"
  by (induction t) (auto simp: put_row_def)

lemma find_row_put_row_None:
  "pk r' = k \<Longrightarrow> find_row pk k' (put_row pk k r' t) = None \<longleftrightarrow> find_row pk k' t = None"
  by (induction t) (auto simp: put_row_def)

lemma put_row_result:
  assumes "find_row pk k t = Some r" "pk r' = k"
  shows "find_row pk k' (put_row pk k r' t) = (if k' = k then Some r' else find_row pk k' t)"
  using find_row_put_row_same [of pk k t r r'] find_row_put_row_other [of k' k pk r' t] assms by simp

lemma set_put_row: "x \<in> set (put_row pk k r' t) \<Longrightarrow> x = r' \<or> (x \<in> set t \<and> pk x \<noteq> k)"
  by (auto simp: put_row_def)

section \<open>The contract of a keyed table\<close>

locale keyed_table =
  fixes pk :: "'r \<Rightarrow> 'k"
    and chk :: "'r \<Rightarrow> bool"
    and clash :: "'r \<Rightarrow> 'r \<Rightarrow> bool"
  assumes clash_pk: "pk r = pk r' \<Longrightarrow> clash r r'"
    and clash_sym: "clash r r' \<Longrightarrow> clash r' r"
begin

lemma no_clash_pk: "\<forall>x \<in> set t. \<not> clash r x \<Longrightarrow> x \<in> set t \<Longrightarrow> pk x \<noteq> pk r"
  using clash_pk by metis

text \<open>A table that satisfies its schema.\<close>

definition table_ok :: "'r list \<Rightarrow> bool" where
  "table_ok t \<longleftrightarrow> list_all chk t \<and> sorted_wrt (\<lambda>r r'. \<not> clash r r') t"

lemma table_ok_Nil: "table_ok []"
  by (simp add: table_ok_def)

lemma table_ok_chk: "table_ok t \<Longrightarrow> r \<in> set t \<Longrightarrow> chk r"
  by (simp add: table_ok_def list_all_iff)

lemma table_ok_Cons:
  "table_ok (r # t) \<longleftrightarrow> chk r \<and> (\<forall>x \<in> set t. \<not> clash r x) \<and> table_ok t"
  by (auto simp: table_ok_def)

lemma row_unique: "table_ok t \<Longrightarrow> r \<in> set t \<Longrightarrow> r' \<in> set t \<Longrightarrow> clash r r' \<Longrightarrow> r = r'"
proof (induction t)
  case Nil
  then show ?case by simp
next
  case (Cons x t)
  then show ?case by (auto simp: table_ok_Cons dest: clash_sym)
qed

lemma find_row_eq:
  assumes "table_ok t" "r \<in> set t" "pk r = k"
  shows "find_row pk k t = Some r"
proof (cases "find_row pk k t")
  case None
  with assms show ?thesis by (auto simp: find_row_None)
next
  case (Some x)
  with find_row_SomeD [OF Some] have "x \<in> set t" "pk x = k" by auto
  with assms row_unique clash_pk have "x = r" by metis
  with Some show ?thesis by simp
qed

lemma insert_ok:
  assumes "table_ok t" "sql_insert chk clash row t = Some t'"
  shows "table_ok t'"
  using assms
  by (auto simp: sql_insert_def table_ok_def sorted_wrt_append list_ex_iff list_all_iff
      split: if_splits)

lemma insert_find_same:
  "sql_insert chk clash row t = Some t' \<Longrightarrow> find_row pk (pk row) t' = Some row"
proof -
  assume ins: "sql_insert chk clash row t = Some t'"
  then have "find_row pk (pk row) t = None"
    by (auto simp: sql_insert_def find_row_None list_ex_iff split: if_splits intro: clash_pk)
  with ins show ?thesis by (auto simp: sql_insert_def find_row_append split: if_splits)
qed

lemma insert_find_other:
  "sql_insert chk clash row t = Some t' \<Longrightarrow> k \<noteq> pk row \<Longrightarrow> find_row pk k t' = find_row pk k t"
  by (auto simp: sql_insert_def find_row_append split: if_splits option.splits)

lemma insert_fresh:
  "sql_insert chk clash row t = Some t' \<Longrightarrow> find_row pk (pk row) t = None"
  by (auto simp: sql_insert_def find_row_None list_ex_iff split: if_splits intro: clash_pk)

text \<open>
  An update whose \<^verbatim>\<open>WHERE\<close> clause fixes the primary key and otherwise tests the row just read:
  it affects exactly that row, or none.
\<close>

lemma update_hit:
  assumes ok: "table_ok t" and get: "find_row pk k t = Some r"
    and W: "\<And>x. W x \<longleftrightarrow> pk x = k \<and> P x" and P: "P r" and chk: "chk (f r)"
  shows "sql_update chk W f t = Some (put_row pk k (f r) t, 1)"
proof -
  have r: "r \<in> set t" "pk r = k" using find_row_SomeD [OF get] by auto
  have uniq: "x = r" if "x \<in> set t" "pk x = k" for x
    using that r ok row_unique clash_pk by metis
  have "\<not> list_ex (\<lambda>x. W x \<and> \<not> chk (f x)) t"
    using uniq W chk by (auto simp: list_ex_iff)
  moreover have "map (\<lambda>x. if W x then f x else x) t = put_row pk k (f r) t"
    using uniq W P by (auto simp: put_row_def)
  moreover have "length (filter W t) = 1"
  proof -
    have "filter W t = filter (\<lambda>x. pk x = k) t" using uniq W P by (auto intro!: filter_cong)
    moreover have "length (filter (\<lambda>x. pk x = k) t) = 1"
      using ok r by (induction t)
        (auto simp: table_ok_Cons filter_empty_conv dest: no_clash_pk clash_pk)
    ultimately show ?thesis by simp
  qed
  ultimately show ?thesis by (simp add: sql_update_def)
qed

lemma update_check_fails:
  assumes get: "find_row pk k t = Some r" and "W r" and "\<not> chk (f r)"
  shows "sql_update chk W f t = None"
  using find_row_SomeD [OF get] assms(2,3) by (auto simp: sql_update_def list_ex_iff)

text \<open>What a caller may conclude from one affected row.\<close>

lemma update_result:
  assumes ok: "table_ok t" and get: "find_row pk k t = Some r"
    and W: "\<And>x. W x \<Longrightarrow> pk x = k" and upd: "sql_update chk W f t = Some (t', 1)"
  shows "W r" "chk (f r)" "t' = put_row pk k (f r) t"
proof -
  have r: "r \<in> set t" "pk r = k" using find_row_SomeD [OF get] by auto
  have uniq: "x = r" if "x \<in> set t" "pk x = k" for x
    using that r ok row_unique clash_pk by metis
  have "length (filter W t) = 1" using upd by (auto simp: sql_update_def split: if_splits)
  then have "filter W t \<noteq> []" by auto
  then obtain x where "x \<in> set t" "W x" by (auto simp: filter_empty_conv)
  with W uniq show "W r" by metis
  with upd r show "chk (f r)" by (auto simp: sql_update_def list_ex_iff split: if_splits)
  have "(if W x then f x else x) = (if pk x = k then f r else x)" if "x \<in> set t" for x
    using that uniq W \<open>W r\<close> by metis
  then show "t' = put_row pk k (f r) t"
    using upd by (auto simp: sql_update_def put_row_def split: if_splits)
qed

lemma put_row_ok:
  assumes ok: "table_ok t" and get: "find_row pk k t = Some r"
    and chk: "chk r'" and kept: "\<And>x. clash r' x = clash r x"
  shows "table_ok (put_row pk k r' t)"
proof -
  have r: "r \<in> set t" "pk r = k" using find_row_SomeD [OF get] by auto
  have uniq: "x = r" if "x \<in> set t" "pk x = k" for x
    using that r ok row_unique clash_pk by metis
  have kept': "clash x r' = clash x r" for x using kept clash_sym by metis
  have step: "\<not> clash (if pk x = k then r' else x) (if pk y = k then r' else y)"
    if "x \<in> set t" "y \<in> set t" "\<not> clash x y" for x y
    using that uniq [of x] uniq [of y] kept kept' clash_pk [of x y] by auto
  have "sorted_wrt (\<lambda>x y. \<not> clash (if pk x = k then r' else x) (if pk y = k then r' else y)) t"
    by (rule sorted_wrt_mono_rel [where P = "\<lambda>x y. \<not> clash x y"])
      (use step ok in \<open>auto simp: table_ok_def\<close>)
  then show ?thesis
    using ok chk by (auto simp: table_ok_def put_row_def sorted_wrt_map list_all_iff)
qed

lemma delete_ok: "table_ok t \<Longrightarrow> table_ok (fst (sql_delete W t))"
  by (auto simp: table_ok_def sql_delete_def list_all_iff sorted_wrt_filter)

lemma delete_find:
  assumes "table_ok t"
  shows "find_row pk k (fst (sql_delete W t)) =
    (case find_row pk k t of None \<Rightarrow> None | Some r \<Rightarrow> if W r then None else Some r)"
proof -
  have "find_row pk k (filter (\<lambda>r. \<not> W r) t) =
    (case find_row pk k t of None \<Rightarrow> None | Some r \<Rightarrow> if W r then None else Some r)"
    using assms
  proof (induction t)
    case (Cons x t)
    then have "pk x = k \<Longrightarrow> find_row pk k t = None"
      by (auto simp: find_row_None table_ok_Cons dest: no_clash_pk)
    with Cons show ?case by (auto simp: table_ok_Cons split: option.splits)
  qed simp
  then show ?thesis by (simp add: sql_delete_def)
qed

end

section \<open>Transactions\<close>

text \<open>
  What the body of a transaction does: return an error, return a value without committing (the
  deferred rollback then discards the transaction), or commit.  The environment may make
  \<^verbatim>\<open>BeginTx\<close>, the first statement or \<^verbatim>\<open>Commit\<close> fail.
\<close>

datatype fault = FaultBegin | FaultStatement | FaultCommit

datatype ('a, 'd) tx_result = Abort store_error | ReturnTx 'a | Commit 'a 'd

definition with_tx ::
  "fault option \<Rightarrow> ('d \<Rightarrow> ('a, 'd) tx_result) \<Rightarrow> 'd \<Rightarrow> (store_error + 'a) \<times> 'd" where
  "with_tx flt body d =
     (if flt = Some FaultBegin \<or> flt = Some FaultStatement then (Inl ErrDriver, d)
      else case body d of
        Abort e \<Rightarrow> (Inl e, d)
      | ReturnTx a \<Rightarrow> (Inr a, d)
      | Commit a d' \<Rightarrow> if flt = Some FaultCommit then (Inl ErrDriver, d) else (Inr a, d'))"

text \<open>
  The same with a handler that runs when \<^verbatim>\<open>Commit\<close> fails, on the database after the rollback.
\<close>

definition with_tx_recover ::
  "fault option \<Rightarrow> ('d \<Rightarrow> ('a, 'd) tx_result) \<Rightarrow> ('d \<Rightarrow> store_error + 'a) \<Rightarrow> 'd \<Rightarrow> (store_error + 'a) \<times> 'd"
  where
  "with_tx_recover flt body handler d =
     (if flt = Some FaultBegin \<or> flt = Some FaultStatement then (Inl ErrDriver, d)
      else case body d of
        Abort e \<Rightarrow> (Inl e, d)
      | ReturnTx a \<Rightarrow> (Inr a, d)
      | Commit a d' \<Rightarrow> if flt = Some FaultCommit then (handler d, d) else (Inr a, d'))"

text \<open>A property of the state after an atomic operation.\<close>

lemma after_atomic:
  assumes "\<And>x d'. r = (Inl x, d') \<Longrightarrow> d' = d" "\<And>a d'. r = (Inr a, d') \<Longrightarrow> P d'" "P d"
  shows "P (snd r)"
proof (cases r)
  case (Pair s d')
  show ?thesis
  proof (cases s)
    case (Inl x)
    with Pair assms(1) [of x d'] assms(3) show ?thesis by simp
  next
    case (Inr a)
    with Pair assms(2) [of a d'] show ?thesis by simp
  qed
qed

fun guards :: "store_error option list \<Rightarrow> ('a, 'd) tx_result \<Rightarrow> ('a, 'd) tx_result" where
  "guards [] k = k"
| "guards (None # cs) k = guards cs k"
| "guards (Some e # cs) k = Abort e"

lemma guards_Cons: "guards (c # cs) k = (case c of None \<Rightarrow> guards cs k | Some e \<Rightarrow> Abort e)"
  by (cases c) simp_all

lemma guards_ReturnTx [simp, check_simps]:
  "guards cs k = ReturnTx a \<longleftrightarrow> list_all (\<lambda>c. c = None) cs \<and> k = ReturnTx a"
  by (induction cs) (auto simp: guards_Cons split: option.splits)

lemma guards_Commit [simp, check_simps]:
  "guards cs k = Commit a d \<longleftrightarrow> list_all (\<lambda>c. c = None) cs \<and> k = Commit a d"
  by (induction cs) (auto simp: guards_Cons split: option.splits)

lemma guards_pass: "list_all (\<lambda>c. c = None) cs \<Longrightarrow> guards cs k = k"
  by (induction cs) auto

lemma with_tx_error: "with_tx flt body d = (Inl e, d') \<Longrightarrow> d' = d"
  by (auto simp: with_tx_def split: if_splits tx_result.splits)

lemma fault_commit: "f \<noteq> FaultBegin \<Longrightarrow> f \<noteq> FaultStatement \<Longrightarrow> f = FaultCommit"
  by (cases f) simp_all

lemma with_tx_ok:
  "with_tx flt body d = (Inr a, d') \<Longrightarrow>
   (body d = ReturnTx a \<and> d' = d) \<or> (body d = Commit a d' \<and> flt = None)"
  by (cases flt) (auto simp: with_tx_def split: if_splits tx_result.splits dest: fault_commit)

lemma with_tx_recover_error: "with_tx_recover flt body handler d = (Inl e, d') \<Longrightarrow> d' = d"
  by (auto simp: with_tx_recover_def split: if_splits tx_result.splits)

lemma with_tx_recover_ok:
  "with_tx_recover flt body handler d = (Inr a, d') \<Longrightarrow>
   (body d = ReturnTx a \<and> d' = d) \<or> (body d = Commit a d' \<and> flt = None) \<or>
   (\<exists>b d''. body d = Commit b d'' \<and> handler d = Inr a \<and> d' = d)"
  by (cases flt) (auto simp: with_tx_recover_def split: if_splits tx_result.splits dest: fault_commit)

lemma with_tx_no_fault:
  "with_tx None body d =
    (case body d of Abort e \<Rightarrow> (Inl e, d) | ReturnTx a \<Rightarrow> (Inr a, d) | Commit a d' \<Rightarrow> (Inr a, d'))"
  by (simp add: with_tx_def split: tx_result.splits)

text \<open>A failure of the driver at any point leaves the database as it was.\<close>

lemma with_tx_fault: "flt \<noteq> None \<Longrightarrow> snd (with_tx flt body d) = d"
  by (cases flt) (auto simp: with_tx_def split: tx_result.splits dest: fault_commit)

lemma with_tx_recover_fault: "flt \<noteq> None \<Longrightarrow> snd (with_tx_recover flt body handler d) = d"
  by (cases flt) (auto simp: with_tx_recover_def split: tx_result.splits dest: fault_commit)

text \<open>A record that continues under a row relation is found under the same key.\<close>

context keyed_table
begin

lemma find_continues:
  assumes "table_ok t'" "find_row pk k t = Some r" "\<exists>r' \<in> set t'. R r r'" "\<And>r'. R r r' \<Longrightarrow> pk r' = pk r"
  shows "\<exists>r'. find_row pk k t' = Some r' \<and> R r r'"
  using assms find_row_SomeD [OF assms(2)] find_row_eq [OF assms(1)] by metis

end

end
