(* ===== verification/Control_Identity.thy ===== *)
theory Control_Identity
  imports Sql_Tables
begin

text \<open>
  Validation of identifiers, digests, refs and paths, and canonical record identities:
  \<^verbatim>\<open>pkg/storage/v1/control_types.go\<close>, \<^verbatim>\<open>pkg/storage/v1/control_normalize.go\<close> and
  \<^verbatim>\<open>ValidateWorkspaceRelativeRoot\<close>, \<^verbatim>\<open>ValidateControlText\<close> of \<^verbatim>\<open>internal/store/control_types.go\<close>.

  The environment of a call supplies what the code takes from outside: the clock, the SHA-256
  function (hexadecimal), the JSON validator of the standard library, the canonical-form test of the
  UUID package, and a possible failure of the database driver.  Every theorem holds for every choice of them.
\<close>

record env =
  env_now :: gotime
  env_sha256 :: "string \<Rightarrow> string"
  env_json_valid :: "string \<Rightarrow> bool"
  env_uuid_valid :: "string \<Rightarrow> bool"
  env_fault :: "fault option"

section \<open>Identifiers, digests, refs\<close>

definition MaxControlIdentifierBytes :: nat where
  "MaxControlIdentifierBytes = 1024"

definition maxControlReasonBytes :: nat where
  "maxControlReasonBytes = 16 * 1024"

definition maxControlPayloadBytes :: nat where
  "maxControlPayloadBytes = 4 * 1024 * 1024"

definition maxControlTextBytes :: nat where
  "maxControlTextBytes = 4 * 1024 * 1024"

definition control_char :: "char \<Rightarrow> bool" where
  "control_char c \<longleftrightarrow> byte c < 0x20 \<or> byte c = 0x7F"

definition ValidateControlIdentifier :: "string \<Rightarrow> store_error option" where
  "ValidateControlIdentifier v = first_error
     [fail_if ErrValidation (v = []),
      fail_if ErrValidation (TrimSpace v \<noteq> v),
      fail_if ErrValidation (length v > MaxControlIdentifierBytes),
      fail_if ErrValidation (\<not> ValidString v),
      fail_if ErrValidation (list_ex control_char v)]"

definition sha256_prefix :: string where
  "sha256_prefix = ''sha256:''"

definition ValidateCanonicalDigest :: "string \<Rightarrow> store_error option" where
  "ValidateCanonicalDigest v =
     (let encoded = trim_prefix v sha256_prefix in first_error
     [fail_if ErrValidation (\<not> has_prefix v sha256_prefix \<or> length v \<noteq> length sha256_prefix + 64),
      fail_if ErrValidation (has_upper encoded),
      fail_if ErrValidation (\<not> hex_decodable encoded)])"

definition ValidateGitObjectID :: "string \<Rightarrow> store_error option" where
  "ValidateGitObjectID v = first_error
     [fail_if ErrValidation (length v \<noteq> 40 \<and> length v \<noteq> 64),
      fail_if ErrValidation (has_upper v),
      fail_if ErrValidation (\<not> hex_decodable v)]"

definition refs_heads :: string where
  "refs_heads = ''refs/heads/''"

definition ref_forbidden :: string where
  "ref_forbidden = [CHR '' '', CHR ''~'', CHR ''^'', CHR '':'', CHR ''?'', CHR ''*'', CHR ''['', CHR 0x5C]"

definition ValidateFullBranchRef :: "string \<Rightarrow> store_error option" where
  "ValidateFullBranchRef ref = first_error
     [ValidateControlIdentifier ref,
      fail_if ErrValidation (\<not> has_prefix ref refs_heads \<or> length ref = length refs_heads),
      fail_if ErrValidation (contains ref ''..'' \<or> contains ref [CHR ''@'', CHR 0x7B] \<or> contains_any ref ref_forbidden \<or>
        has_suffix ref ''.'' \<or> has_suffix ref ''/'' \<or> contains ref ''//'')]"

definition ValidateControlReason :: "string \<Rightarrow> store_error option" where
  "ValidateControlReason v = first_error
     [fail_if ErrValidation (length v > maxControlReasonBytes),
      fail_if ErrValidation (\<not> ValidString v)]"

definition ValidateControlText :: "string \<Rightarrow> store_error option" where
  "ValidateControlText v = first_error
     [fail_if ErrValidation (length v > maxControlTextBytes),
      fail_if ErrValidation (\<not> ValidString v)]"

definition ValidateControlPayload :: "env \<Rightarrow> string \<Rightarrow> store_error option" where
  "ValidateControlPayload e payload = first_error
     [fail_if ErrValidation (payload = []),
      fail_if ErrValidation (length payload > maxControlPayloadBytes),
      fail_if ErrValidation (\<not> env_json_valid e payload)]"

text \<open>The bounds as integer comparisons, for evaluation.\<close>

lemma identifier_code [code]:
  "ValidateControlIdentifier v = first_error
     [fail_if ErrValidation (v = []), fail_if ErrValidation (TrimSpace v \<noteq> v),
      fail_if ErrValidation (int (length v) > 1024), fail_if ErrValidation (\<not> ValidString v),
      fail_if ErrValidation (list_ex control_char v)]"
  by (simp add: ValidateControlIdentifier_def MaxControlIdentifierBytes_def)

lemma reason_code [code]:
  "ValidateControlReason v = first_error
     [fail_if ErrValidation (int (length v) > 16384), fail_if ErrValidation (\<not> ValidString v)]"
  by (simp add: ValidateControlReason_def maxControlReasonBytes_def)

lemma text_code [code]:
  "ValidateControlText v = first_error
     [fail_if ErrValidation (int (length v) > 4194304), fail_if ErrValidation (\<not> ValidString v)]"
  by (simp add: ValidateControlText_def maxControlTextBytes_def)

lemma payload_code [code]:
  "ValidateControlPayload e payload = first_error
     [fail_if ErrValidation (payload = []), fail_if ErrValidation (int (length payload) > 4194304),
      fail_if ErrValidation (\<not> env_json_valid e payload)]"
  by (simp add: ValidateControlPayload_def maxControlPayloadBytes_def)

text \<open>Each validator fails with the validation class only.\<close>

lemma validator_errors:
  "ValidateControlIdentifier v = Some x \<Longrightarrow> x = ErrValidation"
  "ValidateCanonicalDigest v = Some x \<Longrightarrow> x = ErrValidation"
  "ValidateGitObjectID v = Some x \<Longrightarrow> x = ErrValidation"
  "ValidateFullBranchRef v = Some x \<Longrightarrow> x = ErrValidation"
  "ValidateControlReason v = Some x \<Longrightarrow> x = ErrValidation"
proof -
  show ident: "ValidateControlIdentifier v = Some x \<Longrightarrow> x = ErrValidation" for v x
    by (auto simp: ValidateControlIdentifier_def dest!: first_error_in_set)
  show "ValidateCanonicalDigest v = Some x \<Longrightarrow> x = ErrValidation"
    by (auto simp: ValidateCanonicalDigest_def Let_def dest!: first_error_in_set)
  show "ValidateGitObjectID v = Some x \<Longrightarrow> x = ErrValidation"
    by (auto simp: ValidateGitObjectID_def dest!: first_error_in_set)
  show "ValidateFullBranchRef v = Some x \<Longrightarrow> x = ErrValidation"
    by (auto simp: ValidateFullBranchRef_def dest!: first_error_in_set dest: ident [OF sym])
  show "ValidateControlReason v = Some x \<Longrightarrow> x = ErrValidation"
    by (auto simp: ValidateControlReason_def dest!: first_error_in_set)
qed

lemma identifier_nonempty: "ValidateControlIdentifier v = None \<Longrightarrow> v \<noteq> []"
  by (simp add: ValidateControlIdentifier_def)

lemma identifier_trimmed: "ValidateControlIdentifier v = None \<Longrightarrow> TrimSpace v = v"
  by (simp add: ValidateControlIdentifier_def)

lemma git_object_nonempty: "ValidateGitObjectID v = None \<Longrightarrow> v \<noteq> []"
  by (auto simp: ValidateGitObjectID_def)

lemma digest_nonempty: "ValidateCanonicalDigest v = None \<Longrightarrow> v \<noteq> []"
  by (auto simp: ValidateCanonicalDigest_def Let_def)

lemma ref_identifier: "ValidateFullBranchRef r = None \<Longrightarrow> ValidateControlIdentifier r = None"
  by (simp add: ValidateFullBranchRef_def)

section \<open>Workspace-relative paths\<close>

fun split_slash :: "string \<Rightarrow> string list" where
  "split_slash [] = [[]]"
| "split_slash (c # s) =
     (if c = CHR ''/'' then [] # split_slash s
      else case split_slash s of [] \<Rightarrow> [[c]] | w # ws \<Rightarrow> (c # w) # ws)"

fun join_slash :: "string list \<Rightarrow> string" where
  "join_slash [] = []"
| "join_slash [w] = w"
| "join_slash (w # ws) = w @ CHR ''/'' # join_slash ws"

text \<open>
  \<open>path.Clean\<close>: the kept elements are collected in reverse; \<open>..\<close> removes the last kept element
  unless there is none to remove, in which case it is kept for a relative path and dropped for an
  absolute one.
\<close>

fun clean_elems :: "bool \<Rightarrow> string list \<Rightarrow> string list \<Rightarrow> string list" where
  "clean_elems rooted kept [] = rev kept"
| "clean_elems rooted kept (w # ws) =
     (if w = [] \<or> w = ''.'' then clean_elems rooted kept ws
      else if w = ''..'' then
        (case kept of
           [] \<Rightarrow> clean_elems rooted (if rooted then [] else [w]) ws
         | k # ks \<Rightarrow> if k = ''..'' then clean_elems rooted (w # kept) ws
                    else clean_elems rooted ks ws)
      else clean_elems rooted (w # kept) ws)"

definition path_is_abs :: "string \<Rightarrow> bool" where
  "path_is_abs p \<longleftrightarrow> has_prefix p ''/''"

definition path_clean :: "string \<Rightarrow> string" where
  "path_clean p =
     (let out = join_slash (clean_elems (path_is_abs p) [] (split_slash p));
          res = (if path_is_abs p then CHR ''/'' # out else out)
      in if res = [] then ''.'' else res)"

definition ValidateWorkspaceRelativeRoot :: "string \<Rightarrow> store_error option" where
  "ValidateWorkspaceRelativeRoot v =
     (if v = [] \<or> v = ''.'' then None
      else first_error
        [fail_if ErrValidation (v \<noteq> TrimSpace v \<or> length v > MaxControlIdentifierBytes \<or>
           path_is_abs v \<or> contains v [CHR 0x5C]),
         (let clean = path_clean v in
          fail_if ErrValidation (clean \<noteq> v \<or> clean = ''..'' \<or> has_prefix clean ''../''))])"

section \<open>Canonical identities\<close>

text \<open>\<open>writeCanonicalComponent\<close>: the decimal length, a colon, the bytes.\<close>

definition writeCanonicalComponent :: "string \<Rightarrow> string" where
  "writeCanonicalComponent v = format_nat (length v) @ '':'' @ v"

definition canonical_preimage :: "string list \<Rightarrow> string" where
  "canonical_preimage cs = concat (map writeCanonicalComponent cs)"

definition CanonicalControlID :: "env \<Rightarrow> string \<Rightarrow> string list \<Rightarrow> string" where
  "CanonicalControlID e kind components =
     kind @ '':sha256:'' @ env_sha256 e (canonical_preimage (kind # components))"

definition CanonicalBytesDigest :: "env \<Rightarrow> string \<Rightarrow> string" where
  "CanonicalBytesDigest e v = ''sha256:'' @ env_sha256 e v"

definition NormalizeControlTime :: "env \<Rightarrow> gotime \<Rightarrow> gotime" where
  "NormalizeControlTime e t = (if time_is_zero t then env_now e else t)"

definition NormalizeOptionalControlTime :: "gotime option \<Rightarrow> gotime option" where
  "NormalizeOptionalControlTime t = t"

section \<open>Controller epochs and fences\<close>

record ControllerEpochFence =
  cf_name :: string
  cf_epoch :: int
  cf_holder_id :: string

definition DefaultControllerEpochName :: string where
  "DefaultControllerEpochName = ''orka-controller''"

definition NormalizeControllerEpochName :: "string \<Rightarrow> store_error + string" where
  "NormalizeControllerEpochName nm =
     (let trimmed = TrimSpace nm; name = (if trimmed = [] then DefaultControllerEpochName else trimmed)
      in checks
        [ValidateControlIdentifier name,
         fail_if ErrValidation (name \<noteq> DefaultControllerEpochName)]
        (Inr name))"

definition NormalizeEpochFence :: "ControllerEpochFence \<Rightarrow> store_error + ControllerEpochFence" where
  "NormalizeEpochFence fence =
     (case NormalizeControllerEpochName (cf_name fence) of
        Inl e \<Rightarrow> Inl e
      | Inr name \<Rightarrow>
          (let fence' = fence\<lparr>cf_name := name, cf_holder_id := TrimSpace (cf_holder_id fence)\<rparr>
           in checks
             [ValidateControlIdentifier (cf_holder_id fence'),
              fail_if ErrValidation (cf_epoch fence' < 1)]
             (Inr fence')))"

lemma normalized_name: "NormalizeControllerEpochName nm = Inr name \<Longrightarrow> name = DefaultControllerEpochName"
  by (auto simp: NormalizeControllerEpochName_def Let_def)

lemma normalized_fence:
  assumes "NormalizeEpochFence fence = Inr f"
  shows "cf_name f = DefaultControllerEpochName" "cf_epoch f = cf_epoch fence"
    "cf_holder_id f = TrimSpace (cf_holder_id fence)" "1 \<le> cf_epoch f"
    "ValidateControlIdentifier (cf_holder_id f) = None"
  using assms
  by (auto simp: NormalizeEpochFence_def Let_def dest!: normalized_name split: sum.splits)

section \<open>Canonical identities are injective\<close>

lemma format_nat_digits: "c \<in> set (format_nat n) \<Longrightarrow> c \<noteq> CHR '':''"
proof (induction n rule: format_nat.induct)
  case (1 n)
  have digit: "dec_digit k \<noteq> CHR '':''" if "k < 10" for k
    using that by (auto dest: arg_cong [where f = "of_char :: char \<Rightarrow> nat"] simp: of_char_of)
  show ?case
  proof (cases "n < 10")
    case True
    with 1 digit show ?thesis by (auto simp: format_nat.simps [of n])
  next
    case False
    with 1 digit [of "n mod 10"] show ?thesis by (auto simp: format_nat.simps [of n])
  qed
qed

text \<open>The decimal value of a string of digits, which inverts \<open>format_nat\<close>.\<close>

definition parse_nat :: "string \<Rightarrow> nat" where
  "parse_nat s = foldl (\<lambda>n c. 10 * n + (of_char c - 48)) 0 s"

lemma parse_format_nat: "parse_nat (format_nat n) = n"
proof (induction n rule: format_nat.induct)
  case (1 n)
  have digit: "of_char (dec_digit k) = (48 + k :: nat)" if "k < 10" for k
    using that by (simp add: of_char_of)
  show ?case
  proof (cases "n < 10")
    case True
    with digit [of n] show ?thesis by (simp add: format_nat.simps [of n] parse_nat_def)
  next
    case False
    with 1 digit [of "n mod 10"] show ?thesis
      by (simp add: format_nat.simps [of n] parse_nat_def)
  qed
qed

lemma split_at_colon:
  assumes "a @ CHR '':'' # u = b @ CHR '':'' # v" "CHR '':'' \<notin> set a" "CHR '':'' \<notin> set b"
  shows "a = b \<and> u = v"
  using assms
proof (induction a arbitrary: b)
  case Nil
  then show ?case by (cases b) auto
next
  case (Cons x a)
  then show ?case by (cases b) auto
qed

lemma component_prefix:
  assumes "writeCanonicalComponent v @ r = writeCanonicalComponent w @ s"
  shows "v = w \<and> r = s"
proof -
  have "format_nat (length v) @ CHR '':'' # (v @ r) = format_nat (length w) @ CHR '':'' # (w @ s)"
    using assms by (simp add: writeCanonicalComponent_def)
  from split_at_colon [OF this] format_nat_digits
  have *: "format_nat (length v) = format_nat (length w)" "v @ r = w @ s" by blast+
  then have "length v = length w" by (metis parse_format_nat)
  with *(2) show ?thesis by simp
qed

lemma canonical_preimage_inject [simp]: "canonical_preimage cs = canonical_preimage cs' \<longleftrightarrow> cs = cs'"
proof
  show "canonical_preimage cs = canonical_preimage cs' \<Longrightarrow> cs = cs'"
  proof (induction cs arbitrary: cs')
    case Nil
    then show ?case by (cases cs') (auto simp: canonical_preimage_def writeCanonicalComponent_def)
  next
    case (Cons c cs)
    then obtain c' ds where cs': "cs' = c' # ds"
      by (cases cs') (auto simp: canonical_preimage_def writeCanonicalComponent_def)
    from Cons.prems have "writeCanonicalComponent c @ canonical_preimage cs =
        writeCanonicalComponent c' @ canonical_preimage ds"
      by (simp add: cs' canonical_preimage_def)
    from component_prefix [OF this] Cons.IH show ?case by (simp add: cs')
  qed
qed simp

text \<open>
  C38: two records have the same canonical identity exactly when they have the same kind and the same
  components: the length prefixes make the hashed preimage injective, so two different identities can
  only agree through a SHA-256 collision of these two preimages.
\<close>

theorem canonical_id_unique:
  assumes size: "\<forall>v. length (env_sha256 e v) = 64"
    and no_collision: "env_sha256 e (canonical_preimage (kind # cs)) = env_sha256 e (canonical_preimage (kind' # cs')) \<longrightarrow>
      canonical_preimage (kind # cs) = canonical_preimage (kind' # cs')"
  shows "CanonicalControlID e kind cs = CanonicalControlID e kind' cs' \<longleftrightarrow> kind = kind' \<and> cs = cs'"
proof
  assume eq: "CanonicalControlID e kind cs = CanonicalControlID e kind' cs'"
  then have "(kind @ '':sha256:'') @ env_sha256 e (canonical_preimage (kind # cs)) =
      (kind' @ '':sha256:'') @ env_sha256 e (canonical_preimage (kind' # cs'))"
    by (simp add: CanonicalControlID_def)
  then have "env_sha256 e (canonical_preimage (kind # cs)) = env_sha256 e (canonical_preimage (kind' # cs'))"
    by (subst (asm) append_eq_append_conv) (use size in auto)
  with no_collision show "kind = kind' \<and> cs = cs'" by simp
qed simp

section \<open>Accepted workspace roots stay inside the workspace\<close>

lemma split_slash_nonempty [simp]: "split_slash s \<noteq> []"
  by (induction s) (auto split: list.splits)

lemma split_slash_word: "CHR ''/'' \<notin> set w \<Longrightarrow> split_slash w = [w]"
  by (induction w) auto

lemma split_slash_append: "CHR ''/'' \<notin> set w \<Longrightarrow> split_slash (w @ CHR ''/'' # s) = w # split_slash s"
  by (induction w) auto

lemma split_join: "ws \<noteq> [] \<Longrightarrow> \<forall>w \<in> set ws. CHR ''/'' \<notin> set w \<Longrightarrow> split_slash (join_slash ws) = ws"
  by (induction ws rule: join_slash.induct) (auto simp: split_slash_word split_slash_append)

lemma split_slash_no_slash: "w \<in> set (split_slash s) \<Longrightarrow> CHR ''/'' \<notin> set w"
  by (induction s arbitrary: w) (auto split: if_splits list.splits)

lemma clean_elems_subset: "set (clean_elems r kept ws) \<subseteq> set kept \<union> set ws"
  by (induction r kept ws rule: clean_elems.induct) (auto split: list.splits if_splits)

text \<open>The kept elements, in reverse: other elements on top of a stack of \<open>..\<close>.\<close>

fun parents_below :: "string list \<Rightarrow> bool" where
  "parents_below [] \<longleftrightarrow> True"
| "parents_below (k # ks) \<longleftrightarrow> (if k = ''..'' then list_all (\<lambda>x. x = ''..'') ks else parents_below ks)"

lemma clean_elems_parents: "parents_below kept \<Longrightarrow> parents_below (rev (clean_elems r kept ws))"
proof (induction ws arbitrary: kept)
  case Nil
  then show ?case by simp
next
  case (Cons w ws)
  show ?case
  proof (cases "w = [] \<or> w = ''.'' \<or> w \<noteq> ''..''")
    case True
    with Cons.IH [OF Cons.prems] Cons.IH [of "w # kept"] Cons.prems show ?thesis by auto
  next
    case False
    have "list_all (\<lambda>x. x = ''..'') ks" if "kept = ''..'' # ks" for ks using Cons.prems that by simp
    with False Cons.IH [of "[]"] Cons.IH [of "[w]"] Cons.IH [of "w # kept"] Cons.IH [of "tl kept"] Cons.prems
    show ?thesis by (cases kept) auto
  qed
qed

lemma parents_below_last: "parents_below ks \<Longrightarrow> ''..'' \<in> set ks \<Longrightarrow> last ks = ''..''"
proof (induction ks)
  case (Cons k ks)
  show ?case
  proof (cases "k = ''..''")
    case True
    with Cons.prems show ?thesis by (cases ks) (auto simp: list_all_iff)
  next
    case False
    with Cons show ?thesis by (cases "ks = []") simp_all
  qed
qed simp

lemma clean_first_parent:
  assumes "''..'' \<in> set (clean_elems r [] ws)"
  shows "hd (clean_elems r [] ws) = ''..''"
  using parents_below_last [OF clean_elems_parents [of "[]" r ws]] assms by (simp add: last_rev)

lemma clean_elems_proper: "w \<in> set (clean_elems r [] ws) \<Longrightarrow> w \<noteq> [] \<and> w \<noteq> ''.''"
proof -
  have "\<forall>w \<in> set kept. w \<noteq> [] \<and> w \<noteq> ''.'' \<Longrightarrow> w \<in> set (clean_elems r kept ws) \<Longrightarrow> w \<noteq> [] \<and> w \<noteq> ''.''" for kept w
    by (induction r kept ws rule: clean_elems.induct) (auto split: list.splits if_splits)
  from this [of "[]"] show "w \<in> set (clean_elems r [] ws) \<Longrightarrow> w \<noteq> [] \<and> w \<noteq> ''.''" by simp
qed

lemma join_slash_hd: "ws \<noteq> [] \<Longrightarrow> join_slash ws = hd ws \<or> (\<exists>s. join_slash ws = hd ws @ CHR ''/'' # s)"
  by (cases ws rule: join_slash.cases) auto

text \<open>
  A workspace-relative root that passes validation, unless it names the workspace itself, is a
  relative path without backslashes none of whose elements is empty, \<open>.\<close> or \<open>..\<close>; joined to the
  workspace directory it cannot leave it.
\<close>

theorem workspace_root_contained:
  assumes "ValidateWorkspaceRelativeRoot v = None" "v \<noteq> []" "v \<noteq> ''.''"
  shows "\<not> path_is_abs v \<and> CHR 0x5C \<notin> set v \<and> ''..'' \<notin> set (split_slash v) \<and>
    [] \<notin> set (split_slash v) \<and> ''.'' \<notin> set (split_slash v)"
proof -
  have rel: "\<not> path_is_abs v" "\<not> contains v [CHR 0x5C]" "path_clean v = v" "v \<noteq> ''..''" "\<not> has_prefix v ''../''"
    using assms by (auto simp: ValidateWorkspaceRelativeRoot_def Let_def)
  let ?ws = "clean_elems False [] (split_slash v)"
  have v: "v = join_slash ?ws" using rel(1,3) assms by (auto simp: path_clean_def Let_def split: if_splits)
  then have ne: "?ws \<noteq> []" using assms(2) by auto
  have "\<forall>w \<in> set ?ws. CHR ''/'' \<notin> set w" using clean_elems_subset split_slash_no_slash by fastforce
  from split_join [OF ne this] v have split: "split_slash v = ?ws" by simp
  have "''..'' \<notin> set ?ws"
  proof
    assume "''..'' \<in> set ?ws"
    with clean_first_parent have "hd ?ws = ''..''" by simp
    with join_slash_hd [OF ne] have "v = ''..'' \<or> (\<exists>s. v = ''..'' @ CHR ''/'' # s)" unfolding v [symmetric] by simp
    with rel(4,5) show False by (auto simp: has_prefix_def)
  qed
  moreover have "[] \<notin> set ?ws" "''.'' \<notin> set ?ws" using clean_elems_proper by blast+
  moreover have "c \<in> set s \<Longrightarrow> contains s [c]" for c s by (induction s) (auto simp: has_prefix_def)
  ultimately show ?thesis using rel(1,2) arg_cong [OF split, of set] by blast
qed

end
