(* ===== verification/Control_Types.thy ===== *)
theory Control_Types
  imports Control_Identity
begin

text \<open>
  The data of the durable control plane (\<^verbatim>\<open>internal/store/control_types.go\<close>,
  \<^verbatim>\<open>pkg/storage/v1/control_types.go\<close>): the state machines of prompt attempts, publications,
  external effects and outbox projections with their transition tables, and one record per struct.

  A Go string type with constants becomes a datatype with one constructor per constant and a
  constructor \<open>_other\<close> for every other string, the empty one included, because a request can carry
  any string.
\<close>

section \<open>Prompt execution\<close>

datatype PromptExecutionState =
    PromptExecutionQueued
  | PromptExecutionReserved
  | PromptExecutionSessionStarting
  | PromptExecutionPlanned
  | PromptExecutionSubmitting
  | PromptExecutionSubmittedUnknown
  | PromptExecutionAccepted
  | PromptExecutionRunning
  | PromptExecutionSettling
  | PromptExecutionSucceeded
  | PromptExecutionFailed
  | PromptExecutionCancelled
  | PromptExecutionOutcomeUnknown
  | PromptExecution_other string

fun promptExecutionTransitions :: "PromptExecutionState \<Rightarrow> PromptExecutionState list" where
  "promptExecutionTransitions PromptExecutionQueued =
     [PromptExecutionReserved, PromptExecutionFailed, PromptExecutionCancelled]"
| "promptExecutionTransitions PromptExecutionReserved =
     [PromptExecutionSessionStarting, PromptExecutionFailed, PromptExecutionCancelled]"
| "promptExecutionTransitions PromptExecutionSessionStarting =
     [PromptExecutionPlanned, PromptExecutionFailed, PromptExecutionCancelled]"
| "promptExecutionTransitions PromptExecutionPlanned =
     [PromptExecutionSubmitting, PromptExecutionFailed, PromptExecutionCancelled]"
| "promptExecutionTransitions PromptExecutionSubmitting =
     [PromptExecutionAccepted, PromptExecutionSubmittedUnknown, PromptExecutionFailed,
      PromptExecutionCancelled]"
| "promptExecutionTransitions PromptExecutionSubmittedUnknown = [PromptExecutionOutcomeUnknown]"
| "promptExecutionTransitions PromptExecutionAccepted =
     [PromptExecutionRunning, PromptExecutionSettling, PromptExecutionFailed,
      PromptExecutionCancelled, PromptExecutionOutcomeUnknown]"
| "promptExecutionTransitions PromptExecutionRunning =
     [PromptExecutionSettling, PromptExecutionFailed, PromptExecutionCancelled,
      PromptExecutionOutcomeUnknown]"
| "promptExecutionTransitions PromptExecutionSettling =
     [PromptExecutionSucceeded, PromptExecutionFailed, PromptExecutionCancelled,
      PromptExecutionOutcomeUnknown]"
| "promptExecutionTransitions _ = []"

fun IsKnownPromptExecutionState :: "PromptExecutionState \<Rightarrow> bool" where
  "IsKnownPromptExecutionState (PromptExecution_other _) \<longleftrightarrow> False"
| "IsKnownPromptExecutionState _ \<longleftrightarrow> True"

definition IsTerminalPromptExecutionState :: "PromptExecutionState \<Rightarrow> bool" where
  "IsTerminalPromptExecutionState s \<longleftrightarrow>
     s \<in> {PromptExecutionSucceeded, PromptExecutionFailed, PromptExecutionCancelled,
          PromptExecutionOutcomeUnknown}"

definition ValidatePromptExecutionTransition ::
  "PromptExecutionState \<Rightarrow> PromptExecutionState \<Rightarrow> store_error option" where
  "ValidatePromptExecutionTransition src dst = first_error
     [fail_if ErrValidation (\<not> IsKnownPromptExecutionState src),
      fail_if ErrValidation (\<not> IsKnownPromptExecutionState dst),
      fail_if ErrValidation (dst \<notin> set (promptExecutionTransitions src))]"

section \<open>Prompt delivery\<close>

datatype PromptDeliveryState =
    PromptDeliveryNotRequested
  | PromptDeliveryValidating
  | PromptDeliveryPreparing
  | PromptDeliveryPrepared
  | PromptDeliveryPublishing
  | PromptDeliveryVerifying
  | PromptDeliveryVerifiedExact
  | PromptDeliveryDeliveredSuperseded
  | PromptDeliveryReadValidated
  | PromptDeliveryNoChange
  | PromptDeliveryCancelledBeforePublish
  | PromptDeliveryReadOnlyWorkspaceModified
  | PromptDeliveryConflict
  | PromptDeliveryCredentialBlocked
  | PromptDeliveryPublicationOutcomeUnknown
  | PromptDelivery_other string

fun promptDeliveryTransitions :: "PromptDeliveryState \<Rightarrow> PromptDeliveryState list" where
  "promptDeliveryTransitions PromptDeliveryNotRequested = [PromptDeliveryValidating]"
| "promptDeliveryTransitions PromptDeliveryValidating =
     [PromptDeliveryPreparing, PromptDeliveryReadValidated, PromptDeliveryNoChange,
      PromptDeliveryReadOnlyWorkspaceModified, PromptDeliveryCredentialBlocked,
      PromptDeliveryConflict, PromptDeliveryPublicationOutcomeUnknown]"
| "promptDeliveryTransitions PromptDeliveryPreparing =
     [PromptDeliveryPrepared, PromptDeliveryCredentialBlocked, PromptDeliveryConflict,
      PromptDeliveryPublicationOutcomeUnknown]"
| "promptDeliveryTransitions PromptDeliveryPrepared =
     [PromptDeliveryPublishing, PromptDeliveryCancelledBeforePublish]"
| "promptDeliveryTransitions PromptDeliveryPublishing =
     [PromptDeliveryVerifying, PromptDeliveryPublicationOutcomeUnknown]"
| "promptDeliveryTransitions PromptDeliveryVerifying =
     [PromptDeliveryVerifiedExact, PromptDeliveryDeliveredSuperseded, PromptDeliveryConflict,
      PromptDeliveryPublicationOutcomeUnknown]"
| "promptDeliveryTransitions _ = []"

fun IsKnownPromptDeliveryState :: "PromptDeliveryState \<Rightarrow> bool" where
  "IsKnownPromptDeliveryState (PromptDelivery_other _) \<longleftrightarrow> False"
| "IsKnownPromptDeliveryState _ \<longleftrightarrow> True"

definition IsTerminalPromptDeliveryState :: "PromptDeliveryState \<Rightarrow> bool" where
  "IsTerminalPromptDeliveryState s \<longleftrightarrow>
     s \<in> {PromptDeliveryNotRequested, PromptDeliveryVerifiedExact, PromptDeliveryDeliveredSuperseded,
          PromptDeliveryReadValidated, PromptDeliveryNoChange, PromptDeliveryCancelledBeforePublish,
          PromptDeliveryReadOnlyWorkspaceModified, PromptDeliveryConflict,
          PromptDeliveryCredentialBlocked, PromptDeliveryPublicationOutcomeUnknown}"

definition ValidatePromptDeliveryTransition ::
  "PromptDeliveryState \<Rightarrow> PromptDeliveryState \<Rightarrow> store_error option" where
  "ValidatePromptDeliveryTransition src dst = first_error
     [fail_if ErrValidation (\<not> IsKnownPromptDeliveryState src),
      fail_if ErrValidation (\<not> IsKnownPromptDeliveryState dst),
      fail_if ErrValidation (dst \<notin> set (promptDeliveryTransitions src))]"

section \<open>Publications\<close>

datatype PublicationState =
    PublicationPreparing
  | PublicationPrepared
  | PublicationPublishing
  | PublicationVerifying
  | PublicationVerifiedExact
  | PublicationDeliveredSuperseded
  | PublicationCancelledBeforePublish
  | PublicationDeliveryConflict
  | PublicationCredentialBlocked
  | PublicationPreparationFailed
  | PublicationOutcomeUnknown
  | Publication_other string

fun publicationTransitions :: "PublicationState \<Rightarrow> PublicationState list" where
  "publicationTransitions PublicationPreparing =
     [PublicationPrepared, PublicationCredentialBlocked, PublicationPreparationFailed,
      PublicationDeliveryConflict, PublicationOutcomeUnknown]"
| "publicationTransitions PublicationPrepared =
     [PublicationPublishing, PublicationCancelledBeforePublish]"
| "publicationTransitions PublicationPublishing =
     [PublicationVerifying, PublicationOutcomeUnknown]"
| "publicationTransitions PublicationVerifying =
     [PublicationVerifiedExact, PublicationDeliveredSuperseded, PublicationDeliveryConflict,
      PublicationOutcomeUnknown]"
| "publicationTransitions _ = []"

fun IsKnownPublicationState :: "PublicationState \<Rightarrow> bool" where
  "IsKnownPublicationState (Publication_other _) \<longleftrightarrow> False"
| "IsKnownPublicationState _ \<longleftrightarrow> True"

definition IsTerminalPublicationState :: "PublicationState \<Rightarrow> bool" where
  "IsTerminalPublicationState s \<longleftrightarrow>
     s \<in> {PublicationVerifiedExact, PublicationDeliveredSuperseded, PublicationCancelledBeforePublish,
          PublicationDeliveryConflict, PublicationCredentialBlocked, PublicationPreparationFailed,
          PublicationOutcomeUnknown}"

definition ValidatePublicationTransition ::
  "PublicationState \<Rightarrow> PublicationState \<Rightarrow> store_error option" where
  "ValidatePublicationTransition src dst = first_error
     [fail_if ErrValidation (\<not> IsKnownPublicationState src),
      fail_if ErrValidation (\<not> IsKnownPublicationState dst),
      fail_if ErrValidation (dst \<notin> set (publicationTransitions src))]"

section \<open>External effects, outbox, branch claims, sessions\<close>

datatype ExternalEffectState =
    ExternalEffectPending
  | ExternalEffectInFlight
  | ExternalEffectSucceeded
  | ExternalEffectFailed
  | ExternalEffectOutcomeUnknown
  | ExternalEffect_other string

fun IsKnownExternalEffectState :: "ExternalEffectState \<Rightarrow> bool" where
  "IsKnownExternalEffectState (ExternalEffect_other _) \<longleftrightarrow> False"
| "IsKnownExternalEffectState _ \<longleftrightarrow> True"

definition ValidExternalEffectTransition :: "ExternalEffectState \<Rightarrow> ExternalEffectState \<Rightarrow> bool" where
  "ValidExternalEffectTransition src dst \<longleftrightarrow>
     (case src of
        ExternalEffectPending \<Rightarrow>
          dst \<in> {ExternalEffectInFlight, ExternalEffectSucceeded, ExternalEffectFailed,
                 ExternalEffectOutcomeUnknown}
      | ExternalEffectInFlight \<Rightarrow>
          dst \<in> {ExternalEffectInFlight, ExternalEffectSucceeded, ExternalEffectFailed,
                 ExternalEffectOutcomeUnknown}
      | _ \<Rightarrow> False)"

datatype OutboxProjectionState =
    OutboxProjectionPending
  | OutboxProjectionDelivering
  | OutboxProjectionDelivered
  | OutboxProjectionDeadLetter
  | OutboxProjection_other string

datatype BranchClaimAvailability =
    BranchClaimAvailable
  | BranchClaimReconciliationBlocked
  | BranchClaimAvailability_other string

fun IsKnownBranchClaimAvailability :: "BranchClaimAvailability \<Rightarrow> bool" where
  "IsKnownBranchClaimAvailability (BranchClaimAvailability_other _) \<longleftrightarrow> False"
| "IsKnownBranchClaimAvailability _ \<longleftrightarrow> True"

datatype BranchClaimOwnerKind =
    BranchClaimOwnerTask
  | BranchClaimOwnerSession
  | BranchClaimOwner_other string

datatype SessionAvailability =
    SessionAvailable
  | SessionReconciliationBlocked
  | SessionAvailability_other string

datatype SessionTurnState = SessionTurnOpen | SessionTurnFinalized | SessionTurn_other string

datatype SessionTurnTerminalKind =
    SessionTurnAssistantResult
  | SessionTurnOutcomeMarker
  | SessionTurnTerminal_other string

datatype PromptAttemptReclamationMode =
    PromptAttemptReclamationProjected
  | PromptAttemptReclamationUnbound
  | PromptAttemptReclamationNoAttempt
  | PromptAttemptReclamation_other string

section \<open>Records\<close>

record ControllerEpoch =
  ce_name :: string
  ce_epoch :: int
  ce_holder_id :: string
  ce_request_digest :: string
  ce_version :: int
  ce_acquired_at :: gotime
  ce_updated_at :: gotime

record ControllerEpochCAS =
  cas_name :: string
  cas_expected_version :: int
  cas_expected_epoch :: int
  cas_new_epoch :: int
  cas_holder_id :: string
  cas_request_digest :: string
  cas_updated_at :: gotime

record PromptAttemptKey =
  pak_namespace :: string
  pak_task_uid :: string
  pak_attempt :: int
  pak_prompt_id :: string

record PromptCredentialBinding =
  pcb_role :: string
  pcb_namespace :: string
  pcb_secret_name :: string
  pcb_secret_key :: string
  pcb_secret_uid :: string
  pcb_resource_version :: string

record PromptAttempt =
  pa_id :: string
  pa_key :: PromptAttemptKey
  pa_session_uid :: string
  pa_session_lease_generation :: int
  pa_runtime_instance_id :: string
  pa_request_digest :: string
  pa_binding_digest :: string
  pa_snapshot_digest :: string
  pa_credential_bindings :: "PromptCredentialBinding list"
  pa_execution_state :: PromptExecutionState
  pa_delivery_state :: PromptDeliveryState
  pa_terminal_reason :: string
  pa_outcome_marker :: string
  pa_controller_epoch_name :: string
  pa_controller_epoch :: int
  pa_last_operation_id :: string
  pa_last_operation_digest :: string
  pa_version :: int
  pa_created_at :: gotime
  pa_updated_at :: gotime

record PromptAttemptExecutionTransition =
  xt_id :: string
  xt_fence :: ControllerEpochFence
  xt_expected_version :: int
  xt_expected_state :: PromptExecutionState
  xt_new_state :: PromptExecutionState
  xt_operation_id :: string
  xt_operation_digest :: string
  xt_runtime_instance_id :: string
  xt_session_uid :: string
  xt_session_lease_generation :: int
  xt_terminal_reason :: string
  xt_outcome_marker :: string
  xt_updated_at :: gotime

record PromptAttemptPreSubmissionRecovery =
  pr_id :: string
  pr_fence :: ControllerEpochFence
  pr_expected_version :: int
  pr_expected_state :: PromptExecutionState
  pr_proven_not_accepted :: bool
  pr_preserve_bindings :: bool
  pr_operation_id :: string
  pr_operation_digest :: string
  pr_recovered_at :: gotime

record PromptAttemptDeliveryTransition =
  dt_id :: string
  dt_fence :: ControllerEpochFence
  dt_expected_version :: int
  dt_expected_state :: PromptDeliveryState
  dt_new_state :: PromptDeliveryState
  dt_operation_id :: string
  dt_operation_digest :: string
  dt_terminal_reason :: string
  dt_updated_at :: gotime

record ReclaimPromptAttemptsRequest =
  rp_namespace :: string
  rp_task_name :: string
  rp_task_uid :: string
  rp_mode :: PromptAttemptReclamationMode
  rp_continuity_session :: bool
  rp_final_continuity_session :: bool
  rp_final_prompt_attempt_id :: string
  rp_terminal_projection_id :: string
  rp_related_external_effect_aggregate_ids :: "string list"
  rp_fence :: ControllerEpochFence

record promptAttemptReclamationMarker =
  rm_namespace :: string
  rm_task_name :: string
  rm_task_uid :: string
  rm_mode :: PromptAttemptReclamationMode
  rm_continuity_session :: bool
  rm_final_continuity_session :: bool
  rm_final_prompt_attempt_id :: string
  rm_terminal_projection_id :: string
  rm_final_session_turn_id :: string
  rm_terminal_projection_aggregate_kind :: string
  rm_terminal_projection_aggregate_id :: string
  rm_candidate_ids :: "string list"
  rm_requested_external_effect_aggregate_ids :: "string list"
  rm_related_external_effect_aggregate_ids :: "string list"
  rm_controller_epoch_name :: string
  rm_controller_epoch :: int
  rm_created_at :: gotime

record RemoteRefState =
  rr_absent :: bool
  rr_sha :: string

record VerifiedBranchBaseline =
  vb_repository_id :: string
  vb_ref :: string
  vb_sha :: string

record BranchClaim =
  bc_id :: string
  bc_repository_id :: string
  bc_ref :: string
  bc_owner_kind :: BranchClaimOwnerKind
  bc_owner_uid :: string
  bc_generation :: int
  bc_last_verified :: RemoteRefState
  bc_availability :: BranchClaimAvailability
  bc_blocked_reason :: string
  bc_related_publication_id :: string
  bc_request_digest :: string
  bc_controller_epoch_name :: string
  bc_controller_epoch :: int
  bc_last_operation_id :: string
  bc_last_operation_digest :: string
  bc_version :: int
  bc_created_at :: gotime
  bc_updated_at :: gotime

record BranchClaimCAS =
  bx_id :: string
  bx_fence :: ControllerEpochFence
  bx_expected_version :: int
  bx_expected_generation :: int
  bx_new_generation :: int
  bx_expected_last_verified :: RemoteRefState
  bx_new_last_verified :: RemoteRefState
  bx_expected_availability :: BranchClaimAvailability
  bx_new_availability :: BranchClaimAvailability
  bx_blocked_reason :: string
  bx_related_publication_id :: string
  bx_operation_id :: string
  bx_operation_digest :: string
  bx_updated_at :: gotime

record ReclaimBranchClaimRequest =
  br_id :: string
  br_fence :: ControllerEpochFence
  br_expected_version :: int
  br_expected_generation :: int
  br_expected_repository_id :: string
  br_expected_ref :: string
  br_expected_owner_kind :: BranchClaimOwnerKind
  br_expected_owner_uid :: string
  br_expected_last_verified :: RemoteRefState
  br_expected_availability :: BranchClaimAvailability
  br_expected_request_digest :: string

record PullRequestIntent =
  pri_base_repository_id :: string
  pri_base_ref :: string
  pri_head_repository_id :: string
  pri_head_ref :: string
  pri_publication_generation :: int
  pri_expected_head_sha :: string

record PreparedPublicationReceipt =
  ppr_operation_id :: string
  ppr_request_digest :: string
  ppr_tree_sha :: string
  ppr_commit_sha :: string
  ppr_manifest_digest :: string
  ppr_relative_root :: string
  ppr_bundle_artifact_id :: string
  ppr_bundle_digest :: string
  ppr_bundle_size_bytes :: int
  ppr_bundle_media_type :: string
  ppr_bundle_ref :: string
  ppr_prepared_at :: gotime

record PublishOperationReceipt =
  por_operation_id :: string
  por_request_digest :: string
  por_target_repository_id :: string
  por_target_ref :: string
  por_remote_before :: RemoteRefState
  por_expected_commit_sha :: string
  por_acknowledgement_unknown :: bool
  por_published_at :: gotime

record PublicationVerificationReceipt =
  pvr_operation_id :: string
  pvr_request_digest :: string
  pvr_outcome :: PublicationState
  pvr_expected_commit_sha :: string
  pvr_observed_remote :: RemoteRefState
  pvr_descendant_proof_digest :: string
  pvr_verified_at :: gotime

record PullRequestOperationReceipt =
  prr_operation_id :: string
  prr_request_digest :: string
  prr_intent_key :: string
  prr_forge_id :: string
  prr_url :: string
  prr_state :: string
  prr_head_sha :: string
  prr_reconciled_at :: gotime

record PublicationReceipt =
  prc_publication_id :: string
  prc_generation :: int
  prc_state :: PublicationState
  prc_prepared :: "PreparedPublicationReceipt option"
  prc_publish :: "PublishOperationReceipt option"
  prc_verification :: "PublicationVerificationReceipt option"
  prc_pull_request :: "PullRequestOperationReceipt option"

record Publication =
  pb_id :: string
  pb_namespace :: string
  pb_generation :: int
  pb_task_uid :: string
  pb_attempt :: int
  pb_prompt_id :: string
  pb_session_uid :: string
  pb_branch_claim_id :: string
  pb_branch_claim_generation :: int
  pb_source_repository_id :: string
  pb_source_ref :: string
  pb_source_baseline_sha :: string
  pb_target_repository_id :: string
  pb_target_ref :: string
  pb_baseline :: RemoteRefState
  pb_artifact_id :: string
  pb_artifact_digest :: string
  pb_artifact_size_bytes :: int
  pb_artifact_media_type :: string
  pb_publication_credential_ref :: string
  pb_commit_identity :: string
  pb_commit_message :: string
  pb_commit_timestamp :: gotime
  pb_pr_intent :: "PullRequestIntent option"
  pb_request_digest :: string
  pb_state :: PublicationState
  pb_prepared_receipt :: "PreparedPublicationReceipt option"
  pb_publish_receipt :: "PublishOperationReceipt option"
  pb_verification_receipt :: "PublicationVerificationReceipt option"
  pb_pull_request_receipt :: "PullRequestOperationReceipt option"
  pb_terminal_reason :: string
  pb_controller_epoch_name :: string
  pb_controller_epoch :: int
  pb_last_operation_id :: string
  pb_last_operation_digest :: string
  pb_version :: int
  pb_created_at :: gotime
  pb_updated_at :: gotime

record PublicationTransition =
  pt_id :: string
  pt_fence :: ControllerEpochFence
  pt_expected_version :: int
  pt_expected_generation :: int
  pt_expected_state :: PublicationState
  pt_new_state :: PublicationState
  pt_operation_id :: string
  pt_operation_digest :: string
  pt_prepared_receipt :: "PreparedPublicationReceipt option"
  pt_publish_receipt :: "PublishOperationReceipt option"
  pt_verification_receipt :: "PublicationVerificationReceipt option"
  pt_terminal_reason :: string
  pt_updated_at :: gotime

record SetPublicationPRIntentRequest =
  pi_id :: string
  pi_fence :: ControllerEpochFence
  pi_expected_version :: int
  pi_expected_generation :: int
  pi_expected_state :: PublicationState
  pi_intent :: PullRequestIntent
  pi_operation_id :: string
  pi_operation_digest :: string
  pi_updated_at :: gotime

record SetPublicationPRReceiptRequest =
  pq_id :: string
  pq_fence :: ControllerEpochFence
  pq_expected_version :: int
  pq_expected_generation :: int
  pq_expected_state :: PublicationState
  pq_receipt :: PullRequestOperationReceipt
  pq_operation_id :: string
  pq_operation_digest :: string
  pq_updated_at :: gotime

record ExternalEffectIdentity =
  ei_kind :: string
  ei_namespace :: string
  ei_aggregate_id :: string
  ei_operation_id :: string

record ExternalEffect =
  ee_id :: string
  ee_identity :: ExternalEffectIdentity
  ee_request_digest :: string
  ee_state :: ExternalEffectState
  ee_response_digest :: string
  ee_response :: string
  ee_lease_owner :: string
  ee_lease_expires_at :: "gotime option"
  ee_attempts :: int
  ee_controller_epoch_name :: string
  ee_controller_epoch :: int
  ee_version :: int
  ee_created_at :: gotime
  ee_updated_at :: gotime

record ReserveExternalEffectRequest =
  er_identity :: ExternalEffectIdentity
  er_request_digest :: string
  er_fence :: ControllerEpochFence
  er_created_at :: gotime
  er_approval_task_uid :: string

record ExternalEffectTransition =
  et_id :: string
  et_fence :: ControllerEpochFence
  et_expected_version :: int
  et_expected_state :: ExternalEffectState
  et_new_state :: ExternalEffectState
  et_request_digest :: string
  et_response_digest :: string
  et_response :: string
  et_expected_lease_owner :: string
  et_lease_owner :: string
  et_lease_expires_at :: "gotime option"
  et_updated_at :: gotime

record OutboxProjection =
  ob_id :: string
  ob_aggregate_kind :: string
  ob_aggregate_id :: string
  ob_projection_kind :: string
  ob_payload_digest :: string
  ob_payload :: string
  ob_state :: OutboxProjectionState
  ob_attempts :: int
  ob_initial_available_at :: gotime
  ob_available_at :: gotime
  ob_lease_owner :: string
  ob_lease_expires_at :: "gotime option"
  ob_delivery_digest :: string
  ob_last_error :: string
  ob_last_operation_id :: string
  ob_last_operation_digest :: string
  ob_controller_epoch_name :: string
  ob_controller_epoch :: int
  ob_version :: int
  ob_created_at :: gotime
  ob_updated_at :: gotime
  ob_delivered_at :: "gotime option"

record ClaimOutboxProjectionsRequest =
  oc_fence :: ControllerEpochFence
  oc_worker_id :: string
  oc_limit :: int
  oc_lease_duration :: int
  oc_now :: gotime

record CompleteOutboxProjectionRequest =
  od_id :: string
  od_fence :: ControllerEpochFence
  od_expected_version :: int
  od_lease_owner :: string
  od_operation_id :: string
  od_operation_digest :: string
  od_new_state :: OutboxProjectionState
  od_delivery_digest :: string
  od_last_error :: string
  od_available_at :: gotime
  od_updated_at :: gotime

record SessionMutationLease =
  sl_generation :: int
  sl_task_uid :: string
  sl_attempt :: int
  sl_prompt_id :: string
  sl_request_digest :: string
  sl_acquired_at :: gotime
  sl_expires_at :: "gotime option"

record SessionControl =
  sc_namespace :: string
  sc_session_name :: string
  sc_session_uid :: string
  sc_request_digest :: string
  sc_availability :: SessionAvailability
  sc_runtime_session_generation :: int
  sc_lease_generation :: int
  sc_lease :: "SessionMutationLease option"
  sc_blocked_reason :: string
  sc_related_prompt_attempt_id :: string
  sc_related_publication_id :: string
  sc_verified_baseline :: "VerifiedBranchBaseline option"
  sc_controller_epoch_name :: string
  sc_controller_epoch :: int
  sc_last_operation_id :: string
  sc_last_operation_digest :: string
  sc_version :: int
  sc_created_at :: gotime
  sc_updated_at :: gotime

record SessionTurnKey =
  tk_session_uid :: string
  tk_lease_generation :: int
  tk_task_uid :: string
  tk_attempt :: int
  tk_prompt_id :: string

record SessionTurn =
  st_id :: string
  st_key :: SessionTurnKey
  st_prompt_attempt_id :: string
  st_request_digest :: string
  st_user_prompt :: string
  st_state :: SessionTurnState
  st_terminal_kind :: SessionTurnTerminalKind
  st_terminal_content :: string
  st_finalization_digest :: string
  st_native_session_digest :: string
  st_publication_id :: string
  st_publication_receipt :: "PublicationReceipt option"
  st_projection_id :: string
  st_projection_kind :: string
  st_projection_digest :: string
  st_projection_available_at :: gotime
  st_controller_epoch_name :: string
  st_controller_epoch :: int
  st_version :: int
  st_created_at :: gotime
  st_finalized_at :: "gotime option"
  st_updated_at :: gotime

section \<open>The execution table makes progress\<close>

text \<open>A rank that every transition increases: attempts move from the queue to a terminal state.\<close>

fun execution_rank :: "PromptExecutionState \<Rightarrow> nat" where
  "execution_rank PromptExecutionQueued = 0"
| "execution_rank PromptExecutionReserved = 1"
| "execution_rank PromptExecutionSessionStarting = 2"
| "execution_rank PromptExecutionPlanned = 3"
| "execution_rank PromptExecutionSubmitting = 4"
| "execution_rank PromptExecutionSubmittedUnknown = 5"
| "execution_rank PromptExecutionAccepted = 5"
| "execution_rank PromptExecutionRunning = 6"
| "execution_rank PromptExecutionSettling = 7"
| "execution_rank _ = 8"

fun execution_path :: "PromptExecutionState list \<Rightarrow> bool" where
  "execution_path (s # s' # ss) \<longleftrightarrow> ValidatePromptExecutionTransition s s' = None \<and> execution_path (s' # ss)"
| "execution_path _ \<longleftrightarrow> True"

lemma transition_ranks: "ValidatePromptExecutionTransition s s' = None \<Longrightarrow> execution_rank s < execution_rank s'"
  by (cases s) (auto simp: ValidatePromptExecutionTransition_def)

lemma execution_rank_bound: "execution_rank s \<le> 8"
  by (cases s) auto

lemma path_rank: "execution_path (s # ss) \<Longrightarrow> execution_rank s + length ss \<le> 8"
proof (induction ss arbitrary: s)
  case Nil
  show ?case by (simp add: execution_rank_bound)
next
  case (Cons s' ss)
  then have "execution_rank s < execution_rank s'" "execution_rank s' + length ss \<le> 8"
    by (auto dest: transition_ranks)
  then show ?case by simp
qed

lemma known_not_stuck:
  "IsKnownPromptExecutionState s \<Longrightarrow> \<not> IsTerminalPromptExecutionState s \<Longrightarrow>
   \<exists>s' \<in> {PromptExecutionFailed, PromptExecutionOutcomeUnknown}. ValidatePromptExecutionTransition s s' = None"
  by (cases s) (simp_all add: ValidatePromptExecutionTransition_def IsTerminalPromptExecutionState_def)

lemma terminal_stuck: "IsTerminalPromptExecutionState s \<Longrightarrow> ValidatePromptExecutionTransition s s' \<noteq> None"
  by (auto simp: ValidatePromptExecutionTransition_def IsTerminalPromptExecutionState_def)

text \<open>
  C39: a sequence of execution transitions is finite, with at most eight of them; no transition leaves
  a terminal state, and every other known state can be ended in one transition, as failed or with an
  unknown outcome.
\<close>

theorem execution_terminates:
  assumes "IsKnownPromptExecutionState s" "execution_path (s # ss)"
  shows "length ss \<le> 8 \<and>
    (if IsTerminalPromptExecutionState s then ss = []
     else ValidatePromptExecutionTransition s PromptExecutionFailed = None \<or>
          ValidatePromptExecutionTransition s PromptExecutionOutcomeUnknown = None)"
proof (cases "IsTerminalPromptExecutionState s")
  case True
  with assms(2) terminal_stuck [OF True] path_rank [OF assms(2)] show ?thesis by (cases ss) auto
next
  case False
  with known_not_stuck [OF assms(1) False] path_rank [OF assms(2)] show ?thesis by auto
qed

end
