(* ===== verification/Control_DB.thy ===== *)
theory Control_DB
  imports Control_Types
begin

text \<open>
  The database of the control store (\<^verbatim>\<open>internal/store/sqlite/control_schema.go\<close>): one list of rows
  per table, the \<^verbatim>\<open>CHECK\<close> constraints as predicates on rows, the primary keys and \<^verbatim>\<open>UNIQUE\<close>
  constraints as clash relations.  A row is the struct it is scanned into, except where the columns
  differ from it: \<open>controller_epochs\<close> has columns for the previous epoch, \<open>session_controls\<close> keeps
  the lease and the verified baseline in flat columns.  Of the tables of the session store the
  model has the sessions, their transcripts, their native state and the records of their deletion.

  Every mutation of the store runs in one transaction that first compares the caller's fence with
  the stored controller epoch (\<open>fenced_tx\<close>).  The locale \<open>fenced_operation\<close> states what this gives:
  a failed call changes nothing, and a call with a stale fence fails.
\<close>

section \<open>Rows that differ from their structs\<close>

record ControllerEpochRow = ControllerEpoch +
  cer_previous_epoch :: "int option"
  cer_previous_holder_id :: "string option"
  cer_advanced_at :: "gotime option"

record SessionControlRow =
  scr_namespace :: string
  scr_session_name :: string
  scr_session_uid :: string
  scr_request_digest :: string
  scr_availability :: SessionAvailability
  scr_runtime_session_generation :: int
  scr_lease_generation :: int
  scr_lease_task_uid :: string
  scr_lease_attempt :: int
  scr_lease_prompt_id :: string
  scr_lease_request_digest :: string
  scr_lease_acquired_at :: "gotime option"
  scr_lease_expires_at :: "gotime option"
  scr_blocked_reason :: string
  scr_related_prompt_attempt_id :: string
  scr_related_publication_id :: string
  scr_verified_repository_id :: string
  scr_verified_ref :: string
  scr_verified_sha :: string
  scr_controller_epoch_name :: string
  scr_controller_epoch :: int
  scr_last_operation_id :: string
  scr_last_operation_digest :: string
  scr_version :: int
  scr_created_at :: gotime
  scr_updated_at :: gotime

record SessionTurnRow = SessionTurn +
  str_namespace :: string
  str_session_name :: string

text \<open>A row of \<^verbatim>\<open>sessions\<close> (\<^verbatim>\<open>sqlite.go\<close>).\<close>

record SessionRow =
  ss_namespace :: string
  ss_name :: string
  ss_session_type :: string
  ss_owner_type :: string
  ss_owner_ref :: string
  ss_active_task :: string
  ss_active_task_uid :: string
  ss_active_task_expires_at :: "gotime option"
  ss_chat_turn_id :: string
  ss_chat_turn_expires_at :: "gotime option"
  ss_control_session_uid :: string
  ss_message_count :: int
  ss_input_tokens :: int
  ss_output_tokens :: int
  ss_cancelled :: bool
  ss_created_at :: gotime
  ss_updated_at :: gotime

text \<open>
  A row of \<^verbatim>\<open>session_messages\<close>; the autoincremented \<^verbatim>\<open>id\<close> is the position in the table.
\<close>

record SessionMessageRow =
  sm_namespace :: string
  sm_session_name :: string
  sm_message_id :: string
  sm_sort_order :: int
  sm_role :: string
  sm_content :: string
  sm_name :: "string option"
  sm_input :: "string option"
  sm_tool_calls :: "string option"
  sm_tool_call_id :: "string option"
  sm_source_type :: string
  sm_source_ref :: string
  sm_metadata_json :: string
  sm_created_at :: gotime

text \<open>
  The deletion of a session (\<^verbatim>\<open>internal/store/session_cleanup.go\<close>): the durable plan, whose row in
  \<^verbatim>\<open>session_cleanup_intents\<close> holds the plan itself, and the tombstone of a completed deletion.
\<close>

record GatewaySessionCleanupProof =
  gp_gateway_uid :: string
  gp_binding_uid :: string
  gp_created_at :: gotime
  gp_terminal_cutoff :: gotime

record SessionCleanupBranchClaim =
  cb_id :: string
  cb_object_uid :: string
  cb_expected_version :: int
  cb_expected_generation :: int
  cb_expected_repository_id :: string
  cb_expected_ref :: string
  cb_expected_owner_uid :: string
  cb_expected_last_verified :: RemoteRefState
  cb_expected_availability :: BranchClaimAvailability
  cb_expected_blocked_reason :: string
  cb_expected_publication_id :: string
  cb_expected_request_digest :: string

record SessionCleanupIntent =
  ci_namespace :: string
  ci_session_name :: string
  ci_session_uid :: string
  ci_control_object_uid :: string
  ci_control_request_digest :: string
  ci_expected_control_version :: int
  ci_expected_lease_generation :: int
  ci_expected_control_last_operation_id :: string
  ci_expected_control_last_digest :: string
  ci_expected_verified_baseline :: "VerifiedBranchBaseline option"
  ci_lease_name :: string
  ci_lease_object_uid :: string
  ci_branch_claims :: "SessionCleanupBranchClaim list"
  ci_operation_id :: string
  ci_operation_digest :: string
  ci_prepared_at :: gotime
  ci_gateway :: "GatewaySessionCleanupProof option"

record SessionCleanupCompletion =
  cc_namespace :: string
  cc_session_name :: string
  cc_session_uid :: string
  cc_operation_id :: string
  cc_operation_digest :: string
  cc_completed_at :: gotime

definition cleanup_intent_pk :: "SessionCleanupIntent \<Rightarrow> string \<times> string" where
  "cleanup_intent_pk i = (ci_namespace i, ci_session_name i)"

definition cleanup_completion_pk :: "SessionCleanupCompletion \<Rightarrow> string \<times> string" where
  "cleanup_completion_pk c = (cc_namespace c, cc_session_name c)"

text \<open>Native session state, sealed by the storage client (\<^verbatim>\<open>pkg/storage/v1/protected.go\<close>).\<close>

record SealedNativeSession =
  ns_namespace :: string
  ns_session_name :: string
  ns_session_uid :: string
  ns_record_digest :: string
  ns_data_digest :: string
  ns_source_operation_id :: string
  ns_runtime_generation :: int
  ns_message_count :: int
  ns_through_message_id :: string
  ns_nonce :: string
  ns_ciphertext :: string

record NativeSessionImportReceipt =
  ir_namespace :: string
  ir_session_name :: string
  ir_operation_id :: string
  ir_request_digest :: string
  ir_data_digest :: string
  ir_provider_session_id :: string
  ir_created_at :: gotime

text \<open>The receipt column of a capture holds an empty object, that of an import its receipt.\<close>

record NativeOperationRow =
  no_namespace :: string
  no_session_name :: string
  no_operation_id :: string
  no_request_digest :: string
  no_kind :: string
  no_receipt :: "NativeSessionImportReceipt option"

record NativeFinalizationRow =
  nf_turn_id :: string
  nf_namespace :: string
  nf_session_name :: string
  nf_capture_digest :: string

text \<open>The single row of \<^verbatim>\<open>store_dataset\<close>: \<open>datasetRecord\<close> and \<open>datasetBinding\<close>.\<close>

record DatasetRow =
  ds_id :: string
  ds_origin :: string
  ds_complete :: bool
  ds_installation :: string
  ds_record_uid :: string
  ds_generation :: int
  ds_key_fingerprint :: string
  ds_state :: string
  ds_bound_at_nanos :: int

record db =
  controller_epochs :: "ControllerEpochRow list"
  prompt_attempts :: "PromptAttempt list"
  prompt_attempt_reclamations :: "promptAttemptReclamationMarker list"
  sessions :: "SessionRow list"
  session_messages :: "SessionMessageRow list"
  session_cleanup_intents :: "SessionCleanupIntent list"
  session_cleanup_completions :: "SessionCleanupCompletion list"
  native_session_deleted_names :: "(string \<times> string) list"
  native_session_snapshots :: "SealedNativeSession list"
  native_session_operations :: "NativeOperationRow list"
  native_session_finalizations :: "NativeFinalizationRow list"
  session_controls :: "SessionControlRow list"
  session_turns :: "SessionTurnRow list"
  branch_claims :: "BranchClaim list"
  publications :: "Publication list"
  external_effects :: "ExternalEffect list"
  outbox_projections :: "OutboxProjection list"
  store_dataset :: DatasetRow

section \<open>Schema\<close>

subsection \<open>CHECK constraints\<close>

definition controller_epochs_check :: "ControllerEpochRow \<Rightarrow> bool" where
  "controller_epochs_check r \<longleftrightarrow> 0 < ce_epoch r \<and> 0 < ce_version r"

definition prompt_attempts_check :: "PromptAttempt \<Rightarrow> bool" where
  "prompt_attempts_check r \<longleftrightarrow>
     0 < pak_attempt (pa_key r) \<and> 0 \<le> pa_session_lease_generation r \<and>
     IsKnownPromptExecutionState (pa_execution_state r) \<and>
     IsKnownPromptDeliveryState (pa_delivery_state r) \<and>
     0 < pa_controller_epoch r \<and> 0 < pa_version r"

definition reclamations_check :: "promptAttemptReclamationMarker \<Rightarrow> bool" where
  "reclamations_check r \<longleftrightarrow>
     rm_mode r \<in> {PromptAttemptReclamationProjected, PromptAttemptReclamationUnbound,
                  PromptAttemptReclamationNoAttempt} \<and> 0 < rm_controller_epoch r"

definition session_controls_check :: "SessionControlRow \<Rightarrow> bool" where
  "session_controls_check r \<longleftrightarrow>
     scr_availability r \<in> {SessionAvailable, SessionReconciliationBlocked} \<and>
     0 \<le> scr_runtime_session_generation r \<and> 0 \<le> scr_lease_generation r \<and> 0 \<le> scr_lease_attempt r \<and>
     0 < scr_controller_epoch r \<and> 0 < scr_version r \<and>
     (scr_lease_task_uid r = [] \<and> scr_lease_attempt r = 0 \<and> scr_lease_prompt_id r = [] \<and>
        scr_lease_request_digest r = [] \<and> scr_lease_acquired_at r = None \<and> scr_lease_expires_at r = None
      \<or> scr_lease_task_uid r \<noteq> [] \<and> 0 < scr_lease_attempt r \<and> scr_lease_prompt_id r \<noteq> [] \<and>
        scr_lease_request_digest r \<noteq> [] \<and> scr_lease_acquired_at r \<noteq> None) \<and>
     (scr_availability r = SessionAvailable \<and> scr_blocked_reason r = []
      \<or> scr_availability r = SessionReconciliationBlocked) \<and>
     (scr_verified_repository_id r = [] \<and> scr_verified_ref r = [] \<and> scr_verified_sha r = []
      \<or> scr_verified_repository_id r \<noteq> [] \<and> scr_verified_ref r \<noteq> [] \<and> scr_verified_sha r \<noteq> [])"

definition session_turns_check :: "SessionTurnRow \<Rightarrow> bool" where
  "session_turns_check r \<longleftrightarrow>
     0 < tk_lease_generation (st_key r) \<and> 0 < tk_attempt (st_key r) \<and>
     st_state r \<in> {SessionTurnOpen, SessionTurnFinalized} \<and>
     st_terminal_kind r \<in> {SessionTurnTerminal_other [], SessionTurnAssistantResult,
                            SessionTurnOutcomeMarker} \<and>
     0 < st_controller_epoch r \<and> 0 < st_version r \<and>
     (st_state r = SessionTurnOpen \<and> st_terminal_kind r = SessionTurnTerminal_other [] \<and>
        st_finalization_digest r = [] \<and> st_finalized_at r = None
      \<or> st_state r = SessionTurnFinalized \<and> st_terminal_kind r \<noteq> SessionTurnTerminal_other [] \<and>
        st_finalization_digest r \<noteq> [] \<and> st_finalized_at r \<noteq> None)"

definition branch_claims_check :: "BranchClaim \<Rightarrow> bool" where
  "branch_claims_check r \<longleftrightarrow>
     bc_owner_kind r \<in> {BranchClaimOwnerTask, BranchClaimOwnerSession} \<and>
     0 < bc_generation r \<and>
     bc_availability r \<in> {BranchClaimAvailable, BranchClaimReconciliationBlocked} \<and>
     0 < bc_controller_epoch r \<and> 0 < bc_version r \<and>
     (rr_absent (bc_last_verified r) \<and> rr_sha (bc_last_verified r) = []
      \<or> \<not> rr_absent (bc_last_verified r) \<and> rr_sha (bc_last_verified r) \<noteq> []) \<and>
     (bc_availability r = BranchClaimAvailable \<and> bc_blocked_reason r = []
      \<or> bc_availability r = BranchClaimReconciliationBlocked)"

definition publications_check :: "Publication \<Rightarrow> bool" where
  "publications_check r \<longleftrightarrow>
     0 < pb_generation r \<and> 0 < pb_attempt r \<and> 0 < pb_branch_claim_generation r \<and>
     0 < pb_artifact_size_bytes r \<and> IsKnownPublicationState (pb_state r) \<and>
     0 < pb_controller_epoch r \<and> 0 < pb_version r \<and>
     (rr_absent (pb_baseline r) \<and> rr_sha (pb_baseline r) = []
      \<or> \<not> rr_absent (pb_baseline r) \<and> rr_sha (pb_baseline r) \<noteq> [])"

definition external_effects_check :: "ExternalEffect \<Rightarrow> bool" where
  "external_effects_check r \<longleftrightarrow>
     IsKnownExternalEffectState (ee_state r) \<and> 0 \<le> ee_attempts r \<and>
     0 < ee_controller_epoch r \<and> 0 < ee_version r \<and>
     (ee_lease_owner r = [] \<and> ee_lease_expires_at r = None
      \<or> ee_lease_owner r \<noteq> [] \<and> ee_lease_expires_at r \<noteq> None)"

definition outbox_projections_check :: "OutboxProjection \<Rightarrow> bool" where
  "outbox_projections_check r \<longleftrightarrow>
     ob_state r \<in> {OutboxProjectionPending, OutboxProjectionDelivering, OutboxProjectionDelivered,
                   OutboxProjectionDeadLetter} \<and>
     0 \<le> ob_attempts r \<and> 0 < ob_controller_epoch r \<and> 0 < ob_version r \<and>
     (ob_state r = OutboxProjectionDelivering \<and> ob_lease_owner r \<noteq> [] \<and> ob_lease_expires_at r \<noteq> None
      \<or> ob_state r \<noteq> OutboxProjectionDelivering \<and> ob_lease_owner r = [] \<and>
        ob_lease_expires_at r = None) \<and>
     (ob_state r = OutboxProjectionDelivered \<and> ob_delivered_at r \<noteq> None
      \<or> ob_state r \<noteq> OutboxProjectionDelivered \<and> ob_delivered_at r = None)"

subsection \<open>Primary keys and UNIQUE constraints\<close>

definition epoch_clash :: "ControllerEpochRow \<Rightarrow> ControllerEpochRow \<Rightarrow> bool" where
  "epoch_clash a b \<longleftrightarrow> ce_name a = ce_name b"

definition attempt_clash :: "PromptAttempt \<Rightarrow> PromptAttempt \<Rightarrow> bool" where
  "attempt_clash a b \<longleftrightarrow> pa_id a = pa_id b \<or> pa_key a = pa_key b"

definition reclamation_pk :: "promptAttemptReclamationMarker \<Rightarrow> string \<times> string" where
  "reclamation_pk r = (rm_namespace r, rm_task_uid r)"

definition reclamation_clash ::
  "promptAttemptReclamationMarker \<Rightarrow> promptAttemptReclamationMarker \<Rightarrow> bool" where
  "reclamation_clash a b \<longleftrightarrow> reclamation_pk a = reclamation_pk b"

definition session_control_pk :: "SessionControlRow \<Rightarrow> string \<times> string" where
  "session_control_pk r = (scr_namespace r, scr_session_name r)"

definition session_control_clash :: "SessionControlRow \<Rightarrow> SessionControlRow \<Rightarrow> bool" where
  "session_control_clash a b \<longleftrightarrow>
     session_control_pk a = session_control_pk b \<or> scr_session_uid a = scr_session_uid b"

definition session_turn_clash :: "SessionTurnRow \<Rightarrow> SessionTurnRow \<Rightarrow> bool" where
  "session_turn_clash a b \<longleftrightarrow> st_id a = st_id b \<or> st_key a = st_key b"

definition session_pk :: "SessionRow \<Rightarrow> string \<times> string" where
  "session_pk r = (ss_namespace r, ss_name r)"

definition branch_claim_clash :: "BranchClaim \<Rightarrow> BranchClaim \<Rightarrow> bool" where
  "branch_claim_clash a b \<longleftrightarrow>
     bc_id a = bc_id b \<or> bc_repository_id a = bc_repository_id b \<and> bc_ref a = bc_ref b"

definition publication_clash :: "Publication \<Rightarrow> Publication \<Rightarrow> bool" where
  "publication_clash a b \<longleftrightarrow> pb_id a = pb_id b"

definition external_effect_clash :: "ExternalEffect \<Rightarrow> ExternalEffect \<Rightarrow> bool" where
  "external_effect_clash a b \<longleftrightarrow> ee_id a = ee_id b \<or> ee_identity a = ee_identity b"

definition outbox_clash :: "OutboxProjection \<Rightarrow> OutboxProjection \<Rightarrow> bool" where
  "outbox_clash a b \<longleftrightarrow> ob_id a = ob_id b"

interpretation epochs: keyed_table ce_name controller_epochs_check epoch_clash
  by unfold_locales (auto simp: epoch_clash_def)

interpretation attempts: keyed_table pa_id prompt_attempts_check attempt_clash
  by unfold_locales (auto simp: attempt_clash_def)

interpretation reclamations: keyed_table reclamation_pk reclamations_check reclamation_clash
  by unfold_locales (auto simp: reclamation_clash_def)

interpretation controls: keyed_table session_control_pk session_controls_check session_control_clash
  by unfold_locales (auto simp: session_control_clash_def)

interpretation turns: keyed_table st_id session_turns_check session_turn_clash
  by unfold_locales (auto simp: session_turn_clash_def)

interpretation sessions: keyed_table session_pk "\<lambda>_. True" "\<lambda>a b. session_pk a = session_pk b"
  by unfold_locales auto

interpretation claims: keyed_table bc_id branch_claims_check branch_claim_clash
  by unfold_locales (auto simp: branch_claim_clash_def)

interpretation pubs: keyed_table pb_id publications_check publication_clash
  by unfold_locales (auto simp: publication_clash_def)

interpretation effects: keyed_table ee_id external_effects_check external_effect_clash
  by unfold_locales (auto simp: external_effect_clash_def)

interpretation outbox: keyed_table ob_id outbox_projections_check outbox_clash
  by unfold_locales (auto simp: outbox_clash_def)

text \<open>
  A database that satisfies its schema, the foreign keys from publications to branch claims and
  from session controls to sessions included.
\<close>

definition db_ok :: "db \<Rightarrow> bool" where
  "db_ok d \<longleftrightarrow>
     epochs.table_ok (controller_epochs d) \<and> attempts.table_ok (prompt_attempts d) \<and>
     reclamations.table_ok (prompt_attempt_reclamations d) \<and> sessions.table_ok (sessions d) \<and>
     controls.table_ok (session_controls d) \<and> turns.table_ok (session_turns d) \<and>
     claims.table_ok (branch_claims d) \<and> pubs.table_ok (publications d) \<and>
     effects.table_ok (external_effects d) \<and> outbox.table_ok (outbox_projections d) \<and>
     (\<forall>p \<in> set (publications d). find_row bc_id (pb_branch_claim_id p) (branch_claims d) \<noteq> None) \<and>
     (\<forall>c \<in> set (session_controls d). find_row session_pk (session_control_pk c) (sessions d) \<noteq> None)"

definition new_dataset :: "string \<Rightarrow> DatasetRow" where
  "new_dataset dsid = \<lparr>ds_id = dsid, ds_origin = ''new'', ds_complete = False, ds_installation = [],
     ds_record_uid = [], ds_generation = 0, ds_key_fingerprint = [], ds_state = [],
     ds_bound_at_nanos = 0\<rparr>"

definition empty_db :: "string \<Rightarrow> db" where
  "empty_db dsid = \<lparr>controller_epochs = [], prompt_attempts = [], prompt_attempt_reclamations = [],
     sessions = [], session_messages = [], session_cleanup_intents = [], session_cleanup_completions = [],
     native_session_deleted_names = [], native_session_snapshots = [], native_session_operations = [],
     native_session_finalizations = [], session_controls = [], session_turns = [], branch_claims = [],
     publications = [], external_effects = [], outbox_projections = [],
     store_dataset = new_dataset dsid\<rparr>"

lemma db_ok_empty: "db_ok (empty_db dsid)"
  by (simp add: db_ok_def empty_db_def epochs.table_ok_Nil attempts.table_ok_Nil
      reclamations.table_ok_Nil sessions.table_ok_Nil controls.table_ok_Nil turns.table_ok_Nil
      claims.table_ok_Nil pubs.table_ok_Nil effects.table_ok_Nil outbox.table_ok_Nil)

text \<open>Replacing one table by another that satisfies its schema.\<close>

lemma db_ok_tables:
  assumes "db_ok d"
  shows "epochs.table_ok (controller_epochs d)" "attempts.table_ok (prompt_attempts d)"
    "reclamations.table_ok (prompt_attempt_reclamations d)" "sessions.table_ok (sessions d)"
    "controls.table_ok (session_controls d)" "turns.table_ok (session_turns d)"
    "claims.table_ok (branch_claims d)" "pubs.table_ok (publications d)"
    "effects.table_ok (external_effects d)" "outbox.table_ok (outbox_projections d)"
  using assms by (auto simp: db_ok_def)

lemma db_ok_set_table:
  assumes "db_ok d"
  shows "epochs.table_ok ep \<Longrightarrow> db_ok (d\<lparr>controller_epochs := ep\<rparr>)"
    "attempts.table_ok pa \<Longrightarrow> db_ok (d\<lparr>prompt_attempts := pa\<rparr>)"
    "reclamations.table_ok rm \<Longrightarrow> db_ok (d\<lparr>prompt_attempt_reclamations := rm\<rparr>)"
    "turns.table_ok st \<Longrightarrow> db_ok (d\<lparr>session_turns := st\<rparr>)"
    "effects.table_ok ee \<Longrightarrow> db_ok (d\<lparr>external_effects := ee\<rparr>)"
    "outbox.table_ok ob \<Longrightarrow> db_ok (d\<lparr>outbox_projections := ob\<rparr>)"
    "db_ok (d\<lparr>store_dataset := ds\<rparr>)"
  using assms by (simp_all add: db_ok_def)

lemma db_ok_set_claims:
  assumes "db_ok d" "claims.table_ok t"
    and "\<And>p. p \<in> set (publications d) \<Longrightarrow> find_row bc_id (pb_branch_claim_id p) t \<noteq> None"
  shows "db_ok (d\<lparr>branch_claims := t\<rparr>)"
  using assms by (simp add: db_ok_def)

lemma db_ok_foreign_key:
  "db_ok d \<Longrightarrow> p \<in> set (publications d) \<Longrightarrow> find_row bc_id (pb_branch_claim_id p) (branch_claims d) \<noteq> None"
  by (simp add: db_ok_def)

lemma db_ok_set_pubs:
  assumes "db_ok d" "pubs.table_ok t"
    and "\<And>p. p \<in> set t \<Longrightarrow> find_row bc_id (pb_branch_claim_id p) (branch_claims d) \<noteq> None"
  shows "db_ok (d\<lparr>publications := t\<rparr>)"
  using assms by (simp add: db_ok_def)

section \<open>The epoch fence\<close>

text \<open>\<^verbatim>\<open>requireControllerEpoch\<close> of \<^verbatim>\<open>internal/store/sqlite/control_helpers.go\<close>.\<close>

definition requireControllerEpoch :: "db \<Rightarrow> ControllerEpochFence \<Rightarrow> store_error option" where
  "requireControllerEpoch d fence =
     (case NormalizeEpochFence fence of
        Inl e \<Rightarrow> Some e
      | Inr f \<Rightarrow>
          (case find_row ce_name (cf_name f) (controller_epochs d) of
             None \<Rightarrow> Some ErrFenced
           | Some r \<Rightarrow> fail_if ErrFenced (ce_epoch r \<noteq> cf_epoch f \<or> ce_holder_id r \<noteq> cf_holder_id f)))"

text \<open>The epoch and holder the database stores.\<close>

definition current_epoch :: "db \<Rightarrow> (int \<times> string) option" where
  "current_epoch d =
     map_option (\<lambda>r. (ce_epoch r, ce_holder_id r))
       (find_row ce_name DefaultControllerEpochName (controller_epochs d))"

definition fence_epoch :: "ControllerEpochFence \<Rightarrow> int \<times> string" where
  "fence_epoch f = (cf_epoch f, TrimSpace (cf_holder_id f))"

lemma normalize_fence_idem: "NormalizeEpochFence fence = Inr f \<Longrightarrow> NormalizeEpochFence f = Inr f"
proof -
  assume n: "NormalizeEpochFence fence = Inr f"
  note f = normalized_fence [OF n]
  have "ValidateControlIdentifier DefaultControllerEpochName = None"
    using n by (auto simp: NormalizeEpochFence_def NormalizeControllerEpochName_def Let_def
        split: sum.splits)
  moreover have "TrimSpace DefaultControllerEpochName = DefaultControllerEpochName"
    using calculation by (rule identifier_trimmed)
  moreover have "DefaultControllerEpochName \<noteq> []" by (simp add: DefaultControllerEpochName_def)
  ultimately have "NormalizeControllerEpochName (cf_name f) = Inr (cf_name f)"
    using f(1) by (simp add: NormalizeControllerEpochName_def Let_def)
  then show ?thesis
    using f(4,5) identifier_trimmed [OF f(5)] by (simp add: NormalizeEpochFence_def Let_def)
qed

lemma requireControllerEpoch_None:
  "requireControllerEpoch d fence = None \<Longrightarrow>
   (\<exists>f. NormalizeEpochFence fence = Inr f) \<and> current_epoch d = Some (fence_epoch fence)"
proof -
  assume req: "requireControllerEpoch d fence = None"
  then obtain f r where n: "NormalizeEpochFence fence = Inr f"
    and r: "find_row ce_name (cf_name f) (controller_epochs d) = Some r"
      "ce_epoch r = cf_epoch f" "ce_holder_id r = cf_holder_id f"
    by (auto simp: requireControllerEpoch_def split: sum.splits option.splits)
  then show ?thesis
    using normalized_fence [OF n] by (simp add: current_epoch_def fence_epoch_def)
qed

lemma requireControllerEpoch_normalized:
  "NormalizeEpochFence fence = Inr f \<Longrightarrow> requireControllerEpoch d f = requireControllerEpoch d fence"
  using normalize_fence_idem [of fence f] by (simp add: requireControllerEpoch_def)

section \<open>Statements inside a fenced transaction\<close>

text \<open>
  \<open>fenced_tx\<close>: begin, compare the fence, run the body.  \<open>fetch\<close>: a row read by its primary key, a
  missing row being \<^verbatim>\<open>ErrNotFound\<close>.  \<open>update_one\<close>: an \<^verbatim>\<open>UPDATE\<close> followed by
  \<^verbatim>\<open>rowsAffectedExactlyOne\<close>.
\<close>

definition fenced_tx ::
  "env \<Rightarrow> ControllerEpochFence \<Rightarrow> (db \<Rightarrow> ('a, db) tx_result) \<Rightarrow> db \<Rightarrow> (store_error + 'a) \<times> db" where
  "fenced_tx e fence body =
     with_tx (env_fault e) (\<lambda>d. guards [requireControllerEpoch d fence] (body d))"

definition fetch ::
  "('r \<Rightarrow> 'k) \<Rightarrow> 'k \<Rightarrow> 'r list \<Rightarrow> ('r \<Rightarrow> ('a, 'd) tx_result) \<Rightarrow> ('a, 'd) tx_result" where
  "fetch pk k t f = (case find_row pk k t of None \<Rightarrow> Abort ErrNotFound | Some r \<Rightarrow> f r)"

definition update_one ::
  "('r \<Rightarrow> bool) \<Rightarrow> ('r \<Rightarrow> bool) \<Rightarrow> ('r \<Rightarrow> 'r) \<Rightarrow> 'r list \<Rightarrow> ('r list \<Rightarrow> ('a, 'd) tx_result) \<Rightarrow>
   ('a, 'd) tx_result" where
  "update_one chk W f t k =
     (case sql_update chk W f t of
        None \<Rightarrow> Abort ErrDriver
      | Some (t', n) \<Rightarrow> if n \<noteq> 1 then Abort ErrConflict else k t')"

definition validated ::
  "store_error + 'q \<Rightarrow> ('q \<Rightarrow> 'd \<Rightarrow> (store_error + 'a) \<times> 'd) \<Rightarrow> 'd \<Rightarrow> (store_error + 'a) \<times> 'd" where
  "validated n k d = (case n of Inl x \<Rightarrow> (Inl x, d) | Inr q \<Rightarrow> k q d)"

lemma fenced_tx_ok:
  "fenced_tx e fence body d = (Inr a, d') \<Longrightarrow>
   requireControllerEpoch d fence = None \<and>
   (body d = ReturnTx a \<and> d' = d \<or> body d = Commit a d' \<and> env_fault e = None)"
  unfolding fenced_tx_def by (drule with_tx_ok) auto

lemma fenced_tx_error: "fenced_tx e fence body d = (Inl x, d') \<Longrightarrow> d' = d"
  unfolding fenced_tx_def by (rule with_tx_error)

lemma fetch_ReturnTx [simp, check_simps]:
  "fetch pk k t f = ReturnTx a \<longleftrightarrow> (\<exists>r. find_row pk k t = Some r \<and> f r = ReturnTx a)"
  by (auto simp: fetch_def split: option.splits)

lemma fetch_Commit [simp, check_simps]:
  "fetch pk k t f = Commit a d \<longleftrightarrow> (\<exists>r. find_row pk k t = Some r \<and> f r = Commit a d)"
  by (auto simp: fetch_def split: option.splits)

lemma fetch_CommitE:
  assumes "fetch pk k t f = Commit a d"
  obtains r where "find_row pk k t = Some r" "f r = Commit a d"
  using assms by auto

lemma update_one_ReturnTx [simp, check_simps]:
  "update_one chk W f t k = ReturnTx a \<longleftrightarrow>
   (\<exists>t'. sql_update chk W f t = Some (t', 1) \<and> k t' = ReturnTx a)"
  by (auto simp: update_one_def split: option.splits if_splits)

lemma update_one_Commit [simp, check_simps]:
  "update_one chk W f t k = Commit a d \<longleftrightarrow>
   (\<exists>t'. sql_update chk W f t = Some (t', 1) \<and> k t' = Commit a d)"
  by (auto simp: update_one_def split: option.splits if_splits)

lemma validated_error: 
  "validated n k d = (Inl x, d') \<Longrightarrow> (\<And>q x d'. k q d = (Inl x, d') \<Longrightarrow> d' = d) \<Longrightarrow> d' = d"
  by (auto simp: validated_def split: sum.splits)

lemma validated_ok [simp, check_simps]:
  "validated n k d = (Inr a, d') \<longleftrightarrow> (\<exists>q. n = Inr q \<and> k q d = (Inr a, d'))"
  by (auto simp: validated_def split: sum.splits)

lemma validated_with_tx_error:
  "validated n (\<lambda>q. with_tx flt (b q)) d = (Inl x, d') \<Longrightarrow> d' = d"
  by (auto simp: validated_def split: sum.splits dest: with_tx_error)

lemma validated_fenced_tx_error: 
  "validated n (\<lambda>q. fenced_tx e (f q) (b q)) d = (Inl x, d') \<Longrightarrow> d' = d"
  by (auto simp: validated_def split: sum.splits dest: fenced_tx_error)

lemma validated_fault: "(\<And>q. n = Inr q \<Longrightarrow> snd (k q d) = d) \<Longrightarrow> snd (validated n k d) = d"
  by (auto simp: validated_def split: sum.splits)

text \<open>What the success of any validated, fenced operation means.\<close>

lemma fenced_success:
  assumes "validated n (\<lambda>q. fenced_tx e (f q) (b q)) d = (Inr a, d')"
    and "\<And>c. n = Inr c \<Longrightarrow> NormalizeEpochFence fence = Inr (f c)"
  obtains c where "n = Inr c" "current_epoch d = Some (fence_epoch fence)"
    "b c d = ReturnTx a \<and> d' = d \<or> b c d = Commit a d'"
proof -
  from assms(1) obtain c where c: "n = Inr c" "fenced_tx e (f c) (b c) d = (Inr a, d')" by auto
  note run = fenced_tx_ok [OF c(2)]
  have "requireControllerEpoch d fence = None"
    using run requireControllerEpoch_normalized [OF assms(2) [OF c(1)]] by simp
  with run c(1) that show thesis using requireControllerEpoch_None by blast
qed

section \<open>Contracts of the operations\<close>

text \<open>
  A fenced operation: an error leaves the database unchanged, and success means that the fence of
  the request was the stored epoch.
\<close>

locale fenced_operation =
  fixes operation :: "env \<Rightarrow> 'q \<Rightarrow> db \<Rightarrow> (store_error + 'a) \<times> db"
    and fence :: "'q \<Rightarrow> ControllerEpochFence"
  assumes atomic: "operation e q d = (Inl x, d') \<Longrightarrow> d' = d"
    and fenced: "operation e q d = (Inr a, d') \<Longrightarrow> current_epoch d = Some (fence_epoch (fence q))"
    and epochs_kept: "operation e q d = (Inr a, d') \<Longrightarrow> controller_epochs d' = controller_epochs d"
begin

lemma stale_writer_rejected:
  assumes "current_epoch d \<noteq> Some (fence_epoch (fence q))"
  shows "\<exists>x. operation e q d = (Inl x, d)"
proof (cases "fst (operation e q d)")
  case (Inl x)
  with atomic [of e q d x] show ?thesis by (cases "operation e q d") auto
next
  case (Inr a)
  with fenced [of e q d a] assms show ?thesis by (cases "operation e q d") auto
qed

lemma epoch_unchanged: "current_epoch (snd (operation e q d)) = current_epoch d"
  by (rule after_atomic [where d = d]) (auto simp: current_epoch_def dest: atomic epochs_kept)

end

text \<open>
  A compare-and-swap of one row of a table: success either replays an operation that is already
  recorded in the row, and changes nothing, or replaces exactly the row read, at the version the
  caller expected, by one whose version is larger by one.  \<open>view\<close> is the struct a row is scanned
  into.
\<close>

locale cas_operation = fenced_operation operation fence
  for operation :: "env \<Rightarrow> 'q \<Rightarrow> db \<Rightarrow> (store_error + 'a) \<times> db"
    and fence :: "'q \<Rightarrow> ControllerEpochFence" +
  fixes rows :: "db \<Rightarrow> 'r list"
    and pk :: "'r \<Rightarrow> 'k"
    and view :: "'r \<Rightarrow> 'a"
    and version :: "'r \<Rightarrow> int"
    and key :: "'q \<Rightarrow> 'k"
    and expected :: "'q \<Rightarrow> int"
  assumes swap: "db_ok d \<Longrightarrow> operation e q d = (Inr a, d') \<Longrightarrow>
    \<exists>r. find_row pk (key q) (rows d) = Some r \<and>
      (d' = d \<and> a = view r \<or>
       (\<exists>r'. version r = expected q \<and> version r' = version r + 1 \<and> pk r' = key q \<and> a = view r' \<and>
         rows d' = put_row pk (key q) r' (rows d)))"
begin

text \<open>The returned value is what a later read of the record returns.\<close>

lemma read_your_writes:
  assumes "db_ok d" "operation e q d = (Inr a, d')"
  shows "\<exists>r. find_row pk (key q) (rows d') = Some r \<and> a = view r"
proof -
  obtain r where r: "find_row pk (key q) (rows d) = Some r"
    and c: "d' = d \<and> a = view r \<or>
      (\<exists>r'. version r = expected q \<and> version r' = version r + 1 \<and> pk r' = key q \<and> a = view r' \<and>
        rows d' = put_row pk (key q) r' (rows d))"
    using swap [OF assms] by blast
  from c show ?thesis
  proof
    assume "\<exists>r'. version r = expected q \<and> version r' = version r + 1 \<and> pk r' = key q \<and> a = view r' \<and>
      rows d' = put_row pk (key q) r' (rows d)"
    then obtain r' where "pk r' = key q" "a = view r'"
      "rows d' = put_row pk (key q) r' (rows d)" by blast
    with find_row_put_row_same [OF r] show ?thesis by metis
  qed (use r in blast)
qed

text \<open>No other record changes.\<close>

lemma other_rows_kept:
  assumes "db_ok d" "operation e q d = (Inr a, d')" "k \<noteq> key q"
  shows "find_row pk k (rows d') = find_row pk k (rows d)"
  using swap [OF assms(1,2)] find_row_put_row_other [OF assms(3)] by fastforce

text \<open>A request whose expected version is not the stored one cannot change the record.\<close>

lemma lost_race_changes_nothing:
  assumes "db_ok d" "operation e q d = (Inr a, d')"
    and "find_row pk (key q) (rows d) = Some r" "version r \<noteq> expected q"
  shows "d' = d"
  using swap [OF assms(1,2)] assms(3,4) by auto

text \<open>After a change, a second request with the same expected version changes nothing.\<close>

lemma no_lost_update:
  assumes ok: "db_ok d" "db_ok d1" and first: "operation e1 q1 d = (Inr a, d1)" "d1 \<noteq> d"
    and second: "key q2 = key q1" "expected q2 = expected q1"
  shows "snd (operation e2 q2 d1) = d1"
proof (rule after_atomic [where d = d1])
  from swap [OF ok(1) first(1)] first(2) obtain r r' where
    r: "find_row pk (key q1) (rows d) = Some r" "version r = expected q1" "version r' = version r + 1"
      "pk r' = key q1" "rows d1 = put_row pk (key q1) r' (rows d)" by blast
  then have now: "find_row pk (key q1) (rows d1) = Some r'" using find_row_put_row_same by metis
  show "d2 = d1" if "operation e2 q2 d1 = (Inr b, d2)" for b d2
    using lost_race_changes_nothing [OF ok(2) that] now r(2,3) second by simp
qed (auto dest: atomic)

text \<open>Versions never decrease, and no record disappears.\<close>

lemma version_monotone:
  assumes ok: "db_ok d" and run: "operation e q d = (Inr a, d')"
    and r: "find_row pk k (rows d) = Some r"
  shows "\<exists>r'. find_row pk k (rows d') = Some r' \<and> version r \<le> version r'"
proof (cases "k = key q")
  case False
  with other_rows_kept [OF ok run] r show ?thesis by auto
next
  case True
  from swap [OF ok run] r True have
    "d' = d \<or> (\<exists>r'. version r' = version r + 1 \<and> pk r' = k \<and> rows d' = put_row pk k r' (rows d))"
    by auto
  then show ?thesis using r find_row_put_row_same [OF r] by fastforce
qed

end

text \<open>
  A creation: success either returns the recorded row of an identical earlier creation, and changes
  nothing, or appends one row with a fresh key.
\<close>

locale create_operation = fenced_operation operation fence
  for operation :: "env \<Rightarrow> 'q \<Rightarrow> db \<Rightarrow> (store_error + 'a) \<times> db"
    and fence :: "'q \<Rightarrow> ControllerEpochFence" +
  fixes rows :: "db \<Rightarrow> 'r list"
    and pk :: "'r \<Rightarrow> 'k"
    and result_key :: "'a \<Rightarrow> 'k"
  assumes create: "db_ok d \<Longrightarrow> operation e q d = (Inr a, d') \<Longrightarrow>
    d' = d \<and> find_row pk (result_key a) (rows d) \<noteq> None \<or>
    (\<exists>r. find_row pk (pk r) (rows d) = None \<and> rows d' = rows d @ [r] \<and> pk r = result_key a)"
begin

lemma existing_rows_kept:
  assumes "db_ok d" "operation e q d = (Inr a, d')" "find_row pk k (rows d) = Some r"
  shows "find_row pk k (rows d') = Some r"
  using create [OF assms(1,2)] assms(3) by (auto simp: find_row_append)

lemma created_is_readable:
  assumes "db_ok d" "operation e q d = (Inr a, d')"
  shows "\<exists>r. find_row pk (result_key a) (rows d') = Some r"
  using create [OF assms] by (auto simp: find_row_append)

lemma created_once:
  assumes "db_ok d" "operation e q d = (Inr a, d')" "find_row pk (result_key a) (rows d) \<noteq> None"
  shows "d' = d"
  using create [OF assms(1,2)] assms(3) by auto

end

text \<open>
  How the handlers are built: normalise the request, begin a transaction, compare the fence, run a
  body.  What the body does with the row is all that an interpretation has to show.
\<close>

locale validated_operation =
  fixes operation :: "env \<Rightarrow> 'q \<Rightarrow> db \<Rightarrow> (store_error + 'a) \<times> db"
    and norm :: "env \<Rightarrow> 'q \<Rightarrow> store_error + 'c"
    and fence :: "'q \<Rightarrow> ControllerEpochFence"
    and fence_of :: "'c \<Rightarrow> ControllerEpochFence"
    and body :: "'c \<Rightarrow> db \<Rightarrow> ('a, db) tx_result"
  assumes operation_def: "operation e q d = validated (norm e q) (\<lambda>c. fenced_tx e (fence_of c) (body c)) d"
    and norm_fence: "norm e q = Inr c \<Longrightarrow> NormalizeEpochFence (fence q) = Inr (fence_of c)"
    and body_epochs: "body c d = Commit a d' \<Longrightarrow> controller_epochs d' = controller_epochs d"
    and body_ok: "db_ok d \<Longrightarrow> norm e q = Inr c \<Longrightarrow> body c d = Commit a d' \<Longrightarrow> db_ok d'"
begin

lemma success:
  assumes "operation e q d = (Inr a, d')"
  obtains c where "norm e q = Inr c" "current_epoch d = Some (fence_epoch (fence q))"
    "body c d = ReturnTx a \<and> d' = d \<or> body c d = Commit a d'"
  using assms unfolding operation_def by (rule fenced_success) (auto dest: norm_fence)

lemma failure: "operation e q d = (Inl x, d') \<Longrightarrow> d' = d"
  unfolding operation_def by (rule validated_fenced_tx_error)

text \<open>A property of the database after the operation, from what its body commits.\<close>

lemma after:
  assumes "\<And>c a d'. norm e q = Inr c \<Longrightarrow> body c d = Commit a d' \<Longrightarrow> P d'" and "P d"
  shows "P (snd (operation e q d))"
  by (rule after_atomic [where d = d]) (use assms in \<open>auto dest: failure elim!: success\<close>)

lemma keeps_ok: "db_ok d \<Longrightarrow> db_ok (snd (operation e q d))"
  by (rule after) (auto dest: body_ok)

lemma fault_changes_nothing: "env_fault e \<noteq> None \<Longrightarrow> snd (operation e q d) = d"
  unfolding operation_def fenced_tx_def by (intro validated_fault with_tx_fault)

end

sublocale validated_operation \<subseteq> fenced_operation operation fence
proof
  fix e q d a d' x
  show "operation e q d = (Inl x, d') \<Longrightarrow> d' = d" by (rule failure)
  assume "operation e q d = (Inr a, d')"
  then show "current_epoch d = Some (fence_epoch (fence q))" "controller_epochs d' = controller_epochs d"
    by (rule success; auto dest: body_epochs)+
qed

locale validated_cas = validated_operation operation norm fence fence_of body
  for operation :: "env \<Rightarrow> 'q \<Rightarrow> db \<Rightarrow> (store_error + 'a) \<times> db"
    and norm :: "env \<Rightarrow> 'q \<Rightarrow> store_error + 'c"
    and fence :: "'q \<Rightarrow> ControllerEpochFence"
    and fence_of :: "'c \<Rightarrow> ControllerEpochFence"
    and body :: "'c \<Rightarrow> db \<Rightarrow> ('a, db) tx_result" +
  fixes rows :: "db \<Rightarrow> 'r list"
    and pk :: "'r \<Rightarrow> 'k"
    and view :: "'r \<Rightarrow> 'a"
    and version :: "'r \<Rightarrow> int"
    and key :: "'q \<Rightarrow> 'k"
    and expected :: "'q \<Rightarrow> int"
    and key_of :: "'c \<Rightarrow> 'k"
    and expected_of :: "'c \<Rightarrow> int"
  assumes norm_key: "norm e q = Inr c \<Longrightarrow> key_of c = key q \<and> expected_of c = expected q"
    and body_replay: "body c d = ReturnTx a \<Longrightarrow> \<exists>r. find_row pk (key_of c) (rows d) = Some r \<and> a = view r"
    and body_swap: "db_ok d \<Longrightarrow> body c d = Commit a d' \<Longrightarrow>
      \<exists>r r'. find_row pk (key_of c) (rows d) = Some r \<and> version r = expected_of c \<and>
        version r' = version r + 1 \<and> pk r' = key_of c \<and> a = view r' \<and>
        rows d' = put_row pk (key_of c) r' (rows d)"

sublocale validated_cas \<subseteq> cas_operation operation fence rows pk view version key expected
proof
  fix e q d a d'
  assume ok: "db_ok d" and "operation e q d = (Inr a, d')"
  from this(2) obtain c where c: "norm e q = Inr c"
    "body c d = ReturnTx a \<and> d' = d \<or> body c d = Commit a d'" by (rule success)
  then show "\<exists>r. find_row pk (key q) (rows d) = Some r \<and>
      (d' = d \<and> a = view r \<or>
       (\<exists>r'. version r = expected q \<and> version r' = version r + 1 \<and> pk r' = key q \<and> a = view r' \<and>
         rows d' = put_row pk (key q) r' (rows d)))"
    using norm_key [OF c(1)] body_replay [of c d a] body_swap [OF ok, of c a d'] by auto
qed

locale validated_create = validated_operation operation norm fence fence_of body
  for operation :: "env \<Rightarrow> 'q \<Rightarrow> db \<Rightarrow> (store_error + 'a) \<times> db"
    and norm :: "env \<Rightarrow> 'q \<Rightarrow> store_error + 'c"
    and fence :: "'q \<Rightarrow> ControllerEpochFence"
    and fence_of :: "'c \<Rightarrow> ControllerEpochFence"
    and body :: "'c \<Rightarrow> db \<Rightarrow> ('a, db) tx_result" +
  fixes rows :: "db \<Rightarrow> 'r list"
    and pk :: "'r \<Rightarrow> 'k"
    and result_key :: "'a \<Rightarrow> 'k"
  assumes body_existing: "body c d = ReturnTx a \<Longrightarrow> find_row pk (result_key a) (rows d) \<noteq> None"
    and body_insert: "body c d = Commit a d' \<Longrightarrow>
      \<exists>r. find_row pk (pk r) (rows d) = None \<and> rows d' = rows d @ [r] \<and> pk r = result_key a"

sublocale validated_create \<subseteq> create_operation operation fence rows pk result_key
proof
  fix e q d a d'
  assume "operation e q d = (Inr a, d')"
  then show "d' = d \<and> find_row pk (result_key a) (rows d) \<noteq> None \<or>
    (\<exists>r. find_row pk (pk r) (rows d) = None \<and> rows d' = rows d @ [r] \<and> pk r = result_key a)"
    by (rule success) (auto dest: body_existing body_insert)
qed

section \<open>Retries\<close>

text \<open>
  A caller that does not learn the outcome of a call repeats it: the same request, a later clock, no
  fault.
\<close>

definition retry_env :: "env \<Rightarrow> gotime \<Rightarrow> env" where
  "retry_env e t = e\<lparr>env_now := t, env_fault := None\<rparr>"

lemma retry_env_simps [simp]:
  "env_sha256 (retry_env e t) = env_sha256 e" "env_json_valid (retry_env e t) = env_json_valid e"
  "env_uuid_valid (retry_env e t) = env_uuid_valid e" "env_fault (retry_env e t) = None"
  "env_now (retry_env e t) = t"
  by (simp_all add: retry_env_def)

lemma requireControllerEpoch_epochs:
  "controller_epochs d' = controller_epochs d \<Longrightarrow> requireControllerEpoch d' f = requireControllerEpoch d f"
  by (simp add: requireControllerEpoch_def split: sum.splits)

locale retryable_operation = validated_operation operation norm fence fence_of body
  for operation :: "env \<Rightarrow> 'q \<Rightarrow> db \<Rightarrow> (store_error + 'a) \<times> db"
    and norm :: "env \<Rightarrow> 'q \<Rightarrow> store_error + 'c"
    and fence :: "'q \<Rightarrow> ControllerEpochFence"
    and fence_of :: "'c \<Rightarrow> ControllerEpochFence"
    and body :: "'c \<Rightarrow> db \<Rightarrow> ('a, db) tx_result" +
  assumes replay: "db_ok d \<Longrightarrow> norm e q = Inr c \<Longrightarrow>
    body c d = ReturnTx a \<and> d' = d \<or> body c d = Commit a d' \<Longrightarrow>
    \<exists>c'. norm (retry_env e t) q = Inr c' \<and> body c' d' = ReturnTx a"
begin

lemma retry_returns_same:
  assumes ok: "db_ok d" and run: "operation e q d = (Inr a, d')"
  shows "operation (retry_env e t) q d' = (Inr a, d')"
proof -
  from run obtain c where c: "norm e q = Inr c" "fenced_tx e (fence_of c) (body c) d = (Inr a, d')"
    unfolding operation_def by auto
  note first = fenced_tx_ok [OF c(2)]
  then have "body c d = ReturnTx a \<and> d' = d \<or> body c d = Commit a d'" by blast
  from replay [OF ok c(1) this] obtain c' where
    c': "norm (retry_env e t) q = Inr c'" "body c' d' = ReturnTx a" by blast
  have "fence_of c' = fence_of c" using norm_fence [OF c(1)] norm_fence [OF c'(1)] by simp
  moreover have "controller_epochs d' = controller_epochs d" using epochs_kept [OF run] .
  ultimately have "requireControllerEpoch d' (fence_of c') = None"
    using first requireControllerEpoch_epochs by metis
  then show ?thesis
    using c' by (simp add: operation_def validated_def fenced_tx_def with_tx_no_fault)
qed

end

end
