(* ===== verification/Controller_Epoch.thy ===== *)
theory Controller_Epoch
  imports Control_DB
begin

text \<open>
  Controller epochs: \<^verbatim>\<open>internal/store/sqlite/controller_epoch_store.go\<close> and
  \<^verbatim>\<open>controller_epoch_advance.go\<close>, with the dataset row they consult
  (\<^verbatim>\<open>dataset.go\<close>, \<^verbatim>\<open>dataset_binding.go\<close>) and the request validation of
  \<^verbatim>\<open>pkg/storage/v1/control_store.go\<close>.

  The epoch is the fencing token of every other mutation.  The theorems show that it only moves
  forward, that the same epoch never changes its holder, and what each operation does with it.
\<close>

section \<open>Reading\<close>

text \<open>\<open>getControllerEpoch\<close> selects the columns of the struct.\<close>

definition getControllerEpoch :: "string \<Rightarrow> db \<Rightarrow> ControllerEpoch option" where
  "getControllerEpoch name d =
     map_option ControllerEpoch.truncate (find_row ce_name name (controller_epochs d))"

definition GetControllerEpoch :: "string \<Rightarrow> db \<Rightarrow> store_error + ControllerEpoch" where
  "GetControllerEpoch nm d =
     (case NormalizeControllerEpochName nm of
        Inl e \<Rightarrow> Inl e
      | Inr name \<Rightarrow> (case getControllerEpoch name d of None \<Rightarrow> Inl ErrNotFound | Some r \<Rightarrow> Inr r))"

text \<open>A row inserted without the columns of an earlier epoch.\<close>

definition epoch_row :: "ControllerEpoch \<Rightarrow> ControllerEpochRow" where
  "epoch_row c = ControllerEpoch.extend c
     (ControllerEpochRow.fields None None None)"

section \<open>CompareAndSwapControllerEpoch\<close>

definition validateControllerEpochCAS :: "env \<Rightarrow> ControllerEpochCAS \<Rightarrow> store_error + ControllerEpochCAS" where
  "validateControllerEpochCAS e change =
     (case NormalizeControllerEpochName (TrimSpace (cas_name change)) of
        Inl x \<Rightarrow> Inl x
      | Inr name \<Rightarrow>
          (let change' = change\<lparr>cas_name := name, cas_holder_id := TrimSpace (cas_holder_id change)\<rparr>
           in checks
             [ValidateControlIdentifier (cas_holder_id change'),
              ValidateCanonicalDigest (cas_request_digest change'),
              fail_if ErrValidation (cas_expected_version change' < 0 \<or> cas_expected_epoch change' < 0),
              fail_if ErrValidation (cas_new_epoch change' < 1)]
             (Inr (change'\<lparr>cas_updated_at := NormalizeControlTime e (cas_updated_at change')\<rparr>))))"

definition cas_epoch_body :: "ControllerEpochCAS \<Rightarrow> db \<Rightarrow> (ControllerEpoch, db) tx_result" where
  "cas_epoch_body c d =
    (case getControllerEpoch (cas_name c) d of
         None \<Rightarrow>
           guards [fail_if ErrConflict (cas_expected_version c \<noteq> 0 \<or> cas_expected_epoch c \<noteq> 0 \<or> cas_new_epoch c \<noteq> 1)]
             (let created = \<lparr>ce_name = cas_name c, ce_epoch = cas_new_epoch c, ce_holder_id = cas_holder_id c,
                ce_request_digest = cas_request_digest c, ce_version = 1,
                ce_acquired_at = cas_updated_at c, ce_updated_at = cas_updated_at c\<rparr>
              in case sql_insert controller_epochs_check epoch_clash (epoch_row created) (controller_epochs d) of
                   None \<Rightarrow> Abort ErrConflict
                 | Some t \<Rightarrow> Commit created (d\<lparr>controller_epochs := t\<rparr>))
       | Some current \<Rightarrow>
           if ce_epoch current = cas_new_epoch c then
             (if ce_holder_id current = cas_holder_id c \<and> ce_request_digest current = cas_request_digest c
              then ReturnTx current else Abort ErrConflict)
           else guards
             [fail_if ErrConflict (ce_version current \<noteq> cas_expected_version c \<or> ce_epoch current \<noteq> cas_expected_epoch c),
              fail_if ErrValidation (cas_new_epoch c \<noteq> cas_expected_epoch c + 1)]
             (update_one controller_epochs_check
               (\<lambda>r. ce_name r = cas_name c \<and> ce_version r = cas_expected_version c \<and> ce_epoch r = cas_expected_epoch c)
               (\<lambda>r. r\<lparr>ce_epoch := cas_new_epoch c, ce_holder_id := cas_holder_id c,
                  ce_request_digest := cas_request_digest c, ce_version := ce_version r + 1,
                  ce_acquired_at := cas_updated_at c, ce_updated_at := cas_updated_at c\<rparr>)
               (controller_epochs d)
               (\<lambda>t. Commit
                  (current\<lparr>ce_epoch := cas_new_epoch c, ce_holder_id := cas_holder_id c,
                     ce_request_digest := cas_request_digest c, ce_version := ce_version current + 1,
                     ce_acquired_at := cas_updated_at c, ce_updated_at := cas_updated_at c\<rparr>)
                  (d\<lparr>controller_epochs := t\<rparr>))))"

definition CompareAndSwapControllerEpoch ::
  "env \<Rightarrow> ControllerEpochCAS \<Rightarrow> db \<Rightarrow> (store_error + ControllerEpoch) \<times> db" where
  "CompareAndSwapControllerEpoch e change = validated (validateControllerEpochCAS e change)
     (\<lambda>c. with_tx (env_fault e) (cas_epoch_body c))"

section \<open>SyncControllerEpochMirror\<close>

definition readDatasetInstallation :: "db \<Rightarrow> string" where
  "readDatasetInstallation d = ds_installation (store_dataset d)"

definition validateEpochMirror :: "env \<Rightarrow> ControllerEpoch \<Rightarrow> store_error + ControllerEpoch" where
  "validateEpochMirror e a =
     (case NormalizeControllerEpochName (ce_name a) of
        Inl x \<Rightarrow> Inl x
      | Inr name \<Rightarrow>
          (let a' = a\<lparr>ce_name := name, ce_holder_id := TrimSpace (ce_holder_id a)\<rparr>
           in checks
             [ValidateControlIdentifier (ce_holder_id a'),
              ValidateCanonicalDigest (ce_request_digest a'),
              fail_if ErrValidation (ce_epoch a' < 1 \<or> ce_version a' < 1)]
             (Inr (a'\<lparr>ce_acquired_at := NormalizeControlTime e (ce_acquired_at a'),
                      ce_updated_at := NormalizeControlTime e (ce_updated_at a')\<rparr>))))"

definition sync_epoch_body :: "ControllerEpoch \<Rightarrow> db \<Rightarrow> (unit, db) tx_result" where
  "sync_epoch_body a d =
     guards [fail_if ErrFenced (readDatasetInstallation d \<noteq> [])]
       (case getControllerEpoch (ce_name a) d of
          None \<Rightarrow>
            (case sql_insert controller_epochs_check epoch_clash (epoch_row a) (controller_epochs d) of
               None \<Rightarrow> Abort ErrConflict
             | Some t \<Rightarrow> Commit () (d\<lparr>controller_epochs := t\<rparr>))
        | Some current \<Rightarrow>
            if ce_epoch current > ce_epoch a then Abort ErrConflict
            else if ce_epoch current = ce_epoch a then
              (if ce_holder_id current \<noteq> ce_holder_id a \<or> ce_request_digest current \<noteq> ce_request_digest a
               then Abort ErrConflict else ReturnTx ())
            else update_one controller_epochs_check
              (\<lambda>r. ce_name r = ce_name a \<and> ce_epoch r = ce_epoch current \<and> ce_holder_id r = ce_holder_id current)
              (\<lambda>r. r\<lparr>ce_epoch := ce_epoch a, ce_holder_id := ce_holder_id a,
                 ce_request_digest := ce_request_digest a, ce_version := ce_version a,
                 ce_acquired_at := ce_acquired_at a, ce_updated_at := ce_updated_at a\<rparr>)
              (controller_epochs d)
              (\<lambda>t. Commit () (d\<lparr>controller_epochs := t\<rparr>)))"

definition SyncControllerEpochMirror ::
  "env \<Rightarrow> ControllerEpoch \<Rightarrow> db \<Rightarrow> (store_error + unit) \<times> db" where
  "SyncControllerEpochMirror e authoritative = validated (validateEpochMirror e authoritative)
     (\<lambda>a. with_tx (env_fault e) (sync_epoch_body a))"

section \<open>AdvanceControllerEpoch\<close>

record AdvanceControllerEpochRequest =
  ax_dataset_id :: string
  ax_epoch :: ControllerEpoch
  ax_installation_id :: string
  ax_acknowledged_epoch :: int

record ControllerEpochMirrorState =
  ms_dataset_id :: string
  ms_epoch :: ControllerEpoch
  ms_installation_id :: string
  ms_previous :: "ControllerEpochFence option"
  ms_advanced_at :: gotime

definition ValidateAdvanceRequest :: "AdvanceControllerEpochRequest \<Rightarrow> store_error option" where
  "ValidateAdvanceRequest r = first_error
     [ValidateControlIdentifier (ax_dataset_id r),
      ValidateControlIdentifier (ax_installation_id r),
      ValidateControlIdentifier (ce_name (ax_epoch r)),
      ValidateControlIdentifier (ce_holder_id (ax_epoch r)),
      ValidateCanonicalDigest (ce_request_digest (ax_epoch r)),
      fail_if ErrValidation (ce_epoch (ax_epoch r) < 1 \<or> ce_version (ax_epoch r) < 1),
      fail_if ErrValidation (ax_acknowledged_epoch r < 0 \<or> ax_acknowledged_epoch r > ce_epoch (ax_epoch r)),
      fail_if ErrValidation (time_is_zero (ce_acquired_at (ax_epoch r)) \<or> time_is_zero (ce_updated_at (ax_epoch r)))]"

definition readDataset :: "env \<Rightarrow> db \<Rightarrow> store_error option" where
  "readDataset e d =
     fail_if ErrDriver (\<not> env_uuid_valid e (ds_id (store_dataset d)) \<or>
       ds_origin (store_dataset d) \<notin> {''new'', ''adopted''})"

definition requireDataset :: "env \<Rightarrow> string \<Rightarrow> db \<Rightarrow> store_error option" where
  "requireDataset e dataset d = first_error
     [readDataset e d, fail_if ErrDatasetMismatch (ds_id (store_dataset d) \<noteq> dataset)]"

definition bindingStateBound :: string where
  "bindingStateBound = ''bound''"

definition bindingStateDetached :: string where
  "bindingStateDetached = ''detached''"

definition validateBinding :: "DatasetRow \<Rightarrow> store_error option" where
  "validateBinding b = first_error
     ([if v = [] then None else ValidateControlIdentifier v.
         v \<leftarrow> [ds_installation b, ds_record_uid b, ds_key_fingerprint b]] @
      [fail_if ErrDriver (ds_bound_at_nanos b < 0),
       if ds_state b = [] then
         fail_if ErrDriver (ds_record_uid b \<noteq> [] \<or> ds_generation b \<noteq> 0 \<or> ds_key_fingerprint b \<noteq> [] \<or>
           ds_installation b = [] \<and> ds_bound_at_nanos b \<noteq> 0)
       else if ds_state b = bindingStateBound \<or> ds_state b = bindingStateDetached then
         fail_if ErrDriver (ds_installation b = [] \<or> ds_record_uid b = [] \<or> ds_generation b < 1)
       else Some ErrDriver])"

definition UnixNano :: "gotime \<Rightarrow> int" where
  "UnixNano t = t - 62135596800 * 1000000000"

definition refuseDetached :: "DatasetRow \<Rightarrow> store_error option" where
  "refuseDetached b = fail_if ErrDatasetDetached (ds_state b = bindingStateDetached)"

definition advanceControllerEpochTx :: "ControllerEpoch \<Rightarrow> gotime \<Rightarrow> db \<Rightarrow> store_error + db" where
  "advanceControllerEpochTx a now d =
     (case getControllerEpoch (ce_name a) d of
        None \<Rightarrow>
          (case sql_insert controller_epochs_check epoch_clash
                  ((epoch_row a)\<lparr>cer_advanced_at := Some now\<rparr>) (controller_epochs d) of
             None \<Rightarrow> Inl ErrDriver
           | Some t \<Rightarrow> Inr (d\<lparr>controller_epochs := t\<rparr>))
      | Some current \<Rightarrow>
          if ce_epoch a < ce_epoch current then Inl ErrFenced
          else if ce_epoch a = ce_epoch current then
            (if ce_holder_id a \<noteq> ce_holder_id current \<or> ce_request_digest a \<noteq> ce_request_digest current
             then Inl ErrConflict else Inr d)
          else case sql_update controller_epochs_check
            (\<lambda>r. ce_name r = ce_name a \<and> ce_epoch r = ce_epoch current \<and> ce_holder_id r = ce_holder_id current)
            (\<lambda>r. r\<lparr>ce_epoch := ce_epoch a, ce_holder_id := ce_holder_id a,
               ce_request_digest := ce_request_digest a, ce_version := ce_version a,
               ce_acquired_at := ce_acquired_at a, ce_updated_at := ce_updated_at a,
               cer_previous_epoch := Some (ce_epoch current),
               cer_previous_holder_id := Some (ce_holder_id current), cer_advanced_at := Some now\<rparr>)
            (controller_epochs d) of
              None \<Rightarrow> Inl ErrDriver
            | Some (t, n) \<Rightarrow> if n \<noteq> 1 then Inl ErrConflict else Inr (d\<lparr>controller_epochs := t\<rparr>))"

definition getControllerEpochMirrorState ::
  "env \<Rightarrow> string \<Rightarrow> db \<Rightarrow> store_error + ControllerEpochMirrorState" where
  "getControllerEpochMirrorState e name d =
     (case find_row ce_name name (controller_epochs d) of
        None \<Rightarrow> Inl ErrNotFound
      | Some r \<Rightarrow> checks [readDataset e d]
          (Inr \<lparr>ms_dataset_id = ds_id (store_dataset d), ms_epoch = ControllerEpoch.truncate r,
             ms_installation_id = readDatasetInstallation d,
             ms_previous = map_option (\<lambda>p. \<lparr>cf_name = name, cf_epoch = p,
                cf_holder_id = (case cer_previous_holder_id r of None \<Rightarrow> [] | Some h \<Rightarrow> h)\<rparr>)
                (cer_previous_epoch r),
             ms_advanced_at = (case cer_advanced_at r of None \<Rightarrow> 0 | Some t \<Rightarrow> t)\<rparr>))"

definition stored_epoch :: "string \<Rightarrow> db \<Rightarrow> int" where
  "stored_epoch name d = (case getControllerEpoch name d of None \<Rightarrow> 0 | Some c \<Rightarrow> ce_epoch c)"

definition advance_epoch_body ::
  "env \<Rightarrow> AdvanceControllerEpochRequest \<Rightarrow> string \<Rightarrow> db \<Rightarrow> (ControllerEpochMirrorState, db) tx_result" where
  "advance_epoch_body e request name d =
     (let a = (ax_epoch request)\<lparr>ce_name := name\<rparr>; binding = store_dataset d in
      guards
        [requireDataset e (ax_dataset_id request) d,
         validateBinding binding,
         fail_if ErrFenced (ds_installation binding \<noteq> [] \<and> ds_installation binding \<noteq> ax_installation_id request),
         refuseDetached binding,
         fail_if ErrNotReady (ax_acknowledged_epoch request > 0 \<and>
           stored_epoch name d < ax_acknowledged_epoch request)]
        (case advanceControllerEpochTx a (env_now e) d of
           Inl x \<Rightarrow> Abort x
         | Inr d1 \<Rightarrow>
             (let d2 = (if ds_installation binding = []
                then d1\<lparr>store_dataset := (store_dataset d1)\<lparr>ds_installation := ax_installation_id request,
                       ds_bound_at_nanos := UnixNano (env_now e)\<rparr>\<rparr>
                else d1)
              in case getControllerEpochMirrorState e name d2 of
                   Inl x \<Rightarrow> Abort x
                 | Inr st \<Rightarrow> Commit st d2)))"

definition AdvanceControllerEpoch ::
  "env \<Rightarrow> AdvanceControllerEpochRequest \<Rightarrow> db \<Rightarrow> (store_error + ControllerEpochMirrorState) \<times> db" where
  "AdvanceControllerEpoch e request = validated
     (checks [ValidateAdvanceRequest request] (NormalizeControllerEpochName (ce_name (ax_epoch request))))
     (\<lambda>name. with_tx (env_fault e) (advance_epoch_body e request name))"

definition GetControllerEpochMirror :: "env \<Rightarrow> string \<Rightarrow> db \<Rightarrow> store_error + ControllerEpochMirrorState" where
  "GetControllerEpochMirror e nm d =
     (case NormalizeControllerEpochName nm of
        Inl x \<Rightarrow> Inl x
      | Inr name \<Rightarrow> getControllerEpochMirrorState e name d)"

section \<open>The epoch only moves forward\<close>

text \<open>
  \<open>epoch_forward c c'\<close>: the stored epoch is the same with the same holder, or larger.  It is a
  preorder, so it extends from one operation to a run.
\<close>

definition epoch_forward :: "(int \<times> string) option \<Rightarrow> (int \<times> string) option \<Rightarrow> bool" where
  "epoch_forward c c' \<longleftrightarrow>
     (case c of None \<Rightarrow> True
      | Some (n, h) \<Rightarrow> (case c' of None \<Rightarrow> False | Some (n', h') \<Rightarrow> n < n' \<or> n = n' \<and> h = h'))"

lemma epoch_forward_refl [simp]: "epoch_forward c c"
  by (auto simp: epoch_forward_def split: option.splits)

lemma epoch_forward_trans: "epoch_forward a b \<Longrightarrow> epoch_forward b c \<Longrightarrow> epoch_forward a c"
  by (auto simp: epoch_forward_def split: option.splits)

text \<open>An epoch that has been passed never comes back.\<close>

lemma epoch_passed: "epoch_forward (Some (n, h)) c \<Longrightarrow> m < n \<Longrightarrow> c \<noteq> Some (m, h')"
  by (auto simp: epoch_forward_def split: option.splits)

locale epoch_operation =
  fixes operation :: "env \<Rightarrow> 'q \<Rightarrow> db \<Rightarrow> (store_error + 'a) \<times> db"
  assumes epoch_atomic: "operation e q d = (Inl x, d') \<Longrightarrow> d' = d"
    and epoch_ok: "db_ok d \<Longrightarrow> operation e q d = (Inr a, d') \<Longrightarrow> db_ok d'"
    and epoch_frame: "operation e q d = (Inr a, d') \<Longrightarrow>
      \<exists>t ds. d' = d\<lparr>controller_epochs := t, store_dataset := ds\<rparr>"
    and epoch_advances: "db_ok d \<Longrightarrow> operation e q d = (Inr a, d') \<Longrightarrow>
      epoch_forward (current_epoch d) (current_epoch d')"
begin

lemma forward: "db_ok d \<Longrightarrow> epoch_forward (current_epoch d) (current_epoch (snd (operation e q d)))"
  by (rule after_atomic [where d = d]) (auto dest: epoch_atomic epoch_advances)

lemma keeps_ok: "db_ok d \<Longrightarrow> db_ok (snd (operation e q d))"
  by (rule after_atomic [where d = d]) (auto dest: epoch_atomic epoch_ok)

end

lemma epoch_row_simps [simp]:
  "ce_name (epoch_row c) = ce_name c" "ce_epoch (epoch_row c) = ce_epoch c"
  "ce_holder_id (epoch_row c) = ce_holder_id c" "ControllerEpoch.truncate (epoch_row c) = c"
  "ce_request_digest (epoch_row c) = ce_request_digest c"
  by (simp_all add: epoch_row_def ControllerEpoch.extend_def ControllerEpoch.truncate_def
      ControllerEpochRow.fields_def)

lemma truncate_simps [simp]:
  "ce_name (ControllerEpoch.truncate r) = ce_name r"
  "ce_epoch (ControllerEpoch.truncate r) = ce_epoch r"
  "ce_holder_id (ControllerEpoch.truncate r) = ce_holder_id r"
  "ce_version (ControllerEpoch.truncate r) = ce_version r"
  "ce_request_digest (ControllerEpoch.truncate r) = ce_request_digest r"
  by (simp_all add: ControllerEpoch.truncate_def)

lemma getControllerEpoch_Some:
  "getControllerEpoch name d = Some c \<longleftrightarrow>
   (\<exists>r. find_row ce_name name (controller_epochs d) = Some r \<and> c = ControllerEpoch.truncate r)"
  by (auto simp: getControllerEpoch_def)

lemma getControllerEpoch_None:
  "getControllerEpoch name d = None \<longleftrightarrow> find_row ce_name name (controller_epochs d) = None"
  by (simp add: getControllerEpoch_def)

lemma set_epochs:
  assumes "d' = d \<or> (\<exists>t. d' = d\<lparr>controller_epochs := t\<rparr>)"
  shows "\<exists>t ds. d' = d\<lparr>controller_epochs := t, store_dataset := ds\<rparr>"
proof -
  from assms have "d' = d\<lparr>controller_epochs := controller_epochs d', store_dataset := store_dataset d\<rparr>"
    by auto
  then show ?thesis by blast
qed

lemma insert_epoch:
  assumes "db_ok d" "sql_insert controller_epochs_check epoch_clash row (controller_epochs d) = Some t"
  shows "db_ok (d\<lparr>controller_epochs := t\<rparr>)" "find_row ce_name (ce_name row) t = Some row"
  using assms epochs.insert_ok epochs.insert_find_same
  by (blast intro: db_ok_set_table(1) db_ok_tables(1), blast)

lemma update_epoch:
  assumes ok: "db_ok d" and get: "find_row ce_name name (controller_epochs d) = Some r"
    and W: "\<And>x. W x \<Longrightarrow> ce_name x = name" and f: "\<And>x. ce_name (f x) = ce_name x"
    and upd: "sql_update controller_epochs_check W f (controller_epochs d) = Some (t, 1)"
  shows "W r" "find_row ce_name name t = Some (f r)" "db_ok (d\<lparr>controller_epochs := t\<rparr>)"
proof -
  note res = epochs.update_result [OF db_ok_tables(1) [OF ok] get W upd]
  show "W r" by (rule res(1))
  have name: "ce_name (f r) = name" using f find_row_SomeD [OF get] by auto
  then show "find_row ce_name name t = Some (f r)"
    using res(3) find_row_put_row_same [OF get] by simp
  have "epochs.table_ok t"
    using res epochs.put_row_ok [OF db_ok_tables(1) [OF ok] get res(2)] name find_row_SomeD [OF get]
    by (auto simp: epoch_clash_def)
  then show "db_ok (d\<lparr>controller_epochs := t\<rparr>)" by (rule db_ok_set_table(1) [OF ok])
qed

text \<open>The result of the three operations on the stored epoch, name by name.\<close>

lemma current_epoch_get:
  "current_epoch d =
    map_option (\<lambda>c. (ce_epoch c, ce_holder_id c)) (getControllerEpoch DefaultControllerEpochName d)"
  by (simp add: current_epoch_def getControllerEpoch_def option.map_comp comp_def)

lemma cas_request_name:
  "validateControllerEpochCAS e q = Inr c \<Longrightarrow> cas_name c = DefaultControllerEpochName"
  by (auto simp: validateControllerEpochCAS_def Let_def split: sum.splits dest: normalized_name)

lemma mirror_request_name:
  "validateEpochMirror e q = Inr a \<Longrightarrow> ce_name a = DefaultControllerEpochName"
  by (auto simp: validateEpochMirror_def Let_def split: sum.splits dest: normalized_name)

lemma cas_epoch_replay:
  "cas_epoch_body c d = ReturnTx a \<Longrightarrow>
   getControllerEpoch (cas_name c) d = Some a \<and> ce_epoch a = cas_new_epoch c \<and>
   ce_holder_id a = cas_holder_id c"
  by (auto simp: cas_epoch_body_def Let_def split: option.splits if_splits)

lemma cas_epoch_commit:
  assumes ok: "db_ok d" and body: "cas_epoch_body c d = Commit a d'"
  shows "db_ok d' \<and> (\<exists>t. d' = d\<lparr>controller_epochs := t\<rparr>) \<and>
    getControllerEpoch (cas_name c) d' = Some a \<and> ce_epoch a = cas_new_epoch c \<and>
    ce_holder_id a = cas_holder_id c \<and>
    (case getControllerEpoch (cas_name c) d of
       None \<Rightarrow> ce_epoch a = 1 \<and> ce_version a = 1
     | Some r \<Rightarrow> ce_version r = cas_expected_version c \<and> ce_epoch r = cas_expected_epoch c \<and>
         ce_epoch a = ce_epoch r + 1 \<and> ce_version a = ce_version r + 1)"
proof (cases "getControllerEpoch (cas_name c) d")
  case None
  with body ok show ?thesis
    by (auto simp: cas_epoch_body_def Let_def getControllerEpoch_def split: option.splits
        dest: insert_epoch)
next
  case (Some cur)
  then obtain r where r: "find_row ce_name (cas_name c) (controller_epochs d) = Some r"
    "cur = ControllerEpoch.truncate r" by (auto simp: getControllerEpoch_Some)
  with body Some obtain t where
    g: "ce_version r = cas_expected_version c" "ce_epoch r = cas_expected_epoch c"
      "cas_new_epoch c = cas_expected_epoch c + 1" and
    upd: "sql_update controller_epochs_check
       (\<lambda>r. ce_name r = cas_name c \<and> ce_version r = cas_expected_version c \<and> ce_epoch r = cas_expected_epoch c)
       (\<lambda>r. r\<lparr>ce_epoch := cas_new_epoch c, ce_holder_id := cas_holder_id c,
          ce_request_digest := cas_request_digest c, ce_version := ce_version r + 1,
          ce_acquired_at := cas_updated_at c, ce_updated_at := cas_updated_at c\<rparr>)
       (controller_epochs d) = Some (t, 1)" and
    res: "d' = d\<lparr>controller_epochs := t\<rparr>"
      "a = cur\<lparr>ce_epoch := cas_new_epoch c, ce_holder_id := cas_holder_id c,
         ce_request_digest := cas_request_digest c, ce_version := ce_version cur + 1,
         ce_acquired_at := cas_updated_at c, ce_updated_at := cas_updated_at c\<rparr>"
    by (auto simp: cas_epoch_body_def split: if_splits)
  from update_epoch [OF ok r(1) _ _ upd] g res r(2) Some show ?thesis
    by (auto simp: getControllerEpoch_def ControllerEpoch.truncate_def)
qed

lemma sync_epoch_replay: "sync_epoch_body a d = ReturnTx x \<Longrightarrow>
   \<exists>r. getControllerEpoch (ce_name a) d = Some r \<and> ce_epoch r = ce_epoch a \<and> ce_holder_id r = ce_holder_id a"
  by (auto simp: sync_epoch_body_def split: option.splits if_splits)

lemma sync_epoch_commit:
  assumes ok: "db_ok d" and body: "sync_epoch_body a d = Commit x d'"
  shows "db_ok d' \<and> (\<exists>t. d' = d\<lparr>controller_epochs := t\<rparr>) \<and> readDatasetInstallation d = [] \<and>
    getControllerEpoch (ce_name a) d' = Some a \<and>
    (\<forall>r. getControllerEpoch (ce_name a) d = Some r \<longrightarrow> ce_epoch r < ce_epoch a)"
proof (cases "find_row ce_name (ce_name a) (controller_epochs d)")
  case None
  with body ok show ?thesis
    by (auto simp: sync_epoch_body_def getControllerEpoch_def split: option.splits dest: insert_epoch)
next
  case (Some r)
  with body obtain t where
    upd: "sql_update controller_epochs_check
       (\<lambda>x. ce_name x = ce_name a \<and> ce_epoch x = ce_epoch r \<and> ce_holder_id x = ce_holder_id r)
       (\<lambda>r. r\<lparr>ce_epoch := ce_epoch a, ce_holder_id := ce_holder_id a,
          ce_request_digest := ce_request_digest a, ce_version := ce_version a,
          ce_acquired_at := ce_acquired_at a, ce_updated_at := ce_updated_at a\<rparr>)
       (controller_epochs d) = Some (t, 1)" and
    res: "d' = d\<lparr>controller_epochs := t\<rparr>" "ce_epoch r < ce_epoch a" "readDatasetInstallation d = []"
    by (auto simp: sync_epoch_body_def getControllerEpoch_def split: if_splits)
  from update_epoch [OF ok Some _ _ upd] res Some find_row_SomeD [OF Some] show ?thesis
    by (auto simp: getControllerEpoch_def ControllerEpoch.truncate_def)
qed

text \<open>
  \<open>advanceControllerEpochTx\<close>: the stored record after a success is the requested one, unless the
  same epoch was already stored, in which case nothing changes.
\<close>

lemma advance_tx_result:
  assumes ok: "db_ok d" and run: "advanceControllerEpochTx a now d = Inr d'"
  shows "db_ok d' \<and> (\<exists>t. d' = d\<lparr>controller_epochs := t\<rparr>) \<and>
    (case getControllerEpoch (ce_name a) d of
       None \<Rightarrow> getControllerEpoch (ce_name a) d' = Some a
     | Some r \<Rightarrow> d' = d \<and> ce_epoch r = ce_epoch a \<and> ce_holder_id r = ce_holder_id a \<or>
         ce_epoch r < ce_epoch a \<and> getControllerEpoch (ce_name a) d' = Some a)"
proof (cases "find_row ce_name (ce_name a) (controller_epochs d)")
  case None
  have trunc: "ControllerEpoch.truncate (cer_advanced_at_update (\<lambda>_. Some now) (epoch_row a)) = a"
    by (simp add: epoch_row_def ControllerEpoch.extend_def ControllerEpoch.truncate_def
        ControllerEpochRow.fields_def)
  from None run ok show ?thesis
    by (auto simp: advanceControllerEpochTx_def getControllerEpoch_def trunc split: option.splits
        dest: insert_epoch)
next
  case (Some r)
  show ?thesis
  proof (cases "ce_epoch r < ce_epoch a")
    case False
    with Some run ok show ?thesis
      by (auto simp: advanceControllerEpochTx_def getControllerEpoch_def split: if_splits
          intro: exI [where x = "controller_epochs d"])
  next
    case True
    with Some run obtain t where
      upd: "sql_update controller_epochs_check
         (\<lambda>x. ce_name x = ce_name a \<and> ce_epoch x = ce_epoch r \<and> ce_holder_id x = ce_holder_id r)
         (\<lambda>x. x\<lparr>ce_epoch := ce_epoch a, ce_holder_id := ce_holder_id a,
            ce_request_digest := ce_request_digest a, ce_version := ce_version a,
            ce_acquired_at := ce_acquired_at a, ce_updated_at := ce_updated_at a,
            cer_previous_epoch := Some (ce_epoch r), cer_previous_holder_id := Some (ce_holder_id r),
            cer_advanced_at := Some now\<rparr>)
         (controller_epochs d) = Some (t, 1)" and
      res: "d' = d\<lparr>controller_epochs := t\<rparr>"
      by (auto simp: advanceControllerEpochTx_def getControllerEpoch_def split: if_splits option.splits)
    from update_epoch [OF ok Some _ _ upd] res Some find_row_SomeD [OF Some] True show ?thesis
      by (auto simp: getControllerEpoch_def ControllerEpoch.truncate_def)
  qed
qed

lemma mirror_state_epoch:
  "getControllerEpochMirrorState e name d = Inr st \<Longrightarrow> getControllerEpoch name d = Some (ms_epoch st)"
  by (auto simp: getControllerEpochMirrorState_def getControllerEpoch_def split: option.splits)

lemma advance_epoch_commit:
  assumes ok: "db_ok d" and body: "advance_epoch_body e q name d = Commit st d'"
  shows "db_ok d' \<and> (\<exists>t ds. d' = d\<lparr>controller_epochs := t, store_dataset := ds\<rparr>) \<and>
    getControllerEpoch name d' = Some (ms_epoch st) \<and>
    (ds_installation (store_dataset d) = [] \<or> ds_installation (store_dataset d) = ax_installation_id q) \<and>
    ds_installation (store_dataset d') = ax_installation_id q \<and>
    ax_acknowledged_epoch q \<le> max 0 (stored_epoch name d) \<and>
    (case getControllerEpoch name d of
       None \<Rightarrow> ms_epoch st = (ax_epoch q)\<lparr>ce_name := name\<rparr>
     | Some r \<Rightarrow> getControllerEpoch name d' = Some r \<and> ce_epoch r = ce_epoch (ax_epoch q) \<and>
           ce_holder_id r = ce_holder_id (ax_epoch q) \<or>
         ce_epoch r < ce_epoch (ax_epoch q) \<and> ms_epoch st = (ax_epoch q)\<lparr>ce_name := name\<rparr>)"
proof -
  let ?a = "(ax_epoch q)\<lparr>ce_name := name\<rparr>"
  from body obtain d1 where tx: "advanceControllerEpochTx ?a (env_now e) d = Inr d1"
    and st: "getControllerEpochMirrorState e name d' = Inr st"
    and inst: "ds_installation (store_dataset d) = [] \<or> ds_installation (store_dataset d) = ax_installation_id q"
    and ack: "ax_acknowledged_epoch q \<le> max 0 (stored_epoch name d)"
    and d': "d' = (if ds_installation (store_dataset d) = []
        then d1\<lparr>store_dataset := (store_dataset d1)\<lparr>ds_installation := ax_installation_id q,
               ds_bound_at_nanos := UnixNano (env_now e)\<rparr>\<rparr>
        else d1)"
    by (auto simp: advance_epoch_body_def Let_def split: sum.splits)
  note res = advance_tx_result [OF ok tx]
  then obtain t where d1: "d1 = d\<lparr>controller_epochs := t\<rparr>" "db_ok d1" by blast
  have same: "getControllerEpoch name d' = getControllerEpoch name d1"
    using d' by (simp add: getControllerEpoch_def)
  have "db_ok d'" using d' d1(2) by (simp add: db_ok_set_table)
  moreover have "d' = d\<lparr>controller_epochs := t, store_dataset := store_dataset d'\<rparr>"
    using d' d1(1) by simp
  moreover have "ds_installation (store_dataset d') = ax_installation_id q"
    using d' d1(1) inst by auto
  ultimately show ?thesis
    using mirror_state_epoch [OF st] res same inst ack by (auto split: option.splits)
qed

section \<open>The operations as epoch operations\<close>

interpretation cas_epoch: epoch_operation CompareAndSwapControllerEpoch
proof
  fix e q d a d' x
  show "CompareAndSwapControllerEpoch e q d = (Inl x, d') \<Longrightarrow> d' = d"
    unfolding CompareAndSwapControllerEpoch_def by (rule validated_with_tx_error)
  assume run: "CompareAndSwapControllerEpoch e q d = (Inr a, d')"
  then obtain c where c: "validateControllerEpochCAS e q = Inr c"
    and b: "cas_epoch_body c d = ReturnTx a \<and> d' = d \<or> cas_epoch_body c d = Commit a d'"
    by (auto simp: CompareAndSwapControllerEpoch_def dest: with_tx_ok)
  have frame: "\<exists>t. d' = d\<lparr>controller_epochs := t\<rparr>"
    if "cas_epoch_body c d = Commit a d'"
    using that by (auto simp: cas_epoch_body_def Let_def split: option.splits if_splits)
  with b show "\<exists>t ds. d' = d\<lparr>controller_epochs := t, store_dataset := ds\<rparr>"
    by (intro set_epochs) blast
  assume ok: "db_ok d"
  note commit = cas_epoch_commit [OF ok, of c a d']
  show "db_ok d'" using b commit ok by auto
  show "epoch_forward (current_epoch d) (current_epoch d')"
    using b commit cas_request_name [OF c]
    by (auto simp: epoch_forward_def current_epoch_get split: option.splits)
qed

interpretation sync_epoch: epoch_operation SyncControllerEpochMirror
proof
  fix e q d a d' x
  show "SyncControllerEpochMirror e q d = (Inl x, d') \<Longrightarrow> d' = d"
    unfolding SyncControllerEpochMirror_def by (rule validated_with_tx_error)
  assume run: "SyncControllerEpochMirror e q d = (Inr a, d')"
  then obtain c where c: "validateEpochMirror e q = Inr c"
    and b: "sync_epoch_body c d = ReturnTx a \<and> d' = d \<or> sync_epoch_body c d = Commit a d'"
    by (auto simp: SyncControllerEpochMirror_def dest: with_tx_ok)
  have frame: "\<exists>t. d' = d\<lparr>controller_epochs := t\<rparr>"
    if "sync_epoch_body c d = Commit a d'"
    using that by (auto simp: sync_epoch_body_def split: option.splits if_splits)
  with b show "\<exists>t ds. d' = d\<lparr>controller_epochs := t, store_dataset := ds\<rparr>"
    by (intro set_epochs) blast
  assume ok: "db_ok d"
  note commit = sync_epoch_commit [OF ok, of c a d']
  show "db_ok d'" using b commit ok by auto
  show "epoch_forward (current_epoch d) (current_epoch d')"
    using b commit mirror_request_name [OF c]
    by (auto simp: epoch_forward_def current_epoch_get split: option.splits)
qed

interpretation advance_epoch: epoch_operation AdvanceControllerEpoch
proof
  fix e q d a d' x
  show "AdvanceControllerEpoch e q d = (Inl x, d') \<Longrightarrow> d' = d"
    unfolding AdvanceControllerEpoch_def by (rule validated_with_tx_error)
  assume run: "AdvanceControllerEpoch e q d = (Inr a, d')"
  have no_return: "advance_epoch_body e q name d \<noteq> ReturnTx a" for name
    by (auto simp: advance_epoch_body_def Let_def split: sum.splits)
  with run obtain name where name: "name = DefaultControllerEpochName"
    and b: "advance_epoch_body e q name d = Commit a d'"
    by (auto simp: AdvanceControllerEpoch_def dest!: with_tx_ok normalized_name)
  have frame: "\<exists>t. d1 = d\<lparr>controller_epochs := t\<rparr>"
    if "advanceControllerEpochTx x now d = Inr d1" for x now d1
    using that by (auto simp: advanceControllerEpochTx_def split: option.splits if_splits
        intro: exI [where x = "controller_epochs d"])
  from b obtain d1 where "advanceControllerEpochTx ((ax_epoch q)\<lparr>ce_name := name\<rparr>) (env_now e) d = Inr d1"
    "d' = d1\<lparr>store_dataset := store_dataset d'\<rparr>"
    by (auto simp: advance_epoch_body_def Let_def split: sum.splits if_splits)
  with frame show "\<exists>t ds. d' = d\<lparr>controller_epochs := t, store_dataset := ds\<rparr>" by metis
  assume ok: "db_ok d"
  note commit = advance_epoch_commit [OF ok b]
  show "db_ok d'" using commit by auto
  show "epoch_forward (current_epoch d) (current_epoch d')"
    using commit name
    by (auto simp: epoch_forward_def current_epoch_get split: option.splits)
qed

section \<open>Properties\<close>

text \<open>
  A successful compare-and-swap of the controller epoch leaves the requested epoch and holder
  stored and returned; unless it repeats the stored epoch, the epoch is one larger than the expected
  one, or one if none was stored.
\<close>

theorem epoch_cas_result:
  assumes "db_ok d" "CompareAndSwapControllerEpoch e q d = (Inr a, d')"
  shows "current_epoch d' = Some (cas_new_epoch q, TrimSpace (cas_holder_id q)) \<and>
    ce_epoch a = cas_new_epoch q \<and> ce_holder_id a = TrimSpace (cas_holder_id q) \<and>
    (d' = d \<or>
     (case current_epoch d of None \<Rightarrow> cas_new_epoch q = 1
      | Some (n, h) \<Rightarrow> n = cas_expected_epoch q \<and> cas_new_epoch q = n + 1))"
proof -
  from assms(2) obtain c where c: "validateControllerEpochCAS e q = Inr c"
    and b: "cas_epoch_body c d = ReturnTx a \<and> d' = d \<or> cas_epoch_body c d = Commit a d'"
    by (auto simp: CompareAndSwapControllerEpoch_def dest: with_tx_ok)
  have q: "cas_new_epoch c = cas_new_epoch q" "cas_holder_id c = TrimSpace (cas_holder_id q)"
    "cas_expected_epoch c = cas_expected_epoch q"
    using c by (auto simp: validateControllerEpochCAS_def Let_def split: sum.splits)
  from b show ?thesis
  proof
    assume "cas_epoch_body c d = ReturnTx a \<and> d' = d"
    with cas_epoch_replay [of c d a] cas_request_name [OF c] q show ?thesis by (auto simp: current_epoch_get)
  next
    assume "cas_epoch_body c d = Commit a d'"
    from cas_epoch_commit [OF assms(1) this] cas_request_name [OF c] q show ?thesis
      by (auto simp: current_epoch_get split: option.splits)
  qed
qed

text \<open>
  The coordinator can advance the epoch only of the dataset it names and only for the installation
  that the dataset is bound to, never of a detached dataset; an unbound dataset is bound by its first
  advance.  The stored epoch and holder are then the requested ones, and the epoch has not moved back.
\<close>

theorem epoch_advance_bound:
  assumes "db_ok d" "AdvanceControllerEpoch e q d = (Inr st, d')"
  shows "ds_id (store_dataset d) = ax_dataset_id q \<and>
    ds_installation (store_dataset d) \<in> {[], ax_installation_id q} \<and>
    ds_installation (store_dataset d') = ax_installation_id q \<and>
    ds_state (store_dataset d) \<noteq> bindingStateDetached \<and>
    current_epoch d' = Some (ce_epoch (ms_epoch st), ce_holder_id (ms_epoch st)) \<and>
    ce_epoch (ms_epoch st) = ce_epoch (ax_epoch q) \<and> ce_holder_id (ms_epoch st) = ce_holder_id (ax_epoch q) \<and>
    epoch_forward (current_epoch d) (current_epoch d')"
proof -
  have no_return: "advance_epoch_body e q name d \<noteq> ReturnTx st" for name
    by (auto simp: advance_epoch_body_def Let_def split: sum.splits)
  with assms(2) obtain name where name: "name = DefaultControllerEpochName"
    and b: "advance_epoch_body e q name d = Commit st d'"
    by (auto simp: AdvanceControllerEpoch_def dest!: with_tx_ok normalized_name)
  then have guards: "ds_id (store_dataset d) = ax_dataset_id q" "ds_state (store_dataset d) \<noteq> bindingStateDetached"
    by (auto simp: advance_epoch_body_def requireDataset_def refuseDetached_def Let_def)
  note commit = advance_epoch_commit [OF assms(1) b]
  have "ce_epoch (ms_epoch st) = ce_epoch (ax_epoch q)" "ce_holder_id (ms_epoch st) = ce_holder_id (ax_epoch q)"
    using commit by (auto split: option.splits)
  with commit guards name show ?thesis
    using advance_epoch.epoch_advances [OF assms] by (auto simp: current_epoch_get)
qed

end
