(* ===== verification/Branch_Claim.thy ===== *)
theory Branch_Claim
  imports Controller_Epoch
begin

text \<open>
  Branch claims: the ownership record of one repository branch.  Operations of
  \<^verbatim>\<open>internal/store/sqlite/branch_claim_store.go\<close> with their normalisers of
  \<^verbatim>\<open>internal/store/control_normalize.go\<close> and \<^verbatim>\<open>control_validate.go\<close>.

  The theorems show that a branch has one owner at a time, that an owner is never replaced except
  by deleting the claim, that only the exact available claim observed by the caller is deleted, and
  that an update keeps the identity of the claim and moves its generation by at most one.
\<close>

section \<open>Normalisation and validation\<close>

definition ValidateRemoteRefState :: "RemoteRefState \<Rightarrow> store_error option" where
  "ValidateRemoteRefState r = first_error
     [fail_if ErrValidation (rr_absent r = (rr_sha r \<noteq> [])),
      (if rr_sha r \<noteq> [] then ValidateGitObjectID (rr_sha r) else None)]"

definition CanonicalBranchClaimID :: "env \<Rightarrow> string \<Rightarrow> string \<Rightarrow> store_error + string" where
  "CanonicalBranchClaimID e repo ref =
     checks [ValidateControlIdentifier repo, ValidateFullBranchRef ref]
       (Inr (CanonicalControlID e ''branch-claim'' [repo, ref]))"

text \<open>
  The branch claim a normalised request carries: trimmed, with the defaults filled in.  The checks
  below are those of the source, in its order.
\<close>

definition claim_defaults :: "env \<Rightarrow> BranchClaim \<Rightarrow> BranchClaim" where
  "claim_defaults e c =
     (let repo = TrimSpace (bc_repository_id c); ref = TrimSpace (bc_ref c); cid = TrimSpace (bc_id c) in
      c\<lparr>bc_repository_id := repo, bc_ref := ref, bc_owner_uid := TrimSpace (bc_owner_uid c),
        bc_id := (if cid = [] then CanonicalControlID e ''branch-claim'' [repo, ref] else cid),
        bc_generation := (if bc_generation c = 0 then 1 else bc_generation c),
        bc_availability := (if bc_availability c = BranchClaimAvailability_other [] then BranchClaimAvailable
                            else bc_availability c),
        bc_blocked_reason := TrimSpace (bc_blocked_reason c),
        bc_related_publication_id := TrimSpace (bc_related_publication_id c)\<rparr>)"

definition NormalizeBranchClaimForCreate ::
  "env \<Rightarrow> BranchClaim option \<Rightarrow> ControllerEpochFence \<Rightarrow> store_error + BranchClaim \<times> ControllerEpochFence" where
  "NormalizeBranchClaimForCreate e claim fence =
     (case claim of
        None \<Rightarrow> Inl ErrValidation
      | Some claim' \<Rightarrow>
        (let c = claim_defaults e claim' in checks
          [ValidateControlIdentifier (bc_repository_id c),
           ValidateFullBranchRef (bc_ref c),
           fail_if ErrValidation (bc_id c \<noteq> CanonicalControlID e ''branch-claim'' [bc_repository_id c, bc_ref c]),
           fail_if ErrValidation (bc_owner_kind c \<noteq> BranchClaimOwnerTask \<and> bc_owner_kind c \<noteq> BranchClaimOwnerSession),
           ValidateControlIdentifier (bc_owner_uid c),
           fail_if ErrValidation (bc_generation c \<noteq> 1),
           ValidateRemoteRefState (bc_last_verified c),
           fail_if ErrValidation (\<not> IsKnownBranchClaimAvailability (bc_availability c)),
           fail_if ErrValidation (bc_availability c = BranchClaimAvailable \<and>
             (bc_blocked_reason c \<noteq> [] \<or> bc_related_publication_id c \<noteq> [])),
           fail_if ErrValidation (bc_availability c = BranchClaimReconciliationBlocked \<and> bc_blocked_reason c = []),
           ValidateControlReason (bc_blocked_reason c),
           ValidateCanonicalDigest (bc_request_digest c)]
          (case NormalizeEpochFence fence of
             Inl x \<Rightarrow> Inl x
           | Inr f \<Rightarrow> checks [fail_if ErrValidation (bc_version c \<noteq> 0 \<and> bc_version c \<noteq> 1)]
               (let now = NormalizeControlTime e (bc_created_at c) in
                Inr (c\<lparr>bc_created_at := now,
                       bc_updated_at := (if time_is_zero (bc_updated_at c) then now else bc_updated_at c),
                       bc_controller_epoch_name := cf_name f, bc_controller_epoch := cf_epoch f,
                       bc_version := 1, bc_last_operation_id := [], bc_last_operation_digest := []\<rparr>, f)))))"

definition NormalizeBranchClaimReclamationRequest ::
  "env \<Rightarrow> ReclaimBranchClaimRequest \<Rightarrow> store_error + ReclaimBranchClaimRequest" where
  "NormalizeBranchClaimReclamationRequest e request =
     (let r = request\<lparr>br_id := TrimSpace (br_id request),
          br_expected_repository_id := TrimSpace (br_expected_repository_id request),
          br_expected_ref := TrimSpace (br_expected_ref request),
          br_expected_owner_uid := TrimSpace (br_expected_owner_uid request),
          br_expected_request_digest := TrimSpace (br_expected_request_digest request)\<rparr> in
      checks
       [ValidateControlIdentifier (br_id r),
        ValidateControlIdentifier (br_expected_repository_id r),
        ValidateFullBranchRef (br_expected_ref r),
        fail_if ErrValidation
          (br_id r \<noteq> CanonicalControlID e ''branch-claim'' [br_expected_repository_id r, br_expected_ref r]),
        fail_if ErrValidation (br_expected_owner_kind r \<noteq> BranchClaimOwnerTask \<and>
          br_expected_owner_kind r \<noteq> BranchClaimOwnerSession),
        ValidateControlIdentifier (br_expected_owner_uid r),
        fail_if ErrValidation (br_expected_version r < 1 \<or> br_expected_generation r < 1),
        ValidateRemoteRefState (br_expected_last_verified r),
        fail_if ErrValidation (br_expected_availability r \<noteq> BranchClaimAvailable),
        ValidateCanonicalDigest (br_expected_request_digest r)]
       (case NormalizeEpochFence (br_fence r) of
          Inl x \<Rightarrow> Inl x
        | Inr f \<Rightarrow> Inr (r\<lparr>br_fence := f\<rparr>)))"

definition BranchClaimReclamationIdentityReplaced :: "BranchClaim \<Rightarrow> ReclaimBranchClaimRequest \<Rightarrow> bool" where
  "BranchClaimReclamationIdentityReplaced c r \<longleftrightarrow>
     bc_owner_kind c \<noteq> br_expected_owner_kind r \<or> bc_owner_uid c \<noteq> br_expected_owner_uid r \<or>
     bc_request_digest c \<noteq> br_expected_request_digest r"

definition BranchClaimMatchesReclamation :: "BranchClaim \<Rightarrow> ReclaimBranchClaimRequest \<Rightarrow> bool" where
  "BranchClaimMatchesReclamation c r \<longleftrightarrow>
     bc_id c = br_id r \<and> bc_repository_id c = br_expected_repository_id r \<and> bc_ref c = br_expected_ref r \<and>
     bc_owner_kind c = br_expected_owner_kind r \<and> bc_owner_uid c = br_expected_owner_uid r \<and>
     bc_generation c = br_expected_generation r \<and> bc_last_verified c = br_expected_last_verified r \<and>
     bc_availability c = br_expected_availability r \<and> bc_blocked_reason c = [] \<and>
     bc_related_publication_id c = [] \<and> bc_request_digest c = br_expected_request_digest r \<and>
     bc_version c = br_expected_version r"

definition validateBranchClaimCAS :: "env \<Rightarrow> BranchClaimCAS \<Rightarrow> store_error + BranchClaimCAS" where
  "validateBranchClaimCAS e change =
     (let cid = TrimSpace (bx_id change) in
      checks [ValidateControlIdentifier cid]
       (case NormalizeEpochFence (bx_fence change) of
          Inl x \<Rightarrow> Inl x
        | Inr f \<Rightarrow>
          (let c = change\<lparr>bx_id := cid, bx_fence := f,
               bx_blocked_reason := TrimSpace (bx_blocked_reason change),
               bx_related_publication_id := TrimSpace (bx_related_publication_id change),
               bx_operation_id := TrimSpace (bx_operation_id change)\<rparr> in
           checks
            [fail_if ErrValidation (bx_expected_version c < 1 \<or> bx_expected_generation c < 1),
             fail_if ErrValidation (bx_new_generation c \<noteq> bx_expected_generation c \<and>
               bx_new_generation c \<noteq> bx_expected_generation c + 1),
             ValidateRemoteRefState (bx_expected_last_verified c),
             ValidateRemoteRefState (bx_new_last_verified c),
             fail_if ErrValidation (\<not> IsKnownBranchClaimAvailability (bx_expected_availability c) \<or>
               \<not> IsKnownBranchClaimAvailability (bx_new_availability c)),
             ValidateControlReason (bx_blocked_reason c),
             fail_if ErrValidation (bx_new_availability c = BranchClaimAvailable \<and>
               (bx_blocked_reason c \<noteq> [] \<or> bx_related_publication_id c \<noteq> [])),
             fail_if ErrValidation (bx_new_availability c = BranchClaimReconciliationBlocked \<and>
               bx_blocked_reason c = []),
             (if bx_related_publication_id c \<noteq> [] then ValidateControlIdentifier (bx_related_publication_id c)
              else None),
             ValidateControlIdentifier (bx_operation_id c),
             ValidateCanonicalDigest (bx_operation_digest c)]
            (Inr (c\<lparr>bx_updated_at := NormalizeControlTime e (bx_updated_at c)\<rparr>)))))"

section \<open>Operations\<close>

definition getBranchClaim :: "string \<Rightarrow> db \<Rightarrow> BranchClaim option" where
  "getBranchClaim cid d = find_row bc_id cid (branch_claims d)"

definition GetBranchClaim :: "string \<Rightarrow> db \<Rightarrow> store_error + BranchClaim" where
  "GetBranchClaim cid d = checks [ValidateControlIdentifier (TrimSpace cid)]
     (case getBranchClaim (TrimSpace cid) d of None \<Rightarrow> Inl ErrNotFound | Some c \<Rightarrow> Inr c)"

definition sameBranchClaimCreation :: "BranchClaim \<Rightarrow> BranchClaim \<Rightarrow> bool" where
  "sameBranchClaimCreation a b \<longleftrightarrow>
     bc_id a = bc_id b \<and> bc_repository_id a = bc_repository_id b \<and> bc_ref a = bc_ref b \<and>
     bc_owner_kind a = bc_owner_kind b \<and> bc_owner_uid a = bc_owner_uid b \<and>
     bc_request_digest a = bc_request_digest b"

definition create_claim_body :: "BranchClaim \<Rightarrow> db \<Rightarrow> (BranchClaim \<times> bool, db) tx_result" where
  "create_claim_body n d =
     (case getBranchClaim (bc_id n) d of
        Some existing \<Rightarrow>
          if sameBranchClaimCreation existing n then ReturnTx (existing, False) else Abort ErrConflict
      | None \<Rightarrow>
          (case sql_insert branch_claims_check branch_claim_clash n (branch_claims d) of
             None \<Rightarrow>
               (case getBranchClaim (bc_id n) d of
                  Some existing \<Rightarrow>
                    if sameBranchClaimCreation existing n then ReturnTx (existing, False) else Abort ErrConflict
                | None \<Rightarrow> Abort ErrConflict)
           | Some t \<Rightarrow> Commit (n, True) (d\<lparr>branch_claims := t\<rparr>)))"

definition CreateBranchClaimWithResult ::
  "env \<Rightarrow> BranchClaim option \<times> ControllerEpochFence \<Rightarrow> db \<Rightarrow> (store_error + BranchClaim \<times> bool) \<times> db" where
  "CreateBranchClaimWithResult e q = validated (NormalizeBranchClaimForCreate e (fst q) (snd q))
     (\<lambda>(n, f). with_tx_recover (env_fault e)
       (\<lambda>d. guards [requireControllerEpoch d f] (create_claim_body n d))
       (\<lambda>d. case getBranchClaim (bc_id n) d of
              Some existing \<Rightarrow> if sameBranchClaimCreation existing n then Inr (existing, False) else Inl ErrDriver
            | None \<Rightarrow> Inl ErrDriver))"

definition CreateBranchClaim ::
  "env \<Rightarrow> BranchClaim option \<times> ControllerEpochFence \<Rightarrow> db \<Rightarrow> (store_error + BranchClaim) \<times> db" where
  "CreateBranchClaim e q d = apfst (map_sum id fst) (CreateBranchClaimWithResult e q d)"

definition reclaim_claim_body :: "ReclaimBranchClaimRequest \<Rightarrow> db \<Rightarrow> (unit, db) tx_result" where
  "reclaim_claim_body q d =
     (case getBranchClaim (br_id q) d of
        None \<Rightarrow> ReturnTx ()
      | Some claim \<Rightarrow>
          if BranchClaimReclamationIdentityReplaced claim q then ReturnTx ()
          else if \<not> BranchClaimMatchesReclamation claim q then Abort ErrConflict
          else
            (let W = (\<lambda>c. bc_id c = br_id q \<and> bc_repository_id c = br_expected_repository_id q \<and>
                   bc_ref c = br_expected_ref q \<and> bc_owner_kind c = br_expected_owner_kind q \<and>
                   bc_owner_uid c = br_expected_owner_uid q \<and> bc_generation c = br_expected_generation q \<and>
                   rr_absent (bc_last_verified c) = rr_absent (br_expected_last_verified q) \<and>
                   rr_sha (bc_last_verified c) = rr_sha (br_expected_last_verified q) \<and>
                   bc_availability c = br_expected_availability q \<and> bc_blocked_reason c = [] \<and>
                   bc_related_publication_id c = [] \<and> bc_request_digest c = br_expected_request_digest q \<and>
                   bc_version c = br_expected_version q);
                 deleted = sql_delete W (branch_claims d)
             in if list_ex (\<lambda>p. list_ex (\<lambda>c. W c \<and> bc_id c = pb_branch_claim_id p) (branch_claims d)) (publications d)
                then Abort ErrDriver
                else if snd deleted \<noteq> 1 then
                  (case find_row bc_id (br_id q) (fst deleted) of
                     None \<Rightarrow> ReturnTx ()
                   | Some latest \<Rightarrow>
                       if BranchClaimReclamationIdentityReplaced latest q then ReturnTx () else Abort ErrConflict)
                else Commit () (d\<lparr>branch_claims := fst deleted\<rparr>)))"

definition ReclaimBranchClaim ::
  "env \<Rightarrow> ReclaimBranchClaimRequest \<Rightarrow> db \<Rightarrow> (store_error + unit) \<times> db" where
  "ReclaimBranchClaim e request = validated (NormalizeBranchClaimReclamationRequest e request)
     (\<lambda>q. fenced_tx e (br_fence q) (reclaim_claim_body q))"

text \<open>The \<^verbatim>\<open>SET\<close> clause of the statement, and the assignments to the returned struct.\<close>

definition cas_claim_set :: "BranchClaimCAS \<Rightarrow> BranchClaim \<Rightarrow> BranchClaim" where
  "cas_claim_set q c =
     c\<lparr>bc_generation := bx_new_generation q,
       bc_last_verified := \<lparr>rr_absent = rr_absent (bx_new_last_verified q), rr_sha = rr_sha (bx_new_last_verified q)\<rparr>,
       bc_availability := bx_new_availability q, bc_blocked_reason := bx_blocked_reason q,
       bc_related_publication_id := bx_related_publication_id q,
       bc_controller_epoch_name := cf_name (bx_fence q), bc_controller_epoch := cf_epoch (bx_fence q),
       bc_last_operation_id := bx_operation_id q, bc_last_operation_digest := bx_operation_digest q,
       bc_version := bc_version c + 1, bc_updated_at := bx_updated_at q\<rparr>"

definition cas_claim_result :: "BranchClaimCAS \<Rightarrow> BranchClaim \<Rightarrow> BranchClaim" where
  "cas_claim_result q c =
     c\<lparr>bc_generation := bx_new_generation q, bc_last_verified := bx_new_last_verified q,
       bc_availability := bx_new_availability q, bc_blocked_reason := bx_blocked_reason q,
       bc_related_publication_id := bx_related_publication_id q,
       bc_controller_epoch_name := cf_name (bx_fence q), bc_controller_epoch := cf_epoch (bx_fence q),
       bc_last_operation_id := bx_operation_id q, bc_last_operation_digest := bx_operation_digest q,
       bc_version := bc_version c + 1, bc_updated_at := bx_updated_at q\<rparr>"

definition cas_claim_body :: "BranchClaimCAS \<Rightarrow> db \<Rightarrow> (BranchClaim, db) tx_result" where
  "cas_claim_body q d = fetch bc_id (bx_id q) (branch_claims d) (\<lambda>claim.
     if bc_last_operation_id claim = bx_operation_id q then
       guards [fail_if ErrConflict (bc_last_operation_digest claim \<noteq> bx_operation_digest q)]
        (if bc_generation claim = bx_new_generation q \<and> bc_last_verified claim = bx_new_last_verified q \<and>
            bc_availability claim = bx_new_availability q \<and> bc_blocked_reason claim = bx_blocked_reason q \<and>
            bc_related_publication_id claim = bx_related_publication_id q
         then ReturnTx claim else Abort ErrConflict)
     else guards
       [fail_if ErrConflict (bc_version claim \<noteq> bx_expected_version q \<or>
          bc_generation claim \<noteq> bx_expected_generation q \<or>
          bc_last_verified claim \<noteq> bx_expected_last_verified q \<or>
          bc_availability claim \<noteq> bx_expected_availability q)]
       (update_one branch_claims_check
         (\<lambda>c. bc_id c = bx_id q \<and> bc_version c = bx_expected_version q \<and>
            bc_generation c = bx_expected_generation q \<and>
            rr_absent (bc_last_verified c) = rr_absent (bx_expected_last_verified q) \<and>
            rr_sha (bc_last_verified c) = rr_sha (bx_expected_last_verified q) \<and>
            bc_availability c = bx_expected_availability q)
         (cas_claim_set q) (branch_claims d)
         (\<lambda>t. Commit (cas_claim_result q claim) (d\<lparr>branch_claims := t\<rparr>))))"

definition CompareAndSwapBranchClaim ::
  "env \<Rightarrow> BranchClaimCAS \<Rightarrow> db \<Rightarrow> (store_error + BranchClaim) \<times> db" where
  "CompareAndSwapBranchClaim e change = validated (validateBranchClaimCAS e change)
     (\<lambda>q. fenced_tx e (bx_fence q) (cas_claim_body q))"

section \<open>Compare-and-swap\<close>

lemma cas_claim_set_result: "cas_claim_set q c = cas_claim_result q c"
  by (simp add: cas_claim_set_def cas_claim_result_def)

lemma cas_claim_result_kept [simp]:
  "bc_id (cas_claim_result q c) = bc_id c" "bc_repository_id (cas_claim_result q c) = bc_repository_id c"
  "bc_ref (cas_claim_result q c) = bc_ref c" "bc_owner_kind (cas_claim_result q c) = bc_owner_kind c"
  "bc_owner_uid (cas_claim_result q c) = bc_owner_uid c"
  "bc_request_digest (cas_claim_result q c) = bc_request_digest c"
  "bc_version (cas_claim_result q c) = bc_version c + 1"
  "bc_generation (cas_claim_result q c) = bx_new_generation q"
  by (simp_all add: cas_claim_result_def)

lemma cas_claim_commit:
  assumes ok: "db_ok d" and body: "cas_claim_body q d = Commit a d'"
  obtains c where "find_row bc_id (bx_id q) (branch_claims d) = Some c"
    "bc_last_operation_id c \<noteq> bx_operation_id q"
    "bc_version c = bx_expected_version q" "bc_generation c = bx_expected_generation q"
    "bc_last_verified c = bx_expected_last_verified q" "bc_availability c = bx_expected_availability q"
    "a = cas_claim_result q c" "branch_claims_check a"
    "d' = d\<lparr>branch_claims := put_row bc_id (bx_id q) a (branch_claims d)\<rparr>"
proof -
  from body obtain c where row: "find_row bc_id (bx_id q) (branch_claims d) = Some c"
    unfolding cas_claim_body_def by (elim fetch_CommitE)
  with body have "\<exists>t. bc_last_operation_id c \<noteq> bx_operation_id q \<and>
    bc_version c = bx_expected_version q \<and> bc_generation c = bx_expected_generation q \<and>
    bc_last_verified c = bx_expected_last_verified q \<and> bc_availability c = bx_expected_availability q \<and>
    a = cas_claim_result q c \<and>
    d' = d\<lparr>branch_claims := t\<rparr> \<and>
    sql_update branch_claims_check
         (\<lambda>c. bc_id c = bx_id q \<and> bc_version c = bx_expected_version q \<and>
            bc_generation c = bx_expected_generation q \<and>
            rr_absent (bc_last_verified c) = rr_absent (bx_expected_last_verified q) \<and>
            rr_sha (bc_last_verified c) = rr_sha (bx_expected_last_verified q) \<and>
            bc_availability c = bx_expected_availability q)
         (cas_claim_set q) (branch_claims d) = Some (t, 1)"
    unfolding cas_claim_body_def by (elim fetch_CommitE) (auto split: if_splits)
  with row obtain t where c: "find_row bc_id (bx_id q) (branch_claims d) = Some c"
    "bc_last_operation_id c \<noteq> bx_operation_id q"
    "bc_version c = bx_expected_version q" "bc_generation c = bx_expected_generation q"
    "bc_last_verified c = bx_expected_last_verified q" "bc_availability c = bx_expected_availability q"
    "a = cas_claim_result q c" "d' = d\<lparr>branch_claims := t\<rparr>" and
    upd: "sql_update branch_claims_check
         (\<lambda>c. bc_id c = bx_id q \<and> bc_version c = bx_expected_version q \<and>
            bc_generation c = bx_expected_generation q \<and>
            rr_absent (bc_last_verified c) = rr_absent (bx_expected_last_verified q) \<and>
            rr_sha (bc_last_verified c) = rr_sha (bx_expected_last_verified q) \<and>
            bc_availability c = bx_expected_availability q)
         (cas_claim_set q) (branch_claims d) = Some (t, 1)" by blast
  from claims.update_result [OF db_ok_tables(7) [OF ok] c(1) _ upd] c that show ?thesis
    by (auto simp: cas_claim_set_result)
qed

lemma put_claim_ok:
  assumes ok: "db_ok d" and get: "find_row bc_id cid (branch_claims d) = Some c"
    and chk: "branch_claims_check c'" and kept: "bc_id c' = bc_id c"
      "bc_repository_id c' = bc_repository_id c" "bc_ref c' = bc_ref c"
  shows "db_ok (d\<lparr>branch_claims := put_row bc_id cid c' (branch_claims d)\<rparr>)"
proof (rule db_ok_set_claims [OF ok])
  show "claims.table_ok (put_row bc_id cid c' (branch_claims d))"
    using kept by (intro claims.put_row_ok [OF db_ok_tables(7) [OF ok] get chk])
      (auto simp: branch_claim_clash_def)
  have "bc_id c' = cid" using kept find_row_SomeD [OF get] by simp
  then show "find_row bc_id (pb_branch_claim_id p) (put_row bc_id cid c' (branch_claims d)) \<noteq> None"
    if "p \<in> set (publications d)" for p
    using db_ok_foreign_key [OF ok that] by (metis find_row_put_row_None)
qed

lemma cas_claim_ok:
  assumes ok: "db_ok d" and body: "cas_claim_body q d = Commit a d'"
  shows "db_ok d'"
  using body by (rule cas_claim_commit [OF ok]) (auto intro: put_claim_ok [OF ok])

lemma validated_claim_cas:
  assumes "validateBranchClaimCAS e q = Inr c"
  shows "bx_id c = TrimSpace (bx_id q)" "NormalizeEpochFence (bx_fence q) = Inr (bx_fence c)"
    "bx_expected_version c = bx_expected_version q" "bx_new_generation c = bx_new_generation q"
    "bx_expected_generation c = bx_expected_generation q" "bx_operation_id c = TrimSpace (bx_operation_id q)"
    "bx_new_generation c = bx_expected_generation c \<or> bx_new_generation c = bx_expected_generation c + 1"
  using assms by (auto simp: validateBranchClaimCAS_def Let_def split: sum.splits)

interpretation cas_claim: validated_cas CompareAndSwapBranchClaim validateBranchClaimCAS bx_fence bx_fence
  cas_claim_body branch_claims bc_id "\<lambda>c. c" bc_version "\<lambda>q. TrimSpace (bx_id q)" bx_expected_version
  bx_id bx_expected_version
proof
  fix e q c d a d'
  show "CompareAndSwapBranchClaim e q d =
      validated (validateBranchClaimCAS e q) (\<lambda>c. fenced_tx e (bx_fence c) (cas_claim_body c)) d"
    by (simp add: CompareAndSwapBranchClaim_def)
  show "cas_claim_body c d = Commit a d' \<Longrightarrow> controller_epochs d' = controller_epochs d"
    by (auto simp: cas_claim_body_def split: if_splits)
  show "cas_claim_body c d = ReturnTx a \<Longrightarrow> \<exists>r. find_row bc_id (bx_id c) (branch_claims d) = Some r \<and> a = r"
    by (auto simp: cas_claim_body_def split: if_splits)
  assume "db_ok d" "cas_claim_body c d = Commit a d'"
  then show "\<exists>r r'. find_row bc_id (bx_id c) (branch_claims d) = Some r \<and> bc_version r = bx_expected_version c \<and>
      bc_version r' = bc_version r + 1 \<and> bc_id r' = bx_id c \<and> a = r' \<and>
      branch_claims d' = put_row bc_id (bx_id c) r' (branch_claims d)"
    by (rule cas_claim_commit) (use find_row_SomeD in fastforce)
qed (auto dest: validated_claim_cas cas_claim_ok)

section \<open>Creation\<close>

lemma known_availability:
  "IsKnownBranchClaimAvailability a \<longleftrightarrow> a = BranchClaimAvailable \<or> a = BranchClaimReconciliationBlocked"
  by (cases a) simp_all

lemma normalized_claim:
  assumes "NormalizeBranchClaimForCreate e c f = Inr (n, f')"
  shows "NormalizeEpochFence f = Inr f'"
    "bc_id n = CanonicalControlID e ''branch-claim'' [bc_repository_id n, bc_ref n]"
    "bc_version n = 1" "bc_generation n = 1" "branch_claims_check n"
  using assms
  by (auto simp: NormalizeBranchClaimForCreate_def Let_def branch_claims_check_def known_availability
      ValidateRemoteRefState_def dest: normalized_fence(4) split: option.splits sum.splits)

lemma create_claim_return:
  "create_claim_body n d = ReturnTx (c, fresh) \<Longrightarrow>
   \<not> fresh \<and> getBranchClaim (bc_id n) d = Some c \<and> sameBranchClaimCreation c n"
  by (auto simp: create_claim_body_def split: option.splits if_splits)

lemma create_claim_commit:
  "create_claim_body n d = Commit (c, fresh) d' \<Longrightarrow>
   fresh \<and> c = n \<and> getBranchClaim (bc_id n) d = None \<and>
   (\<exists>t. sql_insert branch_claims_check branch_claim_clash n (branch_claims d) = Some t \<and>
        d' = d\<lparr>branch_claims := t\<rparr>)"
  by (auto simp: create_claim_body_def split: option.splits if_splits)

text \<open>The two ways a creation succeeds.\<close>

lemma create_claim_success:
  assumes "CreateBranchClaimWithResult e q d = (Inr (c, fresh), d')"
  obtains (existing) n f where "NormalizeBranchClaimForCreate e (fst q) (snd q) = Inr (n, f)"
      "requireControllerEpoch d f = None" "\<not> fresh" "d' = d"
      "getBranchClaim (bc_id n) d = Some c" "sameBranchClaimCreation c n"
  | (inserted) n f t where "NormalizeBranchClaimForCreate e (fst q) (snd q) = Inr (n, f)"
      "requireControllerEpoch d f = None" "fresh" "c = n" "getBranchClaim (bc_id n) d = None"
      "sql_insert branch_claims_check branch_claim_clash n (branch_claims d) = Some t"
      "d' = d\<lparr>branch_claims := t\<rparr>"
proof -
  from assms obtain n f where n: "NormalizeBranchClaimForCreate e (fst q) (snd q) = Inr (n, f)"
    and run: "with_tx_recover (env_fault e)
       (\<lambda>d. guards [requireControllerEpoch d f] (create_claim_body n d))
       (\<lambda>d. case getBranchClaim (bc_id n) d of
              Some existing \<Rightarrow> if sameBranchClaimCreation existing n then Inr (existing, False) else Inl ErrDriver
            | None \<Rightarrow> Inl ErrDriver) d = (Inr (c, fresh), d')"
    by (auto simp: CreateBranchClaimWithResult_def)
  from with_tx_recover_ok [OF run]
  have "requireControllerEpoch d f = None \<and>
    (create_claim_body n d = ReturnTx (c, fresh) \<and> d' = d \<or> create_claim_body n d = Commit (c, fresh) d')"
    by (auto split: option.splits if_splits dest: create_claim_commit)
  then show thesis
    using n existing inserted create_claim_return [of n d c fresh] create_claim_commit [of n d c fresh d']
    by blast
qed

lemma create_claim_error: "CreateBranchClaimWithResult e q d = (Inl x, d') \<Longrightarrow> d' = d"
  by (auto simp: CreateBranchClaimWithResult_def validated_def split: sum.splits
      dest: with_tx_recover_error)

lemma create_claim_run:
  assumes "CreateBranchClaim e q d = (Inr a, d')"
  obtains fresh where "CreateBranchClaimWithResult e q d = (Inr (a, fresh), d')"
  using assms by (cases "CreateBranchClaimWithResult e q d"; cases "fst (CreateBranchClaimWithResult e q d)")
    (auto simp: CreateBranchClaim_def)

interpretation create_claim: create_operation CreateBranchClaim snd branch_claims bc_id bc_id
proof
  fix e d a d' x and q :: "BranchClaim option \<times> ControllerEpochFence"
  show "CreateBranchClaim e q d = (Inl x, d') \<Longrightarrow> d' = d"
    by (cases "CreateBranchClaimWithResult e q d"; cases "fst (CreateBranchClaimWithResult e q d)")
      (auto simp: CreateBranchClaim_def dest: create_claim_error)
  assume "CreateBranchClaim e q d = (Inr a, d')"
  then obtain fresh where run: "CreateBranchClaimWithResult e q d = (Inr (a, fresh), d')"
    by (rule create_claim_run)
  show "current_epoch d = Some (fence_epoch (snd q))"
    using run by (rule create_claim_success)
      (metis normalized_claim(1) requireControllerEpoch_None requireControllerEpoch_normalized)+
  show "controller_epochs d' = controller_epochs d"
    using run by (rule create_claim_success) auto
  assume "db_ok d"
  show "d' = d \<and> find_row bc_id (bc_id a) (branch_claims d) \<noteq> None \<or>
    (\<exists>r. find_row bc_id (bc_id r) (branch_claims d) = None \<and> branch_claims d' = branch_claims d @ [r] \<and>
      bc_id r = bc_id a)"
    using run by (rule create_claim_success)
      (auto simp: getBranchClaim_def sql_insert_def sameBranchClaimCreation_def split: if_splits)
qed

lemma create_claim_ok:
  assumes ok: "db_ok d" and run: "CreateBranchClaimWithResult e q d = (Inr (c, fresh), d')"
  shows "db_ok d'"
  using run
proof (rule create_claim_success)
  fix n f t
  assume "getBranchClaim (bc_id n) d = None"
    and ins: "sql_insert branch_claims_check branch_claim_clash n (branch_claims d) = Some t"
    and d': "d' = d\<lparr>branch_claims := t\<rparr>"
  have "db_ok (d\<lparr>branch_claims := t\<rparr>)"
  proof (rule db_ok_set_claims [OF ok claims.insert_ok [OF db_ok_tables(7) [OF ok] ins]])
    fix p assume "p \<in> set (publications d)"
    then show "find_row bc_id (pb_branch_claim_id p) t \<noteq> None"
      using db_ok_foreign_key [OF ok] ins
      by (auto simp: sql_insert_def find_row_append split: if_splits option.splits)
  qed
  with d' show ?thesis by simp
qed (use ok in simp)

section \<open>Reclamation\<close>

lemma reclaim_commit:
  assumes ok: "db_ok d" and body: "reclaim_claim_body q d = Commit x d'"
  obtains c t where "getBranchClaim (br_id q) d = Some c" "BranchClaimMatchesReclamation c q"
    "d' = d\<lparr>branch_claims := t\<rparr>" "claims.table_ok t"
    "\<And>k. find_row bc_id k t = (if k = br_id q then None else find_row bc_id k (branch_claims d))"
    "\<And>p. p \<in> set (publications d) \<Longrightarrow> pb_branch_claim_id p \<noteq> br_id q"
proof -
  define W :: "BranchClaim \<Rightarrow> bool" where "W = (\<lambda>c. bc_id c = br_id q \<and> bc_repository_id c = br_expected_repository_id q \<and>
                   bc_ref c = br_expected_ref q \<and> bc_owner_kind c = br_expected_owner_kind q \<and>
                   bc_owner_uid c = br_expected_owner_uid q \<and> bc_generation c = br_expected_generation q \<and>
                   rr_absent (bc_last_verified c) = rr_absent (br_expected_last_verified q) \<and>
                   rr_sha (bc_last_verified c) = rr_sha (br_expected_last_verified q) \<and>
                   bc_availability c = br_expected_availability q \<and> bc_blocked_reason c = [] \<and>
                   bc_related_publication_id c = [] \<and> bc_request_digest c = br_expected_request_digest q \<and>
                   bc_version c = br_expected_version q)"
  from body obtain c where c: "getBranchClaim (br_id q) d = Some c" "BranchClaimMatchesReclamation c q"
    and fk: "\<not> list_ex (\<lambda>p. list_ex (\<lambda>c. W c \<and> bc_id c = pb_branch_claim_id p) (branch_claims d)) (publications d)"
    and d': "d' = d\<lparr>branch_claims := fst (sql_delete W (branch_claims d))\<rparr>"
    by (auto simp: reclaim_claim_body_def Let_def W_def split: option.splits if_splits)
  have get: "find_row bc_id (br_id q) (branch_claims d) = Some c" using c(1) by (simp add: getBranchClaim_def)
  have "W c" using c(2) by (simp add: W_def BranchClaimMatchesReclamation_def)
  have W_id: "W x \<Longrightarrow> bc_id x = br_id q" for x by (simp add: W_def)
  show thesis
  proof (rule that [OF c d' claims.delete_ok [OF db_ok_tables(7) [OF ok]]])
    fix k
    show "find_row bc_id k (fst (sql_delete W (branch_claims d))) =
      (if k = br_id q then None else find_row bc_id k (branch_claims d))"
      using get \<open>W c\<close> W_id
      by (auto simp: claims.delete_find [OF db_ok_tables(7) [OF ok]] split: option.splits
          dest: find_row_SomeD)
  next
    fix p assume "p \<in> set (publications d)"
    then show "pb_branch_claim_id p \<noteq> br_id q"
      using fk \<open>W c\<close> W_id find_row_SomeD [OF get] by (auto simp: list_ex_iff)
  qed
qed

lemma normalized_reclaim:
  assumes "NormalizeBranchClaimReclamationRequest e q = Inr r"
  shows "NormalizeEpochFence (br_fence q) = Inr (br_fence r)" "br_id r = TrimSpace (br_id q)"
    "br_expected_availability r = BranchClaimAvailable"
  using assms by (auto simp: NormalizeBranchClaimReclamationRequest_def Let_def split: sum.splits)

lemma reclaim_ok:
  assumes ok: "db_ok d" and body: "reclaim_claim_body r d = Commit x d'"
  shows "db_ok d'"
  using body
  by (rule reclaim_commit [OF ok]) (auto intro!: db_ok_set_claims [OF ok] dest: db_ok_foreign_key [OF ok])

interpretation reclaim_claim: validated_operation ReclaimBranchClaim
  NormalizeBranchClaimReclamationRequest br_fence br_fence reclaim_claim_body
proof
  fix e q c d a d'
  show "ReclaimBranchClaim e q d =
      validated (NormalizeBranchClaimReclamationRequest e q) (\<lambda>c. fenced_tx e (br_fence c) (reclaim_claim_body c)) d"
    by (simp add: ReclaimBranchClaim_def)
  show "reclaim_claim_body c d = Commit a d' \<Longrightarrow> controller_epochs d' = controller_epochs d"
    by (auto simp: reclaim_claim_body_def Let_def split: option.splits if_splits)
qed (auto dest: normalized_reclaim reclaim_ok)

section \<open>Properties\<close>

text \<open>
  Reclaiming a branch claim that is present and unreplaced removes exactly that claim: it matched
  every field the request expected, was not blocked, no publication refers to it, and every other
  claim and every publication stays.
\<close>

theorem claim_reclaim_exact:
  assumes ok: "db_ok d" and run: "ReclaimBranchClaim e q d = (Inr x, d')"
  shows "d' = d \<or>
    (\<exists>c n. NormalizeBranchClaimReclamationRequest e q = Inr n \<and>
       find_row bc_id (br_id n) (branch_claims d) = Some c \<and> BranchClaimMatchesReclamation c n \<and>
       (\<forall>k. find_row bc_id k (branch_claims d') =
          (if k = br_id n then None else find_row bc_id k (branch_claims d))) \<and>
       publications d' = publications d \<and>
       list_all (\<lambda>p. pb_branch_claim_id p \<noteq> br_id n) (publications d))"
proof -
  from run obtain n where n: "NormalizeBranchClaimReclamationRequest e q = Inr n"
    "reclaim_claim_body n d = ReturnTx x \<and> d' = d \<or> reclaim_claim_body n d = Commit x d'"
    by (rule reclaim_claim.success)
  from n(2) show ?thesis
  proof
    assume "reclaim_claim_body n d = Commit x d'"
    then show ?thesis
      by (rule reclaim_commit [OF ok])
        (use n(1) in \<open>auto simp: getBranchClaim_def list_all_iff intro!: exI [where x = n]\<close>)
  qed simp
qed

end
