(* ===== verification/Session_Lease.thy ===== *)
theory Session_Lease
  imports Branch_Claim
begin

text \<open>
  Session control records and their mutation lease: the operations of
  \<^verbatim>\<open>internal/store/sqlite/session_control_store.go\<close> up to reconciliation, with the normalisation of
  \<^verbatim>\<open>internal/store/control_normalize.go\<close> and the release digest of \<^verbatim>\<open>internal/store/control_types.go\<close>.

  The table keeps the lease and the verified baseline in flat columns; \<open>scanSessionControl\<close> is the
  struct a row is read into.  The legacy \<^verbatim>\<open>active_task\<close> lock of the \<^verbatim>\<open>sessions\<close> table is taken and
  given back in the same transactions.  Session lineage is a matter of the Kubernetes store; this
  store neither reads nor writes it.

  The theorems show that a session has at most one lease, that a lease is only given on an available
  session without one, that its generation is larger than every earlier one and never decreases, and
  that a reconciliation moves the session and its branch claim together.
\<close>

section \<open>Requests\<close>

record AcquireSessionMutationLeaseRequest =
  aq_namespace :: string
  aq_session_name :: string
  aq_session_uid :: string
  aq_fence :: ControllerEpochFence
  aq_expected_version :: int
  aq_expected_lease_generation :: int
  aq_task_uid :: string
  aq_attempt :: int
  aq_prompt_id :: string
  aq_request_digest :: string
  aq_acquired_at :: gotime
  aq_expires_at :: "gotime option"

record CommitSessionRuntimeGenerationRequest =
  cg_namespace :: string
  cg_session_name :: string
  cg_session_uid :: string
  cg_key :: SessionTurnKey
  cg_fence :: ControllerEpochFence
  cg_expected_session_version :: int
  cg_generation :: int
  cg_committed_at :: gotime

record ReleaseSessionMutationLeaseRequest =
  rl_namespace :: string
  rl_session_name :: string
  rl_session_uid :: string
  rl_key :: SessionTurnKey
  rl_fence :: ControllerEpochFence
  rl_expected_session_version :: int
  rl_lease_request_digest :: string
  rl_operation_id :: string
  rl_operation_digest :: string
  rl_released_at :: gotime

record ReconcileSessionControlRequest =
  rc_namespace :: string
  rc_session_name :: string
  rc_session_uid :: string
  rc_fence :: ControllerEpochFence
  rc_expected_version :: int
  rc_expected_lease_generation :: int
  rc_expected_related_publication_id :: string
  rc_branch_claim_id :: string
  rc_expected_branch_claim_version :: int
  rc_expected_branch_claim_generation :: int
  rc_expected_branch_baseline :: RemoteRefState
  rc_verified_baseline :: VerifiedBranchBaseline
  rc_operation_id :: string
  rc_operation_digest :: string
  rc_reconciled_at :: gotime

section \<open>Keys and digests\<close>

definition ValidateSessionTurnKey :: "SessionTurnKey \<Rightarrow> store_error option" where
  "ValidateSessionTurnKey k = first_error
     [ValidateControlIdentifier (tk_session_uid k),
      fail_if ErrValidation (tk_lease_generation k < 1),
      ValidateControlIdentifier (tk_task_uid k),
      fail_if ErrValidation (tk_attempt k < 1),
      ValidateControlIdentifier (tk_prompt_id k)]"

definition session_turn_id :: "env \<Rightarrow> SessionTurnKey \<Rightarrow> string" where
  "session_turn_id e k = CanonicalControlID e ''session-turn''
     [tk_session_uid k, FormatInt (tk_lease_generation k), tk_task_uid k, FormatInt (tk_attempt k), tk_prompt_id k]"

definition SessionTurnKey_CanonicalID :: "env \<Rightarrow> SessionTurnKey \<Rightarrow> store_error + string" where
  "SessionTurnKey_CanonicalID e k = checks [ValidateSessionTurnKey k] (Inr (session_turn_id e k))"

definition ValidateVerifiedBaseline :: "VerifiedBranchBaseline \<Rightarrow> store_error option" where
  "ValidateVerifiedBaseline b = first_error
     [ValidateControlIdentifier (TrimSpace (vb_repository_id b)),
      ValidateFullBranchRef (TrimSpace (vb_ref b)),
      ValidateGitObjectID (vb_sha b)]"

text \<open>
  \<^verbatim>\<open>json.Marshal\<close> of a string that is valid UTF-8: quotes, backslashes, control characters, the HTML
  characters and the separators U+2028 and U+2029 are escaped.
\<close>

definition hex_byte :: "nat \<Rightarrow> string" where
  "hex_byte n = [lower_hex_digits ! (n div 16), lower_hex_digits ! (n mod 16)]"

fun json_escape :: "string \<Rightarrow> string" where
  "json_escape [] = []"
| "json_escape (c # s) =
     (let n = of_char c :: nat in
      if n = 0x22 \<or> n = 0x5C then CHR 0x5C # c # json_escape s
      else if n = 0x08 then CHR 0x5C # CHR ''b'' # json_escape s
      else if n = 0x0C then CHR 0x5C # CHR ''f'' # json_escape s
      else if n = 0x0A then CHR 0x5C # CHR ''n'' # json_escape s
      else if n = 0x0D then CHR 0x5C # CHR ''r'' # json_escape s
      else if n = 0x09 then CHR 0x5C # CHR ''t'' # json_escape s
      else if n < 0x20 \<or> n = 0x3C \<or> n = 0x3E \<or> n = 0x26 then CHR 0x5C # ''u00'' @ hex_byte n @ json_escape s
      else if n = 0xE2 then
        (case s of
           c1 # c2 # rest \<Rightarrow>
             if of_char c1 = (0x80 :: nat) \<and> (of_char c2 = (0xA8 :: nat) \<or> of_char c2 = (0xA9 :: nat))
             then CHR 0x5C # ''u202'' @ [lower_hex_digits ! (of_char c2 mod 16)] @ json_escape rest
             else c # json_escape s
         | _ \<Rightarrow> c # json_escape s)
      else c # json_escape s)"

definition json_string :: "string \<Rightarrow> string" where
  "json_string s = [CHR 0x22] @ json_escape s @ [CHR 0x22]"

text \<open>\<^verbatim>\<open>json.Marshal\<close> of a map with these two keys, which it writes in their order.\<close>

definition release_document :: "string \<Rightarrow> string \<Rightarrow> string" where
  "release_document turnID leaseRequestDigest =
     ''{'' @ json_string ''leaseRequestDigest'' @ '':'' @ json_string leaseRequestDigest @ '','' @
     json_string ''turnID'' @ '':'' @ json_string turnID @ ''}''"

definition SessionLeaseReleaseOperationDigest :: "env \<Rightarrow> string \<Rightarrow> string \<Rightarrow> store_error + string" where
  "SessionLeaseReleaseOperationDigest e turn leaseRequestDigest =
     (let turnID = TrimSpace turn in
      checks [ValidateControlIdentifier turnID, ValidateCanonicalDigest leaseRequestDigest]
       (Inr (''sha256:'' @ env_sha256 e
          (''orka.acp.session-lease-release'' @ [CHR 0x00] @ release_document turnID leaseRequestDigest))))"

section \<open>Reading\<close>

definition scan_lease :: "SessionControlRow \<Rightarrow> SessionMutationLease option" where
  "scan_lease r =
     (if scr_lease_task_uid r \<noteq> [] then
        Some \<lparr>sl_generation = scr_lease_generation r, sl_task_uid = scr_lease_task_uid r,
          sl_attempt = scr_lease_attempt r, sl_prompt_id = scr_lease_prompt_id r,
          sl_request_digest = scr_lease_request_digest r,
          sl_acquired_at = (case scr_lease_acquired_at r of None \<Rightarrow> 0 | Some t \<Rightarrow> t),
          sl_expires_at = scr_lease_expires_at r\<rparr>
      else None)"

definition scan_baseline :: "SessionControlRow \<Rightarrow> VerifiedBranchBaseline option" where
  "scan_baseline r =
     (if scr_verified_repository_id r \<noteq> [] then
        Some \<lparr>vb_repository_id = scr_verified_repository_id r, vb_ref = scr_verified_ref r,
          vb_sha = scr_verified_sha r\<rparr>
      else None)"

definition scanSessionControl :: "SessionControlRow \<Rightarrow> SessionControl" where
  "scanSessionControl r =
     \<lparr>sc_namespace = scr_namespace r, sc_session_name = scr_session_name r, sc_session_uid = scr_session_uid r,
      sc_request_digest = scr_request_digest r, sc_availability = scr_availability r,
      sc_runtime_session_generation = scr_runtime_session_generation r,
      sc_lease_generation = scr_lease_generation r, sc_lease = scan_lease r,
      sc_blocked_reason = scr_blocked_reason r, sc_related_prompt_attempt_id = scr_related_prompt_attempt_id r,
      sc_related_publication_id = scr_related_publication_id r, sc_verified_baseline = scan_baseline r,
      sc_controller_epoch_name = scr_controller_epoch_name r, sc_controller_epoch = scr_controller_epoch r,
      sc_last_operation_id = scr_last_operation_id r, sc_last_operation_digest = scr_last_operation_digest r,
      sc_version = scr_version r, sc_created_at = scr_created_at r, sc_updated_at = scr_updated_at r\<rparr>"

definition getSessionControl :: "string \<Rightarrow> string \<Rightarrow> db \<Rightarrow> SessionControl option" where
  "getSessionControl ns name d =
     map_option scanSessionControl (find_row session_control_pk (ns, name) (session_controls d))"

definition getSessionControlByUID :: "string \<Rightarrow> db \<Rightarrow> SessionControl option" where
  "getSessionControlByUID uid d =
     map_option scanSessionControl (find_row scr_session_uid uid (session_controls d))"

definition GetSessionControl :: "string \<Rightarrow> string \<Rightarrow> db \<Rightarrow> store_error + SessionControl" where
  "GetSessionControl ns name d =
     checks [ValidateControlIdentifier (TrimSpace ns), ValidateControlIdentifier (TrimSpace name)]
      (case getSessionControl (TrimSpace ns) (TrimSpace name) d of
         None \<Rightarrow> Inl ErrNotFound | Some c \<Rightarrow> Inr c)"

definition sessionLeaseMatches :: "SessionMutationLease option \<Rightarrow> SessionTurnKey \<Rightarrow> bool" where
  "sessionLeaseMatches lease k \<longleftrightarrow>
     (case lease of None \<Rightarrow> False
      | Some l \<Rightarrow> sl_generation l = tk_lease_generation k \<and> sl_task_uid l = tk_task_uid k \<and>
          sl_attempt l = tk_attempt k \<and> sl_prompt_id l = tk_prompt_id k)"

section \<open>Creation\<close>

definition control_defaults :: "SessionControl \<Rightarrow> SessionControl" where
  "control_defaults c =
     c\<lparr>sc_namespace := TrimSpace (sc_namespace c), sc_session_name := TrimSpace (sc_session_name c),
       sc_session_uid := TrimSpace (sc_session_uid c),
       sc_availability := (if sc_availability c = SessionAvailability_other [] then SessionAvailable
          else sc_availability c),
       sc_blocked_reason := TrimSpace (sc_blocked_reason c)\<rparr>"

definition NormalizeSessionControlForCreate ::
  "env \<Rightarrow> SessionControl option \<Rightarrow> ControllerEpochFence \<Rightarrow> store_error + SessionControl \<times> ControllerEpochFence" where
  "NormalizeSessionControlForCreate e control fence =
     (case control of
        None \<Rightarrow> Inl ErrValidation
      | Some c0 \<Rightarrow>
        (let c = control_defaults c0 in
         checks
          [ValidateControlIdentifier (sc_namespace c), ValidateControlIdentifier (sc_session_name c),
           ValidateControlIdentifier (sc_session_uid c),
           ValidateCanonicalDigest (sc_request_digest c),
           fail_if ErrValidation (sc_availability c \<noteq> SessionAvailable \<and>
             sc_availability c \<noteq> SessionReconciliationBlocked),
           fail_if ErrValidation (sc_lease c \<noteq> None),
           fail_if ErrValidation (sc_lease_generation c < 0),
           fail_if ErrValidation (sc_availability c = SessionAvailable \<and>
             (sc_blocked_reason c \<noteq> [] \<or> sc_related_prompt_attempt_id c \<noteq> [] \<or> sc_related_publication_id c \<noteq> [])),
           fail_if ErrValidation (sc_availability c = SessionReconciliationBlocked \<and> sc_blocked_reason c = []),
           ValidateControlReason (sc_blocked_reason c),
           (case sc_verified_baseline c of None \<Rightarrow> None | Some b \<Rightarrow> ValidateVerifiedBaseline b)]
          (case NormalizeEpochFence fence of
             Inl x \<Rightarrow> Inl x
           | Inr f \<Rightarrow> checks
               [fail_if ErrValidation (sc_version c \<noteq> 0 \<and> sc_version c \<noteq> 1)]
               (let now = NormalizeControlTime e (sc_created_at c) in
                Inr (c\<lparr>sc_created_at := now,
                       sc_updated_at := (if time_is_zero (sc_updated_at c) then now else sc_updated_at c),
                       sc_controller_epoch_name := cf_name f, sc_controller_epoch := cf_epoch f,
                       sc_version := 1\<rparr>, f)))))"

definition sameSessionControlCreation :: "SessionControl \<Rightarrow> SessionControl \<Rightarrow> bool" where
  "sameSessionControlCreation a b \<longleftrightarrow>
     sc_namespace a = sc_namespace b \<and> sc_session_name a = sc_session_name b \<and>
     sc_session_uid a = sc_session_uid b \<and> sc_request_digest a = sc_request_digest b"

definition baselineColumns :: "VerifiedBranchBaseline option \<Rightarrow> string \<times> string \<times> string" where
  "baselineColumns b =
     (case b of None \<Rightarrow> ([], [], []) | Some v \<Rightarrow> (vb_repository_id v, vb_ref v, vb_sha v))"

text \<open>The inserted row; columns the statement leaves out take their defaults.\<close>

definition control_row :: "SessionControl \<Rightarrow> SessionControlRow" where
  "control_row c =
     (case baselineColumns (sc_verified_baseline c) of (repository, vref, sha) \<Rightarrow>
      \<lparr>scr_namespace = sc_namespace c, scr_session_name = sc_session_name c, scr_session_uid = sc_session_uid c,
       scr_request_digest = sc_request_digest c, scr_availability = sc_availability c,
       scr_runtime_session_generation = 0, scr_lease_generation = sc_lease_generation c,
       scr_lease_task_uid = [], scr_lease_attempt = 0, scr_lease_prompt_id = [], scr_lease_request_digest = [],
       scr_lease_acquired_at = None, scr_lease_expires_at = None,
       scr_blocked_reason = sc_blocked_reason c, scr_related_prompt_attempt_id = sc_related_prompt_attempt_id c,
       scr_related_publication_id = sc_related_publication_id c, scr_verified_repository_id = repository,
       scr_verified_ref = vref, scr_verified_sha = sha, scr_controller_epoch_name = sc_controller_epoch_name c,
       scr_controller_epoch = sc_controller_epoch c, scr_last_operation_id = [], scr_last_operation_digest = [],
       scr_version = 1, scr_created_at = sc_created_at c, scr_updated_at = sc_updated_at c\<rparr>)"

definition create_control_body :: "SessionControl \<Rightarrow> db \<Rightarrow> (SessionControl, db) tx_result" where
  "create_control_body n d =
     (case getSessionControl (sc_namespace n) (sc_session_name n) d of
        Some existing \<Rightarrow>
          if sameSessionControlCreation existing n then ReturnTx existing else Abort ErrConflict
      | None \<Rightarrow>
          if length (filter (\<lambda>s. session_pk s = (sc_namespace n, sc_session_name n)) (sessions d)) \<noteq> 1
          then Abort ErrNotFound
          else case sql_insert session_controls_check session_control_clash (control_row n) (session_controls d) of
                 None \<Rightarrow>
                   (case getSessionControl (sc_namespace n) (sc_session_name n) d of
                      Some existing \<Rightarrow>
                        if sameSessionControlCreation existing n then ReturnTx existing else Abort ErrConflict
                    | None \<Rightarrow> Abort ErrConflict)
               | Some t \<Rightarrow> Commit n (d\<lparr>session_controls := t\<rparr>))"

definition CreateSessionControl ::
  "env \<Rightarrow> SessionControl option \<times> ControllerEpochFence \<Rightarrow> db \<Rightarrow> (store_error + SessionControl) \<times> db" where
  "CreateSessionControl e q = validated (NormalizeSessionControlForCreate e (fst q) (snd q))
     (\<lambda>r. fenced_tx e (snd r) (create_control_body (fst r)))"

section \<open>Acquiring the mutation lease\<close>

definition validateAcquire ::
  "env \<Rightarrow> AcquireSessionMutationLeaseRequest \<Rightarrow> store_error + AcquireSessionMutationLeaseRequest" where
  "validateAcquire e request =
     (let r = request\<lparr>aq_namespace := TrimSpace (aq_namespace request),
          aq_session_name := TrimSpace (aq_session_name request),
          aq_session_uid := TrimSpace (aq_session_uid request),
          aq_task_uid := TrimSpace (aq_task_uid request), aq_prompt_id := TrimSpace (aq_prompt_id request)\<rparr> in
      checks
       [ValidateControlIdentifier (aq_namespace r), ValidateControlIdentifier (aq_session_name r),
        ValidateControlIdentifier (aq_session_uid r), ValidateControlIdentifier (aq_task_uid r),
        ValidateControlIdentifier (aq_prompt_id r)]
       (case NormalizeEpochFence (aq_fence r) of
          Inl x \<Rightarrow> Inl x
        | Inr f \<Rightarrow>
          (let at = NormalizeControlTime e (aq_acquired_at r); expires = NormalizeOptionalControlTime (aq_expires_at r) in
           checks
            [fail_if ErrValidation (aq_expected_version r < 1 \<or> aq_expected_lease_generation r < 0 \<or> aq_attempt r < 1),
             ValidateCanonicalDigest (aq_request_digest r),
             (case expires of None \<Rightarrow> None | Some t \<Rightarrow> fail_if ErrValidation (\<not> at < t))]
            (Inr (r\<lparr>aq_fence := f, aq_acquired_at := at, aq_expires_at := expires\<rparr>)))))"

definition acquire_set :: "AcquireSessionMutationLeaseRequest \<Rightarrow> int \<Rightarrow> SessionControlRow \<Rightarrow> SessionControlRow" where
  "acquire_set q newGeneration r =
     r\<lparr>scr_lease_generation := newGeneration, scr_lease_task_uid := aq_task_uid q,
       scr_lease_attempt := aq_attempt q, scr_lease_prompt_id := aq_prompt_id q,
       scr_lease_request_digest := aq_request_digest q, scr_lease_acquired_at := Some (aq_acquired_at q),
       scr_lease_expires_at := aq_expires_at q, scr_controller_epoch_name := cf_name (aq_fence q),
       scr_controller_epoch := cf_epoch (aq_fence q), scr_version := scr_version r + 1,
       scr_updated_at := aq_acquired_at q\<rparr>"

definition acquire_result :: "AcquireSessionMutationLeaseRequest \<Rightarrow> SessionControl \<Rightarrow> SessionControl" where
  "acquire_result q control =
     (let newGeneration = sc_lease_generation control + 1 in
      control\<lparr>sc_lease_generation := newGeneration,
        sc_lease := Some \<lparr>sl_generation = newGeneration, sl_task_uid = aq_task_uid q, sl_attempt = aq_attempt q,
          sl_prompt_id = aq_prompt_id q, sl_request_digest = aq_request_digest q,
          sl_acquired_at = aq_acquired_at q, sl_expires_at = aq_expires_at q\<rparr>,
        sc_controller_epoch_name := cf_name (aq_fence q), sc_controller_epoch := cf_epoch (aq_fence q),
        sc_version := sc_version control + 1, sc_updated_at := aq_acquired_at q\<rparr>)"

definition lease_identity_of :: "SessionMutationLease option \<Rightarrow> AcquireSessionMutationLeaseRequest \<Rightarrow> bool" where
  "lease_identity_of lease q \<longleftrightarrow>
     (case lease of None \<Rightarrow> False
      | Some l \<Rightarrow> sl_task_uid l = aq_task_uid q \<and> sl_attempt l = aq_attempt q \<and> sl_prompt_id l = aq_prompt_id q)"

definition acquire_body :: "AcquireSessionMutationLeaseRequest \<Rightarrow> db \<Rightarrow> (SessionControl, db) tx_result" where
  "acquire_body q d =
     fetch session_control_pk (aq_namespace q, aq_session_name q) (session_controls d) (\<lambda>row.
       let control = scanSessionControl row in
       guards [fail_if ErrConflict (sc_session_uid control \<noteq> aq_session_uid q)]
        (if lease_identity_of (sc_lease control) q then
           (if map_option sl_request_digest (sc_lease control) = Some (aq_request_digest q)
            then ReturnTx control else Abort ErrConflict)
         else guards
           [fail_if ErrConflict (sc_version control \<noteq> aq_expected_version q \<or>
              sc_lease_generation control \<noteq> aq_expected_lease_generation q),
            fail_if ErrConflict (sc_availability control \<noteq> SessionAvailable),
            fail_if ErrConflict (sc_lease control \<noteq> None)]
           (update_one (\<lambda>_. True)
             (\<lambda>s. session_pk s = (aq_namespace q, aq_session_name q) \<and>
                (ss_active_task s = [] \<or> ss_active_task s = aq_task_uid q))
             (\<lambda>s. s\<lparr>ss_active_task := aq_task_uid q, ss_updated_at := aq_acquired_at q\<rparr>)
             (sessions d)
             (\<lambda>ts. update_one session_controls_check
               (\<lambda>r. session_control_pk r = (aq_namespace q, aq_session_name q) \<and>
                  scr_session_uid r = aq_session_uid q \<and> scr_version r = aq_expected_version q \<and>
                  scr_lease_generation r = aq_expected_lease_generation q \<and>
                  scr_availability r = SessionAvailable \<and> scr_lease_task_uid r = [])
               (acquire_set q (sc_lease_generation control + 1)) (session_controls d)
               (\<lambda>t. Commit (acquire_result q control) (d\<lparr>sessions := ts, session_controls := t\<rparr>))))))"

definition AcquireSessionMutationLease ::
  "env \<Rightarrow> AcquireSessionMutationLeaseRequest \<Rightarrow> db \<Rightarrow> (store_error + SessionControl) \<times> db" where
  "AcquireSessionMutationLease e request = validated (validateAcquire e request)
     (\<lambda>q. fenced_tx e (aq_fence q) (acquire_body q))"

section \<open>Recording the runtime generation\<close>

definition validateGenerationCommit ::
  "env \<Rightarrow> CommitSessionRuntimeGenerationRequest \<Rightarrow> store_error + CommitSessionRuntimeGenerationRequest" where
  "validateGenerationCommit e request =
     (let r = request\<lparr>cg_namespace := TrimSpace (cg_namespace request),
          cg_session_name := TrimSpace (cg_session_name request),
          cg_session_uid := TrimSpace (cg_session_uid request)\<rparr> in
      checks
       [ValidateControlIdentifier (cg_namespace r), ValidateControlIdentifier (cg_session_name r),
        ValidateControlIdentifier (cg_session_uid r), ValidateSessionTurnKey (cg_key r),
        fail_if ErrValidation (tk_session_uid (cg_key r) \<noteq> cg_session_uid r \<or>
          cg_expected_session_version r < 1 \<or> cg_generation r < 1)]
       (case NormalizeEpochFence (cg_fence r) of
          Inl x \<Rightarrow> Inl x
        | Inr f \<Rightarrow> Inr (r\<lparr>cg_fence := f, cg_committed_at := NormalizeControlTime e (cg_committed_at r)\<rparr>)))"

definition generation_set :: "CommitSessionRuntimeGenerationRequest \<Rightarrow> SessionControlRow \<Rightarrow> SessionControlRow" where
  "generation_set q r =
     r\<lparr>scr_runtime_session_generation := cg_generation q, scr_controller_epoch_name := cf_name (cg_fence q),
       scr_controller_epoch := cf_epoch (cg_fence q), scr_version := scr_version r + 1,
       scr_updated_at := cg_committed_at q\<rparr>"

definition generation_result :: "CommitSessionRuntimeGenerationRequest \<Rightarrow> SessionControl \<Rightarrow> SessionControl" where
  "generation_result q control =
     control\<lparr>sc_runtime_session_generation := cg_generation q, sc_controller_epoch_name := cf_name (cg_fence q),
       sc_controller_epoch := cf_epoch (cg_fence q), sc_version := sc_version control + 1,
       sc_updated_at := cg_committed_at q\<rparr>"

definition row_lease_key :: "SessionControlRow \<Rightarrow> SessionTurnKey \<Rightarrow> bool" where
  "row_lease_key r k \<longleftrightarrow>
     scr_lease_generation r = tk_lease_generation k \<and> scr_lease_task_uid r = tk_task_uid k \<and>
     scr_lease_attempt r = tk_attempt k \<and> scr_lease_prompt_id r = tk_prompt_id k"

definition generation_body :: "CommitSessionRuntimeGenerationRequest \<Rightarrow> db \<Rightarrow> (SessionControl, db) tx_result" where
  "generation_body q d =
     fetch session_control_pk (cg_namespace q, cg_session_name q) (session_controls d) (\<lambda>row.
       let control = scanSessionControl row in
       guards
        [fail_if ErrConflict (sc_session_uid control \<noteq> cg_session_uid q \<or>
           sc_availability control \<noteq> SessionAvailable \<or> \<not> sessionLeaseMatches (sc_lease control) (cg_key q)),
         fail_if ErrConflict (sc_runtime_session_generation control > cg_generation q)]
        (if sc_runtime_session_generation control = cg_generation q then ReturnTx control
         else guards
           [fail_if ErrConflict (sc_version control \<noteq> cg_expected_session_version q)]
           (update_one session_controls_check
             (\<lambda>r. session_control_pk r = (cg_namespace q, cg_session_name q) \<and>
                scr_session_uid r = cg_session_uid q \<and> scr_version r = cg_expected_session_version q \<and>
                scr_runtime_session_generation r = sc_runtime_session_generation control \<and>
                scr_availability r = SessionAvailable \<and> row_lease_key r (cg_key q))
             (generation_set q) (session_controls d)
             (\<lambda>t. Commit (generation_result q control) (d\<lparr>session_controls := t\<rparr>)))))"

definition CommitSessionRuntimeGeneration ::
  "env \<Rightarrow> CommitSessionRuntimeGenerationRequest \<Rightarrow> db \<Rightarrow> (store_error + SessionControl) \<times> db" where
  "CommitSessionRuntimeGeneration e request = validated (validateGenerationCommit e request)
     (\<lambda>q. fenced_tx e (cg_fence q) (generation_body q))"

section \<open>Releasing a lease before the prompt\<close>

definition validateRelease ::
  "env \<Rightarrow> ReleaseSessionMutationLeaseRequest \<Rightarrow> store_error + ReleaseSessionMutationLeaseRequest" where
  "validateRelease e request =
     (let r = request\<lparr>rl_namespace := TrimSpace (rl_namespace request),
          rl_session_name := TrimSpace (rl_session_name request),
          rl_session_uid := TrimSpace (rl_session_uid request),
          rl_operation_id := TrimSpace (rl_operation_id request)\<rparr> in
      checks
       [ValidateControlIdentifier (rl_namespace r), ValidateControlIdentifier (rl_session_name r),
        ValidateControlIdentifier (rl_session_uid r), ValidateControlIdentifier (rl_operation_id r),
        ValidateSessionTurnKey (rl_key r)]
       (case SessionTurnKey_CanonicalID e (rl_key r) of
          Inl x \<Rightarrow> Inl x
        | Inr turnID \<Rightarrow> checks
            [fail_if ErrValidation (tk_session_uid (rl_key r) \<noteq> rl_session_uid r \<or>
               rl_expected_session_version r < 1 \<or> rl_operation_id r \<noteq> ''release-pre-prompt:'' @ turnID),
             ValidateCanonicalDigest (rl_lease_request_digest r),
             ValidateCanonicalDigest (rl_operation_digest r)]
            (case SessionLeaseReleaseOperationDigest e turnID (rl_lease_request_digest r) of
               Inl x \<Rightarrow> Inl x
             | Inr expectedDigest \<Rightarrow> checks
                 [fail_if ErrValidation (rl_operation_digest r \<noteq> expectedDigest)]
                 (case NormalizeEpochFence (rl_fence r) of
                    Inl x \<Rightarrow> Inl x
                  | Inr f \<Rightarrow> Inr (r\<lparr>rl_fence := f, rl_released_at := NormalizeControlTime e (rl_released_at r)\<rparr>)))))"

definition release_set :: "ReleaseSessionMutationLeaseRequest \<Rightarrow> SessionControlRow \<Rightarrow> SessionControlRow" where
  "release_set q r =
     r\<lparr>scr_lease_task_uid := [], scr_lease_attempt := 0, scr_lease_prompt_id := [],
       scr_lease_request_digest := [], scr_lease_acquired_at := None, scr_lease_expires_at := None,
       scr_controller_epoch_name := cf_name (rl_fence q), scr_controller_epoch := cf_epoch (rl_fence q),
       scr_last_operation_id := rl_operation_id q, scr_last_operation_digest := rl_operation_digest q,
       scr_version := scr_version r + 1, scr_updated_at := rl_released_at q\<rparr>"

definition release_result :: "ReleaseSessionMutationLeaseRequest \<Rightarrow> SessionControl \<Rightarrow> SessionControl" where
  "release_result q control =
     control\<lparr>sc_lease := None, sc_controller_epoch_name := cf_name (rl_fence q),
       sc_controller_epoch := cf_epoch (rl_fence q), sc_last_operation_id := rl_operation_id q,
       sc_last_operation_digest := rl_operation_digest q, sc_version := sc_version control + 1,
       sc_updated_at := rl_released_at q\<rparr>"

definition release_body :: "ReleaseSessionMutationLeaseRequest \<Rightarrow> db \<Rightarrow> (SessionControl, db) tx_result" where
  "release_body q d =
     fetch session_control_pk (rl_namespace q, rl_session_name q) (session_controls d) (\<lambda>row.
       let control = scanSessionControl row in
       guards [fail_if ErrConflict (sc_session_uid control \<noteq> rl_session_uid q)]
        (if sc_last_operation_id control = rl_operation_id q then
           guards [fail_if ErrConflict (sc_last_operation_digest control \<noteq> rl_operation_digest q \<or>
             sc_lease control \<noteq> None)] (ReturnTx control)
         else guards
           [fail_if ErrConflict (sc_version control \<noteq> rl_expected_session_version q \<or>
              \<not> sessionLeaseMatches (sc_lease control) (rl_key q) \<or>
              map_option sl_request_digest (sc_lease control) \<noteq> Some (rl_lease_request_digest q))]
           (case sql_update (\<lambda>_. True)
               (\<lambda>s. session_pk s = (rl_namespace q, rl_session_name q) \<and> ss_active_task s = tk_task_uid (rl_key q))
               (\<lambda>s. s\<lparr>ss_active_task := [], ss_updated_at := rl_released_at q\<rparr>) (sessions d) of
              None \<Rightarrow> Abort ErrDriver
            | Some (ts, _) \<Rightarrow>
                update_one session_controls_check
                  (\<lambda>r. session_control_pk r = (rl_namespace q, rl_session_name q) \<and>
                     scr_session_uid r = rl_session_uid q \<and> scr_version r = rl_expected_session_version q \<and>
                     row_lease_key r (rl_key q) \<and> scr_lease_request_digest r = rl_lease_request_digest q)
                  (release_set q) (session_controls d)
                  (\<lambda>t. Commit (release_result q control) (d\<lparr>sessions := ts, session_controls := t\<rparr>)))))"

definition ReleaseSessionMutationLease ::
  "env \<Rightarrow> ReleaseSessionMutationLeaseRequest \<Rightarrow> db \<Rightarrow> (store_error + SessionControl) \<times> db" where
  "ReleaseSessionMutationLease e request = validated (validateRelease e request)
     (\<lambda>q. fenced_tx e (rl_fence q) (release_body q))"

section \<open>Reconciliation\<close>

definition validateReconcile ::
  "env \<Rightarrow> ReconcileSessionControlRequest \<Rightarrow> store_error + ReconcileSessionControlRequest" where
  "validateReconcile e request =
     (let r = request\<lparr>rc_namespace := TrimSpace (rc_namespace request),
          rc_session_name := TrimSpace (rc_session_name request),
          rc_session_uid := TrimSpace (rc_session_uid request),
          rc_expected_related_publication_id := TrimSpace (rc_expected_related_publication_id request),
          rc_branch_claim_id := TrimSpace (rc_branch_claim_id request),
          rc_operation_id := TrimSpace (rc_operation_id request)\<rparr> in
      checks
       [ValidateControlIdentifier (rc_namespace r), ValidateControlIdentifier (rc_session_name r),
        ValidateControlIdentifier (rc_session_uid r),
        ValidateControlIdentifier (rc_expected_related_publication_id r),
        ValidateControlIdentifier (rc_branch_claim_id r), ValidateControlIdentifier (rc_operation_id r)]
       (case NormalizeEpochFence (rc_fence r) of
          Inl x \<Rightarrow> Inl x
        | Inr f \<Rightarrow>
          (let b = rc_verified_baseline r;
               b' = b\<lparr>vb_repository_id := TrimSpace (vb_repository_id b), vb_ref := TrimSpace (vb_ref b),
                      vb_sha := TrimSpace (vb_sha b)\<rparr> in
           checks
            [fail_if ErrValidation (rc_expected_version r < 1 \<or> rc_expected_lease_generation r < 1 \<or>
               rc_expected_branch_claim_version r < 1 \<or> rc_expected_branch_claim_generation r < 1),
             ValidateRemoteRefState (rc_expected_branch_baseline r),
             ValidateVerifiedBaseline b',
             ValidateCanonicalDigest (rc_operation_digest r)]
            (Inr (r\<lparr>rc_fence := f, rc_verified_baseline := b',
                    rc_reconciled_at := NormalizeControlTime e (rc_reconciled_at r)\<rparr>)))))"

definition reconcile_claim_set :: "ReconcileSessionControlRequest \<Rightarrow> BranchClaim \<Rightarrow> BranchClaim" where
  "reconcile_claim_set q c =
     c\<lparr>bc_last_verified := \<lparr>rr_absent = False, rr_sha = vb_sha (rc_verified_baseline q)\<rparr>,
       bc_availability := BranchClaimAvailable, bc_blocked_reason := [], bc_related_publication_id := [],
       bc_controller_epoch_name := cf_name (rc_fence q), bc_controller_epoch := cf_epoch (rc_fence q),
       bc_last_operation_id := rc_operation_id q, bc_last_operation_digest := rc_operation_digest q,
       bc_version := bc_version c + 1, bc_updated_at := rc_reconciled_at q\<rparr>"

definition reconcile_set :: "ReconcileSessionControlRequest \<Rightarrow> SessionControlRow \<Rightarrow> SessionControlRow" where
  "reconcile_set q r =
     r\<lparr>scr_availability := SessionAvailable, scr_blocked_reason := [], scr_related_prompt_attempt_id := [],
       scr_related_publication_id := [], scr_verified_repository_id := vb_repository_id (rc_verified_baseline q),
       scr_verified_ref := vb_ref (rc_verified_baseline q), scr_verified_sha := vb_sha (rc_verified_baseline q),
       scr_controller_epoch_name := cf_name (rc_fence q), scr_controller_epoch := cf_epoch (rc_fence q),
       scr_last_operation_id := rc_operation_id q, scr_last_operation_digest := rc_operation_digest q,
       scr_version := scr_version r + 1, scr_updated_at := rc_reconciled_at q\<rparr>"

definition reconcile_result :: "ReconcileSessionControlRequest \<Rightarrow> SessionControl \<Rightarrow> SessionControl" where
  "reconcile_result q control =
     control\<lparr>sc_availability := SessionAvailable, sc_blocked_reason := [], sc_related_prompt_attempt_id := [],
       sc_related_publication_id := [], sc_verified_baseline := Some (rc_verified_baseline q),
       sc_controller_epoch_name := cf_name (rc_fence q), sc_controller_epoch := cf_epoch (rc_fence q),
       sc_last_operation_id := rc_operation_id q, sc_last_operation_digest := rc_operation_digest q,
       sc_version := sc_version control + 1, sc_updated_at := rc_reconciled_at q\<rparr>"

definition reconcile_body :: "ReconcileSessionControlRequest \<Rightarrow> db \<Rightarrow> (SessionControl, db) tx_result" where
  "reconcile_body q d =
     fetch session_control_pk (rc_namespace q, rc_session_name q) (session_controls d) (\<lambda>row.
       let control = scanSessionControl row in
       if sc_last_operation_id control = rc_operation_id q then
         guards [fail_if ErrConflict (sc_last_operation_digest control \<noteq> rc_operation_digest q)]
          (if sc_availability control = SessionAvailable \<and> sc_lease control = None \<and>
              sc_verified_baseline control = Some (rc_verified_baseline q)
           then ReturnTx control else Abort ErrConflict)
       else guards
         [fail_if ErrConflict (sc_session_uid control \<noteq> rc_session_uid q \<or>
            sc_version control \<noteq> rc_expected_version q \<or>
            sc_lease_generation control \<noteq> rc_expected_lease_generation q \<or> sc_lease control \<noteq> None \<or>
            sc_availability control \<noteq> SessionReconciliationBlocked \<or>
            sc_related_publication_id control \<noteq> rc_expected_related_publication_id q)]
         (fetch bc_id (rc_branch_claim_id q) (branch_claims d) (\<lambda>claim. guards
           [fail_if ErrConflict (bc_version claim \<noteq> rc_expected_branch_claim_version q \<or>
              bc_generation claim \<noteq> rc_expected_branch_claim_generation q \<or>
              bc_last_verified claim \<noteq> rc_expected_branch_baseline q \<or>
              bc_availability claim \<noteq> BranchClaimReconciliationBlocked \<or>
              bc_related_publication_id claim \<noteq> rc_expected_related_publication_id q \<or>
              bc_repository_id claim \<noteq> vb_repository_id (rc_verified_baseline q) \<or>
              bc_ref claim \<noteq> vb_ref (rc_verified_baseline q))]
           (update_one branch_claims_check
             (\<lambda>c. bc_id c = bc_id claim \<and> bc_version c = rc_expected_branch_claim_version q \<and>
                bc_generation c = rc_expected_branch_claim_generation q \<and>
                rr_absent (bc_last_verified c) = rr_absent (rc_expected_branch_baseline q) \<and>
                rr_sha (bc_last_verified c) = rr_sha (rc_expected_branch_baseline q) \<and>
                bc_availability c = BranchClaimReconciliationBlocked \<and>
                bc_related_publication_id c = rc_expected_related_publication_id q)
             (reconcile_claim_set q) (branch_claims d)
             (\<lambda>tc. update_one session_controls_check
               (\<lambda>r. session_control_pk r = (rc_namespace q, rc_session_name q) \<and>
                  scr_session_uid r = rc_session_uid q \<and> scr_version r = rc_expected_version q \<and>
                  scr_lease_generation r = rc_expected_lease_generation q \<and> scr_lease_task_uid r = [] \<and>
                  scr_availability r = SessionReconciliationBlocked \<and>
                  scr_related_publication_id r = rc_expected_related_publication_id q)
               (reconcile_set q) (session_controls d)
               (\<lambda>t. Commit (reconcile_result q control) (d\<lparr>branch_claims := tc, session_controls := t\<rparr>)))))))"

definition ReconcileSessionControl ::
  "env \<Rightarrow> ReconcileSessionControlRequest \<Rightarrow> db \<Rightarrow> (store_error + SessionControl) \<times> db" where
  "ReconcileSessionControl e request = validated (validateReconcile e request)
     (\<lambda>q. fenced_tx e (rc_fence q) (reconcile_body q))"

section \<open>Rows, structs and the schema\<close>

lemma scan_simps [simp]:
  "sc_namespace (scanSessionControl r) = scr_namespace r"
  "sc_session_name (scanSessionControl r) = scr_session_name r"
  "sc_session_uid (scanSessionControl r) = scr_session_uid r"
  "sc_request_digest (scanSessionControl r) = scr_request_digest r"
  "sc_availability (scanSessionControl r) = scr_availability r"
  "sc_runtime_session_generation (scanSessionControl r) = scr_runtime_session_generation r"
  "sc_lease_generation (scanSessionControl r) = scr_lease_generation r"
  "sc_lease (scanSessionControl r) = scan_lease r"
  "sc_related_publication_id (scanSessionControl r) = scr_related_publication_id r"
  "sc_verified_baseline (scanSessionControl r) = scan_baseline r"
  "sc_last_operation_id (scanSessionControl r) = scr_last_operation_id r"
  "sc_last_operation_digest (scanSessionControl r) = scr_last_operation_digest r"
  "sc_version (scanSessionControl r) = scr_version r"
  by (simp_all add: scanSessionControl_def)

lemma scan_lease_None: "scan_lease r = None \<longleftrightarrow> scr_lease_task_uid r = []"
  by (simp add: scan_lease_def)

lemma scan_lease_generation: "scan_lease r = Some l \<Longrightarrow> sl_generation l = scr_lease_generation r"
  by (auto simp: scan_lease_def split: if_splits)

lemma sessionLeaseMatches_row:
  "sessionLeaseMatches (scan_lease r) k \<longleftrightarrow> scr_lease_task_uid r \<noteq> [] \<and> row_lease_key r k"
  by (auto simp: sessionLeaseMatches_def scan_lease_def row_lease_key_def)

lemma acquire_scan:
  assumes "session_controls_check (acquire_set q g r)" "g = scr_lease_generation r + 1"
  shows "scanSessionControl (acquire_set q g r) = acquire_result q (scanSessionControl r)"
proof -
  have "aq_task_uid q \<noteq> []" using assms(1) by (auto simp: session_controls_check_def acquire_set_def)
  then show ?thesis
    using assms(2) by (simp add: scanSessionControl_def acquire_set_def acquire_result_def scan_lease_def
        scan_baseline_def Let_def)
qed

lemma generation_scan: "scanSessionControl (generation_set q r) = generation_result q (scanSessionControl r)"
  by (simp add: scanSessionControl_def generation_set_def generation_result_def scan_lease_def scan_baseline_def)

lemma release_scan: "scanSessionControl (release_set q r) = release_result q (scanSessionControl r)"
  by (simp add: scanSessionControl_def release_set_def release_result_def scan_lease_def scan_baseline_def)

lemma reconcile_scan:
  assumes "session_controls_check (reconcile_set q r)" "vb_sha (rc_verified_baseline q) \<noteq> []"
  shows "scanSessionControl (reconcile_set q r) = reconcile_result q (scanSessionControl r)"
proof -
  have "vb_repository_id (rc_verified_baseline q) \<noteq> []"
    using assms by (auto simp: session_controls_check_def reconcile_set_def)
  then show ?thesis
    by (simp add: scanSessionControl_def reconcile_set_def reconcile_result_def scan_lease_def scan_baseline_def)
qed

lemma control_sets_kept [simp]:
  "session_control_pk (acquire_set q g r) = session_control_pk r" "scr_session_uid (acquire_set q g r) = scr_session_uid r"
  "scr_version (acquire_set q g r) = scr_version r + 1" "scr_lease_generation (acquire_set q g r) = g"
  "session_control_pk (generation_set q1 r) = session_control_pk r" "scr_session_uid (generation_set q1 r) = scr_session_uid r"
  "scr_version (generation_set q1 r) = scr_version r + 1"
  "scr_lease_generation (generation_set q1 r) = scr_lease_generation r"
  "session_control_pk (release_set q2 r) = session_control_pk r" "scr_session_uid (release_set q2 r) = scr_session_uid r"
  "scr_version (release_set q2 r) = scr_version r + 1"
  "scr_lease_generation (release_set q2 r) = scr_lease_generation r"
  "session_control_pk (reconcile_set q3 r) = session_control_pk r" "scr_session_uid (reconcile_set q3 r) = scr_session_uid r"
  "scr_version (reconcile_set q3 r) = scr_version r + 1"
  "scr_lease_generation (reconcile_set q3 r) = scr_lease_generation r"
  by (simp_all add: acquire_set_def generation_set_def release_set_def reconcile_set_def session_control_pk_def)

text \<open>An update of the legacy lock keeps the sessions and the keys that refer to them.\<close>

lemma update_sessions_keeps:
  assumes ok: "sessions.table_ok t" and upd: "sql_update (\<lambda>_. True) W f t = Some (t', n)"
    and f: "\<And>s. session_pk (f s) = session_pk s"
  shows "sessions.table_ok t'" "\<And>k. find_row session_pk k t' = None \<longleftrightarrow> find_row session_pk k t = None"
proof -
  let ?g = "\<lambda>s. if W s then f s else s"
  have t': "t' = map ?g t" using upd by (simp add: sql_update_def split: if_splits)
  have pk: "session_pk (?g s) = session_pk s" for s using f by simp
  show "sessions.table_ok t'"
    unfolding sessions.table_ok_def t' list_all_iff sorted_wrt_map pk
    using ok by (simp add: sessions.table_ok_def)
  show "find_row session_pk k t' = None \<longleftrightarrow> find_row session_pk k t = None" for k
    unfolding t' find_row_None list.set_map ball_simps image_iff by (simp only: pk ball_simps)
qed

lemma put_control_ok:
  assumes ok: "db_ok d" and get: "find_row session_control_pk k (session_controls d) = Some r"
    and chk: "session_controls_check r'"
    and kept: "session_control_pk r' = session_control_pk r" "scr_session_uid r' = scr_session_uid r"
    and ts: "sessions.table_ok ts" "\<And>k. find_row session_pk k ts = None \<longleftrightarrow> find_row session_pk k (sessions d) = None"
  shows "db_ok (d\<lparr>sessions := ts, session_controls := put_row session_control_pk k r' (session_controls d)\<rparr>)"
proof -
  have "controls.table_ok (put_row session_control_pk k r' (session_controls d))"
    using kept by (intro controls.put_row_ok [OF db_ok_tables(5) [OF ok] get chk])
      (auto simp: session_control_clash_def)
  moreover have "find_row session_pk (session_control_pk c) ts \<noteq> None"
    if "c \<in> set (put_row session_control_pk k r' (session_controls d))" for c
  proof -
    have "\<exists>c' \<in> set (session_controls d). session_control_pk c = session_control_pk c'"
      using set_put_row [OF that] kept(1) find_row_SomeD [OF get] by metis
    then show ?thesis using ok ts(2) by (auto simp: db_ok_def)
  qed
  ultimately show ?thesis using ok ts(1) by (simp add: db_ok_def)
qed

lemma put_control_ok1:
  assumes "db_ok d" "find_row session_control_pk k (session_controls d) = Some r" "session_controls_check r'"
    "session_control_pk r' = session_control_pk r" "scr_session_uid r' = scr_session_uid r"
  shows "db_ok (d\<lparr>session_controls := put_row session_control_pk k r' (session_controls d)\<rparr>)"
  using put_control_ok [OF assms db_ok_tables(4) [OF assms(1)]] by simp

lemma control_swapped:
  assumes "find_row session_control_pk k t = Some r" "session_control_pk r' = session_control_pk r"
    "scr_version r = v" "scr_version r' = scr_version r + 1" "a = scanSessionControl r'"
    "t' = put_row session_control_pk k r' t"
  shows "\<exists>r r'. find_row session_control_pk k t = Some r \<and> scr_version r = v \<and> scr_version r' = scr_version r + 1 \<and>
    session_control_pk r' = k \<and> a = scanSessionControl r' \<and> t' = put_row session_control_pk k r' t"
  using assms find_row_SomeD [OF assms(1)] by blast

section \<open>What each operation commits\<close>

lemma acquire_commit:
  assumes ok: "db_ok d" and body: "acquire_body q d = Commit a d'"
  obtains r r' ts where
    "find_row session_control_pk (aq_namespace q, aq_session_name q) (session_controls d) = Some r"
    "scr_session_uid r = aq_session_uid q" "scr_version r = aq_expected_version q"
    "scr_lease_generation r = aq_expected_lease_generation q"
    "scr_availability r = SessionAvailable" "scan_lease r = None"
    "r' = acquire_set q (scr_lease_generation r + 1) r" "session_controls_check r'" "a = scanSessionControl r'"
    "d' = d\<lparr>sessions := ts, session_controls :=
       put_row session_control_pk (aq_namespace q, aq_session_name q) r' (session_controls d)\<rparr>"
    "db_ok d'"
proof -
  let ?k = "(aq_namespace q, aq_session_name q)"
  let ?W = "\<lambda>r. session_control_pk r = ?k \<and> scr_session_uid r = aq_session_uid q \<and>
     scr_version r = aq_expected_version q \<and> scr_lease_generation r = aq_expected_lease_generation q \<and>
     scr_availability r = SessionAvailable \<and> scr_lease_task_uid r = []"
  from body obtain r t ts where
    r: "find_row session_control_pk ?k (session_controls d) = Some r"
      "scr_session_uid r = aq_session_uid q" "scr_version r = aq_expected_version q"
      "scr_lease_generation r = aq_expected_lease_generation q"
      "scr_availability r = SessionAvailable" "scan_lease r = None" and
    us: "sql_update (\<lambda>_. True)
        (\<lambda>s. session_pk s = ?k \<and> (ss_active_task s = [] \<or> ss_active_task s = aq_task_uid q))
        (\<lambda>s. s\<lparr>ss_active_task := aq_task_uid q, ss_updated_at := aq_acquired_at q\<rparr>) (sessions d) = Some (ts, 1)" and
    upd: "sql_update session_controls_check ?W (acquire_set q (scr_lease_generation r + 1)) (session_controls d) = Some (t, 1)" and
    res: "a = acquire_result q (scanSessionControl r)" "d' = d\<lparr>sessions := ts, session_controls := t\<rparr>"
    by (auto simp: acquire_body_def Let_def split: if_splits)
  define r' where "r' = acquire_set q (scr_lease_generation r + 1) r"
  have u: "session_controls_check r'" "t = put_row session_control_pk ?k r' (session_controls d)"
    unfolding r'_def by (rule controls.update_result [OF db_ok_tables(5) [OF ok] r(1) _ upd], simp)+
  note s = update_sessions_keeps [OF db_ok_tables(4) [OF ok] us]
  have "db_ok d'"
    unfolding res(2) u(2) using s by (intro put_control_ok [OF ok r(1) u(1)]) (auto simp: r'_def session_pk_def)
  moreover have "a = scanSessionControl r'"
    using acquire_scan [OF u(1) [unfolded r'_def] refl] res(1) by (simp add: r'_def)
  ultimately show thesis using that r u res(2) r'_def by blast
qed

lemma generation_commit:
  assumes ok: "db_ok d" and body: "generation_body q d = Commit a d'"
  obtains r r' where
    "find_row session_control_pk (cg_namespace q, cg_session_name q) (session_controls d) = Some r"
    "scr_session_uid r = cg_session_uid q" "scr_version r = cg_expected_session_version q"
    "scr_availability r = SessionAvailable" "sessionLeaseMatches (scan_lease r) (cg_key q)"
    "scr_runtime_session_generation r < cg_generation q"
    "r' = generation_set q r" "session_controls_check r'" "a = scanSessionControl r'"
    "d' = d\<lparr>session_controls := put_row session_control_pk (cg_namespace q, cg_session_name q) r' (session_controls d)\<rparr>"
    "db_ok d'"
proof -
  let ?k = "(cg_namespace q, cg_session_name q)"
  from body obtain r t where
    r: "find_row session_control_pk ?k (session_controls d) = Some r"
      "scr_session_uid r = cg_session_uid q" "scr_version r = cg_expected_session_version q"
      "scr_availability r = SessionAvailable" "sessionLeaseMatches (scan_lease r) (cg_key q)"
      "scr_runtime_session_generation r < cg_generation q" and
    upd: "sql_update session_controls_check
       (\<lambda>x. session_control_pk x = ?k \<and> scr_session_uid x = cg_session_uid q \<and>
          scr_version x = cg_expected_session_version q \<and>
          scr_runtime_session_generation x = scr_runtime_session_generation r \<and>
          scr_availability x = SessionAvailable \<and> row_lease_key x (cg_key q))
       (generation_set q) (session_controls d) = Some (t, 1)" and
    res: "a = generation_result q (scanSessionControl r)" "d' = d\<lparr>session_controls := t\<rparr>"
    by (auto simp: generation_body_def Let_def split: if_splits)
  have u: "session_controls_check (generation_set q r)"
    "t = put_row session_control_pk ?k (generation_set q r) (session_controls d)"
    by (rule controls.update_result [OF db_ok_tables(5) [OF ok] r(1) _ upd], simp)+
  have "db_ok d'" unfolding res(2) u(2) by (intro put_control_ok1 [OF ok r(1) u(1)]) simp_all
  then show thesis using that r u res by (metis generation_scan)
qed

lemma release_commit:
  assumes ok: "db_ok d" and body: "release_body q d = Commit a d'"
  obtains r r' ts where
    "find_row session_control_pk (rl_namespace q, rl_session_name q) (session_controls d) = Some r"
    "scr_session_uid r = rl_session_uid q" "scr_version r = rl_expected_session_version q"
    "sessionLeaseMatches (scan_lease r) (rl_key q)"
    "map_option sl_request_digest (scan_lease r) = Some (rl_lease_request_digest q)"
    "r' = release_set q r" "session_controls_check r'" "a = scanSessionControl r'"
    "d' = d\<lparr>sessions := ts, session_controls :=
       put_row session_control_pk (rl_namespace q, rl_session_name q) r' (session_controls d)\<rparr>"
    "db_ok d'"
proof -
  let ?k = "(rl_namespace q, rl_session_name q)"
  from body obtain r t ts n where
    r: "find_row session_control_pk ?k (session_controls d) = Some r"
      "scr_session_uid r = rl_session_uid q" "scr_version r = rl_expected_session_version q"
      "sessionLeaseMatches (scan_lease r) (rl_key q)"
      "map_option sl_request_digest (scan_lease r) = Some (rl_lease_request_digest q)" and
    us: "sql_update (\<lambda>_. True)
        (\<lambda>s. session_pk s = ?k \<and> ss_active_task s = tk_task_uid (rl_key q))
        (\<lambda>s. s\<lparr>ss_active_task := [], ss_updated_at := rl_released_at q\<rparr>) (sessions d) = Some (ts, n)" and
    upd: "sql_update session_controls_check
        (\<lambda>r. session_control_pk r = ?k \<and> scr_session_uid r = rl_session_uid q \<and>
           scr_version r = rl_expected_session_version q \<and>
           row_lease_key r (rl_key q) \<and> scr_lease_request_digest r = rl_lease_request_digest q)
        (release_set q) (session_controls d) = Some (t, 1)" and
    res: "a = release_result q (scanSessionControl r)" "d' = d\<lparr>sessions := ts, session_controls := t\<rparr>"
    by (auto simp: release_body_def Let_def split: if_splits option.splits)
  have u: "session_controls_check (release_set q r)"
    "t = put_row session_control_pk ?k (release_set q r) (session_controls d)"
    by (rule controls.update_result [OF db_ok_tables(5) [OF ok] r(1) _ upd], simp)+
  note s = update_sessions_keeps [OF db_ok_tables(4) [OF ok] us]
  have "db_ok d'"
    unfolding res(2) u(2) using s by (intro put_control_ok [OF ok r(1) u(1)]) (auto simp: session_pk_def)
  then show thesis using that r u res by (metis release_scan)
qed

lemma reconcile_commit:
  assumes ok: "db_ok d" and body: "reconcile_body q d = Commit a d'"
  obtains r r' c c' where
    "find_row session_control_pk (rc_namespace q, rc_session_name q) (session_controls d) = Some r"
    "scr_session_uid r = rc_session_uid q" "scr_version r = rc_expected_version q"
    "scr_lease_generation r = rc_expected_lease_generation q" "scan_lease r = None"
    "scr_availability r = SessionReconciliationBlocked"
    "scr_related_publication_id r = rc_expected_related_publication_id q"
    "find_row bc_id (rc_branch_claim_id q) (branch_claims d) = Some c"
    "bc_version c = rc_expected_branch_claim_version q" "bc_generation c = rc_expected_branch_claim_generation q"
    "bc_availability c = BranchClaimReconciliationBlocked"
    "bc_related_publication_id c = rc_expected_related_publication_id q"
    "bc_repository_id c = vb_repository_id (rc_verified_baseline q)" "bc_ref c = vb_ref (rc_verified_baseline q)"
    "r' = reconcile_set q r" "session_controls_check r'" "a = scanSessionControl r'"
    "c' = reconcile_claim_set q c" "branch_claims_check c'"
    "d' = d\<lparr>branch_claims := put_row bc_id (rc_branch_claim_id q) c' (branch_claims d),
       session_controls := put_row session_control_pk (rc_namespace q, rc_session_name q) r' (session_controls d)\<rparr>"
    "db_ok d'"
proof -
  let ?k = "(rc_namespace q, rc_session_name q)"
  from body obtain r c t tc where
    r: "find_row session_control_pk ?k (session_controls d) = Some r"
      "scr_session_uid r = rc_session_uid q" "scr_version r = rc_expected_version q"
      "scr_lease_generation r = rc_expected_lease_generation q" "scan_lease r = None"
      "scr_availability r = SessionReconciliationBlocked"
      "scr_related_publication_id r = rc_expected_related_publication_id q" and
    c: "find_row bc_id (rc_branch_claim_id q) (branch_claims d) = Some c"
      "bc_version c = rc_expected_branch_claim_version q" "bc_generation c = rc_expected_branch_claim_generation q"
      "bc_availability c = BranchClaimReconciliationBlocked"
      "bc_related_publication_id c = rc_expected_related_publication_id q"
      "bc_repository_id c = vb_repository_id (rc_verified_baseline q)" "bc_ref c = vb_ref (rc_verified_baseline q)" and
    uc: "sql_update branch_claims_check
       (\<lambda>x. bc_id x = bc_id c \<and> bc_version x = rc_expected_branch_claim_version q \<and>
          bc_generation x = rc_expected_branch_claim_generation q \<and>
          rr_absent (bc_last_verified x) = rr_absent (rc_expected_branch_baseline q) \<and>
          rr_sha (bc_last_verified x) = rr_sha (rc_expected_branch_baseline q) \<and>
          bc_availability x = BranchClaimReconciliationBlocked \<and>
          bc_related_publication_id x = rc_expected_related_publication_id q)
       (reconcile_claim_set q) (branch_claims d) = Some (tc, 1)" and
    ur: "sql_update session_controls_check
       (\<lambda>x. session_control_pk x = ?k \<and> scr_session_uid x = rc_session_uid q \<and>
          scr_version x = rc_expected_version q \<and>
          scr_lease_generation x = rc_expected_lease_generation q \<and> scr_lease_task_uid x = [] \<and>
          scr_availability x = SessionReconciliationBlocked \<and>
          scr_related_publication_id x = rc_expected_related_publication_id q)
       (reconcile_set q) (session_controls d) = Some (t, 1)" and
    res: "a = reconcile_result q (scanSessionControl r)" "d' = d\<lparr>branch_claims := tc, session_controls := t\<rparr>"
    by (auto simp: reconcile_body_def Let_def split: if_splits)
  have "bc_id c = rc_branch_claim_id q" using find_row_SomeD [OF c(1)] by simp
  then have vc: "branch_claims_check (reconcile_claim_set q c)"
    "tc = put_row bc_id (rc_branch_claim_id q) (reconcile_claim_set q c) (branch_claims d)"
    using claims.update_result [OF db_ok_tables(7) [OF ok] c(1) _ uc] by simp_all
  have vr: "session_controls_check (reconcile_set q r)"
    "t = put_row session_control_pk ?k (reconcile_set q r) (session_controls d)"
    by (rule controls.update_result [OF db_ok_tables(5) [OF ok] r(1) _ ur], simp)+
  have "vb_sha (rc_verified_baseline q) \<noteq> []"
    using vc(1) by (simp add: branch_claims_check_def reconcile_claim_set_def)
  then have a: "a = scanSessionControl (reconcile_set q r)" using reconcile_scan [OF vr(1)] res(1) by simp
  let ?d = "d\<lparr>branch_claims := tc\<rparr>"
  have "db_ok ?d" unfolding vc(2)
    by (intro put_claim_ok [OF ok c(1) vc(1)]) (simp_all add: reconcile_claim_set_def)
  then have "db_ok (?d\<lparr>session_controls := put_row session_control_pk ?k (reconcile_set q r) (session_controls ?d)\<rparr>)"
    by (rule put_control_ok1 [where r = r]) (use r(1) vr(1) in simp_all)
  then have "db_ok d'" unfolding res(2) vr(2) by simp
  with that [OF r c refl vr(1) a refl vc(1)] res(2) vc(2) vr(2) show thesis by simp
qed

section \<open>The operations as compare-and-swap\<close>

lemma validated_acquire:
  assumes "validateAcquire e q = Inr c"
  shows "aq_namespace c = TrimSpace (aq_namespace q)" "aq_session_name c = TrimSpace (aq_session_name q)"
    "NormalizeEpochFence (aq_fence q) = Inr (aq_fence c)" "aq_expected_version c = aq_expected_version q"
    "aq_expected_lease_generation c = aq_expected_lease_generation q"
    "aq_task_uid c = TrimSpace (aq_task_uid q)" "aq_attempt c = aq_attempt q"
    "aq_prompt_id c = TrimSpace (aq_prompt_id q)" "aq_task_uid c \<noteq> []"
  using assms by (auto simp: validateAcquire_def Let_def split: sum.splits dest: identifier_nonempty)

lemma validated_generation:
  assumes "validateGenerationCommit e q = Inr c"
  shows "cg_namespace c = TrimSpace (cg_namespace q)" "cg_session_name c = TrimSpace (cg_session_name q)"
    "NormalizeEpochFence (cg_fence q) = Inr (cg_fence c)"
    "cg_expected_session_version c = cg_expected_session_version q" "cg_generation c = cg_generation q"
    "cg_key c = cg_key q"
  using assms by (auto simp: validateGenerationCommit_def Let_def split: sum.splits)

lemma validated_release:
  assumes "validateRelease e q = Inr c"
  shows "rl_namespace c = TrimSpace (rl_namespace q)" "rl_session_name c = TrimSpace (rl_session_name q)"
    "NormalizeEpochFence (rl_fence q) = Inr (rl_fence c)"
    "rl_expected_session_version c = rl_expected_session_version q" "rl_key c = rl_key q"
    "rl_lease_request_digest c = rl_lease_request_digest q"
    "rl_operation_id c = ''release-pre-prompt:'' @ session_turn_id e (rl_key q)"
  using assms by (auto simp: validateRelease_def SessionTurnKey_CanonicalID_def Let_def split: sum.splits)

lemma validated_reconcile:
  assumes "validateReconcile e q = Inr c"
  shows "rc_namespace c = TrimSpace (rc_namespace q)" "rc_session_name c = TrimSpace (rc_session_name q)"
    "NormalizeEpochFence (rc_fence q) = Inr (rc_fence c)" "rc_expected_version c = rc_expected_version q"
    "rc_branch_claim_id c = TrimSpace (rc_branch_claim_id q)"
  using assms by (auto simp: validateReconcile_def Let_def split: sum.splits)

interpretation acquire: validated_cas AcquireSessionMutationLease validateAcquire aq_fence aq_fence acquire_body
  session_controls session_control_pk scanSessionControl scr_version
  "\<lambda>q. (TrimSpace (aq_namespace q), TrimSpace (aq_session_name q))" aq_expected_version
  "\<lambda>q. (aq_namespace q, aq_session_name q)" aq_expected_version
proof
  fix e q c d a d'
  show "AcquireSessionMutationLease e q d = validated (validateAcquire e q) (\<lambda>c. fenced_tx e (aq_fence c) (acquire_body c)) d"
    by (simp add: AcquireSessionMutationLease_def)
  show "acquire_body c d = Commit a d' \<Longrightarrow> controller_epochs d' = controller_epochs d"
    by (auto simp: acquire_body_def Let_def split: if_splits option.splits)
  show "acquire_body c d = ReturnTx a \<Longrightarrow>
      \<exists>r. find_row session_control_pk (aq_namespace c, aq_session_name c) (session_controls d) = Some r \<and>
        a = scanSessionControl r"
    by (auto simp: acquire_body_def Let_def split: if_splits option.splits)
  assume ok: "db_ok d" and body: "acquire_body c d = Commit a d'"
  show "db_ok d'" using body by (rule acquire_commit [OF ok])
  show "\<exists>r r'. find_row session_control_pk (aq_namespace c, aq_session_name c) (session_controls d) = Some r \<and>
      scr_version r = aq_expected_version c \<and> scr_version r' = scr_version r + 1 \<and>
      session_control_pk r' = (aq_namespace c, aq_session_name c) \<and> a = scanSessionControl r' \<and>
      session_controls d' = put_row session_control_pk (aq_namespace c, aq_session_name c) r' (session_controls d)"
    using body by (rule acquire_commit [OF ok]) (erule control_swapped; simp)
qed (auto dest: validated_acquire)

interpretation generation: validated_cas CommitSessionRuntimeGeneration validateGenerationCommit cg_fence cg_fence generation_body
  session_controls session_control_pk scanSessionControl scr_version
  "\<lambda>q. (TrimSpace (cg_namespace q), TrimSpace (cg_session_name q))" cg_expected_session_version
  "\<lambda>q. (cg_namespace q, cg_session_name q)" cg_expected_session_version
proof
  fix e q c d a d'
  show "CommitSessionRuntimeGeneration e q d = validated (validateGenerationCommit e q) (\<lambda>c. fenced_tx e (cg_fence c) (generation_body c)) d"
    by (simp add: CommitSessionRuntimeGeneration_def)
  show "generation_body c d = Commit a d' \<Longrightarrow> controller_epochs d' = controller_epochs d"
    by (auto simp: generation_body_def Let_def split: if_splits option.splits)
  show "generation_body c d = ReturnTx a \<Longrightarrow>
      \<exists>r. find_row session_control_pk (cg_namespace c, cg_session_name c) (session_controls d) = Some r \<and>
        a = scanSessionControl r"
    by (auto simp: generation_body_def Let_def split: if_splits option.splits)
  assume ok: "db_ok d" and body: "generation_body c d = Commit a d'"
  show "db_ok d'" using body by (rule generation_commit [OF ok])
  show "\<exists>r r'. find_row session_control_pk (cg_namespace c, cg_session_name c) (session_controls d) = Some r \<and>
      scr_version r = cg_expected_session_version c \<and> scr_version r' = scr_version r + 1 \<and>
      session_control_pk r' = (cg_namespace c, cg_session_name c) \<and> a = scanSessionControl r' \<and>
      session_controls d' = put_row session_control_pk (cg_namespace c, cg_session_name c) r' (session_controls d)"
    using body by (rule generation_commit [OF ok]) (erule control_swapped; simp)
qed (auto dest: validated_generation)

interpretation release: validated_cas ReleaseSessionMutationLease validateRelease rl_fence rl_fence release_body
  session_controls session_control_pk scanSessionControl scr_version
  "\<lambda>q. (TrimSpace (rl_namespace q), TrimSpace (rl_session_name q))" rl_expected_session_version
  "\<lambda>q. (rl_namespace q, rl_session_name q)" rl_expected_session_version
proof
  fix e q c d a d'
  show "ReleaseSessionMutationLease e q d = validated (validateRelease e q) (\<lambda>c. fenced_tx e (rl_fence c) (release_body c)) d"
    by (simp add: ReleaseSessionMutationLease_def)
  show "release_body c d = Commit a d' \<Longrightarrow> controller_epochs d' = controller_epochs d"
    by (auto simp: release_body_def Let_def split: if_splits option.splits)
  show "release_body c d = ReturnTx a \<Longrightarrow>
      \<exists>r. find_row session_control_pk (rl_namespace c, rl_session_name c) (session_controls d) = Some r \<and>
        a = scanSessionControl r"
    by (auto simp: release_body_def Let_def split: if_splits option.splits)
  assume ok: "db_ok d" and body: "release_body c d = Commit a d'"
  show "db_ok d'" using body by (rule release_commit [OF ok])
  show "\<exists>r r'. find_row session_control_pk (rl_namespace c, rl_session_name c) (session_controls d) = Some r \<and>
      scr_version r = rl_expected_session_version c \<and> scr_version r' = scr_version r + 1 \<and>
      session_control_pk r' = (rl_namespace c, rl_session_name c) \<and> a = scanSessionControl r' \<and>
      session_controls d' = put_row session_control_pk (rl_namespace c, rl_session_name c) r' (session_controls d)"
    using body by (rule release_commit [OF ok]) (erule control_swapped; simp)
qed (auto dest: validated_release)

interpretation reconcile: validated_cas ReconcileSessionControl validateReconcile rc_fence rc_fence reconcile_body
  session_controls session_control_pk scanSessionControl scr_version
  "\<lambda>q. (TrimSpace (rc_namespace q), TrimSpace (rc_session_name q))" rc_expected_version
  "\<lambda>q. (rc_namespace q, rc_session_name q)" rc_expected_version
proof
  fix e q c d a d'
  show "ReconcileSessionControl e q d = validated (validateReconcile e q) (\<lambda>c. fenced_tx e (rc_fence c) (reconcile_body c)) d"
    by (simp add: ReconcileSessionControl_def)
  show "reconcile_body c d = Commit a d' \<Longrightarrow> controller_epochs d' = controller_epochs d"
    by (auto simp: reconcile_body_def Let_def split: if_splits option.splits)
  show "reconcile_body c d = ReturnTx a \<Longrightarrow>
      \<exists>r. find_row session_control_pk (rc_namespace c, rc_session_name c) (session_controls d) = Some r \<and>
        a = scanSessionControl r"
    by (auto simp: reconcile_body_def Let_def split: if_splits option.splits)
  assume ok: "db_ok d" and body: "reconcile_body c d = Commit a d'"
  show "db_ok d'" using body by (rule reconcile_commit [OF ok])
  show "\<exists>r r'. find_row session_control_pk (rc_namespace c, rc_session_name c) (session_controls d) = Some r \<and>
      scr_version r = rc_expected_version c \<and> scr_version r' = scr_version r + 1 \<and>
      session_control_pk r' = (rc_namespace c, rc_session_name c) \<and> a = scanSessionControl r' \<and>
      session_controls d' = put_row session_control_pk (rc_namespace c, rc_session_name c) r' (session_controls d)"
    using body by (rule reconcile_commit [OF ok]) (erule control_swapped; simp)
qed (auto dest: validated_reconcile)

section \<open>Creation\<close>

lemma normalized_control:
  assumes "NormalizeSessionControlForCreate e q f = Inr (n, f')"
  shows "NormalizeEpochFence f = Inr f'" "sc_lease n = None" "sc_version n = 1"
    "sc_availability n \<in> {SessionAvailable, SessionReconciliationBlocked}"
    "sc_availability n = SessionAvailable \<Longrightarrow> sc_blocked_reason n = []" "0 \<le> sc_lease_generation n"
    "1 \<le> sc_controller_epoch n"
  using assms
  by (auto simp: NormalizeSessionControlForCreate_def Let_def dest: normalized_fence(4)
      split: option.splits sum.splits)

lemma create_control_return:
  "create_control_body n d = ReturnTx a \<Longrightarrow>
   getSessionControl (sc_namespace n) (sc_session_name n) d = Some a \<and> sameSessionControlCreation a n"
  by (auto simp: create_control_body_def split: option.splits if_splits)

lemma find_row_of_count:
  "length (filter (\<lambda>r. pk r = k) t) = Suc 0 \<Longrightarrow> find_row pk k t = None \<Longrightarrow> False"
  by (induction t) (auto split: if_splits)

lemma create_control_commit:
  "create_control_body n d = Commit a d' \<Longrightarrow>
   a = n \<and> getSessionControl (sc_namespace n) (sc_session_name n) d = None \<and>
   find_row session_pk (sc_namespace n, sc_session_name n) (sessions d) \<noteq> None \<and>
   (\<exists>t. sql_insert session_controls_check session_control_clash (control_row n) (session_controls d) = Some t \<and>
        d' = d\<lparr>session_controls := t\<rparr>)"
  by (auto simp: create_control_body_def dest: find_row_of_count split: option.splits if_splits)

lemma control_row_pk [simp]: "session_control_pk (control_row n) = (sc_namespace n, sc_session_name n)"
  by (simp add: control_row_def session_control_pk_def split: prod.splits)

interpretation create_control: validated_create CreateSessionControl
  "\<lambda>e q. NormalizeSessionControlForCreate e (fst q) (snd q)" snd snd
  "\<lambda>r. create_control_body (fst r)" session_controls session_control_pk
  "\<lambda>a. (sc_namespace a, sc_session_name a)"
proof
  fix e c d a d' and q :: "SessionControl option \<times> ControllerEpochFence"
  show "CreateSessionControl e q d =
      validated (NormalizeSessionControlForCreate e (fst q) (snd q))
        (\<lambda>c. fenced_tx e (snd c) (create_control_body (fst c))) d"
    by (simp add: CreateSessionControl_def)
  show "create_control_body (fst c) d = ReturnTx a \<Longrightarrow>
      find_row session_control_pk (sc_namespace a, sc_session_name a) (session_controls d) \<noteq> None"
    by (drule create_control_return) (auto simp: getSessionControl_def sameSessionControlCreation_def)
  assume body: "create_control_body (fst c) d = Commit a d'"
  note commit = create_control_commit [OF body]
  then show "controller_epochs d' = controller_epochs d" by auto
  show "\<exists>r. find_row session_control_pk (session_control_pk r) (session_controls d) = None \<and>
      session_controls d' = session_controls d @ [r] \<and> session_control_pk r = (sc_namespace a, sc_session_name a)"
    using commit by (intro exI [where x = "control_row (fst c)"])
      (auto simp: getSessionControl_def sql_insert_def split: if_splits)
  assume ok: "db_ok d"
  obtain t where t: "sql_insert session_controls_check session_control_clash (control_row (fst c)) (session_controls d) = Some t"
    "d' = d\<lparr>session_controls := t\<rparr>"
    using commit by blast
  have "find_row session_pk (session_control_pk x) (sessions d) \<noteq> None" if "x \<in> set t" for x
  proof -
    have "x = control_row (fst c) \<or> x \<in> set (session_controls d)"
      using t(1) that by (auto simp: sql_insert_def split: if_splits)
    then show ?thesis using commit ok by (auto simp: db_ok_def)
  qed
  with controls.insert_ok [OF db_ok_tables(5) [OF ok] t(1)] ok t(2) show "db_ok d'" by (simp add: db_ok_def)
qed (auto dest: normalized_control)

section \<open>Properties\<close>

text \<open>
  C9: while a session is leased, nobody else can acquire it: a request of another task, attempt or
  prompt fails and changes nothing, whatever version it expects and even after the lease has expired.
\<close>

theorem lease_exclusive:
  assumes ok: "db_ok d"
    and r: "find_row session_control_pk (TrimSpace (aq_namespace q), TrimSpace (aq_session_name q)) (session_controls d) = Some r"
      "scan_lease r = Some l"
    and other: "(sl_task_uid l, sl_attempt l, sl_prompt_id l) \<noteq>
      (TrimSpace (aq_task_uid q), aq_attempt q, TrimSpace (aq_prompt_id q))"
  shows "\<exists>err. AcquireSessionMutationLease e q d = (Inl err, d)"
proof (cases "fst (AcquireSessionMutationLease e q d)")
  case (Inl err)
  then show ?thesis using acquire.failure [of e q d err] by (cases "AcquireSessionMutationLease e q d") auto
next
  case (Inr a)
  then obtain d' where "AcquireSessionMutationLease e q d = (Inr a, d')" by (cases "AcquireSessionMutationLease e q d") auto
  then obtain c where c: "validateAcquire e q = Inr c"
    "acquire_body c d = ReturnTx a \<and> d' = d \<or> acquire_body c d = Commit a d'" by (rule acquire.success)
  note v = validated_acquire [OF c(1)]
  from c(2) have False
  proof
    assume "acquire_body c d = ReturnTx a \<and> d' = d"
    with v r other show False by (auto simp: acquire_body_def lease_identity_of_def Let_def split: if_splits)
  next
    assume "acquire_body c d = Commit a d'"
    then show False by (rule acquire_commit [OF ok]) (use v r in auto)
  qed
  then show ?thesis ..
qed

text \<open>
  An acquisition that changes the session found it available and not leased, at the version and
  lease generation it names; it gives the requester the lease under the next generation.
\<close>

theorem lease_granted:
  assumes ok: "db_ok d" and run: "AcquireSessionMutationLease e q d = (Inr a, d')" and change: "d' \<noteq> d"
  shows "\<exists>r l. find_row session_control_pk (TrimSpace (aq_namespace q), TrimSpace (aq_session_name q)) (session_controls d) = Some r \<and>
    scan_lease r = None \<and> scr_availability r = SessionAvailable \<and>
    scr_version r = aq_expected_version q \<and> scr_lease_generation r = aq_expected_lease_generation q \<and>
    sc_lease a = Some l \<and> sl_generation l = scr_lease_generation r + 1 \<and> sc_lease_generation a = sl_generation l \<and>
    sl_task_uid l = TrimSpace (aq_task_uid q) \<and> sl_attempt l = aq_attempt q \<and>
    sl_prompt_id l = TrimSpace (aq_prompt_id q) \<and>
    GetSessionControl (aq_namespace q) (aq_session_name q) d' = Inr a"
proof -
  from run change obtain c where c: "validateAcquire e q = Inr c" "acquire_body c d = Commit a d'"
    by (auto elim!: acquire.success)
  note v = validated_acquire [OF c(1)]
  from acquire.read_your_writes [OF ok run]
  have get: "GetSessionControl (aq_namespace q) (aq_session_name q) d' = Inr a"
    using c(1) by (auto simp: GetSessionControl_def getSessionControl_def validateAcquire_def Let_def split: sum.splits)
  from c(2) show ?thesis
  proof (rule acquire_commit [OF ok])
    fix r r' ts
    assume r: "find_row session_control_pk (aq_namespace c, aq_session_name c) (session_controls d) = Some r"
      "scr_version r = aq_expected_version c" "scr_lease_generation r = aq_expected_lease_generation c"
      "scr_availability r = SessionAvailable" "scan_lease r = None"
      "r' = acquire_set c (scr_lease_generation r + 1) r" "a = scanSessionControl r'"
    have "scan_lease r' = Some \<lparr>sl_generation = scr_lease_generation r + 1, sl_task_uid = aq_task_uid c,
        sl_attempt = aq_attempt c, sl_prompt_id = aq_prompt_id c, sl_request_digest = aq_request_digest c,
        sl_acquired_at = aq_acquired_at c, sl_expires_at = aq_expires_at c\<rparr>"
      using v(9) r(6) by (simp add: scan_lease_def acquire_set_def)
    with r v get show ?thesis by auto
  qed
qed

text \<open>
  Reconciliation unblocks the session and its branch claim together, on the same verified commit:
  both were blocked on the publication the request names, the session was not leased, and afterwards
  both are available with that baseline.
\<close>

theorem reconcile_moves_both:
  assumes ok: "db_ok d" and run: "ReconcileSessionControl e q d = (Inr a, d')" and change: "d' \<noteq> d"
  shows "\<exists>r c c'. find_row session_control_pk (TrimSpace (rc_namespace q), TrimSpace (rc_session_name q)) (session_controls d) = Some r \<and>
    scr_availability r = SessionReconciliationBlocked \<and> scan_lease r = None \<and>
    find_row bc_id (TrimSpace (rc_branch_claim_id q)) (branch_claims d) = Some c \<and>
    bc_availability c = BranchClaimReconciliationBlocked \<and>
    bc_related_publication_id c = scr_related_publication_id r \<and>
    find_row bc_id (TrimSpace (rc_branch_claim_id q)) (branch_claims d') = Some c' \<and>
    bc_availability c' = BranchClaimAvailable \<and> sc_availability a = SessionAvailable \<and>
    sc_verified_baseline a = Some \<lparr>vb_repository_id = bc_repository_id c', vb_ref = bc_ref c', vb_sha = rr_sha (bc_last_verified c')\<rparr> \<and>
    bc_owner_uid c' = bc_owner_uid c \<and> sc_lease_generation a = scr_lease_generation r"
proof -
  from run change obtain n where n: "validateReconcile e q = Inr n" "reconcile_body n d = Commit a d'"
    by (auto elim!: reconcile.success)
  note v = validated_reconcile [OF n(1)]
  from n(2) show ?thesis
  proof (rule reconcile_commit [OF ok])
    fix r r' c c'
    assume r: "find_row session_control_pk (rc_namespace n, rc_session_name n) (session_controls d) = Some r"
      "scan_lease r = None" "scr_availability r = SessionReconciliationBlocked"
      "scr_related_publication_id r = rc_expected_related_publication_id n"
      and c: "find_row bc_id (rc_branch_claim_id n) (branch_claims d) = Some c"
      "bc_availability c = BranchClaimReconciliationBlocked"
      "bc_related_publication_id c = rc_expected_related_publication_id n"
      "bc_repository_id c = vb_repository_id (rc_verified_baseline n)" "bc_ref c = vb_ref (rc_verified_baseline n)"
      and r': "r' = reconcile_set n r" "session_controls_check r'" "a = scanSessionControl r'"
      and c': "c' = reconcile_claim_set n c"
      and d': "d' = d\<lparr>branch_claims := put_row bc_id (rc_branch_claim_id n) c' (branch_claims d),
        session_controls := put_row session_control_pk (rc_namespace n, rc_session_name n) r' (session_controls d)\<rparr>"
    have ne: "vb_sha (rc_verified_baseline n) \<noteq> []"
      using n(1) by (auto simp: validateReconcile_def ValidateVerifiedBaseline_def Let_def dest: git_object_nonempty split: sum.splits)
    have a: "a = reconcile_result n (scanSessionControl r)"
      using reconcile_scan [OF r'(2) [unfolded r'(1)] ne] r' by simp
    have "find_row bc_id (rc_branch_claim_id n) (branch_claims d') = Some c'"
      using find_row_put_row_same [OF c(1)] find_row_SomeD [OF c(1)] d' c' by (simp add: reconcile_claim_set_def)
    with r c c' a v show ?thesis
      by (intro exI [where x = r] exI [where x = c] exI [where x = c'])
        (simp add: reconcile_claim_set_def reconcile_result_def)
  qed
qed

end
