(* ===== verification/Prompt_Attempt.thy ===== *)
theory Prompt_Attempt
  imports Controller_Epoch
begin

text \<open>
  Prompt attempts: one durable record per attempt to run a prompt, with an execution state and a
  delivery state.  Operations of \<^verbatim>\<open>internal/store/sqlite/prompt_attempt_store.go\<close> (creation, reads,
  execution and delivery transitions, recovery before submission) and
  \<^verbatim>\<open>NormalizePromptAttemptForCreate\<close>.

  The theorems show that an attempt is submitted at most once: after the acceptance boundary no
  operation brings it back to a state from which the prompt could be sent again, an attempt whose
  submission outcome is unknown can only be closed as such, and terminal states are final.
\<close>

section \<open>Identity and normalisation\<close>

definition ValidatePromptAttemptKey :: "PromptAttemptKey \<Rightarrow> store_error option" where
  "ValidatePromptAttemptKey k = first_error
     [ValidateControlIdentifier (pak_namespace k),
      ValidateControlIdentifier (pak_task_uid k),
      fail_if ErrValidation (pak_attempt k < 1),
      ValidateControlIdentifier (pak_prompt_id k)]"

definition prompt_attempt_id :: "env \<Rightarrow> PromptAttemptKey \<Rightarrow> string" where
  "prompt_attempt_id e k = CanonicalControlID e ''prompt-attempt''
     [pak_namespace k, pak_task_uid k, FormatInt (pak_attempt k), pak_prompt_id k]"

definition PromptAttemptKey_CanonicalID :: "env \<Rightarrow> PromptAttemptKey \<Rightarrow> store_error + string" where
  "PromptAttemptKey_CanonicalID e k =
     checks [ValidatePromptAttemptKey k] (Inr (prompt_attempt_id e k))"

definition attempt_defaults :: "env \<Rightarrow> PromptAttempt \<Rightarrow> PromptAttempt" where
  "attempt_defaults e a =
     (let k = (pa_key a)\<lparr>pak_namespace := TrimSpace (pak_namespace (pa_key a)),
          pak_task_uid := TrimSpace (pak_task_uid (pa_key a)),
          pak_prompt_id := TrimSpace (pak_prompt_id (pa_key a))\<rparr>;
          aid = TrimSpace (pa_id a)
      in a\<lparr>pa_key := k,
           pa_id := (if aid = [] then prompt_attempt_id e k else aid),
           pa_execution_state := (if pa_execution_state a = PromptExecution_other [] then PromptExecutionQueued
                                  else pa_execution_state a),
           pa_delivery_state := (if pa_delivery_state a = PromptDelivery_other [] then PromptDeliveryNotRequested
                                 else pa_delivery_state a),
           pa_session_uid := TrimSpace (pa_session_uid a),
           pa_runtime_instance_id := TrimSpace (pa_runtime_instance_id a)\<rparr>)"

definition NormalizePromptAttemptForCreate ::
  "env \<Rightarrow> PromptAttempt option \<Rightarrow> ControllerEpochFence \<Rightarrow> store_error + PromptAttempt \<times> ControllerEpochFence" where
  "NormalizePromptAttemptForCreate e attempt fence =
     (case attempt of
        None \<Rightarrow> Inl ErrValidation
      | Some attempt' \<Rightarrow>
        (let a = attempt_defaults e attempt' in checks
          [ValidatePromptAttemptKey (pa_key a),
           fail_if ErrValidation (pa_id a \<noteq> prompt_attempt_id e (pa_key a)),
           ValidateCanonicalDigest (pa_request_digest a),
           ValidateCanonicalDigest (pa_binding_digest a),
           ValidateCanonicalDigest (pa_snapshot_digest a),
           fail_if ErrValidation (\<not> IsKnownPromptExecutionState (pa_execution_state a)),
           fail_if ErrValidation (pa_execution_state a \<noteq> PromptExecutionQueued),
           fail_if ErrValidation (pa_delivery_state a \<noteq> PromptDeliveryNotRequested)]
          (case NormalizeEpochFence fence of
             Inl x \<Rightarrow> Inl x
           | Inr f \<Rightarrow> checks
               [fail_if ErrValidation (pa_session_lease_generation a < 0),
                fail_if ErrValidation (pa_session_lease_generation a > 0 \<and> pa_session_uid a = []),
                (if pa_session_uid a \<noteq> [] then ValidateControlIdentifier (pa_session_uid a) else None),
                (if pa_runtime_instance_id a \<noteq> [] then ValidateControlIdentifier (pa_runtime_instance_id a)
                 else None),
                fail_if ErrValidation (pa_version a \<noteq> 0 \<and> pa_version a \<noteq> 1)]
               (let now = NormalizeControlTime e (pa_created_at a) in
                Inr (a\<lparr>pa_created_at := now,
                       pa_updated_at := (if time_is_zero (pa_updated_at a) then now else pa_updated_at a),
                       pa_controller_epoch_name := cf_name f, pa_controller_epoch := cf_epoch f,
                       pa_version := 1, pa_last_operation_id := [], pa_last_operation_digest := []\<rparr>, f)))))"

section \<open>Creation and reads\<close>

definition getPromptAttempt :: "string \<Rightarrow> db \<Rightarrow> PromptAttempt option" where
  "getPromptAttempt aid d = find_row pa_id aid (prompt_attempts d)"

definition GetPromptAttempt :: "string \<Rightarrow> db \<Rightarrow> store_error + PromptAttempt" where
  "GetPromptAttempt aid d = checks [ValidateControlIdentifier (TrimSpace aid)]
     (case getPromptAttempt (TrimSpace aid) d of None \<Rightarrow> Inl ErrNotFound | Some a \<Rightarrow> Inr a)"

definition samePromptAttemptCreation :: "PromptAttempt \<Rightarrow> PromptAttempt \<Rightarrow> bool" where
  "samePromptAttemptCreation a b \<longleftrightarrow>
     pa_id a = pa_id b \<and> pa_key a = pa_key b \<and> pa_request_digest a = pa_request_digest b \<and>
     pa_binding_digest a = pa_binding_digest b \<and> pa_snapshot_digest a = pa_snapshot_digest b"

text \<open>The columns of the inserted row: the credential bindings are not among them.\<close>

definition attempt_row :: "PromptAttempt \<Rightarrow> PromptAttempt" where
  "attempt_row a = a\<lparr>pa_credential_bindings := []\<rparr>"

definition create_attempt_body :: "PromptAttempt \<Rightarrow> db \<Rightarrow> (PromptAttempt, db) tx_result" where
  "create_attempt_body n d =
     guards [fail_if ErrConflict
        (find_row reclamation_pk (pak_namespace (pa_key n), pak_task_uid (pa_key n))
           (prompt_attempt_reclamations d) \<noteq> None)]
      (case getPromptAttempt (pa_id n) d of
         Some existing \<Rightarrow> if samePromptAttemptCreation existing n then ReturnTx existing else Abort ErrConflict
       | None \<Rightarrow>
           (case sql_insert prompt_attempts_check attempt_clash (attempt_row n) (prompt_attempts d) of
              None \<Rightarrow>
                (case getPromptAttempt (pa_id n) d of
                   None \<Rightarrow> Abort ErrConflict
                 | Some existing \<Rightarrow>
                     if samePromptAttemptCreation existing n then ReturnTx existing else Abort ErrConflict)
            | Some t \<Rightarrow> Commit n (d\<lparr>prompt_attempts := t\<rparr>)))"

definition CreatePromptAttempt ::
  "env \<Rightarrow> PromptAttempt option \<times> ControllerEpochFence \<Rightarrow> db \<Rightarrow> (store_error + PromptAttempt) \<times> db" where
  "CreatePromptAttempt e q = validated (NormalizePromptAttemptForCreate e (fst q) (snd q))
     (\<lambda>r. fenced_tx e (snd r) (create_attempt_body (fst r)))"

section \<open>Recovery before submission\<close>

definition validateRecovery ::
  "env \<Rightarrow> PromptAttemptPreSubmissionRecovery \<Rightarrow> store_error + PromptAttemptPreSubmissionRecovery" where
  "validateRecovery e recovery =
     (let rid = TrimSpace (pr_id recovery) in
      checks [ValidateControlIdentifier rid]
       (case NormalizeEpochFence (pr_fence recovery) of
          Inl x \<Rightarrow> Inl x
        | Inr f \<Rightarrow>
          (let r = recovery\<lparr>pr_id := rid, pr_fence := f, pr_operation_id := TrimSpace (pr_operation_id recovery)\<rparr> in
           checks
            [fail_if ErrValidation (pr_expected_version r < 1),
             (if pr_expected_state r = PromptExecutionSubmitting then
                fail_if ErrValidation (\<not> pr_proven_not_accepted r)
              else if pr_expected_state r \<noteq> PromptExecutionReserved \<and>
                pr_expected_state r \<noteq> PromptExecutionSessionStarting \<and>
                pr_expected_state r \<noteq> PromptExecutionPlanned then Some ErrValidation
              else fail_if ErrValidation (pr_proven_not_accepted r)),
             fail_if ErrValidation (pr_preserve_bindings r \<and>
               (pr_expected_state r \<noteq> PromptExecutionSubmitting \<or> \<not> pr_proven_not_accepted r)),
             ValidateControlIdentifier (pr_operation_id r),
             ValidateCanonicalDigest (pr_operation_digest r)]
            (Inr (r\<lparr>pr_recovered_at := NormalizeControlTime e (pr_recovered_at r)\<rparr>)))))"

definition recover_set :: "PromptAttemptPreSubmissionRecovery \<Rightarrow> PromptAttempt \<Rightarrow> PromptAttempt" where
  "recover_set q a =
     (if pr_preserve_bindings q then
        a\<lparr>pa_execution_state := PromptExecutionReserved,
          pa_controller_epoch_name := cf_name (pr_fence q), pa_controller_epoch := cf_epoch (pr_fence q),
          pa_last_operation_id := pr_operation_id q, pa_last_operation_digest := pr_operation_digest q,
          pa_version := pa_version a + 1, pa_updated_at := pr_recovered_at q\<rparr>
      else
        a\<lparr>pa_execution_state := PromptExecutionReserved, pa_runtime_instance_id := [],
          pa_session_uid := [], pa_session_lease_generation := 0,
          pa_controller_epoch_name := cf_name (pr_fence q), pa_controller_epoch := cf_epoch (pr_fence q),
          pa_last_operation_id := pr_operation_id q, pa_last_operation_digest := pr_operation_digest q,
          pa_version := pa_version a + 1, pa_updated_at := pr_recovered_at q\<rparr>)"

definition recover_result :: "PromptAttemptPreSubmissionRecovery \<Rightarrow> PromptAttempt \<Rightarrow> PromptAttempt" where
  "recover_result q a =
     (let b = a\<lparr>pa_execution_state := PromptExecutionReserved\<rparr>;
          c = (if \<not> pr_preserve_bindings q
               then b\<lparr>pa_runtime_instance_id := [], pa_session_uid := [], pa_session_lease_generation := 0\<rparr> else b)
      in c\<lparr>pa_controller_epoch_name := cf_name (pr_fence q), pa_controller_epoch := cf_epoch (pr_fence q),
           pa_last_operation_id := pr_operation_id q, pa_last_operation_digest := pr_operation_digest q,
           pa_version := pa_version c + 1, pa_updated_at := pr_recovered_at q\<rparr>)"

definition recover_body ::
  "PromptAttemptPreSubmissionRecovery \<Rightarrow> db \<Rightarrow> (PromptAttempt, db) tx_result" where
  "recover_body q d = fetch pa_id (pr_id q) (prompt_attempts d) (\<lambda>attempt.
     if pa_last_operation_id attempt = pr_operation_id q then
       guards [fail_if ErrConflict (pa_last_operation_digest attempt \<noteq> pr_operation_digest q)]
        (if pa_execution_state attempt = PromptExecutionReserved then ReturnTx attempt else Abort ErrConflict)
     else guards
       [fail_if ErrConflict (pa_version attempt \<noteq> pr_expected_version q \<or>
          pa_execution_state attempt \<noteq> pr_expected_state q)]
       (update_one prompt_attempts_check
         (\<lambda>a. pa_id a = pr_id q \<and> pa_version a = pr_expected_version q \<and>
              pa_execution_state a = pr_expected_state q)
         (recover_set q) (prompt_attempts d)
         (\<lambda>t. Commit (recover_result q attempt) (d\<lparr>prompt_attempts := t\<rparr>))))"

definition RecoverPromptAttemptPreSubmission ::
  "env \<Rightarrow> PromptAttemptPreSubmissionRecovery \<Rightarrow> db \<Rightarrow> (store_error + PromptAttempt) \<times> db" where
  "RecoverPromptAttemptPreSubmission e recovery = validated (validateRecovery e recovery)
     (\<lambda>q. fenced_tx e (pr_fence q) (recover_body q))"

section \<open>Execution transitions\<close>

definition validateExecutionTransition ::
  "env \<Rightarrow> PromptAttemptExecutionTransition \<Rightarrow> store_error + PromptAttemptExecutionTransition" where
  "validateExecutionTransition e transition =
     (let tid = TrimSpace (xt_id transition) in
      checks [ValidateControlIdentifier tid]
       (case NormalizeEpochFence (xt_fence transition) of
          Inl x \<Rightarrow> Inl x
        | Inr f \<Rightarrow>
          (let t = transition\<lparr>xt_id := tid, xt_fence := f,
               xt_operation_id := TrimSpace (xt_operation_id transition),
               xt_runtime_instance_id := TrimSpace (xt_runtime_instance_id transition),
               xt_session_uid := TrimSpace (xt_session_uid transition)\<rparr> in
           checks
            [fail_if ErrValidation (xt_expected_version t < 1),
             ValidatePromptExecutionTransition (xt_expected_state t) (xt_new_state t),
             ValidateControlIdentifier (xt_operation_id t),
             ValidateCanonicalDigest (xt_operation_digest t),
             fail_if ErrValidation (xt_session_lease_generation t < 0),
             fail_if ErrValidation (xt_session_lease_generation t > 0 \<and> xt_session_uid t = []),
             (if xt_session_uid t \<noteq> [] then ValidateControlIdentifier (xt_session_uid t) else None),
             (if xt_runtime_instance_id t \<noteq> [] then ValidateControlIdentifier (xt_runtime_instance_id t)
              else None),
             ValidateControlReason (xt_terminal_reason t),
             ValidateControlReason (xt_outcome_marker t),
             fail_if ErrValidation (xt_new_state t = PromptExecutionOutcomeUnknown \<and>
               TrimSpace (xt_outcome_marker t) = [])]
            (Inr (t\<lparr>xt_updated_at := NormalizeControlTime e (xt_updated_at t)\<rparr>)))))"

text \<open>
  The local variables of the handler: the values of the row, replaced where the request sets them.
\<close>

definition xt_runtime :: "PromptAttemptExecutionTransition \<Rightarrow> PromptAttempt \<Rightarrow> string" where
  "xt_runtime q a = (if xt_runtime_instance_id q \<noteq> [] then xt_runtime_instance_id q else pa_runtime_instance_id a)"

definition xt_session :: "PromptAttemptExecutionTransition \<Rightarrow> PromptAttempt \<Rightarrow> string" where
  "xt_session q a = (if xt_session_uid q \<noteq> [] then xt_session_uid q else pa_session_uid a)"

definition xt_lease :: "PromptAttemptExecutionTransition \<Rightarrow> PromptAttempt \<Rightarrow> int" where
  "xt_lease q a =
     (if xt_session_lease_generation q > 0 then xt_session_lease_generation q else pa_session_lease_generation a)"

definition xt_reason :: "PromptAttemptExecutionTransition \<Rightarrow> PromptAttempt \<Rightarrow> string" where
  "xt_reason q a =
     (if xt_terminal_reason q \<noteq> [] \<or> IsTerminalPromptExecutionState (xt_new_state q)
      then xt_terminal_reason q else pa_terminal_reason a)"

definition xt_marker :: "PromptAttemptExecutionTransition \<Rightarrow> PromptAttempt \<Rightarrow> string" where
  "xt_marker q a = (if xt_outcome_marker q \<noteq> [] then xt_outcome_marker q else pa_outcome_marker a)"

definition execution_set ::
  "PromptAttemptExecutionTransition \<Rightarrow> PromptAttempt \<Rightarrow> PromptAttempt \<Rightarrow> PromptAttempt" where
  "execution_set q seen a =
     a\<lparr>pa_execution_state := xt_new_state q, pa_runtime_instance_id := xt_runtime q seen,
       pa_session_uid := xt_session q seen, pa_session_lease_generation := xt_lease q seen,
       pa_terminal_reason := xt_reason q seen, pa_outcome_marker := xt_marker q seen,
       pa_controller_epoch_name := cf_name (xt_fence q), pa_controller_epoch := cf_epoch (xt_fence q),
       pa_last_operation_id := xt_operation_id q, pa_last_operation_digest := xt_operation_digest q,
       pa_version := pa_version a + 1, pa_updated_at := xt_updated_at q\<rparr>"

definition execution_result :: "PromptAttemptExecutionTransition \<Rightarrow> PromptAttempt \<Rightarrow> PromptAttempt" where
  "execution_result q attempt =
     attempt\<lparr>pa_execution_state := xt_new_state q, pa_runtime_instance_id := xt_runtime q attempt,
       pa_session_uid := xt_session q attempt, pa_session_lease_generation := xt_lease q attempt,
       pa_terminal_reason := xt_reason q attempt, pa_outcome_marker := xt_marker q attempt,
       pa_controller_epoch_name := cf_name (xt_fence q), pa_controller_epoch := cf_epoch (xt_fence q),
       pa_last_operation_id := xt_operation_id q, pa_last_operation_digest := xt_operation_digest q,
       pa_version := pa_version attempt + 1, pa_updated_at := xt_updated_at q\<rparr>"

definition execution_body :: "PromptAttemptExecutionTransition \<Rightarrow> db \<Rightarrow> (PromptAttempt, db) tx_result" where
  "execution_body q d = fetch pa_id (xt_id q) (prompt_attempts d) (\<lambda>attempt.
     if pa_last_operation_id attempt = xt_operation_id q then
       guards [fail_if ErrConflict (pa_last_operation_digest attempt \<noteq> xt_operation_digest q)]
        (if pa_execution_state attempt = xt_new_state q then ReturnTx attempt else Abort ErrConflict)
     else guards
       [fail_if ErrConflict (pa_version attempt \<noteq> xt_expected_version q \<or>
          pa_execution_state attempt \<noteq> xt_expected_state q),
        fail_if ErrConflict (xt_runtime_instance_id q \<noteq> [] \<and> pa_runtime_instance_id attempt \<noteq> [] \<and>
          pa_runtime_instance_id attempt \<noteq> xt_runtime_instance_id q),
        fail_if ErrConflict (xt_session_uid q \<noteq> [] \<and> pa_session_uid attempt \<noteq> [] \<and>
          pa_session_uid attempt \<noteq> xt_session_uid q),
        fail_if ErrConflict (xt_session_lease_generation q > 0 \<and> pa_session_lease_generation attempt > 0 \<and>
          pa_session_lease_generation attempt \<noteq> xt_session_lease_generation q)]
       (update_one prompt_attempts_check
         (\<lambda>a. pa_id a = xt_id q \<and> pa_version a = xt_expected_version q \<and>
              pa_execution_state a = xt_expected_state q)
         (execution_set q attempt) (prompt_attempts d)
         (\<lambda>t. Commit (execution_result q attempt) (d\<lparr>prompt_attempts := t\<rparr>))))"

definition TransitionPromptAttemptExecution ::
  "env \<Rightarrow> PromptAttemptExecutionTransition \<Rightarrow> db \<Rightarrow> (store_error + PromptAttempt) \<times> db" where
  "TransitionPromptAttemptExecution e transition = validated (validateExecutionTransition e transition)
     (\<lambda>q. fenced_tx e (xt_fence q) (execution_body q))"

section \<open>Delivery transitions\<close>

definition validateDeliveryTransition ::
  "env \<Rightarrow> PromptAttemptDeliveryTransition \<Rightarrow> store_error + PromptAttemptDeliveryTransition" where
  "validateDeliveryTransition e transition =
     (let tid = TrimSpace (dt_id transition) in
      checks [ValidateControlIdentifier tid]
       (case NormalizeEpochFence (dt_fence transition) of
          Inl x \<Rightarrow> Inl x
        | Inr f \<Rightarrow>
          (let t = transition\<lparr>dt_id := tid, dt_fence := f,
               dt_operation_id := TrimSpace (dt_operation_id transition)\<rparr> in
           checks
            [fail_if ErrValidation (dt_expected_version t < 1),
             ValidatePromptDeliveryTransition (dt_expected_state t) (dt_new_state t),
             ValidateControlIdentifier (dt_operation_id t),
             ValidateCanonicalDigest (dt_operation_digest t),
             ValidateControlReason (dt_terminal_reason t)]
            (Inr (t\<lparr>dt_updated_at := NormalizeControlTime e (dt_updated_at t)\<rparr>)))))"

definition dt_reason :: "PromptAttemptDeliveryTransition \<Rightarrow> PromptAttempt \<Rightarrow> string" where
  "dt_reason q a =
     (if dt_terminal_reason q \<noteq> [] \<or> IsTerminalPromptDeliveryState (dt_new_state q)
      then dt_terminal_reason q else pa_terminal_reason a)"

definition delivery_set ::
  "PromptAttemptDeliveryTransition \<Rightarrow> PromptAttempt \<Rightarrow> PromptAttempt \<Rightarrow> PromptAttempt" where
  "delivery_set q seen a =
     a\<lparr>pa_delivery_state := dt_new_state q, pa_terminal_reason := dt_reason q seen,
       pa_controller_epoch_name := cf_name (dt_fence q), pa_controller_epoch := cf_epoch (dt_fence q),
       pa_last_operation_id := dt_operation_id q, pa_last_operation_digest := dt_operation_digest q,
       pa_version := pa_version a + 1, pa_updated_at := dt_updated_at q\<rparr>"

definition delivery_result :: "PromptAttemptDeliveryTransition \<Rightarrow> PromptAttempt \<Rightarrow> PromptAttempt" where
  "delivery_result q attempt =
     attempt\<lparr>pa_delivery_state := dt_new_state q, pa_terminal_reason := dt_reason q attempt,
       pa_controller_epoch_name := cf_name (dt_fence q), pa_controller_epoch := cf_epoch (dt_fence q),
       pa_last_operation_id := dt_operation_id q, pa_last_operation_digest := dt_operation_digest q,
       pa_version := pa_version attempt + 1, pa_updated_at := dt_updated_at q\<rparr>"

definition delivery_body :: "PromptAttemptDeliveryTransition \<Rightarrow> db \<Rightarrow> (PromptAttempt, db) tx_result" where
  "delivery_body q d = fetch pa_id (dt_id q) (prompt_attempts d) (\<lambda>attempt.
     if pa_last_operation_id attempt = dt_operation_id q then
       guards [fail_if ErrConflict (pa_last_operation_digest attempt \<noteq> dt_operation_digest q)]
        (if pa_delivery_state attempt = dt_new_state q then ReturnTx attempt else Abort ErrConflict)
     else guards
       [fail_if ErrConflict (pa_version attempt \<noteq> dt_expected_version q \<or>
          pa_delivery_state attempt \<noteq> dt_expected_state q)]
       (update_one prompt_attempts_check
         (\<lambda>a. pa_id a = dt_id q \<and> pa_version a = dt_expected_version q \<and>
              pa_delivery_state a = dt_expected_state q)
         (delivery_set q attempt) (prompt_attempts d)
         (\<lambda>t. Commit (delivery_result q attempt) (d\<lparr>prompt_attempts := t\<rparr>))))"

definition TransitionPromptAttemptDelivery ::
  "env \<Rightarrow> PromptAttemptDeliveryTransition \<Rightarrow> db \<Rightarrow> (store_error + PromptAttempt) \<times> db" where
  "TransitionPromptAttemptDelivery e transition = validated (validateDeliveryTransition e transition)
     (\<lambda>q. fenced_tx e (dt_fence q) (delivery_body q))"

section \<open>The operations as compare-and-swap\<close>

lemma execution_set_result: "execution_set q a a = execution_result q a"
  by (simp add: execution_set_def execution_result_def)

lemma delivery_set_result: "delivery_set q a a = delivery_result q a"
  by (simp add: delivery_set_def delivery_result_def)

lemma recover_set_result: "recover_set q a = recover_result q a"
  by (simp add: recover_set_def recover_result_def Let_def)

lemma attempt_results_kept [simp]:
  "pa_id (execution_result q a) = pa_id a" "pa_key (execution_result q a) = pa_key a"
  "pa_version (execution_result q a) = pa_version a + 1"
  "pa_execution_state (execution_result q a) = xt_new_state q"
  "pa_delivery_state (execution_result q a) = pa_delivery_state a"
  "pa_id (delivery_result q' a) = pa_id a" "pa_key (delivery_result q' a) = pa_key a"
  "pa_version (delivery_result q' a) = pa_version a + 1"
  "pa_execution_state (delivery_result q' a) = pa_execution_state a"
  "pa_delivery_state (delivery_result q' a) = dt_new_state q'"
  "pa_id (recover_result q'' a) = pa_id a" "pa_key (recover_result q'' a) = pa_key a"
  "pa_version (recover_result q'' a) = pa_version a + 1"
  "pa_execution_state (recover_result q'' a) = PromptExecutionReserved"
  "pa_delivery_state (recover_result q'' a) = pa_delivery_state a"
  by (simp_all add: execution_result_def delivery_result_def recover_result_def Let_def)

text \<open>An update of one attempt that keeps its identity keeps the schema.\<close>

lemma put_attempt_ok:
  assumes ok: "db_ok d" and get: "find_row pa_id aid (prompt_attempts d) = Some a"
    and chk: "prompt_attempts_check a'" and kept: "pa_id a' = pa_id a" "pa_key a' = pa_key a"
  shows "db_ok (d\<lparr>prompt_attempts := put_row pa_id aid a' (prompt_attempts d)\<rparr>)"
  using kept
  by (intro db_ok_set_table(2) [OF ok] attempts.put_row_ok [OF db_ok_tables(2) [OF ok] get chk])
    (auto simp: attempt_clash_def)

lemma execution_commit:
  assumes ok: "db_ok d" and body: "execution_body q d = Commit a d'"
  obtains r where "find_row pa_id (xt_id q) (prompt_attempts d) = Some r"
    "pa_last_operation_id r \<noteq> xt_operation_id q" "pa_version r = xt_expected_version q"
    "pa_execution_state r = xt_expected_state q" "a = execution_result q r" "prompt_attempts_check a"
    "d' = d\<lparr>prompt_attempts := put_row pa_id (xt_id q) a (prompt_attempts d)\<rparr>"
proof -
  from body obtain r t where r: "find_row pa_id (xt_id q) (prompt_attempts d) = Some r"
    "pa_last_operation_id r \<noteq> xt_operation_id q" "pa_version r = xt_expected_version q"
    "pa_execution_state r = xt_expected_state q" "a = execution_result q r" "d' = d\<lparr>prompt_attempts := t\<rparr>"
    and upd: "sql_update prompt_attempts_check
         (\<lambda>a. pa_id a = xt_id q \<and> pa_version a = xt_expected_version q \<and>
              pa_execution_state a = xt_expected_state q)
         (execution_set q r) (prompt_attempts d) = Some (t, 1)"
    by (auto simp: execution_body_def split: if_splits)
  from attempts.update_result [OF db_ok_tables(2) [OF ok] r(1) _ upd] r that show thesis
    by (auto simp: execution_set_result)
qed

lemma delivery_commit:
  assumes ok: "db_ok d" and body: "delivery_body q d = Commit a d'"
  obtains r where "find_row pa_id (dt_id q) (prompt_attempts d) = Some r"
    "pa_last_operation_id r \<noteq> dt_operation_id q" "pa_version r = dt_expected_version q"
    "pa_delivery_state r = dt_expected_state q" "a = delivery_result q r" "prompt_attempts_check a"
    "d' = d\<lparr>prompt_attempts := put_row pa_id (dt_id q) a (prompt_attempts d)\<rparr>"
proof -
  from body obtain r t where r: "find_row pa_id (dt_id q) (prompt_attempts d) = Some r"
    "pa_last_operation_id r \<noteq> dt_operation_id q" "pa_version r = dt_expected_version q"
    "pa_delivery_state r = dt_expected_state q" "a = delivery_result q r" "d' = d\<lparr>prompt_attempts := t\<rparr>"
    and upd: "sql_update prompt_attempts_check
         (\<lambda>a. pa_id a = dt_id q \<and> pa_version a = dt_expected_version q \<and>
              pa_delivery_state a = dt_expected_state q)
         (delivery_set q r) (prompt_attempts d) = Some (t, 1)"
    by (auto simp: delivery_body_def split: if_splits)
  from attempts.update_result [OF db_ok_tables(2) [OF ok] r(1) _ upd] r that show thesis
    by (auto simp: delivery_set_result)
qed

lemma recover_commit:
  assumes ok: "db_ok d" and body: "recover_body q d = Commit a d'"
  obtains r where "find_row pa_id (pr_id q) (prompt_attempts d) = Some r"
    "pa_last_operation_id r \<noteq> pr_operation_id q" "pa_version r = pr_expected_version q"
    "pa_execution_state r = pr_expected_state q" "a = recover_result q r" "prompt_attempts_check a"
    "d' = d\<lparr>prompt_attempts := put_row pa_id (pr_id q) a (prompt_attempts d)\<rparr>"
proof -
  from body obtain r t where r: "find_row pa_id (pr_id q) (prompt_attempts d) = Some r"
    "pa_last_operation_id r \<noteq> pr_operation_id q" "pa_version r = pr_expected_version q"
    "pa_execution_state r = pr_expected_state q" "a = recover_result q r" "d' = d\<lparr>prompt_attempts := t\<rparr>"
    and upd: "sql_update prompt_attempts_check
         (\<lambda>a. pa_id a = pr_id q \<and> pa_version a = pr_expected_version q \<and>
              pa_execution_state a = pr_expected_state q)
         (recover_set q) (prompt_attempts d) = Some (t, 1)"
    by (auto simp: recover_body_def split: if_splits)
  from attempts.update_result [OF db_ok_tables(2) [OF ok] r(1) _ upd] r that show thesis
    by (auto simp: recover_set_result)
qed

text \<open>What the validated requests carry.\<close>

lemma validated_execution:
  assumes "validateExecutionTransition e q = Inr c"
  shows "xt_id c = TrimSpace (xt_id q)" "NormalizeEpochFence (xt_fence q) = Inr (xt_fence c)"
    "xt_expected_version c = xt_expected_version q" "xt_expected_state c = xt_expected_state q"
    "xt_new_state c = xt_new_state q" "xt_operation_id c = TrimSpace (xt_operation_id q)"
    "xt_new_state c \<in> set (promptExecutionTransitions (xt_expected_state c))"
    "IsKnownPromptExecutionState (xt_new_state c)" "0 \<le> xt_session_lease_generation c"
  using assms
  by (auto simp: validateExecutionTransition_def ValidatePromptExecutionTransition_def Let_def
      split: sum.splits)

lemma validated_delivery:
  assumes "validateDeliveryTransition e q = Inr c"
  shows "dt_id c = TrimSpace (dt_id q)" "NormalizeEpochFence (dt_fence q) = Inr (dt_fence c)"
    "dt_expected_version c = dt_expected_version q"
    "dt_new_state c \<in> set (promptDeliveryTransitions (dt_expected_state c))"
    "IsKnownPromptDeliveryState (dt_new_state c)"
  using assms
  by (auto simp: validateDeliveryTransition_def ValidatePromptDeliveryTransition_def Let_def
      split: sum.splits)

lemma validated_recovery:
  assumes "validateRecovery e q = Inr c"
  shows "pr_id c = TrimSpace (pr_id q)" "NormalizeEpochFence (pr_fence q) = Inr (pr_fence c)"
    "pr_expected_version c = pr_expected_version q" "pr_expected_state c = pr_expected_state q"
    "pr_proven_not_accepted c = pr_proven_not_accepted q"
    "pr_expected_state c \<in> {PromptExecutionReserved, PromptExecutionSessionStarting, PromptExecutionPlanned} \<or>
     pr_expected_state c = PromptExecutionSubmitting \<and> pr_proven_not_accepted c"
  using assms by (auto simp: validateRecovery_def Let_def split: sum.splits if_splits)

interpretation execution: validated_cas TransitionPromptAttemptExecution validateExecutionTransition
  xt_fence xt_fence execution_body prompt_attempts pa_id "\<lambda>a. a" pa_version
  "\<lambda>q. TrimSpace (xt_id q)" xt_expected_version xt_id xt_expected_version
proof
  fix e q c d a d'
  show "TransitionPromptAttemptExecution e q d =
      validated (validateExecutionTransition e q) (\<lambda>c. fenced_tx e (xt_fence c) (execution_body c)) d"
    by (simp add: TransitionPromptAttemptExecution_def)
  show "execution_body c d = Commit a d' \<Longrightarrow> controller_epochs d' = controller_epochs d"
    by (auto simp: execution_body_def split: if_splits)
  show "execution_body c d = ReturnTx a \<Longrightarrow> \<exists>r. find_row pa_id (xt_id c) (prompt_attempts d) = Some r \<and> a = r"
    by (auto simp: execution_body_def split: if_splits)
  assume ok: "db_ok d" and body: "execution_body c d = Commit a d'"
  show "db_ok d'" using body by (rule execution_commit [OF ok]) (auto intro: put_attempt_ok [OF ok])
  show "\<exists>r r'. find_row pa_id (xt_id c) (prompt_attempts d) = Some r \<and> pa_version r = xt_expected_version c \<and>
      pa_version r' = pa_version r + 1 \<and> pa_id r' = xt_id c \<and> a = r' \<and>
      prompt_attempts d' = put_row pa_id (xt_id c) r' (prompt_attempts d)"
    using body by (rule execution_commit [OF ok]) (use find_row_SomeD in fastforce)
qed (auto dest: validated_execution)

interpretation delivery: validated_cas TransitionPromptAttemptDelivery validateDeliveryTransition
  dt_fence dt_fence delivery_body prompt_attempts pa_id "\<lambda>a. a" pa_version
  "\<lambda>q. TrimSpace (dt_id q)" dt_expected_version dt_id dt_expected_version
proof
  fix e q c d a d'
  show "TransitionPromptAttemptDelivery e q d =
      validated (validateDeliveryTransition e q) (\<lambda>c. fenced_tx e (dt_fence c) (delivery_body c)) d"
    by (simp add: TransitionPromptAttemptDelivery_def)
  show "delivery_body c d = Commit a d' \<Longrightarrow> controller_epochs d' = controller_epochs d"
    by (auto simp: delivery_body_def split: if_splits)
  show "delivery_body c d = ReturnTx a \<Longrightarrow> \<exists>r. find_row pa_id (dt_id c) (prompt_attempts d) = Some r \<and> a = r"
    by (auto simp: delivery_body_def split: if_splits)
  assume ok: "db_ok d" and body: "delivery_body c d = Commit a d'"
  show "db_ok d'" using body by (rule delivery_commit [OF ok]) (auto intro: put_attempt_ok [OF ok])
  show "\<exists>r r'. find_row pa_id (dt_id c) (prompt_attempts d) = Some r \<and> pa_version r = dt_expected_version c \<and>
      pa_version r' = pa_version r + 1 \<and> pa_id r' = dt_id c \<and> a = r' \<and>
      prompt_attempts d' = put_row pa_id (dt_id c) r' (prompt_attempts d)"
    using body by (rule delivery_commit [OF ok]) (use find_row_SomeD in fastforce)
qed (auto dest: validated_delivery)

interpretation recovery: validated_cas RecoverPromptAttemptPreSubmission validateRecovery
  pr_fence pr_fence recover_body prompt_attempts pa_id "\<lambda>a. a" pa_version
  "\<lambda>q. TrimSpace (pr_id q)" pr_expected_version pr_id pr_expected_version
proof
  fix e q c d a d'
  show "RecoverPromptAttemptPreSubmission e q d =
      validated (validateRecovery e q) (\<lambda>c. fenced_tx e (pr_fence c) (recover_body c)) d"
    by (simp add: RecoverPromptAttemptPreSubmission_def)
  show "recover_body c d = Commit a d' \<Longrightarrow> controller_epochs d' = controller_epochs d"
    by (auto simp: recover_body_def split: if_splits)
  show "recover_body c d = ReturnTx a \<Longrightarrow> \<exists>r. find_row pa_id (pr_id c) (prompt_attempts d) = Some r \<and> a = r"
    by (auto simp: recover_body_def split: if_splits)
  assume ok: "db_ok d" and body: "recover_body c d = Commit a d'"
  show "db_ok d'" using body by (rule recover_commit [OF ok]) (auto intro: put_attempt_ok [OF ok])
  show "\<exists>r r'. find_row pa_id (pr_id c) (prompt_attempts d) = Some r \<and> pa_version r = pr_expected_version c \<and>
      pa_version r' = pa_version r + 1 \<and> pa_id r' = pr_id c \<and> a = r' \<and>
      prompt_attempts d' = put_row pa_id (pr_id c) r' (prompt_attempts d)"
    using body by (rule recover_commit [OF ok]) (use find_row_SomeD in fastforce)
qed (auto dest: validated_recovery)

section \<open>Creation\<close>

lemma normalized_attempt:
  assumes "NormalizePromptAttemptForCreate e q f = Inr (n, f')"
  shows "NormalizeEpochFence f = Inr f'" "pa_id n = prompt_attempt_id e (pa_key n)"
    "ValidatePromptAttemptKey (pa_key n) = None"
    "pa_execution_state n = PromptExecutionQueued" "pa_delivery_state n = PromptDeliveryNotRequested"
    "pa_version n = 1" "prompt_attempts_check (attempt_row n)"
  using assms
  by (auto simp: NormalizePromptAttemptForCreate_def attempt_defaults_def Let_def attempt_row_def
      prompt_attempts_check_def ValidatePromptAttemptKey_def dest: normalized_fence(4)
      split: option.splits sum.splits)

lemma create_attempt_commit:
  "create_attempt_body n d = Commit a d' \<Longrightarrow>
   a = n \<and> getPromptAttempt (pa_id n) d = None \<and>
   find_row reclamation_pk (pak_namespace (pa_key n), pak_task_uid (pa_key n)) (prompt_attempt_reclamations d) = None \<and>
   (\<exists>t. sql_insert prompt_attempts_check attempt_clash (attempt_row n) (prompt_attempts d) = Some t \<and>
        d' = d\<lparr>prompt_attempts := t\<rparr>)"
  by (auto simp: create_attempt_body_def split: option.splits if_splits)

lemma create_attempt_return:
  "create_attempt_body n d = ReturnTx a \<Longrightarrow>
   getPromptAttempt (pa_id n) d = Some a \<and> samePromptAttemptCreation a n"
  by (auto simp: create_attempt_body_def split: option.splits if_splits)

lemma attempt_row_kept [simp]:
  "pa_id (attempt_row n) = pa_id n" "pa_key (attempt_row n) = pa_key n"
  "pa_execution_state (attempt_row n) = pa_execution_state n"
  by (simp_all add: attempt_row_def)

interpretation create_attempt: validated_create CreatePromptAttempt
  "\<lambda>e q. NormalizePromptAttemptForCreate e (fst q) (snd q)" snd snd
  "\<lambda>r. create_attempt_body (fst r)" prompt_attempts pa_id pa_id
proof
  fix e c d a d' and q :: "PromptAttempt option \<times> ControllerEpochFence"
  show "CreatePromptAttempt e q d =
      validated (NormalizePromptAttemptForCreate e (fst q) (snd q))
        (\<lambda>c. fenced_tx e (snd c) (create_attempt_body (fst c))) d"
    by (simp add: CreatePromptAttempt_def)
  show "create_attempt_body (fst c) d = ReturnTx a \<Longrightarrow> find_row pa_id (pa_id a) (prompt_attempts d) \<noteq> None"
    by (drule create_attempt_return) (auto simp: getPromptAttempt_def samePromptAttemptCreation_def)
  assume body: "create_attempt_body (fst c) d = Commit a d'"
  then show "controller_epochs d' = controller_epochs d"
    by (auto dest: create_attempt_commit)
  show "\<exists>r. find_row pa_id (pa_id r) (prompt_attempts d) = None \<and> prompt_attempts d' = prompt_attempts d @ [r] \<and>
      pa_id r = pa_id a"
    using create_attempt_commit [OF body]
    by (intro exI [where x = "attempt_row (fst c)"])
      (auto simp: getPromptAttempt_def sql_insert_def split: if_splits)
  assume "db_ok d"
  with create_attempt_commit [OF body] show "db_ok d'"
    by (auto intro!: db_ok_set_table(2) attempts.insert_ok [OF db_ok_tables(2)])
qed (auto dest: normalized_attempt)

section \<open>Properties\<close>

text \<open>
  A successful execution transition either finds its own earlier effect and changes nothing, or
  moves exactly the named attempt, at the expected version and state, along an edge of the transition
  table, and increases its version by one; no other attempt changes.
\<close>

theorem execution_transition_correct:
  assumes ok: "db_ok d" and run: "TransitionPromptAttemptExecution e q d = (Inr a, d')"
  shows "find_row pa_id (TrimSpace (xt_id q)) (prompt_attempts d') = Some a \<and>
    pa_execution_state a = xt_new_state q \<and>
    (d' = d \<or>
     (\<exists>r. find_row pa_id (TrimSpace (xt_id q)) (prompt_attempts d) = Some r \<and>
        pa_version r = xt_expected_version q \<and> pa_execution_state r = xt_expected_state q \<and>
        xt_new_state q \<in> set (promptExecutionTransitions (pa_execution_state r)) \<and>
        pa_key a = pa_key r \<and> pa_version a = pa_version r + 1 \<and> pa_delivery_state a = pa_delivery_state r)) \<and>
    (\<forall>k. k \<noteq> TrimSpace (xt_id q) \<longrightarrow>
       find_row pa_id k (prompt_attempts d') = find_row pa_id k (prompt_attempts d))"
proof -
  from run obtain c where c: "validateExecutionTransition e q = Inr c"
    "execution_body c d = ReturnTx a \<and> d' = d \<or> execution_body c d = Commit a d'" by (rule execution.success)
  note v = validated_execution [OF c(1)]
  from c(2) have "pa_execution_state a = xt_new_state q \<and>
    (d' = d \<or>
     (\<exists>r. find_row pa_id (TrimSpace (xt_id q)) (prompt_attempts d) = Some r \<and>
        pa_version r = xt_expected_version q \<and> pa_execution_state r = xt_expected_state q \<and>
        xt_new_state q \<in> set (promptExecutionTransitions (pa_execution_state r)) \<and>
        pa_key a = pa_key r \<and> pa_version a = pa_version r + 1 \<and> pa_delivery_state a = pa_delivery_state r))"
  proof
    assume "execution_body c d = ReturnTx a \<and> d' = d"
    then show ?thesis using v by (auto simp: execution_body_def split: if_splits)
  next
    assume "execution_body c d = Commit a d'"
    then show ?thesis by (rule execution_commit [OF ok]) (use v in auto)
  qed
  with execution.read_your_writes [OF ok run] execution.other_rows_kept [OF ok run] show ?thesis by auto
qed

text \<open>
  Two controllers that read the same version cannot both change an attempt: after the first
  transition took effect, a second one that expects the same version changes nothing.
\<close>

theorem execution_no_lost_update:
  assumes "db_ok d" "TransitionPromptAttemptExecution e1 q1 d = (Inr a, d1)" "d1 \<noteq> d"
    "TrimSpace (xt_id q2) = TrimSpace (xt_id q1)" "xt_expected_version q2 = xt_expected_version q1"
  shows "snd (TransitionPromptAttemptExecution e2 q2 d1) = d1"
  using execution.no_lost_update [OF assms(1) _ assms(2-5)] execution.keeps_ok [OF assms(1), of e1 q1] assms(2) by simp

text \<open>
  Recovery returns an attempt to \<open>Reserved\<close> only from a state before submission; from
  \<open>Submitting\<close>, where the runtime may have received the prompt, only with a proof that it was not
  accepted.
\<close>

theorem recovery_needs_proof:
  assumes ok: "db_ok d" and run: "RecoverPromptAttemptPreSubmission e q d = (Inr a, d')"
    and r: "find_row pa_id (TrimSpace (pr_id q)) (prompt_attempts d) = Some r"
  shows "pa_execution_state a = PromptExecutionReserved \<and>
    (pa_execution_state r \<in> {PromptExecutionReserved, PromptExecutionSessionStarting, PromptExecutionPlanned} \<or>
     pa_execution_state r = PromptExecutionSubmitting \<and> pr_proven_not_accepted q)"
proof -
  from run obtain c where c: "validateRecovery e q = Inr c"
    "recover_body c d = ReturnTx a \<and> d' = d \<or> recover_body c d = Commit a d'" by (rule recovery.success)
  note v = validated_recovery [OF c(1)]
  from c(2) show ?thesis
  proof
    assume "recover_body c d = ReturnTx a \<and> d' = d"
    then show ?thesis using v r by (auto simp: recover_body_def split: if_splits)
  next
    assume "recover_body c d = Commit a d'"
    then show ?thesis by (rule recover_commit [OF ok]) (use v r in auto)
  qed
qed

text \<open>
  A created attempt starts queued with nothing requested for delivery, under the identity its key
  determines; creating it again returns the recorded attempt and changes nothing.
\<close>

theorem attempt_created_once:
  assumes ok: "db_ok d" and run: "CreatePromptAttempt e q d = (Inr a, d')"
  shows "pa_id a = prompt_attempt_id e (pa_key a) \<and>
    (\<exists>r. find_row pa_id (pa_id a) (prompt_attempts d') = Some r \<and> pa_key r = pa_key a) \<and>
    (if find_row pa_id (pa_id a) (prompt_attempts d) = None
     then pa_execution_state a = PromptExecutionQueued \<and> pa_delivery_state a = PromptDeliveryNotRequested \<and>
       prompt_attempts d' = prompt_attempts d @ [attempt_row a]
     else d' = d)"
proof -
  from run obtain c where c: "NormalizePromptAttemptForCreate e (fst q) (snd q) = Inr c"
    "create_attempt_body (fst c) d = ReturnTx a \<and> d' = d \<or> create_attempt_body (fst c) d = Commit a d'"
    by (rule create_attempt.success)
  obtain n f where [simp]: "c = (n, f)" by (cases c)
  note v = normalized_attempt [OF c(1) [simplified]]
  from c(2) show ?thesis
  proof
    assume b: "create_attempt_body (fst c) d = ReturnTx a \<and> d' = d"
    with create_attempt_return [of n d a] v(2) show ?thesis
      by (auto simp: getPromptAttempt_def samePromptAttemptCreation_def)
  next
    assume "create_attempt_body (fst c) d = Commit a d'"
    from create_attempt_commit [OF this] v show ?thesis
      by (auto simp: getPromptAttempt_def sql_insert_def find_row_append split: if_splits)
  qed
qed

section \<open>Progress\<close>

text \<open>A request that ends an attempt, with an operation identifier the attempt has not seen.\<close>

definition end_request :: "ControllerEpochFence \<Rightarrow> PromptAttempt \<Rightarrow> PromptExecutionState \<Rightarrow> PromptAttemptExecutionTransition" where
  "end_request f a s =
     \<lparr>xt_id = pa_id a, xt_fence = f, xt_expected_version = pa_version a, xt_expected_state = pa_execution_state a,
      xt_new_state = s, xt_operation_id = (if pa_last_operation_id a = ''end'' then ''stop'' else ''end''),
      xt_operation_digest = ''sha256:'' @ replicate 64 (CHR ''0''), xt_runtime_instance_id = [], xt_session_uid = [],
      xt_session_lease_generation = 0, xt_terminal_reason = ''ended'', xt_outcome_marker = ''unknown'', xt_updated_at = 0\<rparr>"

lemma end_request_texts:
  "ValidateControlIdentifier ''end'' = None" "ValidateControlIdentifier ''stop'' = None"
  "ValidateCanonicalDigest (''sha256:'' @ replicate 64 (CHR ''0'')) = None"
  "ValidateControlReason ''ended'' = None" "ValidateControlReason ''unknown'' = None" "TrimSpace [] = []"
  "TrimSpace ''unknown'' = ''unknown''"
  subgoal by code_simp
  subgoal by code_simp
  subgoal by code_simp
  subgoal by code_simp
  subgoal by code_simp
  subgoal by code_simp
  subgoal by code_simp
  done

lemma validated_end_request:
  assumes "ValidateControlIdentifier (pa_id a) = None" "NormalizeEpochFence f = Inr f'" "1 \<le> pa_version a"
    "ValidatePromptExecutionTransition (pa_execution_state a) s = None"
  shows "\<exists>t. validateExecutionTransition e (end_request f a s) = Inr ((end_request f a s)\<lparr>xt_fence := f', xt_updated_at := t\<rparr>)"
  using assms end_request_texts identifier_trimmed [OF end_request_texts(1)] identifier_trimmed [OF end_request_texts(2)]
    identifier_trimmed [OF assms(1)]
  by (auto simp: validateExecutionTransition_def end_request_def Let_def)

lemma execution_body_ends:
  assumes ok: "db_ok d" and get: "find_row pa_id (pa_id a) (prompt_attempts d) = Some a"
    and f: "1 \<le> cf_epoch f'" and s: "IsKnownPromptExecutionState s"
  shows "\<exists>d'. execution_body ((end_request f a s)\<lparr>xt_fence := f', xt_updated_at := t\<rparr>) d =
    Commit (execution_result ((end_request f a s)\<lparr>xt_fence := f', xt_updated_at := t\<rparr>) a) d'"
proof -
  let ?q = "(end_request f a s)\<lparr>xt_fence := f', xt_updated_at := t\<rparr>"
  have "prompt_attempts_check a" using attempts.table_ok_chk [OF db_ok_tables(2) [OF ok]] find_row_SomeD [OF get] by blast
  then have "prompt_attempts_check (execution_set ?q a a)"
    using f s by (simp add: prompt_attempts_check_def execution_set_def xt_lease_def end_request_def)
  then have "sql_update prompt_attempts_check
      (\<lambda>x. pa_id x = xt_id ?q \<and> pa_version x = xt_expected_version ?q \<and> pa_execution_state x = xt_expected_state ?q)
      (execution_set ?q a) (prompt_attempts d) = Some (put_row pa_id (pa_id a) (execution_set ?q a a) (prompt_attempts d), 1)"
    by (intro attempts.update_hit [OF db_ok_tables(2) [OF ok] get, where
        P = "\<lambda>x. pa_version x = xt_expected_version ?q \<and> pa_execution_state x = xt_expected_state ?q"])
      (simp_all add: end_request_def)
  then show ?thesis using get
    by (simp add: execution_body_def fetch_def end_request_def update_one_def)
qed

text \<open>
  C32: an attempt is never stuck: the controller that holds the current epoch can end every attempt that
  is not terminal, whatever state it is in, with one transition, unless the database fails.
\<close>

theorem execution_never_stuck:
  assumes ok: "db_ok d" and e: "env_fault e = None" and f: "requireControllerEpoch d f = None"
    and a: "find_row pa_id k (prompt_attempts d) = Some a" "ValidateControlIdentifier k = None"
      "\<not> IsTerminalPromptExecutionState (pa_execution_state a)"
  shows "\<exists>q a' d'. xt_fence q = f \<and> TransitionPromptAttemptExecution e q d = (Inr a', d') \<and>
    find_row pa_id k (prompt_attempts d') = Some a' \<and> IsTerminalPromptExecutionState (pa_execution_state a')"
proof -
  have k: "k = pa_id a" using find_row_SomeD [OF a(1)] by simp
  have chk: "prompt_attempts_check a" using attempts.table_ok_chk [OF db_ok_tables(2) [OF ok]] find_row_SomeD [OF a(1)] by blast
  then obtain s where s: "s \<in> {PromptExecutionFailed, PromptExecutionOutcomeUnknown}"
    "ValidatePromptExecutionTransition (pa_execution_state a) s = None"
    using known_not_stuck a(3) by (auto simp: prompt_attempts_check_def)
  from requireControllerEpoch_None [OF f] obtain f' where f': "NormalizeEpochFence f = Inr f'" by blast
  from chk have "1 \<le> pa_version a" by (simp add: prompt_attempts_check_def)
  from validated_end_request [OF _ f' this s(2)] a(2) k obtain t where
    v: "validateExecutionTransition e (end_request f a s) = Inr ((end_request f a s)\<lparr>xt_fence := f', xt_updated_at := t\<rparr>)"
    (is "_ = Inr ?c") by blast
  from execution_body_ends [OF ok _ normalized_fence(4) [OF f']] a(1) k s(1) obtain d' where
    b: "execution_body ?c d = Commit (execution_result ?c a) d'" by fastforce
  have run: "TransitionPromptAttemptExecution e (end_request f a s) d = (Inr (execution_result ?c a), d')"
    using v b e f requireControllerEpoch_normalized [OF f']
    by (simp add: TransitionPromptAttemptExecution_def validated_def fenced_tx_def with_tx_def)
  from execution.read_your_writes [OF ok run] k identifier_trimmed [OF a(2)]
  have "find_row pa_id k (prompt_attempts d') = Some (execution_result ?c a)"
    by (auto simp: end_request_def)
  moreover have "IsTerminalPromptExecutionState (pa_execution_state (execution_result ?c a))"
    using s(1) by (auto simp: execution_result_def end_request_def IsTerminalPromptExecutionState_def)
  moreover have "xt_fence (end_request f a s) = f" by (simp add: end_request_def)
  ultimately show ?thesis using run by blast
qed

end
