(* ===== verification/Session_Turn.thy ===== *)
theory Session_Turn
  imports Session_Lease Prompt_Attempt
begin

text \<open>
  Session turns: opening a turn under the active lease, reading it, and resuming a finalization that
  is already durable (\<^verbatim>\<open>internal/store/sqlite/session_control_store.go\<close>, with
  \<^verbatim>\<open>NormalizeSessionTurnForCreate\<close> of \<^verbatim>\<open>internal/store/control_normalize.go\<close>).  A row carries the
  namespace and name of its session beside the fields of the struct.

  The theorems show that a turn is opened only while the exact lease of its key is active and its
  prompt attempt is bound to that lease, and that opening it twice returns the first one.
\<close>

record CreateSessionTurnRequest =
  ct_turn :: SessionTurn
  ct_fence :: ControllerEpochFence
  ct_expected_session_version :: int

record ResumeSessionTurnFinalizationRequest =
  rs_key :: SessionTurnKey
  rs_prompt_attempt_id :: string
  rs_finalization_digest :: string
  rs_fence :: ControllerEpochFence

definition turn_defaults :: "SessionTurn \<Rightarrow> SessionTurn" where
  "turn_defaults t =
     t\<lparr>st_key := (st_key t)\<lparr>tk_session_uid := TrimSpace (tk_session_uid (st_key t)),
         tk_task_uid := TrimSpace (tk_task_uid (st_key t)), tk_prompt_id := TrimSpace (tk_prompt_id (st_key t))\<rparr>,
       st_prompt_attempt_id := TrimSpace (st_prompt_attempt_id t),
       st_state := (if st_state t = SessionTurn_other [] then SessionTurnOpen else st_state t)\<rparr>"

definition NormalizeSessionTurnForCreate ::
  "env \<Rightarrow> SessionTurn \<Rightarrow> ControllerEpochFence \<Rightarrow> store_error + SessionTurn \<times> ControllerEpochFence" where
  "NormalizeSessionTurnForCreate e turn fence =
     (let t = turn_defaults turn in
      checks [ValidateSessionTurnKey (st_key t)]
       (case SessionTurnKey_CanonicalID e (st_key t) of
          Inl x \<Rightarrow> Inl x
        | Inr canonicalID \<Rightarrow>
          (let tid = (if TrimSpace (st_id t) = [] then canonicalID else TrimSpace (st_id t)) in
           checks
            [fail_if ErrValidation (tid \<noteq> canonicalID),
             ValidateControlIdentifier (st_prompt_attempt_id t),
             ValidateCanonicalDigest (st_request_digest t),
             fail_if ErrValidation (TrimSpace (st_user_prompt t) = []),
             ValidateControlText (st_user_prompt t),
             fail_if ErrValidation (st_state t \<noteq> SessionTurnOpen \<or>
               st_terminal_kind t \<noteq> SessionTurnTerminal_other [] \<or> st_terminal_content t \<noteq> [] \<or>
               st_finalization_digest t \<noteq> [] \<or> st_native_session_digest t \<noteq> [] \<or> st_publication_id t \<noteq> [] \<or>
               st_publication_receipt t \<noteq> None \<or> st_finalized_at t \<noteq> None)]
            (case NormalizeEpochFence fence of
               Inl x \<Rightarrow> Inl x
             | Inr f \<Rightarrow> checks
                 [fail_if ErrValidation (st_version t \<noteq> 0 \<and> st_version t \<noteq> 1)]
                 (let now = NormalizeControlTime e (st_created_at t) in
                  Inr (t\<lparr>st_id := tid, st_created_at := now,
                         st_updated_at := (if time_is_zero (st_updated_at t) then now else st_updated_at t),
                         st_controller_epoch_name := cf_name f, st_controller_epoch := cf_epoch f,
                         st_version := 1\<rparr>, f))))))"

definition SameSessionTurnCreation :: "SessionTurn \<Rightarrow> SessionTurn \<Rightarrow> bool" where
  "SameSessionTurnCreation a b \<longleftrightarrow>
     st_id a = st_id b \<and> st_key a = st_key b \<and> st_prompt_attempt_id a = st_prompt_attempt_id b \<and>
     st_request_digest a = st_request_digest b \<and> st_user_prompt a = st_user_prompt b"

text \<open>
  The digest of the native state is no column of the turn: it is selected from
  \<^verbatim>\<open>native_session_finalizations\<close>, empty if there is none.
\<close>

definition native_digest :: "string \<Rightarrow> db \<Rightarrow> string" where
  "native_digest tid d =
     (case find_row nf_turn_id tid (native_session_finalizations d) of None \<Rightarrow> [] | Some r \<Rightarrow> nf_capture_digest r)"

definition getSessionTurn :: "string \<Rightarrow> db \<Rightarrow> SessionTurn option" where
  "getSessionTurn tid d =
     map_option (\<lambda>r. (SessionTurn.truncate r)\<lparr>st_native_session_digest := native_digest (st_id r) d\<rparr>)
       (find_row st_id tid (session_turns d))"

definition GetSessionTurn :: "string \<Rightarrow> db \<Rightarrow> store_error + SessionTurn" where
  "GetSessionTurn tid d = checks [ValidateControlIdentifier (TrimSpace tid)]
     (case getSessionTurn (TrimSpace tid) d of None \<Rightarrow> Inl ErrNotFound | Some t \<Rightarrow> Inr t)"

text \<open>The inserted row: the columns the statement sets to literals or leaves to their defaults.\<close>

definition turn_row :: "SessionControl \<Rightarrow> SessionTurn \<Rightarrow> SessionTurnRow" where
  "turn_row control t = SessionTurn.extend
     (t\<lparr>st_state := SessionTurnOpen, st_terminal_kind := SessionTurnTerminal_other [], st_terminal_content := [],
        st_finalization_digest := [], st_native_session_digest := [], st_publication_id := [],
        st_publication_receipt := None, st_projection_id := [], st_projection_kind := [],
        st_projection_digest := [], st_projection_available_at := 0, st_version := 1, st_finalized_at := None\<rparr>)
     (SessionTurnRow.fields (sc_namespace control) (sc_session_name control))"

definition attempt_of_turn :: "PromptAttempt \<Rightarrow> SessionTurnKey \<Rightarrow> bool" where
  "attempt_of_turn a k \<longleftrightarrow>
     pak_task_uid (pa_key a) = tk_task_uid k \<and> pak_attempt (pa_key a) = tk_attempt k \<and>
     pak_prompt_id (pa_key a) = tk_prompt_id k \<and> pa_session_uid a = tk_session_uid k \<and>
     pa_session_lease_generation a = tk_lease_generation k"

definition validateCreateTurn ::
  "env \<Rightarrow> CreateSessionTurnRequest \<Rightarrow> store_error + SessionTurn \<times> ControllerEpochFence \<times> int" where
  "validateCreateTurn e request =
     (case NormalizeSessionTurnForCreate e (ct_turn request) (ct_fence request) of
        Inl x \<Rightarrow> Inl x
      | Inr (n, f) \<Rightarrow> checks [fail_if ErrValidation (ct_expected_session_version request < 1)]
          (Inr (n, f, ct_expected_session_version request)))"

definition create_turn_body ::
  "SessionTurn \<times> ControllerEpochFence \<times> int \<Rightarrow> db \<Rightarrow> (SessionTurn, db) tx_result" where
  "create_turn_body q d =
     (case q of (n, _, expectedSessionVersion) \<Rightarrow>
      case getSessionTurn (st_id n) d of
        Some existing \<Rightarrow> if SameSessionTurnCreation existing n then ReturnTx existing else Abort ErrConflict
      | None \<Rightarrow>
          (case getSessionControlByUID (tk_session_uid (st_key n)) d of
             None \<Rightarrow> Abort ErrNotFound
           | Some control \<Rightarrow> guards
               [fail_if ErrConflict (sc_version control \<noteq> expectedSessionVersion \<or>
                  \<not> sessionLeaseMatches (sc_lease control) (st_key n))]
               (fetch pa_id (st_prompt_attempt_id n) (prompt_attempts d) (\<lambda>attempt. guards
                 [fail_if ErrConflict (\<not> attempt_of_turn attempt (st_key n))]
                 (case sql_insert session_turns_check session_turn_clash (turn_row control n) (session_turns d) of
                    None \<Rightarrow> Abort ErrConflict
                  | Some t \<Rightarrow> Commit n (d\<lparr>session_turns := t\<rparr>))))))"

definition CreateSessionTurn ::
  "env \<Rightarrow> CreateSessionTurnRequest \<Rightarrow> db \<Rightarrow> (store_error + SessionTurn) \<times> db" where
  "CreateSessionTurn e request = validated (validateCreateTurn e request)
     (\<lambda>q. fenced_tx e (fst (snd q)) (create_turn_body q))"

definition validateResume ::
  "env \<Rightarrow> ResumeSessionTurnFinalizationRequest \<Rightarrow> store_error + ResumeSessionTurnFinalizationRequest" where
  "validateResume e request =
     checks [ValidateSessionTurnKey (rs_key request)]
      (case SessionTurnKey_CanonicalID e (rs_key request) of
         Inl x \<Rightarrow> Inl x
       | Inr turnID \<Rightarrow>
         (let r = request\<lparr>rs_prompt_attempt_id := TrimSpace (rs_prompt_attempt_id request)\<rparr> in
          checks
           [ValidateControlIdentifier (rs_prompt_attempt_id r),
            ValidateCanonicalDigest (rs_finalization_digest r)]
           (case NormalizeEpochFence (rs_fence r) of
              Inl x \<Rightarrow> Inl x
            | Inr f \<Rightarrow> Inr (r\<lparr>rs_fence := f\<rparr>))))"

definition resume_body ::
  "env \<Rightarrow> ResumeSessionTurnFinalizationRequest \<Rightarrow> db \<Rightarrow> (SessionTurn, db) tx_result" where
  "resume_body e q d =
     (case getSessionTurn (session_turn_id e (rs_key q)) d of
        None \<Rightarrow> Abort ErrNotFound
      | Some turn \<Rightarrow>
          if st_state turn \<noteq> SessionTurnFinalized \<or> st_key turn \<noteq> rs_key q \<or>
             st_prompt_attempt_id turn \<noteq> rs_prompt_attempt_id q \<or>
             st_finalization_digest turn \<noteq> rs_finalization_digest q
          then Abort ErrConflict else ReturnTx turn)"

definition ResumeSessionTurnFinalization ::
  "env \<Rightarrow> ResumeSessionTurnFinalizationRequest \<Rightarrow> db \<Rightarrow> (store_error + SessionTurn) \<times> db" where
  "ResumeSessionTurnFinalization e request = validated (validateResume e request)
     (\<lambda>q. fenced_tx e (rs_fence q) (resume_body e q))"

section \<open>Opening a turn\<close>

lemma normalized_turn:
  assumes "NormalizeSessionTurnForCreate e q f = Inr (n, f')"
  shows "NormalizeEpochFence f = Inr f'" "st_id n = session_turn_id e (st_key n)"
    "ValidateSessionTurnKey (st_key n) = None" "st_state n = SessionTurnOpen"
  using assms
  by (auto simp: NormalizeSessionTurnForCreate_def SessionTurnKey_CanonicalID_def Let_def split: sum.splits)

lemma validated_turn:
  assumes "validateCreateTurn e q = Inr (n, f, v)"
  shows "NormalizeEpochFence (ct_fence q) = Inr f" "st_id n = session_turn_id e (st_key n)"
    "v = ct_expected_session_version q"
  using assms by (auto simp: validateCreateTurn_def dest: normalized_turn split: sum.splits prod.splits)

lemma turn_truncate [simp]:
  "st_id (SessionTurn.truncate r) = st_id r" "st_key (SessionTurn.truncate r) = st_key r"
  "st_state (SessionTurn.truncate r) = st_state r"
  "st_finalization_digest (SessionTurn.truncate r) = st_finalization_digest r"
  by (simp_all add: SessionTurn.truncate_def)

lemma turn_row_kept [simp]:
  "st_id (turn_row c n) = st_id n" "st_key (turn_row c n) = st_key n" "st_state (turn_row c n) = SessionTurnOpen"
  "st_prompt_attempt_id (turn_row c n) = st_prompt_attempt_id n"
  by (simp_all add: turn_row_def SessionTurn.extend_def)

lemma create_turn_return:
  "create_turn_body (n, f, v) d = ReturnTx a \<Longrightarrow>
   getSessionTurn (st_id n) d = Some a \<and> SameSessionTurnCreation a n"
  by (auto simp: create_turn_body_def split: option.splits if_splits)

lemma create_turn_commit:
  assumes "create_turn_body (n, f, v) d = Commit a d'"
  obtains r p t where "a = n" "find_row st_id (st_id n) (session_turns d) = None"
    "find_row scr_session_uid (tk_session_uid (st_key n)) (session_controls d) = Some r" "scr_version r = v"
    "sessionLeaseMatches (scan_lease r) (st_key n)"
    "find_row pa_id (st_prompt_attempt_id n) (prompt_attempts d) = Some p" "attempt_of_turn p (st_key n)"
    "sql_insert session_turns_check session_turn_clash (turn_row (scanSessionControl r) n) (session_turns d) = Some t"
    "d' = d\<lparr>session_turns := t\<rparr>"
  using assms
  by (auto simp: create_turn_body_def getSessionTurn_def getSessionControlByUID_def
      split: option.splits if_splits)

interpretation create_turn: validated_create CreateSessionTurn validateCreateTurn ct_fence
  "\<lambda>q. fst (snd q)" create_turn_body session_turns st_id st_id
proof
  fix e q d a d' and c :: "SessionTurn \<times> ControllerEpochFence \<times> int"
  obtain n f v where c: "c = (n, f, v)" by (cases c) auto
  show "CreateSessionTurn e q d =
      validated (validateCreateTurn e q) (\<lambda>c. fenced_tx e (fst (snd c)) (create_turn_body c)) d"
    by (simp add: CreateSessionTurn_def)
  show "validateCreateTurn e q = Inr c \<Longrightarrow> NormalizeEpochFence (ct_fence q) = Inr (fst (snd c))"
    using validated_turn(1) unfolding c by simp
  show "create_turn_body c d = ReturnTx a \<Longrightarrow> find_row st_id (st_id a) (session_turns d) \<noteq> None"
    unfolding c by (drule create_turn_return) (auto simp: getSessionTurn_def SameSessionTurnCreation_def)
  assume body: "create_turn_body c d = Commit a d'"
  then obtain r t where a: "a = n" "find_row st_id (st_id n) (session_turns d) = None"
    and ins: "sql_insert session_turns_check session_turn_clash (turn_row (scanSessionControl r) n) (session_turns d) = Some t"
    and d': "d' = d\<lparr>session_turns := t\<rparr>"
    unfolding c by (rule create_turn_commit)
  from d' show "controller_epochs d' = controller_epochs d" by simp
  show "\<exists>r. find_row st_id (st_id r) (session_turns d) = None \<and> session_turns d' = session_turns d @ [r] \<and>
      st_id r = st_id a"
    using a ins d' by (intro exI [where x = "turn_row (scanSessionControl r) n"])
      (auto simp: sql_insert_def split: if_splits)
  assume ok: "db_ok d"
  from db_ok_set_table(4) [OF ok turns.insert_ok [OF db_ok_tables(6) [OF ok] ins]] d' show "db_ok d'" by simp
qed

lemma validated_resume:
  assumes "validateResume e q = Inr c"
  shows "NormalizeEpochFence (rs_fence q) = Inr (rs_fence c)" "rs_key c = rs_key q"
  using assms by (auto simp: validateResume_def Let_def split: sum.splits)

section \<open>Properties\<close>

text \<open>
  A turn is opened only under the exact lease of its session and for the prompt attempt that is
  bound to that lease, and at the session version the request names; opening it again returns the
  recorded turn and changes nothing.
\<close>

theorem turn_opened_under_lease:
  assumes run: "CreateSessionTurn e q d = (Inr t, d')" and change: "d' \<noteq> d"
  shows "\<exists>r p. find_row scr_session_uid (tk_session_uid (st_key t)) (session_controls d) = Some r \<and>
    scr_version r = ct_expected_session_version q \<and> sessionLeaseMatches (scan_lease r) (st_key t) \<and>
    find_row pa_id (st_prompt_attempt_id t) (prompt_attempts d) = Some p \<and>
    pa_session_uid p = tk_session_uid (st_key t) \<and> pa_session_lease_generation p = scr_lease_generation r \<and>
    pak_task_uid (pa_key p) = scr_lease_task_uid r \<and> pak_prompt_id (pa_key p) = scr_lease_prompt_id r \<and>
    find_row st_id (st_id t) (session_turns d) = None \<and>
    (\<exists>row. find_row st_id (st_id t) (session_turns d') = Some row \<and> st_key row = st_key t \<and> st_state row = SessionTurnOpen)"
proof -
  from run change obtain c where c: "validateCreateTurn e q = Inr c" "create_turn_body c d = Commit t d'"
    by (auto elim!: create_turn.success)
  obtain n f v where n: "c = (n, f, v)" by (cases c) auto
  note val = validated_turn [OF c(1) [unfolded n]]
  from c(2) [unfolded n] show ?thesis
  proof (rule create_turn_commit)
    fix r p t'
    assume t: "t = n" "find_row st_id (st_id n) (session_turns d) = None"
      and r: "find_row scr_session_uid (tk_session_uid (st_key n)) (session_controls d) = Some r" "scr_version r = v"
        "sessionLeaseMatches (scan_lease r) (st_key n)"
      and p: "find_row pa_id (st_prompt_attempt_id n) (prompt_attempts d) = Some p" "attempt_of_turn p (st_key n)"
      and ins: "sql_insert session_turns_check session_turn_clash (turn_row (scanSessionControl r) n) (session_turns d) = Some t'"
      and d': "d' = d\<lparr>session_turns := t'\<rparr>"
    have "find_row st_id (st_id n) (session_turns d') = Some (turn_row (scanSessionControl r) n)"
      using ins t(2) d' by (auto simp: sql_insert_def find_row_append split: if_splits)
    with t r p val show ?thesis
      by (auto simp: attempt_of_turn_def sessionLeaseMatches_row row_lease_key_def)
  qed
qed

end
