(* ===== verification/Outbox_Store.thy ===== *)
theory Outbox_Store
  imports Controller_Epoch "HOL-Library.Product_Lexorder" "HOL-Library.List_Lexorder" "HOL-Library.Char_ord"
begin

text \<open>
  The transactional outbox: projections that a worker leases, delivers and completes.  Operations of
  \<^verbatim>\<open>internal/store/sqlite/outbox_store.go\<close>; strings compare by bytes, as SQLite's \<^verbatim>\<open>BINARY\<close> collation
  does, and timestamps by the instant they denote.

  The theorems show that only due projections are claimed, earliest first and at most the limit,
  that a claim excludes other workers until its lease expires, that a completion needs the exact
  lease, and that delivered and dead-lettered projections are final.
\<close>

section \<open>Creation\<close>

definition outbox_defaults :: "OutboxProjection \<Rightarrow> OutboxProjection" where
  "outbox_defaults p =
     p\<lparr>ob_id := TrimSpace (ob_id p), ob_aggregate_kind := TrimSpace (ob_aggregate_kind p),
       ob_aggregate_id := TrimSpace (ob_aggregate_id p), ob_projection_kind := TrimSpace (ob_projection_kind p),
       ob_state := (if ob_state p = OutboxProjection_other [] then OutboxProjectionPending else ob_state p)\<rparr>"

definition normalizeOutboxProjectionForCreate ::
  "env \<Rightarrow> OutboxProjection \<Rightarrow> ControllerEpochFence \<Rightarrow> gotime \<Rightarrow> store_error + OutboxProjection \<times> ControllerEpochFence" where
  "normalizeOutboxProjectionForCreate e projection fence defaultTime =
     (let p = outbox_defaults projection in
      checks
       [ValidateControlIdentifier (ob_id p), ValidateControlIdentifier (ob_aggregate_kind p),
        ValidateControlIdentifier (ob_aggregate_id p), ValidateControlIdentifier (ob_projection_kind p),
        ValidateControlPayload e (ob_payload p), ValidateCanonicalDigest (ob_payload_digest p),
        fail_if ErrValidation (CanonicalBytesDigest e (ob_payload p) \<noteq> ob_payload_digest p)]
       (case NormalizeEpochFence fence of
          Inl x \<Rightarrow> Inl x
        | Inr f \<Rightarrow> checks
            [fail_if ErrValidation (ob_state p \<noteq> OutboxProjectionPending),
             fail_if ErrValidation (ob_version p \<noteq> 0 \<and> ob_version p \<noteq> 1),
             fail_if ErrValidation (ob_attempts p \<noteq> 0 \<or> ob_lease_owner p \<noteq> [] \<or> ob_lease_expires_at p \<noteq> None \<or>
               ob_delivery_digest p \<noteq> [] \<or> ob_delivered_at p \<noteq> None \<or> ob_last_operation_id p \<noteq> [] \<or>
               ob_last_operation_digest p \<noteq> [])]
            (let created = (if time_is_zero defaultTime then NormalizeControlTime e (ob_created_at p) else defaultTime);
                 available = (if time_is_zero (ob_available_at p) then created else ob_available_at p) in
             Inr (p\<lparr>ob_created_at := created,
                    ob_updated_at := (if time_is_zero (ob_updated_at p) then created else ob_updated_at p),
                    ob_available_at := available, ob_initial_available_at := available,
                    ob_controller_epoch_name := cf_name f, ob_controller_epoch := cf_epoch f,
                    ob_version := 1, ob_last_error := []\<rparr>, f))))"

definition sameOutboxProjectionCreation :: "OutboxProjection \<Rightarrow> OutboxProjection \<Rightarrow> bool \<Rightarrow> bool" where
  "sameOutboxProjectionCreation a b compareSchedule \<longleftrightarrow>
     ob_id a = ob_id b \<and> ob_aggregate_kind a = ob_aggregate_kind b \<and> ob_aggregate_id a = ob_aggregate_id b \<and>
     ob_projection_kind a = ob_projection_kind b \<and> ob_payload_digest a = ob_payload_digest b \<and>
     ob_payload a = ob_payload b \<and>
     (\<not> compareSchedule \<or> ob_initial_available_at a = ob_initial_available_at b)"

definition getOutboxProjection :: "string \<Rightarrow> db \<Rightarrow> OutboxProjection option" where
  "getOutboxProjection oid d = find_row ob_id oid (outbox_projections d)"

definition GetOutboxProjection :: "string \<Rightarrow> db \<Rightarrow> store_error + OutboxProjection" where
  "GetOutboxProjection oid d = checks [ValidateControlIdentifier (TrimSpace oid)]
     (case getOutboxProjection (TrimSpace oid) d of None \<Rightarrow> Inl ErrNotFound | Some p \<Rightarrow> Inr p)"

text \<open>The inserted columns; those with literal values in the statement are reset here.\<close>

definition outbox_row :: "OutboxProjection \<Rightarrow> OutboxProjection" where
  "outbox_row p =
     p\<lparr>ob_attempts := 0, ob_lease_owner := [], ob_lease_expires_at := None, ob_delivery_digest := [],
       ob_last_error := [], ob_last_operation_id := [], ob_last_operation_digest := [], ob_version := 1,
       ob_delivered_at := None\<rparr>"

definition enqueueOutboxProjectionTx :: "OutboxProjection \<Rightarrow> bool \<Rightarrow> db \<Rightarrow> (store_error + OutboxProjection) \<times> db" where
  "enqueueOutboxProjectionTx p compareSchedule d =
     (case sql_insert outbox_projections_check outbox_clash (outbox_row p) (outbox_projections d) of
        Some t \<Rightarrow> (Inr p, d\<lparr>outbox_projections := t\<rparr>)
      | None \<Rightarrow>
          (case getOutboxProjection (ob_id p) d of
             Some existing \<Rightarrow>
               if sameOutboxProjectionCreation existing p compareSchedule then (Inr existing, d)
               else (Inl ErrConflict, d)
           | None \<Rightarrow> (Inl ErrConflict, d)))"

definition prepareEnqueue ::
  "env \<Rightarrow> OutboxProjection option \<times> ControllerEpochFence \<Rightarrow> store_error + bool \<times> OutboxProjection \<times> ControllerEpochFence" where
  "prepareEnqueue e q =
     (case fst q of
        None \<Rightarrow> Inl ErrValidation
      | Some p \<Rightarrow>
          map_sum id (Pair (\<not> time_is_zero (ob_available_at p))) (normalizeOutboxProjectionForCreate e p (snd q) 0))"

definition enqueue_body ::
  "bool \<times> OutboxProjection \<times> ControllerEpochFence \<Rightarrow> db \<Rightarrow> (OutboxProjection, db) tx_result" where
  "enqueue_body q d =
     (case enqueueOutboxProjectionTx (fst (snd q)) (fst q) d of
        (Inl x, d') \<Rightarrow> Abort x
      | (Inr created, d') \<Rightarrow> Commit created d')"

definition EnqueueOutboxProjection ::
  "env \<Rightarrow> OutboxProjection option \<times> ControllerEpochFence \<Rightarrow> db \<Rightarrow> (store_error + OutboxProjection) \<times> db" where
  "EnqueueOutboxProjection e q = validated (prepareEnqueue e q)
     (\<lambda>r. fenced_tx e (snd (snd r)) (enqueue_body r))"

section \<open>Claims\<close>

definition defaultOutboxClaimLimit :: int where
  "defaultOutboxClaimLimit = 50"

definition maxOutboxClaimLimit :: int where
  "maxOutboxClaimLimit = 500"

definition nanoseconds_24h :: int where
  "nanoseconds_24h = 24 * 60 * 60 * 1000000000"

definition claim_limit :: "int \<Rightarrow> int" where
  "claim_limit requested =
     (let limit = (if requested \<le> 0 then defaultOutboxClaimLimit else requested)
      in if limit > maxOutboxClaimLimit then maxOutboxClaimLimit else limit)"

definition validateClaim :: "env \<Rightarrow> ClaimOutboxProjectionsRequest \<Rightarrow> store_error + ClaimOutboxProjectionsRequest" where
  "validateClaim e request =
     (case NormalizeEpochFence (oc_fence request) of
        Inl x \<Rightarrow> Inl x
      | Inr f \<Rightarrow>
        (let r = request\<lparr>oc_fence := f, oc_worker_id := TrimSpace (oc_worker_id request)\<rparr> in
         checks
          [ValidateControlIdentifier (oc_worker_id r),
           fail_if ErrValidation (oc_lease_duration r \<le> 0 \<or> oc_lease_duration r > nanoseconds_24h)]
          (Inr (r\<lparr>oc_now := NormalizeControlTime e (oc_now r), oc_limit := claim_limit (oc_limit r)\<rparr>))))"

definition outbox_due :: "gotime \<Rightarrow> OutboxProjection \<Rightarrow> bool" where
  "outbox_due now p \<longleftrightarrow>
     ob_state p = OutboxProjectionPending \<and> ob_available_at p \<le> now \<or>
     ob_state p = OutboxProjectionDelivering \<and>
       (case ob_lease_expires_at p of None \<Rightarrow> False | Some t \<Rightarrow> t \<le> now)"

definition due_order :: "OutboxProjection \<Rightarrow> int \<times> int \<times> string" where
  "due_order p = (ob_available_at p, ob_created_at p, ob_id p)"

definition select_due :: "ClaimOutboxProjectionsRequest \<Rightarrow> OutboxProjection list \<Rightarrow> string list" where
  "select_due q t = map ob_id (take (nat (oc_limit q)) (sort_key due_order (filter (outbox_due (oc_now q)) t)))"

definition claim_set :: "ClaimOutboxProjectionsRequest \<Rightarrow> OutboxProjection \<Rightarrow> OutboxProjection" where
  "claim_set q p =
     p\<lparr>ob_state := OutboxProjectionDelivering, ob_attempts := ob_attempts p + 1,
       ob_lease_owner := oc_worker_id q, ob_lease_expires_at := Some (oc_now q + oc_lease_duration q),
       ob_controller_epoch_name := cf_name (oc_fence q), ob_controller_epoch := cf_epoch (oc_fence q),
       ob_version := ob_version p + 1, ob_updated_at := oc_now q\<rparr>"

definition claim_result :: "ClaimOutboxProjectionsRequest \<Rightarrow> OutboxProjection \<Rightarrow> OutboxProjection" where
  "claim_result q projection =
     projection\<lparr>ob_state := OutboxProjectionDelivering, ob_attempts := ob_attempts projection + 1,
       ob_lease_owner := oc_worker_id q, ob_lease_expires_at := Some (oc_now q + oc_lease_duration q),
       ob_controller_epoch_name := cf_name (oc_fence q), ob_controller_epoch := cf_epoch (oc_fence q),
       ob_version := ob_version projection + 1, ob_updated_at := oc_now q\<rparr>"

text \<open>The loop over the selected identifiers: the claimed records and the table.\<close>

fun claim_loop ::
  "ClaimOutboxProjectionsRequest \<Rightarrow> string list \<Rightarrow> OutboxProjection list \<Rightarrow> store_error + OutboxProjection list \<times> OutboxProjection list" where
  "claim_loop q [] t = Inr ([], t)"
| "claim_loop q (oid # oids) t =
     (case find_row ob_id oid t of
        None \<Rightarrow> Inl ErrNotFound
      | Some p \<Rightarrow>
          (case sql_update outbox_projections_check
                  (\<lambda>x. ob_id x = oid \<and> ob_version x = ob_version p \<and> outbox_due (oc_now q) x) (claim_set q) t of
             None \<Rightarrow> Inl ErrDriver
           | Some (t', n) \<Rightarrow>
               if n \<noteq> 1 then Inl ErrConflict
               else case claim_loop q oids t' of
                      Inl x \<Rightarrow> Inl x
                    | Inr (claimed, t'') \<Rightarrow> Inr (claim_result q p # claimed, t'')))"

definition claim_body :: "ClaimOutboxProjectionsRequest \<Rightarrow> db \<Rightarrow> (OutboxProjection list, db) tx_result" where
  "claim_body q d =
     (case claim_loop q (select_due q (outbox_projections d)) (outbox_projections d) of
        Inl x \<Rightarrow> Abort x
      | Inr (claimed, t) \<Rightarrow> Commit claimed (d\<lparr>outbox_projections := t\<rparr>))"

definition ClaimOutboxProjections ::
  "env \<Rightarrow> ClaimOutboxProjectionsRequest \<Rightarrow> db \<Rightarrow> (store_error + OutboxProjection list) \<times> db" where
  "ClaimOutboxProjections e request = validated (validateClaim e request)
     (\<lambda>q. fenced_tx e (oc_fence q) (claim_body q))"

section \<open>Completion\<close>

definition validateCompletion ::
  "env \<Rightarrow> CompleteOutboxProjectionRequest \<Rightarrow> store_error + CompleteOutboxProjectionRequest" where
  "validateCompletion e request =
     (let r0 = request\<lparr>od_id := TrimSpace (od_id request), od_lease_owner := TrimSpace (od_lease_owner request)\<rparr> in
      checks [ValidateControlIdentifier (od_id r0), ValidateControlIdentifier (od_lease_owner r0)]
       (case NormalizeEpochFence (od_fence r0) of
          Inl x \<Rightarrow> Inl x
        | Inr f \<Rightarrow>
          (let r = r0\<lparr>od_fence := f, od_operation_id := TrimSpace (od_operation_id r0),
               od_updated_at := NormalizeControlTime e (od_updated_at r0),
               od_last_error := TrimSpace (od_last_error r0)\<rparr> in
           checks
            [fail_if ErrValidation (od_expected_version r < 1),
             ValidateControlIdentifier (od_operation_id r),
             ValidateCanonicalDigest (od_operation_digest r),
             ValidateControlReason (od_last_error r),
             (case od_new_state r of
                OutboxProjectionDelivered \<Rightarrow> first_error
                  [ValidateCanonicalDigest (od_delivery_digest r),
                   fail_if ErrValidation (od_last_error r \<noteq> [])]
              | OutboxProjectionPending \<Rightarrow>
                  fail_if ErrValidation (od_last_error r = [] \<or> od_delivery_digest r \<noteq> [])
              | OutboxProjectionDeadLetter \<Rightarrow>
                  fail_if ErrValidation (od_last_error r = [] \<or> od_delivery_digest r \<noteq> [])
              | _ \<Rightarrow> Some ErrValidation)]
            (Inr (r\<lparr>od_available_at :=
               (if od_new_state r = OutboxProjectionPending \<and> time_is_zero (od_available_at r)
                then od_updated_at r else od_available_at r)\<rparr>)))))"

definition outboxCompletionMatches :: "OutboxProjection \<Rightarrow> CompleteOutboxProjectionRequest \<Rightarrow> bool" where
  "outboxCompletionMatches p q \<longleftrightarrow>
     ob_state p = od_new_state q \<and>
     (case od_new_state q of
        OutboxProjectionDelivered \<Rightarrow> ob_delivery_digest p = od_delivery_digest q \<and> ob_last_error p = []
      | OutboxProjectionPending \<Rightarrow>
          ob_delivery_digest p = [] \<and> ob_last_error p = od_last_error q \<and> ob_available_at p = od_available_at q
      | OutboxProjectionDeadLetter \<Rightarrow> ob_delivery_digest p = [] \<and> ob_last_error p = od_last_error q
      | _ \<Rightarrow> False)"

definition completion_available :: "CompleteOutboxProjectionRequest \<Rightarrow> OutboxProjection \<Rightarrow> gotime" where
  "completion_available q p =
     (if od_new_state q = OutboxProjectionPending then od_available_at q else ob_available_at p)"

definition completion_delivered :: "CompleteOutboxProjectionRequest \<Rightarrow> gotime option" where
  "completion_delivered q = (if od_new_state q = OutboxProjectionDelivered then Some (od_updated_at q) else None)"

definition complete_set ::
  "CompleteOutboxProjectionRequest \<Rightarrow> OutboxProjection \<Rightarrow> OutboxProjection \<Rightarrow> OutboxProjection" where
  "complete_set q seen p =
     p\<lparr>ob_state := od_new_state q, ob_available_at := completion_available q seen, ob_lease_owner := [],
       ob_lease_expires_at := None, ob_delivery_digest := od_delivery_digest q, ob_last_error := od_last_error q,
       ob_last_operation_id := od_operation_id q, ob_last_operation_digest := od_operation_digest q,
       ob_controller_epoch_name := cf_name (od_fence q), ob_controller_epoch := cf_epoch (od_fence q),
       ob_version := ob_version p + 1, ob_updated_at := od_updated_at q,
       ob_delivered_at := completion_delivered q\<rparr>"

definition complete_result :: "CompleteOutboxProjectionRequest \<Rightarrow> OutboxProjection \<Rightarrow> OutboxProjection" where
  "complete_result q projection =
     projection\<lparr>ob_state := od_new_state q, ob_available_at := completion_available q projection,
       ob_lease_owner := [], ob_lease_expires_at := None, ob_delivery_digest := od_delivery_digest q,
       ob_last_error := od_last_error q, ob_last_operation_id := od_operation_id q,
       ob_last_operation_digest := od_operation_digest q,
       ob_controller_epoch_name := cf_name (od_fence q), ob_controller_epoch := cf_epoch (od_fence q),
       ob_version := ob_version projection + 1, ob_updated_at := od_updated_at q,
       ob_delivered_at := completion_delivered q\<rparr>"

definition complete_body :: "CompleteOutboxProjectionRequest \<Rightarrow> db \<Rightarrow> (OutboxProjection, db) tx_result" where
  "complete_body q d = fetch ob_id (od_id q) (outbox_projections d) (\<lambda>projection.
     if ob_last_operation_id projection = od_operation_id q then
       guards [fail_if ErrConflict (ob_last_operation_digest projection \<noteq> od_operation_digest q)]
        (if outboxCompletionMatches projection q then ReturnTx projection else Abort ErrConflict)
     else guards
       [fail_if ErrConflict (ob_version projection \<noteq> od_expected_version q \<or>
          ob_state projection \<noteq> OutboxProjectionDelivering \<or> ob_lease_owner projection \<noteq> od_lease_owner q)]
       (update_one outbox_projections_check
         (\<lambda>p. ob_id p = od_id q \<and> ob_version p = od_expected_version q \<and>
            ob_state p = OutboxProjectionDelivering \<and> ob_lease_owner p = od_lease_owner q)
         (complete_set q projection) (outbox_projections d)
         (\<lambda>t. Commit (complete_result q projection) (d\<lparr>outbox_projections := t\<rparr>))))"

definition CompleteOutboxProjection ::
  "env \<Rightarrow> CompleteOutboxProjectionRequest \<Rightarrow> db \<Rightarrow> (store_error + OutboxProjection) \<times> db" where
  "CompleteOutboxProjection e request = validated (validateCompletion e request)
     (\<lambda>q. fenced_tx e (od_fence q) (complete_body q))"

definition CountUnsettledOutboxProjections :: "db \<Rightarrow> nat" where
  "CountUnsettledOutboxProjections d =
     length (filter (\<lambda>p. ob_state p \<in> {OutboxProjectionPending, OutboxProjectionDelivering}) (outbox_projections d))"

section \<open>Enqueue as a creation\<close>

lemma outbox_defaults_id [simp]: "ob_id (outbox_defaults p) = TrimSpace (ob_id p)"
  by (simp add: outbox_defaults_def)

lemma normalized_outbox:
  assumes "normalizeOutboxProjectionForCreate e p fence t = Inr (c, f)"
  shows "NormalizeEpochFence fence = Inr f" "ob_id c = TrimSpace (ob_id p)"
    "ob_state c = OutboxProjectionPending" "outbox_projections_check c" "outbox_row c = c"
    "CanonicalBytesDigest e (ob_payload c) = ob_payload_digest c"
proof -
  let ?p = "outbox_defaults p"
  from assms obtain created available updated where
    f: "NormalizeEpochFence fence = Inr f" and
    p: "ob_state ?p = OutboxProjectionPending" "ob_attempts ?p = 0" "ob_lease_owner ?p = []"
      "ob_lease_expires_at ?p = None" "ob_delivery_digest ?p = []" "ob_delivered_at ?p = None"
      "ob_last_operation_id ?p = []" "ob_last_operation_digest ?p = []"
      "CanonicalBytesDigest e (ob_payload ?p) = ob_payload_digest ?p" and
    c: "c = ?p\<lparr>ob_created_at := created, ob_updated_at := updated,
                ob_available_at := available, ob_initial_available_at := available,
                ob_controller_epoch_name := cf_name f, ob_controller_epoch := cf_epoch f,
                ob_version := 1, ob_last_error := []\<rparr>"
    by (simp add: normalizeOutboxProjectionForCreate_def Let_def split: sum.splits) blast
  from normalized_fence(4) [OF f] have "0 < cf_epoch f" by simp
  with p c f show "NormalizeEpochFence fence = Inr f" "ob_id c = TrimSpace (ob_id p)"
    "ob_state c = OutboxProjectionPending" "outbox_projections_check c" "outbox_row c = c"
    "CanonicalBytesDigest e (ob_payload c) = ob_payload_digest c"
    by (simp_all add: outbox_projections_check_def outbox_row_def)
qed

lemma prepared_enqueue:
  assumes "prepareEnqueue e q = Inr c"
  shows "NormalizeEpochFence (snd q) = Inr (snd (snd c))" "outbox_row (fst (snd c)) = fst (snd c)"
  using assms by (auto simp: prepareEnqueue_def map_sum_def dest: normalized_outbox split: option.splits sum.splits)

lemma outbox_row_id [simp]: "ob_id (outbox_row p) = ob_id p"
  by (simp add: outbox_row_def)

text \<open>
  The enqueueing transaction commits in both cases: with one fresh row, or with none when the
  projection was enqueued before.
\<close>

lemma enqueue_tx_ok:
  assumes "enqueueOutboxProjectionTx p cmp d = (Inr a, d')"
  shows "a = p \<and> sql_insert outbox_projections_check outbox_clash (outbox_row p) (outbox_projections d) =
       Some (outbox_projections d') \<and> d' = d\<lparr>outbox_projections := outbox_projections d'\<rparr> \<or>
     d' = d \<and> find_row ob_id (ob_id p) (outbox_projections d) = Some a \<and> sameOutboxProjectionCreation a p cmp"
  using assms by (auto simp: enqueueOutboxProjectionTx_def getOutboxProjection_def split: option.splits if_splits)

lemma enqueue_tx_keeps:
  assumes ok: "db_ok d" and run: "enqueueOutboxProjectionTx p cmp d = (Inr a, d')"
  shows "db_ok d'" "\<exists>t. d' = d\<lparr>outbox_projections := t\<rparr>"
proof -
  from enqueue_tx_ok [OF run] show "\<exists>t. d' = d\<lparr>outbox_projections := t\<rparr>" by (auto intro: exI [of _ "outbox_projections d"])
  from enqueue_tx_ok [OF run] show "db_ok d'"
  proof
    assume new: "a = p \<and> sql_insert outbox_projections_check outbox_clash (outbox_row p) (outbox_projections d) =
       Some (outbox_projections d') \<and> d' = d\<lparr>outbox_projections := outbox_projections d'\<rparr>"
    then have "outbox.table_ok (outbox_projections d')"
      using outbox.insert_ok [OF db_ok_tables(10) [OF ok]] by blast
    from db_ok_set_table(6) [OF ok this] new show ?thesis by simp
  qed (use ok in simp)
qed

interpretation enqueue: validated_operation EnqueueOutboxProjection prepareEnqueue snd "\<lambda>c. snd (snd c)" enqueue_body
proof
  fix e q c d a d'
  show "EnqueueOutboxProjection e q d =
      validated (prepareEnqueue e q) (\<lambda>c. fenced_tx e (snd (snd c)) (enqueue_body c)) d"
    by (simp add: EnqueueOutboxProjection_def)
  assume "enqueue_body c d = Commit a d'"
  then have run: "enqueueOutboxProjectionTx (fst (snd c)) (fst c) d = (Inr a, d')"
    by (auto simp: enqueue_body_def split: prod.splits sum.splits)
  have "d' = d \<or> (\<exists>t. d' = d\<lparr>outbox_projections := t\<rparr>)" using enqueue_tx_ok [OF run] by blast
  then show "controller_epochs d' = controller_epochs d" by auto
  assume "db_ok d"
  then show "db_ok d'" using run by (rule enqueue_tx_keeps)
qed (auto dest: prepared_enqueue)

interpretation enqueue: create_operation EnqueueOutboxProjection snd outbox_projections ob_id ob_id
proof
  fix e q d a d'
  assume "EnqueueOutboxProjection e q d = (Inr a, d')"
  then obtain c where "enqueue_body c d = ReturnTx a \<and> d' = d \<or> enqueue_body c d = Commit a d'"
    by (rule enqueue.success)
  then have run: "enqueueOutboxProjectionTx (fst (snd c)) (fst c) d = (Inr a, d')"
    by (auto simp: enqueue_body_def split: prod.splits sum.splits)
  show "d' = d \<and> find_row ob_id (ob_id a) (outbox_projections d) \<noteq> None \<or>
    (\<exists>r. find_row ob_id (ob_id r) (outbox_projections d) = None \<and>
       outbox_projections d' = outbox_projections d @ [r] \<and> ob_id r = ob_id a)"
    using enqueue_tx_ok [OF run] outbox.insert_fresh
    by (fastforce simp: sql_insert_def split: if_splits dest: find_row_self)
qed

section \<open>The claim loop\<close>

lemma claim_set_result: "claim_set q p = claim_result q p"
  by (simp add: claim_set_def claim_result_def)

lemma claim_result_fields [simp]:
  "ob_id (claim_result q p) = ob_id p" "ob_state (claim_result q p) = OutboxProjectionDelivering"
  "ob_lease_owner (claim_result q p) = oc_worker_id q"
  "ob_lease_expires_at (claim_result q p) = Some (oc_now q + oc_lease_duration q)"
  "ob_attempts (claim_result q p) = ob_attempts p + 1" "ob_version (claim_result q p) = ob_version p + 1"
  "ob_payload (claim_result q p) = ob_payload p"
  by (simp_all add: claim_result_def)

text \<open>A request that has passed its validation; its claims satisfy the schema.\<close>

definition claim_request_ok :: "ClaimOutboxProjectionsRequest \<Rightarrow> bool" where
  "claim_request_ok q \<longleftrightarrow> oc_worker_id q \<noteq> [] \<and> 0 < cf_epoch (oc_fence q) \<and> 0 < oc_lease_duration q \<and>
     0 < oc_limit q \<and> oc_limit q \<le> maxOutboxClaimLimit"

lemma claim_limit_bounds: "0 < claim_limit n" "claim_limit n \<le> maxOutboxClaimLimit"
  by (auto simp: claim_limit_def defaultOutboxClaimLimit_def maxOutboxClaimLimit_def Let_def)

lemma validated_claim:
  assumes "validateClaim e q = Inr c"
  shows "NormalizeEpochFence (oc_fence q) = Inr (oc_fence c)" "oc_worker_id c = TrimSpace (oc_worker_id q)"
    "oc_now c = NormalizeControlTime e (oc_now q)" "oc_limit c = claim_limit (oc_limit q)"
    "oc_lease_duration c = oc_lease_duration q" "claim_request_ok c"
  using assms
  by (auto simp: validateClaim_def claim_request_ok_def claim_limit_bounds Let_def
      dest!: identifier_nonempty dest: normalized_fence(4) split: sum.splits)

lemma claimed_check:
  "claim_request_ok q \<Longrightarrow> outbox_projections_check p \<Longrightarrow> outbox_projections_check (claim_result q p) \<longleftrightarrow>
   ob_delivered_at p = None"
  by (auto simp: claim_request_ok_def outbox_projections_check_def claim_result_def)

lemma due_undelivered: "outbox_due now p \<Longrightarrow> outbox_projections_check p \<Longrightarrow> ob_delivered_at p = None"
  by (auto simp: outbox_due_def outbox_projections_check_def)

text \<open>
  On a schema-conforming table the loop never loses a race with itself: it claims each selected row
  exactly once and leaves every other row.
\<close>

lemma claim_loop_run:
  assumes "outbox.table_ok t" "distinct oids" "claim_request_ok q"
    and "\<And>oid. oid \<in> set oids \<Longrightarrow> \<exists>p. find_row ob_id oid t = Some p \<and> outbox_due (oc_now q) p"
  shows "claim_loop q oids t =
    Inr (map (\<lambda>oid. claim_result q (the (find_row ob_id oid t))) oids,
         map (\<lambda>p. if ob_id p \<in> set oids then claim_result q p else p) t)"
  using assms
proof (induction oids arbitrary: t)
  case Nil
  then show ?case by simp
next
  case (Cons oid oids)
  from Cons.prems(4) [of oid] obtain p where p: "find_row ob_id oid t = Some p" "outbox_due (oc_now q) p" by auto
  from find_row_SomeD [OF p(1)] have p': "p \<in> set t" "ob_id p = oid" by auto
  let ?t = "put_row ob_id oid (claim_result q p) t"
  have chk: "outbox_projections_check (claim_result q p)"
    using claimed_check [OF Cons.prems(3)] due_undelivered [OF p(2)] outbox.table_ok_chk [OF Cons.prems(1) p'(1)] by blast
  have upd: "sql_update outbox_projections_check
      (\<lambda>x. ob_id x = oid \<and> ob_version x = ob_version p \<and> outbox_due (oc_now q) x) (claim_set q) t = Some (?t, 1)"
    using outbox.update_hit [OF Cons.prems(1) p(1), of "\<lambda>x. ob_id x = oid \<and> ob_version x = ob_version p \<and> outbox_due (oc_now q) x"
        "\<lambda>x. ob_version x = ob_version p \<and> outbox_due (oc_now q) x" "claim_set q"] p(2) chk
    by (simp add: claim_set_result)
  have other: "find_row ob_id k ?t = find_row ob_id k t" if "k \<in> set oids" for k
    using that Cons.prems(2) p'(2) by (intro find_row_put_row_other) auto
  have "outbox.table_ok ?t"
    using p' by (intro outbox.put_row_ok [OF Cons.prems(1) p(1) chk]) (auto simp: outbox_clash_def)
  then have IH: "claim_loop q oids ?t = Inr (map (\<lambda>oid. claim_result q (the (find_row ob_id oid ?t))) oids,
      map (\<lambda>p. if ob_id p \<in> set oids then claim_result q p else p) ?t)"
    by (rule Cons.IH) (use Cons.prems other in auto)
  have "x = p" if "x \<in> set t" "ob_id x = oid" for x
    using outbox.find_row_eq [OF Cons.prems(1) that] p(1) by simp
  then have "map (\<lambda>p. if ob_id p \<in> set oids then claim_result q p else p) ?t =
      map (\<lambda>p. if ob_id p \<in> set (oid # oids) then claim_result q p else p) t"
    using Cons.prems(2) p'(2) by (auto simp: put_row_def)
  with upd p(1) IH other show ?case by (auto intro!: map_cong)
qed

text \<open>The rows a claim selects, in the order it returns them.\<close>

definition due_rows :: "ClaimOutboxProjectionsRequest \<Rightarrow> OutboxProjection list \<Rightarrow> OutboxProjection list" where
  "due_rows q t = take (nat (oc_limit q)) (sort_key due_order (filter (outbox_due (oc_now q)) t))"

lemma select_due_rows: "select_due q t = map ob_id (due_rows q t)"
  by (simp add: select_due_def due_rows_def)

lemma due_rows_due: "p \<in> set (due_rows q t) \<Longrightarrow> p \<in> set t \<and> outbox_due (oc_now q) p"
  by (auto simp: due_rows_def dest: in_set_takeD)

lemma outbox_ids_distinct: "outbox.table_ok t \<Longrightarrow> distinct (map ob_id t)"
  by (induction t) (auto simp: outbox.table_ok_Cons outbox.table_ok_Nil outbox_clash_def)

lemma due_rows_distinct:
  assumes "outbox.table_ok t"
  shows "distinct (map ob_id (due_rows q t))"
proof -
  have "distinct (map ob_id (filter (outbox_due (oc_now q)) t))"
    using outbox_ids_distinct [OF assms] by (rule distinct_map_filter)
  then have "distinct (map ob_id (sort_key due_order (filter (outbox_due (oc_now q)) t)))"
    by (simp add: distinct_map)
  then show ?thesis unfolding due_rows_def by (metis distinct_take take_map)
qed

lemma due_rows_find: "outbox.table_ok t \<Longrightarrow> p \<in> set (due_rows q t) \<Longrightarrow> find_row ob_id (ob_id p) t = Some p"
  using due_rows_due outbox.find_row_eq by blast

lemma claim_body_run:
  assumes ok: "db_ok d" and q: "claim_request_ok q"
  shows "claim_body q d = Commit (map (claim_result q) (due_rows q (outbox_projections d)))
    (d\<lparr>outbox_projections := map (\<lambda>p. if ob_id p \<in> ob_id ` set (due_rows q (outbox_projections d))
        then claim_result q p else p) (outbox_projections d)\<rparr>)"
proof -
  note t = db_ok_tables(10) [OF ok]
  have "claim_loop q (select_due q (outbox_projections d)) (outbox_projections d) =
    Inr (map (claim_result q) (due_rows q (outbox_projections d)),
      map (\<lambda>p. if ob_id p \<in> ob_id ` set (due_rows q (outbox_projections d)) then claim_result q p else p)
        (outbox_projections d))"
    using claim_loop_run [OF t due_rows_distinct [OF t] q] due_rows_due [of _ q "outbox_projections d"]
      due_rows_find [OF t, of _ q] by (fastforce simp: select_due_rows)
  then show ?thesis by (simp add: claim_body_def)
qed

lemma claim_keeps_ok:
  assumes ok: "db_ok d" and q: "claim_request_ok q" and body: "claim_body q d = Commit a d'"
  shows "db_ok d'"
proof -
  let ?D = "due_rows q (outbox_projections d)"
  let ?f = "\<lambda>p. if ob_id p \<in> ob_id ` set ?D then claim_result q p else p"
  note t = db_ok_tables(10) [OF ok]
  have chk: "outbox_projections_check (?f p)" if "p \<in> set (outbox_projections d)" for p
  proof (cases "ob_id p \<in> ob_id ` set ?D")
    case True
    then obtain p' where p': "p' \<in> set ?D" "ob_id p' = ob_id p" by auto
    have "find_row ob_id (ob_id p) (outbox_projections d) = Some p" by (rule outbox.find_row_eq [OF t that refl])
    with due_rows_find [OF t p'(1)] p'(2) have [simp]: "p' = p" by simp
    have "outbox_projections_check p" by (rule outbox.table_ok_chk [OF t that])
    with due_rows_due [OF p'(1)] have "outbox_projections_check (claim_result q p)"
      by (auto simp: claimed_check [OF q] intro: due_undelivered)
    with True show ?thesis by simp
  qed (use outbox.table_ok_chk [OF t that] in simp)
  have ids: "ob_id (?f p) = ob_id p" for p by simp
  have "outbox.table_ok (map ?f (outbox_projections d))"
    unfolding outbox.table_ok_def list_all_iff sorted_wrt_map outbox_clash_def ids
    using t chk by (simp add: outbox.table_ok_def outbox_clash_def del: if_image_distrib)
  from db_ok_set_table(6) [OF ok this] body show ?thesis by (simp add: claim_body_run [OF ok q])
qed

interpretation claim: validated_operation ClaimOutboxProjections validateClaim oc_fence oc_fence claim_body
proof
  fix e q c d a d'
  show "ClaimOutboxProjections e q d =
      validated (validateClaim e q) (\<lambda>c. fenced_tx e (oc_fence c) (claim_body c)) d"
    by (simp add: ClaimOutboxProjections_def)
  show "claim_body c d = Commit a d' \<Longrightarrow> controller_epochs d' = controller_epochs d"
    by (auto simp: claim_body_def split: sum.splits prod.splits)
  show "db_ok d \<Longrightarrow> validateClaim e q = Inr c \<Longrightarrow> claim_body c d = Commit a d' \<Longrightarrow> db_ok d'"
    by (blast dest: validated_claim intro: claim_keeps_ok)
qed (auto dest: validated_claim)

section \<open>Completion as a compare-and-swap\<close>

lemma complete_set_result: "complete_set q p p = complete_result q p"
  by (simp add: complete_set_def complete_result_def)

lemma complete_result_fields [simp]:
  "ob_id (complete_result q p) = ob_id p" "ob_version (complete_result q p) = ob_version p + 1"
  "ob_state (complete_result q p) = od_new_state q" "ob_lease_owner (complete_result q p) = []"
  by (simp_all add: complete_result_def)

lemma complete_commit:
  assumes ok: "db_ok d" and body: "complete_body q d = Commit a d'"
  obtains p where "find_row ob_id (od_id q) (outbox_projections d) = Some p"
    "ob_version p = od_expected_version q" "ob_state p = OutboxProjectionDelivering"
    "ob_lease_owner p = od_lease_owner q" "a = complete_result q p" "outbox_projections_check a"
    "d' = d\<lparr>outbox_projections := put_row ob_id (od_id q) a (outbox_projections d)\<rparr>"
proof -
  from body obtain p t where p: "find_row ob_id (od_id q) (outbox_projections d) = Some p"
    "ob_version p = od_expected_version q" "ob_state p = OutboxProjectionDelivering"
    "ob_lease_owner p = od_lease_owner q" "a = complete_result q p" "d' = d\<lparr>outbox_projections := t\<rparr>"
    and upd: "sql_update outbox_projections_check
         (\<lambda>p. ob_id p = od_id q \<and> ob_version p = od_expected_version q \<and>
            ob_state p = OutboxProjectionDelivering \<and> ob_lease_owner p = od_lease_owner q)
         (complete_set q p) (outbox_projections d) = Some (t, 1)"
    by (auto simp: complete_body_def split: if_splits)
  from outbox.update_result [OF db_ok_tables(10) [OF ok] p(1) _ upd]
  have "outbox_projections_check a" "t = put_row ob_id (od_id q) a (outbox_projections d)"
    using p(5) by (auto simp: complete_set_result)
  with p that show thesis by blast
qed

lemma validated_completion:
  assumes "validateCompletion e q = Inr c"
  shows "od_id c = TrimSpace (od_id q)" "NormalizeEpochFence (od_fence q) = Inr (od_fence c)"
    "od_expected_version c = od_expected_version q" "od_lease_owner c = TrimSpace (od_lease_owner q)"
    "od_operation_id c = TrimSpace (od_operation_id q)" "od_new_state c = od_new_state q"
    "od_new_state c \<in> {OutboxProjectionPending, OutboxProjectionDelivered, OutboxProjectionDeadLetter}"
  using assms by (auto simp: validateCompletion_def Let_def split: sum.splits OutboxProjectionState.splits)

lemma put_outbox_ok:
  assumes ok: "db_ok d" and get: "find_row ob_id oid (outbox_projections d) = Some p"
    and chk: "outbox_projections_check p'" and kept: "ob_id p' = ob_id p"
  shows "db_ok (d\<lparr>outbox_projections := put_row ob_id oid p' (outbox_projections d)\<rparr>)"
  using kept
  by (intro db_ok_set_table(6) [OF ok] outbox.put_row_ok [OF db_ok_tables(10) [OF ok] get chk])
    (auto simp: outbox_clash_def)

interpretation complete: validated_cas CompleteOutboxProjection validateCompletion
  od_fence od_fence complete_body outbox_projections ob_id "\<lambda>x. x" ob_version
  "\<lambda>q. TrimSpace (od_id q)" od_expected_version od_id od_expected_version
proof
  fix e q c d a d'
  show "CompleteOutboxProjection e q d =
      validated (validateCompletion e q) (\<lambda>c. fenced_tx e (od_fence c) (complete_body c)) d"
    by (simp add: CompleteOutboxProjection_def)
  show "complete_body c d = Commit a d' \<Longrightarrow> controller_epochs d' = controller_epochs d"
    by (auto simp: complete_body_def split: if_splits)
  show "complete_body c d = ReturnTx a \<Longrightarrow> \<exists>r. find_row ob_id (od_id c) (outbox_projections d) = Some r \<and> a = r"
    by (auto simp: complete_body_def split: if_splits)
  assume ok: "db_ok d" and body: "complete_body c d = Commit a d'"
  show "db_ok d'" using body by (rule complete_commit [OF ok]) (auto intro: put_outbox_ok [OF ok])
  show "\<exists>r r'. find_row ob_id (od_id c) (outbox_projections d) = Some r \<and> ob_version r = od_expected_version c \<and>
      ob_version r' = ob_version r + 1 \<and> ob_id r' = od_id c \<and> a = r' \<and>
      outbox_projections d' = put_row ob_id (od_id c) r' (outbox_projections d)"
    using body by (rule complete_commit [OF ok]) (use find_row_SomeD in fastforce)
qed (auto dest: validated_completion)

section \<open>Properties\<close>

lemma claim_success:
  assumes ok: "db_ok d" and run: "ClaimOutboxProjections e q d = (Inr ps, d')"
  obtains c where "validateClaim e q = Inr c" "ps = map (claim_result c) (due_rows c (outbox_projections d))"
    "outbox_projections d' = map (\<lambda>p. if ob_id p \<in> ob_id ` set (due_rows c (outbox_projections d))
        then claim_result c p else p) (outbox_projections d)"
proof -
  from run obtain c where c: "validateClaim e q = Inr c"
    "claim_body c d = ReturnTx ps \<and> d' = d \<or> claim_body c d = Commit ps d'" by (rule claim.success)
  with that show thesis using claim_body_run [OF ok validated_claim(6) [OF c(1)]] by auto
qed

lemma sorted_take_before:
  assumes "sorted (map f xs)" "x \<in> set (take n xs)" "y \<in> set xs" "y \<notin> set (take n xs)"
  shows "f x \<le> f y"
proof -
  have "y \<in> set (drop n xs)" using assms(3,4) by (metis Un_iff append_take_drop_id set_append)
  moreover have "sorted (map f (take n xs) @ map f (drop n xs))" using assms(1) by (metis append_take_drop_id map_append)
  ultimately show ?thesis using assms(2) by (auto simp: sorted_append)
qed

text \<open>
  A claim leases exactly the due projections, earliest first, up to the limit: what it returns was
  due and is now leased to the worker until the lease duration has passed; a due projection that it
  leaves out comes after every one it took, and it leaves one out only when the limit is reached.
\<close>

theorem outbox_claim_exact:
  assumes ok: "db_ok d" and run: "ClaimOutboxProjections e q d = (Inr ps, d')"
  shows "\<exists>taken. ps = map (claim_result (q\<lparr>oc_worker_id := TrimSpace (oc_worker_id q),
        oc_now := NormalizeControlTime e (oc_now q), oc_limit := claim_limit (oc_limit q),
        oc_fence := (case NormalizeEpochFence (oc_fence q) of Inr f \<Rightarrow> f | Inl _ \<Rightarrow> oc_fence q)\<rparr>)) taken \<and>
    list_all (\<lambda>p. p \<in> set (outbox_projections d) \<and> outbox_due (NormalizeControlTime e (oc_now q)) p) taken \<and>
    distinct (map ob_id taken) \<and> sorted (map due_order taken) \<and>
    int (length taken) = min (claim_limit (oc_limit q))
      (int (length (filter (outbox_due (NormalizeControlTime e (oc_now q))) (outbox_projections d)))) \<and>
    list_all (\<lambda>p. outbox_due (NormalizeControlTime e (oc_now q)) p \<longrightarrow> p \<in> set taken \<or>
      list_all (\<lambda>x. due_order x \<le> due_order p) taken) (outbox_projections d) \<and>
    list_all (\<lambda>p. ob_id p \<in> ob_id ` set taken \<or> p \<in> set (outbox_projections d')) (outbox_projections d)"
proof -
  from ok run obtain c where c: "validateClaim e q = Inr c"
    "ps = map (claim_result c) (due_rows c (outbox_projections d))"
    "outbox_projections d' = map (\<lambda>p. if ob_id p \<in> ob_id ` set (due_rows c (outbox_projections d))
        then claim_result c p else p) (outbox_projections d)" by (rule claim_success)
  have cq: "c = q\<lparr>oc_worker_id := TrimSpace (oc_worker_id q),
        oc_now := NormalizeControlTime e (oc_now q), oc_limit := claim_limit (oc_limit q),
        oc_fence := (case NormalizeEpochFence (oc_fence q) of Inr f \<Rightarrow> f | Inl _ \<Rightarrow> oc_fence q)\<rparr>"
    using c(1) by (auto simp: validateClaim_def Let_def split: sum.splits)
  note v = validated_claim [OF c(1)]
  let ?D = "due_rows c (outbox_projections d)" and ?now = "NormalizeControlTime e (oc_now q)"
  let ?S = "sort_key due_order (filter (outbox_due ?now) (outbox_projections d))"
  have D: "?D = take (nat (claim_limit (oc_limit q))) ?S" using v by (simp add: due_rows_def)
  have "sorted (map due_order ?D)" unfolding D take_map [symmetric] by (rule sorted_wrt_take) simp
  moreover have "due_order x \<le> due_order p"
    if "p \<in> set (outbox_projections d)" "outbox_due ?now p" "p \<notin> set ?D" "x \<in> set ?D" for p x
    using that unfolding D by (intro sorted_take_before [of due_order ?S]) auto
  moreover have "list_all (\<lambda>p. p \<in> set (outbox_projections d) \<and> outbox_due ?now p) ?D"
    using due_rows_due [of _ c] v(3) by (auto simp: list_all_iff)
  moreover have "int (length ?D) = min (claim_limit (oc_limit q)) (int (length (filter (outbox_due ?now) (outbox_projections d))))"
    unfolding D using claim_limit_bounds(1) [of "oc_limit q"] by auto
  moreover have "distinct (map ob_id ?D)" by (rule due_rows_distinct [OF db_ok_tables(10) [OF ok]])
  moreover have "list_all (\<lambda>p. ob_id p \<in> ob_id ` set ?D \<or> p \<in> set (outbox_projections d')) (outbox_projections d)"
    unfolding c(3) by (auto simp: list_all_iff)
  ultimately show ?thesis using c(2) cq by (intro exI [where x = ?D]) (auto simp: list_all_iff)
qed

text \<open>
  C10: no projection is leased to two workers at once: a second claim, made before the leases of the
  first expire, returns none of the projections of the first.
\<close>

theorem outbox_no_double_claim:
  assumes ok: "db_ok d" and first: "ClaimOutboxProjections e1 q1 d = (Inr ps1, d1)"
    and second: "ClaimOutboxProjections e2 q2 d1 = (Inr ps2, d2)"
    and early: "NormalizeControlTime e2 (oc_now q2) < NormalizeControlTime e1 (oc_now q1) + oc_lease_duration q1"
  shows "ob_id ` set ps1 \<inter> ob_id ` set ps2 = {}"
proof -
  have ok1: "db_ok d1" using claim.keeps_ok [OF ok, of e1 q1] first by simp
  from ok first obtain c1 where c1: "validateClaim e1 q1 = Inr c1"
    "ps1 = map (claim_result c1) (due_rows c1 (outbox_projections d))"
    "outbox_projections d1 = map (\<lambda>p. if ob_id p \<in> ob_id ` set (due_rows c1 (outbox_projections d))
        then claim_result c1 p else p) (outbox_projections d)" by (rule claim_success)
  from ok1 second obtain c2 where c2: "validateClaim e2 q2 = Inr c2"
    "ps2 = map (claim_result c2) (due_rows c2 (outbox_projections d1))" by (rule claim_success)
  note v1 = validated_claim [OF c1(1)] and v2 = validated_claim [OF c2(1)]
  let ?D = "due_rows c1 (outbox_projections d)"
  have "\<forall>p \<in> set (due_rows c2 (outbox_projections d1)). ob_id p \<notin> ob_id ` set ?D"
  proof (intro ballI notI)
    fix p
    assume p: "p \<in> set (due_rows c2 (outbox_projections d1))"
    assume "ob_id p \<in> ob_id ` set ?D"
    moreover from due_rows_due [OF p] have "p \<in> set (outbox_projections d1)" "outbox_due (oc_now c2) p" by auto
    ultimately obtain r where "p = claim_result c1 r" unfolding c1(3) by auto
    with \<open>outbox_due (oc_now c2) p\<close> early v1 v2 show False by (auto simp: outbox_due_def)
  qed
  then show ?thesis unfolding c1(2) c2(2) by (auto simp: image_image) (metis imageI)
qed

text \<open>
  Only the worker that holds the current lease can complete a projection: a completion that changes
  anything found the projection being delivered, under the lease owner and at the version it names, and
  ends the lease.
\<close>

theorem outbox_completion_by_owner:
  assumes ok: "db_ok d" and run: "CompleteOutboxProjection e q d = (Inr p', d')" and change: "d' \<noteq> d"
  shows "\<exists>p. find_row ob_id (TrimSpace (od_id q)) (outbox_projections d) = Some p \<and>
    ob_state p = OutboxProjectionDelivering \<and> ob_lease_owner p = TrimSpace (od_lease_owner q) \<and>
    ob_version p = od_expected_version q \<and>
    find_row ob_id (TrimSpace (od_id q)) (outbox_projections d') = Some p' \<and>
    ob_state p' = od_new_state q \<and> ob_state p' \<noteq> OutboxProjectionDelivering \<and> ob_lease_owner p' = [] \<and>
    ob_payload p' = ob_payload p"
proof -
  from run change obtain c where c: "validateCompletion e q = Inr c" "complete_body c d = Commit p' d'"
    by (auto elim!: complete.success)
  note v = validated_completion [OF c(1)]
  from c(2) show ?thesis
  proof (rule complete_commit [OF ok])
    fix p
    assume p: "find_row ob_id (od_id c) (outbox_projections d) = Some p" "ob_version p = od_expected_version c"
      "ob_state p = OutboxProjectionDelivering" "ob_lease_owner p = od_lease_owner c" "p' = complete_result c p"
    moreover have "ob_payload p' = ob_payload p" using p(5) by (simp add: complete_result_def)
    ultimately show ?thesis
      using v complete.read_your_writes [OF ok run] by (intro exI [where x = p]) auto
  qed
qed

end
