(* ===== verification/Native_Session.thy ===== *)
theory Native_Session
  imports Controller_Epoch
begin

text \<open>
  Native session state (\<^verbatim>\<open>internal/store/sqlite/native_session_store.go\<close>) and the transcript of a
  session it covers.  A native record arrives sealed; the store keeps its bytes as they are and
  decides by the plain fields beside them: who owns the session, which part of the transcript the
  record covers, and whether it is newer than the stored one.

  The functions that the code runs inside a transaction return the changed database or an error.
\<close>

section \<open>The transcript\<close>

definition message_clash :: "SessionMessageRow \<Rightarrow> SessionMessageRow \<Rightarrow> bool" where
  "message_clash a b \<longleftrightarrow>
     sm_namespace a = sm_namespace b \<and> sm_session_name a = sm_session_name b \<and>
     (sm_message_id a = sm_message_id b \<and> sm_message_id a \<noteq> [] \<or>
      sm_sort_order a = sm_sort_order b \<and> sm_sort_order a > 0)"

definition session_transcript :: "string \<Rightarrow> string \<Rightarrow> db \<Rightarrow> SessionMessageRow list" where
  "session_transcript namespace name d =
     filter (\<lambda>m. sm_namespace m = namespace \<and> sm_session_name m = name) (session_messages d)"

text \<open>\<^verbatim>\<open>ORDER BY sort_order DESC, id DESC LIMIT 1\<close>.\<close>

fun last_message :: "SessionMessageRow list \<Rightarrow> SessionMessageRow option" where
  "last_message [] = None"
| "last_message (m # ms) =
     (case last_message ms of
        None \<Rightarrow> Some m
      | Some b \<Rightarrow> if sm_sort_order m \<le> sm_sort_order b then Some b else Some m)"

definition lastSessionMessageIDTx :: "string \<Rightarrow> string \<Rightarrow> int \<Rightarrow> db \<Rightarrow> store_error + string" where
  "lastSessionMessageIDTx namespace name count d =
     (if count \<le> 0 then Inr []
      else case last_message (session_transcript namespace name d) of
        None \<Rightarrow> Inl ErrDriver
      | Some m \<Rightarrow> Inr (sm_message_id m))"

text \<open>\<^verbatim>\<open>COALESCE(MAX(sort_order), 0) + 2\<close>.\<close>

definition nextSessionMessageOrderTx :: "string \<Rightarrow> string \<Rightarrow> db \<Rightarrow> int" where
  "nextSessionMessageOrderTx namespace name d =
     (case last_message (session_transcript namespace name d) of None \<Rightarrow> 0 | Some m \<Rightarrow> sm_sort_order m) + 2"

section \<open>Records\<close>

record SaveSealedNativeSessionRequest =
  sv_record :: SealedNativeSession
  sv_request_digest :: string

record StageSealedNativeSessionImportRequest =
  sg_record :: SealedNativeSession
  sg_receipt :: NativeSessionImportReceipt

record SealedNativeSessionFinalization =
  fn_record :: SealedNativeSession
  fn_carried :: bool
  fn_request_digest :: string
  fn_expected_message_count :: int
  fn_expected_last_message_id :: string
  fn_expected_record_digest :: string

definition SealedNativeSession_Validate :: "SealedNativeSession \<Rightarrow> store_error option" where
  "SealedNativeSession_Validate r = first_error
     [ValidateControlIdentifier (ns_namespace r),
      ValidateControlIdentifier (ns_session_name r),
      ValidateControlIdentifier (ns_source_operation_id r),
      (if ns_session_uid r = [] then fail_if ErrValidation (ns_runtime_generation r \<noteq> 0)
       else first_error
         [ValidateControlIdentifier (ns_session_uid r), fail_if ErrValidation (ns_runtime_generation r < 1)]),
      ValidateCanonicalDigest (ns_record_digest r),
      ValidateCanonicalDigest (ns_data_digest r),
      fail_if ErrValidation (ns_message_count r < 0 \<or> (ns_message_count r = 0) \<noteq> (ns_through_message_id r = [])),
      fail_if ErrValidation (ns_nonce r = [] \<or> ns_ciphertext r = [])]"

definition native_pk :: "SealedNativeSession \<Rightarrow> string \<times> string" where
  "native_pk r = (ns_namespace r, ns_session_name r)"

definition native_operation_pk :: "NativeOperationRow \<Rightarrow> string \<times> string \<times> string \<times> string" where
  "native_operation_pk r = (no_namespace r, no_session_name r, no_kind r, no_operation_id r)"

text \<open>\<^verbatim>\<open>INSERT ... ON CONFLICT(namespace, session_name) DO UPDATE\<close> of every other column.\<close>

definition writeSealedNativeSessionTx :: "SealedNativeSession \<Rightarrow> db \<Rightarrow> db" where
  "writeSealedNativeSessionTx r d = d\<lparr>native_session_snapshots :=
     (case find_row native_pk (native_pk r) (native_session_snapshots d) of
        None \<Rightarrow> native_session_snapshots d @ [r]
      | Some _ \<Rightarrow> put_row native_pk (native_pk r) r (native_session_snapshots d))\<rparr>"

definition readSealedNativeSessionTx :: "string \<Rightarrow> string \<Rightarrow> db \<Rightarrow> SealedNativeSession option" where
  "readSealedNativeSessionTx namespace name d = find_row native_pk (namespace, name) (native_session_snapshots d)"

definition SessionTypeGateway :: string where
  "SessionTypeGateway = ''gateway''"

definition ensureNoSessionCleanupIntentTx :: "string \<Rightarrow> string \<Rightarrow> db \<Rightarrow> store_error option" where
  "ensureNoSessionCleanupIntentTx namespace name d =
     fail_if ErrConflict (find_row cleanup_intent_pk (namespace, name) (session_cleanup_intents d) \<noteq> None)"

definition nativeSessionOwnerTx :: "string \<Rightarrow> string \<Rightarrow> db \<Rightarrow> store_error + string \<times> int \<times> string" where
  "nativeSessionOwnerTx namespace name d =
     (case find_row session_pk (namespace, name) (sessions d) of
        None \<Rightarrow> Inl ErrNotFound
      | Some s \<Rightarrow> checks
          [fail_if ErrGatewayOwnedSession (ss_session_type s = SessionTypeGateway),
           ensureNoSessionCleanupIntentTx namespace name d,
           fail_if ErrConflict (List.member (native_session_deleted_names d) (namespace, name))]
          (map_sum id (\<lambda>lastID. (ss_control_session_uid s, ss_message_count s, lastID))
             (lastSessionMessageIDTx namespace name (ss_message_count s) d)))"

section \<open>Operations\<close>

definition GetSealedNativeSession ::
  "string \<Rightarrow> string \<Rightarrow> string \<Rightarrow> db \<Rightarrow> store_error + SealedNativeSession" where
  "GetSealedNativeSession namespace name uid d =
     checks [fail_if ErrNotFound (readSealedNativeSessionTx namespace name d = None)]
      (case nativeSessionOwnerTx namespace name d of
         Inl x \<Rightarrow> Inl x
       | Inr (owner, count, lastID) \<Rightarrow>
           checks [fail_if ErrConflict (owner \<noteq> uid)]
            (case readSealedNativeSessionTx namespace name d of
               None \<Rightarrow> Inl ErrNotFound
             | Some r \<Rightarrow> checks
                 [fail_if ErrConflict (ns_session_uid r \<noteq> [] \<and> ns_session_uid r \<noteq> uid),
                  fail_if ErrConflict (ns_message_count r \<noteq> count \<or> ns_through_message_id r \<noteq> lastID)]
                 (Inr r)))"

definition kind_capture :: string where
  "kind_capture = ''capture''"

definition kind_import :: string where
  "kind_import = ''import''"

definition insert_native_operation :: "NativeOperationRow \<Rightarrow> db \<Rightarrow> store_error + db" where
  "insert_native_operation r d =
     (case sql_insert (\<lambda>_. True) (\<lambda>a b. native_operation_pk a = native_operation_pk b) r
             (native_session_operations d) of
        None \<Rightarrow> Inl ErrDriver
      | Some t \<Rightarrow> Inr (d\<lparr>native_session_operations := t\<rparr>))"

definition supersedes_native :: "SealedNativeSession \<Rightarrow> SealedNativeSession \<Rightarrow> store_error option" where
  "supersedes_native r prior = first_error
     [fail_if ErrConflict (ns_session_uid prior \<noteq> [] \<and> ns_session_uid prior \<noteq> ns_session_uid r \<or>
        ns_runtime_generation r < ns_runtime_generation prior \<or> ns_message_count r < ns_message_count prior),
      fail_if ErrConflict (ns_runtime_generation r = ns_runtime_generation prior \<and>
        ns_message_count r = ns_message_count prior)]"

definition saveSealedNativeSessionTx :: "SaveSealedNativeSessionRequest \<Rightarrow> db \<Rightarrow> store_error + db" where
  "saveSealedNativeSessionTx q d =
     (let r = sv_record q in checks
      [SealedNativeSession_Validate r,
       fail_if ErrValidation (ns_session_uid r = []),
       ValidateCanonicalDigest (sv_request_digest q)]
      (case nativeSessionOwnerTx (ns_namespace r) (ns_session_name r) d of
         Inl x \<Rightarrow> Inl x
       | Inr (owner, count, lastID) \<Rightarrow> checks [fail_if ErrConflict (owner \<noteq> ns_session_uid r)]
          (case find_row native_operation_pk
                  (ns_namespace r, ns_session_name r, kind_capture, ns_source_operation_id r)
                  (native_session_operations d) of
             Some prior \<Rightarrow>
               if no_request_digest prior = sv_request_digest q then Inr d else Inl ErrDuplicateMismatch
           | None \<Rightarrow> checks
               [fail_if ErrConflict (count \<noteq> ns_message_count r \<or> lastID \<noteq> ns_through_message_id r),
                (case readSealedNativeSessionTx (ns_namespace r) (ns_session_name r) d of
                   None \<Rightarrow> None
                 | Some prior \<Rightarrow> supersedes_native r prior)]
               (insert_native_operation
                  \<lparr>no_namespace = ns_namespace r, no_session_name = ns_session_name r,
                   no_operation_id = ns_source_operation_id r, no_request_digest = sv_request_digest q,
                   no_kind = kind_capture, no_receipt = None\<rparr>
                  (writeSealedNativeSessionTx r d)))))"

definition tx_of_sum :: "store_error + db \<Rightarrow> (unit, db) tx_result" where
  "tx_of_sum r = (case r of Inl x \<Rightarrow> Abort x | Inr d \<Rightarrow> Commit () d)"

definition saveSealedNativeSessionWrite ::
  "env \<Rightarrow> SaveSealedNativeSessionRequest \<Rightarrow> db \<Rightarrow> (store_error + unit) \<times> db" where
  "saveSealedNativeSessionWrite e q = with_tx (env_fault e) (\<lambda>d. tx_of_sum (saveSealedNativeSessionTx q d))"

definition carrySealedNativeSessionTx ::
  "string \<Rightarrow> SealedNativeSessionFinalization \<Rightarrow> db \<Rightarrow> store_error + db" where
  "carrySealedNativeSessionTx uid native d =
     (let r = fn_record native in checks [SealedNativeSession_Validate r]
      (case readSealedNativeSessionTx (ns_namespace r) (ns_session_name r) d of
         None \<Rightarrow> Inl ErrNotFound
       | Some prior \<Rightarrow> checks
           [fail_if ErrConflict (ns_record_digest prior \<noteq> fn_expected_record_digest native \<or>
              ns_session_uid prior \<noteq> [] \<and> ns_session_uid prior \<noteq> uid \<or>
              ns_session_uid prior \<noteq> ns_session_uid r \<or> ns_data_digest prior \<noteq> ns_data_digest r \<or>
              ns_source_operation_id prior \<noteq> ns_source_operation_id r \<or>
              ns_runtime_generation prior \<noteq> ns_runtime_generation r),
            fail_if ErrConflict (ns_message_count r < ns_message_count prior)]
           (Inr (writeSealedNativeSessionTx r d))))"

definition commitSealedNativeFinalizationTx ::
  "string \<Rightarrow> string \<Rightarrow> string \<Rightarrow> string \<Rightarrow> SealedNativeSessionFinalization option \<Rightarrow> string \<Rightarrow> db \<Rightarrow>
   store_error + db" where
  "commitSealedNativeFinalizationTx turnID namespace name uid native captureDigest d =
     (case native of
        None \<Rightarrow> Inr d
      | Some n \<Rightarrow>
        (let r = fn_record n in
         checks [fail_if ErrConflict (ns_namespace r \<noteq> namespace \<or> ns_session_name r \<noteq> name)]
          (case nativeSessionOwnerTx namespace name d of
             Inl x \<Rightarrow> Inl x
           | Inr (owner, count, lastID) \<Rightarrow> checks
               [fail_if ErrConflict (owner \<noteq> uid),
                fail_if ErrConflict (ns_message_count r \<noteq> count \<or> ns_through_message_id r \<noteq> lastID)]
               (case (if fn_carried n then carrySealedNativeSessionTx uid n d
                      else checks [fail_if ErrConflict (ns_session_uid r \<noteq> uid)]
                        (saveSealedNativeSessionTx \<lparr>sv_record = r, sv_request_digest = fn_request_digest n\<rparr> d)) of
                  Inl x \<Rightarrow> Inl x
                | Inr d' \<Rightarrow>
                    (case sql_insert (\<lambda>_. True) (\<lambda>a b. nf_turn_id a = nf_turn_id b)
                            \<lparr>nf_turn_id = turnID, nf_namespace = namespace, nf_session_name = name,
                             nf_capture_digest = captureDigest\<rparr> (native_session_finalizations d') of
                       None \<Rightarrow> Inl ErrDriver
                     | Some t \<Rightarrow> Inr (d'\<lparr>native_session_finalizations := t\<rparr>))))))"

text \<open>
  Staging an import reserves the name of a new session.  The columns that the \<^verbatim>\<open>INSERT\<close> leaves out
  take their defaults.
\<close>

definition staged_session :: "string \<Rightarrow> string \<Rightarrow> gotime \<Rightarrow> SessionRow" where
  "staged_session namespace name created =
     \<lparr>ss_namespace = namespace, ss_name = name, ss_session_type = ''task'', ss_owner_type = [], ss_owner_ref = [],
      ss_active_task = [], ss_active_task_uid = [], ss_active_task_expires_at = None, ss_chat_turn_id = [],
      ss_chat_turn_expires_at = None, ss_control_session_uid = [], ss_message_count = 0, ss_input_tokens = 0,
      ss_output_tokens = 0, ss_cancelled = False, ss_created_at = created, ss_updated_at = created\<rparr>"

definition validateStage :: "StageSealedNativeSessionImportRequest \<Rightarrow> store_error option" where
  "validateStage q =
     (let r = sg_record q; receipt = sg_receipt q in first_error
      [SealedNativeSession_Validate r,
       fail_if ErrValidation (ns_session_uid r \<noteq> [] \<or> ns_message_count r \<noteq> 0),
       fail_if ErrValidation (ir_namespace receipt \<noteq> ns_namespace r \<or> ir_session_name receipt \<noteq> ns_session_name r \<or>
         ir_operation_id receipt \<noteq> ns_source_operation_id r \<or> ir_data_digest receipt \<noteq> ns_data_digest r),
       ValidateCanonicalDigest (ir_request_digest receipt),
       fail_if ErrValidation (time_is_zero (ir_created_at receipt))])"

definition stage_body ::
  "StageSealedNativeSessionImportRequest \<Rightarrow> db \<Rightarrow> (NativeSessionImportReceipt, db) tx_result" where
  "stage_body q d =
     (let r = sg_record q; receipt = sg_receipt q; key = (ns_namespace r, ns_session_name r) in guards
      [fail_if ErrConflict (find_row cleanup_intent_pk key (session_cleanup_intents d) \<noteq> None \<or>
         find_row cleanup_completion_pk key (session_cleanup_completions d) \<noteq> None \<or> List.member (native_session_deleted_names d) key),
       fail_if ErrGatewayOwnedSession
         (case find_row session_pk key (sessions d) of
            None \<Rightarrow> False | Some s \<Rightarrow> ss_session_type s = SessionTypeGateway)]
      (case find_row native_operation_pk
              (ns_namespace r, ns_session_name r, kind_import, ns_source_operation_id r)
              (native_session_operations d) of
         Some prior \<Rightarrow>
           if no_request_digest prior \<noteq> ir_request_digest receipt then Abort ErrDuplicateMismatch
           else (case no_receipt prior of Some stored \<Rightarrow> ReturnTx stored | None \<Rightarrow> Abort ErrDriver)
       | None \<Rightarrow>
           (case sql_insert (\<lambda>_. True) (\<lambda>a b. session_pk a = session_pk b)
                   (staged_session (ns_namespace r) (ns_session_name r) (ir_created_at receipt)) (sessions d) of
              None \<Rightarrow> Abort ErrConflict
            | Some t \<Rightarrow>
                (case insert_native_operation
                        \<lparr>no_namespace = ns_namespace r, no_session_name = ns_session_name r,
                         no_operation_id = ns_source_operation_id r,
                         no_request_digest = ir_request_digest receipt, no_kind = kind_import,
                         no_receipt = Some receipt\<rparr>
                        (writeSealedNativeSessionTx r (d\<lparr>sessions := t\<rparr>)) of
                   Inl x \<Rightarrow> Abort x
                 | Inr d' \<Rightarrow> Commit receipt d'))))"

definition stageSealedNativeSessionImportWrite ::
  "env \<Rightarrow> StageSealedNativeSessionImportRequest \<Rightarrow> db \<Rightarrow> (store_error + NativeSessionImportReceipt) \<times> db" where
  "stageSealedNativeSessionImportWrite e q d =
     (case validateStage q of Some x \<Rightarrow> (Inl x, d) | None \<Rightarrow> with_tx (env_fault e) (stage_body q) d)"

section \<open>What the operations keep\<close>

interpretation snapshots: keyed_table native_pk "\<lambda>r. SealedNativeSession_Validate r = None" "\<lambda>a b. native_pk a = native_pk b"
  by unfold_locales auto

interpretation native_operations: keyed_table native_operation_pk "\<lambda>_. True" "\<lambda>a b. native_operation_pk a = native_operation_pk b"
  by unfold_locales auto

interpretation native_finalizations: keyed_table nf_turn_id "\<lambda>_. True" "\<lambda>a b. nf_turn_id a = nf_turn_id b"
  by unfold_locales auto

text \<open>
  The native tables: keyed, every snapshot a valid record of an existing session that covers no more
  messages than the session has.
\<close>

definition snapshot_covers :: "db \<Rightarrow> SealedNativeSession \<Rightarrow> bool" where
  "snapshot_covers d n \<longleftrightarrow> (case find_row session_pk (native_pk n) (sessions d) of
     None \<Rightarrow> False | Some s \<Rightarrow> ns_message_count n \<le> ss_message_count s)"

definition native_ok :: "db \<Rightarrow> bool" where
  "native_ok d \<longleftrightarrow> snapshots.table_ok (native_session_snapshots d) \<and>
     native_operations.table_ok (native_session_operations d) \<and>
     native_finalizations.table_ok (native_session_finalizations d) \<and>
     (\<forall>n \<in> set (native_session_snapshots d). snapshot_covers d n)"

lemma write_native_read:
  "readSealedNativeSessionTx namespace name (writeSealedNativeSessionTx r d) =
    (if (namespace, name) = native_pk r then Some r else readSealedNativeSessionTx namespace name d)"
  by (auto simp: readSealedNativeSessionTx_def writeSealedNativeSessionTx_def find_row_append put_row_result
      split: option.splits)

lemma write_native_set:
  "x \<in> set (native_session_snapshots (writeSealedNativeSessionTx r d)) \<Longrightarrow>
   x = r \<or> x \<in> set (native_session_snapshots d)"
  by (auto simp: writeSealedNativeSessionTx_def split: option.splits dest: set_put_row)

lemma write_native_ok:
  assumes "native_ok d" "SealedNativeSession_Validate r = None" "snapshot_covers d r"
  shows "native_ok (writeSealedNativeSessionTx r d)"
proof -
  have "snapshots.table_ok (native_session_snapshots (writeSealedNativeSessionTx r d))"
  proof (cases "find_row native_pk (native_pk r) (native_session_snapshots d)")
    case None
    then have "sql_insert (\<lambda>r. SealedNativeSession_Validate r = None) (\<lambda>a b. native_pk a = native_pk b) r
        (native_session_snapshots d) = Some (native_session_snapshots d @ [r])"
      using assms(2) by (auto simp: sql_insert_def find_row_None list_ex_iff)
    from snapshots.insert_ok [OF _ this] None assms(1) show ?thesis
      by (simp add: writeSealedNativeSessionTx_def native_ok_def)
  next
    case (Some x)
    from snapshots.put_row_ok [OF _ Some assms(2)] find_row_SomeD [OF Some] assms(1) Some show ?thesis
      by (simp add: writeSealedNativeSessionTx_def native_ok_def)
  qed
  moreover have "snapshot_covers (writeSealedNativeSessionTx r d) = snapshot_covers d"
    by (simp add: fun_eq_iff snapshot_covers_def writeSealedNativeSessionTx_def)
  ultimately show ?thesis
    using assms write_native_set by (fastforce simp: native_ok_def writeSealedNativeSessionTx_def)
qed

lemma native_owner:
  assumes "nativeSessionOwnerTx namespace name d = Inr (owner, count, lastID)"
  obtains s where "find_row session_pk (namespace, name) (sessions d) = Some s" "ss_control_session_uid s = owner"
    "ss_message_count s = count" "lastSessionMessageIDTx namespace name count d = Inr lastID"
  using assms by (auto simp: nativeSessionOwnerTx_def map_sum_def split: option.splits sum.splits)

lemma save_native:
  assumes "saveSealedNativeSessionTx q d = Inr d'"
  shows "d' = d \<and> find_row native_operation_pk (ns_namespace (sv_record q), ns_session_name (sv_record q),
      kind_capture, ns_source_operation_id (sv_record q)) (native_session_operations d) \<noteq> None \<or>
    (\<exists>op. d' = writeSealedNativeSessionTx (sv_record q) d\<lparr>native_session_operations := op\<rparr> \<and>
      (native_operations.table_ok (native_session_operations d) \<longrightarrow> native_operations.table_ok op)) \<and>
    SealedNativeSession_Validate (sv_record q) = None \<and> snapshot_covers d (sv_record q)"
proof -
  let ?r = "sv_record q"
  from assms obtain owner count lastID where val: "SealedNativeSession_Validate ?r = None"
    and own: "nativeSessionOwnerTx (ns_namespace ?r) (ns_session_name ?r) d = Inr (owner, count, lastID)"
    by (auto simp: saveSealedNativeSessionTx_def Let_def split: sum.splits)
  from own obtain s where s: "find_row session_pk (native_pk ?r) (sessions d) = Some s" "ss_message_count s = count"
    unfolding native_pk_def by (rule native_owner)
  show ?thesis
  proof (cases "find_row native_operation_pk (ns_namespace ?r, ns_session_name ?r, kind_capture,
      ns_source_operation_id ?r) (native_session_operations d)")
    case None
    let ?o = "\<lparr>no_namespace = ns_namespace ?r, no_session_name = ns_session_name ?r,
      no_operation_id = ns_source_operation_id ?r, no_request_digest = sv_request_digest q,
      no_kind = kind_capture, no_receipt = None\<rparr>"
    from assms own val None have c: "count = ns_message_count ?r"
      and ins: "insert_native_operation ?o (writeSealedNativeSessionTx ?r d) = Inr d'"
      by (auto simp: saveSealedNativeSessionTx_def Let_def split: option.splits)
    from ins obtain op where op: "d' = writeSealedNativeSessionTx ?r d\<lparr>native_session_operations := op\<rparr>"
      "sql_insert (\<lambda>_. True) (\<lambda>a b. native_operation_pk a = native_operation_pk b) ?o
        (native_session_operations (writeSealedNativeSessionTx ?r d)) = Some op"
      by (auto simp: insert_native_operation_def split: option.splits)
    have "native_session_operations (writeSealedNativeSessionTx ?r d) = native_session_operations d"
      by (simp add: writeSealedNativeSessionTx_def)
    with op(2) have "native_operations.table_ok (native_session_operations d) \<longrightarrow> native_operations.table_ok op"
      using native_operations.insert_ok by metis
    with op(1) val s c show ?thesis by (auto simp: snapshot_covers_def)
  next
    case (Some p)
    with assms own show ?thesis by (auto simp: saveSealedNativeSessionTx_def Let_def split: if_splits)
  qed
qed

lemma save_native_ok: "native_ok d \<Longrightarrow> saveSealedNativeSessionTx q d = Inr d' \<Longrightarrow> native_ok d'"
  using save_native [of q d d'] write_native_ok [of d "sv_record q"]
  by (auto simp: native_ok_def snapshot_covers_def writeSealedNativeSessionTx_def)

lemma carry_native:
  assumes "carrySealedNativeSessionTx uid n d = Inr d'"
  shows "d' = writeSealedNativeSessionTx (fn_record n) d" "SealedNativeSession_Validate (fn_record n) = None"
    "ns_session_uid (fn_record n) = [] \<or> ns_session_uid (fn_record n) = uid"
  using assms by (auto simp: carrySealedNativeSessionTx_def Let_def split: option.splits)

text \<open>The tables that hold native state, and those it may not touch.\<close>

definition native_step :: "db \<Rightarrow> db \<Rightarrow> bool" where
  "native_step d d' \<longleftrightarrow> d' = d\<lparr>native_session_snapshots := native_session_snapshots d',
     native_session_operations := native_session_operations d',
     native_session_finalizations := native_session_finalizations d'\<rparr>"

lemma native_step_refl [simp]: "native_step d d"
  by (simp add: native_step_def)

text \<open>
  The native part of a finalization: a record of the session and of its owner, that covers the
  transcript of the session as it is now, becomes the snapshot, and the turn gets its digest.
\<close>

lemma native_commit:
  assumes run: "commitSealedNativeFinalizationTx tid namespace name uid (Some n) digest d = Inr d'"
  obtains s d1 where "native_pk (fn_record n) = (namespace, name)"
    "nativeSessionOwnerTx namespace name d = Inr (uid, ns_message_count (fn_record n), ns_through_message_id (fn_record n))"
    "find_row session_pk (namespace, name) (sessions d) = Some s" "ss_control_session_uid s = uid"
    "ss_message_count s = ns_message_count (fn_record n)"
    "lastSessionMessageIDTx namespace name (ss_message_count s) d = Inr (ns_through_message_id (fn_record n))"
    "if fn_carried n then carrySealedNativeSessionTx uid n d = Inr d1
     else ns_session_uid (fn_record n) = uid \<and>
       saveSealedNativeSessionTx \<lparr>sv_record = fn_record n, sv_request_digest = fn_request_digest n\<rparr> d = Inr d1"
    "find_row nf_turn_id tid (native_session_finalizations d1) = None"
    "d' = d1\<lparr>native_session_finalizations := native_session_finalizations d1 @
       [\<lparr>nf_turn_id = tid, nf_namespace = namespace, nf_session_name = name, nf_capture_digest = digest\<rparr>]\<rparr>"
proof -
  let ?r = "fn_record n"
  let ?row = "\<lparr>nf_turn_id = tid, nf_namespace = namespace, nf_session_name = name, nf_capture_digest = digest\<rparr>"
  from run obtain owner count lastID d1 t where pk: "ns_namespace ?r = namespace" "ns_session_name ?r = name"
    and own: "nativeSessionOwnerTx namespace name d = Inr (owner, count, lastID)" "owner = uid"
      "ns_message_count ?r = count" "ns_through_message_id ?r = lastID"
    and d1: "(if fn_carried n then carrySealedNativeSessionTx uid n d
       else checks [fail_if ErrConflict (ns_session_uid ?r \<noteq> uid)]
         (saveSealedNativeSessionTx \<lparr>sv_record = ?r, sv_request_digest = fn_request_digest n\<rparr> d)) = Inr d1"
    and ins: "sql_insert (\<lambda>_. True) (\<lambda>a b. nf_turn_id a = nf_turn_id b) ?row (native_session_finalizations d1) = Some t"
    and d': "d' = d1\<lparr>native_session_finalizations := t\<rparr>"
    by (auto simp: commitSealedNativeFinalizationTx_def Let_def split: sum.splits option.splits)
  from own(1) obtain s where s: "find_row session_pk (namespace, name) (sessions d) = Some s"
    "ss_control_session_uid s = owner" "ss_message_count s = count" "lastSessionMessageIDTx namespace name count d = Inr lastID"
    by (rule native_owner)
  have t: "t = native_session_finalizations d1 @ [?row]" using ins by (simp add: sql_insert_def split: if_splits)
  show thesis
    by (rule that) (use pk own s d1 d' t native_finalizations.insert_fresh [OF ins] in
        \<open>auto simp: native_pk_def split: if_splits\<close>)
qed

lemma native_commit_read:
  assumes "if fn_carried n then carrySealedNativeSessionTx uid n d = Inr d1
     else ns_session_uid (fn_record n) = uid \<and>
       saveSealedNativeSessionTx \<lparr>sv_record = fn_record n, sv_request_digest = fn_request_digest n\<rparr> d = Inr d1"
    and pk: "native_pk (fn_record n) = (namespace, name)"
  shows "native_step d d1" "native_session_finalizations d1 = native_session_finalizations d"
    "fn_carried n \<or> find_row native_operation_pk (namespace, name, kind_capture, ns_source_operation_id (fn_record n))
       (native_session_operations d) = None \<Longrightarrow> readSealedNativeSessionTx namespace name d1 = Some (fn_record n)"
    "native_ok d \<Longrightarrow> snapshot_covers d (fn_record n) \<Longrightarrow> native_ok d1"
proof -
  let ?w = "writeSealedNativeSessionTx (fn_record n) d"
  have cases: "d1 = ?w \<or> d1 = d \<and> \<not> fn_carried n \<and> find_row native_operation_pk (namespace, name, kind_capture,
      ns_source_operation_id (fn_record n)) (native_session_operations d) \<noteq> None \<or>
      (\<exists>op. d1 = ?w\<lparr>native_session_operations := op\<rparr>)"
    using assms(1) pk carry_native(1) [of uid n d d1]
      save_native [of "\<lparr>sv_record = fn_record n, sv_request_digest = fn_request_digest n\<rparr>" d d1]
    by (auto simp: native_pk_def split: if_splits)
  have w: "native_step d ?w" "native_step d (?w\<lparr>native_session_operations := op\<rparr>)" for op
    by (simp_all add: native_step_def writeSealedNativeSessionTx_def)
  show "native_step d d1" using cases w native_step_refl by metis
  show "native_session_finalizations d1 = native_session_finalizations d"
    using cases by (auto simp: writeSealedNativeSessionTx_def)
  have wr: "readSealedNativeSessionTx namespace name ?w = Some (fn_record n)" using pk by (simp add: write_native_read)
  show "readSealedNativeSessionTx namespace name d1 = Some (fn_record n)"
    if "fn_carried n \<or> find_row native_operation_pk (namespace, name, kind_capture, ns_source_operation_id (fn_record n))
       (native_session_operations d) = None"
    using cases that wr by (auto simp: readSealedNativeSessionTx_def)
  show "native_ok d1" if "native_ok d" "snapshot_covers d (fn_record n)"
    using assms(1) that carry_native [of uid n d d1] write_native_ok [of d "fn_record n"] save_native_ok [of d _ d1]
    by (auto split: if_splits)
qed

lemma native_stepE:
  assumes "native_step d d'"
  obtains sn op nf where "d' = d\<lparr>native_session_snapshots := sn, native_session_operations := op,
     native_session_finalizations := nf\<rparr>"
  using assms unfolding native_step_def by (rule that)

lemma native_step_finalizations: "native_step d d' \<Longrightarrow> native_step d (d'\<lparr>native_session_finalizations := nf\<rparr>)"
  by (elim native_stepE) (simp add: native_step_def)

lemma native_step_fields:
  assumes "native_step d d'"
  shows "session_turns d' = session_turns d" "session_messages d' = session_messages d" "sessions d' = sessions d"
    "outbox_projections d' = outbox_projections d" "controller_epochs d' = controller_epochs d"
    "session_cleanup_intents d' = session_cleanup_intents d"
    "native_session_deleted_names d' = native_session_deleted_names d"
  using assms by (auto elim!: native_stepE)

lemma native_step_ok: "native_step d d' \<Longrightarrow> db_ok d' \<longleftrightarrow> db_ok d"
  by (elim native_stepE) (simp add: db_ok_def)

lemma commit_native_step:
  assumes "commitSealedNativeFinalizationTx tid namespace name uid native digest d = Inr d'"
  shows "native_step d d'"
proof (cases native)
  case None
  with assms show ?thesis by (simp add: commitSealedNativeFinalizationTx_def)
next
  case (Some n)
  from assms [unfolded Some] show ?thesis
    by (rule native_commit) (auto dest: native_commit_read(1) native_step_finalizations)
qed

end
