(* ===== verification/Session_Turn_Records.thy ===== *)
theory Session_Turn_Records
  imports Session_Turn Outbox_Store Native_Session
begin

text \<open>
  The SQL half of session turns in a deployment (\<^verbatim>\<open>internal/store/sqlite/session_turn_persistence.go\<close>):
  Kubernetes holds the session control and the prompt attempt, the SQL store the turn record, the
  transcript, the native state and the outbox.  \<open>createSessionTurnRecordWrite\<close> opens a turn;
  \<open>commitSealedSessionTurnFinalizationWrite\<close> appends the transcript, adds the usage, replaces the
  native checkpoint, finalizes the turn and enqueues the terminal projection with a deferred time, all
  in one transaction; \<open>activateSessionTurnProjectionWrite\<close> releases the projection after Kubernetes has
  committed its part.

  The theorems about them are in \<open>Turn_Finalization\<close> and \<open>Session_Runs\<close>.
\<close>

section \<open>Requests\<close>

record CreateSessionTurnRecordRequest =
  cr_turn :: SessionTurn
  cr_namespace :: string
  cr_session_name :: string
  cr_fence :: ControllerEpochFence

record SealedSessionTurnFinalization =
  sf_key :: SessionTurnKey
  sf_namespace :: string
  sf_session_name :: string
  sf_fence :: ControllerEpochFence
  sf_expected_turn_version :: int
  sf_finalization_digest :: string
  sf_terminal_kind :: SessionTurnTerminalKind
  sf_terminal_content :: string
  sf_skip_transcript_append :: bool
  sf_skip_user_prompt_append :: bool
  sf_publication_id :: string
  sf_publication_receipt :: "PublicationReceipt option"
  sf_projection :: OutboxProjection
  sf_finalized_at :: gotime
  sf_user_message_id :: string
  sf_terminal_message_id :: string
  sf_native_session_digest :: string
  sf_native_session :: "SealedNativeSessionFinalization option"
  sf_input_tokens :: int
  sf_output_tokens :: int

record ActivateSessionTurnProjectionRequest =
  av_turn_id :: string
  av_projection_id :: string
  av_fence :: ControllerEpochFence
  av_finalization_digest :: string
  av_expected_aggregate_kind :: string
  av_expected_projection_kind :: string
  av_expected_payload_digest :: string
  av_available_at :: gotime
  av_updated_at :: gotime

record SessionTurnFinalizationBasis =
  fb_turn :: SessionTurn
  fb_message_count :: int
  fb_last_message_id :: string
  fb_native_session :: "SealedNativeSession option"

section \<open>Constants and helpers\<close>

text \<open>31 December 9999, 23:59:59 UTC.\<close>

definition deferredSessionTurnProjectionTime :: gotime where
  "deferredSessionTurnProjectionTime = 315537897599 * 1000000000"

definition MaxUsageTokenCount :: int where
  "MaxUsageTokenCount = 2 ^ 53 - 1"

definition sessionTurnAggregateKind :: string where
  "sessionTurnAggregateKind = ''SessionTurn''"

definition sessionTurnRoleAssistant :: string where
  "sessionTurnRoleAssistant = ''assistant''"

definition sessionTurnRoleOutcomeMarker :: string where
  "sessionTurnRoleOutcomeMarker = ''system''"

text \<open>A step of a transaction that may fail.\<close>

definition bind_tx :: "store_error + 'b \<Rightarrow> ('b \<Rightarrow> ('a, 'd) tx_result) \<Rightarrow> ('a, 'd) tx_result" where
  "bind_tx r k = (case r of Inl x \<Rightarrow> Abort x | Inr b \<Rightarrow> k b)"

lemma bind_tx_Inr [simp]: "bind_tx (Inr b) k = k b"
  by (simp add: bind_tx_def)

lemma bind_tx_Commit [simp, check_simps]: "bind_tx r k = Commit a d \<longleftrightarrow> (\<exists>b. r = Inr b \<and> k b = Commit a d)"
  by (auto simp: bind_tx_def split: sum.splits)

lemma bind_tx_ReturnTx [simp, check_simps]: "bind_tx r k = ReturnTx a \<longleftrightarrow> (\<exists>b. r = Inr b \<and> k b = ReturnTx a)"
  by (auto simp: bind_tx_def split: sum.splits)

definition requireTranscriptSession :: "string \<Rightarrow> string \<Rightarrow> db \<Rightarrow> store_error option" where
  "requireTranscriptSession namespace name d =
     fail_if ErrNotFound (length (filter (\<lambda>s. session_pk s = (namespace, name)) (sessions d)) \<noteq> 1)"

definition requireSessionUIDBinding :: "string \<Rightarrow> string \<Rightarrow> string \<Rightarrow> db \<Rightarrow> store_error option" where
  "requireSessionUIDBinding uid namespace name d =
     (case List.find (\<lambda>r. tk_session_uid (st_key r) = uid) (session_turns d) of
        None \<Rightarrow> None
      | Some r \<Rightarrow> fail_if ErrConflict (str_namespace r \<noteq> namespace \<or> str_session_name r \<noteq> name))"

definition requireSessionTurnBinding :: "string \<Rightarrow> string \<Rightarrow> string \<Rightarrow> db \<Rightarrow> store_error option" where
  "requireSessionTurnBinding tid namespace name d =
     (case find_row st_id tid (session_turns d) of
        None \<Rightarrow> Some ErrNotFound
      | Some r \<Rightarrow> fail_if ErrConflict (str_namespace r \<noteq> namespace \<or> str_session_name r \<noteq> name))"

definition sessionTranscriptBoundaryTx :: "string \<Rightarrow> string \<Rightarrow> db \<Rightarrow> store_error + int \<times> string" where
  "sessionTranscriptBoundaryTx namespace name d =
     (case find_row session_pk (namespace, name) (sessions d) of
        None \<Rightarrow> Inl ErrNotFound
      | Some s \<Rightarrow>
          map_sum id (Pair (ss_message_count s)) (lastSessionMessageIDTx namespace name (ss_message_count s) d))"

definition ReadSessionTurnFinalizationBasis ::
  "string \<Rightarrow> string \<Rightarrow> string \<Rightarrow> db \<Rightarrow> store_error + SessionTurnFinalizationBasis" where
  "ReadSessionTurnFinalizationBasis turnID namespace name d =
     (case getSessionTurn (TrimSpace turnID) d of
        None \<Rightarrow> Inl ErrNotFound
      | Some turn \<Rightarrow>
          map_sum id (\<lambda>(count, lastID). \<lparr>fb_turn = turn, fb_message_count = count, fb_last_message_id = lastID,
              fb_native_session = readSealedNativeSessionTx (TrimSpace namespace) (TrimSpace name) d\<rparr>)
            (sessionTranscriptBoundaryTx (TrimSpace namespace) (TrimSpace name) d))"

section \<open>Opening a turn\<close>

definition open_turn_row :: "string \<Rightarrow> string \<Rightarrow> SessionTurn \<Rightarrow> SessionTurnRow" where
  "open_turn_row namespace name t = SessionTurn.extend
     (t\<lparr>st_state := SessionTurnOpen, st_terminal_kind := SessionTurnTerminal_other [], st_terminal_content := [],
        st_finalization_digest := [], st_native_session_digest := [], st_publication_id := [],
        st_publication_receipt := None, st_projection_id := [], st_projection_kind := [],
        st_projection_digest := [], st_projection_available_at := 0, st_version := 1, st_finalized_at := None\<rparr>)
     (SessionTurnRow.fields namespace name)"

definition validateCreateTurnRecord ::
  "env \<Rightarrow> CreateSessionTurnRecordRequest \<Rightarrow> store_error + CreateSessionTurnRecordRequest" where
  "validateCreateTurnRecord e request =
     (let r = request\<lparr>cr_namespace := TrimSpace (cr_namespace request),
                      cr_session_name := TrimSpace (cr_session_name request)\<rparr> in
      checks [ValidateControlIdentifier (cr_namespace r), ValidateControlIdentifier (cr_session_name r)]
       (case NormalizeSessionTurnForCreate e (cr_turn r) (cr_fence r) of
          Inl x \<Rightarrow> Inl x
        | Inr (n, _) \<Rightarrow> Inr (r\<lparr>cr_turn := n\<rparr>)))"

definition create_turn_record_body :: "CreateSessionTurnRecordRequest \<Rightarrow> db \<Rightarrow> (SessionTurn, db) tx_result" where
  "create_turn_record_body q d =
     (let n = cr_turn q; namespace = cr_namespace q; name = cr_session_name q in
      case getSessionTurn (st_id n) d of
        Some existing \<Rightarrow> guards
          [fail_if ErrConflict (\<not> SameSessionTurnCreation existing n),
           requireSessionTurnBinding (st_id n) namespace name d]
          (ReturnTx existing)
      | None \<Rightarrow> guards
          [requireTranscriptSession namespace name d,
           requireSessionUIDBinding (tk_session_uid (st_key n)) namespace name d]
          (case sql_insert session_turns_check session_turn_clash (open_turn_row namespace name n) (session_turns d) of
             None \<Rightarrow> Abort ErrConflict
           | Some t \<Rightarrow> Commit n (d\<lparr>session_turns := t\<rparr>)))"

definition createSessionTurnRecordWrite ::
  "env \<Rightarrow> CreateSessionTurnRecordRequest \<Rightarrow> db \<Rightarrow> (store_error + SessionTurn) \<times> db" where
  "createSessionTurnRecordWrite e request = validated (validateCreateTurnRecord e request)
     (\<lambda>q. fenced_tx e (cr_fence q) (create_turn_record_body q))"

section \<open>Finalizing a turn\<close>

definition validateSealedNativeFinalization :: "SealedSessionTurnFinalization \<Rightarrow> store_error option" where
  "validateSealedNativeFinalization q =
     (case sf_native_session q of
        None \<Rightarrow> None
      | Some native \<Rightarrow> first_error
          [ValidateCanonicalDigest (sf_native_session_digest q),
           fail_if ErrValidation (sf_skip_transcript_append q),
           fail_if ErrValidation (fn_carried native \<and> sf_terminal_kind q \<noteq> SessionTurnOutcomeMarker),
           fail_if ErrValidation (\<not> fn_carried native \<and> sf_terminal_kind q \<noteq> SessionTurnAssistantResult),
           (if fn_carried native then ValidateCanonicalDigest (fn_expected_record_digest native) else None),
           fail_if ErrValidation (fn_expected_message_count native < 0 \<or>
             fn_expected_message_count native = 0 \<and> fn_expected_last_message_id native \<noteq> []),
           SealedNativeSession_Validate (fn_record native)])"

definition validateFinalizationMessageIDs :: "bool \<Rightarrow> bool \<Rightarrow> string \<Rightarrow> string \<Rightarrow> store_error option" where
  "validateFinalizationMessageIDs skipTranscript skipUserPrompt userID terminalID =
     (if skipTranscript then fail_if ErrValidation (userID \<noteq> [] \<or> terminalID \<noteq> [])
      else first_error
        [ValidateControlIdentifier terminalID,
         (if skipUserPrompt then fail_if ErrValidation (userID \<noteq> [])
          else first_error [ValidateControlIdentifier userID, fail_if ErrValidation (userID = terminalID)])])"

definition normalizeSealedSessionTurnFinalization ::
  "env \<Rightarrow> SealedSessionTurnFinalization \<Rightarrow>
   store_error + SealedSessionTurnFinalization \<times> OutboxProjection" where
  "normalizeSealedSessionTurnFinalization e request =
     checks [ValidateSessionTurnKey (sf_key request)]
      (let r0 = request\<lparr>sf_namespace := TrimSpace (sf_namespace request),
                        sf_session_name := TrimSpace (sf_session_name request)\<rparr> in
       checks [ValidateControlIdentifier (sf_namespace r0), ValidateControlIdentifier (sf_session_name r0)]
        (case NormalizeEpochFence (sf_fence r0) of
           Inl x \<Rightarrow> Inl x
         | Inr fence \<Rightarrow>
           (let r = r0\<lparr>sf_fence := fence, sf_publication_id := TrimSpace (sf_publication_id r0),
                sf_finalized_at := NormalizeControlTime e (sf_finalized_at r0)\<rparr> in
            checks
             [fail_if ErrValidation (sf_expected_turn_version r < 1),
              ValidateCanonicalDigest (sf_finalization_digest r),
              fail_if ErrValidation (sf_terminal_kind r \<noteq> SessionTurnAssistantResult \<and>
                sf_terminal_kind r \<noteq> SessionTurnOutcomeMarker),
              fail_if ErrValidation (sf_terminal_kind r = SessionTurnOutcomeMarker \<and>
                TrimSpace (sf_terminal_content r) = []),
              fail_if ErrValidation (sf_skip_transcript_append r \<and> sf_skip_user_prompt_append r),
              validateSealedNativeFinalization r,
              validateFinalizationMessageIDs (sf_skip_transcript_append r) (sf_skip_user_prompt_append r)
                (sf_user_message_id r) (sf_terminal_message_id r),
              fail_if ErrValidation (sf_input_tokens r < 0 \<or> sf_output_tokens r < 0 \<or>
                sf_input_tokens r > MaxUsageTokenCount \<or> sf_output_tokens r > MaxUsageTokenCount),
              ValidateControlText (sf_terminal_content r),
              (if sf_publication_id r \<noteq> [] then first_error
                 [ValidateControlIdentifier (sf_publication_id r),
                  fail_if ErrValidation (case sf_publication_receipt r of
                    None \<Rightarrow> True | Some p \<Rightarrow> prc_publication_id p \<noteq> sf_publication_id r)]
               else fail_if ErrValidation (sf_publication_receipt r \<noteq> None))]
             (case normalizeOutboxProjectionForCreate e (sf_projection r) (sf_fence r) (sf_finalized_at r) of
                Inl x \<Rightarrow> Inl x
              | Inr (projection, _) \<Rightarrow>
                  (case SessionTurnKey_CanonicalID e (sf_key r) of
                     Inl x \<Rightarrow> Inl x
                   | Inr turnID \<Rightarrow> checks
                       [fail_if ErrValidation (ob_aggregate_kind projection \<noteq> sessionTurnAggregateKind \<or>
                          ob_aggregate_id projection \<noteq> turnID)]
                       (Inr (r, projection)))))))"

definition turn_message ::
  "string \<Rightarrow> string \<Rightarrow> gotime \<Rightarrow> string \<Rightarrow> int \<Rightarrow> string \<Rightarrow> string \<Rightarrow> SessionMessageRow" where
  "turn_message namespace name createdAt messageID sortOrder role content =
     \<lparr>sm_namespace = namespace, sm_session_name = name, sm_message_id = messageID, sm_sort_order = sortOrder,
      sm_role = role, sm_content = content, sm_name = None, sm_input = None, sm_tool_calls = None,
      sm_tool_call_id = None, sm_source_type = [], sm_source_ref = [],
      sm_metadata_json = [CHR 0x7B, CHR 0x7D], sm_created_at = createdAt\<rparr>"

definition appendMessage ::
  "string \<Rightarrow> string \<Rightarrow> gotime \<Rightarrow> string \<Rightarrow> string \<Rightarrow> string \<Rightarrow> db \<Rightarrow> store_error + db" where
  "appendMessage namespace name createdAt messageID role content d =
     (case sql_insert (\<lambda>_. True) message_clash
             (turn_message namespace name createdAt messageID (nextSessionMessageOrderTx namespace name d) role content)
             (session_messages d) of
        None \<Rightarrow> Inl ErrConflict
      | Some t \<Rightarrow> Inr (d\<lparr>session_messages := t\<rparr>))"

definition appendSessionTurnTranscript ::
  "string \<Rightarrow> string \<Rightarrow> string \<Rightarrow> string \<Rightarrow> string \<Rightarrow> gotime \<Rightarrow> string \<Rightarrow> string \<Rightarrow> db \<Rightarrow>
   store_error + int \<times> db" where
  "appendSessionTurnTranscript namespace name userPrompt terminalRole terminalContent createdAt userID terminalID d =
     (case (if userID \<noteq> [] then map_sum id (Pair 1) (appendMessage namespace name createdAt userID ''user'' userPrompt d)
            else Inr (0, d)) of
        Inl x \<Rightarrow> Inl x
      | Inr (count, d1) \<Rightarrow>
          map_sum id (Pair (count + 1)) (appendMessage namespace name createdAt terminalID terminalRole terminalContent d1))"

text \<open>
  The two statements of \<open>finalizeSessionTranscriptTx\<close>: the counters of the session, and the release of
  the legacy lock of the task.
\<close>

definition count_session_turn :: "int \<Rightarrow> int \<Rightarrow> int \<Rightarrow> gotime \<Rightarrow> SessionRow \<Rightarrow> SessionRow" where
  "count_session_turn delta inputTokens outputTokens finalizedAt s =
     s\<lparr>ss_message_count := ss_message_count s + delta, ss_input_tokens := ss_input_tokens s + inputTokens,
       ss_output_tokens := ss_output_tokens s + outputTokens, ss_updated_at := finalizedAt\<rparr>"

definition release_task_lock :: "SessionRow \<Rightarrow> SessionRow" where
  "release_task_lock s =
     s\<lparr>ss_active_task := [], ss_active_task_uid := [], ss_active_task_expires_at := None\<rparr>"

definition task_lock_held :: "string \<Rightarrow> string \<Rightarrow> string \<Rightarrow> SessionRow \<Rightarrow> bool" where
  "task_lock_held namespace name taskUID s \<longleftrightarrow>
     session_pk s = (namespace, name) \<and> ss_session_type s \<noteq> SessionTypeGateway \<and>
     ss_owner_type s \<noteq> SessionTypeGateway \<and>
     (ss_active_task_uid s = taskUID \<or> ss_active_task_uid s = [] \<and> ss_active_task s = taskUID)"

definition finalizeSessionTranscriptTx ::
  "string \<Rightarrow> string \<Rightarrow> SessionTurnKey \<Rightarrow> int \<Rightarrow> int \<Rightarrow> int \<Rightarrow> gotime \<Rightarrow> db \<Rightarrow> store_error + db" where
  "finalizeSessionTranscriptTx namespace name key delta inputTokens outputTokens finalizedAt d =
     (case sql_update (\<lambda>_. True) (\<lambda>s. session_pk s = (namespace, name))
             (count_session_turn delta inputTokens outputTokens finalizedAt) (sessions d) of
        None \<Rightarrow> Inl ErrDriver
      | Some (t, n) \<Rightarrow>
          if n \<noteq> 1 then Inl ErrConflict
          else case sql_update (\<lambda>_. True) (task_lock_held namespace name (tk_task_uid key)) release_task_lock t of
            None \<Rightarrow> Inl ErrDriver
          | Some (t', _) \<Rightarrow> Inr (d\<lparr>sessions := t'\<rparr>))"

definition projectionAvailableAt :: "OutboxProjection \<Rightarrow> gotime \<Rightarrow> gotime" where
  "projectionAvailableAt p fallback = (if time_is_zero (ob_available_at p) then fallback else ob_available_at p)"

definition sessionTurnPersistenceFinalizationMatches ::
  "SessionTurn \<Rightarrow> SealedSessionTurnFinalization \<Rightarrow> bool" where
  "sessionTurnPersistenceFinalizationMatches turn q \<longleftrightarrow>
     st_finalization_digest turn = sf_finalization_digest q \<and> st_terminal_kind turn = sf_terminal_kind q \<and>
     st_native_session_digest turn = sf_native_session_digest q \<and>
     st_terminal_content turn = sf_terminal_content q \<and> st_publication_id turn = sf_publication_id q \<and>
     st_publication_receipt turn = sf_publication_receipt q \<and> st_projection_id turn = ob_id (sf_projection q) \<and>
     st_projection_kind turn = ob_projection_kind (sf_projection q) \<and>
     st_projection_digest turn = ob_payload_digest (sf_projection q) \<and>
     st_projection_available_at turn = projectionAvailableAt (sf_projection q) (sf_finalized_at q)"

definition finalize_set ::
  "SealedSessionTurnFinalization \<Rightarrow> OutboxProjection \<Rightarrow> SessionTurnRow \<Rightarrow> SessionTurnRow" where
  "finalize_set q projection r =
     r\<lparr>st_state := SessionTurnFinalized, st_terminal_kind := sf_terminal_kind q,
       st_terminal_content := sf_terminal_content q, st_finalization_digest := sf_finalization_digest q,
       st_publication_id := sf_publication_id q, st_publication_receipt := sf_publication_receipt q,
       st_projection_id := ob_id projection, st_projection_kind := ob_projection_kind projection,
       st_projection_digest := ob_payload_digest projection,
       st_projection_available_at := ob_initial_available_at projection,
       st_controller_epoch_name := cf_name (sf_fence q), st_controller_epoch := cf_epoch (sf_fence q),
       st_version := st_version r + 1, st_finalized_at := Some (sf_finalized_at q),
       st_updated_at := sf_finalized_at q\<rparr>"

definition finalize_result ::
  "SealedSessionTurnFinalization \<Rightarrow> OutboxProjection \<Rightarrow> SessionTurn \<Rightarrow> SessionTurn" where
  "finalize_result q projection turn =
     turn\<lparr>st_state := SessionTurnFinalized, st_terminal_kind := sf_terminal_kind q,
       st_terminal_content := sf_terminal_content q, st_finalization_digest := sf_finalization_digest q,
       st_native_session_digest := sf_native_session_digest q,
       st_publication_id := sf_publication_id q, st_publication_receipt := sf_publication_receipt q,
       st_projection_id := ob_id projection, st_projection_kind := ob_projection_kind projection,
       st_projection_digest := ob_payload_digest projection,
       st_projection_available_at := ob_initial_available_at projection,
       st_controller_epoch_name := cf_name (sf_fence q), st_controller_epoch := cf_epoch (sf_fence q),
       st_version := st_version turn + 1, st_finalized_at := Some (sf_finalized_at q),
       st_updated_at := sf_finalized_at q\<rparr>"

definition transcript_unchanged :: "SealedSessionTurnFinalization \<Rightarrow> db \<Rightarrow> store_error option" where
  "transcript_unchanged q d =
     (case sf_native_session q of
        None \<Rightarrow> None
      | Some native \<Rightarrow>
          (case sessionTranscriptBoundaryTx (sf_namespace q) (sf_session_name q) d of
             Inl x \<Rightarrow> Some x
           | Inr (count, lastID) \<Rightarrow>
               fail_if ErrConflict (count \<noteq> fn_expected_message_count native \<or>
                 lastID \<noteq> fn_expected_last_message_id native)))"

definition terminal_role :: "SealedSessionTurnFinalization \<Rightarrow> string" where
  "terminal_role q = (if sf_terminal_kind q = SessionTurnOutcomeMarker then sessionTurnRoleOutcomeMarker
     else sessionTurnRoleAssistant)"

text \<open>The transaction after the turn has been read and found open.\<close>

definition finalize_open_turn ::
  "SealedSessionTurnFinalization \<Rightarrow> OutboxProjection \<Rightarrow> SessionTurn \<Rightarrow> db \<Rightarrow> (SessionTurn, db) tx_result" where
  "finalize_open_turn q projection turn d = guards
     [fail_if ErrValidation (sf_native_session_digest q \<noteq> [] \<and> sf_native_session q = None),
      fail_if ErrConflict (st_key turn \<noteq> sf_key q),
      fail_if ErrConflict (st_version turn \<noteq> sf_expected_turn_version q),
      requireTranscriptSession (sf_namespace q) (sf_session_name q) d,
      transcript_unchanged q d]
     (bind_tx
       (if sf_skip_transcript_append q then Inr (0, d)
        else appendSessionTurnTranscript (sf_namespace q) (sf_session_name q) (st_user_prompt turn)
          (terminal_role q) (sf_terminal_content q) (sf_finalized_at q) (sf_user_message_id q)
          (sf_terminal_message_id q) d) (\<lambda>(delta, d1).
      bind_tx
       (finalizeSessionTranscriptTx (sf_namespace q) (sf_session_name q) (sf_key q) delta
          (sf_input_tokens q) (sf_output_tokens q) (sf_finalized_at q) d1) (\<lambda>d2.
      bind_tx
       (commitSealedNativeFinalizationTx (st_id turn) (sf_namespace q) (sf_session_name q)
          (tk_session_uid (sf_key q)) (sf_native_session q) (sf_native_session_digest q) d2) (\<lambda>d3.
      update_one session_turns_check
       (\<lambda>r. st_id r = st_id turn \<and> st_version r = sf_expected_turn_version q \<and> st_state r = SessionTurnOpen)
       (finalize_set q projection) (session_turns d3) (\<lambda>t.
      bind_tx
       (case enqueueOutboxProjectionTx (projection\<lparr>ob_available_at := deferredSessionTurnProjectionTime\<rparr>) True
               (d3\<lparr>session_turns := t\<rparr>) of
          (Inl x, _) \<Rightarrow> Inl x
        | (Inr _, d4) \<Rightarrow> Inr d4) (\<lambda>d4.
      Commit (finalize_result q projection turn) d4))))))"

definition finalize_turn_body ::
  "env \<Rightarrow> SealedSessionTurnFinalization \<times> OutboxProjection \<Rightarrow> db \<Rightarrow> (SessionTurn, db) tx_result" where
  "finalize_turn_body e n d =
     (case n of (q, projection) \<Rightarrow>
      bind_tx (SessionTurnKey_CanonicalID e (sf_key q)) (\<lambda>turnID.
      case getSessionTurn turnID d of
        None \<Rightarrow> Abort ErrNotFound
      | Some turn \<Rightarrow> guards
          [requireSessionTurnBinding (st_id turn) (sf_namespace q) (sf_session_name q) d]
          (if st_state turn = SessionTurnFinalized then
             if sessionTurnPersistenceFinalizationMatches turn q then ReturnTx turn else Abort ErrConflict
           else finalize_open_turn q projection turn d)))"

definition commitSealedSessionTurnFinalizationWrite ::
  "env \<Rightarrow> SealedSessionTurnFinalization \<Rightarrow> db \<Rightarrow> (store_error + SessionTurn) \<times> db" where
  "commitSealedSessionTurnFinalizationWrite e request =
     validated (normalizeSealedSessionTurnFinalization e request)
       (\<lambda>n. fenced_tx e (sf_fence (fst n)) (finalize_turn_body e n))"

section \<open>Activating the projection\<close>

definition normalizeActivateSessionTurnProjectionRequest ::
  "env \<Rightarrow> ActivateSessionTurnProjectionRequest \<Rightarrow> store_error + ActivateSessionTurnProjectionRequest" where
  "normalizeActivateSessionTurnProjectionRequest e request =
     (let r = request\<lparr>av_turn_id := TrimSpace (av_turn_id request),
          av_projection_id := TrimSpace (av_projection_id request),
          av_expected_aggregate_kind := TrimSpace (av_expected_aggregate_kind request),
          av_expected_projection_kind := TrimSpace (av_expected_projection_kind request)\<rparr> in
      checks
       [ValidateControlIdentifier (av_turn_id r), ValidateControlIdentifier (av_projection_id r),
        ValidateControlIdentifier (av_expected_aggregate_kind r),
        ValidateControlIdentifier (av_expected_projection_kind r),
        ValidateCanonicalDigest (av_expected_payload_digest r)]
       (case NormalizeEpochFence (av_fence r) of
          Inl x \<Rightarrow> Inl x
        | Inr fence \<Rightarrow> checks [ValidateCanonicalDigest (av_finalization_digest r)]
            (let updated = NormalizeControlTime e (av_updated_at r) in
             Inr (r\<lparr>av_fence := fence, av_updated_at := updated,
               av_available_at := (if time_is_zero (av_available_at r) then updated else av_available_at r)\<rparr>))))"

definition activation_operation :: "string \<Rightarrow> string" where
  "activation_operation turnID = ''activate-session-turn:'' @ turnID"

definition activate_set ::
  "ActivateSessionTurnProjectionRequest \<Rightarrow> OutboxProjection \<Rightarrow> OutboxProjection" where
  "activate_set q p =
     p\<lparr>ob_available_at := av_available_at q, ob_last_operation_id := activation_operation (av_turn_id q),
       ob_last_operation_digest := av_finalization_digest q, ob_controller_epoch_name := cf_name (av_fence q),
       ob_controller_epoch := cf_epoch (av_fence q), ob_version := ob_version p + 1,
       ob_updated_at := av_updated_at q\<rparr>"

definition activate_body ::
  "ActivateSessionTurnProjectionRequest \<Rightarrow> db \<Rightarrow> (OutboxProjection, db) tx_result" where
  "activate_body q d =
     (case getSessionTurn (av_turn_id q) d of
        None \<Rightarrow> Abort ErrNotFound
      | Some turn \<Rightarrow> guards
          [fail_if ErrConflict (st_state turn \<noteq> SessionTurnFinalized \<or>
             st_finalization_digest turn \<noteq> av_finalization_digest q)]
          (fetch ob_id (av_projection_id q) (outbox_projections d) (\<lambda>projection. guards
            [fail_if ErrConflict (ob_aggregate_kind projection \<noteq> av_expected_aggregate_kind q \<or>
               ob_aggregate_id projection \<noteq> av_turn_id q \<or>
               ob_projection_kind projection \<noteq> av_expected_projection_kind q \<or>
               ob_payload_digest projection \<noteq> av_expected_payload_digest q)]
            (if ob_last_operation_id projection = activation_operation (av_turn_id q) then guards
               [fail_if ErrConflict (ob_last_operation_digest projection \<noteq> av_finalization_digest q)]
               (ReturnTx projection)
             else if ob_initial_available_at projection = av_available_at q \<and>
               ob_available_at projection \<noteq> deferredSessionTurnProjectionTime then ReturnTx projection
             else guards
               [fail_if ErrConflict (ob_state projection \<noteq> OutboxProjectionPending \<or> ob_attempts projection \<noteq> 0 \<or>
                  ob_lease_owner projection \<noteq> [] \<or> ob_lease_expires_at projection \<noteq> None)]
               (update_one outbox_projections_check
                 (\<lambda>p. ob_id p = ob_id projection \<and> ob_version p = ob_version projection \<and>
                    ob_state p = OutboxProjectionPending \<and> ob_attempts p = 0 \<and> ob_lease_owner p = [])
                 (activate_set q) (outbox_projections d)
                 (\<lambda>t. Commit (activate_set q projection) (d\<lparr>outbox_projections := t\<rparr>)))))))"

definition activateSessionTurnProjectionWrite ::
  "env \<Rightarrow> ActivateSessionTurnProjectionRequest \<Rightarrow> db \<Rightarrow> (store_error + OutboxProjection) \<times> db" where
  "activateSessionTurnProjectionWrite e request =
     validated (normalizeActivateSessionTurnProjectionRequest e request)
       (\<lambda>q. fenced_tx e (av_fence q) (activate_body q))"

end
