(* ===== verification/Task_Data.thy ===== *)
theory Task_Data
  imports Sql_Tables
begin

text \<open>
  The task-data fence of the SQL store (\<^verbatim>\<open>src/internal/store/sqlite/task_data_fence.go\<close>) and the
  revocation of Job authority (\<^verbatim>\<open>task_job_authority.go\<close>).  A caller resolves a fence, authorizes itself
  with no transaction open, and sends the fence with each data operation; every deletion of task data
  advances the cleanup generation of its namespace, and of the task, in the transaction of the
  deletion.  The state is the record \<open>task_db\<close>, which the event store extends; \<open>fence_step\<close> is
  one operation of the store as the fence tables see it.
\<close>

section \<open>State and records\<close>

record TaskJobIdentity =
  tj_namespace :: string
  tj_task_uid :: string
  tj_job_uid :: string

record TaskDataFence =
  tf_namespace :: string
  tf_task_name :: string
  tf_generation :: int
  tf_jobs :: "TaskJobIdentity list"

record task_db =
  cleanup_generations :: "string \<rightharpoonup> int"
  task_generations :: "string \<times> string \<rightharpoonup> int"
  job_revocations :: "(string \<times> string \<times> string) set"

section \<open>Fences\<close>

text \<open>A check of the arguments before the first statement.\<close>

definition checked :: "store_error option \<Rightarrow> ('d \<Rightarrow> (store_error + 'a) \<times> 'd) \<Rightarrow> 'd \<Rightarrow> (store_error + 'a) \<times> 'd" where
  "checked c k d = (case c of Some e \<Rightarrow> (Inl e, d) | None \<Rightarrow> k d)"

definition validateTaskDataScope :: "string \<Rightarrow> string \<Rightarrow> bool \<Rightarrow> store_error option" where
  "validateTaskDataScope namespace task_name require_task =
     first_error
       [fail_if ErrValidation (TrimSpace namespace = []),
        fail_if ErrValidation (require_task \<and> TrimSpace task_name = [])]"

text \<open>\<^verbatim>\<open>COALESCE((SELECT generation FROM task_data_cleanup_generations WHERE namespace = ?), 0)\<close>.\<close>

definition namespace_generation :: "'z task_db_scheme \<Rightarrow> string \<Rightarrow> int" where
  "namespace_generation d namespace =
     (case cleanup_generations d namespace of None \<Rightarrow> 0 | Some g \<Rightarrow> g)"

definition taskDataCleanupGeneration :: "'z task_db_scheme \<Rightarrow> string \<Rightarrow> string \<Rightarrow> int" where
  "taskDataCleanupGeneration d namespace task_name =
     (if task_name \<noteq> [] then
        (case task_generations d (namespace, task_name) of
           None \<Rightarrow> namespace_generation d namespace | Some g \<Rightarrow> g)
      else namespace_generation d namespace)"

definition ResolveTaskDataFence ::
  "'z task_db_scheme \<Rightarrow> string \<Rightarrow> string \<Rightarrow> store_error + TaskDataFence \<times> bool" where
  "ResolveTaskDataFence d namespace task_name =
     checks [validateTaskDataScope namespace task_name False]
       (let fence = (\<lambda>g. \<lparr>tf_namespace = namespace, tf_task_name = task_name, tf_generation = g, tf_jobs = []\<rparr>)
        in if task_name = [] then Inr (fence (taskDataCleanupGeneration d namespace []), False)
           else case task_generations d (namespace, task_name) of
               Some g \<Rightarrow> Inr (fence g, True)
             | None \<Rightarrow> Inr (fence (namespace_generation d namespace), False))"

definition registerTaskDataFenceWrite ::
  "fault option \<Rightarrow> string \<Rightarrow> string \<Rightarrow> 'z task_db_scheme \<Rightarrow>
   (store_error + TaskDataFence \<times> bool) \<times> 'z task_db_scheme" where
  "registerTaskDataFenceWrite flt namespace task_name =
     checked (validateTaskDataScope namespace task_name True) (with_tx flt (\<lambda>d.
        let fence = (\<lambda>g. \<lparr>tf_namespace = namespace, tf_task_name = task_name, tf_generation = g, tf_jobs = []\<rparr>)
        in case task_generations d (namespace, task_name) of
            None \<Rightarrow>
              let g = namespace_generation d namespace
              in Commit (fence g, True)
                   (d\<lparr>task_generations := (task_generations d)((namespace, task_name) \<mapsto> g)\<rparr>)
          | Some _ \<Rightarrow> ReturnTx (fence (taskDataCleanupGeneration d namespace task_name), False)))"

definition releaseTaskDataFenceWrite ::
  "fault option \<Rightarrow> TaskDataFence \<Rightarrow> 'z task_db_scheme \<Rightarrow> (store_error + unit) \<times> 'z task_db_scheme" where
  "releaseTaskDataFenceWrite flt fence =
     checked (validateTaskDataScope (tf_namespace fence) (tf_task_name fence) True) (with_tx flt (\<lambda>d.
       Commit ()
         (if task_generations d (tf_namespace fence, tf_task_name fence) = Some (tf_generation fence)
          then d\<lparr>task_generations := (task_generations d)((tf_namespace fence, tf_task_name fence) := None)\<rparr>
          else d)))"

section \<open>Job authority\<close>

definition job_incomplete :: "TaskJobIdentity \<Rightarrow> bool" where
  "job_incomplete identity \<longleftrightarrow>
     tj_namespace identity = [] \<or> tj_task_uid identity = [] \<or> tj_job_uid identity = []"

definition job_key :: "TaskJobIdentity \<Rightarrow> string \<times> string \<times> string" where
  "job_key identity = (tj_namespace identity, tj_task_uid identity, tj_job_uid identity)"

definition revokeTaskJobWrite ::
  "fault option \<Rightarrow> TaskJobIdentity \<Rightarrow> 'z task_db_scheme \<Rightarrow> (store_error + unit) \<times> 'z task_db_scheme" where
  "revokeTaskJobWrite flt identity =
     checked (fail_if ErrValidation (job_incomplete identity)) (with_tx flt (\<lambda>d.
        Commit () (d\<lparr>job_revocations := insert (job_key identity) (job_revocations d)\<rparr>)))"

definition checkTaskJobAuthority :: "'z task_db_scheme \<Rightarrow> TaskJobIdentity \<Rightarrow> store_error option" where
  "checkTaskJobAuthority d identity =
     first_error
       [fail_if ErrValidation (job_incomplete identity),
        fail_if ErrTaskJobRevoked (job_key identity \<in> job_revocations d)]"

definition checkTaskDataFence :: "'z task_db_scheme \<Rightarrow> TaskDataFence \<Rightarrow> store_error option" where
  "checkTaskDataFence d fence =
     first_error
       ([validateTaskDataScope (tf_namespace fence) (tf_task_name fence) False,
         fail_if ErrTaskDataCleanupChanged
           (taskDataCleanupGeneration d (tf_namespace fence) (tf_task_name fence) \<noteq> tf_generation fence)]
        @ map (checkTaskJobAuthority d) (tf_jobs fence))"

text \<open>
  \<open>withTaskDataFence flt fence unfenced body\<close>: without a fence in the context the operation runs as
  it does outside a transaction (\<open>unfenced\<close>); with one, the fence is checked in the transaction of
  the operation (\<open>body\<close>).
\<close>

definition withTaskDataFence ::
  "fault option \<Rightarrow> TaskDataFence option \<Rightarrow>
   ('z task_db_scheme \<Rightarrow> (store_error + 'a) \<times> 'z task_db_scheme) \<Rightarrow>
   ('z task_db_scheme \<Rightarrow> ('a, 'z task_db_scheme) tx_result) \<Rightarrow>
   'z task_db_scheme \<Rightarrow> (store_error + 'a) \<times> 'z task_db_scheme" where
  "withTaskDataFence flt fence unfenced body d =
     (case fence of
        None \<Rightarrow> unfenced d
      | Some f \<Rightarrow> with_tx flt (\<lambda>d. guards [checkTaskDataFence d f] (body d)) d)"

definition CheckTaskDataFence ::
  "fault option \<Rightarrow> TaskDataFence \<Rightarrow> 'z task_db_scheme \<Rightarrow> (store_error + unit) \<times> 'z task_db_scheme" where
  "CheckTaskDataFence flt fence =
     with_tx flt (\<lambda>d. guards [checkTaskDataFence d fence] (Commit () d))"

definition CheckTaskJobAuthority ::
  "fault option \<Rightarrow> TaskDataFence option \<Rightarrow> TaskJobIdentity \<Rightarrow> 'z task_db_scheme \<Rightarrow>
   (store_error + unit) \<times> 'z task_db_scheme" where
  "CheckTaskJobAuthority flt fence identity =
     withTaskDataFence flt fence
       (with_tx flt (\<lambda>d. guards [checkTaskJobAuthority d identity] (ReturnTx ())))
       (\<lambda>d. guards [checkTaskJobAuthority d identity] (Commit () d))"

section \<open>Cleanup\<close>

definition next_generation :: "int option \<Rightarrow> int" where
  "next_generation g = (case g of None \<Rightarrow> 1 | Some n \<Rightarrow> n + 1)"

fun advance_tasks :: "string \<Rightarrow> int \<Rightarrow> string list \<Rightarrow> (string \<times> string \<rightharpoonup> int) \<Rightarrow> (string \<times> string \<rightharpoonup> int)" where
  "advance_tasks namespace g [] m = m"
| "advance_tasks namespace g (t # ts) m =
     advance_tasks namespace g ts (if t = [] then m else m((namespace, t) \<mapsto> g))"

definition advanceTaskDataCleanupGeneration ::
  "string \<Rightarrow> string list \<Rightarrow> 'z task_db_scheme \<Rightarrow> 'z task_db_scheme" where
  "advanceTaskDataCleanupGeneration namespace task_names d =
     (let g = next_generation (cleanup_generations d namespace)
      in d\<lparr>cleanup_generations := (cleanup_generations d)(namespace \<mapsto> g),
           task_generations := advance_tasks namespace g task_names (task_generations d)\<rparr>)"

text \<open>\<open>statement\<close> is the deletion that runs in the transaction of the advance.\<close>

definition deleteTaskData ::
  "fault option \<Rightarrow> string \<Rightarrow> string \<Rightarrow> ('z task_db_scheme \<Rightarrow> 'z task_db_scheme) \<Rightarrow> 'z task_db_scheme \<Rightarrow>
   (store_error + unit) \<times> 'z task_db_scheme" where
  "deleteTaskData flt namespace task_name statement =
     with_tx flt (\<lambda>d. Commit () (statement (advanceTaskDataCleanupGeneration namespace [task_name] d)))"

definition deleteTaskJobRevocationsWrite ::
  "fault option \<Rightarrow> string \<Rightarrow> string \<Rightarrow> string \<Rightarrow> 'z task_db_scheme \<Rightarrow>
   (store_error + unit) \<times> 'z task_db_scheme" where
  "deleteTaskJobRevocationsWrite flt namespace task_name task_uid =
     checked (fail_if ErrValidation (namespace = [] \<or> task_name = [] \<or> task_uid = [])) (with_tx flt (\<lambda>d.
        let d' = advanceTaskDataCleanupGeneration namespace [] d
        in Commit ()
          (d'\<lparr>job_revocations := {k \<in> job_revocations d'. \<not> (fst k = namespace \<and> fst (snd k) = task_uid)},
              task_generations := (task_generations d')((namespace, task_name) := None)\<rparr>)))"

section \<open>Generations never repeat\<close>

text \<open>
  A contract of fencing tokens: every key has a token, no operation lowers it, and the operations
  that clean a key raise it.  A token that was read before a cleanup is then never current again.
\<close>

locale fencing_tokens =
  fixes step :: "'o \<Rightarrow> 's \<Rightarrow> 's"
    and inv :: "'s \<Rightarrow> bool"
    and token :: "'s \<Rightarrow> 'k \<Rightarrow> int"
    and cleans :: "'o \<Rightarrow> 'k \<Rightarrow> bool"
  assumes inv_step: "inv s \<Longrightarrow> inv (step op s)"
    and token_step: "inv s \<Longrightarrow> token s k \<le> token (step op s) k"
    and token_cleaned: "inv s \<Longrightarrow> cleans op k \<Longrightarrow> token s k < token (step op s) k"
begin

definition run :: "'o list \<Rightarrow> 's \<Rightarrow> 's" where
  "run ops s = fold step ops s"

lemma inv_run: "inv s \<Longrightarrow> inv (run ops s)"
  unfolding run_def by (induction ops arbitrary: s) (auto intro: inv_step)

lemma token_run: "inv s \<Longrightarrow> token s k \<le> token (run ops s) k"
proof (induction ops arbitrary: s)
  case (Cons op ops)
  then show ?case using token_step [of s k op] inv_step [of s op] by (fastforce simp: run_def)
qed (simp add: run_def)

lemma stale_forever:
  assumes "inv s" "op \<in> set ops" "cleans op k"
  shows "token s k < token (run ops s) k"
  using assms
proof (induction ops arbitrary: s)
  case (Cons o' ops)
  have inv': "inv (step o' s)" using Cons.prems(1) by (rule inv_step)
  show ?case
  proof (cases "cleans o' k")
    case True
    then show ?thesis
      using token_cleaned [OF Cons.prems(1) True] token_run [OF inv', of k ops] by (simp add: run_def)
  next
    case False
    with Cons.prems have "op \<in> set ops" by auto
    then show ?thesis
      using Cons.IH [OF inv' _ Cons.prems(3)] token_step [OF Cons.prems(1), of k o'] by (simp add: run_def)
  qed
qed simp

end

text \<open>A task has at most the generation of its namespace.\<close>

definition gens_ok :: "'z task_db_scheme \<Rightarrow> bool" where
  "gens_ok d \<longleftrightarrow>
     (\<forall>namespace t g. task_generations d (namespace, t) = Some g \<longrightarrow> g \<le> namespace_generation d namespace)"

lemma gens_okD: "gens_ok d \<Longrightarrow> task_generations d (n, t) = Some g \<Longrightarrow> g \<le> namespace_generation d n"
  by (auto simp: gens_ok_def)

lemma generation_le: "gens_ok d \<Longrightarrow> taskDataCleanupGeneration d n t \<le> namespace_generation d n"
  by (auto simp: taskDataCleanupGeneration_def dest: gens_okD split: option.splits)

lemma checked_state: "P d \<Longrightarrow> (c = None \<Longrightarrow> P (snd (k d))) \<Longrightarrow> P (snd (checked c k d))"
  by (simp add: checked_def split: option.splits)

text \<open>The state after a transaction: the state before, or the committed one.\<close>

lemma with_tx_state:
  assumes "P d" "\<And>a d'. flt = None \<Longrightarrow> body d = Commit a d' \<Longrightarrow> P d'"
  shows "P (snd (with_tx flt body d))"
  using assms by (cases flt) (auto simp: with_tx_def split: tx_result.splits dest: fault_commit)

lemma checked_tx_state:
  "P d \<Longrightarrow> (\<And>a d'. c = None \<Longrightarrow> flt = None \<Longrightarrow> body d = Commit a d' \<Longrightarrow> P d') \<Longrightarrow>
   P (snd (checked c (with_tx flt body) d))"
  by (rule checked_state [where P = P], assumption, rule with_tx_state [where P = P])

text \<open>The fence tables as a component of the state, so that a step is a change of them.\<close>

definition fence_step :: "'z task_db_scheme \<Rightarrow> 'y task_db_scheme \<Rightarrow> bool" where
  "fence_step d d' \<longleftrightarrow>
     (gens_ok d \<longrightarrow> gens_ok d' \<and>
       (\<forall>n t. taskDataCleanupGeneration d n t \<le> taskDataCleanupGeneration d' n t))"

lemma fence_step_refl: "fence_step d d"
  by (simp add: fence_step_def)

lemma same_tables:
  assumes "cleanup_generations d' = cleanup_generations d" "task_generations d' = task_generations d"
  shows "taskDataCleanupGeneration d' n t = taskDataCleanupGeneration d n t" "gens_ok d' = gens_ok d"
proof -
  have "namespace_generation d' = namespace_generation d"
    using assms(1) by (simp add: namespace_generation_def fun_eq_iff)
  then show "taskDataCleanupGeneration d' n t = taskDataCleanupGeneration d n t" "gens_ok d' = gens_ok d"
    using assms(2) by (simp_all add: taskDataCleanupGeneration_def gens_ok_def split: option.splits)
qed

lemma fence_step_gens:
  "cleanup_generations d'' = cleanup_generations d' \<Longrightarrow> task_generations d'' = task_generations d' \<Longrightarrow>
   fence_step d d' \<Longrightarrow> fence_step d d''"
  unfolding fence_step_def using same_tables [of d'' d'] by simp

lemma fence_step_frame:
  "cleanup_generations d' = cleanup_generations d \<Longrightarrow> task_generations d' = task_generations d \<Longrightarrow>
   fence_step d d'"
  by (rule fence_step_gens [OF _ _ fence_step_refl])

lemma fence_step_register:
  assumes "task_generations d (n, t) = None"
  shows "fence_step d (d\<lparr>task_generations := (task_generations d)((n, t) \<mapsto> namespace_generation d n)\<rparr>)"
  using assms
  by (auto simp: fence_step_def gens_ok_def taskDataCleanupGeneration_def namespace_generation_def
      split: option.splits)

lemma fence_step_release:
  "fence_step d (d\<lparr>task_generations := (task_generations d)((n, t) := None)\<rparr>)"
  by (auto simp: fence_step_def gens_ok_def taskDataCleanupGeneration_def namespace_generation_def
      split: option.splits)

lemma next_generation_greater: "namespace_generation d n < next_generation (cleanup_generations d n)"
  by (simp add: namespace_generation_def next_generation_def split: option.splits)

lemma advance_tasks_at:
  "advance_tasks n g ts m (n', t) = (if n' = n \<and> t \<noteq> [] \<and> t \<in> set ts then Some g else m (n', t))"
  by (induction ts arbitrary: m) auto

text \<open>What an advance makes of the generations.\<close>

lemma namespace_generation_advance:
  "namespace_generation (advanceTaskDataCleanupGeneration n ts d) n' =
   (if n' = n then next_generation (cleanup_generations d n) else namespace_generation d n')"
  by (simp add: advanceTaskDataCleanupGeneration_def namespace_generation_def Let_def)

lemma task_generations_advance:
  "task_generations (advanceTaskDataCleanupGeneration n ts d) (n', t) =
   (if n' = n \<and> t \<noteq> [] \<and> t \<in> set ts then Some (next_generation (cleanup_generations d n))
    else task_generations d (n', t))"
  by (simp add: advanceTaskDataCleanupGeneration_def advance_tasks_at Let_def)

lemma generation_advance:
  "taskDataCleanupGeneration (advanceTaskDataCleanupGeneration n ts d) n' t =
   (if n' = n \<and> (t = [] \<or> t \<in> set ts \<or> task_generations d (n, t) = None)
    then next_generation (cleanup_generations d n) else taskDataCleanupGeneration d n' t)"
  by (auto simp: taskDataCleanupGeneration_def namespace_generation_advance task_generations_advance
      split: option.splits)

lemma fence_step_advance: "fence_step d (advanceTaskDataCleanupGeneration n ts d)"
proof -
  have le: "namespace_generation d n' \<le> namespace_generation (advanceTaskDataCleanupGeneration n ts d) n'" for n'
    using next_generation_greater [of d n] by (simp add: namespace_generation_advance)
  have "gens_ok (advanceTaskDataCleanupGeneration n ts d)" if "gens_ok d"
    unfolding gens_ok_def
  proof (intro allI impI)
    fix n' t g assume "task_generations (advanceTaskDataCleanupGeneration n ts d) (n', t) = Some g"
    then show "g \<le> namespace_generation (advanceTaskDataCleanupGeneration n ts d) n'"
      using gens_okD [OF that, of n' t g] le [of n']
      by (auto simp: task_generations_advance namespace_generation_advance split: if_splits)
  qed
  moreover have "taskDataCleanupGeneration d n' t \<le>
      taskDataCleanupGeneration (advanceTaskDataCleanupGeneration n ts d) n' t" if "gens_ok d" for n' t
    using generation_le [OF that, of n t] next_generation_greater [of d n] by (auto simp: generation_advance)
  ultimately show ?thesis by (simp add: fence_step_def)
qed

lemma fence_step_trans: "fence_step a b \<Longrightarrow> fence_step b c \<Longrightarrow> fence_step a c"
  unfolding fence_step_def by (meson order_trans)

section \<open>The operations\<close>

lemma register_step: "fence_step d (snd (registerTaskDataFenceWrite flt n t d))"
  unfolding registerTaskDataFenceWrite_def
  by (rule checked_tx_state [where P = "fence_step d"], rule fence_step_refl)
    (auto simp: Let_def intro: fence_step_register split: option.splits)

lemma release_step: "fence_step d (snd (releaseTaskDataFenceWrite flt f d))"
  unfolding releaseTaskDataFenceWrite_def
  by (rule checked_tx_state [where P = "fence_step d"], rule fence_step_refl)
    (auto simp: fence_step_refl intro: fence_step_release split: if_splits)

lemma revoke_step: "fence_step d (snd (revokeTaskJobWrite flt j d))"
  unfolding revokeTaskJobWrite_def
  by (rule checked_tx_state [where P = "fence_step d"], rule fence_step_refl)
    (auto intro: fence_step_frame)

lemma delete_step:
  assumes "\<And>d. cleanup_generations (statement d) = cleanup_generations d"
    "\<And>d. task_generations (statement d) = task_generations d"
  shows "fence_step d (snd (deleteTaskData flt n t statement d))"
  unfolding deleteTaskData_def
  by (rule with_tx_state [where P = "fence_step d"], rule fence_step_refl)
    (auto simp: assms intro: fence_step_gens [OF _ _ fence_step_advance])

lemma reclaim_step: "fence_step d (snd (deleteTaskJobRevocationsWrite flt n t u d))"
  unfolding deleteTaskJobRevocationsWrite_def
  by (rule checked_tx_state [where P = "fence_step d"], rule fence_step_refl)
    (auto simp: Let_def
      intro: fence_step_gens [OF _ _ fence_step_trans [OF fence_step_advance fence_step_release]])

text \<open>A cleanup raises the generations of the namespace and of the task.\<close>

lemma delete_cleans:
  assumes "gens_ok d" "t' = [] \<or> t' = t"
    "\<And>d. cleanup_generations (statement d) = cleanup_generations d"
    "\<And>d. task_generations (statement d) = task_generations d"
  shows "taskDataCleanupGeneration d n t' <
    taskDataCleanupGeneration (snd (deleteTaskData None n t statement d)) n t'"
proof -
  have "taskDataCleanupGeneration (snd (deleteTaskData None n t statement d)) n t' =
      taskDataCleanupGeneration (advanceTaskDataCleanupGeneration n [t] d) n t'"
    unfolding deleteTaskData_def with_tx_no_fault
    using assms(3,4) by (auto intro!: same_tables(1))
  then show ?thesis
    using assms(2) generation_le [OF assms(1), of n t'] next_generation_greater [of d n]
    by (auto simp: generation_advance)
qed

lemma reclaim_cleans:
  assumes "gens_ok d" "t' = [] \<or> t' = t" "n \<noteq> []" "t \<noteq> []" "u \<noteq> []"
  shows "taskDataCleanupGeneration d n t' <
    taskDataCleanupGeneration (snd (deleteTaskJobRevocationsWrite None n t u d)) n t'"
proof -
  have "taskDataCleanupGeneration (snd (deleteTaskJobRevocationsWrite None n t u d)) n t' =
      next_generation (cleanup_generations d n)"
    using assms(2-5)
    by (auto simp: deleteTaskJobRevocationsWrite_def checked_def with_tx_no_fault Let_def
        taskDataCleanupGeneration_def namespace_generation_def advanceTaskDataCleanupGeneration_def)
  then show ?thesis
    using generation_le [OF assms(1), of n t'] next_generation_greater [of d n] by simp
qed

end
