(* ===== verification/Execution_Events.thy ===== *)
theory Execution_Events
  imports Task_Data "HOL-Library.List_Lexorder" "HOL-Library.Char_ord" "HOL-Library.Product_Lexorder"
begin

text \<open>
  The execution event store: the event vocabulary, filters and keys of the storage contract
  (\<^verbatim>\<open>src/pkg/storage/v1/execution_event.go\<close>, \<^verbatim>\<open>execution_event_vocabulary.go\<close>) and the operations of the
  SQL store on them (\<^verbatim>\<open>src/internal/store/sqlite/execution_event_store.go\<close>): append with stream and
  session sequences, deduplication and the one terminal event of an approval, plan projections and
  usage observations in the same transaction, listing, and deletion.
\<close>

section \<open>Structured content\<close>

text \<open>
  A raw JSON message is identified with what the white-space trimming of the store and the JSON
  decoder make of it: nothing, a text that is not JSON, or a document.  The members of an object are
  in document order; decoding into a map keeps the last value of a repeated key.
\<close>

datatype json =
    JNull
  | JBool bool
  | JNumber string
  | JString string
  | JArray "json list"
  | JObject "(string \<times> json) list"

datatype RawMessage = NoContent | Malformed | Document json

definition json_map :: "(string \<times> json) list \<Rightarrow> string \<Rightarrow> json option" where
  "json_map kvs k = map_of (rev kvs) k"

section \<open>The event vocabulary\<close>

definition executionEventTypes :: "string list" where
  "executionEventTypes =
    [''TaskCreated'', ''TaskPhaseChanged'', ''TaskJobCreated'', ''TaskStarted'', ''TaskSucceeded'',
     ''TaskFailed'', ''TaskCancellationRequested'', ''TaskCancelled'', ''WorkerStarted'',
     ''WorkerCompleted'', ''WorkerFailed'', ''ModelRequestStarted'', ''ModelRequestCompleted'',
     ''ModelRequestFailed'', ''ModelUsageUpdated'', ''ModelContextUpdated'', ''ModelMessage'',
     ''ContextTruncated'', ''NativeSessionCaptureSkipped'', ''ToolCallStarted'', ''ToolCallCompleted'',
     ''ToolCallFailed'', ''WorkspacePreparationStarted'', ''WorkspacePreparationCompleted'',
     ''WorkspacePreparationFailed'', ''AgentRuntimeStarted'', ''AgentRuntimeCommandStarted'',
     ''AgentRuntimeCompleted'', ''AgentRuntimeFailed'', ''AgentRuntimeCancelled'', ''ResultSubmitted'',
     ''GatewayDeliveryCompleted'', ''ArtifactUploadCompleted'', ''ArtifactUploadFailed'',
     ''TaskForkRequested'', ''TaskForkCreated'', ''ApprovalRequested'', ''ApprovalApproved'',
     ''ApprovalDeclined'', ''ApprovalExpired'', ''ApprovalCancelled'', ''ApprovalExecutionUpdated'',
     ''PlanUpdated'']"

definition terminalApprovalEventTypes :: "string list" where
  "terminalApprovalEventTypes =
    [''ApprovalApproved'', ''ApprovalDeclined'', ''ApprovalExpired'', ''ApprovalCancelled'']"

definition ExecutionEventStreamTypeTask :: string where
  "ExecutionEventStreamTypeTask = ''task''"

definition IsValidExecutionEventType :: "string \<Rightarrow> bool" where
  "IsValidExecutionEventType value \<longleftrightarrow> TrimSpace value \<in> set executionEventTypes"

definition IsTerminalApprovalExecutionEventType :: "string \<Rightarrow> bool" where
  "IsTerminalApprovalExecutionEventType value \<longleftrightarrow> value \<in> set terminalApprovalEventTypes"

definition IsValidExecutionEventStreamType :: "string \<Rightarrow> bool" where
  "IsValidExecutionEventStreamType value \<longleftrightarrow> TrimSpace value = ExecutionEventStreamTypeTask"

text \<open>
  \<^verbatim>\<open>strings.ToLower\<close> as far as a comparison with an ASCII word can tell: capital ASCII letters, and
  the two other letters whose lower case is ASCII (dotted capital I, the Kelvin sign).
\<close>

fun ToLower :: "string \<Rightarrow> string" where
  "ToLower [] = []"
| "ToLower (c # s) =
     (if c = CHR 0xC4 \<and> has_prefix s [CHR 0xB0] then CHR ''i'' # ToLower (drop 1 s)
      else if c = CHR 0xE2 \<and> has_prefix s [CHR 0x84, CHR 0xAA] then CHR ''k'' # ToLower (drop 2 s)
      else (if 0x41 \<le> byte c \<and> byte c \<le> 0x5A then char_of (byte c + 32) else c) # ToLower s)"

definition IsValidExecutionEventSeverity :: "string \<Rightarrow> bool" where
  "IsValidExecutionEventSeverity value \<longleftrightarrow>
     ToLower (TrimSpace value) \<in> {''debug'', ''info'', ''warning'', ''error''}"

definition NormalizeExecutionEventSeverity :: "string \<Rightarrow> string" where
  "NormalizeExecutionEventSeverity value =
     (let v = ToLower (TrimSpace value)
      in if \<not> IsValidExecutionEventSeverity v then ''info'' else v)"

section \<open>Events, filters, plans and usage\<close>

record ExecutionEventTruncation =
  et_summary_truncated :: bool
  et_summary_original_chars :: int
  et_content_text_truncated :: bool
  et_content_text_original_chars :: int
  et_content_json_truncated :: bool
  et_content_json_original_bytes :: int

definition truncation_empty :: "ExecutionEventTruncation \<Rightarrow> bool" where
  "truncation_empty t \<longleftrightarrow>
     \<not> et_summary_truncated t \<and> et_summary_original_chars t = 0 \<and>
     \<not> et_content_text_truncated t \<and> et_content_text_original_chars t = 0 \<and>
     \<not> et_content_json_truncated t \<and> et_content_json_original_bytes t = 0"

record UsageObservation =
  uo_id :: string
  uo_namespace :: string
  uo_namespace_uid :: string
  uo_task_uid :: string
  uo_task_name :: string
  uo_session_name :: string
  uo_attempt_id :: string
  uo_counter_id :: string
  uo_scope :: string
  uo_source :: string
  uo_provider :: string
  uo_model :: string
  uo_input_tokens :: "int option"
  uo_output_tokens :: "int option"
  uo_cached_input_tokens :: "int option"
  uo_cache_write_input_tokens :: "int option"
  uo_status :: string
  uo_complete :: bool
  uo_observed_at :: gotime

record ExecutionEventUsage =
  eu_observation :: UsageObservation
  eu_keep_first_observed_at :: bool

record ExecutionEvent =
  ev_id :: string
  ev_namespace :: string
  ev_stream_type :: string
  ev_stream_id :: string
  ev_seq :: int
  ev_type :: string
  ev_severity :: string
  ev_task_name :: string
  ev_session_name :: string
  ev_agent_name :: string
  ev_tool_name :: string
  ev_tool_call_id :: string
  ev_summary :: string
  ev_content :: RawMessage
  ev_content_text :: string
  ev_truncation :: "ExecutionEventTruncation option"
  ev_created_at :: gotime
  ev_usage :: "ExecutionEventUsage option"

record PlanState =
  ps_task_name :: string
  ps_namespace :: string
  ps_iteration :: int
  ps_summary :: string
  ps_progress_pct :: int
  ps_goal_complete :: bool
  ps_plan_document :: string
  ps_created_at :: gotime
  ps_updated_at :: gotime

record ExecutionEventFilter =
  ef_namespace :: string
  ef_stream_type :: string
  ef_stream_id :: string
  ef_task_name :: string
  ef_session_name :: string
  ef_event_types :: "string list"
  ef_after_seq :: int
  ef_limit :: int

record SessionExecutionEventFilter =
  xf_namespace :: string
  xf_session_name :: string
  xf_event_types :: "string list"
  xf_after_seq :: int
  xf_limit :: int

record SessionExecutionEvent =
  se_event :: ExecutionEvent
  se_session_seq :: int
  se_task_seq :: int

definition DefaultExecutionEventLimit :: int where
  "DefaultExecutionEventLimit = 100"

definition MaxExecutionEventLimit :: int where
  "MaxExecutionEventLimit = 1000"

definition normalized_limit :: "int \<Rightarrow> int" where
  "normalized_limit n =
     (if n \<le> 0 then DefaultExecutionEventLimit
      else if n > MaxExecutionEventLimit then MaxExecutionEventLimit else n)"

definition normalized_types :: "string list \<Rightarrow> string list" where
  "normalized_types types = filter (\<lambda>t. t \<noteq> []) (map TrimSpace types)"

definition filter_normalized :: "ExecutionEventFilter \<Rightarrow> ExecutionEventFilter" where
  "filter_normalized f =
     \<lparr>ef_namespace = TrimSpace (ef_namespace f),
      ef_stream_type =
        (if TrimSpace (ef_stream_type f) = [] then ExecutionEventStreamTypeTask
         else TrimSpace (ef_stream_type f)),
      ef_stream_id = TrimSpace (ef_stream_id f),
      ef_task_name = TrimSpace (ef_task_name f),
      ef_session_name = TrimSpace (ef_session_name f),
      ef_event_types = normalized_types (ef_event_types f),
      ef_after_seq = max 0 (ef_after_seq f),
      ef_limit = normalized_limit (ef_limit f)\<rparr>"

definition filter_validate :: "ExecutionEventFilter \<Rightarrow> store_error option" where
  "filter_validate f =
     (let f = filter_normalized f
      in first_error
           (fail_if ErrValidation (\<not> IsValidExecutionEventStreamType (ef_stream_type f))
            # map (\<lambda>t. fail_if ErrValidation (\<not> IsValidExecutionEventType t)) (ef_event_types f)))"

definition session_filter_normalized :: "SessionExecutionEventFilter \<Rightarrow> SessionExecutionEventFilter" where
  "session_filter_normalized f =
     \<lparr>xf_namespace = TrimSpace (xf_namespace f),
      xf_session_name = TrimSpace (xf_session_name f),
      xf_event_types = normalized_types (xf_event_types f),
      xf_after_seq = max 0 (xf_after_seq f),
      xf_limit = normalized_limit (xf_limit f)\<rparr>"

definition session_filter_validate :: "SessionExecutionEventFilter \<Rightarrow> store_error option" where
  "session_filter_validate f =
     (let f = session_filter_normalized f
      in first_error
           ([fail_if ErrValidation (xf_namespace f = []),
             fail_if ErrValidation (xf_session_name f = [])]
            @ map (\<lambda>t. fail_if ErrValidation (\<not> IsValidExecutionEventType t)) (xf_event_types f)))"

definition MaxExecutionEventDedupeKeyBytes :: nat where
  "MaxExecutionEventDedupeKeyBytes = 512"

definition NormalizeExecutionEventDedupeKey :: "string \<Rightarrow> store_error + string" where
  "NormalizeExecutionEventDedupeKey value =
     (let v = TrimSpace value
      in checks
           [fail_if ErrValidation (v = []),
            fail_if ErrValidation (length v > MaxExecutionEventDedupeKeyBytes)]
           (Inr v))"

fun approval_field :: "string list \<Rightarrow> (string \<Rightarrow> json option) \<Rightarrow> string option" where
  "approval_field [] m = None"
| "approval_field (k # ks) m =
     (case m k of
        Some (JString v) \<Rightarrow> if TrimSpace v \<noteq> [] then Some (TrimSpace v) else approval_field ks m
      | _ \<Rightarrow> approval_field ks m)"

definition ApprovalIDFromExecutionEvent :: "ExecutionEvent \<Rightarrow> string" where
  "ApprovalIDFromExecutionEvent event =
     (let tool_call_id = TrimSpace (ev_tool_call_id event)
      in case ev_content event of
          Document (JObject kvs) \<Rightarrow>
            (case approval_field [''approvalID'', ''approvalId'', ''approval_id'', ''id''] (json_map kvs) of
               Some v \<Rightarrow> v | None \<Rightarrow> tool_call_id)
        | _ \<Rightarrow> tool_call_id)"

end
