(* ===== verification/Event_Store.thy ===== *)
theory Event_Store
  imports Execution_Events
begin

text \<open>
  The tables of the execution event store and its operations
  (\<^verbatim>\<open>src/internal/store/sqlite/execution_event_store.go\<close>, with the plan projection of
  \<^verbatim>\<open>plan_store.go\<close> and the usage observation of \<^verbatim>\<open>usage_events.go\<close> and \<^verbatim>\<open>usage_store.go\<close> that an append
  writes in its transaction).  The state extends \<open>task_db\<close>, so that an operation that carries a
  task-data fence checks it in its own transaction.
\<close>

section \<open>State\<close>

text \<open>
  One row of \<^verbatim>\<open>execution_events\<close>: the event as a read returns it, the session sequence, the
  deduplication key and the implicit row identifier.
\<close>

record event_row =
  er_event :: ExecutionEvent
  er_session_seq :: int
  er_dedupe_key :: string
  er_rowid :: int

record event_db = task_db +
  execution_events :: "event_row list"
  session_sequences :: "string \<times> string \<rightharpoonup> int"
  plan_states :: "string \<times> string \<rightharpoonup> PlanState"
  usage_task_namespaces :: "string \<times> string \<rightharpoonup> string"
  usage_observations :: "UsageObservation list"

text \<open>\<^verbatim>\<open>COALESCE(MAX(...), 0)\<close> over the selected rows.\<close>

definition sql_max :: "int list \<Rightarrow> int" where
  "sql_max xs = (if xs = [] then 0 else Max (set xs))"

definition in_stream :: "string \<Rightarrow> string \<Rightarrow> string \<Rightarrow> event_row \<Rightarrow> bool" where
  "in_stream namespace stream_type stream_id r \<longleftrightarrow>
     ev_namespace (er_event r) = namespace \<and> ev_stream_type (er_event r) = stream_type \<and>
     ev_stream_id (er_event r) = stream_id"

definition event_in_session :: "string \<Rightarrow> string \<Rightarrow> event_row \<Rightarrow> bool" where
  "event_in_session namespace session_name r \<longleftrightarrow>
     ev_namespace (er_event r) = namespace \<and> ev_session_name (er_event r) = session_name"

definition effective_session_seq :: "event_row \<Rightarrow> int" where
  "effective_session_seq r = (if er_session_seq r > 0 then er_session_seq r else er_rowid r)"

section \<open>Normalization\<close>

definition normalizeSQLiteExecutionEvent :: "ExecutionEvent \<Rightarrow> store_error + ExecutionEvent" where
  "normalizeSQLiteExecutionEvent event =
     (let e = event
        \<lparr>ev_namespace := TrimSpace (ev_namespace event),
         ev_stream_type :=
           (if TrimSpace (ev_stream_type event) = [] then ExecutionEventStreamTypeTask
            else TrimSpace (ev_stream_type event)),
         ev_stream_id := TrimSpace (ev_stream_id event),
         ev_type := TrimSpace (ev_type event),
         ev_severity := NormalizeExecutionEventSeverity (ev_severity event),
         ev_task_name := TrimSpace (ev_task_name event),
         ev_session_name := TrimSpace (ev_session_name event),
         ev_agent_name := TrimSpace (ev_agent_name event),
         ev_tool_name := TrimSpace (ev_tool_name event),
         ev_tool_call_id := TrimSpace (ev_tool_call_id event)\<rparr>
      in checks
           [fail_if ErrValidation (ev_namespace e = []),
            fail_if ErrValidation (\<not> IsValidExecutionEventStreamType (ev_stream_type e)),
            fail_if ErrValidation (ev_stream_id e = []),
            fail_if ErrValidation (\<not> IsValidExecutionEventType (ev_type e)),
            fail_if ErrValidation (ev_content e = Malformed)]
           (Inr e))"

definition stored_truncation ::
  "ExecutionEventTruncation option \<Rightarrow> ExecutionEventTruncation option" where
  "stored_truncation t =
     (case t of None \<Rightarrow> None | Some m \<Rightarrow> if truncation_empty m then None else Some m)"

definition executionEventID :: "string \<Rightarrow> string \<Rightarrow> string \<Rightarrow> int \<Rightarrow> string" where
  "executionEventID namespace stream_type stream_id seq =
     namespace @ ''/'' @ stream_type @ ''/'' @ stream_id @ ''/'' @ FormatInt seq"

section \<open>Usage observations\<close>

definition MaxObservationTokenCount :: int where
  "MaxObservationTokenCount = 9007199254740991"

fun cache_exceeds :: "int option list \<Rightarrow> int \<Rightarrow> bool" where
  "cache_exceeds [] remaining \<longleftrightarrow> False"
| "cache_exceeds (None # cs) remaining \<longleftrightarrow> cache_exceeds cs remaining"
| "cache_exceeds (Some n # cs) remaining \<longleftrightarrow> n > remaining \<or> cache_exceeds cs (remaining - n)"

definition ValidateUsageObservation :: "UsageObservation \<Rightarrow> store_error option" where
  "ValidateUsageObservation u =
     first_error
       [fail_if ErrValidation
          (uo_id u = [] \<or> uo_namespace u = [] \<or> uo_counter_id u = [] \<or> time_is_zero (uo_observed_at u)),
        fail_if ErrValidation (uo_scope u \<notin> {''call'', ''attempt'', ''session''}),
        fail_if ErrValidation (uo_source u \<notin> {''provider'', ''agent'', ''estimate''}),
        fail_if ErrValidation
          (list_ex (\<lambda>c. case c of None \<Rightarrow> False | Some n \<Rightarrow> n < 0 \<or> n > MaxObservationTokenCount)
             [uo_input_tokens u, uo_output_tokens u, uo_cached_input_tokens u, uo_cache_write_input_tokens u]),
        fail_if ErrValidation
          (case uo_input_tokens u of
             None \<Rightarrow> False
           | Some n \<Rightarrow> cache_exceeds [uo_cached_input_tokens u, uo_cache_write_input_tokens u] n)]"

definition usage_key :: "UsageObservation \<Rightarrow> string \<times> string" where
  "usage_key u = (uo_namespace u, uo_id u)"

text \<open>The deduplicating insert and the comparison of a replay.\<close>

definition insert_usage_observation ::
  "UsageObservation \<Rightarrow> 'z event_db_scheme \<Rightarrow> (unit, 'z event_db_scheme) tx_result" where
  "insert_usage_observation u d =
     (case find_row usage_key (usage_key u) (usage_observations d) of
        None \<Rightarrow> Commit () (d\<lparr>usage_observations := usage_observations d @ [u]\<rparr>)
      | Some existing \<Rightarrow> if existing \<noteq> u then Abort ErrConflict else Commit () d)"

definition recordUsage :: "UsageObservation \<Rightarrow> 'z event_db_scheme \<Rightarrow> (unit, 'z event_db_scheme) tx_result" where
  "recordUsage u d =
     guards [ValidateUsageObservation u]
       (case (if uo_task_uid u = [] then None else usage_task_namespaces d (uo_namespace u, uo_task_uid u)) of
          None \<Rightarrow> insert_usage_observation u d
        | Some n \<Rightarrow>
            guards [fail_if ErrConflict (uo_namespace_uid u \<noteq> [] \<and> uo_namespace_uid u \<noteq> n)]
              (insert_usage_observation (u\<lparr>uo_namespace_uid := n\<rparr>) d))"

definition recordEventUsage ::
  "ExecutionEvent \<Rightarrow> 'z event_db_scheme \<Rightarrow> (unit, 'z event_db_scheme) tx_result" where
  "recordEventUsage event d =
     (case ev_usage event of
        None \<Rightarrow> Commit () d
      | Some usage \<Rightarrow>
          let u = eu_observation usage
          in recordUsage
               (if eu_keep_first_observed_at usage
                then (case find_row usage_key (usage_key u) (usage_observations d) of
                        None \<Rightarrow> u | Some existing \<Rightarrow> u\<lparr>uo_observed_at := uo_observed_at existing\<rparr>)
                else u) d)"

section \<open>Appending\<close>

definition upsertSQLitePlan ::
  "string \<Rightarrow> string \<Rightarrow> PlanState \<Rightarrow> gotime \<Rightarrow> 'z event_db_scheme \<Rightarrow> 'z event_db_scheme" where
  "upsertSQLitePlan namespace task_name plan now d =
     d\<lparr>plan_states := (plan_states d)((namespace, task_name) \<mapsto>
         plan\<lparr>ps_namespace := namespace, ps_task_name := task_name,
           ps_created_at :=
             (case plan_states d (namespace, task_name) of None \<Rightarrow> now | Some p \<Rightarrow> ps_created_at p),
           ps_updated_at := now\<rparr>)\<rparr>"

definition sameExecutionEventIdentity :: "ExecutionEvent \<Rightarrow> ExecutionEvent \<Rightarrow> bool" where
  "sameExecutionEventIdentity stored requested \<longleftrightarrow>
     (let same = (\<lambda>a b. a = [] \<or> b = [] \<or> a = b)
      in same (ev_task_name stored) (ev_task_name requested) \<and>
         same (ev_session_name stored) (ev_session_name requested) \<and>
         same (ev_tool_call_id stored) (ev_tool_call_id requested))"

definition existingSQLiteExecutionEventByDedupeKey ::
  "'z event_db_scheme \<Rightarrow> ExecutionEvent \<Rightarrow> string \<Rightarrow> ExecutionEvent option" where
  "existingSQLiteExecutionEventByDedupeKey d event dedupe_key =
     map_option er_event
       (List.find (\<lambda>r. in_stream (ev_namespace event) (ev_stream_type event) (ev_stream_id event) r \<and>
          er_dedupe_key r = dedupe_key) (execution_events d))"

definition existingSQLiteTerminalApprovalEvent :: "'z event_db_scheme \<Rightarrow> ExecutionEvent \<Rightarrow> bool" where
  "existingSQLiteTerminalApprovalEvent d event \<longleftrightarrow>
     IsTerminalApprovalExecutionEventType (ev_type event) \<and>
     ApprovalIDFromExecutionEvent event \<noteq> [] \<and>
     list_ex (\<lambda>r. in_stream (ev_namespace event) (ev_stream_type event) (ev_stream_id event) r \<and>
         ev_type (er_event r) \<in> set terminalApprovalEventTypes \<and>
         ApprovalIDFromExecutionEvent (er_event r) = ApprovalIDFromExecutionEvent event)
       (execution_events d)"

definition latest_stream_seq :: "'z event_db_scheme \<Rightarrow> string \<Rightarrow> string \<Rightarrow> string \<Rightarrow> int" where
  "latest_stream_seq d namespace stream_type stream_id =
     sql_max (map (\<lambda>r. ev_seq (er_event r))
       (filter (in_stream namespace stream_type stream_id) (execution_events d)))"

definition latest_event_session_seq :: "'z event_db_scheme \<Rightarrow> string \<Rightarrow> string \<Rightarrow> int" where
  "latest_event_session_seq d namespace session_name =
     sql_max (map effective_session_seq (filter (event_in_session namespace session_name) (execution_events d)))"

definition sqliteSessionCursorSeq :: "'z event_db_scheme \<Rightarrow> string \<Rightarrow> string \<Rightarrow> int" where
  "sqliteSessionCursorSeq d namespace session_name =
     (case session_sequences d (namespace, session_name) of None \<Rightarrow> 0 | Some n \<Rightarrow> n)"

definition nextSQLiteSessionExecutionEventSeq ::
  "string \<Rightarrow> string \<Rightarrow> 'z event_db_scheme \<Rightarrow> int \<times> 'z event_db_scheme" where
  "nextSQLiteSessionExecutionEventSeq namespace session_name d =
     (if TrimSpace session_name = [] then (0, d)
      else
        let cursor = sqliteSessionCursorSeq d namespace session_name;
            latest = (if cursor = 0 then latest_event_session_seq d namespace session_name else cursor)
        in (latest + 1,
            d\<lparr>session_sequences := (session_sequences d)((namespace, session_name) \<mapsto> latest + 1)\<rparr>))"

definition latestSQLiteSessionExecutionEventSeq :: "'z event_db_scheme \<Rightarrow> string \<Rightarrow> string \<Rightarrow> int" where
  "latestSQLiteSessionExecutionEventSeq d namespace session_name =
     max (latest_event_session_seq d namespace session_name)
         (sqliteSessionCursorSeq d namespace session_name)"

text \<open>The primary key, \<^verbatim>\<open>UNIQUE(namespace, stream_type, stream_id, seq)\<close>, the unique index of keys.\<close>

definition event_clash :: "event_row \<Rightarrow> event_row \<Rightarrow> bool" where
  "event_clash r r' \<longleftrightarrow>
     (let e = er_event r; e' = er_event r';
          same_stream = (ev_namespace e = ev_namespace e' \<and> ev_stream_type e = ev_stream_type e' \<and>
            ev_stream_id e = ev_stream_id e')
      in ev_id e = ev_id e' \<or>
         same_stream \<and> ev_seq e = ev_seq e' \<or>
         same_stream \<and> er_dedupe_key r \<noteq> [] \<and> er_dedupe_key r = er_dedupe_key r')"

definition next_rowid :: "event_row list \<Rightarrow> int" where
  "next_rowid rows = sql_max (map er_rowid rows) + 1"

definition new_event_row :: "ExecutionEvent \<Rightarrow> int \<Rightarrow> string \<Rightarrow> event_row list \<Rightarrow> event_row" where
  "new_event_row event session_seq dedupe_key rows =
     \<lparr>er_event = event\<lparr>ev_usage := None, ev_truncation := stored_truncation (ev_truncation event)\<rparr>,
      er_session_seq = session_seq, er_dedupe_key = dedupe_key, er_rowid = next_rowid rows\<rparr>"

definition insert_execution_event ::
  "ExecutionEvent \<Rightarrow> int \<Rightarrow> string \<Rightarrow> 'z event_db_scheme \<Rightarrow> 'z event_db_scheme option" where
  "insert_execution_event event session_seq dedupe_key d =
     map_option (\<lambda>t. d\<lparr>execution_events := t\<rparr>)
       (sql_insert (\<lambda>_. True) event_clash
         (new_event_row event session_seq dedupe_key (execution_events d)) (execution_events d))"

definition appendSQLiteExecutionEvent ::
  "ExecutionEvent \<Rightarrow> string \<Rightarrow> PlanState option \<Rightarrow> gotime \<Rightarrow> 'z event_db_scheme \<Rightarrow>
   (ExecutionEvent \<times> bool, 'z event_db_scheme) tx_result" where
  "appendSQLiteExecutionEvent event dedupe_key plan plan_updated_at d =
     (case (if dedupe_key \<noteq> [] then existingSQLiteExecutionEventByDedupeKey d event dedupe_key else None) of
        Some existing \<Rightarrow>
          if \<not> sameExecutionEventIdentity existing event then Abort ErrDuplicateMismatch
          else Commit (existing, False) d
      | None \<Rightarrow>
          let seq = latest_stream_seq d (ev_namespace event) (ev_stream_type event) (ev_stream_id event) + 1;
              event = event\<lparr>ev_seq := seq,
                ev_id := executionEventID (ev_namespace event) (ev_stream_type event) (ev_stream_id event) seq\<rparr>
          in if existingSQLiteTerminalApprovalEvent d event then Abort ErrConflict
             else
               let (session_seq, d1) =
                     nextSQLiteSessionExecutionEventSeq (ev_namespace event) (ev_session_name event) d
               in case insert_execution_event event session_seq dedupe_key d1 of
                    None \<Rightarrow> Abort ErrDriver
                  | Some d2 \<Rightarrow>
                      let d3 = (case plan of
                                  None \<Rightarrow> d2
                                | Some p \<Rightarrow> upsertSQLitePlan (ps_namespace p) (ps_task_name p) p plan_updated_at d2)
                      in case recordEventUsage event d3 of
                           Commit _ d4 \<Rightarrow> Commit (event\<lparr>ev_usage := None\<rparr>, True) d4
                         | ReturnTx _ \<Rightarrow> Abort ErrDriver
                         | Abort e \<Rightarrow> Abort e)"

text \<open>
  The environment of an append: the clock, a fault of an enclosing transaction, and for each attempt
  of the retry loop whether the driver lets it run, reports a busy database, fails otherwise, or the
  context is done.
\<close>

datatype attempt = AttemptRuns | AttemptBusy | AttemptFails | AttemptCanceled

record append_env =
  ae_now :: gotime
  ae_plan_now :: gotime
  ae_fault :: "fault option"
  ae_attempt :: "nat \<Rightarrow> attempt"

definition prepareExecutionEvent ::
  "gotime \<Rightarrow> ExecutionEvent option \<Rightarrow> PlanState option \<Rightarrow> store_error + ExecutionEvent \<times> PlanState option" where
  "prepareExecutionEvent now event plan =
     (case event of
        None \<Rightarrow> Inl ErrValidation
      | Some e \<Rightarrow>
          (case normalizeSQLiteExecutionEvent e of
             Inl x \<Rightarrow> Inl x
           | Inr copy \<Rightarrow>
               let copy = (if time_is_zero (ev_created_at copy) then copy\<lparr>ev_created_at := now\<rparr> else copy)
               in case plan of
                    None \<Rightarrow> Inr (copy, None)
                  | Some p \<Rightarrow>
                      if TrimSpace (ps_namespace p) \<noteq> ev_namespace copy \<or>
                         TrimSpace (ps_task_name p) \<noteq> ev_task_name copy
                      then Inl ErrValidation
                      else Inr (copy, Some (p\<lparr>ps_namespace := ev_namespace copy,
                                              ps_task_name := ev_task_name copy\<rparr>))))"

definition maxAttempts :: nat where
  "maxAttempts = 8"

text \<open>
  The retry loop.  A busy database and a constraint error (the \<open>Abort ErrDriver\<close> of the body) are
  retried until the attempts are used up; the last error is then returned.
\<close>

fun append_attempts ::
  "attempt list \<Rightarrow> ('d \<Rightarrow> ('a, 'd) tx_result) \<Rightarrow> 'd \<Rightarrow> (store_error + 'a) \<times> 'd" where
  "append_attempts [] body d = (Inl ErrDriver, d)"
| "append_attempts (AttemptRuns # as) body d =
     (case body d of
        Commit r d' \<Rightarrow> (Inr r, d')
      | ReturnTx r \<Rightarrow> (Inr r, d)
      | Abort e \<Rightarrow> if e = ErrDriver then append_attempts as body d else (Inl e, d))"
| "append_attempts (AttemptBusy # as) body d = append_attempts as body d"
| "append_attempts (AttemptFails # as) body d = (Inl ErrDriver, d)"
| "append_attempts (AttemptCanceled # as) body d = (Inl ErrCanceled, d)"

definition append_in_tx ::
  "append_env \<Rightarrow> ExecutionEvent option \<Rightarrow> string \<Rightarrow> PlanState option \<Rightarrow> 'z event_db_scheme \<Rightarrow>
   (ExecutionEvent \<times> bool, 'z event_db_scheme) tx_result" where
  "append_in_tx env event dedupe_key plan d =
     (case prepareExecutionEvent (ae_now env) event plan of
        Inl x \<Rightarrow> Abort x
      | Inr (copy, p) \<Rightarrow> appendSQLiteExecutionEvent copy dedupe_key p (ae_plan_now env) d)"

definition appendExecutionEventUnfenced ::
  "append_env \<Rightarrow> ExecutionEvent option \<Rightarrow> string \<Rightarrow> PlanState option \<Rightarrow> 'z event_db_scheme \<Rightarrow>
   (store_error + ExecutionEvent \<times> bool) \<times> 'z event_db_scheme" where
  "appendExecutionEventUnfenced env event dedupe_key plan d =
     (case prepareExecutionEvent (ae_now env) event plan of
        Inl x \<Rightarrow> (Inl x, d)
      | Inr (copy, p) \<Rightarrow>
          append_attempts (map (ae_attempt env) [0..<maxAttempts])
            (appendSQLiteExecutionEvent copy dedupe_key p (ae_plan_now env)) d)"

definition appendExecutionEvent ::
  "append_env \<Rightarrow> TaskDataFence option \<Rightarrow> ExecutionEvent option \<Rightarrow> string \<Rightarrow> PlanState option \<Rightarrow>
   'z event_db_scheme \<Rightarrow> (store_error + ExecutionEvent \<times> bool) \<times> 'z event_db_scheme" where
  "appendExecutionEvent env fence event dedupe_key plan =
     withTaskDataFence (ae_fault env) fence
       (appendExecutionEventUnfenced env event dedupe_key plan)
       (append_in_tx env event dedupe_key plan)"

definition appendExecutionEventWrite ::
  "append_env \<Rightarrow> TaskDataFence option \<Rightarrow> ExecutionEvent option \<Rightarrow>
   'z event_db_scheme \<Rightarrow> (store_error + ExecutionEvent) \<times> 'z event_db_scheme" where
  "appendExecutionEventWrite env fence event d =
     (case appendExecutionEvent env fence event [] None d of (r, d') \<Rightarrow> (map_sum id fst r, d'))"

definition appendExecutionEventIfAbsentWrite ::
  "append_env \<Rightarrow> TaskDataFence option \<Rightarrow> ExecutionEvent option \<Rightarrow> string \<Rightarrow>
   'z event_db_scheme \<Rightarrow> (store_error + ExecutionEvent \<times> bool) \<times> 'z event_db_scheme" where
  "appendExecutionEventIfAbsentWrite env fence event dedupe_key d =
     (case NormalizeExecutionEventDedupeKey dedupe_key of
        Inl x \<Rightarrow> (Inl x, d)
      | Inr key \<Rightarrow> appendExecutionEvent env fence event key None d)"

definition appendExecutionEventWithPlanIfAbsentWrite ::
  "append_env \<Rightarrow> TaskDataFence option \<Rightarrow> ExecutionEvent option \<Rightarrow> string \<Rightarrow> PlanState option \<Rightarrow>
   'z event_db_scheme \<Rightarrow> (store_error + ExecutionEvent \<times> bool) \<times> 'z event_db_scheme" where
  "appendExecutionEventWithPlanIfAbsentWrite env fence event dedupe_key plan d =
     (case NormalizeExecutionEventDedupeKey dedupe_key of
        Inl x \<Rightarrow> (Inl x, d)
      | Inr key \<Rightarrow>
          if plan = None then (Inl ErrValidation, d) else appendExecutionEvent env fence event key plan d)"

fun normalize_keys :: "(ExecutionEvent option \<times> string) list \<Rightarrow> store_error + (ExecutionEvent option \<times> string) list" where
  "normalize_keys [] = Inr []"
| "normalize_keys ((e, k) # xs) =
     (case NormalizeExecutionEventDedupeKey k of
        Inl x \<Rightarrow> Inl x
      | Inr k' \<Rightarrow> (case normalize_keys xs of Inl x \<Rightarrow> Inl x | Inr ys \<Rightarrow> Inr ((e, k') # ys)))"

fun append_all ::
  "append_env \<Rightarrow> (ExecutionEvent option \<times> string) list \<Rightarrow> 'z event_db_scheme \<Rightarrow>
   ((ExecutionEvent \<times> bool) list, 'z event_db_scheme) tx_result" where
  "append_all env [] d = Commit [] d"
| "append_all env ((e, k) # xs) d =
     (case append_in_tx env e k None d of
        Abort x \<Rightarrow> Abort x
      | ReturnTx r \<Rightarrow> Abort ErrDriver
      | Commit r d' \<Rightarrow>
          (case append_all env xs d' of
             Abort x \<Rightarrow> Abort x
           | ReturnTx rs \<Rightarrow> Abort ErrDriver
           | Commit rs d'' \<Rightarrow> Commit (r # rs) d''))"

definition appendExecutionEventsIfAbsentWrite ::
  "append_env \<Rightarrow> TaskDataFence option \<Rightarrow> (ExecutionEvent option \<times> string) list \<Rightarrow>
   'z event_db_scheme \<Rightarrow> (store_error + (ExecutionEvent \<times> bool) list) \<times> 'z event_db_scheme" where
  "appendExecutionEventsIfAbsentWrite env fence appends d =
     (case normalize_keys appends of
        Inl x \<Rightarrow> (Inl x, d)
      | Inr xs \<Rightarrow>
          withTaskDataFence (ae_fault env) fence
            (with_tx (ae_fault env) (append_all env xs)) (append_all env xs) d)"

section \<open>Reading\<close>

definition filter_matches :: "ExecutionEventFilter \<Rightarrow> event_row \<Rightarrow> bool" where
  "filter_matches f r \<longleftrightarrow>
     (let e = er_event r
      in ev_seq e > ef_after_seq f \<and>
         (ef_namespace f = [] \<or> ev_namespace e = ef_namespace f) \<and>
         (ef_stream_type f = [] \<or> ev_stream_type e = ef_stream_type f) \<and>
         (ef_stream_id f = [] \<or> ev_stream_id e = ef_stream_id f) \<and>
         (ef_task_name f = [] \<or> ev_task_name e = ef_task_name f) \<and>
         (ef_session_name f = [] \<or> ev_session_name e = ef_session_name f) \<and>
         (ef_event_types f = [] \<or> ev_type e \<in> set (ef_event_types f)))"

definition stream_order :: "event_row \<Rightarrow> string \<times> string \<times> string \<times> int" where
  "stream_order r =
     (ev_namespace (er_event r), ev_stream_type (er_event r), ev_stream_id (er_event r), ev_seq (er_event r))"

definition listExecutionEventsUnfenced ::
  "'z event_db_scheme \<Rightarrow> ExecutionEventFilter \<Rightarrow> store_error + ExecutionEvent list" where
  "listExecutionEventsUnfenced d f =
     (let f = filter_normalized f
      in checks [filter_validate f]
           (Inr (map er_event
             (take (nat (ef_limit f))
               (sort_key stream_order (filter (filter_matches f) (execution_events d)))))))"

definition ListExecutionEvents ::
  "fault option \<Rightarrow> TaskDataFence option \<Rightarrow> ExecutionEventFilter \<Rightarrow> 'z event_db_scheme \<Rightarrow>
   (store_error + ExecutionEvent list) \<times> 'z event_db_scheme" where
  "ListExecutionEvents flt fence f =
     withTaskDataFence flt fence
       (with_tx flt (\<lambda>d. case listExecutionEventsUnfenced d f of Inl x \<Rightarrow> Abort x | Inr es \<Rightarrow> ReturnTx es))
       (\<lambda>d. case listExecutionEventsUnfenced d f of Inl x \<Rightarrow> Abort x | Inr es \<Rightarrow> Commit es d)"

definition session_matches :: "SessionExecutionEventFilter \<Rightarrow> event_row \<Rightarrow> bool" where
  "session_matches f r \<longleftrightarrow>
     effective_session_seq r > xf_after_seq f \<and>
     (xf_event_types f = [] \<or> ev_type (er_event r) \<in> set (xf_event_types f))"

definition session_event :: "event_row \<Rightarrow> SessionExecutionEvent" where
  "session_event r =
     \<lparr>se_event = er_event r, se_session_seq = effective_session_seq r, se_task_seq = ev_seq (er_event r)\<rparr>"

definition ListSessionExecutionEvents ::
  "'z event_db_scheme \<Rightarrow> SessionExecutionEventFilter \<Rightarrow> store_error + SessionExecutionEvent list \<times> int" where
  "ListSessionExecutionEvents d f =
     (let f = session_filter_normalized f
      in checks [session_filter_validate f]
           (let out = map session_event
                  (take (nat (xf_limit f))
                    (sort_key effective_session_seq
                      (filter (session_matches f)
                        (filter (event_in_session (xf_namespace f) (xf_session_name f)) (execution_events d)))))
            in Inr (out, fold max (map se_session_seq out)
                 (latestSQLiteSessionExecutionEventSeq d (xf_namespace f) (xf_session_name f)))))"

definition stream_filter :: "string \<Rightarrow> string \<Rightarrow> string \<Rightarrow> ExecutionEventFilter" where
  "stream_filter namespace stream_type stream_id =
     \<lparr>ef_namespace = namespace, ef_stream_type = stream_type, ef_stream_id = stream_id,
      ef_task_name = [], ef_session_name = [], ef_event_types = [], ef_after_seq = 0, ef_limit = 0\<rparr>"

definition GetLatestExecutionEventSeq ::
  "'z event_db_scheme \<Rightarrow> string \<Rightarrow> string \<Rightarrow> string \<Rightarrow> store_error + int" where
  "GetLatestExecutionEventSeq d namespace stream_type stream_id =
     (let f = filter_normalized (stream_filter namespace stream_type stream_id)
      in checks [filter_validate f]
           (Inr (latest_stream_seq d (ef_namespace f) (ef_stream_type f) (ef_stream_id f))))"

definition sqliteExecutionEventSeqBatchSize :: nat where
  "sqliteExecutionEventSeqBatchSize = 256"

fun request_streams :: "string list \<Rightarrow> (string \<rightharpoonup> int) \<Rightarrow> string list \<Rightarrow> (string \<rightharpoonup> int) \<times> string list" where
  "request_streams [] sequences requested = (sequences, requested)"
| "request_streams (i # ids) sequences requested =
     (let i = TrimSpace i
      in if sequences i = None then request_streams ids (sequences(i \<mapsto> 0)) (requested @ [i])
         else request_streams ids sequences requested)"

definition readLatestExecutionEventSeqBatch ::
  "'z event_db_scheme \<Rightarrow> string \<Rightarrow> string \<Rightarrow> string list \<Rightarrow> (string \<rightharpoonup> int) \<Rightarrow> (string \<rightharpoonup> int)" where
  "readLatestExecutionEventSeqBatch d namespace stream_type ids sequences =
     fold (\<lambda>i m. m(i \<mapsto> latest_stream_seq d namespace stream_type i)) ids sequences"

function read_seq_batches ::
  "'z event_db_scheme \<Rightarrow> string \<Rightarrow> string \<Rightarrow> string list \<Rightarrow> (string \<rightharpoonup> int) \<Rightarrow> (string \<rightharpoonup> int)" where
  "read_seq_batches d namespace stream_type ids sequences =
     (if ids = [] then sequences
      else read_seq_batches d namespace stream_type (drop sqliteExecutionEventSeqBatchSize ids)
             (readLatestExecutionEventSeqBatch d namespace stream_type
               (take sqliteExecutionEventSeqBatchSize ids) sequences))"
  by pat_completeness auto
termination
  by (relation "measure (\<lambda>(d, n, s, ids, m). length ids)") (auto simp: sqliteExecutionEventSeqBatchSize_def)

declare read_seq_batches.simps [simp del]

definition GetLatestExecutionEventSeqs ::
  "'z event_db_scheme \<Rightarrow> string \<Rightarrow> string \<Rightarrow> string list \<Rightarrow> store_error + (string \<rightharpoonup> int)" where
  "GetLatestExecutionEventSeqs d namespace stream_type ids =
     (let f = filter_normalized (stream_filter namespace stream_type [])
      in checks [filter_validate f]
           (case request_streams ids (\<lambda>_. None) [] of
              (sequences, requested) \<Rightarrow>
                Inr (read_seq_batches d (ef_namespace f) (ef_stream_type f) requested sequences)))"

section \<open>Deleting\<close>

definition deleteExecutionEventsWrite ::
  "fault option \<Rightarrow> string \<Rightarrow> string \<Rightarrow> string \<Rightarrow> 'z event_db_scheme \<Rightarrow>
   (store_error + unit) \<times> 'z event_db_scheme" where
  "deleteExecutionEventsWrite flt namespace stream_type stream_id =
     (let f = filter_normalized (stream_filter namespace stream_type stream_id);
          task_name = (if ef_stream_type f = ExecutionEventStreamTypeTask then ef_stream_id f else [])
      in checked (filter_validate f)
           (deleteTaskData flt (ef_namespace f) task_name
             (\<lambda>d. d\<lparr>execution_events :=
                filter (\<lambda>r. \<not> in_stream (ef_namespace f) (ef_stream_type f) (ef_stream_id f) r)
                  (execution_events d)\<rparr>)))"

text \<open>
  The statements by which the deletion of a session (\<^verbatim>\<open>session_store.go\<close>, \<^verbatim>\<open>session_cleanup.go\<close>) leaves
  its events in their streams: they no longer belong to the session, and its cursor goes.
\<close>

definition detached_row :: "string \<Rightarrow> string \<Rightarrow> event_row \<Rightarrow> event_row" where
  "detached_row namespace session_name r =
     (if event_in_session namespace session_name r
      then r\<lparr>er_event := (er_event r)\<lparr>ev_session_name := []\<rparr>, er_session_seq := 0\<rparr> else r)"

definition detach_session_events :: "string \<Rightarrow> string \<Rightarrow> 'z event_db_scheme \<Rightarrow> 'z event_db_scheme" where
  "detach_session_events namespace session_name d =
     d\<lparr>execution_events := map (detached_row namespace session_name) (execution_events d),
       session_sequences := (session_sequences d)((namespace, session_name) := None)\<rparr>"

section \<open>Plans\<close>

definition savePlanWrite ::
  "fault option \<Rightarrow> TaskDataFence option \<Rightarrow> string \<Rightarrow> string \<Rightarrow> PlanState \<Rightarrow> gotime \<Rightarrow> 'z event_db_scheme \<Rightarrow>
   (store_error + unit) \<times> 'z event_db_scheme" where
  "savePlanWrite flt fence namespace task_name plan now =
     withTaskDataFence flt fence
       (with_tx flt (\<lambda>d. Commit () (upsertSQLitePlan namespace task_name plan now d)))
       (\<lambda>d. Commit () (upsertSQLitePlan namespace task_name plan now d))"

definition GetPlan ::
  "fault option \<Rightarrow> TaskDataFence option \<Rightarrow> string \<Rightarrow> string \<Rightarrow> 'z event_db_scheme \<Rightarrow>
   (store_error + PlanState) \<times> 'z event_db_scheme" where
  "GetPlan flt fence namespace task_name =
     (let read = (\<lambda>d. case plan_states d (namespace, task_name) of None \<Rightarrow> Inl ErrNotFound | Some p \<Rightarrow> Inr p)
      in withTaskDataFence flt fence
           (with_tx flt (\<lambda>d. case read d of Inl x \<Rightarrow> Abort x | Inr p \<Rightarrow> ReturnTx p))
           (\<lambda>d. case read d of Inl x \<Rightarrow> Abort x | Inr p \<Rightarrow> Commit p d))"

definition deletePlanWrite ::
  "fault option \<Rightarrow> string \<Rightarrow> string \<Rightarrow> 'z event_db_scheme \<Rightarrow> (store_error + unit) \<times> 'z event_db_scheme" where
  "deletePlanWrite flt namespace task_name =
     deleteTaskData flt namespace task_name
       (\<lambda>d. d\<lparr>plan_states := (plan_states d)((namespace, task_name) := None)\<rparr>)"

end
