(* ===== verification/Session_Store.thy ===== *)
theory Session_Store
  imports Session_Turn_Records Event_Store
begin

text \<open>
  The session store (\<^verbatim>\<open>src/internal/store/sqlite/session_store.go\<close>): session records, the Task lock and
  the reservation of a chat turn, which exclude each other on one session, the transcript, token
  counters, reads, and the deletion of an idle session.  A session and its transcript are rows of the
  control database \<open>db\<close>; deletion also detaches the execution events of the session and advances
  the cleanup generation, so it acts on \<open>store_db\<close>, the tables of the event store with those of the
  control store.

  The environment of a call has the clock (one instant for a call), the fault of its transaction and
  the random identifiers of messages.  The JSON members of a message are represented by their
  encoding; an empty metadata map has none.
\<close>

section \<open>Records\<close>

record SessionMessage =
  ms_id :: string
  ms_order :: int
  ms_role :: string
  ms_content :: string
  ms_name :: string
  ms_input :: "string option"
  ms_tool_calls :: "string option"
  ms_tool_call_id :: string
  ms_source_type :: string
  ms_source_ref :: string
  ms_metadata :: "string option"
  ms_timestamp :: gotime

record SessionRecord =
  sr_namespace :: string
  sr_name :: string
  sr_session_type :: string
  sr_active_task :: string
  sr_active_task_uid :: string
  sr_message_count :: int
  sr_input_tokens :: int
  sr_output_tokens :: int
  sr_cancelled :: bool
  sr_created_at :: gotime
  sr_updated_at :: gotime
  sr_messages :: "SessionMessage list"

record SessionMetadata =
  sd_name :: string
  sd_session_type :: string
  sd_message_count :: int
  sd_input_tokens :: int
  sd_output_tokens :: int
  sd_created_at :: gotime
  sd_updated_at :: gotime
  sd_active_task :: string
  sd_active_task_uid :: string

record SessionPageCursor =
  pc_created_at :: gotime
  pc_name :: string

text \<open>The columns of \<^verbatim>\<open>gateway_events\<close> that the session store reads.\<close>

record GatewayEventRow =
  ge_id :: string
  ge_namespace :: string
  ge_session_name :: string
  ge_task_name :: string
  ge_task_uid :: string
  ge_state :: string
  ge_created_at :: gotime

text \<open>
  The evidence of a finalized turn that the cleanup of its session archives, and its row in
  \<^verbatim>\<open>session_turn_cleanup_receipts\<close>.
\<close>

record SessionTurnCleanupReceipt =
  tc_namespace :: string
  tc_session_name :: string
  tc_operation_id :: string
  tc_operation_digest :: string
  tc_turn_id :: string
  tc_key :: SessionTurnKey
  tc_prompt_attempt_id :: string
  tc_terminal_kind :: SessionTurnTerminalKind
  tc_finalized_at :: gotime
  tc_publication_id :: string
  tc_publication_receipt :: "PublicationReceipt option"
  tc_projection_id :: string
  tc_projection_kind :: string
  tc_projection_digest :: string
  tc_aggregate_kind :: string
  tc_aggregate_id :: string
  tc_payload :: string
  tc_payload_digest :: string
  tc_projection_state :: OutboxProjectionState
  tc_delivery_digest :: string
  tc_delivered_at :: "gotime option"

record TurnCleanupReceiptRow =
  tr_turn_id :: string
  tr_prompt_attempt_id :: string
  tr_namespace :: string
  tr_session_name :: string
  tr_session_uid :: string
  tr_receipt_digest :: string
  tr_receipt :: SessionTurnCleanupReceipt

text \<open>Of \<^verbatim>\<open>gateway_deliveries\<close> the session tables read the namespace and the session.\<close>

record store_db = event_db +
  control :: db
  gateway_events :: "GatewayEventRow list"
  gateway_deliveries :: "(string \<times> string) list"
  session_turn_cleanup_receipts :: "TurnCleanupReceiptRow list"

record session_env =
  sx_now :: gotime
  sx_fault :: "fault option"
  sx_random :: "nat \<Rightarrow> string option"

definition SessionTypeChat :: string where
  "SessionTypeChat = ''chat''"

definition gatewaySessionOwnerType :: string where
  "gatewaySessionOwnerType = SessionTypeGateway"

definition GatewaySessionCleanupOperationPrefix :: string where
  "GatewaySessionCleanupOperationPrefix = ''gateway-retention-v1-''"

definition SessionSoulAnchorSource :: string where
  "SessionSoulAnchorSource = ''soul-context''"

section \<open>Statements\<close>

text \<open>An \<^verbatim>\<open>UPDATE sessions\<close>; the table has no \<^verbatim>\<open>CHECK\<close>, so it cannot fail.\<close>

definition update_sessions :: "(SessionRow \<Rightarrow> bool) \<Rightarrow> (SessionRow \<Rightarrow> SessionRow) \<Rightarrow> db \<Rightarrow> db" where
  "update_sessions W f d = d\<lparr>sessions := map (\<lambda>s. if W s then f s else s) (sessions d)\<rparr>"

definition affected :: "(SessionRow \<Rightarrow> bool) \<Rightarrow> db \<Rightarrow> nat" where
  "affected W d = length (filter W (sessions d))"

text \<open>
  A \<^verbatim>\<open>DELETE FROM sessions\<close> for one session: the rows of controls and turns restrict it, transcript and
  native rows go with it.
\<close>

definition session_referenced :: "string \<Rightarrow> string \<Rightarrow> db \<Rightarrow> bool" where
  "session_referenced namespace name d \<longleftrightarrow>
     list_ex (\<lambda>c. session_control_pk c = (namespace, name)) (session_controls d) \<or>
     list_ex (\<lambda>t. (str_namespace t, str_session_name t) = (namespace, name)) (session_turns d)"

definition cascade_session :: "string \<Rightarrow> string \<Rightarrow> db \<Rightarrow> db" where
  "cascade_session namespace name d =
     d\<lparr>sessions := filter (\<lambda>s. session_pk s \<noteq> (namespace, name)) (sessions d),
       session_messages := filter (\<lambda>m. \<not> (sm_namespace m = namespace \<and> sm_session_name m = name)) (session_messages d),
       native_session_snapshots := filter (\<lambda>r. native_pk r \<noteq> (namespace, name)) (native_session_snapshots d),
       native_session_operations :=
         filter (\<lambda>r. \<not> (no_namespace r = namespace \<and> no_session_name r = name)) (native_session_operations d),
       native_session_finalizations :=
         filter (\<lambda>r. \<not> (nf_namespace r = namespace \<and> nf_session_name r = name)) (native_session_finalizations d)\<rparr>"

definition delete_session_row ::
  "string \<Rightarrow> string \<Rightarrow> (SessionRow \<Rightarrow> bool) \<Rightarrow> db \<Rightarrow> store_error + db \<times> nat" where
  "delete_session_row namespace name W d =
     (case find_row session_pk (namespace, name) (sessions d) of
        None \<Rightarrow> Inr (d, 0)
      | Some s \<Rightarrow>
          if \<not> W s then Inr (d, 0)
          else if session_referenced namespace name d then Inl ErrDriver
          else Inr (cascade_session namespace name d, 1))"

definition ensureNativeSessionNameAvailableTx :: "string \<Rightarrow> string \<Rightarrow> db \<Rightarrow> store_error option" where
  "ensureNativeSessionNameAvailableTx namespace name d =
     fail_if ErrConflict (List.member (native_session_deleted_names d) (namespace, name))"

text \<open>\<^verbatim>\<open>INSERT OR IGNORE ... SELECT\<close> of the snapshot's name, then the rows of the three native tables.\<close>

definition deleteNativeSessionTx :: "string \<Rightarrow> string \<Rightarrow> db \<Rightarrow> db" where
  "deleteNativeSessionTx namespace name d =
     d\<lparr>native_session_deleted_names :=
         (if find_row native_pk (namespace, name) (native_session_snapshots d) \<noteq> None \<and>
             \<not> List.member (native_session_deleted_names d) (namespace, name)
          then native_session_deleted_names d @ [(namespace, name)] else native_session_deleted_names d),
       native_session_snapshots := filter (\<lambda>r. native_pk r \<noteq> (namespace, name)) (native_session_snapshots d),
       native_session_operations :=
         filter (\<lambda>r. \<not> (no_namespace r = namespace \<and> no_session_name r = name)) (native_session_operations d),
       native_session_finalizations :=
         filter (\<lambda>r. \<not> (nf_namespace r = namespace \<and> nf_session_name r = name)) (native_session_finalizations d)\<rparr>"

text \<open>
  The completions of other sessions than those of a Kubernetes identity or a gateway permit the reuse
  of a name: both creations remove them first.
\<close>

definition reusable_completion :: "string \<Rightarrow> string \<Rightarrow> SessionCleanupCompletion \<Rightarrow> bool" where
  "reusable_completion namespace name c \<longleftrightarrow>
     cleanup_completion_pk c = (namespace, name) \<and> cc_session_uid c = [] \<and>
     \<not> has_prefix (cc_operation_id c) GatewaySessionCleanupOperationPrefix"

definition forget_completion :: "string \<Rightarrow> string \<Rightarrow> db \<Rightarrow> db" where
  "forget_completion namespace name d =
     d\<lparr>session_cleanup_completions :=
       filter (\<lambda>c. \<not> reusable_completion namespace name c) (session_cleanup_completions d)\<rparr>"

section \<open>Creation\<close>

definition session_row :: "SessionRecord \<Rightarrow> SessionRow" where
  "session_row s =
     \<lparr>ss_namespace = sr_namespace s, ss_name = sr_name s, ss_session_type = sr_session_type s,
      ss_owner_type = [], ss_owner_ref = [], ss_active_task = sr_active_task s,
      ss_active_task_uid = sr_active_task_uid s, ss_active_task_expires_at = None, ss_chat_turn_id = [],
      ss_chat_turn_expires_at = None, ss_control_session_uid = [], ss_message_count = sr_message_count s,
      ss_input_tokens = sr_input_tokens s, ss_output_tokens = sr_output_tokens s, ss_cancelled = sr_cancelled s,
      ss_created_at = sr_created_at s, ss_updated_at = sr_updated_at s\<rparr>"

definition insert_session :: "SessionRow \<Rightarrow> db \<Rightarrow> db option" where
  "insert_session s d =
     map_option (\<lambda>t. d\<lparr>sessions := t\<rparr>)
       (sql_insert (\<lambda>_. True) (\<lambda>a b. session_pk a = session_pk b) s (sessions d))"

definition create_session_body :: "SessionRecord \<Rightarrow> db \<Rightarrow> (unit, db) tx_result" where
  "create_session_body s d = guards
     [ensureNativeSessionNameAvailableTx (sr_namespace s) (sr_name s) d]
     (let key = (sr_namespace s, sr_name s);
          d1 = forget_completion (sr_namespace s) (sr_name s) d
      in if find_row cleanup_intent_pk key (session_cleanup_intents d1) \<noteq> None \<or>
            find_row cleanup_completion_pk key (session_cleanup_completions d1) \<noteq> None
         then Abort ErrConflict
         else case insert_session (session_row s) d1 of None \<Rightarrow> Abort ErrConflict | Some d2 \<Rightarrow> Commit () d2)"

definition createSessionWrite :: "session_env \<Rightarrow> SessionRecord \<Rightarrow> db \<Rightarrow> (store_error + unit) \<times> db" where
  "createSessionWrite e s = with_tx (sx_fault e) (create_session_body s)"

section \<open>Locks and chat turns\<close>

definition expired :: "gotime \<Rightarrow> gotime option \<Rightarrow> bool" where
  "expired now x \<longleftrightarrow> (case x of None \<Rightarrow> False | Some t \<Rightarrow> t \<le> now)"

definition chat_turn_live :: "gotime \<Rightarrow> SessionRow \<Rightarrow> bool" where
  "chat_turn_live now s \<longleftrightarrow>
     ss_chat_turn_id s \<noteq> [] \<and> (case ss_chat_turn_expires_at s of None \<Rightarrow> False | Some t \<Rightarrow> now < t)"

definition task_lock_live :: "gotime \<Rightarrow> SessionRow \<Rightarrow> bool" where
  "task_lock_live now s \<longleftrightarrow> ss_active_task s \<noteq> [] \<and> \<not> expired now (ss_active_task_expires_at s)"

definition rejectLegacyNativeSession :: "string \<Rightarrow> string \<Rightarrow> db \<Rightarrow> store_error option" where
  "rejectLegacyNativeSession namespace name d =
     fail_if ErrValidation (find_row native_pk (namespace, name) (native_session_snapshots d) \<noteq> None)"

text \<open>\<^verbatim>\<open>ORDER BY created_at DESC, id DESC LIMIT 1\<close>.\<close>

fun latest_gateway_event :: "GatewayEventRow list \<Rightarrow> GatewayEventRow option" where
  "latest_gateway_event [] = None"
| "latest_gateway_event (a # as) =
     (case latest_gateway_event as of
        None \<Rightarrow> Some a
      | Some b \<Rightarrow> if (ge_created_at a, ge_id a) \<le> (ge_created_at b, ge_id b) then Some b else Some a)"

definition admitted_owner ::
  "GatewayEventRow list \<Rightarrow> string \<Rightarrow> string \<Rightarrow> string \<Rightarrow> string \<Rightarrow> SessionRow \<Rightarrow> store_error option" where
  "admitted_owner events namespace name task uid s =
     (if ss_owner_type s \<noteq> gatewaySessionOwnerType then None
      else if uid = [] then Some ErrValidation
      else case latest_gateway_event
               (filter (\<lambda>v. ge_namespace v = namespace \<and> ge_session_name v = name \<and> ge_task_name v = task) events) of
          None \<Rightarrow> Some ErrValidation
        | Some v \<Rightarrow> first_error
            [fail_if ErrNotReady (ge_state v = ''Dispatching'' \<and> ge_task_uid v = []),
             fail_if ErrValidation (ge_state v \<noteq> ''TaskCreated'' \<or> ge_task_uid v \<noteq> uid)])"

definition lock_acquirable :: "gotime \<Rightarrow> string \<Rightarrow> string \<Rightarrow> SessionRow \<Rightarrow> bool" where
  "lock_acquirable now task uid s \<longleftrightarrow>
     (ss_active_task s = [] \<or> expired now (ss_active_task_expires_at s) \<or>
      ss_active_task s = task \<and> (ss_active_task_uid s = [] \<or> ss_active_task_uid s = uid)) \<and>
     \<not> chat_turn_live now s"

definition take_lock :: "string \<Rightarrow> string \<Rightarrow> gotime option \<Rightarrow> SessionRow \<Rightarrow> SessionRow" where
  "take_lock task uid expiresAt s =
     s\<lparr>ss_active_task := task, ss_active_task_uid := uid, ss_active_task_expires_at := expiresAt,
       ss_chat_turn_id := [], ss_chat_turn_expires_at := None\<rparr>"

definition acquireSessionLock ::
  "gotime \<Rightarrow> GatewayEventRow list \<Rightarrow> string \<Rightarrow> string \<Rightarrow> string \<Rightarrow> string \<Rightarrow> gotime option \<Rightarrow> db \<Rightarrow> (unit, db) tx_result"
  where
  "acquireSessionLock now events namespace name task uid expiresAt d = guards
     [rejectLegacyNativeSession namespace name d]
     (case find_row session_pk (namespace, name) (sessions d) of
        None \<Rightarrow> Abort ErrNotFound
      | Some s \<Rightarrow> guards [admitted_owner events namespace name task uid s]
          (let W = (\<lambda>r. session_pk r = (namespace, name) \<and> lock_acquirable now task uid r \<and>
                 ensureNoSessionCleanupIntentTx namespace name d = None \<and>
                 find_row native_pk (namespace, name) (native_session_snapshots d) = None)
           in if affected W d = 0 then guards
                [rejectLegacyNativeSession namespace name d, ensureNoSessionCleanupIntentTx namespace name d]
                (Abort ErrConflict)
              else Commit () (update_sessions W (take_lock task uid expiresAt) d)))"

definition acquireLock ::
  "session_env \<Rightarrow> GatewayEventRow list \<Rightarrow> string \<Rightarrow> string \<Rightarrow> string \<Rightarrow> string \<Rightarrow> gotime option \<Rightarrow> db \<Rightarrow>
   (store_error + unit) \<times> db" where
  "acquireLock e events namespace name task uid expiresAt =
     with_tx (sx_fault e) (acquireSessionLock (sx_now e) events namespace name task uid expiresAt)"

definition acquireLockWrite ::
  "session_env \<Rightarrow> GatewayEventRow list \<Rightarrow> string \<Rightarrow> string \<Rightarrow> string \<Rightarrow> string \<Rightarrow> db \<Rightarrow> (store_error + unit) \<times> db" where
  "acquireLockWrite e events namespace name task uid = acquireLock e events namespace name task uid None"

definition AcquireLockUntil ::
  "session_env \<Rightarrow> GatewayEventRow list \<Rightarrow> string \<Rightarrow> string \<Rightarrow> string \<Rightarrow> string \<Rightarrow> gotime \<Rightarrow> db \<Rightarrow>
   (store_error + unit) \<times> db" where
  "AcquireLockUntil e events namespace name owner uid expiresAt =
     checked (fail_if ErrValidation (\<not> sx_now e < expiresAt))
       (acquireLock e events namespace name owner uid (Some expiresAt))"

definition chat_session_row :: "gotime \<Rightarrow> SessionRecord \<Rightarrow> SessionRow" where
  "chat_session_row now s =
     (session_row s)\<lparr>ss_active_task := [], ss_active_task_uid := [], ss_message_count := 0, ss_input_tokens := 0,
       ss_output_tokens := 0,
       ss_created_at := (if time_is_zero (sr_created_at s) then now else sr_created_at s), ss_updated_at := now\<rparr>"

definition reserve_turn :: "string \<Rightarrow> gotime \<Rightarrow> gotime \<Rightarrow> SessionRow \<Rightarrow> SessionRow" where
  "reserve_turn turnID expiresAt now s =
     s\<lparr>ss_chat_turn_id := turnID, ss_chat_turn_expires_at := Some expiresAt, ss_updated_at := now,
       ss_active_task := [], ss_active_task_uid := [], ss_active_task_expires_at := None\<rparr>"

definition gateway_session :: "SessionRow \<Rightarrow> bool" where
  "gateway_session s \<longleftrightarrow> ss_session_type s = SessionTypeGateway \<or> ss_owner_type s = gatewaySessionOwnerType"

definition turn_reservable :: "gotime \<Rightarrow> SessionRow \<Rightarrow> bool" where
  "turn_reservable now s \<longleftrightarrow>
     (ss_active_task s = [] \<or> expired now (ss_active_task_expires_at s)) \<and> \<not> gateway_session s \<and>
     \<not> chat_turn_live now s"

text \<open>\<^verbatim>\<open>INSERT ... ON CONFLICT(namespace, name) DO NOTHING\<close>, with the number of rows.\<close>

definition ensure_chat_session :: "gotime \<Rightarrow> SessionRecord \<Rightarrow> db \<Rightarrow> bool \<times> db" where
  "ensure_chat_session now s d =
     (case insert_session (chat_session_row now s) d of None \<Rightarrow> (False, d) | Some d' \<Rightarrow> (True, d'))"

definition chat_turn_body ::
  "gotime \<Rightarrow> SessionRecord \<Rightarrow> string \<Rightarrow> gotime \<Rightarrow> db \<Rightarrow> (bool, db) tx_result" where
  "chat_turn_body now s turnID expiresAt d =
     (let namespace = sr_namespace s; name = sr_name s in guards
      [ensureNativeSessionNameAvailableTx namespace name d,
       fail_if ErrConflict (find_row native_pk (namespace, name) (native_session_snapshots d) \<noteq> None),
       ensureNoSessionCleanupIntentTx namespace name d]
      (let d1 = forget_completion namespace name d in
       if find_row cleanup_completion_pk (namespace, name) (session_cleanup_completions d1) \<noteq> None
       then Abort ErrConflict
       else
         let (created, d2) = ensure_chat_session now s d1
         in case find_row session_pk (namespace, name) (sessions d2) of
              None \<Rightarrow> Abort ErrNotFound
            | Some r \<Rightarrow> guards
                [fail_if ErrGatewayOwnedSession (gateway_session r),
                 fail_if ErrConflict (task_lock_live now r),
                 fail_if ErrConflict (chat_turn_live now r)]
                (let W = (\<lambda>r. session_pk r = (namespace, name) \<and> turn_reservable now r)
                 in if affected W d2 \<noteq> 1 then Abort ErrConflict
                    else Commit created (update_sessions W (reserve_turn turnID expiresAt now) d2))))"

definition acquireChatTurnWrite ::
  "session_env \<Rightarrow> SessionRecord option \<Rightarrow> string \<Rightarrow> gotime \<Rightarrow> db \<Rightarrow> (store_error + bool) \<times> db" where
  "acquireChatTurnWrite e session turnID expiresAt d =
     (case session of
        None \<Rightarrow> (Inl ErrValidation, d)
      | Some s \<Rightarrow>
          checked (first_error
            [fail_if ErrValidation (sr_namespace s = [] \<or> sr_name s = [] \<or> sr_session_type s = [] \<or> turnID = []),
             fail_if ErrValidation (\<not> sx_now e < expiresAt)])
            (with_tx (sx_fault e) (chat_turn_body (sx_now e) s turnID expiresAt)) d)"

definition release_turn :: "SessionRow \<Rightarrow> SessionRow" where
  "release_turn s = s\<lparr>ss_chat_turn_id := [], ss_chat_turn_expires_at := None\<rparr>"

definition untouched_chat :: "string \<Rightarrow> db \<Rightarrow> SessionRow \<Rightarrow> bool" where
  "untouched_chat turnID d s \<longleftrightarrow>
     ss_chat_turn_id s = turnID \<and> ss_session_type s = SessionTypeChat \<and> ss_owner_type s \<noteq> gatewaySessionOwnerType \<and>
     ss_active_task s = [] \<and> ss_control_session_uid s = [] \<and>
     ss_message_count s = 0 \<and> ss_input_tokens s = 0 \<and> ss_output_tokens s = 0 \<and>
     find_row cleanup_intent_pk (session_pk s) (session_cleanup_intents d) = None \<and>
     session_transcript (ss_namespace s) (ss_name s) d = []"

text \<open>
  Two statements: the deletion of an untouched session that this reservation created, and, if it
  deletes nothing, the release.
\<close>

definition releaseChatTurnWrite ::
  "session_env \<Rightarrow> string \<Rightarrow> string \<Rightarrow> string \<Rightarrow> bool \<Rightarrow> db \<Rightarrow> (store_error + unit) \<times> db" where
  "releaseChatTurnWrite e namespace name turnID deleteEmpty d =
     (if turnID = [] then (Inr (), d)
      else with_tx (sx_fault e) (\<lambda>d.
        let release = Commit () (update_sessions
              (\<lambda>s. session_pk s = (namespace, name) \<and> ss_chat_turn_id s = turnID) release_turn d)
        in if deleteEmpty then
             (case delete_session_row namespace name (untouched_chat turnID d) d of
                Inl x \<Rightarrow> Abort x
              | Inr (d', n) \<Rightarrow> if n = 1 then Commit () d' else release)
           else release) d)"

definition releaseLockWrite ::
  "session_env \<Rightarrow> string \<Rightarrow> string \<Rightarrow> string \<Rightarrow> string \<Rightarrow> db \<Rightarrow> (store_error + unit) \<times> db" where
  "releaseLockWrite e namespace name task uid =
     with_tx (sx_fault e) (\<lambda>d. Commit () (update_sessions
       (\<lambda>s. session_pk s = (namespace, name) \<and> ss_active_task s = task \<and> ss_active_task_uid s = uid)
       release_task_lock d))"

text \<open>Each round of \<^verbatim>\<open>IsLocked\<close> reads the row and clears a lock that it found expired.\<close>

fun is_locked_rounds ::
  "nat \<Rightarrow> gotime \<Rightarrow> string \<Rightarrow> string \<Rightarrow> string \<Rightarrow> string \<Rightarrow> db \<Rightarrow> (store_error + bool) \<times> db" where
  "is_locked_rounds 0 now namespace name task uid d = (Inr True, d)"
| "is_locked_rounds (Suc n) now namespace name task uid d =
     (case find_row session_pk (namespace, name) (sessions d) of
        None \<Rightarrow> (Inl ErrNotFound, d)
      | Some s \<Rightarrow>
          if chat_turn_live now s then (Inr True, d)
          else if ss_active_task s = [] then (Inr False, d)
          else if \<not> expired now (ss_active_task_expires_at s)
          then (Inr (ss_active_task s \<noteq> task \<or> ss_active_task_uid s \<noteq> [] \<and> ss_active_task_uid s \<noteq> uid), d)
          else
            let W = (\<lambda>r. session_pk r = (namespace, name) \<and> ss_active_task r = ss_active_task s \<and>
                   ss_active_task_uid r = ss_active_task_uid s \<and>
                   ss_active_task_expires_at r = ss_active_task_expires_at s);
                d' = update_sessions W release_task_lock d
            in if affected W d = 1 then (Inr False, d') else is_locked_rounds n now namespace name task uid d')"

definition isLockedWrite ::
  "session_env \<Rightarrow> string \<Rightarrow> string \<Rightarrow> string \<Rightarrow> string \<Rightarrow> db \<Rightarrow> (store_error + bool) \<times> db" where
  "isLockedWrite e namespace name task uid d =
     (if sx_fault e \<noteq> None then (Inl ErrDriver, d) else is_locked_rounds 3 (sx_now e) namespace name task uid d)"

section \<open>The transcript\<close>

definition nilIfEmpty :: "string \<Rightarrow> string option" where
  "nilIfEmpty s = (if s = [] then None else Some s)"

definition empty_object :: string where
  "empty_object = [CHR 0x7B, CHR 0x7D]"

definition encodeSessionMessagePayload ::
  "SessionMessage \<Rightarrow> store_error + string option \<times> string option \<times> string" where
  "encodeSessionMessagePayload msg =
     checks [fail_if ErrValidation (ms_source_type msg = SessionSoulAnchorSource \<or> ms_id msg = ''orka:soul-context'')]
       (Inr (ms_input msg, ms_tool_calls msg,
             case ms_metadata msg of None \<Rightarrow> empty_object | Some m \<Rightarrow> m))"

definition newSessionMessageID :: "string option \<Rightarrow> string option" where
  "newSessionMessageID random = map_option (\<lambda>h. ''local:'' @ h) random"

definition message_row ::
  "string \<Rightarrow> string \<Rightarrow> string \<Rightarrow> int \<Rightarrow> gotime \<Rightarrow> string option \<Rightarrow> string option \<Rightarrow> string \<Rightarrow> SessionMessage \<Rightarrow>
   SessionMessageRow" where
  "message_row namespace name messageID order ts input toolCalls metadata msg =
     \<lparr>sm_namespace = namespace, sm_session_name = name, sm_message_id = messageID, sm_sort_order = order,
      sm_role = ms_role msg, sm_content = ms_content msg, sm_name = nilIfEmpty (ms_name msg), sm_input = input,
      sm_tool_calls = toolCalls, sm_tool_call_id = nilIfEmpty (ms_tool_call_id msg),
      sm_source_type = ms_source_type msg, sm_source_ref = ms_source_ref msg, sm_metadata_json = metadata,
      sm_created_at = ts\<rparr>"

definition message_key :: "SessionMessageRow \<Rightarrow> string \<times> string \<times> string" where
  "message_key m = (sm_namespace m, sm_session_name m, sm_message_id m)"

definition sessionMessageMatches ::
  "SessionMessageRow \<Rightarrow> bool \<Rightarrow> int \<Rightarrow> SessionMessage \<Rightarrow> string option \<Rightarrow> string option \<Rightarrow> string \<Rightarrow> bool" where
  "sessionMessageMatches stored compareOrder order msg input toolCalls metadata \<longleftrightarrow>
     (\<not> compareOrder \<or> sm_sort_order stored = order) \<and> sm_role stored = ms_role msg \<and>
     sm_content stored = ms_content msg \<and> sm_name stored = nilIfEmpty (ms_name msg) \<and> sm_input stored = input \<and>
     sm_tool_calls stored = toolCalls \<and> sm_tool_call_id stored = nilIfEmpty (ms_tool_call_id msg) \<and>
     sm_source_type stored = ms_source_type msg \<and> sm_source_ref stored = ms_source_ref msg \<and>
     sm_metadata_json stored = metadata \<and>
     (time_is_zero (ms_timestamp msg) \<or> sm_created_at stored = ms_timestamp msg)"

text \<open>
  One message: the insert that does nothing on a repeated message identifier, and the comparison of the
  repetition with what is stored.  The flag says whether a row was inserted.
\<close>

definition insert_message ::
  "session_env \<Rightarrow> string \<Rightarrow> string \<Rightarrow> nat \<Rightarrow> SessionMessage \<Rightarrow> db \<Rightarrow> store_error + bool \<times> db" where
  "insert_message e namespace name i msg d =
     (case encodeSessionMessagePayload msg of
        Inl x \<Rightarrow> Inl x
      | Inr (input, toolCalls, metadata) \<Rightarrow>
          (case (if ms_id msg \<noteq> [] then Some (ms_id msg) else newSessionMessageID (sx_random e i)) of
             None \<Rightarrow> Inl ErrDriver
           | Some messageID \<Rightarrow>
               let ts = (if time_is_zero (ms_timestamp msg) then sx_now e else ms_timestamp msg);
                   order = (if ms_order msg \<le> 0 then nextSessionMessageOrderTx namespace name d else ms_order msg)
               in case find_row message_key (namespace, name, messageID) (session_messages d) of
                    Some stored \<Rightarrow>
                      if sessionMessageMatches stored (ms_order msg > 0) order msg input toolCalls metadata
                      then Inr (False, d) else Inl ErrDuplicateMismatch
                  | None \<Rightarrow>
                      (case sql_insert (\<lambda>_. True) message_clash
                              (message_row namespace name messageID order ts input toolCalls metadata msg)
                              (session_messages d) of
                         None \<Rightarrow> Inl ErrDriver
                       | Some t \<Rightarrow> Inr (True, d\<lparr>session_messages := t\<rparr>))))"

fun insert_messages ::
  "session_env \<Rightarrow> string \<Rightarrow> string \<Rightarrow> nat \<Rightarrow> SessionMessage list \<Rightarrow> db \<Rightarrow> store_error + nat \<times> db" where
  "insert_messages e namespace name i [] d = Inr (0, d)"
| "insert_messages e namespace name i (msg # msgs) d =
     (case insert_message e namespace name i msg d of
        Inl x \<Rightarrow> Inl x
      | Inr (inserted, d1) \<Rightarrow>
          (case insert_messages e namespace name (Suc i) msgs d1 of
             Inl x \<Rightarrow> Inl x
           | Inr (n, d2) \<Rightarrow> Inr ((if inserted then Suc n else n), d2)))"

definition insertSessionMessagesTx ::
  "session_env \<Rightarrow> string \<Rightarrow> string \<Rightarrow> SessionMessage list \<Rightarrow> db \<Rightarrow> store_error + nat \<times> db" where
  "insertSessionMessagesTx e namespace name messages d = insert_messages e namespace name 0 messages d"

definition owner_current ::
  "gotime \<Rightarrow> string \<Rightarrow> string \<Rightarrow> string \<Rightarrow> string \<Rightarrow> db \<Rightarrow> SessionRow \<Rightarrow> bool" where
  "owner_current now namespace name owner uid d s \<longleftrightarrow>
     session_pk s = (namespace, name) \<and> ss_active_task s = owner \<and> ss_active_task_uid s = uid \<and>
     \<not> expired now (ss_active_task_expires_at s) \<and> ensureNoSessionCleanupIntentTx namespace name d = None"

definition verifySessionWriteLockTx ::
  "gotime \<Rightarrow> string \<Rightarrow> string \<Rightarrow> string \<Rightarrow> string \<Rightarrow> db \<Rightarrow> store_error option" where
  "verifySessionWriteLockTx now namespace name owner uid d =
     fail_if ErrFenced (affected (owner_current now namespace name owner uid d) d \<noteq> 1)"

definition count_messages :: "nat \<Rightarrow> gotime \<Rightarrow> SessionRow \<Rightarrow> SessionRow" where
  "count_messages n now s = s\<lparr>ss_message_count := ss_message_count s + int n, ss_updated_at := now\<rparr>"

definition append_messages_body ::
  "session_env \<Rightarrow> string \<Rightarrow> string \<Rightarrow> string \<Rightarrow> string \<Rightarrow> SessionMessage list \<Rightarrow> db \<Rightarrow> (unit, db) tx_result" where
  "append_messages_body e namespace name owner uid messages d = guards
     [rejectLegacyNativeSession namespace name d]
     (case find_row session_pk (namespace, name) (sessions d) of
        None \<Rightarrow> Abort ErrNotFound
      | Some s \<Rightarrow> guards
          [fail_if ErrConflict (ss_owner_type s = gatewaySessionOwnerType),
           (if owner \<noteq> [] \<or> uid \<noteq> [] then verifySessionWriteLockTx (sx_now e) namespace name owner uid d else None),
           ensureNoSessionCleanupIntentTx namespace name d]
          (case insertSessionMessagesTx e namespace name messages d of
             Inl x \<Rightarrow> Abort x
           | Inr (inserted, d1) \<Rightarrow>
               Commit () (if inserted > 0
                 then update_sessions (\<lambda>r. session_pk r = (namespace, name)) (count_messages inserted (sx_now e)) d1
                 else d1)))"

definition appendMessages ::
  "session_env \<Rightarrow> string \<Rightarrow> string \<Rightarrow> string \<Rightarrow> string \<Rightarrow> SessionMessage list \<Rightarrow> db \<Rightarrow> (store_error + unit) \<times> db" where
  "appendMessages e namespace name owner uid messages =
     with_tx (sx_fault e) (append_messages_body e namespace name owner uid messages)"

definition appendMessagesWrite ::
  "session_env \<Rightarrow> string \<Rightarrow> string \<Rightarrow> SessionMessage list \<Rightarrow> db \<Rightarrow> (store_error + unit) \<times> db" where
  "appendMessagesWrite e namespace name messages = appendMessages e namespace name [] [] messages"

definition appendMessagesWithLockWrite ::
  "session_env \<Rightarrow> string \<Rightarrow> string \<Rightarrow> string \<Rightarrow> string \<Rightarrow> SessionMessage list \<Rightarrow> db \<Rightarrow> (store_error + unit) \<times> db" where
  "appendMessagesWithLockWrite e namespace name owner uid messages =
     appendMessages e namespace name owner uid messages"

definition count_chat_turn :: "nat \<Rightarrow> int \<Rightarrow> int \<Rightarrow> gotime \<Rightarrow> SessionRow \<Rightarrow> SessionRow" where
  "count_chat_turn n inputTokens outputTokens now s =
     s\<lparr>ss_message_count := ss_message_count s + int n, ss_input_tokens := ss_input_tokens s + inputTokens,
       ss_output_tokens := ss_output_tokens s + outputTokens, ss_updated_at := now\<rparr>"

definition turn_owned :: "gotime \<Rightarrow> string \<Rightarrow> int \<Rightarrow> SessionRow \<Rightarrow> bool" where
  "turn_owned now turnID expected s \<longleftrightarrow>
     ss_active_task s = [] \<and> ss_message_count s = expected \<and> ss_chat_turn_id s = turnID \<and>
     (case ss_chat_turn_expires_at s of None \<Rightarrow> False | Some t \<Rightarrow> now < t)"

definition commit_turn_body ::
  "session_env \<Rightarrow> SessionRecord \<Rightarrow> string \<Rightarrow> int \<Rightarrow> SessionMessage list \<Rightarrow> int \<Rightarrow> int \<Rightarrow> db \<Rightarrow> (unit, db) tx_result" where
  "commit_turn_body e session turnID expected messages inputTokens outputTokens d =
     (let namespace = sr_namespace session; name = sr_name session; now = sx_now e in guards
      [ensureNoSessionCleanupIntentTx namespace name d]
      (case find_row session_pk (namespace, name) (sessions d) of
         None \<Rightarrow> Abort ErrNotFound
       | Some s \<Rightarrow> guards
           [fail_if ErrGatewayOwnedSession (gateway_session s),
            fail_if ErrConflict (ss_active_task s \<noteq> []),
            fail_if ErrConflict (ss_chat_turn_id s \<noteq> turnID),
            fail_if ErrConflict (\<not> (case ss_chat_turn_expires_at s of None \<Rightarrow> False | Some t \<Rightarrow> now < t)),
            fail_if ErrConflict (ss_message_count s \<noteq> expected)]
           (case insertSessionMessagesTx e namespace name messages d of
              Inl x \<Rightarrow> Abort x
            | Inr (inserted, d1) \<Rightarrow>
                if inserted \<noteq> length messages then Abort ErrConflict
                else
                  let W = (\<lambda>r. session_pk r = (namespace, name) \<and> turn_owned now turnID expected r)
                  in if affected W d1 \<noteq> 1 then Abort ErrConflict
                     else Commit () (update_sessions W (count_chat_turn inserted inputTokens outputTokens now) d1))))"

definition commitSessionTurnWrite ::
  "session_env \<Rightarrow> SessionRecord option \<Rightarrow> string \<Rightarrow> int \<Rightarrow> SessionMessage list \<Rightarrow> int \<Rightarrow> int \<Rightarrow> db \<Rightarrow>
   (store_error + unit) \<times> db" where
  "commitSessionTurnWrite e session turnID expected messages inputTokens outputTokens d =
     (case session of
        None \<Rightarrow> (Inl ErrValidation, d)
      | Some s \<Rightarrow>
          checked (first_error
            [fail_if ErrValidation (sr_namespace s = [] \<or> sr_name s = [] \<or> turnID = []),
             fail_if ErrValidation (expected < 0),
             fail_if ErrValidation (inputTokens < 0 \<or> outputTokens < 0),
             fail_if ErrValidation (messages = [] \<and> (inputTokens \<noteq> 0 \<or> outputTokens \<noteq> 0))])
            (with_tx (sx_fault e) (commit_turn_body e s turnID expected messages inputTokens outputTokens)) d)"

section \<open>Token counters\<close>

definition count_tokens :: "int \<Rightarrow> int \<Rightarrow> gotime \<Rightarrow> SessionRow \<Rightarrow> SessionRow" where
  "count_tokens inputTokens outputTokens now s =
     s\<lparr>ss_input_tokens := ss_input_tokens s + inputTokens, ss_output_tokens := ss_output_tokens s + outputTokens,
       ss_updated_at := now\<rparr>"

definition updateTokenCountsWrite ::
  "session_env \<Rightarrow> string \<Rightarrow> string \<Rightarrow> int \<Rightarrow> int \<Rightarrow> db \<Rightarrow> (store_error + unit) \<times> db" where
  "updateTokenCountsWrite e namespace name inputTokens outputTokens =
     with_tx (sx_fault e) (\<lambda>d. Commit () (update_sessions (\<lambda>s. session_pk s = (namespace, name))
       (count_tokens inputTokens outputTokens (sx_now e)) d))"

definition updateTokenCountsWithLockWrite ::
  "session_env \<Rightarrow> string \<Rightarrow> string \<Rightarrow> string \<Rightarrow> string \<Rightarrow> int \<Rightarrow> int \<Rightarrow> db \<Rightarrow> (store_error + unit) \<times> db" where
  "updateTokenCountsWithLockWrite e namespace name owner uid inputTokens outputTokens =
     with_tx (sx_fault e) (\<lambda>d.
       let W = owner_current (sx_now e) namespace name owner uid d
       in if affected W d \<noteq> 1 then Abort ErrFenced
          else Commit () (update_sessions W (count_tokens inputTokens outputTokens (sx_now e)) d))"

definition releaseLockWithTokenUsageWrite ::
  "session_env \<Rightarrow> string \<Rightarrow> string \<Rightarrow> string \<Rightarrow> string \<Rightarrow> int \<Rightarrow> int \<Rightarrow> db \<Rightarrow> (store_error + unit) \<times> db" where
  "releaseLockWithTokenUsageWrite e namespace name owner uid inputTokens outputTokens =
     with_tx (sx_fault e) (\<lambda>d.
       let counted = (\<lambda>s. \<not> expired (sx_now e) (ss_active_task_expires_at s) \<and>
             ensureNoSessionCleanupIntentTx namespace name d = None)
       in Commit () (update_sessions
            (\<lambda>s. session_pk s = (namespace, name) \<and> ss_active_task s = owner \<and> ss_active_task_uid s = uid)
            (\<lambda>s. release_task_lock (count_tokens (if counted s then inputTokens else 0)
                   (if counted s then outputTokens else 0) (sx_now e) s)) d))"

section \<open>Reads\<close>

definition scanSessionMessage :: "SessionMessageRow \<Rightarrow> SessionMessage" where
  "scanSessionMessage m =
     (let text = (\<lambda>x. case x of None \<Rightarrow> [] | Some t \<Rightarrow> t); json = (\<lambda>x. if x = Some [] then None else x)
      in \<lparr>ms_id = sm_message_id m, ms_order = sm_sort_order m, ms_role = sm_role m, ms_content = sm_content m,
          ms_name = text (sm_name m), ms_input = json (sm_input m), ms_tool_calls = json (sm_tool_calls m),
          ms_tool_call_id = text (sm_tool_call_id m), ms_source_type = sm_source_type m,
          ms_source_ref = sm_source_ref m,
          ms_metadata = (if sm_metadata_json m \<in> {[], empty_object} then None else Some (sm_metadata_json m)),
          ms_timestamp = sm_created_at m\<rparr>)"

definition loadTranscriptFrom :: "db \<Rightarrow> string \<Rightarrow> string \<Rightarrow> int \<Rightarrow> int \<Rightarrow> SessionMessage list" where
  "loadTranscriptFrom d namespace name throughOrder maxMessages =
     (let rows = sort_key sm_sort_order (filter (\<lambda>m. sm_source_type m \<noteq> SessionSoulAnchorSource \<and>
            (throughOrder > 0 \<longrightarrow> sm_sort_order m \<le> throughOrder)) (session_transcript namespace name d))
      in map scanSessionMessage
           (if maxMessages > 0 then rev (take (nat maxMessages) (rev rows)) else rows))"

definition loadTranscriptThrough ::
  "db \<Rightarrow> string \<Rightarrow> string \<Rightarrow> string \<Rightarrow> int \<Rightarrow> store_error + SessionMessage list" where
  "loadTranscriptThrough d namespace name throughMessageID maxMessages =
     (case find_row message_key (namespace, name, throughMessageID) (session_messages d) of
        None \<Rightarrow> Inl ErrNotFound
      | Some m \<Rightarrow> Inr (loadTranscriptFrom d namespace name (sm_sort_order m) maxMessages))"

definition getSession :: "db \<Rightarrow> string \<Rightarrow> string \<Rightarrow> store_error + SessionRecord" where
  "getSession d namespace name =
     (case find_row session_pk (namespace, name) (sessions d) of
        None \<Rightarrow> Inl ErrNotFound
      | Some s \<Rightarrow> Inr
          \<lparr>sr_namespace = ss_namespace s, sr_name = ss_name s, sr_session_type = ss_session_type s,
           sr_active_task = ss_active_task s, sr_active_task_uid = ss_active_task_uid s,
           sr_message_count = ss_message_count s, sr_input_tokens = ss_input_tokens s,
           sr_output_tokens = ss_output_tokens s, sr_cancelled = ss_cancelled s, sr_created_at = ss_created_at s,
           sr_updated_at = ss_updated_at s, sr_messages = loadTranscriptFrom d namespace name 0 0\<rparr>)"

text \<open>A read under the task-data fence of its context.\<close>

definition fenced_read ::
  "fault option \<Rightarrow> TaskDataFence option \<Rightarrow> (db \<Rightarrow> store_error + 'a) \<Rightarrow> store_db \<Rightarrow> (store_error + 'a) \<times> store_db" where
  "fenced_read flt fence read =
     withTaskDataFence flt fence
       (with_tx flt (\<lambda>d. case read (control d) of Inl x \<Rightarrow> Abort x | Inr a \<Rightarrow> ReturnTx a))
       (\<lambda>d. case read (control d) of Inl x \<Rightarrow> Abort x | Inr a \<Rightarrow> Commit a d)"

definition GetSession ::
  "fault option \<Rightarrow> TaskDataFence option \<Rightarrow> string \<Rightarrow> string \<Rightarrow> store_db \<Rightarrow> (store_error + SessionRecord) \<times> store_db" where
  "GetSession flt fence namespace name = fenced_read flt fence (\<lambda>d. getSession d namespace name)"

definition GetSessionType ::
  "fault option \<Rightarrow> TaskDataFence option \<Rightarrow> string \<Rightarrow> string \<Rightarrow> store_db \<Rightarrow> (store_error + string) \<times> store_db" where
  "GetSessionType flt fence namespace name =
     fenced_read flt fence (\<lambda>d. case find_row session_pk (namespace, name) (sessions d) of
       None \<Rightarrow> Inl ErrNotFound | Some s \<Rightarrow> Inr (ss_session_type s))"

definition LoadTranscript ::
  "fault option \<Rightarrow> TaskDataFence option \<Rightarrow> string \<Rightarrow> string \<Rightarrow> int \<Rightarrow> store_db \<Rightarrow>
   (store_error + SessionMessage list) \<times> store_db" where
  "LoadTranscript flt fence namespace name maxMessages =
     fenced_read flt fence (\<lambda>d. Inr (loadTranscriptFrom d namespace name 0 maxMessages))"

definition LoadTranscriptThrough ::
  "fault option \<Rightarrow> TaskDataFence option \<Rightarrow> string \<Rightarrow> string \<Rightarrow> string \<Rightarrow> int \<Rightarrow> store_db \<Rightarrow>
   (store_error + SessionMessage list) \<times> store_db" where
  "LoadTranscriptThrough flt fence namespace name throughMessageID maxMessages =
     fenced_read flt fence (\<lambda>d. loadTranscriptThrough d namespace name throughMessageID maxMessages)"

definition session_metadata :: "SessionRow \<Rightarrow> SessionMetadata" where
  "session_metadata s =
     \<lparr>sd_name = ss_name s, sd_session_type = ss_session_type s, sd_message_count = ss_message_count s,
      sd_input_tokens = ss_input_tokens s, sd_output_tokens = ss_output_tokens s, sd_created_at = ss_created_at s,
      sd_updated_at = ss_updated_at s, sd_active_task = ss_active_task s, sd_active_task_uid = ss_active_task_uid s\<rparr>"

definition ListSessions :: "db \<Rightarrow> string \<Rightarrow> SessionMetadata list" where
  "ListSessions d namespace = map session_metadata (filter (\<lambda>s. ss_namespace s = namespace) (sessions d))"

text \<open>\<^verbatim>\<open>ORDER BY created_at DESC, name ASC\<close>.\<close>

definition page_order :: "SessionRow \<Rightarrow> int \<times> string" where
  "page_order s = (- ss_created_at s, ss_name s)"

definition page_row :: "string \<Rightarrow> SessionPageCursor option \<Rightarrow> string \<Rightarrow> SessionRow \<Rightarrow> bool" where
  "page_row namespace after excludeType s \<longleftrightarrow>
     ss_namespace s = namespace \<and> (excludeType = [] \<or> ss_session_type s \<noteq> excludeType) \<and>
     (case after of
        None \<Rightarrow> True
      | Some c \<Rightarrow> ss_created_at s < pc_created_at c \<or> ss_created_at s = pc_created_at c \<and> pc_name c < ss_name s)"

definition ListSessionsPage ::
  "db \<Rightarrow> string \<Rightarrow> SessionPageCursor option \<Rightarrow> int \<Rightarrow> string \<Rightarrow> SessionMetadata list \<times> bool" where
  "ListSessionsPage d namespace after limit excludeType =
     (if limit \<le> 0 then ([], False)
      else
        let page = map session_metadata (take (nat (limit + 1))
              (sort_key page_order (filter (page_row namespace after excludeType) (sessions d))))
        in if length page > nat limit then (take (nat limit) page, True) else (page, False))"

section \<open>Deletion\<close>

definition ensureSessionLockQuiescentTx :: "gotime \<Rightarrow> string \<Rightarrow> string \<Rightarrow> db \<Rightarrow> store_error + db" where
  "ensureSessionLockQuiescentTx now namespace name d =
     (case find_row session_pk (namespace, name) (sessions d) of
        None \<Rightarrow> Inr d
      | Some s \<Rightarrow>
          if chat_turn_live now s then Inl ErrConflict
          else if ss_active_task s = [] then Inr d
          else if \<not> expired now (ss_active_task_expires_at s) then Inl ErrConflict
          else
            let W = (\<lambda>r. session_pk r = (namespace, name) \<and> ss_active_task r = ss_active_task s \<and>
                   ss_active_task_uid r = ss_active_task_uid s \<and>
                   ss_active_task_expires_at r = ss_active_task_expires_at s)
            in if affected W d \<noteq> 1 then Inl ErrConflict else Inr (update_sessions W release_task_lock d))"

definition pending_gateway_event :: "string \<Rightarrow> string \<Rightarrow> GatewayEventRow \<Rightarrow> bool" where
  "pending_gateway_event namespace name v \<longleftrightarrow>
     ge_namespace v = namespace \<and> ge_session_name v = name \<and>
     ge_state v \<in> {''Accepted'', ''Queued'', ''Dispatching'', ''TaskCreated''}"

definition session_turn_of :: "string \<Rightarrow> string \<Rightarrow> SessionTurnRow \<Rightarrow> bool" where
  "session_turn_of namespace name t \<longleftrightarrow> str_namespace t = namespace \<and> str_session_name t = name"

definition turn_projection :: "string \<Rightarrow> string \<Rightarrow> db \<Rightarrow> OutboxProjection \<Rightarrow> bool" where
  "turn_projection namespace name d p \<longleftrightarrow>
     ob_aggregate_kind p = sessionTurnAggregateKind \<and>
     list_ex (\<lambda>t. session_turn_of namespace name t \<and> st_id t = ob_aggregate_id p) (session_turns d)"

definition control_busy :: "string \<Rightarrow> string \<Rightarrow> db \<Rightarrow> bool" where
  "control_busy namespace name d \<longleftrightarrow>
     (case find_row session_control_pk (namespace, name) (session_controls d) of
        None \<Rightarrow> False
      | Some c \<Rightarrow> scr_lease_task_uid c \<noteq> [] \<or> scr_availability c \<noteq> SessionAvailable)"

definition unsettled_projection :: "string \<Rightarrow> string \<Rightarrow> db \<Rightarrow> bool" where
  "unsettled_projection namespace name d \<longleftrightarrow>
     list_ex (\<lambda>p. turn_projection namespace name d p \<and>
       ob_state p \<notin> {OutboxProjectionDelivered, OutboxProjectionDeadLetter}) (outbox_projections d)"

text \<open>The deletions of projections, turns and controls, in this order.\<close>

definition delete_turn_records :: "string \<Rightarrow> string \<Rightarrow> db \<Rightarrow> db" where
  "delete_turn_records namespace name d =
     d\<lparr>outbox_projections := filter (\<lambda>p. \<not> turn_projection namespace name d p) (outbox_projections d),
       session_turns := filter (\<lambda>t. \<not> session_turn_of namespace name t) (session_turns d),
       session_controls := filter (\<lambda>c. session_control_pk c \<noteq> (namespace, name)) (session_controls d)\<rparr>"

definition session_type_of :: "string \<Rightarrow> string \<Rightarrow> db \<Rightarrow> string" where
  "session_type_of namespace name d =
     (case find_row session_pk (namespace, name) (sessions d) of None \<Rightarrow> [] | Some s \<Rightarrow> ss_session_type s)"

definition delete_session_body :: "gotime \<Rightarrow> string \<Rightarrow> string \<Rightarrow> store_db \<Rightarrow> (unit, store_db) tx_result" where
  "delete_session_body now namespace name d =
     (let sessionType = session_type_of namespace name (control d) in
      case ensureSessionLockQuiescentTx now namespace name (control d) of
        Inl x \<Rightarrow> Abort x
      | Inr c \<Rightarrow> guards
          [ensureNoSessionCleanupIntentTx namespace name c,
           fail_if (if sessionType = SessionTypeGateway then ErrGatewayOwnedSession else ErrConflict)
             (list_ex (pending_gateway_event namespace name) (gateway_events d)),
           fail_if ErrGatewayOwnedSession (sessionType = SessionTypeGateway),
           fail_if ErrConflict (control_busy namespace name c),
           fail_if ErrConflict (list_ex (\<lambda>t. session_turn_of namespace name t \<and> st_state t \<noteq> SessionTurnFinalized)
             (session_turns c)),
           fail_if ErrConflict (list_ex (\<lambda>t. session_turn_of namespace name t \<and> st_publication_id t \<noteq> [])
             (session_turns c)),
           fail_if ErrConflict (unsettled_projection namespace name c)]
          (let c1 = deleteNativeSessionTx namespace name (delete_turn_records namespace name c) in
           case delete_session_row namespace name (\<lambda>s. ss_session_type s \<noteq> SessionTypeGateway) c1 of
             Inl x \<Rightarrow> Abort x
           | Inr (c2, deleted) \<Rightarrow>
               if sessionType \<noteq> [] \<and> deleted = 0 then Abort ErrConflict
               else Commit () (detach_session_events namespace name
                 ((advanceTaskDataCleanupGeneration namespace [] d)\<lparr>control := c2\<rparr>))))"

definition deleteSessionWrite ::
  "session_env \<Rightarrow> string \<Rightarrow> string \<Rightarrow> store_db \<Rightarrow> (store_error + unit) \<times> store_db" where
  "deleteSessionWrite e namespace name =
     with_tx (sx_fault e) (delete_session_body (sx_now e) namespace name)"

end
