(* ===== verification/Session_Cleanup.thy ===== *)
theory Session_Cleanup
  imports Session_Store Branch_Claim
begin

text \<open>
  The cleanup of a session across stores (\<^verbatim>\<open>src/internal/store/sqlite/session_cleanup.go\<close>,
  \<^verbatim>\<open>session_turn_cleanup.go\<close>, \<^verbatim>\<open>gateway_session_cleanup.go\<close>).  A durable intent freezes the plan before Kubernetes
  objects are deleted; completion archives the evidence of every turn, deletes what the database
  holds of the session and leaves a completion that reserves its identity.

  The environment of a call has that of the control store, and three functions that the code gets from
  \<^verbatim>\<open>encoding/json\<close>: the encodings of a list of strings and of a receipt, and whether the content of an
  outcome marker decodes.
\<close>

record cleanup_env =
  cl_env :: env
  cl_marshal_strings :: "string list \<Rightarrow> string"
  cl_marshal_receipt :: "SessionTurnCleanupReceipt \<Rightarrow> string"
  cl_marker_decodes :: "string \<Rightarrow> bool"

record CompleteSessionCleanupRequest =
  cs_namespace :: string
  cs_session_name :: string
  cs_operation_id :: string
  cs_operation_digest :: string

record GatewaySessionCleanupCandidate =
  gc_namespace :: string
  gc_session_name :: string
  gc_session_uid :: string
  gc_proof :: GatewaySessionCleanupProof

record GatewaySessionCleanupFilter =
  gf_namespace :: string
  gf_terminal_cutoff :: gotime
  gf_after_namespace :: string
  gf_after_session_name :: string
  gf_limit :: int

record GatewaySessionCleanupPage =
  gg_candidates :: "GatewaySessionCleanupCandidate list"
  gg_next_namespace :: string
  gg_next_session_name :: string
  gg_complete :: bool

section \<open>Plans\<close>

definition GatewaySessionCleanupOperation ::
  "cleanup_env \<Rightarrow> string \<Rightarrow> string \<Rightarrow> string \<Rightarrow> string \<Rightarrow> string \<Rightarrow> string \<times> string" where
  "GatewaySessionCleanupOperation e namespace sessionName sessionUID gatewayUID bindingUID =
     (let encoded = cl_marshal_strings e
            [''orka.gateway.session-retention.v1'', namespace, sessionName, sessionUID, gatewayUID, bindingUID];
          digest = CanonicalBytesDigest (cl_env e) encoded
      in (GatewaySessionCleanupOperationPrefix @ trim_prefix digest ''sha256:'', digest))"

definition validateGatewayCleanupProof :: "cleanup_env \<Rightarrow> SessionCleanupIntent \<Rightarrow> store_error option" where
  "validateGatewayCleanupProof e intent =
     (case ci_gateway intent of
        None \<Rightarrow> fail_if ErrValidation (has_prefix (ci_operation_id intent) GatewaySessionCleanupOperationPrefix)
      | Some proof \<Rightarrow> first_error
          [ValidateControlIdentifier (gp_gateway_uid proof), fail_if ErrValidation (contains (gp_gateway_uid proof) ''/''),
           ValidateControlIdentifier (gp_binding_uid proof), fail_if ErrValidation (contains (gp_binding_uid proof) ''/''),
           fail_if ErrValidation (time_is_zero (gp_created_at proof) \<or> time_is_zero (gp_terminal_cutoff proof) \<or>
             \<not> gp_created_at proof < gp_terminal_cutoff proof \<or> ci_prepared_at intent < gp_terminal_cutoff proof),
           fail_if ErrConflict ((ci_operation_id intent, ci_operation_digest intent) \<noteq>
             GatewaySessionCleanupOperation e (ci_namespace intent) (ci_session_name intent) (ci_session_uid intent)
               (gp_gateway_uid proof) (gp_binding_uid proof))])"

definition normalized_cleanup_claim :: "SessionCleanupBranchClaim \<Rightarrow> SessionCleanupBranchClaim" where
  "normalized_cleanup_claim c =
     c\<lparr>cb_id := TrimSpace (cb_id c), cb_expected_repository_id := TrimSpace (cb_expected_repository_id c),
       cb_expected_ref := TrimSpace (cb_expected_ref c), cb_expected_owner_uid := TrimSpace (cb_expected_owner_uid c),
       cb_expected_request_digest := TrimSpace (cb_expected_request_digest c),
       cb_expected_blocked_reason := TrimSpace (cb_expected_blocked_reason c),
       cb_expected_publication_id := TrimSpace (cb_expected_publication_id c)\<rparr>"

definition cleanup_claim_error :: "string \<Rightarrow> SessionCleanupBranchClaim \<Rightarrow> store_error option" where
  "cleanup_claim_error sessionUID c = first_error
     [fail_if ErrValidation (cb_expected_owner_uid c \<noteq> sessionUID),
      (if cb_expected_availability c = BranchClaimAvailable
       then fail_if ErrValidation (cb_expected_blocked_reason c \<noteq> [] \<or> cb_expected_publication_id c \<noteq> [])
       else Some ErrValidation),
      fail_if ErrValidation (cb_expected_version c < 1 \<or> cb_expected_generation c < 1),
      ValidateControlIdentifier (cb_id c), ValidateControlIdentifier (cb_expected_repository_id c),
      ValidateFullBranchRef (cb_expected_ref c), ValidateRemoteRefState (cb_expected_last_verified c),
      ValidateCanonicalDigest (cb_expected_request_digest c)]"

definition trimmed_intent :: "SessionCleanupIntent \<Rightarrow> SessionCleanupIntent" where
  "trimmed_intent i =
     i\<lparr>ci_session_uid := TrimSpace (ci_session_uid i), ci_control_object_uid := TrimSpace (ci_control_object_uid i),
       ci_control_request_digest := TrimSpace (ci_control_request_digest i), ci_lease_name := TrimSpace (ci_lease_name i),
       ci_lease_object_uid := TrimSpace (ci_lease_object_uid i), ci_operation_id := TrimSpace (ci_operation_id i),
       ci_operation_digest := TrimSpace (ci_operation_digest i)\<rparr>"

text \<open>The fences of the plan on the control record and its Lease.\<close>

definition cleanup_fence_error :: "SessionCleanupIntent \<Rightarrow> store_error option" where
  "cleanup_fence_error i = first_error
     [ValidateControlIdentifier (ci_session_uid i),
      (if ci_control_request_digest i = [] then
         fail_if ErrValidation (ci_control_object_uid i \<noteq> [] \<or> ci_expected_control_version i \<noteq> 0 \<or>
           ci_expected_control_last_operation_id i \<noteq> [] \<or> ci_expected_control_last_digest i \<noteq> [] \<or>
           ci_expected_verified_baseline i \<noteq> None)
       else first_error [ValidateCanonicalDigest (ci_control_request_digest i),
         fail_if ErrValidation (ci_expected_control_version i < 1)]),
      (if ci_lease_name i = [] then
         fail_if ErrValidation (ci_lease_object_uid i \<noteq> [] \<or> ci_expected_lease_generation i \<noteq> 0)
       else first_error [fail_if ErrValidation (ci_expected_lease_generation i < 0),
         ValidateControlIdentifier (ci_lease_name i)])]"

definition normalizeSessionCleanupIntent ::
  "cleanup_env \<Rightarrow> SessionCleanupIntent \<Rightarrow> store_error + SessionCleanupIntent" where
  "normalizeSessionCleanupIntent e intent =
     checks [fail_if ErrValidation (ci_namespace intent \<noteq> TrimSpace (ci_namespace intent)),
             fail_if ErrValidation (ci_session_name intent \<noteq> TrimSpace (ci_session_name intent))]
     (let i = trimmed_intent intent in
      checks [ValidateControlIdentifier (ci_namespace i), ValidateControlIdentifier (ci_session_name i),
              ValidateControlIdentifier (ci_operation_id i), ValidateCanonicalDigest (ci_operation_digest i),
              fail_if ErrValidation (time_is_zero (ci_prepared_at i)), validateGatewayCleanupProof e i]
      (if ci_session_uid i = [] then
         checks [fail_if ErrValidation (ci_control_object_uid i \<noteq> [] \<or> ci_control_request_digest i \<noteq> [] \<or>
           ci_expected_control_version i \<noteq> 0 \<or> ci_expected_lease_generation i \<noteq> 0 \<or> ci_lease_name i \<noteq> [] \<or>
           ci_lease_object_uid i \<noteq> [] \<or> ci_branch_claims i \<noteq> [] \<or> ci_expected_verified_baseline i \<noteq> None)]
         (Inr i)
       else
         let claims = map normalized_cleanup_claim (ci_branch_claims i) in
         checks (cleanup_fence_error i # map (cleanup_claim_error (ci_session_uid i)) claims)
           (Inr (i\<lparr>ci_branch_claims := claims\<rparr>))))"

section \<open>Eligibility\<close>

definition kept_history :: "string \<Rightarrow> string \<Rightarrow> db \<Rightarrow> bool" where
  "kept_history namespace name d \<longleftrightarrow>
     list_ex (\<lambda>m. sm_source_type m \<noteq> ''soul-context'') (session_transcript namespace name d)"

definition event_of_session :: "string \<Rightarrow> string \<Rightarrow> GatewayEventRow \<Rightarrow> bool" where
  "event_of_session namespace name v \<longleftrightarrow> ge_namespace v = namespace \<and> ge_session_name v = name"

definition retained_turn :: "string \<Rightarrow> string \<Rightarrow> gotime \<Rightarrow> SessionTurnRow \<Rightarrow> bool" where
  "retained_turn namespace name cutoff t \<longleftrightarrow>
     session_turn_of namespace name t \<and>
     (st_state t \<noteq> SessionTurnFinalized \<or>
      (case st_finalized_at t of None \<Rightarrow> True | Some x \<Rightarrow> cutoff \<le> x) \<or> cutoff \<le> st_updated_at t)"

definition validateGatewayCleanupEligibilityTx ::
  "SessionCleanupIntent \<Rightarrow> SessionRow \<Rightarrow> store_db \<Rightarrow> store_error option" where
  "validateGatewayCleanupEligibilityTx intent s d =
     (case ci_gateway intent of
        None \<Rightarrow> Some ErrGatewayOwnedSession
      | Some proof \<Rightarrow>
          (let namespace = ci_namespace intent; name = ci_session_name intent in first_error
           [fail_if ErrConflict (ss_owner_type s \<noteq> gatewaySessionOwnerType \<or>
              ss_owner_ref s \<noteq> gp_gateway_uid proof @ ''/'' @ gp_binding_uid proof \<or>
              ss_created_at s \<noteq> gp_created_at proof \<or> \<not> ss_updated_at s < gp_terminal_cutoff proof \<or>
              ss_active_task s \<noteq> [] \<or> ss_active_task_uid s \<noteq> [] \<or> ss_chat_turn_id s \<noteq> []),
            fail_if ErrConflict (kept_history namespace name (control d) \<or>
              list_ex (event_of_session namespace name) (gateway_events d) \<or>
              List.member (gateway_deliveries d) (namespace, name) \<or>
              list_ex (retained_turn namespace name (gp_terminal_cutoff proof)) (session_turns (control d)))]))"

text \<open>The identity of the row against that of the plan, and whether turns must prove it.\<close>

definition cleanup_identity_error :: "SessionCleanupIntent \<Rightarrow> SessionRow \<Rightarrow> store_error option" where
  "cleanup_identity_error intent s =
     fail_if ErrConflict
       (if ci_session_uid intent \<noteq> []
        then ss_control_session_uid s \<noteq> [] \<and> ss_control_session_uid s \<noteq> ci_session_uid intent
        else ss_control_session_uid s \<noteq> [])"

definition unproven_turn :: "cleanup_env \<Rightarrow> SessionCleanupIntent \<Rightarrow> SessionTurnRow \<Rightarrow> bool" where
  "unproven_turn e intent t \<longleftrightarrow>
     ci_session_uid intent = [] \<or> tk_session_uid (st_key t) \<noteq> ci_session_uid intent \<or> st_state t \<noteq> SessionTurnFinalized \<or>
     st_terminal_kind t = SessionTurnOutcomeMarker \<and> \<not> cl_marker_decodes e (st_terminal_content t)"

definition validateSessionCleanupEligibilityTx ::
  "cleanup_env \<Rightarrow> SessionCleanupIntent \<Rightarrow> store_db \<Rightarrow> store_error + db" where
  "validateSessionCleanupEligibilityTx e intent d =
     (let namespace = ci_namespace intent; name = ci_session_name intent in
      case find_row session_pk (namespace, name) (sessions (control d)) of
        None \<Rightarrow> if ci_session_uid intent \<noteq> [] \<and> ci_gateway intent = None then Inr (control d) else Inl ErrNotFound
      | Some s \<Rightarrow>
          checks [cleanup_identity_error intent s,
            (if ss_session_type s = SessionTypeGateway then validateGatewayCleanupEligibilityTx intent s d
             else fail_if ErrConflict (ci_gateway intent \<noteq> None))]
          (case ensureSessionLockQuiescentTx (env_now (cl_env e)) namespace name (control d) of
             Inl x \<Rightarrow> Inl x
           | Inr c \<Rightarrow>
               let turns = filter (session_turn_of namespace name) (session_turns c) in
               checks [fail_if ErrConflict (list_ex (pending_gateway_event namespace name) (gateway_events d)),
                 fail_if ErrConflict (list_ex (unproven_turn e intent) turns),
                 fail_if ErrConflict (ci_session_uid intent \<noteq> [] \<and> ss_control_session_uid s = [] \<and> turns = []),
                 fail_if ErrConflict (unsettled_projection namespace name c)]
               (Inr c)))"

section \<open>Receipts of turns\<close>

definition validateTerminalProjection :: "env \<Rightarrow> SessionTurnCleanupReceipt \<Rightarrow> store_error option" where
  "validateTerminalProjection e r =
     fail_if ErrConflict (tc_projection_kind r \<noteq> ''TaskTerminalStatus'' \<or> tc_aggregate_kind r \<noteq> ''SessionTurn'' \<or>
       tc_aggregate_id r \<noteq> tc_turn_id r \<or>
       tc_projection_id r \<noteq> CanonicalControlID e ''outbox'' [tc_turn_id r, tc_projection_kind r] \<or>
       \<not> env_json_valid e (tc_payload r) \<or> tc_payload_digest r \<noteq> CanonicalBytesDigest e (tc_payload r) \<or>
       tc_projection_digest r \<noteq> tc_payload_digest r)"

definition TurnCleanupReceipt_Validate ::
  "env \<Rightarrow> string \<Rightarrow> string \<Rightarrow> string \<Rightarrow> SessionTurnCleanupReceipt \<Rightarrow> store_error option" where
  "TurnCleanupReceipt_Validate e namespace sessionName turnID r = first_error
     [fail_if ErrConflict (tc_namespace r \<noteq> namespace \<or> tc_session_name r \<noteq> sessionName \<or> tc_turn_id r \<noteq> turnID),
      ValidateControlIdentifier (tc_namespace r), ValidateControlIdentifier (tc_session_name r),
      ValidateControlIdentifier (tc_operation_id r), ValidateControlIdentifier (tc_prompt_attempt_id r),
      ValidateCanonicalDigest (tc_operation_digest r),
      (if tc_publication_id r \<noteq> [] then ValidateControlIdentifier (tc_publication_id r) else None),
      (case tc_publication_receipt r of
         None \<Rightarrow> None
       | Some p \<Rightarrow> fail_if ErrConflict (tc_publication_id r = [] \<or> prc_publication_id p \<noteq> tc_publication_id r \<or>
           prc_generation p < 1 \<or> \<not> IsTerminalPublicationState (prc_state p))),
      fail_if ErrConflict (SessionTurnKey_CanonicalID e (tc_key r) \<noteq> Inr (tc_turn_id r) \<or>
        time_is_zero (tc_finalized_at r) \<or>
        tc_terminal_kind r \<notin> {SessionTurnAssistantResult, SessionTurnOutcomeMarker}),
      validateTerminalProjection e r,
      (if tc_projection_state r = OutboxProjectionDelivered then
         first_error [fail_if ErrConflict (case tc_delivered_at r of None \<Rightarrow> True | Some t \<Rightarrow> time_is_zero t),
           ValidateCanonicalDigest (tc_delivery_digest r)]
       else if tc_projection_state r = OutboxProjectionDeadLetter then
         fail_if ErrConflict (tc_delivered_at r \<noteq> None \<or> tc_delivery_digest r \<noteq> [])
       else Some ErrConflict)]"

text \<open>The turns of a session in the order of their identifiers, without prompts and contents.\<close>

definition cleanup_turn_error :: "env \<Rightarrow> SessionCleanupIntent \<Rightarrow> SessionTurn \<Rightarrow> store_error option" where
  "cleanup_turn_error e intent t =
     fail_if ErrConflict (SessionTurnKey_CanonicalID e (st_key t) \<noteq> Inr (st_id t) \<or> st_state t \<noteq> SessionTurnFinalized \<or>
       (case st_finalized_at t of None \<Rightarrow> True | Some x \<Rightarrow> time_is_zero x) \<or>
       tk_session_uid (st_key t) \<noteq> ci_session_uid intent)"

fun read_cleanup_turns :: "env \<Rightarrow> SessionCleanupIntent \<Rightarrow> db \<Rightarrow> string list \<Rightarrow> store_error + SessionTurn list" where
  "read_cleanup_turns e intent d [] = Inr []"
| "read_cleanup_turns e intent d (turnID # ids) =
     (case getSessionTurn turnID d of
        None \<Rightarrow> Inl ErrNotFound
      | Some t \<Rightarrow> checks [cleanup_turn_error e intent t]
          (map_sum id (\<lambda>ts. t\<lparr>st_user_prompt := [], st_terminal_content := []\<rparr> # ts) (read_cleanup_turns e intent d ids)))"

definition listSessionCleanupTurns :: "env \<Rightarrow> SessionCleanupIntent \<Rightarrow> db \<Rightarrow> store_error + SessionTurn list" where
  "listSessionCleanupTurns e intent d =
     read_cleanup_turns e intent d
       (sort (map st_id (filter (session_turn_of (ci_namespace intent) (ci_session_name intent)) (session_turns d))))"

definition turn_receipt :: "SessionCleanupIntent \<Rightarrow> SessionTurn \<Rightarrow> OutboxProjection \<Rightarrow> SessionTurnCleanupReceipt" where
  "turn_receipt intent t p =
     \<lparr>tc_namespace = ci_namespace intent, tc_session_name = ci_session_name intent,
      tc_operation_id = ci_operation_id intent, tc_operation_digest = ci_operation_digest intent,
      tc_turn_id = st_id t, tc_key = st_key t, tc_prompt_attempt_id = st_prompt_attempt_id t,
      tc_terminal_kind = st_terminal_kind t,
      tc_finalized_at = (case st_finalized_at t of None \<Rightarrow> 0 | Some x \<Rightarrow> x),
      tc_publication_id = st_publication_id t, tc_publication_receipt = st_publication_receipt t,
      tc_projection_id = st_projection_id t, tc_projection_kind = st_projection_kind t,
      tc_projection_digest = st_projection_digest t,
      tc_aggregate_kind = ob_aggregate_kind p, tc_aggregate_id = ob_aggregate_id p,
      tc_payload = ob_payload p, tc_payload_digest = ob_payload_digest p,
      tc_projection_state = ob_state p, tc_delivery_digest = ob_delivery_digest p, tc_delivered_at = ob_delivered_at p\<rparr>"

definition receipt_row :: "cleanup_env \<Rightarrow> SessionCleanupIntent \<Rightarrow> SessionTurnCleanupReceipt \<Rightarrow> TurnCleanupReceiptRow" where
  "receipt_row e intent r =
     \<lparr>tr_turn_id = tc_turn_id r, tr_prompt_attempt_id = tc_prompt_attempt_id r, tr_namespace = ci_namespace intent,
      tr_session_name = ci_session_name intent, tr_session_uid = ci_session_uid intent,
      tr_receipt_digest = CanonicalBytesDigest (cl_env e) (cl_marshal_receipt e r), tr_receipt = r\<rparr>"

definition turn_receipt_clash :: "TurnCleanupReceiptRow \<Rightarrow> TurnCleanupReceiptRow \<Rightarrow> bool" where
  "turn_receipt_clash a b \<longleftrightarrow> tr_turn_id a = tr_turn_id b \<or> tr_prompt_attempt_id a = tr_prompt_attempt_id b"

fun archive_turns ::
  "cleanup_env \<Rightarrow> SessionCleanupIntent \<Rightarrow> db \<Rightarrow> SessionTurn list \<Rightarrow> TurnCleanupReceiptRow list \<Rightarrow>
   store_error + TurnCleanupReceiptRow list" where
  "archive_turns e intent d [] rows = Inr rows"
| "archive_turns e intent d (t # ts) rows =
     (case getOutboxProjection (st_projection_id t) d of
        None \<Rightarrow> Inl ErrNotFound
      | Some p \<Rightarrow>
          let r = turn_receipt intent t p in
          checks [fail_if ErrConflict (st_projection_kind t \<noteq> ob_projection_kind p),
            TurnCleanupReceipt_Validate (cl_env e) (ci_namespace intent) (ci_session_name intent) (st_id t) r]
          (case sql_insert (\<lambda>_. True) turn_receipt_clash (receipt_row e intent r) rows of
             None \<Rightarrow> Inl ErrDriver
           | Some rows' \<Rightarrow> archive_turns e intent d ts rows'))"

definition archiveSessionTurnCleanupReceipts ::
  "cleanup_env \<Rightarrow> SessionCleanupIntent \<Rightarrow> db \<Rightarrow> TurnCleanupReceiptRow list \<Rightarrow> store_error + TurnCleanupReceiptRow list" where
  "archiveSessionTurnCleanupReceipts e intent d rows =
     (case listSessionCleanupTurns (cl_env e) intent d of
        Inl x \<Rightarrow> Inl x | Inr turns \<Rightarrow> archive_turns e intent d turns rows)"

section \<open>Preparation and completion\<close>

definition getSessionCleanupIntentTx :: "string \<Rightarrow> string \<Rightarrow> db \<Rightarrow> SessionCleanupIntent option" where
  "getSessionCleanupIntentTx namespace name d = find_row cleanup_intent_pk (namespace, name) (session_cleanup_intents d)"

definition getSessionCleanupCompletionTx :: "string \<Rightarrow> string \<Rightarrow> db \<Rightarrow> SessionCleanupCompletion option" where
  "getSessionCleanupCompletionTx namespace name d =
     find_row cleanup_completion_pk (namespace, name) (session_cleanup_completions d)"

definition prepare_body :: "cleanup_env \<Rightarrow> SessionCleanupIntent \<Rightarrow> store_db \<Rightarrow> (SessionCleanupIntent, store_db) tx_result" where
  "prepare_body e intent d =
     (case getSessionCleanupIntentTx (ci_namespace intent) (ci_session_name intent) (control d) of
        Some existing \<Rightarrow> guards
          [fail_if ErrGatewayOwnedSession (ci_gateway existing \<noteq> None \<and> ci_gateway intent = None),
           fail_if ErrConflict (ci_operation_id existing \<noteq> ci_operation_id intent \<or>
             ci_operation_digest existing \<noteq> ci_operation_digest intent)]
          (ReturnTx existing)
      | None \<Rightarrow>
          (case validateSessionCleanupEligibilityTx e intent d of
             Inl x \<Rightarrow> Abort x
           | Inr c \<Rightarrow> Commit intent (d\<lparr>control := c\<lparr>session_cleanup_intents := session_cleanup_intents c @ [intent]\<rparr>\<rparr>)))"

definition prepareSessionCleanupWrite ::
  "cleanup_env \<Rightarrow> SessionCleanupIntent \<Rightarrow> store_db \<Rightarrow> (store_error + SessionCleanupIntent) \<times> store_db" where
  "prepareSessionCleanupWrite e intent d =
     (case normalizeSessionCleanupIntent e intent of
        Inl x \<Rightarrow> (Inl x, d) | Inr i \<Rightarrow> with_tx (env_fault (cl_env e)) (prepare_body e i) d)"

text \<open>The insert of a completion, which a repetition of the same operation may update.\<close>

definition upsert_completion ::
  "SessionCleanupCompletion \<Rightarrow> SessionCleanupCompletion list \<Rightarrow> store_error + SessionCleanupCompletion list" where
  "upsert_completion c t =
     (case find_row cleanup_completion_pk (cleanup_completion_pk c) t of
        Some old \<Rightarrow>
          if cc_session_uid old = cc_session_uid c \<and> cc_operation_id old = cc_operation_id c \<and>
             cc_operation_digest old = cc_operation_digest c
          then Inr (put_row cleanup_completion_pk (cleanup_completion_pk c) c t) else Inl ErrConflict
      | None \<Rightarrow>
          (case sql_insert (\<lambda>_. True) (\<lambda>a b. cc_session_uid a \<noteq> [] \<and> cc_session_uid a = cc_session_uid b) c t of
             None \<Rightarrow> Inl ErrDriver | Some t' \<Rightarrow> Inr t'))"

definition cleanup_completion :: "cleanup_env \<Rightarrow> SessionCleanupIntent \<Rightarrow> CompleteSessionCleanupRequest \<Rightarrow> SessionCleanupCompletion" where
  "cleanup_completion e intent q =
     \<lparr>cc_namespace = cs_namespace q, cc_session_name = cs_session_name q, cc_session_uid = ci_session_uid intent,
      cc_operation_id = cs_operation_id q, cc_operation_digest = cs_operation_digest q, cc_completed_at = env_now (cl_env e)\<rparr>"

definition intent_of :: "CompleteSessionCleanupRequest \<Rightarrow> SessionCleanupIntent \<Rightarrow> bool" where
  "intent_of q i \<longleftrightarrow>
     cleanup_intent_pk i = (cs_namespace q, cs_session_name q) \<and> ci_operation_id i = cs_operation_id q \<and>
     ci_operation_digest i = cs_operation_digest q"

definition forget_intent :: "CompleteSessionCleanupRequest \<Rightarrow> db \<Rightarrow> db" where
  "forget_intent q d = d\<lparr>session_cleanup_intents := filter (\<lambda>i. \<not> intent_of q i) (session_cleanup_intents d)\<rparr>"

text \<open>
  What the transaction deletes once the plan is proved: \<open>c\<close> is the control database after the proof, \<open>count\<close>
  the number of session rows before.
\<close>

definition complete_deletions ::
  "cleanup_env \<Rightarrow> SessionCleanupIntent \<Rightarrow> CompleteSessionCleanupRequest \<Rightarrow> nat \<Rightarrow> db \<Rightarrow> store_db \<Rightarrow> store_error + store_db" where
  "complete_deletions e intent q count c d =
     (let namespace = cs_namespace q; name = cs_session_name q in
      case archiveSessionTurnCleanupReceipts e intent c (session_turn_cleanup_receipts d) of
        Inl x \<Rightarrow> Inl x
      | Inr receipts \<Rightarrow>
          let c1 = deleteNativeSessionTx namespace name (delete_turn_records namespace name c) in
          (case upsert_completion (cleanup_completion e intent q) (session_cleanup_completions c1) of
             Inl x \<Rightarrow> Inl x
           | Inr completions \<Rightarrow>
               (case delete_session_row namespace name (\<lambda>_. True) (c1\<lparr>session_cleanup_completions := completions\<rparr>) of
                  Inl x \<Rightarrow> Inl x
                | Inr (c2, deleted) \<Rightarrow>
                    if deleted \<noteq> count \<or> length (filter (intent_of q) (session_cleanup_intents c2)) \<noteq> 1 then Inl ErrConflict
                    else Inr (detach_session_events namespace name
                      ((advanceTaskDataCleanupGeneration namespace [] d)
                        \<lparr>control := forget_intent q c2, session_turn_cleanup_receipts := receipts\<rparr>)))))"

definition completeSessionCleanupTx ::
  "cleanup_env \<Rightarrow> CompleteSessionCleanupRequest \<Rightarrow> store_db \<Rightarrow> store_error + store_db" where
  "completeSessionCleanupTx e q d =
     (let namespace = cs_namespace q; name = cs_session_name q in
      case getSessionCleanupIntentTx namespace name (control d) of
        None \<Rightarrow>
          (case getSessionCleanupCompletionTx namespace name (control d) of
             None \<Rightarrow> Inl ErrConflict
           | Some c \<Rightarrow>
               if cc_operation_id c = cs_operation_id q \<and> cc_operation_digest c = cs_operation_digest q
               then Inr d else Inl ErrConflict)
      | Some intent \<Rightarrow>
          let count = affected (\<lambda>s. session_pk s = (namespace, name)) (control d) in
          checks [fail_if ErrConflict (ci_operation_id intent \<noteq> cs_operation_id q \<or>
              ci_operation_digest intent \<noteq> cs_operation_digest q),
            fail_if ErrNotFound (count = 0 \<and> ci_session_uid intent = [])]
          (case validateSessionCleanupEligibilityTx e intent d of
             Inl x \<Rightarrow> Inl x
           | Inr c \<Rightarrow> complete_deletions e intent q count c d))"

definition completeSessionCleanupWrite ::
  "cleanup_env \<Rightarrow> CompleteSessionCleanupRequest \<Rightarrow> store_db \<Rightarrow> (store_error + unit) \<times> store_db" where
  "completeSessionCleanupWrite e request =
     (let q = request\<lparr>cs_operation_id := TrimSpace (cs_operation_id request),
            cs_operation_digest := TrimSpace (cs_operation_digest request)\<rparr>
      in checked (first_error
           [fail_if ErrValidation (cs_namespace request \<noteq> TrimSpace (cs_namespace request)),
            fail_if ErrValidation (cs_session_name request \<noteq> TrimSpace (cs_session_name request)),
            ValidateControlIdentifier (cs_namespace q), ValidateControlIdentifier (cs_session_name q),
            ValidateControlIdentifier (cs_operation_id q), ValidateCanonicalDigest (cs_operation_digest q)])
         (with_tx (env_fault (cl_env e)) (\<lambda>d. case completeSessionCleanupTx e q d of
            Inl x \<Rightarrow> Abort x | Inr d' \<Rightarrow> Commit () d')))"

section \<open>Reads and identities\<close>

definition GetSessionCleanupIntent :: "db \<Rightarrow> string \<Rightarrow> string \<Rightarrow> store_error + SessionCleanupIntent" where
  "GetSessionCleanupIntent d namespace name =
     (case getSessionCleanupIntentTx namespace name d of None \<Rightarrow> Inl ErrNotFound | Some i \<Rightarrow> Inr i)"

fun normalize_all :: "cleanup_env \<Rightarrow> SessionCleanupIntent list \<Rightarrow> store_error + SessionCleanupIntent list" where
  "normalize_all e [] = Inr []"
| "normalize_all e (i # is) =
     (case normalizeSessionCleanupIntent e i of
        Inl x \<Rightarrow> Inl x | Inr i' \<Rightarrow> map_sum id (\<lambda>js. i' # js) (normalize_all e is))"

definition ListSessionCleanupIntents :: "cleanup_env \<Rightarrow> db \<Rightarrow> store_error + SessionCleanupIntent list" where
  "ListSessionCleanupIntents e d = normalize_all e (sort_key cleanup_intent_pk (session_cleanup_intents d))"

definition GetSessionCleanupCompletion :: "db \<Rightarrow> string \<Rightarrow> string \<Rightarrow> store_error + SessionCleanupCompletion" where
  "GetSessionCleanupCompletion d namespace name =
     (case getSessionCleanupCompletionTx namespace name d of None \<Rightarrow> Inl ErrNotFound | Some c \<Rightarrow> Inr c)"

definition HasSessionCleanupFenceForUID :: "db \<Rightarrow> string \<Rightarrow> bool" where
  "HasSessionCleanupFenceForUID d sessionUID =
     (let uid = TrimSpace sessionUID in
      if uid = [] then False
      else list_ex (\<lambda>c. cc_session_uid c = uid) (session_cleanup_completions d) \<or>
           list_ex (\<lambda>i. ci_session_uid i = uid) (session_cleanup_intents d))"

definition GetSessionCleanupIdentity :: "db \<Rightarrow> string \<Rightarrow> string \<Rightarrow> store_error + string" where
  "GetSessionCleanupIdentity d namespace name =
     (case find_row session_pk (namespace, name) (sessions d) of
        None \<Rightarrow> Inl ErrNotFound | Some s \<Rightarrow> Inr (ss_control_session_uid s))"

definition sessionCleanupIntentExists :: "string \<Rightarrow> string \<Rightarrow> db \<Rightarrow> bool" where
  "sessionCleanupIntentExists namespace name d \<longleftrightarrow>
     find_row cleanup_intent_pk (namespace, name) (session_cleanup_intents d) \<noteq> None"

definition HasSessionCleanupIntent :: "db \<Rightarrow> string \<Rightarrow> string \<Rightarrow> bool" where
  "HasSessionCleanupIntent d namespace name = sessionCleanupIntentExists (TrimSpace namespace) (TrimSpace name) d"

definition bindable :: "string \<Rightarrow> string \<Rightarrow> string \<Rightarrow> db \<Rightarrow> SessionRow \<Rightarrow> bool" where
  "bindable namespace name uid d s \<longleftrightarrow>
     session_pk s = (namespace, name) \<and> (ss_control_session_uid s = [] \<or> ss_control_session_uid s = uid) \<and>
     \<not> sessionCleanupIntentExists namespace name d \<and>
     find_row cleanup_completion_pk (namespace, name) (session_cleanup_completions d) = None"

definition bindSessionCleanupIdentityWrite ::
  "env \<Rightarrow> string \<Rightarrow> string \<Rightarrow> string \<Rightarrow> db \<Rightarrow> (store_error + unit) \<times> db" where
  "bindSessionCleanupIdentityWrite e namespace name sessionUID =
     (let uid = TrimSpace sessionUID in
      checked (first_error
        [fail_if ErrValidation (namespace \<noteq> TrimSpace namespace), fail_if ErrValidation (name \<noteq> TrimSpace name),
         ValidateControlIdentifier namespace, ValidateControlIdentifier name, ValidateControlIdentifier uid])
      (with_tx (env_fault e) (\<lambda>d.
         if affected (bindable namespace name uid d) d = 1
         then Commit () (update_sessions (bindable namespace name uid d) (\<lambda>s. s\<lparr>ss_control_session_uid := uid\<rparr>) d)
         else if affected (\<lambda>s. session_pk s = (namespace, name)) d = 0 then Abort ErrNotFound
         else Abort ErrConflict)))"

definition ListSessionCleanupTurns ::
  "cleanup_env \<Rightarrow> SessionCleanupIntent \<Rightarrow> db \<Rightarrow> store_error + SessionTurn list" where
  "ListSessionCleanupTurns e intent d =
     (case normalizeSessionCleanupIntent e intent of
        Inl x \<Rightarrow> Inl x
      | Inr i \<Rightarrow>
          (case getSessionCleanupIntentTx (ci_namespace i) (ci_session_name i) d of
             None \<Rightarrow> Inl ErrNotFound
           | Some current \<Rightarrow>
               checks [fail_if ErrConflict (ci_session_uid current \<noteq> ci_session_uid i \<or>
                 ci_operation_id current \<noteq> ci_operation_id i \<or> ci_operation_digest current \<noteq> ci_operation_digest i)]
               (listSessionCleanupTurns (cl_env e) current d)))"

text \<open>The join of receipts with completions, for sessions of which nothing is left.\<close>

definition receipt_released :: "string \<Rightarrow> string \<Rightarrow> string \<Rightarrow> store_db \<Rightarrow> TurnCleanupReceiptRow \<Rightarrow> bool" where
  "receipt_released namespace name promptAttemptID d r \<longleftrightarrow>
     tr_namespace r = namespace \<and> tr_session_name r = name \<and> tr_prompt_attempt_id r = promptAttemptID \<and>
     list_ex (\<lambda>c. cleanup_completion_pk c = (namespace, name) \<and> cc_session_uid c = tr_session_uid r)
       (session_cleanup_completions (control d)) \<and>
     find_row session_pk (namespace, name) (sessions (control d)) = None \<and>
     find_row st_id (tr_turn_id r) (session_turns (control d)) = None \<and>
     \<not> list_ex (\<lambda>p. ob_aggregate_kind p = ''SessionTurn'' \<and> ob_aggregate_id p = tr_turn_id r) (outbox_projections (control d)) \<and>
     \<not> sessionCleanupIntentExists namespace name (control d) \<and>
     \<not> list_ex (\<lambda>c. session_control_pk c = (namespace, name)) (session_controls (control d))"

definition GetSessionTurnCleanupReceipt ::
  "cleanup_env \<Rightarrow> store_db \<Rightarrow> string \<Rightarrow> string \<Rightarrow> string \<Rightarrow> store_error + SessionTurnCleanupReceipt" where
  "GetSessionTurnCleanupReceipt e d namespace name promptAttemptID =
     checks [ValidateControlIdentifier namespace, ValidateControlIdentifier name, ValidateControlIdentifier promptAttemptID]
     (case find (receipt_released namespace name promptAttemptID d) (session_turn_cleanup_receipts d) of
        None \<Rightarrow> Inl ErrNotFound
      | Some row \<Rightarrow>
          (case getSessionCleanupCompletionTx namespace name (control d) of
             None \<Rightarrow> Inl ErrNotFound
           | Some c \<Rightarrow>
               let r = tr_receipt row in
               checks [fail_if ErrConflict (CanonicalBytesDigest (cl_env e) (cl_marshal_receipt e r) \<noteq> tr_receipt_digest row),
                 fail_if ErrConflict (tk_session_uid (tc_key r) \<noteq> tr_session_uid row \<or>
                   tc_operation_id r \<noteq> cc_operation_id c \<or> tc_operation_digest r \<noteq> cc_operation_digest c \<or>
                   tc_prompt_attempt_id r \<noteq> promptAttemptID),
                 TurnCleanupReceipt_Validate (cl_env e) namespace name (tr_turn_id row) r]
               (Inr r)))"

section \<open>Retention of gateway sessions\<close>

text \<open>\<^verbatim>\<open>strings.Split\<close> of an owner reference that has exactly two parts, neither empty.\<close>

definition owner_parts :: "string \<Rightarrow> (string \<times> string) option" where
  "owner_parts ref =
     (let gateway = takeWhile (\<lambda>c. c \<noteq> CHR ''/'') ref; rest = dropWhile (\<lambda>c. c \<noteq> CHR ''/'') ref
      in case rest of
           [] \<Rightarrow> None
         | _ # binding \<Rightarrow>
             if gateway = [] \<or> binding = [] \<or> CHR ''/'' \<in> set binding then None else Some (gateway, binding))"

text \<open>A gateway session without activity since the cutoff, history, events or replies.\<close>

definition idle_gateway_session :: "gotime \<Rightarrow> store_db \<Rightarrow> SessionRow \<Rightarrow> bool" where
  "idle_gateway_session cutoff d s \<longleftrightarrow>
     ss_session_type s = ''gateway'' \<and> ss_owner_type s = ''gateway'' \<and>
     ss_active_task s = [] \<and> ss_active_task_uid s = [] \<and> ss_chat_turn_id s = [] \<and> ss_updated_at s < cutoff \<and>
     \<not> kept_history (ss_namespace s) (ss_name s) (control d) \<and>
     \<not> list_ex (event_of_session (ss_namespace s) (ss_name s)) (gateway_events d) \<and>
     \<not> List.member (gateway_deliveries d) (ss_namespace s, ss_name s)"

definition plain_gateway_session :: "gotime \<Rightarrow> store_db \<Rightarrow> SessionRow \<Rightarrow> bool" where
  "plain_gateway_session cutoff d s \<longleftrightarrow>
     idle_gateway_session cutoff d s \<and> ss_control_session_uid s = [] \<and>
     \<not> session_referenced (ss_namespace s) (ss_name s) (control d) \<and>
     \<not> sessionCleanupIntentExists (ss_namespace s) (ss_name s) (control d) \<and>
     find_row cleanup_completion_pk (session_pk s) (session_cleanup_completions (control d)) = None"

definition retention_intent ::
  "cleanup_env \<Rightarrow> gotime \<Rightarrow> gotime \<Rightarrow> SessionRow \<Rightarrow> string \<times> string \<Rightarrow> SessionCleanupIntent" where
  "retention_intent e now cutoff s owner =
     (let (operationID, operationDigest) =
            GatewaySessionCleanupOperation e (ss_namespace s) (ss_name s) [] (fst owner) (snd owner)
      in \<lparr>ci_namespace = ss_namespace s, ci_session_name = ss_name s, ci_session_uid = [], ci_control_object_uid = [],
          ci_control_request_digest = [], ci_expected_control_version = 0, ci_expected_lease_generation = 0,
          ci_expected_control_last_operation_id = [], ci_expected_control_last_digest = [],
          ci_expected_verified_baseline = None, ci_lease_name = [], ci_lease_object_uid = [], ci_branch_claims = [],
          ci_operation_id = operationID, ci_operation_digest = operationDigest, ci_prepared_at = now,
          ci_gateway = Some \<lparr>gp_gateway_uid = fst owner, gp_binding_uid = snd owner, gp_created_at = ss_created_at s,
            gp_terminal_cutoff = cutoff\<rparr>\<rparr>)"

definition reclaimGatewayTranscriptTx ::
  "cleanup_env \<Rightarrow> string \<Rightarrow> string \<Rightarrow> gotime \<Rightarrow> gotime \<Rightarrow> store_db \<Rightarrow> store_error + bool \<times> store_db" where
  "reclaimGatewayTranscriptTx e namespace name now cutoff d =
     (case find_row session_pk (namespace, name) (sessions (control d)) of
        None \<Rightarrow> Inr (False, d)
      | Some s \<Rightarrow>
          if \<not> plain_gateway_session cutoff d s then Inr (False, d)
          else case owner_parts (ss_owner_ref s) of
            None \<Rightarrow> Inr (False, d)
          | Some owner \<Rightarrow>
              let raw = retention_intent e now cutoff s owner in
              (case normalizeSessionCleanupIntent e raw of
                 Inl x \<Rightarrow> Inl x
               | Inr i \<Rightarrow>
                   (case completeSessionCleanupTx e
                      \<lparr>cs_namespace = namespace, cs_session_name = name, cs_operation_id = ci_operation_id raw,
                       cs_operation_digest = ci_operation_digest raw\<rparr>
                      (d\<lparr>control := (control d)\<lparr>session_cleanup_intents := session_cleanup_intents (control d) @ [i]\<rparr>\<rparr>) of
                      Inl x \<Rightarrow> Inl x | Inr d' \<Rightarrow> Inr (True, d'))))"

text \<open>\<^verbatim>\<open>COALESCE(NULLIF(control_session_uid, ''), MIN(turn.session_uid), '')\<close>.\<close>

definition candidate_uid :: "db \<Rightarrow> SessionRow \<Rightarrow> string" where
  "candidate_uid d s =
     (if ss_control_session_uid s \<noteq> [] then ss_control_session_uid s
      else case sort (map (\<lambda>t. tk_session_uid (st_key t))
             (filter (session_turn_of (ss_namespace s) (ss_name s)) (session_turns d))) of
        [] \<Rightarrow> [] | uid # _ \<Rightarrow> uid)"

definition cleanup_candidate :: "gotime \<Rightarrow> db \<Rightarrow> SessionRow \<Rightarrow> GatewaySessionCleanupCandidate option" where
  "cleanup_candidate cutoff d s =
     map_option (\<lambda>owner. \<lparr>gc_namespace = ss_namespace s, gc_session_name = ss_name s, gc_session_uid = candidate_uid d s,
         gc_proof = \<lparr>gp_gateway_uid = fst owner, gp_binding_uid = snd owner, gp_created_at = ss_created_at s,
           gp_terminal_cutoff = cutoff\<rparr>\<rparr>) (owner_parts (ss_owner_ref s))"

definition candidate_rows :: "GatewaySessionCleanupFilter \<Rightarrow> store_db \<Rightarrow> SessionRow list" where
  "candidate_rows f d = sort_key session_pk (filter (\<lambda>s.
     (gf_after_namespace f, gf_after_session_name f) < session_pk s \<and> idle_gateway_session (gf_terminal_cutoff f) d s \<and>
     (gf_namespace f = [] \<or> ss_namespace s = gf_namespace f)) (sessions (control d)))"

definition ListGatewaySessionCleanupCandidates ::
  "store_db \<Rightarrow> GatewaySessionCleanupFilter \<Rightarrow> store_error + GatewaySessionCleanupPage" where
  "ListGatewaySessionCleanupCandidates d f =
     checks [fail_if ErrValidation (gf_limit f < 1 \<or> gf_limit f > 100),
       (if gf_namespace f \<noteq> [] then ValidateControlIdentifier (gf_namespace f) else None),
       (if gf_after_namespace f \<noteq> [] \<or> gf_after_session_name f \<noteq> []
        then first_error [ValidateControlIdentifier (gf_after_namespace f), ValidateControlIdentifier (gf_after_session_name f)]
        else None)]
     (let rows = take (nat (gf_limit f)) (candidate_rows f d)
      in Inr \<lparr>gg_candidates = List.map_filter (cleanup_candidate (gf_terminal_cutoff f) (control d)) rows,
           gg_next_namespace = (if rows = [] then [] else ss_namespace (last rows)),
           gg_next_session_name = (if rows = [] then [] else ss_name (last rows)),
           gg_complete = (int (length rows) < gf_limit f)\<rparr>)"

end
