(* ===== verification/Turn_Finalization.thy ===== *)
theory Turn_Finalization
  imports Session_Turn_Records
begin

text \<open>
  What the operations on turn records do: the effect of every statement of a finalization on the
  transcript, the session, the native state, the turn and the outbox, and the theorems about whole
  finalizations and activations.
\<close>

section \<open>The transcript\<close>

lemma last_message_None [simp]: "last_message ms = None \<longleftrightarrow> ms = []"
  by (cases ms) (auto split: option.splits if_splits)

lemma last_message_max: "last_message ms = Some b \<Longrightarrow> m \<in> set ms \<Longrightarrow> sm_sort_order m \<le> sm_sort_order b"
proof (induction ms arbitrary: b)
  case (Cons x ms)
  then show ?case by (cases "last_message ms") (auto split: if_splits intro: order_trans)
qed simp

lemma last_message_in: "last_message ms = Some b \<Longrightarrow> b \<in> set ms"
  by (induction ms arbitrary: b) (auto split: option.splits if_splits)

lemma last_message_snoc:
  "\<forall>x \<in> set ms. sm_sort_order x \<le> sm_sort_order m \<Longrightarrow> last_message (ms @ [m]) = Some m"
  by (induction ms) auto

lemma next_order_above:
  "m \<in> set (session_transcript namespace name d) \<Longrightarrow> sm_sort_order m < nextSessionMessageOrderTx namespace name d"
  using last_message_max [of "session_transcript namespace name d" _ m]
  by (fastforce simp: nextSessionMessageOrderTx_def split: option.splits)

lemma turn_message_fields [simp]:
  "sm_namespace (turn_message n s at i so r c) = n" "sm_session_name (turn_message n s at i so r c) = s"
  "sm_message_id (turn_message n s at i so r c) = i" "sm_sort_order (turn_message n s at i so r c) = so"
  "sm_role (turn_message n s at i so r c) = r" "sm_content (turn_message n s at i so r c) = c"
  by (simp_all add: turn_message_def)

text \<open>No two messages of a session share an id or a position.\<close>

definition messages_ok :: "SessionMessageRow list \<Rightarrow> bool" where
  "messages_ok ms \<longleftrightarrow> sorted_wrt (\<lambda>a b. \<not> message_clash a b) ms"

text \<open>The messages of a turn as the reader of the transcript sees them.\<close>

definition message_view :: "SessionMessageRow \<Rightarrow> string \<times> string \<times> string" where
  "message_view m = (sm_message_id m, sm_role m, sm_content m)"

definition turn_messages :: "string \<Rightarrow> string \<Rightarrow> string \<Rightarrow> string \<Rightarrow> string \<Rightarrow> (string \<times> string \<times> string) list" where
  "turn_messages userID prompt terminalID role content =
     (if userID = [] then [] else [(userID, ''user'', prompt)]) @ [(terminalID, role, content)]"

definition in_session :: "string \<Rightarrow> string \<Rightarrow> SessionMessageRow \<Rightarrow> bool" where
  "in_session namespace name m \<longleftrightarrow> sm_namespace m = namespace \<and> sm_session_name m = name"

lemma append_message:
  assumes "appendMessage namespace name at mid role content d = Inr d'"
  obtains m where "d' = d\<lparr>session_messages := session_messages d @ [m]\<rparr>"
    "message_view m = (mid, role, content)" "in_session namespace name m"
    "last_message (session_transcript namespace name d') = Some m" "sm_message_id m = mid"
    "messages_ok (session_messages d) \<longrightarrow> messages_ok (session_messages d')"
proof -
  let ?m = "turn_message namespace name at mid (nextSessionMessageOrderTx namespace name d) role content"
  from assms have d': "d' = d\<lparr>session_messages := session_messages d @ [?m]\<rparr>"
    and new: "\<forall>m \<in> set (session_messages d). \<not> message_clash m ?m"
    by (auto simp: appendMessage_def sql_insert_def list_ex_iff split: option.splits if_splits)
  have "session_transcript namespace name d' = session_transcript namespace name d @ [?m]"
    by (simp add: d' session_transcript_def)
  moreover have "\<forall>x \<in> set (session_transcript namespace name d). sm_sort_order x \<le> sm_sort_order ?m"
    using next_order_above [of _ namespace name d] by (simp add: less_imp_le)
  ultimately have "last_message (session_transcript namespace name d') = Some ?m"
    using last_message_snoc by simp
  moreover have "messages_ok (session_messages d')" if "messages_ok (session_messages d)"
    using that new by (simp add: d' messages_ok_def sorted_wrt_append)
  ultimately show thesis using that [OF d'] by (simp add: message_view_def in_session_def)
qed

lemma append_transcript:
  assumes "appendSessionTurnTranscript namespace name prompt role content at userID terminalID d = Inr (n, d')"
  obtains ms where "d' = d\<lparr>session_messages := session_messages d @ ms\<rparr>" "n = int (length ms)"
    "map message_view ms = turn_messages userID prompt terminalID role content"
    "\<forall>m \<in> set ms. in_session namespace name m"
    "\<exists>m. last_message (session_transcript namespace name d') = Some m \<and> sm_message_id m = terminalID"
    "messages_ok (session_messages d) \<longrightarrow> messages_ok (session_messages d')"
proof (cases "userID = []")
  case True
  with assms have n: "n = 1" and "appendMessage namespace name at terminalID role content d = Inr d'"
    by (auto simp: appendSessionTurnTranscript_def map_sum_def split: sum.splits)
  from this(2) obtain m where m: "d' = d\<lparr>session_messages := session_messages d @ [m]\<rparr>"
    "message_view m = (terminalID, role, content)" "in_session namespace name m"
    "last_message (session_transcript namespace name d') = Some m" "sm_message_id m = terminalID"
    "messages_ok (session_messages d) \<longrightarrow> messages_ok (session_messages d')"
    by (rule append_message)
  show thesis by (rule that [OF m(1) _ _ _ _ m(6)]) (use n m True in \<open>simp_all add: turn_messages_def\<close>)
next
  case False
  with assms obtain d1 where n: "n = 2"
    and d1: "appendMessage namespace name at userID ''user'' prompt d = Inr d1"
    and d2: "appendMessage namespace name at terminalID role content d1 = Inr d'"
    by (auto simp: appendSessionTurnTranscript_def map_sum_def split: sum.splits)
  from d1 obtain m1 where m1: "d1 = d\<lparr>session_messages := session_messages d @ [m1]\<rparr>"
    "message_view m1 = (userID, ''user'', prompt)" "in_session namespace name m1"
    "messages_ok (session_messages d) \<longrightarrow> messages_ok (session_messages d1)"
    by (rule append_message)
  from d2 obtain m2 where m2: "d' = d1\<lparr>session_messages := session_messages d1 @ [m2]\<rparr>"
    "message_view m2 = (terminalID, role, content)" "in_session namespace name m2"
    "last_message (session_transcript namespace name d') = Some m2" "sm_message_id m2 = terminalID"
    "messages_ok (session_messages d1) \<longrightarrow> messages_ok (session_messages d')"
    by (rule append_message)
  show thesis
    by (rule that [of "[m1, m2]"]) (use n m1 m2 False in \<open>simp_all add: turn_messages_def\<close>)
qed

section \<open>The session row\<close>

definition counted_session :: "SealedSessionTurnFinalization \<Rightarrow> int \<Rightarrow> SessionRow \<Rightarrow> SessionRow" where
  "counted_session q delta s =
     (let s' = count_session_turn delta (sf_input_tokens q) (sf_output_tokens q) (sf_finalized_at q) s in
      if task_lock_held (sf_namespace q) (sf_session_name q) (tk_task_uid (sf_key q)) s'
      then release_task_lock s' else s')"

lemma counted_session_fields [simp]:
  "session_pk (count_session_turn n i k at s) = session_pk s" "session_pk (release_task_lock s) = session_pk s"
  "session_pk (counted_session q n s) = session_pk s"
  "ss_message_count (counted_session q n s) = ss_message_count s + n"
  "ss_input_tokens (counted_session q n s) = ss_input_tokens s + sf_input_tokens q"
  "ss_output_tokens (counted_session q n s) = ss_output_tokens s + sf_output_tokens q"
  "ss_control_session_uid (counted_session q n s) = ss_control_session_uid s"
  "ss_session_type (counted_session q n s) = ss_session_type s"
  by (simp_all add: counted_session_def count_session_turn_def release_task_lock_def session_pk_def Let_def)

lemma finalize_session:
  assumes ok: "sessions.table_ok (sessions d)"
    and run: "finalizeSessionTranscriptTx (sf_namespace q) (sf_session_name q) (sf_key q) delta
      (sf_input_tokens q) (sf_output_tokens q) (sf_finalized_at q) d = Inr d'"
  obtains s ts where "find_row session_pk (sf_namespace q, sf_session_name q) (sessions d) = Some s"
    "d' = d\<lparr>sessions := ts\<rparr>" "ts = put_row session_pk (sf_namespace q, sf_session_name q) (counted_session q delta s) (sessions d)"
    "sessions.table_ok ts"
proof -
  let ?k = "(sf_namespace q, sf_session_name q)"
  let ?f = "count_session_turn delta (sf_input_tokens q) (sf_output_tokens q) (sf_finalized_at q)"
  let ?W = "task_lock_held (sf_namespace q) (sf_session_name q) (tk_task_uid (sf_key q))"
  from run obtain t t' m where upd: "sql_update (\<lambda>_. True) (\<lambda>s. session_pk s = ?k) ?f (sessions d) = Some (t, 1)"
    and rel: "sql_update (\<lambda>_. True) ?W release_task_lock t = Some (t', m)" and d': "d' = d\<lparr>sessions := t'\<rparr>"
    by (auto simp: finalizeSessionTranscriptTx_def split: option.splits if_splits)
  from upd have "length (filter (\<lambda>s. session_pk s = ?k) (sessions d)) = 1" by (simp add: sql_update_def split: if_splits)
  then obtain s where s: "find_row session_pk ?k (sessions d) = Some s"
    using find_row_of_count [of session_pk ?k "sessions d"] by (cases "find_row session_pk ?k (sessions d)") auto
  note t = sessions.update_result [OF ok s _ upd]
  have t_eq: "t = put_row session_pk ?k (?f s) (sessions d)" by (rule t(3)) simp
  have "t' = map (\<lambda>x. if ?W x then release_task_lock x else x) t" using rel by (simp add: sql_update_def split: if_splits)
  then have ts: "t' = put_row session_pk ?k (counted_session q delta s) (sessions d)"
    unfolding t_eq by (auto simp: put_row_def counted_session_def Let_def task_lock_held_def)
  have "sessions.table_ok t'"
    unfolding ts by (rule sessions.put_row_ok [OF ok s]) (use find_row_SomeD [OF s] in auto)
  with that [OF s d' ts] show thesis by simp
qed

section \<open>A finalization as a whole\<close>

lemma finalize_steps:
  assumes "finalize_open_turn q p turn d = Commit a d'"
  obtains delta d1 d2 d3 t b where "st_key turn = sf_key q" "st_version turn = sf_expected_turn_version q"
    "transcript_unchanged q d = None" "sf_native_session_digest q = [] \<or> sf_native_session q \<noteq> None"
    "(if sf_skip_transcript_append q then Inr (0, d)
      else appendSessionTurnTranscript (sf_namespace q) (sf_session_name q) (st_user_prompt turn)
          (terminal_role q) (sf_terminal_content q) (sf_finalized_at q) (sf_user_message_id q)
          (sf_terminal_message_id q) d) = Inr (delta, d1)"
    "finalizeSessionTranscriptTx (sf_namespace q) (sf_session_name q) (sf_key q) delta
       (sf_input_tokens q) (sf_output_tokens q) (sf_finalized_at q) d1 = Inr d2"
    "commitSealedNativeFinalizationTx (st_id turn) (sf_namespace q) (sf_session_name q)
       (tk_session_uid (sf_key q)) (sf_native_session q) (sf_native_session_digest q) d2 = Inr d3"
    "sql_update session_turns_check
       (\<lambda>r. st_id r = st_id turn \<and> st_version r = sf_expected_turn_version q \<and> st_state r = SessionTurnOpen)
       (finalize_set q p) (session_turns d3) = Some (t, 1)"
    "enqueueOutboxProjectionTx (p\<lparr>ob_available_at := deferredSessionTurnProjectionTime\<rparr>) True
       (d3\<lparr>session_turns := t\<rparr>) = (Inr b, d')"
    "a = finalize_result q p turn"
  using assms unfolding finalize_open_turn_def guards_Commit bind_tx_Commit update_one_Commit list.pred_inject
    fail_if_None split_paired_Ex split_conv
  by (elim conjE exE, simp only: split_conv prod.case)
    (elim conjE exE, auto split: prod.splits sum.splits)


text \<open>
  Everything a finalization of the turn \<open>turn\<close>, stored as \<open>row\<close>, changes: the messages \<open>ms\<close> are
  appended, the session \<open>s\<close> counts them, the native tables change, the turn is finalized, and the
  projection is in the outbox.
\<close>

definition counted_db :: "SealedSessionTurnFinalization \<Rightarrow> SessionMessageRow list \<Rightarrow> SessionRow \<Rightarrow> db \<Rightarrow> db" where
  "counted_db q ms s d = d\<lparr>session_messages := session_messages d @ ms, sessions := put_row session_pk
     (sf_namespace q, sf_session_name q) (counted_session q (int (length ms)) s) (sessions d)\<rparr>"

definition finalized ::
  "SealedSessionTurnFinalization \<Rightarrow> OutboxProjection \<Rightarrow> SessionTurn \<Rightarrow> SessionTurnRow \<Rightarrow>
   SessionMessageRow list \<Rightarrow> SessionRow \<Rightarrow> db \<Rightarrow> db \<Rightarrow> db \<Rightarrow> bool" where
  "finalized q p turn row ms s d d3 d' \<longleftrightarrow>
     map message_view ms = (if sf_skip_transcript_append q then []
       else turn_messages (sf_user_message_id q) (st_user_prompt turn) (sf_terminal_message_id q)
         (terminal_role q) (sf_terminal_content q)) \<and>
     (\<forall>m \<in> set ms. in_session (sf_namespace q) (sf_session_name q) m) \<and>
     (messages_ok (session_messages d) \<longrightarrow> messages_ok (session_messages d @ ms)) \<and>
     find_row session_pk (sf_namespace q, sf_session_name q) (sessions d) = Some s \<and>
     commitSealedNativeFinalizationTx (st_id turn) (sf_namespace q) (sf_session_name q)
       (tk_session_uid (sf_key q)) (sf_native_session q) (sf_native_session_digest q) (counted_db q ms s d) = Inr d3 \<and>
     (\<exists>b. enqueueOutboxProjectionTx (p\<lparr>ob_available_at := deferredSessionTurnProjectionTime\<rparr>) True
       (d3\<lparr>session_turns := put_row st_id (st_id turn) (finalize_set q p row) (session_turns d)\<rparr>) = (Inr b, d')) \<and>
     st_state row = SessionTurnOpen \<and> st_version row = sf_expected_turn_version q \<and>
     session_turns_check (finalize_set q p row)"

lemma append_or_skip:
  assumes "(if skip then Inr (0, d) else appendSessionTurnTranscript namespace name prompt role content at
      userID terminalID d) = Inr (n, d')"
  obtains ms where "d' = d\<lparr>session_messages := session_messages d @ ms\<rparr>" "n = int (length ms)"
    "map message_view ms = (if skip then [] else turn_messages userID prompt terminalID role content)"
    "\<forall>m \<in> set ms. in_session namespace name m"
    "\<not> skip \<longrightarrow> (\<exists>m. last_message (session_transcript namespace name d') = Some m \<and> sm_message_id m = terminalID)"
    "messages_ok (session_messages d) \<longrightarrow> messages_ok (session_messages d')"
proof (cases skip)
  case True
  with assms have "n = 0" "d' = d" by auto
  with True that [of "[]"] show thesis by simp
next
  case False
  with assms have "appendSessionTurnTranscript namespace name prompt role content at userID terminalID d = Inr (n, d')"
    by simp
  then show thesis by (rule append_transcript) (use that False in simp)
qed

lemma finalize_effect:
  assumes ok: "db_ok d" and get: "find_row st_id (st_id turn) (session_turns d) = Some row"
    and run: "finalize_open_turn q p turn d = Commit a d'"
  obtains ms s d3 where "finalized q p turn row ms s d d3 d'" "a = finalize_result q p turn"
    "st_key turn = sf_key q" "st_version turn = sf_expected_turn_version q"
    "transcript_unchanged q d = None" "sf_native_session_digest q = [] \<or> sf_native_session q \<noteq> None"
proof -
  from run obtain delta d1 d2 d3 t b where key: "st_key turn = sf_key q" "st_version turn = sf_expected_turn_version q"
      "transcript_unchanged q d = None" "sf_native_session_digest q = [] \<or> sf_native_session q \<noteq> None"
    and d1: "(if sf_skip_transcript_append q then Inr (0, d)
      else appendSessionTurnTranscript (sf_namespace q) (sf_session_name q) (st_user_prompt turn)
          (terminal_role q) (sf_terminal_content q) (sf_finalized_at q) (sf_user_message_id q)
          (sf_terminal_message_id q) d) = Inr (delta, d1)"
    and d2: "finalizeSessionTranscriptTx (sf_namespace q) (sf_session_name q) (sf_key q) delta
       (sf_input_tokens q) (sf_output_tokens q) (sf_finalized_at q) d1 = Inr d2"
    and d3: "commitSealedNativeFinalizationTx (st_id turn) (sf_namespace q) (sf_session_name q)
       (tk_session_uid (sf_key q)) (sf_native_session q) (sf_native_session_digest q) d2 = Inr d3"
    and upd: "sql_update session_turns_check
       (\<lambda>r. st_id r = st_id turn \<and> st_version r = sf_expected_turn_version q \<and> st_state r = SessionTurnOpen)
       (finalize_set q p) (session_turns d3) = Some (t, 1)"
    and enq: "enqueueOutboxProjectionTx (p\<lparr>ob_available_at := deferredSessionTurnProjectionTime\<rparr>) True
       (d3\<lparr>session_turns := t\<rparr>) = (Inr b, d')"
    and a: "a = finalize_result q p turn"
    by (rule finalize_steps)
  from d1 obtain ms where ms: "d1 = d\<lparr>session_messages := session_messages d @ ms\<rparr>" "delta = int (length ms)"
    "map message_view ms = (if sf_skip_transcript_append q then []
       else turn_messages (sf_user_message_id q) (st_user_prompt turn) (sf_terminal_message_id q)
         (terminal_role q) (sf_terminal_content q))"
    "\<forall>m \<in> set ms. in_session (sf_namespace q) (sf_session_name q) m"
    "messages_ok (session_messages d) \<longrightarrow> messages_ok (session_messages d1)"
    by (rule append_or_skip)
  have sok: "sessions.table_ok (sessions d1)" using db_ok_tables(4) [OF ok] by (simp add: ms)
  from sok d2 obtain s ts where s: "find_row session_pk (sf_namespace q, sf_session_name q) (sessions d1) = Some s"
    "d2 = d1\<lparr>sessions := ts\<rparr>" "ts = put_row session_pk (sf_namespace q, sf_session_name q) (counted_session q delta s) (sessions d1)"
    by (rule finalize_session)
  have d2_eq: "d2 = counted_db q ms s d" using s(2,3) ms(1,2) by (simp add: counted_db_def)
  have turns: "session_turns d3 = session_turns d"
    using native_step_fields(1) [OF commit_native_step [OF d3]] by (simp add: d2_eq counted_db_def)
  note upd' = turns.update_result [OF db_ok_tables(6) [OF ok] get _ upd [unfolded turns]]
  have t: "t = put_row st_id (st_id turn) (finalize_set q p row) (session_turns d)" by (rule upd'(3)) simp
  have row: "session_turns_check (finalize_set q p row)" "st_version row = sf_expected_turn_version q" "st_state row = SessionTurnOpen"
    using upd'(1,2) by simp_all
  show thesis
    by (rule that [of ms s d3, OF _ a key]) (use ms s d3 [unfolded d2_eq] enq [unfolded t] row in \<open>auto simp: finalized_def\<close>)
qed

text \<open>Every table after a finalization.\<close>

lemma finalized_tables:
  assumes "finalized q p turn row ms s d d3 d'"
  shows "session_messages d' = session_messages d @ ms"
    "sessions d' = put_row session_pk (sf_namespace q, sf_session_name q) (counted_session q (int (length ms)) s) (sessions d)"
    "session_turns d' = put_row st_id (st_id turn) (finalize_set q p row) (session_turns d)"
    "controller_epochs d' = controller_epochs d"
    "outbox_projections d3 = outbox_projections d"
    "native_step (counted_db q ms s d) d3"
    "d' = d3\<lparr>session_turns := session_turns d', outbox_projections := outbox_projections d'\<rparr>"
proof -
  from assms obtain b where nat: "native_step (counted_db q ms s d) d3"
    and enq: "enqueueOutboxProjectionTx (p\<lparr>ob_available_at := deferredSessionTurnProjectionTime\<rparr>) True
       (d3\<lparr>session_turns := put_row st_id (st_id turn) (finalize_set q p row) (session_turns d)\<rparr>) = (Inr b, d')"
    by (auto simp: finalized_def dest: commit_native_step)
  from enqueue_tx_ok [OF enq] have "d' = d3\<lparr>session_turns := put_row st_id (st_id turn) (finalize_set q p row)
      (session_turns d), outbox_projections := outbox_projections d'\<rparr>" by auto
  then obtain t where d': "d' = d3\<lparr>session_turns := put_row st_id (st_id turn) (finalize_set q p row)
      (session_turns d), outbox_projections := t\<rparr>" by (rule that)
  note n = native_step_fields [OF nat]
  from nat show "native_step (counted_db q ms s d) d3" .
  show "session_messages d' = session_messages d @ ms"
    "sessions d' = put_row session_pk (sf_namespace q, sf_session_name q) (counted_session q (int (length ms)) s) (sessions d)"
    "session_turns d' = put_row st_id (st_id turn) (finalize_set q p row) (session_turns d)"
    "controller_epochs d' = controller_epochs d" "outbox_projections d3 = outbox_projections d"
    "d' = d3\<lparr>session_turns := session_turns d', outbox_projections := outbox_projections d'\<rparr>"
    using n by (simp_all add: d' counted_db_def)
qed

lemma finalize_set_kept [simp]:
  "st_id (finalize_set q p r) = st_id r" "st_key (finalize_set q p r) = st_key r"
  "st_prompt_attempt_id (finalize_set q p r) = st_prompt_attempt_id r" "st_state (finalize_set q p r) = SessionTurnFinalized"
  by (simp_all add: finalize_set_def)

lemma counted_ok:
  assumes ok: "db_ok d" and s: "find_row session_pk (sf_namespace q, sf_session_name q) (sessions d) = Some s"
  shows "db_ok (counted_db q ms s d)"
proof -
  have pk: "session_pk s = (sf_namespace q, sf_session_name q)" using find_row_SomeD [OF s] by simp
  have "sessions.table_ok (put_row session_pk (sf_namespace q, sf_session_name q)
      (counted_session q (int (length ms)) s) (sessions d))"
    by (rule sessions.put_row_ok [OF db_ok_tables(4) [OF ok] s]) simp_all
  with ok pk show ?thesis by (simp add: db_ok_def counted_db_def find_row_put_row_None)
qed

lemma finalized_ok:
  assumes ok: "db_ok d" and get: "find_row st_id (st_id turn) (session_turns d) = Some row"
    and fin: "finalized q p turn row ms s d d3 d'"
  shows "db_ok d'"
proof -
  have "turns.table_ok (put_row st_id (st_id turn) (finalize_set q p row) (session_turns d))"
    by (rule turns.put_row_ok [OF db_ok_tables(6) [OF ok] get])
      (use fin in \<open>simp_all add: finalized_def session_turn_clash_def\<close>)
  moreover have "db_ok d3"
    using native_step_ok [OF finalized_tables(6) [OF fin]] counted_ok [OF ok] fin by (simp add: finalized_def)
  ultimately have "db_ok (d3\<lparr>session_turns := put_row st_id (st_id turn) (finalize_set q p row) (session_turns d)\<rparr>)"
    by (intro db_ok_set_table(4))
  with fin enqueue_tx_keeps(1) show ?thesis unfolding finalized_def by blast
qed

lemma get_turn:
  assumes "getSessionTurn tid d = Some turn"
  obtains row where "find_row st_id tid (session_turns d) = Some row" "st_id turn = tid"
    "turn = (SessionTurn.truncate row)\<lparr>st_native_session_digest := native_digest tid d\<rparr>"
  using assms find_row_SomeD [of st_id tid "session_turns d"] by (auto simp: getSessionTurn_def)

lemma finalize_body_commit:
  assumes ok: "db_ok d" and run: "finalize_turn_body e (q, p) d = Commit a d'"
  obtains turn row ms s d3 where "SessionTurnKey_CanonicalID e (sf_key q) = Inr (st_id turn)"
    "getSessionTurn (st_id turn) d = Some turn" "find_row st_id (st_id turn) (session_turns d) = Some row"
    "finalized q p turn row ms s d d3 d'" "a = finalize_result q p turn" "st_state turn \<noteq> SessionTurnFinalized"
    "st_key turn = sf_key q" "st_version turn = sf_expected_turn_version q"
    "transcript_unchanged q d = None" "sf_native_session_digest q = [] \<or> sf_native_session q \<noteq> None" "db_ok d'"
    "requireSessionTurnBinding (st_id turn) (sf_namespace q) (sf_session_name q) d = None"
proof -
  from run obtain tid turn where tid: "SessionTurnKey_CanonicalID e (sf_key q) = Inr tid" "getSessionTurn tid d = Some turn"
      "requireSessionTurnBinding (st_id turn) (sf_namespace q) (sf_session_name q) d = None"
    and st: "st_state turn \<noteq> SessionTurnFinalized" and open_run: "finalize_open_turn q p turn d = Commit a d'"
    by (auto simp: finalize_turn_body_def split: option.splits if_splits)
  from tid(2) obtain row where row: "find_row st_id tid (session_turns d) = Some row" "st_id turn = tid"
    by (rule get_turn)
  have get: "find_row st_id (st_id turn) (session_turns d) = Some row" using row by simp
  from ok get open_run obtain ms s d3 where fin: "finalized q p turn row ms s d d3 d'" "a = finalize_result q p turn"
    "st_key turn = sf_key q" "st_version turn = sf_expected_turn_version q"
    "transcript_unchanged q d = None" "sf_native_session_digest q = [] \<or> sf_native_session q \<noteq> None"
    by (rule finalize_effect)
  from that [OF _ _ get fin(1,2) st fin(3-6) finalized_ok [OF ok get fin(1)]] tid row(2) show thesis by simp
qed

lemma finalize_body_return:
  assumes "finalize_turn_body e (q, p) d = ReturnTx a"
  shows "SessionTurnKey_CanonicalID e (sf_key q) = Inr (st_id a)" "getSessionTurn (st_id a) d = Some a"
    "st_state a = SessionTurnFinalized" "sessionTurnPersistenceFinalizationMatches a q"
proof -
  have no: "finalize_open_turn q p turn d \<noteq> ReturnTx b" for turn b
    by (simp add: finalize_open_turn_def case_prod_beta)
  from assms obtain tid turn where t: "SessionTurnKey_CanonicalID e (sf_key q) = Inr tid" "getSessionTurn tid d = Some turn"
    and r: "(if st_state turn = SessionTurnFinalized then
      if sessionTurnPersistenceFinalizationMatches turn q then ReturnTx turn else Abort ErrConflict
      else finalize_open_turn q p turn d) = ReturnTx a"
    unfolding finalize_turn_body_def split_conv bind_tx_ReturnTx by (elim exE conjE) (simp split: option.splits)
  from t r no have a: "SessionTurnKey_CanonicalID e (sf_key q) = Inr tid" "getSessionTurn tid d = Some a"
    "st_state a = SessionTurnFinalized" "sessionTurnPersistenceFinalizationMatches a q"
    by (simp_all split: if_splits)
  from a(2) have "st_id a = tid" by (rule get_turn)
  with a show "SessionTurnKey_CanonicalID e (sf_key q) = Inr (st_id a)" "getSessionTurn (st_id a) d = Some a"
    "st_state a = SessionTurnFinalized" "sessionTurnPersistenceFinalizationMatches a q" by simp_all
qed


section \<open>The handlers\<close>

lemma normalized_finalization:
  assumes "normalizeSealedSessionTurnFinalization e q = Inr (r, p)"
  shows "NormalizeEpochFence (sf_fence q) = Inr (sf_fence r)"
    "r = q\<lparr>sf_namespace := TrimSpace (sf_namespace q), sf_session_name := TrimSpace (sf_session_name q),
       sf_fence := sf_fence r, sf_publication_id := TrimSpace (sf_publication_id q),
       sf_finalized_at := NormalizeControlTime e (sf_finalized_at q)\<rparr>"
    "\<exists>f. normalizeOutboxProjectionForCreate e (sf_projection q) (sf_fence r) (sf_finalized_at r) = Inr (p, f)"
    "SessionTurnKey_CanonicalID e (sf_key q) = Inr (ob_aggregate_id p)" "ob_aggregate_kind p = sessionTurnAggregateKind"
proof -
  from assms obtain fence where f: "NormalizeEpochFence (sf_fence q) = Inr fence"
    and r: "r = q\<lparr>sf_namespace := TrimSpace (sf_namespace q), sf_session_name := TrimSpace (sf_session_name q),
       sf_fence := fence, sf_publication_id := TrimSpace (sf_publication_id q),
       sf_finalized_at := NormalizeControlTime e (sf_finalized_at q)\<rparr>"
    and rest: "(case normalizeOutboxProjectionForCreate e (sf_projection r) (sf_fence r) (sf_finalized_at r) of
        Inl x \<Rightarrow> Inl x
      | Inr (projection, _) \<Rightarrow>
          (case SessionTurnKey_CanonicalID e (sf_key r) of
             Inl x \<Rightarrow> Inl x
           | Inr turnID \<Rightarrow> checks
               [fail_if ErrValidation (ob_aggregate_kind projection \<noteq> sessionTurnAggregateKind \<or>
                  ob_aggregate_id projection \<noteq> turnID)]
               (Inr (r, projection)))) = Inr (r, p)"
    unfolding normalizeSealedSessionTurnFinalization_def Let_def checks_Inr
    by (elim conjE) (auto simp del: list.pred_inject split: sum.splits)
  have flds: "sf_fence r = fence" "sf_projection r = sf_projection q" "sf_key r = sf_key q" by (simp_all add: r)
  from f flds show "NormalizeEpochFence (sf_fence q) = Inr (sf_fence r)" by simp
  from r flds show "r = q\<lparr>sf_namespace := TrimSpace (sf_namespace q), sf_session_name := TrimSpace (sf_session_name q),
       sf_fence := sf_fence r, sf_publication_id := TrimSpace (sf_publication_id q),
       sf_finalized_at := NormalizeControlTime e (sf_finalized_at q)\<rparr>" by simp
  from rest show "\<exists>f. normalizeOutboxProjectionForCreate e (sf_projection q) (sf_fence r) (sf_finalized_at r) = Inr (p, f)"
    "SessionTurnKey_CanonicalID e (sf_key q) = Inr (ob_aggregate_id p)" "ob_aggregate_kind p = sessionTurnAggregateKind"
    unfolding flds by (auto split: sum.splits)
qed

lemma normalized_fields:
  assumes "normalizeSealedSessionTurnFinalization e q = Inr (r, p)"
  shows "sf_key r = sf_key q" "sf_namespace r = TrimSpace (sf_namespace q)"
    "sf_session_name r = TrimSpace (sf_session_name q)" "sf_expected_turn_version r = sf_expected_turn_version q"
    "sf_finalization_digest r = sf_finalization_digest q" "sf_terminal_kind r = sf_terminal_kind q"
    "sf_terminal_content r = sf_terminal_content q" "sf_skip_transcript_append r = sf_skip_transcript_append q"
    "sf_user_message_id r = sf_user_message_id q" "sf_terminal_message_id r = sf_terminal_message_id q"
    "sf_native_session_digest r = sf_native_session_digest q" "sf_native_session r = sf_native_session q"
    "sf_input_tokens r = sf_input_tokens q" "sf_output_tokens r = sf_output_tokens q"
    "sf_projection r = sf_projection q" "sf_finalized_at r = NormalizeControlTime e (sf_finalized_at q)"
proof -
  from normalized_finalization(2) [OF assms] obtain f where
    "r = q\<lparr>sf_namespace := TrimSpace (sf_namespace q), sf_session_name := TrimSpace (sf_session_name q),
       sf_fence := f, sf_publication_id := TrimSpace (sf_publication_id q),
       sf_finalized_at := NormalizeControlTime e (sf_finalized_at q)\<rparr>" by (rule that)
  then show "sf_key r = sf_key q" "sf_namespace r = TrimSpace (sf_namespace q)"
    "sf_session_name r = TrimSpace (sf_session_name q)" "sf_expected_turn_version r = sf_expected_turn_version q"
    "sf_finalization_digest r = sf_finalization_digest q" "sf_terminal_kind r = sf_terminal_kind q"
    "sf_terminal_content r = sf_terminal_content q" "sf_skip_transcript_append r = sf_skip_transcript_append q"
    "sf_user_message_id r = sf_user_message_id q" "sf_terminal_message_id r = sf_terminal_message_id q"
    "sf_native_session_digest r = sf_native_session_digest q" "sf_native_session r = sf_native_session q"
    "sf_input_tokens r = sf_input_tokens q" "sf_output_tokens r = sf_output_tokens q"
    "sf_projection r = sf_projection q" "sf_finalized_at r = NormalizeControlTime e (sf_finalized_at q)"
    by simp_all
qed

lemma finalize_open_epochs:
  assumes "finalize_open_turn q p turn d = Commit a d'"
  shows "controller_epochs d' = controller_epochs d"
  using assms
proof (rule finalize_steps)
  fix delta d1 d2 d3 t b
  assume d1: "(if sf_skip_transcript_append q then Inr (0, d)
      else appendSessionTurnTranscript (sf_namespace q) (sf_session_name q) (st_user_prompt turn)
          (terminal_role q) (sf_terminal_content q) (sf_finalized_at q) (sf_user_message_id q)
          (sf_terminal_message_id q) d) = Inr (delta, d1)"
    and d2: "finalizeSessionTranscriptTx (sf_namespace q) (sf_session_name q) (sf_key q) delta
       (sf_input_tokens q) (sf_output_tokens q) (sf_finalized_at q) d1 = Inr d2"
    and d3: "commitSealedNativeFinalizationTx (st_id turn) (sf_namespace q) (sf_session_name q)
       (tk_session_uid (sf_key q)) (sf_native_session q) (sf_native_session_digest q) d2 = Inr d3"
    and enq: "enqueueOutboxProjectionTx (p\<lparr>ob_available_at := deferredSessionTurnProjectionTime\<rparr>) True
       (d3\<lparr>session_turns := t\<rparr>) = (Inr b, d')"
  from enqueue_tx_ok [OF enq] have "controller_epochs d' = controller_epochs d3" by (auto dest: arg_cong [where f = controller_epochs])
  moreover have "controller_epochs d3 = controller_epochs d2" by (rule native_step_fields(5) [OF commit_native_step [OF d3]])
  moreover have "controller_epochs d2 = controller_epochs d1"
    using d2 by (auto simp: finalizeSessionTranscriptTx_def split: option.splits if_splits)
  moreover have "controller_epochs d1 = controller_epochs d" using d1 by (rule append_or_skip) simp
  ultimately show ?thesis by simp
qed

interpretation commit_turn: validated_operation commitSealedSessionTurnFinalizationWrite
  "\<lambda>e q. map_sum id (Pair e) (normalizeSealedSessionTurnFinalization e q)" sf_fence
  "\<lambda>c. sf_fence (fst (snd c))" "\<lambda>c. finalize_turn_body (fst c) (snd c)"
proof
  fix e q d a d' and c :: "env \<times> SealedSessionTurnFinalization \<times> OutboxProjection"
  obtain e' r p where c: "c = (e', r, p)" by (cases c)
  show "commitSealedSessionTurnFinalizationWrite e q d =
      validated (map_sum id (Pair e) (normalizeSealedSessionTurnFinalization e q))
        (\<lambda>c. fenced_tx e (sf_fence (fst (snd c))) (finalize_turn_body (fst c) (snd c))) d"
    by (simp add: commitSealedSessionTurnFinalizationWrite_def validated_def map_sum_def split: sum.splits)
  show "map_sum id (Pair e) (normalizeSealedSessionTurnFinalization e q) = Inr c \<Longrightarrow>
      NormalizeEpochFence (sf_fence q) = Inr (sf_fence (fst (snd c)))"
    using normalized_finalization(1) by (auto simp: c map_sum_def split: sum.splits)
  assume body: "finalize_turn_body (fst c) (snd c) d = Commit a d'"
  show "controller_epochs d' = controller_epochs d"
    using body by (auto simp: c finalize_turn_body_def dest: finalize_open_epochs split: option.splits if_splits)
  show "db_ok d'" if "db_ok d"
    using finalize_body_commit [OF that body [unfolded c, simplified]] by blast
qed

text \<open>Native digests belong to finalized turns.\<close>

definition finalizations_ok :: "db \<Rightarrow> bool" where
  "finalizations_ok d \<longleftrightarrow> (\<forall>f \<in> set (native_session_finalizations d).
     (case find_row st_id (nf_turn_id f) (session_turns d) of
        None \<Rightarrow> False | Some row \<Rightarrow> st_state row = SessionTurnFinalized))"

lemma open_turn_no_digest:
  assumes "finalizations_ok d" "find_row st_id tid (session_turns d) = Some row" "st_state row = SessionTurnOpen"
  shows "find_row nf_turn_id tid (native_session_finalizations d) = None"
  using assms by (force simp: finalizations_ok_def find_row_None)

lemma finalized_digests:
  assumes fin: "finalized q p turn row ms s d d3 d'"
    and dig: "sf_native_session_digest q = [] \<or> sf_native_session q \<noteq> None"
  shows "native_session_finalizations d' = native_session_finalizations d @
      (case sf_native_session q of None \<Rightarrow> [] | Some _ \<Rightarrow>
        [\<lparr>nf_turn_id = st_id turn, nf_namespace = sf_namespace q, nf_session_name = sf_session_name q,
          nf_capture_digest = sf_native_session_digest q\<rparr>])"
    "find_row nf_turn_id (st_id turn) (native_session_finalizations d) = None \<Longrightarrow>
     native_digest (st_id turn) d' = sf_native_session_digest q"
proof -
  have d3: "native_session_finalizations d' = native_session_finalizations d3"
    by (subst finalized_tables(7) [OF fin]) simp
  have run: "commitSealedNativeFinalizationTx (st_id turn) (sf_namespace q) (sf_session_name q)
       (tk_session_uid (sf_key q)) (sf_native_session q) (sf_native_session_digest q) (counted_db q ms s d) = Inr d3"
    using fin by (simp add: finalized_def)
  show eq: "native_session_finalizations d' = native_session_finalizations d @
      (case sf_native_session q of None \<Rightarrow> [] | Some _ \<Rightarrow>
        [\<lparr>nf_turn_id = st_id turn, nf_namespace = sf_namespace q, nf_session_name = sf_session_name q,
          nf_capture_digest = sf_native_session_digest q\<rparr>])"
  proof (cases "sf_native_session q")
    case None
    with run show ?thesis by (auto simp: d3 commitSealedNativeFinalizationTx_def counted_db_def)
  next
    case (Some n)
    from run [unfolded Some] show ?thesis
      by (rule native_commit) (use Some in \<open>auto simp: d3 counted_db_def dest: native_commit_read(2)\<close>)
  qed
  show "native_digest (st_id turn) d' = sf_native_session_digest q"
    if "find_row nf_turn_id (st_id turn) (native_session_finalizations d) = None"
    using that dig by (cases "sf_native_session q") (auto simp: native_digest_def eq find_row_append)
qed

lemma finalize_result_stored:
  assumes "turn = (SessionTurn.truncate row)\<lparr>st_native_session_digest := x\<rparr>"
  shows "(SessionTurn.truncate (finalize_set q p row))\<lparr>st_native_session_digest := sf_native_session_digest q\<rparr> =
    finalize_result q p turn"
  by (simp add: assms finalize_set_def finalize_result_def SessionTurn.truncate_def)

text \<open>The turn a finalization returns is the one it stored.\<close>

lemma finalized_get:
  assumes get: "getSessionTurn (st_id turn) d = Some turn" "find_row st_id (st_id turn) (session_turns d) = Some row"
    and fin: "finalized q p turn row ms s d d3 d'"
    and dig: "sf_native_session_digest q = [] \<or> sf_native_session q \<noteq> None"
    and none: "find_row nf_turn_id (st_id turn) (native_session_finalizations d) = None"
  shows "getSessionTurn (st_id turn) d' = Some (finalize_result q p turn)"
proof -
  have id: "st_id row = st_id turn" using find_row_SomeD [OF get(2)] by simp
  have "find_row st_id (st_id turn) (session_turns d') = Some (finalize_set q p row)"
    using put_row_result [OF get(2)] id by (simp add: finalized_tables(3) [OF fin])
  moreover have "turn = (SessionTurn.truncate row)\<lparr>st_native_session_digest := native_digest (st_id turn) d\<rparr>"
    using get by (auto simp: getSessionTurn_def id)
  note finalize_result_stored [OF this, of q p]
  ultimately show ?thesis using finalized_digests(2) [OF fin dig none] id by (simp add: getSessionTurn_def)
qed

lemma commit_success:
  assumes ok: "db_ok d" and run: "commitSealedSessionTurnFinalizationWrite e q d = (Inr a, d')" and change: "d' \<noteq> d"
  obtains r p turn row ms s d3 where "normalizeSealedSessionTurnFinalization e q = Inr (r, p)"
    "session_turn_id e (sf_key q) = st_id turn"
    "getSessionTurn (st_id turn) d = Some turn" "find_row st_id (st_id turn) (session_turns d) = Some row"
    "finalized r p turn row ms s d d3 d'" "a = finalize_result r p turn"
    "st_key turn = sf_key q" "transcript_unchanged r d = None"
    "sf_native_session_digest r = [] \<or> sf_native_session r \<noteq> None" "db_ok d'"
    "requireSessionTurnBinding (st_id turn) (sf_namespace r) (sf_session_name r) d = None"
proof -
  from run obtain c where c: "map_sum id (Pair e) (normalizeSealedSessionTurnFinalization e q) = Inr c"
    "finalize_turn_body (fst c) (snd c) d = ReturnTx a \<and> d' = d \<or> finalize_turn_body (fst c) (snd c) d = Commit a d'"
    by (rule commit_turn.success)
  obtain r p where n: "normalizeSealedSessionTurnFinalization e q = Inr (r, p)" "c = (e, r, p)"
    using c(1) by (auto simp: map_sum_def split: sum.splits)
  from c(2) change n(2) have body: "finalize_turn_body e (r, p) d = Commit a d'" by simp
  note key = normalized_fields(1) [OF n(1)]
  from ok body show thesis
  proof (rule finalize_body_commit)
    fix turn row ms s d3
    assume t: "SessionTurnKey_CanonicalID e (sf_key r) = Inr (st_id turn)" "getSessionTurn (st_id turn) d = Some turn"
      "find_row st_id (st_id turn) (session_turns d) = Some row" "finalized r p turn row ms s d d3 d'"
      "a = finalize_result r p turn" "st_key turn = sf_key r" "transcript_unchanged r d = None"
      "sf_native_session_digest r = [] \<or> sf_native_session r \<noteq> None" "db_ok d'"
      "requireSessionTurnBinding (st_id turn) (sf_namespace r) (sf_session_name r) d = None"
    then have "session_turn_id e (sf_key q) = st_id turn" "st_key turn = sf_key q"
      by (simp_all add: key SessionTurnKey_CanonicalID_def)
    with that [OF n(1) _ t(2-5) _ t(7-10)] show thesis by blast
  qed
qed


lemma native_owner_cong:
  assumes "sessions d' = sessions d" "session_messages d' = session_messages d"
    "session_cleanup_intents d' = session_cleanup_intents d"
    "native_session_deleted_names d' = native_session_deleted_names d"
  shows "nativeSessionOwnerTx namespace name d' = nativeSessionOwnerTx namespace name d"
  using assms
  by (simp add: nativeSessionOwnerTx_def ensureNoSessionCleanupIntentTx_def lastSessionMessageIDTx_def
      session_transcript_def split: option.splits)

lemma get_turn_fields:
  assumes "getSessionTurn tid d = Some turn" "find_row st_id tid (session_turns d) = Some row"
  shows "st_key turn = st_key row" "st_user_prompt turn = st_user_prompt row" "st_version turn = st_version row"
    "st_state turn = st_state row" "st_finalization_digest turn = st_finalization_digest row"
proof -
  from assms have "turn = (SessionTurn.truncate row)\<lparr>st_native_session_digest := native_digest (st_id row) d\<rparr>"
    by (simp add: getSessionTurn_def)
  then show "st_key turn = st_key row" "st_user_prompt turn = st_user_prompt row" "st_version turn = st_version row"
    "st_state turn = st_state row" "st_finalization_digest turn = st_finalization_digest row"
    by (simp_all add: SessionTurn.truncate_def)
qed

section \<open>Retries\<close>

lemma turn_id_retry: "SessionTurnKey_CanonicalID (retry_env e now) k = SessionTurnKey_CanonicalID e k"
  by (simp add: SessionTurnKey_CanonicalID_def session_turn_id_def CanonicalControlID_def CanonicalBytesDigest_def)

lemma outbox_retry:
  "\<not> time_is_zero t \<Longrightarrow>
   normalizeOutboxProjectionForCreate (retry_env e now) p f t = normalizeOutboxProjectionForCreate e p f t"
  by (cases "NormalizeEpochFence f")
    (simp_all add: normalizeOutboxProjectionForCreate_def ValidateControlPayload_def CanonicalBytesDigest_def Let_def)

text \<open>The repeated request may leave out the native state, which the store kept the first time.\<close>

lemma no_native_valid: "sf_native_session q = None \<Longrightarrow> validateSealedNativeFinalization q = None"
  by (simp add: validateSealedNativeFinalization_def)

lemma normalize_without_native:
  assumes n: "normalizeSealedSessionTurnFinalization e q = Inr (r, p)"
  shows "normalizeSealedSessionTurnFinalization e (q\<lparr>sf_native_session := None\<rparr>) = Inr (r\<lparr>sf_native_session := None\<rparr>, p)"
proof -
  from normalized_finalization(1,2) [OF n] obtain f where f: "NormalizeEpochFence (sf_fence q) = Inr f"
    and r: "r = q\<lparr>sf_namespace := TrimSpace (sf_namespace q), sf_session_name := TrimSpace (sf_session_name q),
       sf_fence := f, sf_publication_id := TrimSpace (sf_publication_id q),
       sf_finalized_at := NormalizeControlTime e (sf_finalized_at q)\<rparr>" by (rule that)
  show ?thesis
    using n f
    by (auto simp: r normalizeSealedSessionTurnFinalization_def Let_def no_native_valid split: sum.splits
        cong: option.case_cong if_cong)
qed

lemma normalize_retry:
  assumes at: "\<not> time_is_zero (sf_finalized_at q)"
  shows "normalizeSealedSessionTurnFinalization (retry_env e now) q = normalizeSealedSessionTurnFinalization e q"
proof -
  have time: "NormalizeControlTime (retry_env e now) (sf_finalized_at q) = sf_finalized_at q"
    "NormalizeControlTime e (sf_finalized_at q) = sf_finalized_at q" using at by (simp_all add: NormalizeControlTime_def)
  show ?thesis
    by (simp add: normalizeSealedSessionTurnFinalization_def Let_def turn_id_retry time outbox_retry [OF at]
        cong: sum.case_cong if_cong option.case_cong)
qed

text \<open>The stored turn answers the request that finalized it.\<close>

lemma finalization_matches:
  assumes n: "normalizeSealedSessionTurnFinalization e q = Inr (r, p)"
    and trim: "TrimSpace (ob_id (sf_projection q)) = ob_id (sf_projection q)"
      "TrimSpace (ob_projection_kind (sf_projection q)) = ob_projection_kind (sf_projection q)"
    and at: "\<not> time_is_zero (sf_finalized_at q)"
  shows "sessionTurnPersistenceFinalizationMatches (finalize_result r p turn) (r\<lparr>sf_native_session := native\<rparr>)"
proof -
  from normalized_finalization(3) [OF n] obtain f where
    "normalizeOutboxProjectionForCreate e (sf_projection q) (sf_fence r) (sf_finalized_at r) = Inr (p, f)" by blast
  moreover have "sf_finalized_at r = sf_finalized_at q" "sf_projection r = sf_projection q"
    using normalized_fields(15,16) [OF n] at by (simp_all add: NormalizeControlTime_def)
  ultimately have p: "ob_id p = TrimSpace (ob_id (sf_projection q))"
    "ob_projection_kind p = TrimSpace (ob_projection_kind (sf_projection q))"
    "ob_payload_digest p = ob_payload_digest (sf_projection q)"
    "ob_initial_available_at p = projectionAvailableAt (sf_projection r) (sf_finalized_at r)"
    using at by (auto simp: normalizeOutboxProjectionForCreate_def Let_def outbox_defaults_def projectionAvailableAt_def
        split: sum.splits)
  then show ?thesis
    using trim normalized_fields(15) [OF n] by (simp add: sessionTurnPersistenceFinalizationMatches_def finalize_result_def)
qed

lemma finalized_binding:
  assumes "find_row st_id (st_id turn) (session_turns d) = Some row" "finalized q p turn row ms s d d3 d'"
  shows "requireSessionTurnBinding (st_id turn) namespace name d' = requireSessionTurnBinding (st_id turn) namespace name d"
proof -
  have "st_id row = st_id turn" using find_row_SomeD [OF assms(1)] by simp
  then have "find_row st_id (st_id turn) (session_turns d') = Some (finalize_set q p row)"
    using put_row_result [OF assms(1)] by (simp add: finalized_tables(3) [OF assms(2)])
  with assms(1) show ?thesis by (simp add: requireSessionTurnBinding_def finalize_set_def)
qed

section \<open>Properties\<close>

text \<open>
  C20: a finalization that changes the store finalizes an open turn at the version the request names and
  does all of it at once: the returned turn is the stored one; exactly the prompt and the terminal
  message of the turn are appended to the transcript of its session; the session counts them and the
  tokens of the turn once; no other turn and no other session changes.
\<close>

theorem turn_finalization_exact:
  assumes ok: "db_ok d" and fok: "finalizations_ok d"
    and run: "commitSealedSessionTurnFinalizationWrite e q d = (Inr t, d')" and change: "d' \<noteq> d"
  shows "\<exists>row s s' ms.
    find_row st_id (st_id t) (session_turns d) = Some row \<and> st_key row = sf_key q \<and>
    st_state row = SessionTurnOpen \<and> st_version row = sf_expected_turn_version q \<and>
    getSessionTurn (st_id t) d' = Some t \<and> st_state t = SessionTurnFinalized \<and>
    st_version t = st_version row + 1 \<and> st_terminal_kind t = sf_terminal_kind q \<and>
    st_terminal_content t = sf_terminal_content q \<and> st_finalization_digest t = sf_finalization_digest q \<and>
    st_native_session_digest t = sf_native_session_digest q \<and>
    (\<forall>k. k \<noteq> st_id t \<longrightarrow> find_row st_id k (session_turns d') = find_row st_id k (session_turns d)) \<and>
    session_messages d' = session_messages d @ ms \<and>
    (\<forall>m \<in> set ms. in_session (TrimSpace (sf_namespace q)) (TrimSpace (sf_session_name q)) m) \<and>
    map message_view ms = (if sf_skip_transcript_append q then []
      else turn_messages (sf_user_message_id q) (st_user_prompt row) (sf_terminal_message_id q)
        (terminal_role q) (sf_terminal_content q)) \<and>
    find_row session_pk (TrimSpace (sf_namespace q), TrimSpace (sf_session_name q)) (sessions d) = Some s \<and>
    find_row session_pk (TrimSpace (sf_namespace q), TrimSpace (sf_session_name q)) (sessions d') = Some s' \<and>
    ss_message_count s' = ss_message_count s + int (length ms) \<and>
    ss_input_tokens s' = ss_input_tokens s + sf_input_tokens q \<and>
    ss_output_tokens s' = ss_output_tokens s + sf_output_tokens q \<and>
    (\<forall>k. k \<noteq> (TrimSpace (sf_namespace q), TrimSpace (sf_session_name q)) \<longrightarrow>
      find_row session_pk k (sessions d') = find_row session_pk k (sessions d))"
  using ok run change
proof (rule commit_success)
  fix r p turn row ms s d3
  assume n: "normalizeSealedSessionTurnFinalization e q = Inr (r, p)"
    and get: "getSessionTurn (st_id turn) d = Some turn" "find_row st_id (st_id turn) (session_turns d) = Some row"
    and f: "finalized r p turn row ms s d d3 d'" and t: "t = finalize_result r p turn"
    and key: "st_key turn = sf_key q"
    and dig: "sf_native_session_digest r = [] \<or> sf_native_session r \<noteq> None"
  note eqs = normalized_fields [OF n] and tables = finalized_tables [OF f]
  have row: "st_state row = SessionTurnOpen" "st_version row = sf_expected_turn_version q" "st_id row = st_id turn"
    "st_key row = sf_key q" "st_user_prompt row = st_user_prompt turn" "st_version turn = st_version row"
    using f find_row_SomeD [OF get(2)] key get_turn_fields [OF get] by (simp_all add: finalized_def eqs)
  have s: "find_row session_pk (TrimSpace (sf_namespace q), TrimSpace (sf_session_name q)) (sessions d) = Some s"
    using f by (simp add: finalized_def eqs)
  have pk: "session_pk s = (TrimSpace (sf_namespace q), TrimSpace (sf_session_name q))" using find_row_SomeD [OF s] by simp
  have id: "st_id t = st_id turn" "st_state t = SessionTurnFinalized" "st_version t = st_version row + 1"
    "st_terminal_kind t = sf_terminal_kind q" "st_terminal_content t = sf_terminal_content q"
    "st_finalization_digest t = sf_finalization_digest q" "st_native_session_digest t = sf_native_session_digest q"
    by (simp_all add: t finalize_result_def row eqs)
  have stored: "getSessionTurn (st_id t) d' = Some t"
    using finalized_get [OF get f dig open_turn_no_digest [OF fok get(2) row(1)]] id t by simp
  have turns: "find_row st_id k (session_turns d') = find_row st_id k (session_turns d)" if "k \<noteq> st_id t" for k
    unfolding tables(3) by (rule find_row_put_row_other) (use that id row in simp_all)
  have sess: "find_row session_pk k (sessions d') =
      (if k = session_pk s then Some (counted_session r (int (length ms)) s) else find_row session_pk k (sessions d))" for k
    using put_row_result [OF s, of "counted_session r (int (length ms)) s" k] by (simp add: tables(2) eqs pk)
  have ms: "session_messages d' = session_messages d @ ms"
    "\<forall>m \<in> set ms. in_session (TrimSpace (sf_namespace q)) (TrimSpace (sf_session_name q)) m"
    "map message_view ms = (if sf_skip_transcript_append q then []
      else turn_messages (sf_user_message_id q) (st_user_prompt row) (sf_terminal_message_id q)
        (terminal_role q) (sf_terminal_content q))"
    using f by (simp_all add: finalized_def eqs row terminal_role_def tables(1))
  show ?thesis
    by (intro exI [of _ row] exI [of _ s] exI [of _ "counted_session r (int (length ms)) s"] exI [of _ ms])
      (use get id row stored turns s ms in \<open>simp add: sess pk eqs\<close>)
qed

text \<open>
  After a finalization with native state, the session reads back the sealed record of the request:
  the checkpoint covers exactly the transcript the finalization left.  The record is either carried
  over from the previous checkpoint or a capture that had not been stored before.
\<close>

theorem native_checkpoint_readable:
  assumes ok: "db_ok d" and run: "commitSealedSessionTurnFinalizationWrite e q d = (Inr t, d')" and change: "d' \<noteq> d"
    and native: "sf_native_session q = Some n"
    and new: "fn_carried n \<or> find_row native_operation_pk (TrimSpace (sf_namespace q), TrimSpace (sf_session_name q),
      kind_capture, ns_source_operation_id (fn_record n)) (native_session_operations d) = None"
  shows "GetSealedNativeSession (TrimSpace (sf_namespace q)) (TrimSpace (sf_session_name q))
    (tk_session_uid (sf_key q)) d' = Inr (fn_record n)"
  using ok run change
proof (rule commit_success)
  fix r p turn row ms s d3
  let ?ns = "TrimSpace (sf_namespace q)" and ?name = "TrimSpace (sf_session_name q)"
  let ?uid = "tk_session_uid (sf_key q)" and ?d2 = "counted_db r ms s d"
  assume n: "normalizeSealedSessionTurnFinalization e q = Inr (r, p)" and f: "finalized r p turn row ms s d d3 d'"
  note eqs = normalized_fields [OF n]
  have "commitSealedNativeFinalizationTx (st_id turn) ?ns ?name ?uid (Some n) (sf_native_session_digest q) ?d2 = Inr d3"
    using f native by (simp add: finalized_def eqs)
  then obtain d1 where pk: "native_pk (fn_record n) = (?ns, ?name)"
    and own: "nativeSessionOwnerTx ?ns ?name ?d2 = Inr (?uid, ns_message_count (fn_record n), ns_through_message_id (fn_record n))"
    and d1: "if fn_carried n then carrySealedNativeSessionTx ?uid n ?d2 = Inr d1
     else ns_session_uid (fn_record n) = ?uid \<and>
       saveSealedNativeSessionTx \<lparr>sv_record = fn_record n, sv_request_digest = fn_request_digest n\<rparr> ?d2 = Inr d1"
    and d3: "native_session_snapshots d3 = native_session_snapshots d1"
    by (rule native_commit) simp
  have "native_session_operations ?d2 = native_session_operations d" by (simp add: counted_db_def)
  then have "readSealedNativeSessionTx ?ns ?name d1 = Some (fn_record n)"
    using native_commit_read(3) [OF d1 pk] new by simp
  moreover have "native_session_snapshots d' = native_session_snapshots d3"
    by (subst finalized_tables(7) [OF f]) simp
  ultimately have read: "readSealedNativeSessionTx ?ns ?name d' = Some (fn_record n)"
    using d3 by (simp add: readSealedNativeSessionTx_def)
  have "nativeSessionOwnerTx ?ns ?name d' = nativeSessionOwnerTx ?ns ?name ?d2"
    by (subst finalized_tables(7) [OF f], rule native_owner_cong)
      (use native_step_fields [OF finalized_tables(6) [OF f]] in simp_all)
  moreover have "ns_session_uid (fn_record n) = [] \<or> ns_session_uid (fn_record n) = ?uid"
    using d1 carry_native(3) [of ?uid n ?d2 d1] by (auto split: if_splits)
  ultimately show ?thesis using own read by (auto simp: GetSealedNativeSession_def)
qed


end
