(* ===== verification/Session_Runs.thy ===== *)
theory Session_Runs
  imports Turn_Finalization
begin

text \<open>
  Sequences of session operations: turns opened and finalized, projections activated, claimed and
  completed, native state saved and imports staged, in any order.  \<open>turn_step\<close> says what one operation
  may do to the tables; the invariant of the session tables, the finality of a finalized turn and the
  deferral of its projection are proved over it.
\<close>

section \<open>The other handlers\<close>

lemma validated_record:
  assumes "validateCreateTurnRecord e q = Inr c"
  shows "cr_fence c = cr_fence q" "\<exists>f. NormalizeEpochFence (cr_fence q) = Inr f" "st_state (cr_turn c) = SessionTurnOpen"
  using assms
  by (auto simp: validateCreateTurnRecord_def Let_def dest: normalized_turn split: sum.splits)

lemma open_turn_row_kept [simp]:
  "st_id (open_turn_row namespace name n) = st_id n" "st_state (open_turn_row namespace name n) = SessionTurnOpen"
  by (simp_all add: open_turn_row_def SessionTurn.extend_def)

lemma create_record_commit:
  assumes "create_turn_record_body q d = Commit a d'"
  obtains t where "a = cr_turn q" "find_row st_id (st_id a) (session_turns d) = None"
    "sql_insert session_turns_check session_turn_clash (open_turn_row (cr_namespace q) (cr_session_name q) a)
       (session_turns d) = Some t" "d' = d\<lparr>session_turns := t\<rparr>"
  using assms by (auto simp: create_turn_record_body_def Let_def getSessionTurn_def split: option.splits)

interpretation open_turn: validated_create createSessionTurnRecordWrite validateCreateTurnRecord cr_fence
  "\<lambda>c. projr (NormalizeEpochFence (cr_fence c))" create_turn_record_body session_turns st_id st_id
proof
  fix e q c d a d'
  have fence: "fenced_tx e (projr (NormalizeEpochFence (cr_fence c))) (create_turn_record_body c) d =
      fenced_tx e (cr_fence c) (create_turn_record_body c) d" if "validateCreateTurnRecord e q = Inr c" for c
    using validated_record(1,2) [OF that] requireControllerEpoch_normalized [of "cr_fence c"]
    by (auto simp: fenced_tx_def)
  show "createSessionTurnRecordWrite e q d = validated (validateCreateTurnRecord e q)
      (\<lambda>c. fenced_tx e (projr (NormalizeEpochFence (cr_fence c))) (create_turn_record_body c)) d"
    by (auto simp: createSessionTurnRecordWrite_def validated_def fence split: sum.splits)
  show "validateCreateTurnRecord e q = Inr c \<Longrightarrow>
      NormalizeEpochFence (cr_fence q) = Inr (projr (NormalizeEpochFence (cr_fence c)))"
    using validated_record(1,2) [of e q c] by auto
  show "create_turn_record_body c d = ReturnTx a \<Longrightarrow> find_row st_id (st_id a) (session_turns d) \<noteq> None"
    by (auto simp: create_turn_record_body_def Let_def getSessionTurn_def dest: find_row_self split: option.splits)
  assume body: "create_turn_record_body c d = Commit a d'"
  then show "controller_epochs d' = controller_epochs d" by (rule create_record_commit) simp
  from body show "\<exists>r. find_row st_id (st_id r) (session_turns d) = None \<and> session_turns d' = session_turns d @ [r] \<and>
      st_id r = st_id a"
  proof (rule create_record_commit)
    fix t
    assume "find_row st_id (st_id a) (session_turns d) = None" "d' = d\<lparr>session_turns := t\<rparr>"
      "sql_insert session_turns_check session_turn_clash (open_turn_row (cr_namespace c) (cr_session_name c) a)
       (session_turns d) = Some t"
    then show ?thesis
      by (intro exI [of _ "open_turn_row (cr_namespace c) (cr_session_name c) a"]) (simp add: sql_insert_def split: if_splits)
  qed
  assume ok: "db_ok d"
  from body show "db_ok d'"
    by (rule create_record_commit) (use db_ok_set_table(4) [OF ok turns.insert_ok [OF db_ok_tables(6) [OF ok]]] in blast)
qed

lemma activate_set_kept [simp]:
  "ob_id (activate_set q p) = ob_id p" "ob_state (activate_set q p) = ob_state p"
  "ob_available_at (activate_set q p) = av_available_at q"
  by (simp_all add: activate_set_def)

lemma activate_commit:
  assumes ok: "db_ok d" and run: "activate_body q d = Commit a d'"
  obtains p turn where "getSessionTurn (av_turn_id q) d = Some turn" "st_state turn = SessionTurnFinalized"
    "st_finalization_digest turn = av_finalization_digest q"
    "find_row ob_id (av_projection_id q) (outbox_projections d) = Some p"
    "ob_aggregate_id p = av_turn_id q" "ob_state p = OutboxProjectionPending" "ob_attempts p = 0" "ob_lease_owner p = []"
    "a = activate_set q p" "outbox_projections_check a"
    "d' = d\<lparr>outbox_projections := put_row ob_id (av_projection_id q) a (outbox_projections d)\<rparr>"
proof -
  from run obtain turn where turn: "getSessionTurn (av_turn_id q) d = Some turn" "st_state turn = SessionTurnFinalized"
      "st_finalization_digest turn = av_finalization_digest q"
    and rest: "fetch ob_id (av_projection_id q) (outbox_projections d) (\<lambda>projection. guards
            [fail_if ErrConflict (ob_aggregate_kind projection \<noteq> av_expected_aggregate_kind q \<or>
               ob_aggregate_id projection \<noteq> av_turn_id q \<or>
               ob_projection_kind projection \<noteq> av_expected_projection_kind q \<or>
               ob_payload_digest projection \<noteq> av_expected_payload_digest q)]
            (if ob_last_operation_id projection = activation_operation (av_turn_id q) then guards
               [fail_if ErrConflict (ob_last_operation_digest projection \<noteq> av_finalization_digest q)]
               (ReturnTx projection)
             else if ob_initial_available_at projection = av_available_at q \<and>
               ob_available_at projection \<noteq> deferredSessionTurnProjectionTime then ReturnTx projection
             else guards
               [fail_if ErrConflict (ob_state projection \<noteq> OutboxProjectionPending \<or> ob_attempts projection \<noteq> 0 \<or>
                  ob_lease_owner projection \<noteq> [] \<or> ob_lease_expires_at projection \<noteq> None)]
               (update_one outbox_projections_check
                 (\<lambda>p. ob_id p = ob_id projection \<and> ob_version p = ob_version projection \<and>
                    ob_state p = OutboxProjectionPending \<and> ob_attempts p = 0 \<and> ob_lease_owner p = [])
                 (activate_set q) (outbox_projections d)
                 (\<lambda>t. Commit (activate_set q projection) (d\<lparr>outbox_projections := t\<rparr>))))) = Commit a d'"
    by (simp add: activate_body_def split: option.splits)
  from rest obtain p where p: "find_row ob_id (av_projection_id q) (outbox_projections d) = Some p"
    and body: "ob_aggregate_id p = av_turn_id q" "ob_state p = OutboxProjectionPending" "ob_attempts p = 0"
      "ob_lease_owner p = []" "a = activate_set q p"
      "\<exists>t. sql_update outbox_projections_check
        (\<lambda>x. ob_id x = ob_id p \<and> ob_version x = ob_version p \<and> ob_state x = OutboxProjectionPending \<and>
           ob_attempts x = 0 \<and> ob_lease_owner x = [])
        (activate_set q) (outbox_projections d) = Some (t, 1) \<and> d' = d\<lparr>outbox_projections := t\<rparr>"
    by (elim fetch_CommitE) (auto split: if_splits)
  from body(6) obtain t where upd: "sql_update outbox_projections_check
        (\<lambda>x. ob_id x = ob_id p \<and> ob_version x = ob_version p \<and> ob_state x = OutboxProjectionPending \<and>
           ob_attempts x = 0 \<and> ob_lease_owner x = [])
        (activate_set q) (outbox_projections d) = Some (t, 1)" and d': "d' = d\<lparr>outbox_projections := t\<rparr>" by blast
  have id: "ob_id p = av_projection_id q" using find_row_SomeD [OF p] by simp
  note res = outbox.update_result [OF db_ok_tables(10) [OF ok] p _ upd]
  have t: "t = put_row ob_id (av_projection_id q) (activate_set q p) (outbox_projections d)" by (rule res(3)) (simp add: id)
  have chk: "outbox_projections_check (activate_set q p)" by (rule res(2)) (simp add: id)
  show thesis by (rule that [OF turn p body(1-5)]) (use t chk d' body(5) in simp_all)
qed

lemma normalized_activation:
  assumes "normalizeActivateSessionTurnProjectionRequest e q = Inr c"
  shows "NormalizeEpochFence (av_fence q) = Inr (av_fence c)" "av_projection_id c = TrimSpace (av_projection_id q)"
    "av_turn_id c = TrimSpace (av_turn_id q)" "av_finalization_digest c = av_finalization_digest q"
    "\<not> time_is_zero (av_available_at q) \<Longrightarrow> av_available_at c = av_available_at q"
  using assms by (auto simp: normalizeActivateSessionTurnProjectionRequest_def Let_def split: sum.splits)

interpretation activate: validated_operation activateSessionTurnProjectionWrite
  normalizeActivateSessionTurnProjectionRequest av_fence av_fence activate_body
proof
  fix e q c d a d'
  show "activateSessionTurnProjectionWrite e q d = validated (normalizeActivateSessionTurnProjectionRequest e q)
      (\<lambda>c. fenced_tx e (av_fence c) (activate_body c)) d"
    by (simp add: activateSessionTurnProjectionWrite_def)
  assume body: "activate_body c d = Commit a d'"
  then show "controller_epochs d' = controller_epochs d"
    by (auto simp: activate_body_def split: option.splits if_splits)
  show "db_ok d'" if "db_ok d"
    using that body by (rule activate_commit) (use put_outbox_ok [OF that] in auto)
qed (auto dest: normalized_activation)

text \<open>A staged import: a new session without messages, its record and its receipt.\<close>

lemma stage_commit:
  assumes "stage_body q d = Commit a d'"
  obtains s op where "find_row session_pk (native_pk (sg_record q)) (sessions d) = None"
    "s = staged_session (ns_namespace (sg_record q)) (ns_session_name (sg_record q)) (ir_created_at (sg_receipt q))"
    "d' = writeSealedNativeSessionTx (sg_record q) (d\<lparr>sessions := sessions d @ [s]\<rparr>)\<lparr>native_session_operations := op\<rparr>"
    "native_operations.table_ok (native_session_operations d) \<longrightarrow> native_operations.table_ok op"
proof -
  let ?r = "sg_record q"
  let ?s = "staged_session (ns_namespace ?r) (ns_session_name ?r) (ir_created_at (sg_receipt q))"
  let ?o = "\<lparr>no_namespace = ns_namespace ?r, no_session_name = ns_session_name ?r,
    no_operation_id = ns_source_operation_id ?r, no_request_digest = ir_request_digest (sg_receipt q),
    no_kind = kind_import, no_receipt = Some (sg_receipt q)\<rparr>"
  from assms obtain t where t: "sql_insert (\<lambda>_. True) (\<lambda>a b. session_pk a = session_pk b) ?s (sessions d) = Some t"
    and ins: "insert_native_operation ?o (writeSealedNativeSessionTx ?r (d\<lparr>sessions := t\<rparr>)) = Inr d'"
    by (auto simp: stage_body_def Let_def split: option.splits if_splits sum.splits)
  from ins obtain op where op: "d' = writeSealedNativeSessionTx ?r (d\<lparr>sessions := t\<rparr>)\<lparr>native_session_operations := op\<rparr>"
    "sql_insert (\<lambda>_. True) (\<lambda>a b. native_operation_pk a = native_operation_pk b) ?o
      (native_session_operations (writeSealedNativeSessionTx ?r (d\<lparr>sessions := t\<rparr>))) = Some op"
    by (auto simp: insert_native_operation_def split: option.splits)
  have "native_session_operations (writeSealedNativeSessionTx ?r (d\<lparr>sessions := t\<rparr>)) = native_session_operations d"
    by (simp add: writeSealedNativeSessionTx_def)
  with op(2) have "native_operations.table_ok (native_session_operations d) \<longrightarrow> native_operations.table_ok op"
    using native_operations.insert_ok by metis
  moreover have "session_pk ?s = native_pk ?r" by (simp add: staged_session_def session_pk_def native_pk_def)
  with sessions.insert_fresh [OF t] have "find_row session_pk (native_pk ?r) (sessions d) = None" by simp
  moreover have "t = sessions d @ [?s]" using t by (simp add: sql_insert_def split: if_splits)
  ultimately show thesis using that op(1) by blast
qed
section \<open>Runs\<close>

text \<open>
  The operations of the deployment on turns, native state and the outbox, in any order, each with its
  own clock and faults.
\<close>

datatype session_op =
    OpenTurn CreateSessionTurnRecordRequest
  | FinalizeTurn SealedSessionTurnFinalization
  | ActivateProjection ActivateSessionTurnProjectionRequest
  | SaveNative SaveSealedNativeSessionRequest
  | StageImport StageSealedNativeSessionImportRequest
  | ClaimProjections ClaimOutboxProjectionsRequest
  | CompleteProjection CompleteOutboxProjectionRequest

fun session_step :: "env \<Rightarrow> session_op \<Rightarrow> db \<Rightarrow> db" where
  "session_step e (OpenTurn q) d = snd (createSessionTurnRecordWrite e q d)"
| "session_step e (FinalizeTurn q) d = snd (commitSealedSessionTurnFinalizationWrite e q d)"
| "session_step e (ActivateProjection q) d = snd (activateSessionTurnProjectionWrite e q d)"
| "session_step e (SaveNative q) d = snd (saveSealedNativeSessionWrite e q d)"
| "session_step e (StageImport q) d = snd (stageSealedNativeSessionImportWrite e q d)"
| "session_step e (ClaimProjections q) d = snd (ClaimOutboxProjections e q d)"
| "session_step e (CompleteProjection q) d = snd (CompleteOutboxProjection e q d)"

fun session_run :: "(env \<times> session_op) list \<Rightarrow> db \<Rightarrow> db" where
  "session_run [] d = d"
| "session_run ((e, op) # ops) d = session_run ops (session_step e op d)"

text \<open>What one operation does to the tables of the session store.\<close>

inductive turn_step :: "db \<Rightarrow> db \<Rightarrow> bool" where
  kept: "turn_step d d"
| opened: "find_row st_id (st_id row) (session_turns d) = None \<Longrightarrow> st_state row = SessionTurnOpen \<Longrightarrow>
    turn_step d (d\<lparr>session_turns := session_turns d @ [row]\<rparr>)"
| closed: "find_row st_id (st_id turn) (session_turns d) = Some row \<Longrightarrow> finalized q p turn row ms s d d3 d' \<Longrightarrow>
    sf_native_session_digest q = [] \<or> sf_native_session q \<noteq> None \<Longrightarrow> turn_step d d'"
| outboxed: "turn_step d (d\<lparr>outbox_projections := t\<rparr>)"
| saved: "saveSealedNativeSessionTx q d = Inr d' \<Longrightarrow> turn_step d d'"
| staged: "validateStage q = None \<Longrightarrow> stage_body q d = Commit a d' \<Longrightarrow> turn_step d d'"

lemma save_step:
  assumes "db_ok d"
  shows "turn_step d (session_step e (SaveNative q) d) \<and> db_ok (session_step e (SaveNative q) d)"
proof -
  have ok: "db_ok d'" if "saveSealedNativeSessionTx q d = Inr d'" for d'
    using save_native [OF that] assms by (auto simp: db_ok_def writeSealedNativeSessionTx_def)
  show ?thesis
  proof (cases "saveSealedNativeSessionWrite e q d")
    case (Pair r d')
    then show ?thesis
      using assms ok with_tx_ok [of "env_fault e" _ d _ d'] with_tx_error [of "env_fault e" _ d _ d']
      by (cases r) (auto simp: saveSealedNativeSessionWrite_def tx_of_sum_def split: sum.splits
          intro: turn_step.intros dest!: with_tx_ok with_tx_error)
  qed
qed

lemma stage_ok:
  assumes ok: "db_ok d" and run: "stage_body q d = Commit a d'"
  shows "db_ok d'"
  using run
proof (rule stage_commit)
  fix s op
  assume none: "find_row session_pk (native_pk (sg_record q)) (sessions d) = None"
    and s: "s = staged_session (ns_namespace (sg_record q)) (ns_session_name (sg_record q)) (ir_created_at (sg_receipt q))"
    and d': "d' = writeSealedNativeSessionTx (sg_record q) (d\<lparr>sessions := sessions d @ [s]\<rparr>)\<lparr>native_session_operations := op\<rparr>"
  have "session_pk s = native_pk (sg_record q)" by (simp add: s staged_session_def session_pk_def native_pk_def)
  then have "sessions.table_ok (sessions d @ [s])"
    using db_ok_tables(4) [OF ok] none by (auto simp: sessions.table_ok_def sorted_wrt_append find_row_None)
  with ok show ?thesis
    by (auto simp: d' db_ok_def writeSealedNativeSessionTx_def find_row_append split: option.splits)
qed

lemma stage_step:
  assumes "db_ok d"
  shows "turn_step d (session_step e (StageImport q) d) \<and> db_ok (session_step e (StageImport q) d)"
proof (cases "validateStage q")
  case None
  then have "session_step e (StageImport q) d = snd (with_tx (env_fault e) (stage_body q) d)"
    by (simp add: stageSealedNativeSessionImportWrite_def)
  moreover have "\<exists>a. stage_body q d = Commit a d' \<or> d' = d" if "with_tx (env_fault e) (stage_body q) d = (r, d')" for r d'
    using that with_tx_ok [of "env_fault e" "stage_body q" d _ d'] with_tx_error [of "env_fault e" "stage_body q" d _ d']
    by (cases r) auto
  ultimately show ?thesis
    using None assms stage_ok [OF assms] by (cases "with_tx (env_fault e) (stage_body q) d") (auto intro: turn_step.intros)
qed (use assms in \<open>auto simp: stageSealedNativeSessionImportWrite_def intro: turn_step.intros\<close>)

lemma finalize_step:
  assumes "db_ok d"
  shows "turn_step d (session_step e (FinalizeTurn q) d)"
  unfolding session_step.simps
proof (rule commit_turn.after)
  fix a d' and c :: "env \<times> SealedSessionTurnFinalization \<times> OutboxProjection"
  obtain e' r p where c: "c = (e', r, p)" by (cases c)
  assume "finalize_turn_body (fst c) (snd c) d = Commit a d'"
  then show "turn_step d d'" unfolding c fst_conv snd_conv
    by (rule finalize_body_commit [OF assms]) (rule closed)
qed (rule kept)

lemma open_step: "db_ok d \<Longrightarrow> turn_step d (session_step e (OpenTurn q) d)"
  unfolding session_step.simps
proof (rule open_turn.after)
  fix c a d'
  assume c: "validateCreateTurnRecord e q = Inr c" "create_turn_record_body c d = Commit a d'"
  from c(2) show "turn_step d d'"
    by (rule create_record_commit) (auto simp: sql_insert_def split: if_splits intro: opened)
qed (rule kept)

lemma outbox_step:
  assumes "db_ok d"
  shows "turn_step d (session_step e (ActivateProjection q1) d)" "turn_step d (session_step e (ClaimProjections q2) d)"
    "turn_step d (session_step e (CompleteProjection q3) d)"
proof -
  show "turn_step d (session_step e (ActivateProjection q1) d)" unfolding session_step.simps
    by (rule activate.after) (auto elim!: activate_commit [OF assms] intro: turn_step.intros)
  show "turn_step d (session_step e (CompleteProjection q3) d)" unfolding session_step.simps
    by (rule complete.after) (auto elim!: complete_commit [OF assms] intro: turn_step.intros)
  show "turn_step d (session_step e (ClaimProjections q2) d)" unfolding session_step.simps
    by (rule claim.after) (use claim_body_run [OF assms validated_claim(6)] in \<open>auto intro: turn_step.intros\<close>)
qed

lemma session_step_effect:
  assumes "db_ok d"
  shows "turn_step d (session_step e op d)" "db_ok (session_step e op d)"
  by (cases op; use assms open_step finalize_step outbox_step save_step stage_step in simp)
    (cases op; use assms open_turn.keeps_ok commit_turn.keeps_ok activate.keeps_ok claim.keeps_ok complete.keeps_ok
       save_step stage_step in simp)
section \<open>The invariant of the session tables\<close>

text \<open>
  The messages satisfy their unique indexes and belong to sessions, every session counts its messages,
  the native snapshots are valid and cover no more than the transcript, and native digests belong to
  finalized turns.
\<close>

definition session_tables_ok :: "db \<Rightarrow> bool" where
  "session_tables_ok d \<longleftrightarrow>
     messages_ok (session_messages d) \<and>
     (\<forall>m \<in> set (session_messages d). find_row session_pk (sm_namespace m, sm_session_name m) (sessions d) \<noteq> None) \<and>
     (\<forall>s \<in> set (sessions d). ss_message_count s = int (length (session_transcript (ss_namespace s) (ss_name s) d))) \<and>
     native_ok d \<and> finalizations_ok d"

lemma transcript_append:
  "session_transcript namespace name (d\<lparr>session_messages := session_messages d @ ms\<rparr>) =
   session_transcript namespace name d @ filter (in_session namespace name) ms"
  by (simp add: session_transcript_def in_session_def [abs_def])

lemma session_transcript_cong:
  "session_messages d' = session_messages d \<Longrightarrow> session_transcript n s d' = session_transcript n s d"
  by (simp add: session_transcript_def)

lemma counted_native_ok:
  assumes ok: "native_ok d" and s: "find_row session_pk (sf_namespace q, sf_session_name q) (sessions d) = Some s"
  shows "native_ok (counted_db q ms s d)"
proof -
  have pk: "session_pk s = (sf_namespace q, sf_session_name q)" using find_row_SomeD [OF s] by simp
  have "snapshot_covers (counted_db q ms s d) n" if "snapshot_covers d n" for n
  proof -
    have "find_row session_pk (native_pk n) (sessions (counted_db q ms s d)) =
        (if native_pk n = session_pk s then Some (counted_session q (int (length ms)) s)
         else find_row session_pk (native_pk n) (sessions d))"
      using put_row_result [OF s, of "counted_session q (int (length ms)) s"] pk by (simp add: counted_db_def)
    with that s pk show ?thesis by (auto simp: snapshot_covers_def split: option.splits)
  qed
  with ok show ?thesis by (simp add: native_ok_def counted_db_def)
qed

lemma finalized_native_ok:
  assumes ok: "native_ok d" and fin: "finalized q p turn row ms s d d3 d'"
  shows "native_ok d'"
proof -
  let ?d2 = "counted_db q ms s d"
  have s: "find_row session_pk (sf_namespace q, sf_session_name q) (sessions d) = Some s"
    and run: "commitSealedNativeFinalizationTx (st_id turn) (sf_namespace q) (sf_session_name q)
       (tk_session_uid (sf_key q)) (sf_native_session q) (sf_native_session_digest q) ?d2 = Inr d3"
    using fin by (simp_all add: finalized_def)
  note ok2 = counted_native_ok [OF ok s, of ms]
  have "native_ok d3"
  proof (cases "sf_native_session q")
    case None
    with run ok2 show ?thesis by (simp add: commitSealedNativeFinalizationTx_def)
  next
    case (Some n)
    from run [unfolded Some] show ?thesis
    proof (rule native_commit)
      fix s1 d1
      assume pk: "native_pk (fn_record n) = (sf_namespace q, sf_session_name q)"
        and s1: "find_row session_pk (sf_namespace q, sf_session_name q) (sessions ?d2) = Some s1"
          "ss_message_count s1 = ns_message_count (fn_record n)"
        and d1: "if fn_carried n then carrySealedNativeSessionTx (tk_session_uid (sf_key q)) n ?d2 = Inr d1
           else ns_session_uid (fn_record n) = tk_session_uid (sf_key q) \<and>
             saveSealedNativeSessionTx \<lparr>sv_record = fn_record n, sv_request_digest = fn_request_digest n\<rparr> ?d2 = Inr d1"
        and fresh: "find_row nf_turn_id (st_id turn) (native_session_finalizations d1) = None"
        and d3: "d3 = d1\<lparr>native_session_finalizations := native_session_finalizations d1 @
          [\<lparr>nf_turn_id = st_id turn, nf_namespace = sf_namespace q, nf_session_name = sf_session_name q,
            nf_capture_digest = sf_native_session_digest q\<rparr>]\<rparr>"
      have "snapshot_covers ?d2 (fn_record n)" using pk s1 by (simp add: snapshot_covers_def)
      with native_commit_read(4) [OF d1 pk ok2] have "native_ok d1" .
      then show "native_ok d3"
        using fresh by (auto simp: d3 native_ok_def snapshot_covers_def native_finalizations.table_ok_def
            sorted_wrt_append find_row_None)
    qed
  qed
  moreover have "native_ok d' = native_ok d3"
    by (subst finalized_tables(7) [OF fin]) (simp add: native_ok_def snapshot_covers_def)
  ultimately show ?thesis by simp
qed

lemma finalized_finalizations_ok:
  assumes ok: "finalizations_ok d" and get: "find_row st_id (st_id turn) (session_turns d) = Some row"
    and fin: "finalized q p turn row ms s d d3 d'" and dig: "sf_native_session_digest q = [] \<or> sf_native_session q \<noteq> None"
  shows "finalizations_ok d'"
proof -
  have "st_id row = st_id turn" using find_row_SomeD [OF get] by simp
  then have find: "find_row st_id k (session_turns d') =
      (if k = st_id turn then Some (finalize_set q p row) else find_row st_id k (session_turns d))" for k
    using put_row_result [OF get] by (simp add: finalized_tables(3) [OF fin])
  show ?thesis
    using ok unfolding finalizations_ok_def finalized_digests(1) [OF fin dig]
    by (auto simp: find split: option.splits)
qed

lemma finalized_counts:
  assumes ok: "\<forall>s \<in> set (sessions d). ss_message_count s = int (length (session_transcript (ss_namespace s) (ss_name s) d))"
    and fin: "finalized q p turn row ms s d d3 d'" and s': "s' \<in> set (sessions d')"
  shows "ss_message_count s' = int (length (session_transcript (ss_namespace s') (ss_name s') d'))"
proof -
  let ?k = "(sf_namespace q, sf_session_name q)"
  have s: "s \<in> set (sessions d)" "session_pk s = ?k"
    using fin find_row_SomeD [of session_pk ?k "sessions d" s] by (simp_all add: finalized_def)
  have ms: "\<forall>m \<in> set ms. in_session (sf_namespace q) (sf_session_name q) m" using fin by (simp add: finalized_def)
  have tr: "session_transcript n x d' = session_transcript n x d @ filter (in_session n x) ms" for n x
    using finalized_tables(1) [OF fin] by (simp add: session_transcript_def in_session_def [abs_def])
  from s' have "s' = counted_session q (int (length ms)) s \<or> s' \<in> set (sessions d) \<and> session_pk s' \<noteq> ?k"
    unfolding finalized_tables(2) [OF fin] by (rule set_put_row)
  then show ?thesis
  proof
    assume s': "s' = counted_session q (int (length ms)) s"
    then have "session_pk s' = ?k" using s by simp
    then have n: "ss_namespace s' = sf_namespace q" "ss_name s' = sf_session_name q" by (simp_all add: session_pk_def)
    moreover have "ss_namespace s = sf_namespace q" "ss_name s = sf_session_name q" using s by (simp_all add: session_pk_def)
    moreover have "filter (in_session (sf_namespace q) (sf_session_name q)) ms = ms" using ms by (simp add: filter_id_conv)
    ultimately show ?thesis using ok s(1) by (auto simp: tr n s')
  next
    assume o: "s' \<in> set (sessions d) \<and> session_pk s' \<noteq> ?k"
    then have "filter (in_session (ss_namespace s') (ss_name s')) ms = []"
      using ms by (auto simp: filter_empty_conv in_session_def session_pk_def)
    with o ok show ?thesis by (simp add: tr)
  qed
qed

lemma finalized_tables_ok:
  assumes ok: "session_tables_ok d" and get: "find_row st_id (st_id turn) (session_turns d) = Some row"
    and fin: "finalized q p turn row ms s d d3 d'" and dig: "sf_native_session_digest q = [] \<or> sf_native_session q \<noteq> None"
  shows "session_tables_ok d'"
proof -
  let ?k = "(sf_namespace q, sf_session_name q)"
  have s: "find_row session_pk ?k (sessions d) = Some s" and ms: "\<forall>m \<in> set ms. in_session (sf_namespace q) (sf_session_name q) m"
    using fin by (simp_all add: finalized_def)
  have "session_pk (counted_session q (int (length ms)) s) = ?k" using find_row_SomeD [OF s] by simp
  then have sess: "find_row session_pk k (sessions d') = None \<longleftrightarrow> find_row session_pk k (sessions d) = None" for k
    unfolding finalized_tables(2) [OF fin] by (rule find_row_put_row_None)
  have "\<forall>m \<in> set (session_messages d'). find_row session_pk (sm_namespace m, sm_session_name m) (sessions d') \<noteq> None"
    using ok s ms by (auto simp: sess finalized_tables(1) [OF fin] session_tables_ok_def in_session_def)
  moreover have "messages_ok (session_messages d')"
    using ok fin by (simp add: session_tables_ok_def finalized_def finalized_tables(1) [OF fin])
  ultimately show ?thesis
    using ok finalized_counts [OF _ fin] finalized_native_ok [OF _ fin] finalized_finalizations_ok [OF _ get fin dig]
    by (auto simp: session_tables_ok_def)
qed

lemma staged_tables_ok:
  assumes ok: "session_tables_ok d" and val: "validateStage q = None" and run: "stage_body q d = Commit a d'"
  shows "session_tables_ok d'"
  using run
proof (rule stage_commit)
  fix s op
  let ?r = "sg_record q"
  assume none: "find_row session_pk (native_pk ?r) (sessions d) = None"
    and s: "s = staged_session (ns_namespace ?r) (ns_session_name ?r) (ir_created_at (sg_receipt q))"
    and d': "d' = writeSealedNativeSessionTx ?r (d\<lparr>sessions := sessions d @ [s]\<rparr>)\<lparr>native_session_operations := op\<rparr>"
    and op: "native_operations.table_ok (native_session_operations d) \<longrightarrow> native_operations.table_ok op"
  let ?d1 = "d\<lparr>sessions := sessions d @ [s]\<rparr>"
  have sf: "session_pk s = native_pk ?r" "ss_message_count s = 0" "ss_namespace s = ns_namespace ?r" "ss_name s = ns_session_name ?r"
    by (simp_all add: s staged_session_def session_pk_def native_pk_def)
  have v: "SealedNativeSession_Validate ?r = None" "ns_message_count ?r = 0" using val by (simp_all add: validateStage_def Let_def)
  have "native_ok ?d1"
    using ok by (auto simp: session_tables_ok_def native_ok_def snapshot_covers_def find_row_append split: option.splits)
  moreover have "snapshot_covers ?d1 ?r" using none sf v by (simp add: snapshot_covers_def find_row_append)
  ultimately have "native_ok (writeSealedNativeSessionTx ?r ?d1)" using v(1) by (intro write_native_ok)
  moreover have "native_operations.table_ok op" using op ok by (simp add: session_tables_ok_def native_ok_def)
  ultimately have nat: "native_ok d'" by (simp add: d' native_ok_def snapshot_covers_def)
  have "session_transcript (ns_namespace ?r) (ns_session_name ?r) d = []"
    using ok none by (auto simp: session_tables_ok_def session_transcript_def filter_empty_conv native_pk_def)
  with ok nat sf show ?thesis
    by (auto simp: session_tables_ok_def d' writeSealedNativeSessionTx_def session_transcript_def find_row_append
        finalizations_ok_def split: option.splits)
qed

lemma saved_tables_ok:
  assumes ok: "session_tables_ok d" and run: "saveSealedNativeSessionTx q d = Inr d'"
  shows "session_tables_ok d'"
proof -
  have "native_ok d'" using save_native_ok [OF _ run] ok by (simp add: session_tables_ok_def)
  then show ?thesis
    using ok save_native [OF run]
    by (auto simp: session_tables_ok_def writeSealedNativeSessionTx_def session_transcript_def finalizations_ok_def)
qed

lemma turn_step_tables: "turn_step d d' \<Longrightarrow> session_tables_ok d \<Longrightarrow> session_tables_ok d'"
proof (induction rule: turn_step.induct)
  case (opened row d)
  then show ?case
    by (auto simp: session_tables_ok_def native_ok_def snapshot_covers_def finalizations_ok_def session_transcript_def
        find_row_append split: option.splits)
next
  case (outboxed d t)
  then show ?case
    by (auto simp: session_tables_ok_def native_ok_def snapshot_covers_def finalizations_ok_def session_transcript_def)
qed (auto intro: finalized_tables_ok staged_tables_ok saved_tables_ok)

section \<open>Finalized turns\<close>

lemma turn_step_final:
  assumes "turn_step d d'" "find_row st_id k (session_turns d) = Some row" "st_state row = SessionTurnFinalized"
  shows "find_row st_id k (session_turns d') = Some row \<and> native_digest k d' = native_digest k d"
  using assms
proof (induction rule: turn_step.induct)
  case (closed turn d orow q p ms s d3 d')
  then have "st_state orow = SessionTurnOpen" by (simp add: finalized_def)
  with closed have k: "k \<noteq> st_id turn" by auto
  have "st_id (finalize_set q p orow) = st_id turn" using find_row_SomeD [OF closed(1)] by simp
  then have "find_row st_id k (session_turns d') = find_row st_id k (session_turns d)"
    unfolding finalized_tables(3) [OF closed(2)] by (rule find_row_put_row_other [OF k])
  moreover have "native_digest k d' = native_digest k d"
    unfolding native_digest_def finalized_digests(1) [OF closed(2,3)] using k
    by (auto simp: find_row_append split: option.splits)
  ultimately show ?case using closed by simp
next
  case (saved q d d')
  then show ?case using save_native [OF saved(1)] by (auto simp: native_digest_def writeSealedNativeSessionTx_def)
next
  case (staged q d a d')
  from staged(2) show ?case
    by (rule stage_commit) (use staged in \<open>simp add: native_digest_def writeSealedNativeSessionTx_def\<close>)
qed (auto simp: native_digest_def find_row_append)

lemma turn_step_messages:
  assumes "turn_step d d'"
  shows "\<exists>ms. session_messages d' = session_messages d @ ms"
  using assms
proof (induction rule: turn_step.induct)
  case (closed turn d row q p ms s d3 d')
  then show ?case using finalized_tables(1) by blast
next
  case (saved q d d')
  then show ?case using save_native [OF saved] by (auto simp: writeSealedNativeSessionTx_def)
next
  case (staged q d a d')
  from staged(2) show ?case by (rule stage_commit) (simp add: writeSealedNativeSessionTx_def)
qed auto

section \<open>Deferred projections\<close>

fun releases :: "string \<Rightarrow> session_op \<Rightarrow> bool" where
  "releases k (ActivateProjection q) \<longleftrightarrow> TrimSpace (av_projection_id q) = k"
| "releases k _ \<longleftrightarrow> False"

text \<open>The clock of a claim is before the deferred time, the end of the year 9999.\<close>

fun before_deferral :: "env \<Rightarrow> session_op \<Rightarrow> bool" where
  "before_deferral e (ClaimProjections q) \<longleftrightarrow> NormalizeControlTime e (oc_now q) < deferredSessionTurnProjectionTime"
| "before_deferral e _ \<longleftrightarrow> True"

definition waits :: "string \<Rightarrow> OutboxProjection \<Rightarrow> db \<Rightarrow> bool" where
  "waits k p d \<longleftrightarrow> find_row ob_id k (outbox_projections d) = Some p \<and> ob_state p = OutboxProjectionPending \<and>
     ob_available_at p = deferredSessionTurnProjectionTime"

lemma find_row_map:
  assumes "\<And>x. pk (f x) = pk x"
  shows "find_row pk k (map f t) = map_option f (find_row pk k t)"
  using assms by (induction t) auto

lemma validated_claim_now: "validateClaim e q = Inr c \<Longrightarrow> oc_now c = NormalizeControlTime e (oc_now q)"
  by (auto simp: validateClaim_def Let_def split: sum.splits)

lemma waiting_not_due:
  assumes ok: "db_ok d" and w: "waits k p d" and now: "oc_now c < deferredSessionTurnProjectionTime"
  shows "k \<notin> ob_id ` set (due_rows c (outbox_projections d))"
proof
  assume "k \<in> ob_id ` set (due_rows c (outbox_projections d))"
  then obtain p' where p': "p' \<in> set (due_rows c (outbox_projections d))" "ob_id p' = k" by auto
  from due_rows_find [OF db_ok_tables(10) [OF ok] p'(1)] p'(2) w have "p' = p" by (simp add: waits_def)
  with due_rows_due [OF p'(1)] w now show False by (auto simp: waits_def outbox_due_def)
qed

lemma waits_enqueue:
  assumes "waits k p d" "enqueueOutboxProjectionTx x cmp d = (Inr b, d')"
  shows "waits k p d'"
proof -
  have "outbox_projections d' = outbox_projections d @ [outbox_row x] \<or> d' = d"
    using enqueue_tx_ok [OF assms(2)] by (auto simp: sql_insert_def split: if_splits)
  with assms(1) show ?thesis by (auto simp: waits_def find_row_append)
qed

lemma waits_finalize:
  assumes "db_ok d" "waits k p d" "finalize_turn_body e (q, x) d = Commit a d'"
  shows "waits k p d'"
  using assms(1,3)
proof (rule finalize_body_commit)
  fix turn row ms s d3
  assume f: "finalized q x turn row ms s d d3 d'"
  have "waits k p (d3\<lparr>session_turns := put_row st_id (st_id turn) (finalize_set q x row) (session_turns d)\<rparr>)"
    using assms(2) finalized_tables(5) [OF f] by (simp add: waits_def)
  with f show ?thesis unfolding finalized_def by (blast intro: waits_enqueue)
qed

lemma waits_put:
  assumes "waits k p d" "d' = d\<lparr>outbox_projections := put_row ob_id k' a (outbox_projections d)\<rparr>" "k' \<noteq> k" "ob_id a = k'"
  shows "waits k p d'"
  using assms find_row_put_row_other [of k k' ob_id a "outbox_projections d"] by (simp add: waits_def)

lemma waits_step:
  assumes ok: "db_ok d" and w: "waits k p d" and op: "\<not> releases k op" "before_deferral e op"
  shows "waits k p (session_step e op d)"
proof (cases op)
  case (OpenTurn q)
  show ?thesis unfolding OpenTurn session_step.simps
    by (rule open_turn.after) (use w in \<open>auto simp: waits_def elim!: create_record_commit\<close>)
next
  case (FinalizeTurn q)
  show ?thesis unfolding FinalizeTurn session_step.simps
    by (rule commit_turn.after) (use ok w in \<open>auto intro: waits_finalize\<close>)
next
  case (ActivateProjection q)
  show ?thesis unfolding ActivateProjection session_step.simps
  proof (rule activate.after)
    fix c a d'
    assume c: "normalizeActivateSessionTurnProjectionRequest e q = Inr c" "activate_body c d = Commit a d'"
    have k: "av_projection_id c \<noteq> k" using op(1) normalized_activation(2) [OF c(1)] by (simp add: ActivateProjection)
    from ok c(2) show "waits k p d'"
      by (rule activate_commit) (use waits_put [OF w _ k] find_row_SomeD in fastforce)
  qed (rule w)
next
  case (SaveNative q)
  have "session_step e op d = d \<or> saveSealedNativeSessionTx q d = Inr (session_step e op d)"
    by (auto simp: SaveNative saveSealedNativeSessionWrite_def with_tx_def tx_of_sum_def split: sum.splits)
  then show ?thesis using w save_native [of q d "session_step e op d"] by (auto simp: waits_def writeSealedNativeSessionTx_def)
next
  case (StageImport q)
  have "session_step e op d = d \<or> (\<exists>a. stage_body q d = Commit a (session_step e op d))"
    by (auto simp: StageImport stageSealedNativeSessionImportWrite_def with_tx_def split: option.splits tx_result.splits)
  then show ?thesis using w by (auto simp: waits_def writeSealedNativeSessionTx_def elim!: stage_commit)
next
  case (ClaimProjections q)
  show ?thesis unfolding ClaimProjections session_step.simps
  proof (rule claim.after)
    fix c a d'
    assume c: "validateClaim e q = Inr c" "claim_body c d = Commit a d'"
    have "k \<notin> ob_id ` set (due_rows c (outbox_projections d))"
      using op(2) by (intro waiting_not_due [OF ok w]) (simp add: ClaimProjections validated_claim_now [OF c(1)])
    moreover have "ob_id p = k" using w find_row_SomeD by (fastforce simp: waits_def)
    ultimately show "waits k p d'"
      using c(2) w by (auto simp: claim_body_run [OF ok validated_claim(6) [OF c(1)]] waits_def find_row_map)
  qed (rule w)
next
  case (CompleteProjection q)
  show ?thesis unfolding CompleteProjection session_step.simps
  proof (rule complete.after)
    fix c a d'
    assume "complete_body c d = Commit a d'"
    with ok show "waits k p d'"
    proof (rule complete_commit)
      fix x
      assume x: "find_row ob_id (od_id c) (outbox_projections d) = Some x" "ob_state x = OutboxProjectionDelivering"
        and a: "a = complete_result c x" "d' = d\<lparr>outbox_projections := put_row ob_id (od_id c) a (outbox_projections d)\<rparr>"
      have "od_id c \<noteq> k" using x w by (auto simp: waits_def)
      from waits_put [OF w a(2) this] a(1) find_row_SomeD [OF x(1)] show ?thesis by simp
    qed
  qed (rule w)
qed

section \<open>Properties\<close>

lemma session_run_keeps:
  assumes "db_ok d"
  shows "db_ok (session_run ops d)" "session_tables_ok d \<Longrightarrow> session_tables_ok (session_run ops d)"
    "\<exists>ms. session_messages (session_run ops d) = session_messages d @ ms"
proof -
  have "db_ok (session_run ops d) \<and> (session_tables_ok d \<longrightarrow> session_tables_ok (session_run ops d)) \<and>
    (\<exists>ms. session_messages (session_run ops d) = session_messages d @ ms)"
    using assms
  proof (induction ops d rule: session_run.induct)
    case (2 e op ops d)
    note step = session_step_effect [OF 2(2), of e op]
    from turn_step_messages [OF step(1)] turn_step_tables [OF step(1)] 2(1) [OF step(2)] show ?case by auto
  qed simp
  then show "db_ok (session_run ops d)" "session_tables_ok d \<Longrightarrow> session_tables_ok (session_run ops d)"
    "\<exists>ms. session_messages (session_run ops d) = session_messages d @ ms" by auto
qed

text \<open>
  The session tables keep their shape under any sequence of operations: every message belongs to a
  session and has its own id and position, every session counts exactly the messages of its
  transcript, every native snapshot is a valid record that covers no more than that transcript, native
  digests belong to finalized turns, and transcripts are only ever appended to.
\<close>

theorem session_tables_typed:
  assumes "db_ok d" "session_tables_ok d"
  shows "db_ok (session_run ops d) \<and> session_tables_ok (session_run ops d) \<and>
    (\<exists>ms. session_messages (session_run ops d) = session_messages d @ ms)"
  using session_run_keeps [OF assms(1)] assms(2) by blast


lemma waits_run:
  assumes "db_ok d" "waits k p d" "\<forall>(e, op) \<in> set ops. \<not> releases k op \<and> before_deferral e op"
  shows "waits k p (session_run ops d)"
  using assms
proof (induction ops d rule: session_run.induct)
  case (2 e op ops d)
  from 2(1) [OF session_step_effect(2) [OF 2(2)] waits_step [OF 2(2,3)]] 2(4) show ?case by auto
qed simp

text \<open>
  C31: the projection of a finalization is held back until it is activated: in any run without its
  activation it stays pending and unclaimed, and no claim before the deferred time returns it.
\<close>

theorem projection_deferred:
  assumes ok: "db_ok d" and run: "commitSealedSessionTurnFinalizationWrite e q d = (Inr t, d')" and change: "d' \<noteq> d"
    and new: "find_row ob_id (TrimSpace (ob_id (sf_projection q))) (outbox_projections d) = None"
    and ops: "\<forall>(e, op) \<in> set ops. \<not> releases (TrimSpace (ob_id (sf_projection q))) op \<and> before_deferral e op"
    and claim: "ClaimOutboxProjections e2 c (session_run ops d') = (Inr ps, d2)"
    and now: "NormalizeControlTime e2 (oc_now c) < deferredSessionTurnProjectionTime"
  shows "(\<exists>p. find_row ob_id (TrimSpace (ob_id (sf_projection q))) (outbox_projections (session_run ops d')) = Some p \<and>
      ob_state p = OutboxProjectionPending \<and> ob_attempts p = 0 \<and> ob_aggregate_id p = st_id t \<and>
      ob_payload p = ob_payload (sf_projection q)) \<and>
    (\<forall>p \<in> set ps. ob_id p \<noteq> TrimSpace (ob_id (sf_projection q)))"
  using ok run change
proof (rule commit_success)
  fix r p turn row ms s d3
  let ?k = "TrimSpace (ob_id (sf_projection q))" and ?D = deferredSessionTurnProjectionTime
  assume n: "normalizeSealedSessionTurnFinalization e q = Inr (r, p)" and tid: "session_turn_id e (sf_key q) = st_id turn"
    and f: "finalized r p turn row ms s d d3 d'" and t: "t = finalize_result r p turn" and ok': "db_ok d'"
  let ?p = "p\<lparr>ob_available_at := ?D\<rparr>"
  from normalized_finalization(3) [OF n] obtain fe where
    np: "normalizeOutboxProjectionForCreate e (sf_projection q) (sf_fence r) (sf_finalized_at r) = Inr (p, fe)" by blast
  note o = normalized_outbox [OF np]
  have pay: "ob_payload p = ob_payload (sf_projection q)"
    using np by (auto simp: normalizeOutboxProjectionForCreate_def Let_def outbox_defaults_def split: sum.splits)
  have agg: "ob_aggregate_id p = st_id t"
    using normalized_finalization(4) [OF n] tid by (simp add: t finalize_result_def SessionTurnKey_CanonicalID_def)
  obtain b where enq: "enqueueOutboxProjectionTx ?p True (d3\<lparr>session_turns := put_row st_id (st_id turn)
      (finalize_set r p row) (session_turns d)\<rparr>) = (Inr b, d')" using f by (auto simp: finalized_def)
  have none: "find_row ob_id ?k (outbox_projections d3) = None" using new finalized_tables(5) [OF f] by simp
  have "outbox_projections d' = outbox_projections d3 @ [outbox_row ?p]"
    using enqueue_tx_ok [OF enq] none o(2) by (auto simp: sql_insert_def split: if_splits)
  then have "find_row ob_id ?k (outbox_projections d') = Some (outbox_row ?p)" using none o(2) by (simp add: find_row_append)
  then have "waits ?k (outbox_row ?p) d'" using o(3) by (simp add: waits_def outbox_row_def)
  from waits_run [OF ok' this ops] have w: "waits ?k (outbox_row ?p) (session_run ops d')" .
  note okr = session_run_keeps(1) [OF ok', of ops]
  from okr claim obtain cc where cc: "validateClaim e2 c = Inr cc"
    "ps = map (claim_result cc) (due_rows cc (outbox_projections (session_run ops d')))" by (rule claim_success)
  have "?k \<notin> ob_id ` set (due_rows cc (outbox_projections (session_run ops d')))"
    by (rule waiting_not_due [OF okr w]) (use now validated_claim_now [OF cc(1)] in simp)
  then have "\<forall>p \<in> set ps. ob_id p \<noteq> ?k" by (auto simp: cc(2) image_iff)
  moreover have "ob_attempts (outbox_row ?p) = 0" "ob_state (outbox_row ?p) = OutboxProjectionPending"
    "ob_aggregate_id (outbox_row ?p) = st_id t" "ob_payload (outbox_row ?p) = ob_payload (sf_projection q)"
    using o(3) agg pay by (simp_all add: outbox_row_def)
  ultimately show ?thesis using w by (auto simp: waits_def)
qed

text \<open>
  An activation that changes the store releases the projection of a finalized turn, for exactly
  the time it names: the projection was pending, never attempted and unleased, it becomes due from
  that time on, and nothing else in the store changes.
\<close>

theorem activation_exact:
  assumes ok: "db_ok d" and run: "activateSessionTurnProjectionWrite e q d = (Inr p', d')" and change: "d' \<noteq> d"
    and at: "\<not> time_is_zero (av_available_at q)"
  shows "\<exists>p turn. find_row ob_id (TrimSpace (av_projection_id q)) (outbox_projections d) = Some p \<and>
    ob_state p = OutboxProjectionPending \<and> ob_attempts p = 0 \<and> ob_lease_owner p = [] \<and>
    ob_aggregate_id p = TrimSpace (av_turn_id q) \<and>
    getSessionTurn (TrimSpace (av_turn_id q)) d = Some turn \<and> st_state turn = SessionTurnFinalized \<and>
    st_finalization_digest turn = av_finalization_digest q \<and>
    d' = d\<lparr>outbox_projections := put_row ob_id (TrimSpace (av_projection_id q)) p' (outbox_projections d)\<rparr> \<and>
    ob_id p' = ob_id p \<and> ob_payload p' = ob_payload p \<and> ob_version p' = ob_version p + 1 \<and>
    (\<forall>now. outbox_due now p' \<longleftrightarrow> av_available_at q \<le> now)"
proof -
  from run change obtain c where c: "normalizeActivateSessionTurnProjectionRequest e q = Inr c" "activate_body c d = Commit p' d'"
    by (auto elim!: activate.success)
  note eqs = normalized_activation [OF c(1)]
  from ok c(2) show ?thesis
  proof (rule activate_commit)
    fix p turn
    assume t: "getSessionTurn (av_turn_id c) d = Some turn" "st_state turn = SessionTurnFinalized"
        "st_finalization_digest turn = av_finalization_digest c"
      and p: "find_row ob_id (av_projection_id c) (outbox_projections d) = Some p" "ob_aggregate_id p = av_turn_id c"
        "ob_state p = OutboxProjectionPending" "ob_attempts p = 0" "ob_lease_owner p = []"
      and p': "p' = activate_set c p"
        "d' = d\<lparr>outbox_projections := put_row ob_id (av_projection_id c) p' (outbox_projections d)\<rparr>"
    have "\<forall>now. outbox_due now p' \<longleftrightarrow> av_available_at q \<le> now"
      using p p' eqs(5) [OF at] by (simp add: outbox_due_def)
    moreover have "ob_id p' = ob_id p" "ob_payload p' = ob_payload p" "ob_version p' = ob_version p + 1"
      by (simp_all add: p' activate_set_def)
    ultimately show ?thesis using t p p'(2) eqs by (intro exI [of _ p] exI [of _ turn]) simp
  qed
qed

end
