(* ===== verification/Store_Runs.thy ===== *)
theory Store_Runs
  imports Session_Store Session_Runs
begin

text \<open>
  Sequences of operations of the session store, interleaved with the operations on turns, native state
  and the outbox (\<open>Session_Runs\<close>) and with changes of the gateway's events.  \<open>row_move\<close> is the state
  machine of one session row: who may take, renew and release its Task lock and its chat reservation,
  and what its counters do.  \<open>exec_row\<close> shows that every operation moves every row along it; the
  exclusiveness of locks and the fate of competing chat turns are proved over the state machine.
\<close>

section \<open>Operations\<close>

datatype store_op =
    CreateSession SessionRecord
  | AcquireLock string string string string
  | LockUntil string string string string gotime
  | AcquireTurn "SessionRecord option" string gotime
  | ReleaseTurn string string string bool
  | ReleaseLock string string string string
  | IsLocked string string string string
  | AppendMessages string string string string "SessionMessage list"
  | CommitTurn "SessionRecord option" string int "SessionMessage list" int int
  | CountTokens string string int int
  | CountTokensLocked string string string string int int
  | ReleaseLockCounted string string string string int int
  | DeleteSession string string
  | TurnOp env session_op
  | GatewayStep "GatewayEventRow list"

definition on_control :: "(db \<Rightarrow> 'a \<times> db) \<Rightarrow> store_db \<Rightarrow> store_db" where
  "on_control f d = d\<lparr>control := snd (f (control d))\<rparr>"

fun store_exec :: "session_env \<Rightarrow> store_op \<Rightarrow> store_db \<Rightarrow> store_db" where
  "store_exec e (CreateSession s) d = on_control (createSessionWrite e s) d"
| "store_exec e (AcquireLock n m t u) d = on_control (acquireLockWrite e (gateway_events d) n m t u) d"
| "store_exec e (LockUntil n m t u x) d = on_control (AcquireLockUntil e (gateway_events d) n m t u x) d"
| "store_exec e (AcquireTurn s t x) d = on_control (acquireChatTurnWrite e s t x) d"
| "store_exec e (ReleaseTurn n m t b) d = on_control (releaseChatTurnWrite e n m t b) d"
| "store_exec e (ReleaseLock n m t u) d = on_control (releaseLockWrite e n m t u) d"
| "store_exec e (IsLocked n m t u) d = on_control (isLockedWrite e n m t u) d"
| "store_exec e (AppendMessages n m t u ms) d = on_control (appendMessages e n m t u ms) d"
| "store_exec e (CommitTurn s t c ms i k) d = on_control (commitSessionTurnWrite e s t c ms i k) d"
| "store_exec e (CountTokens n m i k) d = on_control (updateTokenCountsWrite e n m i k) d"
| "store_exec e (CountTokensLocked n m t u i k) d = on_control (updateTokenCountsWithLockWrite e n m t u i k) d"
| "store_exec e (ReleaseLockCounted n m t u i k) d = on_control (releaseLockWithTokenUsageWrite e n m t u i k) d"
| "store_exec e (DeleteSession n m) d = snd (deleteSessionWrite e n m d)"
| "store_exec e (TurnOp e' x) d = d\<lparr>control := session_step e' x (control d)\<rparr>"
| "store_exec e (GatewayStep v) d = d\<lparr>gateway_events := v\<rparr>"

fun store_run :: "(session_env \<times> store_op) list \<Rightarrow> store_db \<Rightarrow> store_db" where
  "store_run [] d = d"
| "store_run ((e, x) # xs) d = store_run xs (store_exec e x d)"

lemma control_on_control [simp]: "control (on_control f d) = snd (f (control d))"
  by (simp add: on_control_def)

section \<open>Statements on the sessions table\<close>

abbreviation row_at :: "string \<times> string \<Rightarrow> db \<Rightarrow> SessionRow option" where
  "row_at k d \<equiv> find_row session_pk k (sessions d)"

lemma row_pk: "row_at k d = Some s \<Longrightarrow> session_pk s = k"
  using find_row_SomeD by fastforce

lemma update_row:
  assumes "\<And>s. session_pk (f s) = session_pk s"
  shows "row_at k (update_sessions W f d) = map_option (\<lambda>s. if W s then f s else s) (row_at k d)"
  unfolding update_sessions_def by (simp add: find_row_map assms)

lemma update_other [simp]:
  "session_messages (update_sessions W f d) = session_messages d"
  "session_cleanup_intents (update_sessions W f d) = session_cleanup_intents d"
  "session_turns (update_sessions W f d) = session_turns d"
  "session_controls (update_sessions W f d) = session_controls d"
  "outbox_projections (update_sessions W f d) = outbox_projections d"
  "native_session_snapshots (update_sessions W f d) = native_session_snapshots d"
  by (simp_all add: update_sessions_def)

lemma row_functions_pk [simp]:
  "session_pk (take_lock t u x s) = session_pk s" "session_pk (reserve_turn t y now s) = session_pk s"
  "session_pk (release_turn s) = session_pk s" "session_pk (count_messages n now s) = session_pk s"
  "session_pk (count_chat_turn n i k now s) = session_pk s" "session_pk (count_tokens i k now s) = session_pk s"
  by (simp_all add: session_pk_def take_lock_def reserve_turn_def release_turn_def count_messages_def
      count_chat_turn_def count_tokens_def)

lemma insert_row:
  assumes "insert_session s d = Some d'"
  shows "row_at (session_pk s) d = None" "d' = d\<lparr>sessions := sessions d @ [s]\<rparr>"
  using assms by (auto simp: insert_session_def sql_insert_def find_row_None list_ex_iff split: if_splits)

lemma insert_keeps_row:
  assumes "insert_session s d = Some d'" "row_at k d = Some r"
  shows "row_at k d' = Some r"
  using insert_row(2) [OF assms(1)] assms(2) by (simp add: find_row_append)

lemma forget_completion_kept [simp]:
  "sessions (forget_completion n m d) = sessions d" "session_messages (forget_completion n m d) = session_messages d"
  "session_cleanup_intents (forget_completion n m d) = session_cleanup_intents d"
  by (simp_all add: forget_completion_def)

lemma insert_message_sessions:
  "insert_message e n m i msg d = Inr (b, d') \<Longrightarrow> sessions d' = sessions d"
  by (auto simp: insert_message_def Let_def split: sum.splits option.splits if_splits)

lemma insert_messages_sessions:
  "insert_messages e n m i msgs d = Inr (c, d') \<Longrightarrow> sessions d' = sessions d"
  by (induction msgs arbitrary: i d c)
    (auto split: sum.splits prod.splits dest!: insert_message_sessions)

lemma find_row_filter_pk:
  "find_row pk k (filter (\<lambda>r. pk r \<noteq> k') t) = (if k = k' then None else find_row pk k t)"
  by (induction t) auto

lemma cascade_row: "row_at k (cascade_session n m d) = (if k = (n, m) then None else row_at k d)"
  by (simp add: cascade_session_def find_row_filter_pk)

lemma delete_row:
  assumes "delete_session_row n m W d = Inr (d', c)"
  shows "d' = d \<and> c = 0 \<or> (\<exists>s. row_at (n, m) d = Some s \<and> W s \<and> d' = cascade_session n m d \<and> c = 1)"
  using assms by (auto simp: delete_session_row_def split: option.splits if_splits)

section \<open>The state machine of a session row\<close>

inductive row_move :: "session_env \<Rightarrow> store_op \<Rightarrow> SessionRow \<Rightarrow> SessionRow \<Rightarrow> bool" where
  same: "row_move e x s s"
| locked: "session_pk s = (n, m) \<Longrightarrow> lock_acquirable (sx_now e) t u s \<Longrightarrow>
    row_move e (AcquireLock n m t u) s (take_lock t u None s)"
| locked_until: "session_pk s = (n, m) \<Longrightarrow> lock_acquirable (sx_now e) t u s \<Longrightarrow>
    row_move e (LockUntil n m t u x) s (take_lock t u (Some x) s)"
| reserved: "session_pk s = (sr_namespace r, sr_name r) \<Longrightarrow> turn_reservable (sx_now e) s \<Longrightarrow>
    row_move e (AcquireTurn (Some r) t x) s (reserve_turn t x (sx_now e) s)"
| turn_released: "session_pk s = (n, m) \<Longrightarrow> ss_chat_turn_id s = t \<Longrightarrow>
    row_move e (ReleaseTurn n m t b) s (release_turn s)"
| released: "session_pk s = (n, m) \<Longrightarrow> ss_active_task s = t \<Longrightarrow> ss_active_task_uid s = u \<Longrightarrow>
    row_move e (ReleaseLock n m t u) s (release_task_lock s)"
| cleared: "session_pk s = (n, m) \<Longrightarrow> expired (sx_now e) (ss_active_task_expires_at s) \<Longrightarrow>
    row_move e (IsLocked n m t u) s (release_task_lock s)"
| appended: "session_pk s = (n, m) \<Longrightarrow> row_move e (AppendMessages n m t u ms) s (count_messages c (sx_now e) s)"
| committed: "session_pk s = (sr_namespace r, sr_name r) \<Longrightarrow> turn_owned (sx_now e) t c s \<Longrightarrow>
    row_move e (CommitTurn (Some r) t c ms i k) s (count_chat_turn (length ms) i k (sx_now e) s)"
| counted: "session_pk s = (n, m) \<Longrightarrow> row_move e (CountTokens n m i k) s (count_tokens i k (sx_now e) s)"
| counted_locked: "session_pk s = (n, m) \<Longrightarrow> ss_active_task s = t \<Longrightarrow> ss_active_task_uid s = u \<Longrightarrow>
    \<not> expired (sx_now e) (ss_active_task_expires_at s) \<Longrightarrow>
    row_move e (CountTokensLocked n m t u i k) s (count_tokens i k (sx_now e) s)"
| released_counted: "session_pk s = (n, m) \<Longrightarrow> ss_active_task s = t \<Longrightarrow> ss_active_task_uid s = u \<Longrightarrow>
    row_move e (ReleaseLockCounted n m t u i k) s (release_task_lock (count_tokens i' k' (sx_now e) s))"
| finalized: "session_pk s = (TrimSpace (sf_namespace q), TrimSpace (sf_session_name q)) \<Longrightarrow> sf_key r = sf_key q \<Longrightarrow>
    row_move e (TurnOp e' (FinalizeTurn q)) s (counted_session r (int c) s)"

text \<open>The operations that remove a row, and the rows they remove.\<close>

inductive row_gone :: "session_env \<Rightarrow> store_op \<Rightarrow> SessionRow \<Rightarrow> bool" where
  deleted: "session_pk s = (n, m) \<Longrightarrow> \<not> task_lock_live (sx_now e) s \<Longrightarrow> \<not> chat_turn_live (sx_now e) s \<Longrightarrow>
    ss_session_type s \<noteq> SessionTypeGateway \<Longrightarrow> row_gone e (DeleteSession n m) s"
| abandoned: "session_pk s = (n, m) \<Longrightarrow> ss_chat_turn_id s = t \<Longrightarrow> t \<noteq> [] \<Longrightarrow> ss_active_task s = [] \<Longrightarrow>
    ss_message_count s = 0 \<Longrightarrow> row_gone e (ReleaseTurn n m t True) s"

definition row_follows :: "session_env \<Rightarrow> store_op \<Rightarrow> string \<times> string \<Rightarrow> db \<Rightarrow> db \<Rightarrow> bool" where
  "row_follows e x k d d' \<longleftrightarrow>
     (\<forall>s. row_at k d = Some s \<longrightarrow>
        (case row_at k d' of None \<Rightarrow> row_gone e x s | Some s' \<Rightarrow> row_move e x s s'))"

lemma row_follows_refl: "row_follows e x k d d"
  by (auto simp: row_follows_def intro: row_move.same split: option.splits)

lemma row_follows_kept: "row_at k d' = row_at k d \<Longrightarrow> row_follows e x k d d'"
  by (auto simp: row_follows_def intro: row_move.same split: option.splits)

lemma row_follows_update:
  assumes "\<And>s. session_pk (f s) = session_pk s" "sessions d1 = sessions d"
    and "\<And>s. row_at k d = Some s \<Longrightarrow> W s \<Longrightarrow> row_move e x s (f s)"
  shows "row_follows e x k d (update_sessions W f d1)"
  using assms(2,3) by (auto simp: row_follows_def update_row [OF assms(1)] intro: row_move.same)

text \<open>One lemma per operation.\<close>

lemma create_follows: "row_follows e x k d (snd (createSessionWrite e' s d))"
  unfolding createSessionWrite_def
proof (rule with_tx_state [where P = "row_follows e x k d"], rule row_follows_refl)
  fix a d'
  assume "create_session_body s d = Commit a d'"
  then have ins: "insert_session (session_row s) (forget_completion (sr_namespace s) (sr_name s) d) = Some d'"
    by (auto simp: create_session_body_def Let_def split: if_splits option.splits)
  show "row_follows e x k d d'"
    using insert_keeps_row [OF ins] by (auto simp: row_follows_def intro: row_move.same)
qed

lemma lock_body_follows:
  assumes "acquireSessionLock now events n m t u y d = Commit a d'"
    and "\<And>s. session_pk s = (n, m) \<Longrightarrow> lock_acquirable now t u s \<Longrightarrow> row_move e x s (take_lock t u y s)"
  shows "row_follows e x k d d'"
proof -
  from assms(1) obtain W where W: "d' = update_sessions W (take_lock t u y) d"
    "\<And>s. W s \<Longrightarrow> session_pk s = (n, m) \<and> lock_acquirable now t u s"
    unfolding acquireSessionLock_def Let_def by (auto split: option.splits if_splits)
  show ?thesis unfolding W(1) by (rule row_follows_update) (use W(2) assms(2) in auto)
qed

lemma acquire_follows:
  "row_follows e (AcquireLock n m t u) k d (snd (acquireLockWrite e events n m t u d))"
  "row_follows e (LockUntil n m t u y) k d (snd (AcquireLockUntil e events n m t u y d))"
proof -
  show "row_follows e (AcquireLock n m t u) k d (snd (acquireLockWrite e events n m t u d))"
    unfolding acquireLockWrite_def acquireLock_def
    by (rule with_tx_state [where P = "row_follows e (AcquireLock n m t u) k d"], rule row_follows_refl)
      (erule lock_body_follows, rule row_move.locked)
  show "row_follows e (LockUntil n m t u y) k d (snd (AcquireLockUntil e events n m t u y d))"
    unfolding AcquireLockUntil_def acquireLock_def
    by (rule checked_tx_state [where P = "row_follows e (LockUntil n m t u y) k d"], rule row_follows_refl)
      (erule lock_body_follows, rule row_move.locked_until)
qed

lemma ensure_chat_row:
  assumes "ensure_chat_session now r d = (b, d')"
  shows "row_at k d = Some s \<Longrightarrow> row_at k d' = Some s"
    "d' = d \<and> row_at (sr_namespace r, sr_name r) d \<noteq> None \<or>
     row_at (sr_namespace r, sr_name r) d = None \<and> d' = d\<lparr>sessions := sessions d @ [chat_session_row now r]\<rparr>"
proof -
  have pk: "session_pk (chat_session_row now r) = (sr_namespace r, sr_name r)"
    by (simp add: session_pk_def chat_session_row_def session_row_def)
  show "row_at k d = Some s \<Longrightarrow> row_at k d' = Some s"
    using assms by (auto simp: ensure_chat_session_def split: option.splits dest: insert_keeps_row)
  have none: "insert_session (chat_session_row now r) d = None \<longleftrightarrow> row_at (sr_namespace r, sr_name r) d \<noteq> None"
    using pk by (auto simp: insert_session_def sql_insert_def list_ex_iff find_row_None)
  show "d' = d \<and> row_at (sr_namespace r, sr_name r) d \<noteq> None \<or>
     row_at (sr_namespace r, sr_name r) d = None \<and> d' = d\<lparr>sessions := sessions d @ [chat_session_row now r]\<rparr>"
  proof (cases "insert_session (chat_session_row now r) d")
    case None
    with none assms show ?thesis by (simp add: ensure_chat_session_def)
  next
    case (Some d1)
    with insert_row [OF Some] assms pk show ?thesis by (simp add: ensure_chat_session_def)
  qed
qed

lemma chat_turn_commit:
  assumes "chat_turn_body now r t y d = Commit b d'"
  obtains s d2 where "ensureNoSessionCleanupIntentTx (sr_namespace r) (sr_name r) d = None"
    "ensure_chat_session now r (forget_completion (sr_namespace r) (sr_name r) d) = (b, d2)"
    "row_at (sr_namespace r, sr_name r) d2 = Some s" "\<not> task_lock_live now s" "\<not> chat_turn_live now s" "\<not> gateway_session s"
    "d' = update_sessions (\<lambda>s. session_pk s = (sr_namespace r, sr_name r) \<and> turn_reservable now s)
       (reserve_turn t y now) d2"
  using assms unfolding chat_turn_body_def Let_def
  by (cases "ensure_chat_session now r (forget_completion (sr_namespace r) (sr_name r) d)")
    (auto split: option.splits if_splits)

lemma turn_body_follows:
  assumes "chat_turn_body (sx_now e) r t y d = Commit a d'"
  shows "row_follows e (AcquireTurn (Some r) t y) k d d'"
  using assms
proof (rule chat_turn_commit)
  fix s d2
  assume "ensure_chat_session (sx_now e) r (forget_completion (sr_namespace r) (sr_name r) d) = (a, d2)"
    and d': "d' = update_sessions (\<lambda>s. session_pk s = (sr_namespace r, sr_name r) \<and> turn_reservable (sx_now e) s)
       (reserve_turn t y (sx_now e)) d2"
  from ensure_chat_row(1) [OF this(1), of k] show ?thesis
    unfolding row_follows_def d' update_row [OF row_functions_pk(2)] by (auto intro: row_move.same row_move.reserved)
qed

lemma acquire_turn_follows: "row_follows e (AcquireTurn s t y) k d (snd (acquireChatTurnWrite e s t y d))"
proof (cases s)
  case (Some r)
  show ?thesis
    unfolding Some acquireChatTurnWrite_def option.case
    by (rule checked_tx_state [where P = "row_follows e (AcquireTurn (Some r) t y) k d"], rule row_follows_refl)
      (rule turn_body_follows)
qed (simp add: acquireChatTurnWrite_def row_follows_refl)

lemma release_turn_follows:
  "row_follows e (ReleaseTurn n m t b) k d (snd (releaseChatTurnWrite e n m t b d))"
proof (cases "t = []")
  case False
  have release: "row_follows e (ReleaseTurn n m t b') k d (update_sessions
      (\<lambda>s. session_pk s = (n, m) \<and> ss_chat_turn_id s = t) release_turn d)" for b'
    by (rule row_follows_update) (auto intro: row_move.turn_released)
  have cascade: "row_follows e (ReleaseTurn n m t True) k d (cascade_session n m d)"
    if "row_at (n, m) d = Some s" "untouched_chat t d s" for s
    using that False
    by (auto simp: row_follows_def cascade_row untouched_chat_def row_pk intro: row_move.same row_gone.abandoned
        split: option.splits)
  show ?thesis
    using False unfolding releaseChatTurnWrite_def
    by (simp, intro with_tx_state [where P = "row_follows e (ReleaseTurn n m t b) k d"] row_follows_refl)
      (auto simp: Let_def release split: if_splits sum.splits dest!: delete_row intro: cascade)
qed (simp add: releaseChatTurnWrite_def row_follows_refl)

lemma release_lock_follows:
  "row_follows e (ReleaseLock n m t u) k d (snd (releaseLockWrite e n m t u d))"
  unfolding releaseLockWrite_def
  by (rule with_tx_state [where P = "row_follows e (ReleaseLock n m t u) k d"], rule row_follows_refl)
    (auto intro!: row_follows_update intro: row_move.released)

text \<open>
  The rounds of \<open>isLockedWrite\<close> end at the first: it answers, or it clears the expired lock it read.
\<close>

lemma affected_one:
  assumes "sessions.table_ok (sessions d)" "row_at k d = Some s" "P s"
  shows "affected (\<lambda>r. session_pk r = k \<and> P r) d = 1"
proof -
  have "sql_update (\<lambda>_. True) (\<lambda>r. session_pk r = k \<and> P r) id (sessions d) =
      Some (put_row session_pk k (id s) (sessions d), 1)"
    by (rule sessions.update_hit [OF assms(1,2), where P = P]) (use assms(3) in auto)
  then show ?thesis by (auto simp: sql_update_def affected_def split: if_splits)
qed

lemma is_locked_result:
  assumes "sessions.table_ok (sessions d)" "row_at (n, m) d = Some s"
  shows "is_locked_rounds (Suc c) now n m t u d =
    (if chat_turn_live now s then (Inr True, d)
     else if ss_active_task s = [] then (Inr False, d)
     else if \<not> expired now (ss_active_task_expires_at s)
     then (Inr (ss_active_task s \<noteq> t \<or> ss_active_task_uid s \<noteq> [] \<and> ss_active_task_uid s \<noteq> u), d)
     else (Inr False, update_sessions (\<lambda>r. session_pk r = (n, m) \<and> ss_active_task r = ss_active_task s \<and>
            ss_active_task_uid r = ss_active_task_uid s \<and>
            ss_active_task_expires_at r = ss_active_task_expires_at s) release_task_lock d))"
  using assms(2) affected_one [OF assms, of "\<lambda>r. ss_active_task r = ss_active_task s \<and>
      ss_active_task_uid r = ss_active_task_uid s \<and> ss_active_task_expires_at r = ss_active_task_expires_at s"]
  by (simp add: Let_def)

lemma is_locked_follows:
  assumes "sessions.table_ok (sessions d)"
  shows "row_follows e (IsLocked n m t u) k d (snd (isLockedWrite e n m t u d))"
proof (cases "sx_fault e \<noteq> None \<or> row_at (n, m) d = None")
  case True
  then show ?thesis by (auto simp: isLockedWrite_def row_follows_refl numeral_3_eq_3)
next
  case False
  then obtain s where s: "row_at (n, m) d = Some s" by auto
  have clear: "row_follows e (IsLocked n m t u) k d (update_sessions (\<lambda>r. session_pk r = (n, m) \<and>
      ss_active_task r = ss_active_task s \<and> ss_active_task_uid r = ss_active_task_uid s \<and>
      ss_active_task_expires_at r = ss_active_task_expires_at s) release_task_lock d)"
    if "expired (sx_now e) (ss_active_task_expires_at s)"
    by (rule row_follows_update) (use that in \<open>auto intro: row_move.cleared\<close>)
  with False show ?thesis
    unfolding isLockedWrite_def numeral_3_eq_3 is_locked_result [OF assms s] by (auto simp: row_follows_refl)
qed

lemma append_follows:
  "row_follows e (AppendMessages n m t u ms) k d (snd (appendMessages e n m t u ms d))"
  unfolding appendMessages_def
proof (rule with_tx_state [where P = "row_follows e (AppendMessages n m t u ms) k d"], rule row_follows_refl)
  fix a d'
  assume "append_messages_body e n m t u ms d = Commit a d'"
  then obtain c d1 where ins: "insertSessionMessagesTx e n m ms d = Inr (c, d1)"
    and d': "d' = (if c > 0 then update_sessions (\<lambda>r. session_pk r = (n, m)) (count_messages c (sx_now e)) d1 else d1)"
    by (auto simp: append_messages_body_def split: option.splits sum.splits)
  have same: "sessions d1 = sessions d" using ins by (auto simp: insertSessionMessagesTx_def dest: insert_messages_sessions)
  have upd: "row_follows e (AppendMessages n m t u ms) k d
      (update_sessions (\<lambda>r. session_pk r = (n, m)) (count_messages c (sx_now e)) d1)"
    by (rule row_follows_update) (auto simp: same intro: row_move.appended)
  show "row_follows e (AppendMessages n m t u ms) k d d'"
    using d' upd same by (auto intro: row_follows_kept)
qed

lemma commit_turn_commit:
  assumes "commit_turn_body e r t c ms i j d = Commit a d'"
  obtains s d1 W where "insertSessionMessagesTx e (sr_namespace r) (sr_name r) ms d = Inr (length ms, d1)"
    "row_at (sr_namespace r, sr_name r) d = Some s" "turn_owned (sx_now e) t c s" "\<not> gateway_session s"
    "W = (\<lambda>r'. session_pk r' = (sr_namespace r, sr_name r) \<and> turn_owned (sx_now e) t c r')"
    "d' = update_sessions W (count_chat_turn (length ms) i j (sx_now e)) d1"
  using assms unfolding commit_turn_body_def Let_def
  by (auto simp: turn_owned_def split: option.splits sum.splits if_splits)

lemma commit_follows:
  "row_follows e (CommitTurn s t c ms i j) k d (snd (commitSessionTurnWrite e s t c ms i j d))"
proof (cases s)
  case (Some r)
  show ?thesis
    unfolding Some commitSessionTurnWrite_def option.case
  proof (rule checked_tx_state [where P = "row_follows e (CommitTurn (Some r) t c ms i j) k d"], rule row_follows_refl)
    fix a d'
    assume "commit_turn_body e r t c ms i j d = Commit a d'"
    then show "row_follows e (CommitTurn (Some r) t c ms i j) k d d'"
    proof (rule commit_turn_commit)
      fix s d1 W
      assume ins: "insertSessionMessagesTx e (sr_namespace r) (sr_name r) ms d = Inr (length ms, d1)"
        and W: "W = (\<lambda>r'. session_pk r' = (sr_namespace r, sr_name r) \<and> turn_owned (sx_now e) t c r')"
        and d': "d' = update_sessions W (count_chat_turn (length ms) i j (sx_now e)) d1"
      have "sessions d1 = sessions d" using ins by (auto simp: insertSessionMessagesTx_def dest: insert_messages_sessions)
      then show ?thesis unfolding d' by (intro row_follows_update) (auto simp: W intro: row_move.committed)
    qed
  qed
qed (simp add: commitSessionTurnWrite_def row_follows_refl)

lemma tokens_follow:
  "row_follows e (CountTokens n m i j) k d (snd (updateTokenCountsWrite e n m i j d))"
  "row_follows e (CountTokensLocked n m t u i j) k d (snd (updateTokenCountsWithLockWrite e n m t u i j d))"
  "row_follows e (ReleaseLockCounted n m t u i j) k d (snd (releaseLockWithTokenUsageWrite e n m t u i j d))"
proof -
  show "row_follows e (CountTokens n m i j) k d (snd (updateTokenCountsWrite e n m i j d))"
    unfolding updateTokenCountsWrite_def
    by (rule with_tx_state [where P = "row_follows e (CountTokens n m i j) k d"], rule row_follows_refl)
      (auto intro!: row_follows_update intro: row_move.counted)
  show "row_follows e (CountTokensLocked n m t u i j) k d (snd (updateTokenCountsWithLockWrite e n m t u i j d))"
    unfolding updateTokenCountsWithLockWrite_def
    by (rule with_tx_state [where P = "row_follows e (CountTokensLocked n m t u i j) k d"], rule row_follows_refl)
      (auto simp: Let_def owner_current_def split: if_splits intro!: row_follows_update intro: row_move.counted_locked)
  show "row_follows e (ReleaseLockCounted n m t u i j) k d (snd (releaseLockWithTokenUsageWrite e n m t u i j d))"
    unfolding releaseLockWithTokenUsageWrite_def
    by (rule with_tx_state [where P = "row_follows e (ReleaseLockCounted n m t u i j) k d"], rule row_follows_refl)
      (auto simp: Let_def intro!: row_follows_update intro: row_move.released_counted)
qed

text \<open>What a deletion commits.\<close>

lemma quiescent_row:
  assumes "ensureSessionLockQuiescentTx now n m d = Inr c"
  shows "c = d \<or> (\<exists>W. c = update_sessions W release_task_lock d \<and> (\<forall>s. W s \<longrightarrow> session_pk s = (n, m)))"
    "row_at (n, m) d = Some s \<Longrightarrow> \<not> task_lock_live now s \<and> \<not> chat_turn_live now s"
  using assms by (auto simp: ensureSessionLockQuiescentTx_def Let_def task_lock_live_def split: option.splits if_splits)

lemma delete_commit:
  assumes "delete_session_body now n m d = Commit a d'"
  obtains c c1 c2 j where "ensureSessionLockQuiescentTx now n m (control d) = Inr c"
    "c1 = deleteNativeSessionTx n m (delete_turn_records n m c)"
    "delete_session_row n m (\<lambda>s. ss_session_type s \<noteq> SessionTypeGateway) c1 = Inr (c2, j)"
    "\<not> unsettled_projection n m c" "\<not> control_busy n m c"
    "\<not> list_ex (\<lambda>t. session_turn_of n m t \<and> st_state t \<noteq> SessionTurnFinalized) (session_turns c)"
    "ensureNoSessionCleanupIntentTx n m c = None"
    "session_type_of n m (control d) = [] \<or> j \<noteq> 0"
    "d' = detach_session_events n m ((advanceTaskDataCleanupGeneration n [] d)\<lparr>control := c2\<rparr>)"
  using assms unfolding delete_session_body_def Let_def
  by (auto split: sum.splits prod.splits if_splits)

lemma control_detach [simp]: "control (detach_session_events n m d) = control d"
  by (simp add: detach_session_events_def)

lemma delete_records_kept [simp]:
  "sessions (delete_turn_records n m d) = sessions d" "session_messages (delete_turn_records n m d) = session_messages d"
  "sessions (deleteNativeSessionTx n m d) = sessions d" "session_messages (deleteNativeSessionTx n m d) = session_messages d"
  by (simp_all add: delete_turn_records_def deleteNativeSessionTx_def)

lemma quiescent_rows:
  assumes run: "ensureSessionLockQuiescentTx now n m d = Inr c"
  shows "k \<noteq> (n, m) \<Longrightarrow> row_at k c = row_at k d"
    "map_option ss_session_type (row_at k c) = map_option ss_session_type (row_at k d)"
proof -
  have upd: "row_at k (update_sessions W release_task_lock d) = row_at k d"
    if "k \<noteq> (n, m)" "\<forall>s. W s \<longrightarrow> session_pk s = (n, m)" for W
    using that row_pk [of k d] by (cases "row_at k d") (auto simp: update_row)
  show "k \<noteq> (n, m) \<Longrightarrow> row_at k c = row_at k d"
    using quiescent_row(1) [OF run] by (elim disjE exE conjE) (simp_all add: upd)
  have "map_option ss_session_type (row_at k (update_sessions W release_task_lock d)) = map_option ss_session_type (row_at k d)" for W
    by (cases "row_at k d") (simp_all add: update_row [OF counted_session_fields(2)] release_task_lock_def)
  with quiescent_row(1) [OF run] show "map_option ss_session_type (row_at k c) = map_option ss_session_type (row_at k d)"
    by (elim disjE exE conjE) simp_all
qed

text \<open>After a deletion has committed the row is gone and the other rows are as they were.\<close>

lemma delete_rows:
  assumes c: "ensureSessionLockQuiescentTx now n m d = Inr c" and c1: "c1 = deleteNativeSessionTx n m (delete_turn_records n m c)"
    and del: "delete_session_row n m (\<lambda>s. ss_session_type s \<noteq> SessionTypeGateway) c1 = Inr (c2, j)"
    and j: "session_type_of n m d = [] \<or> j \<noteq> 0"
  shows "row_at k c2 = (if k = (n, m) then None else row_at k d)"
    "row_at (n, m) d = Some s \<Longrightarrow> ss_session_type s \<noteq> SessionTypeGateway"
    "c2 = c1 \<and> row_at (n, m) d = None \<or> c2 = cascade_session n m c1"
proof -
  have other: "k \<noteq> (n, m) \<Longrightarrow> row_at k c1 = row_at k d" for k
    by (simp add: c1 quiescent_rows [OF c])
  have same: "map_option ss_session_type (row_at (n, m) c1) = map_option ss_session_type (row_at (n, m) d)"
    by (simp add: c1 quiescent_rows(2) [OF c])
  have gone: "row_at (n, m) d = None \<and> c2 = c1 \<or> ss_session_type s \<noteq> SessionTypeGateway \<and> c2 = cascade_session n m c1"
    if "\<And>s'. row_at (n, m) d = Some s' \<Longrightarrow> s' = s" for s
  proof (cases "row_at (n, m) c1")
    case None
    with same del show ?thesis by (simp add: delete_session_row_def)
  next
    case (Some s1)
    with same that have s: "row_at (n, m) d = Some s" "ss_session_type s1 = ss_session_type s"
      by (cases "row_at (n, m) d"; simp)+
    with j have "ss_session_type s = [] \<or> j \<noteq> 0" by (simp add: session_type_of_def)
    with Some s(2) del show ?thesis
      by (auto simp: delete_session_row_def SessionTypeGateway_def split: if_splits)
  qed
  show "row_at (n, m) d = Some s \<Longrightarrow> ss_session_type s \<noteq> SessionTypeGateway" using gone [of s] by auto
  show "c2 = c1 \<and> row_at (n, m) d = None \<or> c2 = cascade_session n m c1"
    using gone [of "the (row_at (n, m) d)"] by auto
  then show "row_at k c2 = (if k = (n, m) then None else row_at k d)"
    using other [of k] same by (auto simp: cascade_row)
qed

lemma delete_follows:
  "row_follows e (DeleteSession n m) k (control d) (control (snd (deleteSessionWrite e n m d)))"
  unfolding deleteSessionWrite_def
proof (rule with_tx_state [where P = "\<lambda>d'. row_follows e (DeleteSession n m) k (control d) (control d')"], rule row_follows_refl)
  fix a d'
  assume "delete_session_body (sx_now e) n m d = Commit a d'"
  then show "row_follows e (DeleteSession n m) k (control d) (control d')"
  proof (rule delete_commit)
    fix c c1 c2 j
    assume c: "ensureSessionLockQuiescentTx (sx_now e) n m (control d) = Inr c"
      and c1: "c1 = deleteNativeSessionTx n m (delete_turn_records n m c)"
      and del: "delete_session_row n m (\<lambda>s. ss_session_type s \<noteq> SessionTypeGateway) c1 = Inr (c2, j)"
      and j: "session_type_of n m (control d) = [] \<or> j \<noteq> 0"
      and d': "d' = detach_session_events n m ((advanceTaskDataCleanupGeneration n [] d)\<lparr>control := c2\<rparr>)"
    show ?thesis
      using delete_rows(1,2) [OF c c1 del j] quiescent_row(2) [OF c]
      by (auto simp: d' row_follows_def row_pk intro: row_move.same row_gone.deleted split: option.splits)
  qed
qed

lemma turn_op_sessions:
  assumes ok: "db_ok d" and no: "\<And>q. x \<noteq> FinalizeTurn q"
  shows "sessions (session_step e x d) = sessions d \<or> (\<exists>s. sessions (session_step e x d) = sessions d @ [s])"
proof (cases x)
  case (OpenTurn q)
  have "sessions (snd (createSessionTurnRecordWrite e q d)) = sessions d"
    by (rule open_turn.after) (auto elim!: create_record_commit)
  with OpenTurn show ?thesis by simp
next
  case (ActivateProjection q)
  have "sessions (snd (activateSessionTurnProjectionWrite e q d)) = sessions d"
    by (rule activate.after) (auto elim!: activate_commit [OF ok])
  with ActivateProjection show ?thesis by simp
next
  case (CompleteProjection q)
  have "sessions (snd (CompleteOutboxProjection e q d)) = sessions d"
    by (rule complete.after) (auto elim!: complete_commit [OF ok])
  with CompleteProjection show ?thesis by simp
next
  case (ClaimProjections q)
  have "sessions (snd (ClaimOutboxProjections e q d)) = sessions d"
    by (rule claim.after) (use claim_body_run [OF ok validated_claim(6)] in auto)
  with ClaimProjections show ?thesis by simp
next
  case (SaveNative q)
  have saved: "sessions d' = sessions d" if "saveSealedNativeSessionTx q d = Inr d'" for d'
    using save_native [OF that] by (auto simp: writeSealedNativeSessionTx_def)
  have "sessions (snd (saveSealedNativeSessionWrite e q d)) = sessions d"
    unfolding saveSealedNativeSessionWrite_def
    by (rule with_tx_state [where P = "\<lambda>d'. sessions d' = sessions d"])
      (auto simp: tx_of_sum_def split: sum.splits dest: saved)
  with SaveNative show ?thesis by simp
next
  case (StageImport q)
  let ?P = "\<lambda>d'. sessions d' = sessions d \<or> (\<exists>s. sessions d' = sessions d @ [s])"
  have "?P (snd (with_tx (env_fault e) (stage_body q) d))"
    by (rule with_tx_state [where P = ?P]) (auto elim!: stage_commit simp: writeSealedNativeSessionTx_def)
  with StageImport show ?thesis by (simp add: stageSealedNativeSessionImportWrite_def split: option.splits)
qed (use no in simp)

lemma finalize_follows:
  assumes ok: "db_ok d"
  shows "row_follows e (TurnOp e' (FinalizeTurn q)) k d (snd (commitSealedSessionTurnFinalizationWrite e' q d))"
proof (rule commit_turn.after)
  fix a d' and c :: "env \<times> SealedSessionTurnFinalization \<times> OutboxProjection"
  obtain e'' r p where c: "c = (e'', r, p)" by (cases c)
  assume "map_sum id (Pair e') (normalizeSealedSessionTurnFinalization e' q) = Inr c"
  then have "normalizeSealedSessionTurnFinalization e' q = Inr (r, p)" by (auto simp: c map_sum_def split: sum.splits)
  note r = normalized_fields(1-3) [OF this]
  assume "finalize_turn_body (fst c) (snd c) d = Commit a d'"
  then show "row_follows e (TurnOp e' (FinalizeTurn q)) k d d'" unfolding c fst_conv snd_conv
  proof (rule finalize_body_commit [OF ok])
    fix turn row ms s d3
    assume fin: "finalized r p turn row ms s d d3 d'"
    then have s: "row_at (sf_namespace r, sf_session_name r) d = Some s" by (simp add: finalized_def)
    let ?s = "counted_session r (int (length ms)) s"
    have "row_at k d' = (if k = (sf_namespace r, sf_session_name r) then Some ?s else row_at k d)"
      unfolding finalized_tables(2) [OF fin] by (rule put_row_result [OF s]) (use row_pk [OF s] in simp)
    with s r show ?thesis
      by (auto simp: row_follows_def row_pk intro: row_move.same row_move.finalized split: option.splits)
  qed
qed (rule row_follows_refl)

lemma turn_op_follows:
  assumes ok: "db_ok d"
  shows "row_follows e (TurnOp e' x) k d (session_step e' x d)"
proof (cases "\<exists>q. x = FinalizeTurn q")
  case True
  then show ?thesis by (elim exE) (simp add: finalize_follows [OF ok])
next
  case False
  then have "sessions (session_step e' x d) = sessions d \<or> (\<exists>s. sessions (session_step e' x d) = sessions d @ [s])"
    by (intro turn_op_sessions [OF ok]) blast
  then show ?thesis by (auto simp: row_follows_def find_row_append intro: row_move.same)
qed

theorem exec_row:
  assumes "db_ok (control d)"
  shows "row_follows e x k (control d) (control (store_exec e x d))"
  by (cases x) (use assms in \<open>simp_all add: create_follows acquire_follows acquire_turn_follows release_turn_follows
    release_lock_follows is_locked_follows append_follows commit_follows tokens_follow delete_follows turn_op_follows
    row_follows_refl db_ok_tables(4)\<close>)

section \<open>The invariant of the session tables under all operations\<close>

text \<open>
  Messages satisfy their unique indexes and belong to sessions, and every session counts its messages.
\<close>

definition transcripts_ok :: "db \<Rightarrow> bool" where
  "transcripts_ok d \<longleftrightarrow>
     messages_ok (session_messages d) \<and>
     (\<forall>m \<in> set (session_messages d). row_at (sm_namespace m, sm_session_name m) d \<noteq> None) \<and>
     (\<forall>s \<in> set (sessions d). ss_message_count s = int (length (session_transcript (ss_namespace s) (ss_name s) d)))"

definition store_ok :: "db \<Rightarrow> bool" where
  "store_ok d \<longleftrightarrow> db_ok d \<and> transcripts_ok d"

lemma transcripts_frame:
  assumes "transcripts_ok d" "sessions d' = sessions d" "session_messages d' = session_messages d"
  shows "transcripts_ok d'"
  using assms by (simp add: transcripts_ok_def session_transcript_def)

lemma update_db_ok:
  assumes ok: "db_ok d" and pk: "\<And>s. session_pk (f s) = session_pk s"
  shows "db_ok (update_sessions W f d)"
proof -
  have "sessions.table_ok (sessions (update_sessions W f d))"
    using db_ok_tables(4) [OF ok] pk
    by (auto simp: sessions.table_ok_def update_sessions_def sorted_wrt_map list_all_iff if_distrib
        elim!: sorted_wrt_mono_rel [rotated] split: if_splits)
  then show ?thesis using ok by (auto simp: db_ok_def update_row [OF pk]) (auto simp: update_sessions_def)
qed

lemma update_transcripts_ok:
  assumes ok: "transcripts_ok d" and pk: "\<And>s. session_pk (f s) = session_pk s"
    and count: "\<And>s. ss_message_count (f s) = ss_message_count s"
  shows "transcripts_ok (update_sessions W f d)"
proof -
  have key: "ss_namespace (f s) = ss_namespace s" "ss_name (f s) = ss_name s" for s
    using pk [of s] by (simp_all add: session_pk_def)
  have "session_transcript n m (update_sessions W f d) = session_transcript n m d" for n m
    by (simp add: session_transcript_def)
  with ok count key show ?thesis
    by (auto simp: transcripts_ok_def update_row [OF pk]) (auto simp: update_sessions_def)
qed

lemma insert_message_effect:
  assumes "insert_message e n m i msg d = Inr (b, d')"
  shows "\<exists>ms. d' = d\<lparr>session_messages := session_messages d @ ms\<rparr> \<and> length ms = (if b then 1 else 0) \<and>
    (\<forall>r \<in> set ms. in_session n m r) \<and> (messages_ok (session_messages d) \<longrightarrow> messages_ok (session_messages d @ ms))"
proof (cases b)
  case True
  with assms obtain r where "sql_insert (\<lambda>_. True) message_clash r (session_messages d) = Some (session_messages d')"
    "d' = d\<lparr>session_messages := session_messages d'\<rparr>" "in_session n m r"
    by (fastforce simp: insert_message_def Let_def message_row_def in_session_def
        split: sum.splits option.splits if_splits)
  with True show ?thesis
    by (intro exI [of _ "[r]"]) (auto simp: sql_insert_def messages_ok_def sorted_wrt_append list_ex_iff split: if_splits)
next
  case False
  with assms have "d' = d"
    by (auto simp: insert_message_def Let_def split: sum.splits option.splits if_splits)
  with False show ?thesis by (intro exI [of _ "[]"]) simp
qed

lemma insert_messages_effect:
  assumes "insert_messages e n m i msgs d = Inr (c, d')"
  shows "\<exists>ms. d' = d\<lparr>session_messages := session_messages d @ ms\<rparr> \<and> length ms = c \<and>
    (\<forall>r \<in> set ms. in_session n m r) \<and> (messages_ok (session_messages d) \<longrightarrow> messages_ok (session_messages d @ ms))"
  using assms
proof (induction msgs arbitrary: i d c)
  case (Cons msg msgs)
  then obtain b d1 c1 where one: "insert_message e n m i msg d = Inr (b, d1)"
    and rest: "insert_messages e n m (Suc i) msgs d1 = Inr (c1, d')" and c: "c = (if b then Suc c1 else c1)"
    by (auto split: sum.splits prod.splits)
  from insert_message_effect [OF one] obtain ms1 where ms1: "d1 = d\<lparr>session_messages := session_messages d @ ms1\<rparr>"
    "length ms1 = (if b then 1 else 0)" "\<forall>r \<in> set ms1. in_session n m r"
    "messages_ok (session_messages d) \<longrightarrow> messages_ok (session_messages d @ ms1)" by blast
  from Cons.IH [OF rest] obtain ms2 where ms2: "d' = d1\<lparr>session_messages := session_messages d1 @ ms2\<rparr>"
    "length ms2 = c1" "\<forall>r \<in> set ms2. in_session n m r"
    "messages_ok (session_messages d1) \<longrightarrow> messages_ok (session_messages d1 @ ms2)" by blast
  show ?case by (intro exI [of _ "ms1 @ ms2"]) (use ms1 ms2 c in auto)
qed (auto intro: exI [of _ "[]"])

text \<open>New messages of a session, counted in its row.\<close>

lemma counted_transcripts_ok:
  assumes ok: "store_ok d" and ms: "\<forall>r \<in> set ms. in_session n m r" "messages_ok (session_messages d @ ms)"
    and s: "row_at (n, m) d = Some s" and W: "\<And>r. W r \<longleftrightarrow> session_pk r = (n, m) \<and> P r" "P s"
    and f: "\<And>r. session_pk (f r) = session_pk r" "\<And>r. ss_message_count (f r) = ss_message_count r + int (length ms)"
  shows "transcripts_ok (update_sessions W f (d\<lparr>session_messages := session_messages d @ ms\<rparr>))"
proof -
  let ?d = "d\<lparr>session_messages := session_messages d @ ms\<rparr>"
  have tok: "transcripts_ok d" and sok: "sessions.table_ok (sessions d)"
    using ok db_ok_tables(4) by (auto simp: store_ok_def)
  have uniq: "r = s" if "r \<in> set (sessions d)" "session_pk r = (n, m)" for r
    using sessions.find_row_eq [OF sok that] s by simp
  have tr: "session_transcript a b (update_sessions W f ?d) =
      session_transcript a b d @ (if (a, b) = (n, m) then ms else [])" for a b
    using ms(1) by (auto simp: session_transcript_def in_session_def filter_empty_conv intro!: filter_True)
  have "ss_message_count r = int (length (session_transcript (ss_namespace r) (ss_name r) (update_sessions W f ?d)))"
    if "r \<in> set (sessions (update_sessions W f ?d))" for r
  proof -
    from that obtain r0 where r0: "r0 \<in> set (sessions d)" "r = (if W r0 then f r0 else r0)"
      by (auto simp: update_sessions_def)
    have key: "session_pk r = session_pk r0" using r0(2) f(1) by simp
    then have "ss_namespace r = ss_namespace r0" "ss_name r = ss_name r0" by (simp_all add: session_pk_def)
    moreover have "ss_message_count r0 = int (length (session_transcript (ss_namespace r0) (ss_name r0) d))"
      using tok r0(1) by (simp add: transcripts_ok_def)
    moreover have "W r0 \<longleftrightarrow> session_pk r0 = (n, m)" using W uniq [OF r0(1)] by auto
    ultimately show ?thesis using r0(2) f(2) by (auto simp: tr session_pk_def)
  qed
  moreover have "\<forall>r \<in> set (session_messages ?d). row_at (sm_namespace r, sm_session_name r) (update_sessions W f ?d) \<noteq> None"
    using tok ms(1) s by (auto simp: update_row [OF f(1)] transcripts_ok_def in_session_def)
  ultimately show ?thesis using ms(2) by (simp add: transcripts_ok_def)
qed

lemma new_session_ok:
  assumes ok: "store_ok d" and new: "row_at (session_pk s) d = None" and zero: "ss_message_count s = 0"
  shows "store_ok (d\<lparr>sessions := sessions d @ [s]\<rparr>)"
proof -
  have sok: "sessions.table_ok (sessions d @ [s])"
    using ok new db_ok_tables(4) [of d]
    by (auto simp: store_ok_def sessions.table_ok_def sorted_wrt_append find_row_None)
  have none: "session_transcript (ss_namespace s) (ss_name s) d = []"
    using ok new by (auto simp: store_ok_def transcripts_ok_def session_transcript_def filter_empty_conv session_pk_def)
  have "session_transcript n m (d\<lparr>sessions := t\<rparr>) = session_transcript n m d" for n m t
    by (simp add: session_transcript_def)
  with ok sok none zero show ?thesis
    by (auto simp: store_ok_def db_ok_def transcripts_ok_def find_row_append split: option.splits)
qed

lemma forget_ok: "store_ok (forget_completion n m d) \<longleftrightarrow> store_ok d"
  by (simp add: store_ok_def db_ok_def transcripts_ok_def session_transcript_def forget_completion_def)

lemma update_ok:
  assumes "store_ok d" "\<And>s. session_pk (f s) = session_pk s" "\<And>s. ss_message_count (f s) = ss_message_count s"
  shows "store_ok (update_sessions W f d)"
  using assms by (auto simp: store_ok_def intro: update_db_ok update_transcripts_ok)

lemma row_functions_count [simp]:
  "ss_message_count (take_lock t u x s) = ss_message_count s" "ss_message_count (reserve_turn t y now s) = ss_message_count s"
  "ss_message_count (release_turn s) = ss_message_count s" "ss_message_count (count_tokens i k now s) = ss_message_count s"
  "ss_message_count (release_task_lock s) = ss_message_count s"
  "ss_message_count (count_messages c now s) = ss_message_count s + int c"
  "ss_message_count (count_chat_turn c i k now s) = ss_message_count s + int c"
  by (simp_all add: take_lock_def reserve_turn_def release_turn_def count_tokens_def release_task_lock_def
      count_messages_def count_chat_turn_def)

lemma cascade_ok:
  assumes ok: "store_ok d" and free: "\<not> session_referenced n m d"
  shows "store_ok (cascade_session n m d)"
proof -
  have sok: "sessions.table_ok (sessions (cascade_session n m d))"
    using ok db_ok_tables(4) [of d]
    by (auto simp: store_ok_def cascade_session_def sessions.table_ok_def sorted_wrt_filter list_all_iff)
  have tr: "session_transcript a b (cascade_session n m d) = (if (a, b) = (n, m) then [] else session_transcript a b d)" for a b
    by (auto simp: session_transcript_def cascade_session_def filter_empty_conv intro: filter_cong)
  have "transcripts_ok (cascade_session n m d)"
    using ok unfolding transcripts_ok_def tr cascade_row
    by (auto simp: store_ok_def transcripts_ok_def cascade_session_def messages_ok_def sorted_wrt_filter session_pk_def)
  moreover have "db_ok (cascade_session n m d)"
    using ok free sok
    by (auto simp: store_ok_def db_ok_def cascade_row session_referenced_def list_ex_iff) (auto simp: cascade_session_def)
  ultimately show ?thesis by (simp add: store_ok_def)
qed

lemma delete_row_ok: "store_ok d \<Longrightarrow> delete_session_row n m W d = Inr (d', c) \<Longrightarrow> store_ok d'"
  by (auto simp: delete_session_row_def cascade_ok split: option.splits if_splits)

lemma delete_records_ok:
  assumes "store_ok d"
  shows "store_ok (delete_turn_records n m d)" "store_ok (deleteNativeSessionTx n m d)"
proof -
  show "store_ok (delete_turn_records n m d)"
    using assms
    by (auto simp: store_ok_def db_ok_def delete_turn_records_def transcripts_ok_def session_transcript_def
        controls.table_ok_def turns.table_ok_def outbox.table_ok_def sorted_wrt_filter list_all_iff)
  show "store_ok (deleteNativeSessionTx n m d)"
    using assms by (auto simp: store_ok_def db_ok_def deleteNativeSessionTx_def transcripts_ok_def session_transcript_def)
qed

lemma turn_step_transcripts:
  assumes "turn_step d d'" "transcripts_ok d"
  shows "transcripts_ok d'"
  using assms
proof (induction rule: turn_step.induct)
  case (closed turn d row q p ms s d3 d')
  note fin = closed(2)
  have s: "row_at (sf_namespace q, sf_session_name q) d = Some s"
    and ms: "\<forall>m \<in> set ms. in_session (sf_namespace q) (sf_session_name q) m"
    using fin by (simp_all add: finalized_def)
  have "row_at k d' = None \<longleftrightarrow> row_at k d = None" for k
    unfolding finalized_tables(2) [OF fin] by (rule find_row_put_row_None) (use row_pk [OF s] in simp)
  then show ?case
    using closed(4) finalized_counts [OF _ fin] fin s ms
    by (auto simp: transcripts_ok_def finalized_tables(1) [OF fin] finalized_def in_session_def)
next
  case (saved q d d')
  then show ?case using save_native [OF saved(1)] transcripts_frame [of d d'] by (auto simp: writeSealedNativeSessionTx_def)
next
  case (staged q d a d')
  from staged(2) show ?case
  proof (rule stage_commit)
    fix s op
    assume new: "row_at (native_pk (sg_record q)) d = None"
      and s: "s = staged_session (ns_namespace (sg_record q)) (ns_session_name (sg_record q)) (ir_created_at (sg_receipt q))"
      and d': "d' = writeSealedNativeSessionTx (sg_record q) (d\<lparr>sessions := sessions d @ [s]\<rparr>)\<lparr>native_session_operations := op\<rparr>"
    have pk: "session_pk s = native_pk (sg_record q)" "ss_message_count s = 0"
      by (simp_all add: s staged_session_def session_pk_def native_pk_def)
    have "session_transcript (ss_namespace s) (ss_name s) d = []"
      using staged(3) new pk
      by (auto simp: transcripts_ok_def session_transcript_def filter_empty_conv session_pk_def)
    with staged(3) pk show ?thesis
      by (auto simp: d' transcripts_ok_def writeSealedNativeSessionTx_def session_transcript_def find_row_append
          split: option.splits)
  qed
qed (auto elim!: transcripts_frame)

end
