(* ===== verification/Event_Log.thy ===== *)
theory Event_Log
  imports Event_Store Control_Identity
begin

text \<open>
  Laws of the execution event store: what one append does, the invariant of the event log (strictly
  increasing sequences per stream and per session, unique deduplication keys, one terminal event per
  approval), and its preservation by every operation.
\<close>

interpretation event_table: keyed_table "\<lambda>r. ev_id (er_event r)" "\<lambda>_. True" event_clash
  by unfold_locales (auto simp: event_clash_def Let_def)

section \<open>Maxima\<close>

lemma sql_max_Nil [simp]: "sql_max [] = 0"
  by (simp add: sql_max_def)

lemma sql_max_ge: "x \<in> set xs \<Longrightarrow> x \<le> sql_max xs"
  by (auto simp: sql_max_def)

lemma sql_max_in: "xs \<noteq> [] \<Longrightarrow> sql_max xs \<in> set xs"
  unfolding sql_max_def by (metis List.finite_set Max_in set_empty)

lemma sql_max_append: "\<forall>y \<in> set xs. y \<le> x \<Longrightarrow> sql_max (xs @ [x]) = x"
  by (auto simp: sql_max_def intro!: Max_eqI)

lemma sql_max_nonneg: "\<forall>x \<in> set xs. 0 \<le> x \<Longrightarrow> 0 \<le> sql_max xs"
  by (cases "xs = []") (auto dest: sql_max_in)

section \<open>The effect of an append\<close>

lemma insert_usage_frame:
  assumes "insert_usage_observation u d = Commit x d'"
  shows "\<exists>us. d' = d\<lparr>usage_observations := us\<rparr>"
proof (cases "find_row usage_key (usage_key u) (usage_observations d)")
  case None
  with assms show ?thesis by (auto simp: insert_usage_observation_def)
next
  case (Some v)
  with assms have "d' = d\<lparr>usage_observations := usage_observations d\<rparr>"
    by (auto simp: insert_usage_observation_def split: if_splits)
  then show ?thesis by blast
qed

lemma recordUsage_frame:
  "recordUsage u d = Commit x d' \<Longrightarrow> \<exists>us. d' = d\<lparr>usage_observations := us\<rparr>"
  by (auto simp: recordUsage_def dest: insert_usage_frame split: option.splits if_splits)

lemma recordEventUsage_frame:
  assumes "recordEventUsage e d = Commit x d'"
  shows "\<exists>us. d' = d\<lparr>usage_observations := us\<rparr>"
proof (cases "ev_usage e")
  case None
  with assms have "d' = d\<lparr>usage_observations := usage_observations d\<rparr>" by (simp add: recordEventUsage_def)
  then show ?thesis by blast
next
  case (Some u)
  with assms show ?thesis by (auto simp: recordEventUsage_def Let_def dest: recordUsage_frame)
qed

text \<open>The event with its place in the stream.\<close>

definition placed :: "'z event_db_scheme \<Rightarrow> ExecutionEvent \<Rightarrow> ExecutionEvent" where
  "placed d event =
     (let seq = latest_stream_seq d (ev_namespace event) (ev_stream_type event) (ev_stream_id event) + 1
      in event\<lparr>ev_seq := seq,
           ev_id := executionEventID (ev_namespace event) (ev_stream_type event) (ev_stream_id event) seq\<rparr>)"

lemma placed_simps [simp]:
  "ev_namespace (placed d e) = ev_namespace e" "ev_stream_type (placed d e) = ev_stream_type e"
  "ev_stream_id (placed d e) = ev_stream_id e" "ev_type (placed d e) = ev_type e"
  "ev_session_name (placed d e) = ev_session_name e" "ev_usage (placed d e) = ev_usage e"
  "ev_tool_call_id (placed d e) = ev_tool_call_id e" "ev_content (placed d e) = ev_content e"
  "ev_task_name (placed d e) = ev_task_name e"
  "ev_seq (placed d e) = latest_stream_seq d (ev_namespace e) (ev_stream_type e) (ev_stream_id e) + 1"
  by (simp_all add: placed_def Let_def)

definition dedupe_hit :: "'z event_db_scheme \<Rightarrow> ExecutionEvent \<Rightarrow> string \<Rightarrow> ExecutionEvent option" where
  "dedupe_hit d event key =
     (if key \<noteq> [] then existingSQLiteExecutionEventByDedupeKey d event key else None)"

text \<open>The state after the insertion of a new event, up to plans and usage observations.\<close>

definition appended :: "'z event_db_scheme \<Rightarrow> ExecutionEvent \<Rightarrow> string \<Rightarrow> 'z event_db_scheme \<Rightarrow> bool" where
  "appended d event key d' \<longleftrightarrow>
     (let (session_seq, d1) = nextSQLiteSessionExecutionEventSeq (ev_namespace event) (ev_session_name event) d;
          row = new_event_row (placed d event) session_seq key (execution_events d)
      in execution_events d' = execution_events d @ [row] \<and>
         session_sequences d' = session_sequences d1 \<and>
         (\<forall>r \<in> set (execution_events d). \<not> event_clash r row) \<and>
         \<not> existingSQLiteTerminalApprovalEvent d (placed d event) \<and>
         cleanup_generations d' = cleanup_generations d \<and> task_generations d' = task_generations d \<and>
         job_revocations d' = job_revocations d)"

lemma session_seq_frame:
  "execution_events (snd (nextSQLiteSessionExecutionEventSeq n s d)) = execution_events d"
  "cleanup_generations (snd (nextSQLiteSessionExecutionEventSeq n s d)) = cleanup_generations d"
  "task_generations (snd (nextSQLiteSessionExecutionEventSeq n s d)) = task_generations d"
  "job_revocations (snd (nextSQLiteSessionExecutionEventSeq n s d)) = job_revocations d"
  by (simp_all add: nextSQLiteSessionExecutionEventSeq_def Let_def)

lemma plan_frame:
  "execution_events (upsertSQLitePlan n t p now d) = execution_events d"
  "session_sequences (upsertSQLitePlan n t p now d) = session_sequences d"
  "cleanup_generations (upsertSQLitePlan n t p now d) = cleanup_generations d"
  "task_generations (upsertSQLitePlan n t p now d) = task_generations d"
  "job_revocations (upsertSQLitePlan n t p now d) = job_revocations d"
  by (simp_all add: upsertSQLitePlan_def)

lemma insert_execution_event_Some:
  "insert_execution_event e q k d = Some d' \<longleftrightarrow>
     (\<forall>r \<in> set (execution_events d). \<not> event_clash r (new_event_row e q k (execution_events d))) \<and>
     d' = d\<lparr>execution_events := execution_events d @ [new_event_row e q k (execution_events d)]\<rparr>"
  by (auto simp: insert_execution_event_def sql_insert_def list_ex_iff)

lemma append_unfold:
  "appendSQLiteExecutionEvent event key plan now d =
     (case dedupe_hit d event key of
        Some existing \<Rightarrow>
          if \<not> sameExecutionEventIdentity existing event then Abort ErrDuplicateMismatch
          else Commit (existing, False) d
      | None \<Rightarrow>
          if existingSQLiteTerminalApprovalEvent d (placed d event) then Abort ErrConflict
          else case insert_execution_event (placed d event)
                 (fst (nextSQLiteSessionExecutionEventSeq (ev_namespace event) (ev_session_name event) d)) key
                 (snd (nextSQLiteSessionExecutionEventSeq (ev_namespace event) (ev_session_name event) d)) of
              None \<Rightarrow> Abort ErrDriver
            | Some d2 \<Rightarrow>
                (case recordEventUsage (placed d event)
                   (case plan of None \<Rightarrow> d2
                    | Some p \<Rightarrow> upsertSQLitePlan (ps_namespace p) (ps_task_name p) p now d2) of
                   Commit _ d4 \<Rightarrow> Commit ((placed d event)\<lparr>ev_usage := None\<rparr>, True) d4
                 | ReturnTx _ \<Rightarrow> Abort ErrDriver
                 | Abort e \<Rightarrow> Abort e))"
  unfolding appendSQLiteExecutionEvent_def dedupe_hit_def placed_def
  by (simp add: Let_def case_prod_beta cong: option.case_cong if_cong tx_result.case_cong)

lemma append_hit:
  "dedupe_hit d event key = Some existing \<Longrightarrow>
   appendSQLiteExecutionEvent event key plan now d =
     (if sameExecutionEventIdentity existing event then Commit (existing, False) d else Abort ErrDuplicateMismatch)"
  by (simp add: append_unfold)

lemma append_new:
  assumes "appendSQLiteExecutionEvent event key plan now d = Commit r d'" "dedupe_hit d event key = None"
  shows "r = ((placed d event)\<lparr>ev_usage := None\<rparr>, True)" "appended d event key d'"
proof -
  let ?q = "fst (nextSQLiteSessionExecutionEventSeq (ev_namespace event) (ev_session_name event) d)"
  let ?d1 = "snd (nextSQLiteSessionExecutionEventSeq (ev_namespace event) (ev_session_name event) d)"
  from assms obtain d2 x where fresh: "\<not> existingSQLiteTerminalApprovalEvent d (placed d event)"
    and ins: "insert_execution_event (placed d event) ?q key ?d1 = Some d2"
    and usage: "recordEventUsage (placed d event)
        (case plan of None \<Rightarrow> d2 | Some p \<Rightarrow> upsertSQLitePlan (ps_namespace p) (ps_task_name p) p now d2)
        = Commit x d'"
    and r: "r = ((placed d event)\<lparr>ev_usage := None\<rparr>, True)"
    by (auto simp: append_unfold split: option.splits if_splits tx_result.splits)
  from r show "r = ((placed d event)\<lparr>ev_usage := None\<rparr>, True)" .
  from recordEventUsage_frame [OF usage] have
    frame: "execution_events d' = execution_events d2" "session_sequences d' = session_sequences d2"
      "cleanup_generations d' = cleanup_generations d2" "task_generations d' = task_generations d2"
      "job_revocations d' = job_revocations d2"
    by (auto simp: plan_frame split: option.splits)
  with ins fresh show "appended d event key d'"
    unfolding insert_execution_event_Some appended_def
    by (simp add: session_seq_frame case_prod_beta Let_def)
qed

lemma append_Abort_or_Commit: "appendSQLiteExecutionEvent event key plan now d \<noteq> ReturnTx r"
  by (simp add: append_unfold split: option.splits tx_result.splits)

section \<open>The invariant of the event log\<close>

definition same_stream :: "event_row \<Rightarrow> event_row \<Rightarrow> bool" where
  "same_stream r r' \<longleftrightarrow>
     in_stream (ev_namespace (er_event r')) (ev_stream_type (er_event r')) (ev_stream_id (er_event r')) r"

definition has_session :: "event_row \<Rightarrow> bool" where
  "has_session r \<longleftrightarrow> TrimSpace (ev_session_name (er_event r)) \<noteq> []"

definition same_session :: "event_row \<Rightarrow> event_row \<Rightarrow> bool" where
  "same_session r r' \<longleftrightarrow> has_session r \<and>
     event_in_session (ev_namespace (er_event r')) (ev_session_name (er_event r')) r"

definition terminal_approval :: "event_row \<Rightarrow> bool" where
  "terminal_approval r \<longleftrightarrow> ev_type (er_event r) \<in> set terminalApprovalEventTypes"

abbreviation row_seq :: "event_row \<Rightarrow> int" where
  "row_seq r \<equiv> ev_seq (er_event r)"

abbreviation row_approval :: "event_row \<Rightarrow> string" where
  "row_approval r \<equiv> ApprovalIDFromExecutionEvent (er_event r)"

text \<open>
  Two rows of the log in table order: distinct identifiers, increasing positions in their stream
  and in their session, different keys, different decided approvals.
\<close>

definition log_before :: "event_row \<Rightarrow> event_row \<Rightarrow> bool" where
  "log_before r r' \<longleftrightarrow>
     \<not> event_clash r r' \<and>
     (same_stream r r' \<longrightarrow> row_seq r < row_seq r') \<and>
     (same_session r r' \<longrightarrow> er_session_seq r < er_session_seq r') \<and>
     (same_stream r r' \<and> terminal_approval r \<and> terminal_approval r' \<and> row_approval r' \<noteq> [] \<longrightarrow>
        row_approval r \<noteq> row_approval r')"

definition row_ok :: "(string \<times> string \<rightharpoonup> int) \<Rightarrow> event_row \<Rightarrow> bool" where
  "row_ok cursors r \<longleftrightarrow>
     1 \<le> row_seq r \<and>
     (if has_session r
      then 0 < er_session_seq r \<and>
        (\<exists>c. cursors (ev_namespace (er_event r), ev_session_name (er_event r)) = Some c \<and> er_session_seq r \<le> c)
      else er_session_seq r = 0)"

definition events_ok :: "'z event_db_scheme \<Rightarrow> bool" where
  "events_ok d \<longleftrightarrow>
     sorted_wrt log_before (execution_events d) \<and>
     (\<forall>r \<in> set (execution_events d). row_ok (session_sequences d) r) \<and>
     (\<forall>k c. session_sequences d k = Some c \<longrightarrow> 0 < c)"

lemma events_ok_frame:
  "events_ok d \<Longrightarrow> execution_events d' = execution_events d \<Longrightarrow> session_sequences d' = session_sequences d \<Longrightarrow>
   events_ok d'"
  by (simp add: events_ok_def)

lemma row_seq_le_latest:
  "r \<in> set (execution_events d) \<Longrightarrow> in_stream n s i r \<Longrightarrow> row_seq r \<le> latest_stream_seq d n s i"
  unfolding latest_stream_seq_def by (rule sql_max_ge) auto

lemma latest_nonneg: "events_ok d \<Longrightarrow> 0 \<le> latest_stream_seq d n s i"
  unfolding latest_stream_seq_def
  by (rule sql_max_nonneg) (force simp: events_ok_def row_ok_def)

lemma new_row_simps [simp]:
  "er_session_seq (new_event_row e q k rows) = q" "er_dedupe_key (new_event_row e q k rows) = k"
  "ev_namespace (er_event (new_event_row e q k rows)) = ev_namespace e"
  "ev_stream_type (er_event (new_event_row e q k rows)) = ev_stream_type e"
  "ev_stream_id (er_event (new_event_row e q k rows)) = ev_stream_id e"
  "ev_session_name (er_event (new_event_row e q k rows)) = ev_session_name e"
  "ev_type (er_event (new_event_row e q k rows)) = ev_type e"
  "ev_seq (er_event (new_event_row e q k rows)) = ev_seq e"
  "ev_id (er_event (new_event_row e q k rows)) = ev_id e"
  "ev_tool_call_id (er_event (new_event_row e q k rows)) = ev_tool_call_id e"
  "ev_content (er_event (new_event_row e q k rows)) = ev_content e"
  "ev_task_name (er_event (new_event_row e q k rows)) = ev_task_name e"
  by (simp_all add: new_event_row_def)

lemma new_row_approval [simp]:
  "ApprovalIDFromExecutionEvent (er_event (new_event_row e q k rows)) = ApprovalIDFromExecutionEvent e"
  by (simp add: ApprovalIDFromExecutionEvent_def)

text \<open>The session sequence of a new event is greater than those of its session.\<close>

lemma next_session_seq:
  assumes ok: "events_ok d" and nxt: "nextSQLiteSessionExecutionEventSeq n s d = (q, d1)"
  shows "if TrimSpace s = [] then q = 0 \<and> session_sequences d1 = session_sequences d
     else 0 < q \<and> session_sequences d1 = (session_sequences d)((n, s) \<mapsto> q) \<and>
       (\<forall>r \<in> set (execution_events d). event_in_session n s r \<longrightarrow> er_session_seq r < q) \<and>
       (\<forall>c. session_sequences d (n, s) = Some c \<longrightarrow> c < q)"
proof (cases "TrimSpace s = []")
  case True
  with nxt show ?thesis by (auto simp: nextSQLiteSessionExecutionEventSeq_def)
next
  case False
  have rows: "row_ok (session_sequences d) r" if "r \<in> set (execution_events d)" for r
    using ok that by (simp add: events_ok_def)
  have here: "has_session r \<and> ev_namespace (er_event r) = n \<and> ev_session_name (er_event r) = s"
    if "event_in_session n s r" for r
    using that False by (simp add: event_in_session_def has_session_def)
  show ?thesis
  proof (cases "session_sequences d (n, s)")
    case None
    then have no_row: "\<not> event_in_session n s r" if "r \<in> set (execution_events d)" for r
      using rows [OF that] here [of r] by (auto simp: row_ok_def)
    then have "latest_event_session_seq d n s = 0"
      by (auto simp: latest_event_session_seq_def filter_empty_conv sql_max_def)
    with None False nxt no_row show ?thesis
      by (auto simp: nextSQLiteSessionExecutionEventSeq_def sqliteSessionCursorSeq_def)
  next
    case (Some c)
    then have "0 < c" using ok by (simp add: events_ok_def)
    moreover have "er_session_seq r \<le> c" if "r \<in> set (execution_events d)" "event_in_session n s r" for r
      using rows [OF that(1)] here [OF that(2)] Some by (auto simp: row_ok_def)
    ultimately show ?thesis
      using Some False nxt by (force simp: nextSQLiteSessionExecutionEventSeq_def sqliteSessionCursorSeq_def Let_def)
  qed
qed

lemma appended_ok:
  assumes ok: "events_ok d" and app: "appended d e k d'"
  shows "events_ok d'"
proof -
  obtain q d1 where nxt: "nextSQLiteSessionExecutionEventSeq (ev_namespace e) (ev_session_name e) d = (q, d1)"
    by fastforce
  define row where "row = new_event_row (placed d e) q k (execution_events d)"
  from app nxt have rows: "execution_events d' = execution_events d @ [row]"
    and cursors: "session_sequences d' = session_sequences d1"
    and fresh: "\<And>r. r \<in> set (execution_events d) \<Longrightarrow> \<not> event_clash r row"
    and approval: "\<not> existingSQLiteTerminalApprovalEvent d (placed d e)"
    by (auto simp: appended_def row_def Let_def)
  note q = next_session_seq [OF ok nxt]
  have "log_before r row" if r: "r \<in> set (execution_events d)" for r
  proof -
    have "row_seq r < row_seq row" if "same_stream r row"
      using row_seq_le_latest [OF r] that by (fastforce simp: same_stream_def row_def)
    moreover have "er_session_seq r < er_session_seq row" if "same_session r row"
      using q r that by (auto simp: same_session_def row_def event_in_session_def has_session_def split: if_splits)
    moreover have "row_approval r \<noteq> row_approval row"
      if "same_stream r row" "terminal_approval r" "terminal_approval row" "row_approval row \<noteq> []"
      using approval that r
      by (auto simp: existingSQLiteTerminalApprovalEvent_def IsTerminalApprovalExecutionEventType_def
          terminal_approval_def same_stream_def row_def list_ex_iff)
    ultimately show ?thesis using fresh [OF r] by (simp add: log_before_def)
  qed
  moreover have "row_ok (session_sequences d') row"
    using q latest_nonneg [OF ok] by (auto simp: row_ok_def row_def has_session_def cursors split: if_splits)
  moreover have "row_ok (session_sequences d') r" if "r \<in> set (execution_events d)" for r
  proof -
    have "row_ok (session_sequences d) r" using ok that by (simp add: events_ok_def)
    with q show ?thesis by (fastforce simp: row_ok_def cursors split: if_splits)
  qed
  moreover have positive: "0 < c" if "session_sequences d k = Some c" for k c
    using ok that by (cases k) (simp add: events_ok_def)
  moreover have "0 < c" if "session_sequences d' k = Some c" for k c
    using q that positive [of k c] by (auto simp: cursors split: if_splits)
  ultimately show ?thesis using ok rows by (auto simp: events_ok_def sorted_wrt_append)
qed

lemma append_keeps_ok:
  assumes "events_ok d" "appendSQLiteExecutionEvent e k p now d = Commit r d'"
  shows "events_ok d'"
proof (cases "dedupe_hit d e k")
  case None
  then show ?thesis using append_new(2) [OF assms(2) None] appended_ok [OF assms(1)] by simp
next
  case (Some x)
  with assms show ?thesis by (auto simp: append_hit split: if_splits)
qed

section \<open>Deletion\<close>

lemma delete_rows_ok:
  "events_ok d \<Longrightarrow> execution_events d' = filter P (execution_events d) \<Longrightarrow>
   session_sequences d' = session_sequences d \<Longrightarrow> events_ok d'"
  by (simp add: events_ok_def sorted_wrt_filter)

lemma detached_log_before:
  assumes "log_before r r'"
  shows "log_before (detached_row n s r) (detached_row n s r')"
proof -
  have "event_clash (detached_row n s r) (detached_row n s r') = event_clash r r'"
    by (simp add: event_clash_def Let_def detached_row_def)
  moreover have "same_stream (detached_row n s r) (detached_row n s r') = same_stream r r'"
    by (simp add: same_stream_def in_stream_def detached_row_def)
  moreover have "same_session r r' \<and> er_session_seq (detached_row n s r) = er_session_seq r \<and>
      er_session_seq (detached_row n s r') = er_session_seq r'"
    if "same_session (detached_row n s r) (detached_row n s r')"
    using that by (auto simp: same_session_def has_session_def event_in_session_def detached_row_def split: if_splits)
  moreover have "terminal_approval (detached_row n s r) = terminal_approval r"
    "row_seq (detached_row n s r) = row_seq r" "row_approval (detached_row n s r) = row_approval r" for r
    by (simp_all add: terminal_approval_def ApprovalIDFromExecutionEvent_def detached_row_def)
  ultimately show ?thesis using assms unfolding log_before_def by presburger
qed

lemma detach_ok:
  assumes ok: "events_ok d"
  shows "events_ok (detach_session_events n s d)"
proof -
  have "sorted_wrt (\<lambda>r r'. log_before (detached_row n s r) (detached_row n s r')) (execution_events d)"
    by (rule sorted_wrt_mono_rel [where P = log_before])
      (use ok detached_log_before in \<open>auto simp: events_ok_def\<close>)
  moreover have "row_ok ((session_sequences d)((n, s) := None)) (detached_row n s r)"
    if "r \<in> set (execution_events d)" for r
  proof -
    have "row_ok (session_sequences d) r" using ok that by (simp add: events_ok_def)
    then show ?thesis by (auto simp: row_ok_def has_session_def event_in_session_def detached_row_def)
  qed
  moreover have "0 < c" if "((session_sequences d)((n, s) := None)) k = Some c" for k c
    using ok that by (cases k) (auto simp: events_ok_def split: if_splits)
  ultimately show ?thesis unfolding events_ok_def detach_session_events_def by (simp add: sorted_wrt_map)
qed

section \<open>The state after an operation\<close>

lemma trim_task [simp]: "TrimSpace ExecutionEventStreamTypeTask = ExecutionEventStreamTypeTask"
  by code_simp

lemma task_nonempty [simp]: "ExecutionEventStreamTypeTask \<noteq> []"
  by (simp add: ExecutionEventStreamTypeTask_def)

lemma normalized_event:
  assumes "normalizeSQLiteExecutionEvent e = Inr c"
  shows "ev_namespace c = TrimSpace (ev_namespace e)" "ev_stream_type c = ExecutionEventStreamTypeTask"
    "ev_stream_id c = TrimSpace (ev_stream_id e)" "ev_usage c = ev_usage e" "TrimSpace (ev_session_name c) = ev_session_name c"
  using assms
  by (auto simp: normalizeSQLiteExecutionEvent_def Let_def IsValidExecutionEventStreamType_def split: if_splits)

lemma prepared_stream_type:
  assumes "prepareExecutionEvent now event plan = Inr (e, p)"
  shows "ev_stream_type e = ExecutionEventStreamTypeTask"
  using assms
  by (cases event) (auto simp: prepareExecutionEvent_def Let_def split: sum.splits option.splits if_splits
      dest: normalized_event(2))

lemma append_attempts_state:
  assumes "P d" "\<And>r d'. body d = Commit r d' \<Longrightarrow> P d'"
  shows "P (snd (append_attempts as body d))"
  using assms by (induction as body d rule: append_attempts.induct) (auto split: tx_result.splits)

lemma withTaskDataFence_state:
  assumes "P d" "P (snd (unfenced d))" "\<And>r d'. body d = Commit r d' \<Longrightarrow> P d'"
  shows "P (snd (withTaskDataFence flt fence unfenced body d))"
proof (cases fence)
  case None
  with assms show ?thesis by (simp add: withTaskDataFence_def)
next
  case (Some f)
  have "P (snd (with_tx flt (\<lambda>d. guards [checkTaskDataFence d f] (body d)) d))"
    by (rule with_tx_state) (use assms in auto)
  with Some show ?thesis by (simp add: withTaskDataFence_def)
qed

lemma append_in_tx_Commit:
  assumes "append_in_tx env event key plan d = Commit r d'"
  obtains e p where "prepareExecutionEvent (ae_now env) event plan = Inr (e, p)"
    "appendSQLiteExecutionEvent e key p (ae_plan_now env) d = Commit r d'"
  using assms by (auto simp: append_in_tx_def split: sum.splits prod.splits)

lemma append_state:
  assumes "P d" "\<And>e p r d'. ev_stream_type e = ExecutionEventStreamTypeTask \<Longrightarrow>
    appendSQLiteExecutionEvent e key p (ae_plan_now env) d = Commit r d' \<Longrightarrow> P d'"
  shows "P (snd (appendExecutionEvent env fence event key plan d))"
  unfolding appendExecutionEvent_def
proof (rule withTaskDataFence_state)
  show "P (snd (appendExecutionEventUnfenced env event key plan d))"
  proof (cases "prepareExecutionEvent (ae_now env) event plan")
    case (Inl x)
    with assms(1) show ?thesis by (simp add: appendExecutionEventUnfenced_def)
  next
    case (Inr ep)
    then obtain e p where ep: "prepareExecutionEvent (ae_now env) event plan = Inr (e, p)" by (cases ep) auto
    have "P (snd (append_attempts as (appendSQLiteExecutionEvent e key p (ae_plan_now env)) d))" for as
      by (rule append_attempts_state) (use assms prepared_stream_type [OF ep] in auto)
    with ep show ?thesis by (simp add: appendExecutionEventUnfenced_def)
  qed
  show "P d'" if "append_in_tx env event key plan d = Commit r d'" for r d'
    using append_in_tx_Commit [OF that] prepared_stream_type assms(2) by metis
qed (rule assms(1))

lemma append_all_state:
  assumes "append_all env xs d = Commit rs d'" "P d"
    "\<And>e k p now d r d'. P d \<Longrightarrow> ev_stream_type e = ExecutionEventStreamTypeTask \<Longrightarrow>
      appendSQLiteExecutionEvent e k p now d = Commit r d' \<Longrightarrow> P d'"
  shows "P d'"
  using assms(1,2)
proof (induction env xs d arbitrary: rs rule: append_all.induct)
  case (2 env e k xs d)
  then obtain r d1 rs' where step: "append_in_tx env e k None d = Commit r d1"
    and rest: "append_all env xs d1 = Commit rs' d'"
    by (auto split: tx_result.splits)
  have "P d1" using append_in_tx_Commit [OF step] prepared_stream_type assms(3) [OF "2.prems"(2)] by metis
  with "2.IH" [OF step rest] show ?case by simp
qed simp

end
