(* ===== verification/Event_Runs.thy ===== *)
theory Event_Runs
  imports Event_Log
begin

text \<open>
  Runs of the event store: any sequence of its operations and of the task-data operations, with any
  faults.  \<open>event_exec\<close> is one operation on the state; the interpretation \<open>event_fences\<close> discharges the
  contract of fencing tokens for the whole store.
\<close>

section \<open>Operations\<close>

datatype event_op =
    OpRegister "fault option" string string
  | OpRelease "fault option" TaskDataFence
  | OpRevoke "fault option" TaskJobIdentity
  | OpReclaim "fault option" string string string
  | OpAppend append_env "TaskDataFence option" "ExecutionEvent option"
  | OpAppendIfAbsent append_env "TaskDataFence option" "ExecutionEvent option" string
  | OpAppendWithPlan append_env "TaskDataFence option" "ExecutionEvent option" string "PlanState option"
  | OpAppendGroup append_env "TaskDataFence option" "(ExecutionEvent option \<times> string) list"
  | OpDeleteEvents "fault option" string string string
  | OpDetachSession "fault option" string string
  | OpSavePlan "fault option" "TaskDataFence option" string string PlanState gotime
  | OpDeletePlan "fault option" string string

primrec event_exec :: "event_op \<Rightarrow> event_db \<Rightarrow> event_db" where
  "event_exec (OpRegister flt n t) d = snd (registerTaskDataFenceWrite flt n t d)"
| "event_exec (OpRelease flt f) d = snd (releaseTaskDataFenceWrite flt f d)"
| "event_exec (OpRevoke flt j) d = snd (revokeTaskJobWrite flt j d)"
| "event_exec (OpReclaim flt n t u) d = snd (deleteTaskJobRevocationsWrite flt n t u d)"
| "event_exec (OpAppend env f e) d = snd (appendExecutionEventWrite env f e d)"
| "event_exec (OpAppendIfAbsent env f e k) d = snd (appendExecutionEventIfAbsentWrite env f e k d)"
| "event_exec (OpAppendWithPlan env f e k p) d = snd (appendExecutionEventWithPlanIfAbsentWrite env f e k p d)"
| "event_exec (OpAppendGroup env f xs) d = snd (appendExecutionEventsIfAbsentWrite env f xs d)"
| "event_exec (OpDeleteEvents flt n s i) d = snd (deleteExecutionEventsWrite flt n s i d)"
| "event_exec (OpDetachSession flt n s) d =
     snd (with_tx flt (\<lambda>d. Commit () (detach_session_events n s (advanceTaskDataCleanupGeneration n [] d))) d)"
| "event_exec (OpSavePlan flt f n t p now) d = snd (savePlanWrite flt f n t p now d)"
| "event_exec (OpDeletePlan flt n t) d = snd (deletePlanWrite flt n t d)"

definition reclaim_op :: "event_op \<Rightarrow> bool" where
  "reclaim_op op \<longleftrightarrow> (\<exists>flt n t u. op = OpReclaim flt n t u)"

definition event_run :: "event_op list \<Rightarrow> event_db \<Rightarrow> event_db" where
  "event_run ops d = fold event_exec ops d"

definition empty_events :: event_db where
  "empty_events =
     \<lparr>cleanup_generations = Map.empty, task_generations = Map.empty, job_revocations = {},
      execution_events = [], session_sequences = Map.empty, plan_states = Map.empty,
      usage_task_namespaces = Map.empty, usage_observations = []\<rparr>"

section \<open>One step\<close>

definition same_log :: "event_db \<Rightarrow> event_db \<Rightarrow> bool" where
  "same_log d d' \<longleftrightarrow> execution_events d' = execution_events d \<and> session_sequences d' = session_sequences d"

lemma same_log_refl: "same_log d d"
  by (simp add: same_log_def)

lemma same_log_fence_ops:
  "same_log d (snd (registerTaskDataFenceWrite flt n t d))"
  "same_log d (snd (releaseTaskDataFenceWrite flt f d))"
  "same_log d (snd (revokeTaskJobWrite flt j d))"
  "same_log d (snd (deleteTaskJobRevocationsWrite flt n t u d))"
proof -
  show "same_log d (snd (registerTaskDataFenceWrite flt n t d))"
    unfolding registerTaskDataFenceWrite_def
    by (rule checked_tx_state [where P = "same_log d"]) (auto simp: same_log_def Let_def split: option.splits)
  show "same_log d (snd (releaseTaskDataFenceWrite flt f d))"
    unfolding releaseTaskDataFenceWrite_def
    by (rule checked_tx_state [where P = "same_log d"]) (auto simp: same_log_def)
  show "same_log d (snd (revokeTaskJobWrite flt j d))"
    unfolding revokeTaskJobWrite_def
    by (rule checked_tx_state [where P = "same_log d"]) (auto simp: same_log_def)
  show "same_log d (snd (deleteTaskJobRevocationsWrite flt n t u d))"
    unfolding deleteTaskJobRevocationsWrite_def
    by (rule checked_tx_state [where P = "same_log d"])
      (auto simp: same_log_def Let_def advanceTaskDataCleanupGeneration_def)
qed

lemma same_log_plans:
  "same_log d (upsertSQLitePlan n t p now d)"
  "same_log d (snd (deletePlanWrite flt n t d))"
proof -
  show "same_log d (upsertSQLitePlan n t p now d)" by (simp add: same_log_def plan_frame)
  show "same_log d (snd (deletePlanWrite flt n t d))"
    unfolding deletePlanWrite_def deleteTaskData_def
    by (rule with_tx_state [where P = "same_log d"])
      (auto simp: same_log_def advanceTaskDataCleanupGeneration_def Let_def)
qed

lemma delete_plan_step: "fence_step d (snd (deletePlanWrite flt n t d))"
  unfolding deletePlanWrite_def by (rule delete_step) simp_all

lemma revocations_kept:
  "job_revocations d \<subseteq> job_revocations (snd (registerTaskDataFenceWrite flt n t d))"
  "job_revocations d \<subseteq> job_revocations (snd (releaseTaskDataFenceWrite flt f d))"
  "job_revocations d \<subseteq> job_revocations (snd (revokeTaskJobWrite flt j d))"
  "job_revocations d \<subseteq> job_revocations (snd (deletePlanWrite flt n t d))"
proof -
  let ?P = "\<lambda>d'. job_revocations d \<subseteq> job_revocations d'"
  show "?P (snd (registerTaskDataFenceWrite flt n t d))"
    unfolding registerTaskDataFenceWrite_def
    by (rule checked_tx_state [where P = ?P]) (auto simp: Let_def split: option.splits)
  show "?P (snd (releaseTaskDataFenceWrite flt f d))"
    unfolding releaseTaskDataFenceWrite_def
    by (rule checked_tx_state [where P = ?P]) auto
  show "?P (snd (revokeTaskJobWrite flt j d))"
    unfolding revokeTaskJobWrite_def
    by (rule checked_tx_state [where P = ?P]) auto
  show "?P (snd (deletePlanWrite flt n t d))"
    unfolding deletePlanWrite_def deleteTaskData_def
    by (rule with_tx_state [where P = ?P]) (auto simp: advanceTaskDataCleanupGeneration_def Let_def)
qed

text \<open>
  The shape of a proof about one operation: an append inserts at most one event at a time, the other
  operations are given by their effects on the tables.
\<close>

lemma event_exec_cases:
  assumes self: "P d"
    and append: "\<And>d e k p now r d'. P d \<Longrightarrow> ev_stream_type e = ExecutionEventStreamTypeTask \<Longrightarrow>
      appendSQLiteExecutionEvent e k p now d = Commit r d' \<Longrightarrow> P d'"
    and frame: "\<And>d'. same_log d d' \<Longrightarrow> fence_step d d' \<Longrightarrow>
      (\<not> reclaim_op op \<Longrightarrow> job_revocations d \<subseteq> job_revocations d') \<Longrightarrow> P d'"
    and delete: "\<And>flt n s i. op = OpDeleteEvents flt n s i \<Longrightarrow> P (snd (deleteExecutionEventsWrite flt n s i d))"
    and detach: "\<And>n s. P (detach_session_events n s (advanceTaskDataCleanupGeneration n [] d))"
  shows "P (event_exec op d)"
proof -
  have appends: "P (snd (appendExecutionEvent env f e k p d))" for env f e k p
    by (rule append_state [where P = P]) (use self append in blast)+
  show ?thesis
  proof (cases op)
    case (OpAppend env f e)
    then show ?thesis
      using appends [of env f e "[]" None] by (simp add: appendExecutionEventWrite_def case_prod_beta)
  next
    case (OpAppendIfAbsent env f e k)
    then show ?thesis
      using appends self by (simp add: appendExecutionEventIfAbsentWrite_def split: sum.splits)
  next
    case (OpAppendWithPlan env f e k p)
    then show ?thesis
      using appends self by (simp add: appendExecutionEventWithPlanIfAbsentWrite_def split: sum.splits)
  next
    case (OpAppendGroup env f xs)
    have step: "P d'" if "append_all env ys d = Commit rs d'" for ys rs d'
      using append_all_state [where P = P, OF that self] append by blast
    have "P (snd (withTaskDataFence (ae_fault env) f (with_tx (ae_fault env) (append_all env ys)) (append_all env ys) d))"
      for ys
      by (rule withTaskDataFence_state [where P = P], rule self, rule with_tx_state [where P = P], rule self)
        (use step in blast)+
    with OpAppendGroup self show ?thesis
      by (simp add: appendExecutionEventsIfAbsentWrite_def split: sum.splits)
  next
    case (OpDetachSession flt n s)
    have "P (snd (with_tx flt
        (\<lambda>d. Commit () (detach_session_events n s (advanceTaskDataCleanupGeneration n [] d))) d))"
      by (rule with_tx_state [where P = P]) (use self detach in auto)
    with OpDetachSession show ?thesis by simp
  next
    case (OpSavePlan flt f n t p now)
    have plan: "P (upsertSQLitePlan n t p now d)"
      by (rule frame) (auto simp: same_log_plans plan_frame intro: fence_step_frame)
    have "P (snd (savePlanWrite flt f n t p now d))"
      unfolding savePlanWrite_def
      by (rule withTaskDataFence_state [where P = P], rule self, rule with_tx_state [where P = P], rule self)
        (use plan in auto)
    with OpSavePlan show ?thesis by simp
  next
    case (OpReclaim flt n t u)
    then have "reclaim_op op" by (simp add: reclaim_op_def)
    then have "P (snd (deleteTaskJobRevocationsWrite flt n t u d))"
      by (intro frame same_log_fence_ops reclaim_step) simp
    with OpReclaim show ?thesis by simp
  qed (simp_all add: frame delete same_log_fence_ops same_log_plans register_step release_step revoke_step
      delete_plan_step revocations_kept)
qed

lemma events_ok_advance:
  "events_ok d \<Longrightarrow> events_ok (advanceTaskDataCleanupGeneration n ts d)"
  by (erule events_ok_frame) (simp_all add: advanceTaskDataCleanupGeneration_def Let_def)

text \<open>The rows a deletion leaves.\<close>

lemma delete_events_state:
  assumes "P d" "\<And>f. f = filter_normalized (stream_filter n s i) \<Longrightarrow> flt = None \<Longrightarrow> filter_validate f = None \<Longrightarrow>
     P ((advanceTaskDataCleanupGeneration (ef_namespace f)
          [if ef_stream_type f = ExecutionEventStreamTypeTask then ef_stream_id f else []] d)
        \<lparr>execution_events := filter (\<lambda>r. \<not> in_stream (ef_namespace f) (ef_stream_type f) (ef_stream_id f) r)
           (execution_events d)\<rparr>)"
  shows "P (snd (deleteExecutionEventsWrite flt n s i d))"
  unfolding deleteExecutionEventsWrite_def Let_def deleteTaskData_def
proof (rule checked_tx_state [where P = P], rule assms(1))
  let ?f = "filter_normalized (stream_filter n s i)"
  let ?d = "advanceTaskDataCleanupGeneration (ef_namespace ?f)
    [if ef_stream_type ?f = ExecutionEventStreamTypeTask then ef_stream_id ?f else []] d"
  fix a d'
  assume "filter_validate ?f = None" "flt = None" and commit: "Commit () (?d\<lparr>execution_events :=
      filter (\<lambda>r. \<not> in_stream (ef_namespace ?f) (ef_stream_type ?f) (ef_stream_id ?f) r) (execution_events ?d)\<rparr>)
      = Commit a d'"
  then have "P (?d\<lparr>execution_events :=
      filter (\<lambda>r. \<not> in_stream (ef_namespace ?f) (ef_stream_type ?f) (ef_stream_id ?f) r) (execution_events d)\<rparr>)"
    using assms(2) by blast
  moreover have "execution_events ?d = execution_events d"
    by (simp add: advanceTaskDataCleanupGeneration_def Let_def)
  ultimately show "P d'" using commit by simp
qed

lemma events_ok_exec: "events_ok d \<Longrightarrow> events_ok (event_exec op d)"
proof (rule event_exec_cases [where P = events_ok])
  assume ok: "events_ok d"
  show "events_ok d" by (rule ok)
  show "events_ok d'" if "events_ok d" "appendSQLiteExecutionEvent e k p now d = Commit r d'" for d e k p now r d'
    using that by (rule append_keeps_ok)
  show "events_ok d'" if "same_log d d'" for d' using ok that by (auto simp: same_log_def intro: events_ok_frame)
  show "events_ok (snd (deleteExecutionEventsWrite flt n s i d))" for flt n s i
    by (rule delete_events_state [where P = events_ok, OF ok])
      (auto intro!: delete_rows_ok [OF ok] simp: advanceTaskDataCleanupGeneration_def Let_def)
  show "events_ok (detach_session_events n s (advanceTaskDataCleanupGeneration n [] d))" for n s
    by (intro detach_ok events_ok_advance ok)
qed

lemma append_fence_step:
  assumes "appendSQLiteExecutionEvent e k p now d = Commit r d'"
  shows "fence_step d d'"
proof (cases "dedupe_hit d e k")
  case None
  then show ?thesis using append_new(2) [OF assms None]
    by (auto simp: appended_def Let_def split: prod.splits intro: fence_step_frame)
next
  case (Some x)
  with assms show ?thesis by (auto simp: append_hit fence_step_refl split: if_splits)
qed

lemma fence_step_exec: "fence_step d (event_exec op d)"
proof (rule event_exec_cases [where P = "fence_step d"])
  show "fence_step d d" by (rule fence_step_refl)
  show "fence_step d d''" if "fence_step d d'" "appendSQLiteExecutionEvent e k p now d' = Commit r d''"
    for d' e k p now r d''
    using that append_fence_step fence_step_trans by blast
  show "fence_step d (snd (deleteExecutionEventsWrite flt n s i d))" for flt n s i
    by (rule delete_events_state [where P = "fence_step d"])
      (auto simp: fence_step_refl intro: fence_step_gens [OF _ _ fence_step_advance])
  show "fence_step d (detach_session_events n s (advanceTaskDataCleanupGeneration n [] d))" for n s
    by (rule fence_step_gens [OF _ _ fence_step_advance]) (simp_all add: detach_session_events_def)
qed

section \<open>Fences over runs\<close>

lemma filter_normalized_idem [simp]: "filter_normalized (filter_normalized f) = filter_normalized f"
proof -
  have "normalized_types (normalized_types ts) = normalized_types ts" for ts
    by (induction ts) (auto simp: normalized_types_def)
  moreover have "normalized_limit (normalized_limit n) = normalized_limit n" for n
    by (simp add: normalized_limit_def DefaultExecutionEventLimit_def MaxExecutionEventLimit_def)
  ultimately show ?thesis by (simp add: filter_normalized_def)
qed

lemma filter_validate_task:
  "filter_validate (filter_normalized f) = None \<Longrightarrow>
   ef_stream_type (filter_normalized f) = ExecutionEventStreamTypeTask"
  by (auto simp: filter_validate_def Let_def IsValidExecutionEventStreamType_def)
    (auto simp: filter_normalized_def split: if_splits)

text \<open>The operations that, without a fault, clean the data of a namespace (\<open>t = []\<close>) or of one task.\<close>

fun event_cleans :: "event_op \<Rightarrow> string \<times> string \<Rightarrow> bool" where
  "event_cleans (OpDeleteEvents flt n s i) (n', t) \<longleftrightarrow>
     flt = None \<and> filter_validate (filter_normalized (stream_filter n s i)) = None \<and>
     n' = TrimSpace n \<and> (t = [] \<or> t = TrimSpace i)"
| "event_cleans (OpDetachSession flt n s) (n', t) \<longleftrightarrow> flt = None \<and> n' = n \<and> t = []"
| "event_cleans (OpDeletePlan flt n t) (n', t') \<longleftrightarrow> flt = None \<and> n' = n \<and> (t' = [] \<or> t' = t)"
| "event_cleans (OpReclaim flt n t u) (n', t') \<longleftrightarrow>
     flt = None \<and> n \<noteq> [] \<and> t \<noteq> [] \<and> u \<noteq> [] \<and> n' = n \<and> (t' = [] \<or> t' = t)"
| "event_cleans _ _ \<longleftrightarrow> False"

lemma event_cleans_raises:
  assumes ok: "gens_ok d" and cleans: "event_cleans op (n, t)"
  shows "taskDataCleanupGeneration d n t < taskDataCleanupGeneration (event_exec op d) n t"
proof (cases op)
  case (OpDeleteEvents flt m s i)
  let ?f = "filter_normalized (stream_filter m s i)"
  from cleans OpDeleteEvents have valid: "filter_validate ?f = None" "flt = None"
    and key: "n = TrimSpace m" "t = [] \<or> t = TrimSpace i" by auto
  have f: "ef_namespace ?f = n" "ef_stream_id ?f = TrimSpace i"
    using key by (simp_all add: filter_normalized_def stream_filter_def)
  show ?thesis
    unfolding OpDeleteEvents event_exec.simps deleteExecutionEventsWrite_def Let_def
    using delete_cleans [OF ok, of t "TrimSpace i"] key valid f filter_validate_task [OF valid(1)]
    by (simp add: checked_def)
next
  case (OpDetachSession flt m s)
  with cleans have "taskDataCleanupGeneration (event_exec op d) n t = next_generation (cleanup_generations d n)"
    by (simp add: with_tx_no_fault detach_session_events_def taskDataCleanupGeneration_def namespace_generation_def
        advanceTaskDataCleanupGeneration_def Let_def)
  then show ?thesis using generation_le [OF ok, of n t] next_generation_greater [of d n] by simp
next
  case (OpDeletePlan flt m t')
  with cleans show ?thesis by (auto simp: deletePlanWrite_def intro!: delete_cleans [OF ok])
next
  case (OpReclaim flt m t' u)
  with cleans show ?thesis by (auto intro!: reclaim_cleans [OF ok])
qed (use cleans in auto)

interpretation event_fences: fencing_tokens event_exec gens_ok
  "\<lambda>d k. taskDataCleanupGeneration d (fst k) (snd k)" event_cleans
proof
  show "gens_ok (event_exec op s)" if "gens_ok s" for s op
    using fence_step_exec [of s op] that by (simp add: fence_step_def)
  show "taskDataCleanupGeneration s (fst k) (snd k) \<le> taskDataCleanupGeneration (event_exec op s) (fst k) (snd k)"
    if "gens_ok s" for s k op
    using fence_step_exec [of s op] that by (simp add: fence_step_def)
  show "taskDataCleanupGeneration s (fst k) (snd k) < taskDataCleanupGeneration (event_exec op s) (fst k) (snd k)"
    if "gens_ok s" "event_cleans op k" for s op k
    using event_cleans_raises [of s op "fst k" "snd k"] that by simp
qed

lemma event_run_eq: "event_run ops d = event_fences.run ops d"
  by (simp add: event_run_def event_fences.run_def)

lemma event_run_append: "event_run (xs @ ys) d = event_run ys (event_run xs d)"
  by (simp add: event_run_def)

lemma gens_ok_run: "gens_ok (event_run ops empty_events)"
  unfolding event_run_eq by (rule event_fences.inv_run) (simp add: gens_ok_def empty_events_def)

lemma event_run_invariant:
  "P d \<Longrightarrow> (\<And>op d. P d \<Longrightarrow> P (event_exec op d)) \<Longrightarrow> P (event_run ops d)"
  unfolding event_run_def by (induction ops arbitrary: d) simp_all

lemma events_ok_run: "events_ok (event_run ops empty_events)"
  by (rule event_run_invariant [where P = events_ok])
    (auto intro: events_ok_exec, simp add: events_ok_def empty_events_def)

lemma resolved_fence:
  assumes "ResolveTaskDataFence d n t = Inr (f, reg)"
  shows "tf_namespace f = n" "tf_task_name f = t" "tf_generation f = taskDataCleanupGeneration d n t"
    "TrimSpace n \<noteq> []"
  using assms
  by (auto simp: ResolveTaskDataFence_def Let_def validateTaskDataScope_def taskDataCleanupGeneration_def
      split: if_splits option.splits)

text \<open>A refused fence: the operation fails and changes nothing.\<close>

lemma refused_fence:
  assumes "checkTaskDataFence d f = Some x"
  shows "withTaskDataFence flt (Some f) unfenced body d =
    (Inl (if flt = Some FaultBegin \<or> flt = Some FaultStatement then ErrDriver else x), d)"
  using assms by (simp add: withTaskDataFence_def with_tx_def)

text \<open>
  C11: A fence that was resolved before a cleanup of its namespace or task is refused for ever after:
  whatever operations follow the cleanup (registrations, releases, further cleanups, the reclamation
  and re-use of the task name), the generation of the fence never becomes current again, and every
  fenced operation reports this and changes nothing.
\<close>

theorem stale_fence_refused:
  assumes "d = event_run earlier empty_events"
    and "ResolveTaskDataFence d n t = Inr (f, registered)"
    and "op \<in> set ops" "event_cleans op (n, t)"
    and "later = event_run ops d"
  shows "checkTaskDataFence later (f\<lparr>tf_jobs := jobs\<rparr>) = Some ErrTaskDataCleanupChanged \<and>
    appendExecutionEvent env (Some (f\<lparr>tf_jobs := jobs\<rparr>)) event key plan later =
      (Inl (if ae_fault env = Some FaultBegin \<or> ae_fault env = Some FaultStatement then ErrDriver
            else ErrTaskDataCleanupChanged), later)"
proof -
  note f = resolved_fence [OF assms(2)]
  have "taskDataCleanupGeneration d n t < taskDataCleanupGeneration later n t"
    using event_fences.stale_forever [OF gens_ok_run assms(3,4), of earlier] assms(1,5) by (simp add: event_run_eq)
  then have "checkTaskDataFence later (f\<lparr>tf_jobs := jobs\<rparr>) = Some ErrTaskDataCleanupChanged"
    using f by (simp add: checkTaskDataFence_def validateTaskDataScope_def first_error_Cons)
  then show ?thesis by (simp add: refused_fence appendExecutionEvent_def)
qed

section \<open>Rows over runs\<close>

text \<open>A row continues: its event keeps everything but a session that is deleted.\<close>

definition row_kept :: "event_row \<Rightarrow> event_row \<Rightarrow> bool" where
  "row_kept r r' \<longleftrightarrow>
     er_dedupe_key r' = er_dedupe_key r \<and>
     (\<exists>s \<in> {[], ev_session_name (er_event r)}. er_event r' = (er_event r)\<lparr>ev_session_name := s\<rparr>)"

fun deletes_stream :: "event_op \<Rightarrow> string \<Rightarrow> string \<Rightarrow> bool" where
  "deletes_stream (OpDeleteEvents flt n s i) n' i' \<longleftrightarrow> n' = TrimSpace n \<and> i' = TrimSpace i"
| "deletes_stream _ _ _ \<longleftrightarrow> False"

lemma row_kept_refl: "row_kept r r"
  by (simp add: row_kept_def)

lemma row_kept_trans: "row_kept a b \<Longrightarrow> row_kept b c \<Longrightarrow> row_kept a c"
  by (auto simp: row_kept_def)

lemma row_kept_detached: "row_kept r (detached_row n s r)"
  by (simp add: row_kept_def detached_row_def)

lemma append_keeps_rows:
  assumes "appendSQLiteExecutionEvent e k p now d = Commit x d'" "r \<in> set (execution_events d)"
  shows "r \<in> set (execution_events d')"
proof (cases "dedupe_hit d e k")
  case None
  from append_new(2) [OF assms(1) None] assms(2) show ?thesis
    by (auto simp: appended_def Let_def split: prod.splits)
next
  case (Some y)
  with assms show ?thesis by (auto simp: append_hit split: if_splits)
qed

lemma row_kept_exec:
  assumes r: "r \<in> set (execution_events d)"
    and kept: "\<not> deletes_stream op (ev_namespace (er_event r)) (ev_stream_id (er_event r))"
  shows "\<exists>r' \<in> set (execution_events (event_exec op d)). row_kept r r'"
proof (rule event_exec_cases [where P = "\<lambda>d. \<exists>r' \<in> set (execution_events d). row_kept r r'"])
  show self: "\<exists>r' \<in> set (execution_events d). row_kept r r'" using r row_kept_refl by blast
  show "\<exists>r' \<in> set (execution_events d''). row_kept r r'"
    if "\<exists>r' \<in> set (execution_events d'). row_kept r r'" "appendSQLiteExecutionEvent e k p now d' = Commit x d''"
    for d' e k p now x d''
    using that append_keeps_rows by blast
  show "\<exists>r' \<in> set (execution_events d'). row_kept r r'" if "same_log d d'" for d'
    using that self by (simp add: same_log_def)
  show "\<exists>r' \<in> set (execution_events (detach_session_events n s (advanceTaskDataCleanupGeneration n [] d))).
      row_kept r r'" for n s
    using r row_kept_detached
    by (auto simp: detach_session_events_def advanceTaskDataCleanupGeneration_def Let_def)
  show "\<exists>r' \<in> set (execution_events (snd (deleteExecutionEventsWrite flt n s i d))). row_kept r r'"
    if "op = OpDeleteEvents flt n s i" for flt n s i
  proof (rule delete_events_state [where P = "\<lambda>d. \<exists>r' \<in> set (execution_events d). row_kept r r'", OF self])
    have "\<not> in_stream (TrimSpace n) st (TrimSpace i) r" for st
      using kept that by (auto simp: in_stream_def)
    then show "\<exists>r' \<in> set (execution_events (x\<lparr>execution_events := filter (\<lambda>r. \<not> in_stream (ef_namespace f)
        (ef_stream_type f) (ef_stream_id f) r) (execution_events d)\<rparr>)). row_kept r r'"
      if "f = filter_normalized (stream_filter n s i)" for f and x :: event_db
      using that r row_kept_refl by (auto simp: filter_normalized_def stream_filter_def intro!: bexI [of _ r])
  qed
qed

lemma row_kept_run:
  assumes "r \<in> set (execution_events d)"
    "\<And>op. op \<in> set ops \<Longrightarrow> \<not> deletes_stream op (ev_namespace (er_event r)) (ev_stream_id (er_event r))"
  shows "\<exists>r' \<in> set (execution_events (event_run ops d)). row_kept r r'"
  using assms
proof (induction ops arbitrary: d r)
  case Nil
  then show ?case using row_kept_refl by (auto simp: event_run_def)
next
  case (Cons op ops)
  then obtain r1 where r1: "r1 \<in> set (execution_events (event_exec op d))" "row_kept r r1"
    using row_kept_exec [of r d op] by auto
  then have same: "ev_namespace (er_event r1) = ev_namespace (er_event r)"
    "ev_stream_id (er_event r1) = ev_stream_id (er_event r)" by (auto simp: row_kept_def)
  have "\<exists>r' \<in> set (execution_events (event_run ops (event_exec op d))). row_kept r1 r'"
    using Cons.prems(2) same by (intro Cons.IH r1) simp
  then show ?case using row_kept_trans [OF r1(2)] by (auto simp: event_run_def)
qed


section \<open>Retries\<close>

text \<open>The key of a stored row leads back to it.\<close>

lemma stored_key_found:
  assumes ok: "events_ok d" and r: "r \<in> set (execution_events d)" and key: "er_dedupe_key r = k" "k \<noteq> []"
    and stream: "in_stream (ev_namespace e) (ev_stream_type e) (ev_stream_id e) r"
  shows "dedupe_hit d e k = Some (er_event r)"
proof -
  let ?Q = "\<lambda>r. in_stream (ev_namespace e) (ev_stream_type e) (ev_stream_id e) r \<and> er_dedupe_key r = k"
  have "List.find ?Q (execution_events d) \<noteq> None" using r key stream by (auto simp: find_None_iff)
  then obtain x where x: "List.find ?Q (execution_events d) = Some x" by blast
  then have "x \<in> set (execution_events d)" "?Q x"
    by (auto simp: find_Some_iff)
  then have "event_clash x r" using key stream by (auto simp: event_clash_def Let_def in_stream_def)
  moreover have "event_table.table_ok (execution_events d)"
    unfolding event_table.table_ok_def
  proof
    show "list_all (\<lambda>_. True) (execution_events d)" by (simp add: list_all_iff)
    show "sorted_wrt (\<lambda>r r'. \<not> event_clash r r') (execution_events d)"
      by (rule sorted_wrt_mono_rel [where P = log_before]) (use ok in \<open>auto simp: events_ok_def log_before_def\<close>)
  qed
  ultimately have "x = r" using event_table.row_unique r \<open>x \<in> set (execution_events d)\<close> by blast
  with x key show ?thesis by (simp add: dedupe_hit_def existingSQLiteExecutionEventByDedupeKey_def)
qed

lemma prepare_no_plan:
  "prepareExecutionEvent now (Some e) None = Inr (c, p) \<Longrightarrow>
   \<exists>c0. normalizeSQLiteExecutionEvent e = Inr c0 \<and> p = None \<and>
     c = (if time_is_zero (ev_created_at c0) then c0\<lparr>ev_created_at := now\<rparr> else c0)"
  by (auto simp: prepareExecutionEvent_def Let_def split: sum.splits)

lemma append_attempts_Inr:
  "append_attempts as body d = (Inr r, d') \<Longrightarrow> body d = Commit r d' \<or> body d = ReturnTx r \<and> d' = d"
  by (induction as body d rule: append_attempts.induct) (auto split: tx_result.splits if_splits)

text \<open>What a successful append without a plan did.\<close>

lemma append_success:
  assumes "appendExecutionEvent env fence (Some e) k None d = (Inr r, d')"
  obtains c0 c where "normalizeSQLiteExecutionEvent e = Inr c0"
    "c = (if time_is_zero (ev_created_at c0) then c0\<lparr>ev_created_at := ae_now env\<rparr> else c0)"
    "appendSQLiteExecutionEvent c k None (ae_plan_now env) d = Commit r d'"
proof -
  from assms consider
    "appendExecutionEventUnfenced env (Some e) k None d = (Inr r, d')"
    | f where "with_tx (ae_fault env) (\<lambda>d. guards [checkTaskDataFence d f] (append_in_tx env (Some e) k None d)) d = (Inr r, d')"
    by (cases fence) (auto simp: appendExecutionEvent_def withTaskDataFence_def)
  then show thesis
  proof cases
    case 1
    then obtain c p where "prepareExecutionEvent (ae_now env) (Some e) None = Inr (c, p)"
      "append_attempts (map (ae_attempt env) [0..<maxAttempts]) (appendSQLiteExecutionEvent c k p (ae_plan_now env)) d = (Inr r, d')"
      by (auto simp: appendExecutionEventUnfenced_def split: sum.splits)
    note c = this
    from append_attempts_Inr [OF c(2)] append_Abort_or_Commit
    have "appendSQLiteExecutionEvent c k p (ae_plan_now env) d = Commit r d'" by blast
    with that prepare_no_plan [OF c(1)] show thesis by auto
  next
    case 2
    from with_tx_ok [OF 2] have "append_in_tx env (Some e) k None d = Commit r d'"
      by (auto simp: append_in_tx_def append_Abort_or_Commit split: sum.splits)
    then obtain c p where "prepareExecutionEvent (ae_now env) (Some e) None = Inr (c, p)"
      "appendSQLiteExecutionEvent c k p (ae_plan_now env) d = Commit r d'"
      by (rule append_in_tx_Commit)
    with that prepare_no_plan [OF this(1)] show thesis by auto
  qed
qed

lemma first_attempt_commits:
  assumes "ae_attempt env 0 = AttemptRuns" "body d = Commit r d'"
  shows "append_attempts (map (ae_attempt env) [0..<maxAttempts]) body d = (Inr r, d')"
  using assms by (simp add: maxAttempts_def upt_conv_Cons)

text \<open>An append without a fence, when the first attempt runs and its transaction commits.\<close>

lemma append_commits:
  assumes "normalizeSQLiteExecutionEvent e = Inr c0"
    "c = (if time_is_zero (ev_created_at c0) then c0\<lparr>ev_created_at := ae_now env\<rparr> else c0)"
    "ae_attempt env 0 = AttemptRuns" "appendSQLiteExecutionEvent c k None (ae_plan_now env) d = Commit r d'"
  shows "appendExecutionEvent env None (Some e) k None d = (Inr r, d')"
  using first_attempt_commits [of env "appendSQLiteExecutionEvent c k None (ae_plan_now env)", OF assms(3,4)] assms(1,2)
  by (auto simp: appendExecutionEvent_def withTaskDataFence_def appendExecutionEventUnfenced_def
      prepareExecutionEvent_def Let_def)


section \<open>A new event\<close>

lemma FormatInt_nonneg: "0 \<le> i \<Longrightarrow> 0 \<le> j \<Longrightarrow> FormatInt i = FormatInt j \<Longrightarrow> i = j"
  by (simp add: FormatInt_def) (metis eq_nat_nat_iff parse_format_nat)

lemma slash_split:
  "CHR ''/'' \<notin> set a \<Longrightarrow> CHR ''/'' \<notin> set b \<Longrightarrow> a @ CHR ''/'' # x = b @ CHR ''/'' # y \<longleftrightarrow> a = b \<and> x = y"
proof (induction a arbitrary: b)
  case Nil
  then show ?case by (cases b) auto
next
  case (Cons c a)
  then show ?case by (cases b) auto
qed

text \<open>Event identifiers are injective when namespaces and stream identifiers have no slash.\<close>

lemma executionEventID_inj:
  assumes "executionEventID n s i q = executionEventID n' s i' q'"
    "CHR ''/'' \<notin> set n" "CHR ''/'' \<notin> set n'" "CHR ''/'' \<notin> set i" "CHR ''/'' \<notin> set i'" "0 \<le> q" "0 \<le> q'"
  shows "n = n' \<and> i = i' \<and> q = q'"
  using assms by (auto simp: executionEventID_def slash_split dest: FormatInt_nonneg)

text \<open>The stream as a read returns it.\<close>

definition stream_events :: "'z event_db_scheme \<Rightarrow> string \<Rightarrow> string \<Rightarrow> ExecutionEvent list" where
  "stream_events d n i =
     map er_event (filter (in_stream n ExecutionEventStreamTypeTask i) (execution_events d))"

definition slash_free :: "ExecutionEvent \<Rightarrow> bool" where
  "slash_free e \<longleftrightarrow> CHR ''/'' \<notin> set (ev_namespace e) \<and> CHR ''/'' \<notin> set (ev_stream_id e)"

text \<open>What every stored event has: the identifier of its place, and the stream type of tasks.\<close>

definition row_placed :: "event_row \<Rightarrow> bool" where
  "row_placed r \<longleftrightarrow>
     ev_stream_type (er_event r) = ExecutionEventStreamTypeTask \<and>
     ev_id (er_event r) =
       executionEventID (ev_namespace (er_event r)) (ev_stream_type (er_event r)) (ev_stream_id (er_event r)) (row_seq r)"

lemma append_places:
  assumes "appendSQLiteExecutionEvent e k p now d = Commit x d'" "ev_stream_type e = ExecutionEventStreamTypeTask"
    "\<forall>r \<in> set (execution_events d). row_placed r"
  shows "\<forall>r \<in> set (execution_events d'). row_placed r"
proof (cases "dedupe_hit d e k")
  case None
  have "row_placed (new_event_row (placed d e) q k rows)" for q rows
    using assms(2) by (simp add: row_placed_def placed_def Let_def)
  with append_new(2) [OF assms(1) None] assms(3) show ?thesis
    by (auto simp: appended_def Let_def split: prod.splits)
next
  case (Some y)
  with assms show ?thesis by (auto simp: append_hit split: if_splits)
qed

lemma rows_placed_exec:
  assumes placed: "\<forall>r \<in> set (execution_events d). row_placed r"
  shows "\<forall>r \<in> set (execution_events (event_exec op d)). row_placed r"
proof (rule event_exec_cases [where P = "\<lambda>d. \<forall>r \<in> set (execution_events d). row_placed r"])
  show "\<forall>r \<in> set (execution_events d'). row_placed r" if "same_log d d'" for d'
    using that placed by (simp add: same_log_def)
  show "\<forall>r \<in> set (execution_events (snd (deleteExecutionEventsWrite flt n s i d))). row_placed r" for flt n s i
    by (rule delete_events_state [where P = "\<lambda>d. \<forall>r \<in> set (execution_events d). row_placed r"])
      (use placed in auto)
  have "row_placed (detached_row n s r) = row_placed r" for n s r by (simp add: row_placed_def detached_row_def)
  then show "\<forall>r \<in> set (execution_events (detach_session_events n s (advanceTaskDataCleanupGeneration n [] d))). row_placed r"
    for n s
    using placed by (auto simp: detach_session_events_def advanceTaskDataCleanupGeneration_def Let_def)
qed (use placed append_places in blast)+

lemma rows_placed_run: "r \<in> set (execution_events (event_run ops empty_events)) \<Longrightarrow> row_placed r"
  using event_run_invariant [where P = "\<lambda>d. \<forall>r \<in> set (execution_events d). row_placed r", of empty_events ops]
    rows_placed_exec by (auto simp: empty_events_def)

lemma approval_placed:
  "existingSQLiteTerminalApprovalEvent d (placed d c) = existingSQLiteTerminalApprovalEvent d c"
proof -
  have "ApprovalIDFromExecutionEvent (placed d c) = ApprovalIDFromExecutionEvent c"
    by (simp add: ApprovalIDFromExecutionEvent_def)
  then show ?thesis by (simp add: existingSQLiteTerminalApprovalEvent_def)
qed

lemma new_row_fresh:
  assumes ok: "events_ok d" and rows: "\<And>r. r \<in> set (execution_events d) \<Longrightarrow> row_placed r \<and> slash_free (er_event r)"
    and c: "ev_stream_type c = ExecutionEventStreamTypeTask" "slash_free c"
    and key: "\<And>r. r \<in> set (execution_events d) \<Longrightarrow>
      in_stream (ev_namespace c) ExecutionEventStreamTypeTask (ev_stream_id c) r \<Longrightarrow> er_dedupe_key r \<noteq> k"
    and r: "r \<in> set (execution_events d)"
  shows "\<not> event_clash r (new_event_row (placed d c) q k t)"
proof -
  have seq: "row_seq r < ev_seq (placed d c)" if "in_stream (ev_namespace c) ExecutionEventStreamTypeTask (ev_stream_id c) r"
    using row_seq_le_latest [OF r that] c by simp
  have pos: "1 \<le> row_seq r" using ok r by (simp add: events_ok_def row_ok_def)
  have nonneg: "0 \<le> ev_seq (placed d c)" using latest_nonneg [OF ok] by simp
  have idr: "ev_id (er_event r) = executionEventID (ev_namespace (er_event r)) ExecutionEventStreamTypeTask
      (ev_stream_id (er_event r)) (row_seq r)"
    using rows [OF r] by (simp add: row_placed_def)
  have idc: "ev_id (placed d c) = executionEventID (ev_namespace c) ExecutionEventStreamTypeTask (ev_stream_id c)
      (ev_seq (placed d c))"
    using c(1) by (simp add: placed_def Let_def)
  have id: "ev_namespace (er_event r) = ev_namespace c \<and> ev_stream_id (er_event r) = ev_stream_id c \<and>
      row_seq r = ev_seq (placed d c)" if eq: "ev_id (er_event r) = ev_id (placed d c)"
    by (rule executionEventID_inj [OF eq [unfolded idr idc]])
      (use rows [OF r] c(2) pos nonneg in \<open>simp_all add: slash_free_def\<close>)
  have type: "ev_stream_type (er_event r) = ExecutionEventStreamTypeTask" using rows [OF r] by (simp add: row_placed_def)
  show ?thesis
  proof
    assume clash: "event_clash r (new_event_row (placed d c) q k t)"
    then have here: "in_stream (ev_namespace c) ExecutionEventStreamTypeTask (ev_stream_id c) r"
      using id type c(1) by (auto simp: event_clash_def Let_def in_stream_def)
    with clash seq key [OF r] id show False by (auto simp: event_clash_def Let_def)
  qed
qed

text \<open>
  A new event.  When no event of its stream has the key and its approval is not decided yet, an
  append whose first attempt the driver lets run succeeds: it reports a new event with the next
  sequence of the stream, the stream then ends with exactly this event, and no other stream changes.
  (Namespaces and stream identifiers without a slash, as Kubernetes names are; event identifiers
  join them with slashes.)
\<close>

theorem append_assigns_next:
  assumes "d = event_run earlier empty_events"
    and "normalizeSQLiteExecutionEvent e = Inr c" "NormalizeExecutionEventDedupeKey key = Inr k"
    and "\<forall>r \<in> set (execution_events d). slash_free (er_event r)" "slash_free c"
    and "\<forall>r \<in> set (execution_events d).
      in_stream (ev_namespace c) ExecutionEventStreamTypeTask (ev_stream_id c) r \<longrightarrow> er_dedupe_key r \<noteq> k"
    and "\<not> existingSQLiteTerminalApprovalEvent d c"
    and "ev_usage e = None" "ae_attempt env 0 = AttemptRuns"
  shows "\<exists>ev d'. appendExecutionEventIfAbsentWrite env None (Some e) key d = (Inr (ev, True), d') \<and>
    ev_seq ev = latest_stream_seq d (ev_namespace c) (ev_stream_type c) (ev_stream_id c) + 1 \<and>
    ev_type ev = ev_type c \<and> ev_content ev = ev_content c \<and>
    stream_events d' (ev_namespace c) (ev_stream_id c) =
      stream_events d (ev_namespace c) (ev_stream_id c) @ [ev\<lparr>ev_truncation := stored_truncation (ev_truncation ev)\<rparr>] \<and>
    (\<forall>n i. (n, i) \<noteq> (ev_namespace c, ev_stream_id c) \<longrightarrow> stream_events d' n i = stream_events d n i)"
proof -
  have ok: "events_ok d" unfolding assms(1) by (rule events_ok_run)
  define c' where "c' = (if time_is_zero (ev_created_at c) then c\<lparr>ev_created_at := ae_now env\<rparr> else c)"
  have c': "ev_namespace c' = ev_namespace c" "ev_stream_type c' = ev_stream_type c" "ev_stream_id c' = ev_stream_id c"
    "ev_type c' = ev_type c" "ev_content c' = ev_content c" "ev_usage c' = None" "slash_free c'"
    "existingSQLiteTerminalApprovalEvent d c' = existingSQLiteTerminalApprovalEvent d c"
    using assms(5,8) normalized_event(4) [OF assms(2)]
    by (auto simp: c'_def slash_free_def existingSQLiteTerminalApprovalEvent_def ApprovalIDFromExecutionEvent_def)
  have type: "ev_stream_type c = ExecutionEventStreamTypeTask" by (rule normalized_event(2) [OF assms(2)])
  have hit: "dedupe_hit d c' k = None"
    using assms(6) c' type
    by (auto simp: dedupe_hit_def existingSQLiteExecutionEventByDedupeKey_def find_None_iff)
  have fresh: "\<not> event_clash r (new_event_row (placed d c') q k (execution_events d))"
    if "r \<in> set (execution_events d)" for r q
    by (rule new_row_fresh [OF ok _ _ _ _ that]) (use assms(1,4,6) rows_placed_run c' type in auto)
  have "\<exists>d'. appendSQLiteExecutionEvent c' k None (ae_plan_now env) d = Commit ((placed d c')\<lparr>ev_usage := None\<rparr>, True) d'"
    using hit fresh assms(7) c'
    by (auto simp: append_unfold approval_placed insert_execution_event_def sql_insert_def list_ex_iff
        session_seq_frame recordEventUsage_def)
  then obtain d' where commit:
    "appendSQLiteExecutionEvent c' k None (ae_plan_now env) d = Commit ((placed d c')\<lparr>ev_usage := None\<rparr>, True) d'" ..
  have run: "appendExecutionEventIfAbsentWrite env None (Some e) key d = (Inr ((placed d c')\<lparr>ev_usage := None\<rparr>, True), d')"
    using append_commits [OF assms(2) c'_def assms(9) commit] assms(3)
    by (simp add: appendExecutionEventIfAbsentWrite_def)
  from append_new(2) [OF commit hit] obtain q where
    rows: "execution_events d' = execution_events d @ [new_event_row (placed d c') q k (execution_events d)]"
    by (auto simp: appended_def Let_def split: prod.splits)
  show ?thesis
    using run rows c' type
    by (intro exI [of _ "(placed d c')\<lparr>ev_usage := None\<rparr>"] exI [of _ d'])
      (auto simp: stream_events_def in_stream_def new_event_row_def)
qed

section \<open>Revoked Jobs\<close>

text \<open>
  The finalizer reclaims the revocations of a Job under the name of its task: no operation of the run
  reclaims them under another name than that of the fence.
\<close>

fun reclaims_under :: "string \<Rightarrow> TaskJobIdentity \<Rightarrow> event_op \<Rightarrow> bool" where
  "reclaims_under t j (OpReclaim flt n t' u) \<longleftrightarrow>
     (n = tj_namespace j \<and> u = tj_task_uid j \<longrightarrow> t = [] \<or> t = t')"
| "reclaims_under t j _ \<longleftrightarrow> True"

lemma append_revocations:
  "appendSQLiteExecutionEvent e k p now d = Commit r d' \<Longrightarrow> job_revocations d' = job_revocations d"
  by (cases "dedupe_hit d e k")
    (auto simp: append_hit appended_def Let_def split: if_splits prod.splits dest: append_new(2))

lemma revocations_grow:
  assumes "\<not> reclaim_op op"
  shows "job_revocations d \<subseteq> job_revocations (event_exec op d)"
proof (rule event_exec_cases [where P = "\<lambda>d'. job_revocations d \<subseteq> job_revocations d'"])
  show "job_revocations d \<subseteq> job_revocations (snd (deleteExecutionEventsWrite flt n s i d))" for flt n s i
    by (rule delete_events_state [where P = "\<lambda>d'. job_revocations d \<subseteq> job_revocations d'"])
      (auto simp: advanceTaskDataCleanupGeneration_def Let_def)
qed (use assms in \<open>auto simp: append_revocations detach_session_events_def advanceTaskDataCleanupGeneration_def Let_def\<close>)

text \<open>Once a Job of the fence is revoked, the revocation stands or the fence is stale.\<close>

definition fence_dead :: "TaskDataFence \<Rightarrow> TaskJobIdentity \<Rightarrow> event_db \<Rightarrow> bool" where
  "fence_dead f j d \<longleftrightarrow> gens_ok d \<and>
     (job_key j \<in> job_revocations d \<or>
      tf_generation f < taskDataCleanupGeneration d (tf_namespace f) (tf_task_name f))"

lemma fence_dead_exec:
  assumes dead: "fence_dead f j d" and under: "reclaims_under (tf_task_name f) j op"
    and le: "tf_generation f \<le> taskDataCleanupGeneration d (tf_namespace f) (tf_task_name f)"
    and ns: "tj_namespace j = tf_namespace f"
  shows "fence_dead f j (event_exec op d)"
proof -
  have ok: "gens_ok d" using dead by (simp add: fence_dead_def)
  note step = fence_step_exec [of d op, unfolded fence_step_def, rule_format, OF ok]
  show ?thesis
  proof (cases "job_key j \<in> job_revocations d \<and> job_key j \<notin> job_revocations (event_exec op d)")
    case False
    with dead step show ?thesis
      unfolding fence_dead_def by (meson order_less_le_trans)
  next
    case True
    then have "reclaim_op op" using revocations_grow [of op d] by blast
    then obtain flt n t u where op: "op = OpReclaim flt n t u" by (auto simp: reclaim_op_def)
    have "event_exec op d = d" if "flt \<noteq> None"
      unfolding op event_exec.simps deleteTaskJobRevocationsWrite_def checked_def
      by (simp add: with_tx_fault [OF that] split: option.splits)
    with True have "flt = None" by (metis (no_types))
    with True op have live: "flt = None" "n \<noteq> []" "t \<noteq> []" "u \<noteq> []" "n = tj_namespace j" "u = tj_task_uid j"
      by (auto simp: deleteTaskJobRevocationsWrite_def checked_def with_tx_no_fault job_key_def Let_def
          advanceTaskDataCleanupGeneration_def split: if_splits option.splits)
    then have "event_cleans op (tf_namespace f, tf_task_name f)" using op under ns by auto
    with event_cleans_raises [OF ok this] le step show ?thesis by (simp add: fence_dead_def)
  qed
qed

lemma fence_dead_run:
  assumes "fence_dead f j d" "\<forall>op \<in> set ops. reclaims_under (tf_task_name f) j op"
    "tf_generation f \<le> taskDataCleanupGeneration d (tf_namespace f) (tf_task_name f)" "tj_namespace j = tf_namespace f"
  shows "fence_dead f j (event_run ops d)"
  using assms
proof (induction ops arbitrary: d)
  case (Cons op ops)
  have "gens_ok d" using Cons.prems(1) by (simp add: fence_dead_def)
  then have "tf_generation f \<le> taskDataCleanupGeneration (event_exec op d) (tf_namespace f) (tf_task_name f)"
    using Cons.prems(3) fence_step_exec [of d op] by (auto simp: fence_step_def intro: order_trans)
  moreover have "fence_dead f j (event_exec op d)" using Cons.prems by (intro fence_dead_exec) auto
  ultimately have "fence_dead f j (event_run ops (event_exec op d))" using Cons.IH Cons.prems(2,4) by simp
  then show ?case by (simp add: event_run_def)
qed (simp add: event_run_def)

lemma fence_dead_refused:
  assumes "fence_dead f j d" "j \<in> set (tf_jobs f)" "\<not> job_incomplete j"
  shows "checkTaskDataFence d f \<noteq> None"
proof
  assume "checkTaskDataFence d f = None"
  then have "taskDataCleanupGeneration d (tf_namespace f) (tf_task_name f) = tf_generation f"
    "checkTaskJobAuthority d j = None"
    using assms(2) by (auto simp: checkTaskDataFence_def list_all_iff)
  with assms(1,3) show False by (auto simp: fence_dead_def checkTaskJobAuthority_def)
qed

text \<open>
  C40: A revoked Job never regains access through a fence that was authorized with it.  After the Job
  is revoked, no sequence of operations makes the fence acceptable again: the revocation is kept until
  the finalizer of the task reclaims it, and that step moves the generation past the fence.
\<close>

theorem revoked_job_stays_refused:
  assumes "d = event_run earlier empty_events"
    and "ResolveTaskDataFence d n t = Inr (f, registered)"
    and "j \<in> set jobs" "tj_namespace j = n" "\<not> job_incomplete j"
    and "\<forall>op \<in> set (middle @ ops). reclaims_under t j op"
    and "later = event_run (middle @ OpRevoke None j # ops) d"
  shows "checkTaskDataFence later (f\<lparr>tf_jobs := jobs\<rparr>) \<noteq> None \<and>
    snd (appendExecutionEvent env (Some (f\<lparr>tf_jobs := jobs\<rparr>)) event key plan later) = later"
proof -
  let ?f = "f\<lparr>tf_jobs := jobs\<rparr>"
  note f = resolved_fence [OF assms(2)]
  define d1 where "d1 = event_run middle d"
  have ok: "gens_ok d1"
    using gens_ok_run [of "earlier @ middle"] assms(1) by (simp add: d1_def event_run_append)
  have "tf_generation f \<le> taskDataCleanupGeneration d1 n t"
    using event_fences.token_run [OF gens_ok_run, of earlier "(n, t)" middle] f assms(1)
    by (simp add: d1_def event_run_eq)
  moreover have exec: "fence_step d1 (event_exec (OpRevoke None j) d1)" by (rule fence_step_exec)
  ultimately have le: "tf_generation ?f \<le> taskDataCleanupGeneration (event_exec (OpRevoke None j) d1) n t"
    using ok by (auto simp: fence_step_def intro: order_trans)
  have "job_key j \<in> job_revocations (event_exec (OpRevoke None j) d1)"
    using assms(5) by (simp add: revokeTaskJobWrite_def checked_def with_tx_no_fault)
  then have "fence_dead ?f j (event_exec (OpRevoke None j) d1)"
    using exec ok by (simp add: fence_dead_def fence_step_def)
  then have "fence_dead ?f j (event_run ops (event_exec (OpRevoke None j) d1))"
    by (rule fence_dead_run) (use assms(4,6) f le in auto)
  moreover have "later = event_run ops (event_exec (OpRevoke None j) d1)"
    using assms(7) by (simp add: d1_def event_run_def)
  ultimately have refused: "checkTaskDataFence later ?f \<noteq> None"
    using fence_dead_refused [of ?f j later] assms(3,5) by simp
  then obtain x where "checkTaskDataFence later ?f = Some x" by blast
  with refused show ?thesis by (simp add: refused_fence appendExecutionEvent_def)
qed

section \<open>Errors\<close>

lemma append_attempts_error: "append_attempts as body d = (Inl x, d') \<Longrightarrow> d' = d"
  by (induction as body d rule: append_attempts.induct) (auto split: tx_result.splits if_splits)

lemma withTaskDataFence_error:
  "withTaskDataFence flt f u b d = (Inl x, d') \<Longrightarrow> (\<And>x d'. u d = (Inl x, d') \<Longrightarrow> d' = d) \<Longrightarrow> d' = d"
  by (cases f) (auto simp: withTaskDataFence_def dest: with_tx_error)

lemma append_error:
  assumes "appendExecutionEvent env f e k p d = (Inl x, d')"
  shows "d' = d"
  using assms unfolding appendExecutionEvent_def
  by (rule withTaskDataFence_error)
    (auto simp: appendExecutionEventUnfenced_def split: sum.splits dest: append_attempts_error)

text \<open>
  Appends are all or nothing.  A single append, an append with a plan projection and a grouped
  append that report an error (a validation, a stale fence, a different event under the key, a second
  decision of an approval, a conflicting usage observation, an exhausted retry loop, a cancelled
  context, a driver fault at any point) leave events, sequences, plans and usage as they were; in
  particular no entry of a failing group is stored.
\<close>

theorem append_errors_change_nothing:
  "(\<forall>x d'. appendExecutionEventWrite env f e d = (Inl x, d') \<longrightarrow> d' = d) \<and>
   (\<forall>x d'. appendExecutionEventIfAbsentWrite env f e key d = (Inl x, d') \<longrightarrow> d' = d) \<and>
   (\<forall>x d'. appendExecutionEventWithPlanIfAbsentWrite env f e key plan d = (Inl x, d') \<longrightarrow> d' = d) \<and>
   (\<forall>x d'. appendExecutionEventsIfAbsentWrite env f appends d = (Inl x, d') \<longrightarrow> d' = d)"
proof (intro conjI allI impI)
  fix x d'
  show "d' = d" if "appendExecutionEventWrite env f e d = (Inl x, d')"
    using that by (auto simp: appendExecutionEventWrite_def map_sum_def split: prod.splits sum.splits dest: append_error)
  show "d' = d" if "appendExecutionEventIfAbsentWrite env f e key d = (Inl x, d')"
    using that by (auto simp: appendExecutionEventIfAbsentWrite_def split: sum.splits dest: append_error)
  show "d' = d" if "appendExecutionEventWithPlanIfAbsentWrite env f e key plan d = (Inl x, d')"
    using that
    by (auto simp: appendExecutionEventWithPlanIfAbsentWrite_def split: sum.splits if_splits dest: append_error)
  show "d' = d" if "appendExecutionEventsIfAbsentWrite env f appends d = (Inl x, d')"
    using that
    by (auto simp: appendExecutionEventsIfAbsentWrite_def split: sum.splits dest!: withTaskDataFence_error
        dest: with_tx_error)
qed

section \<open>Stream heads\<close>

lemma read_batch_at:
  "readLatestExecutionEventSeqBatch d n s ids m i =
   (if i \<in> set ids then Some (latest_stream_seq d n s i) else m i)"
  unfolding readLatestExecutionEventSeqBatch_def
  by (induction ids arbitrary: m) auto

lemma read_seq_batches_at:
  "read_seq_batches d n s ids m i = (if i \<in> set ids then Some (latest_stream_seq d n s i) else m i)"
proof (induction d n s ids m rule: read_seq_batches.induct)
  case (1 d n s ids m)
  have "i \<in> set ids \<longleftrightarrow> i \<in> set (take sqliteExecutionEventSeqBatchSize ids) \<or>
      i \<in> set (drop sqliteExecutionEventSeqBatchSize ids)"
    by (metis Un_iff append_take_drop_id set_append)
  moreover have "read_seq_batches d n s ids m i = (if i \<in> set (drop sqliteExecutionEventSeqBatchSize ids)
      then Some (latest_stream_seq d n s i)
      else readLatestExecutionEventSeqBatch d n s (take sqliteExecutionEventSeqBatchSize ids) m i)" if "ids \<noteq> []"
    using 1 [OF that] that by (simp add: read_seq_batches.simps [of d n s ids])
  ultimately show ?case
    by (cases "ids = []") (simp_all add: read_seq_batches.simps [of d n s "[]"] read_batch_at)
qed

lemma request_streams_at:
  assumes "request_streams ids m rs = (m', rs')" "\<And>i. i \<in> set rs \<longleftrightarrow> m i \<noteq> None"
  shows "(\<forall>i. i \<in> set rs' \<longleftrightarrow> m' i \<noteq> None) \<and> (\<forall>i. m' i \<noteq> None \<longleftrightarrow> m i \<noteq> None \<or> i \<in> TrimSpace ` set ids)"
  using assms
proof (induction ids m rs rule: request_streams.induct)
  case (2 i ids m rs)
  show ?case
  proof (cases "m (TrimSpace i)")
    case None
    have "(\<forall>j. j \<in> set rs' \<longleftrightarrow> m' j \<noteq> None) \<and>
        (\<forall>j. m' j \<noteq> None \<longleftrightarrow> (m(TrimSpace i \<mapsto> 0)) j \<noteq> None \<or> j \<in> TrimSpace ` set ids)"
      by (rule "2.IH"(1) [OF refl None]) (use "2.prems" None in \<open>auto simp: Let_def fun_upd_def\<close>)
    then show ?thesis by (auto split: if_splits)
  next
    case (Some q)
    have "(\<forall>j. j \<in> set rs' \<longleftrightarrow> m' j \<noteq> None) \<and> (\<forall>j. m' j \<noteq> None \<longleftrightarrow> m j \<noteq> None \<or> j \<in> TrimSpace ` set ids)"
      by (rule "2.IH"(2) [OF refl]) (use "2.prems" Some in \<open>auto simp: Let_def\<close>)
    with Some show ?thesis by auto
  qed
qed auto

text \<open>
  The batched read of stream heads is the reference read: for any list of stream identifiers, with
  blanks and repetitions, the result has exactly the trimmed identifiers, each with the sequence the
  single read returns for it (zero for a stream without events), however the list is cut into batches.
\<close>

theorem latest_seqs_exact:
  assumes "GetLatestExecutionEventSeqs d n s ids = Inr m"
  shows "m i = (if i \<in> TrimSpace ` set ids
    then (case GetLatestExecutionEventSeq d n s i of Inr q \<Rightarrow> Some q | Inl x \<Rightarrow> None) else None)"
proof -
  let ?f = "\<lambda>i. filter_normalized (stream_filter n s i)"
  have same: "ef_namespace (?f i) = ef_namespace (?f [])" "ef_stream_type (?f i) = ef_stream_type (?f [])"
    "filter_validate (?f i) = filter_validate (?f [])" for i
    by (simp_all add: filter_validate_def filter_normalized_def stream_filter_def Let_def)
  obtain m0 rs where req: "request_streams ids (\<lambda>_. None) [] = (m0, rs)" by fastforce
  with assms have valid: "filter_validate (?f []) = None"
    and m: "m = read_seq_batches d (ef_namespace (?f [])) (ef_stream_type (?f [])) rs m0"
    by (auto simp: GetLatestExecutionEventSeqs_def Let_def)
  have rs: "i \<in> set rs \<longleftrightarrow> i \<in> TrimSpace ` set ids" "m0 i \<noteq> None \<longleftrightarrow> i \<in> TrimSpace ` set ids"
    using request_streams_at [OF req] by auto
  show ?thesis
  proof (cases "i \<in> TrimSpace ` set ids")
    case True
    then have "ef_stream_id (?f i) = i" by (auto simp: filter_normalized_def stream_filter_def)
    with True rs m valid same [of i] show ?thesis
      by (simp add: read_seq_batches_at GetLatestExecutionEventSeq_def Let_def)
  next
    case False
    with rs m show ?thesis by (simp add: read_seq_batches_at)
  qed
qed

end
