(* ===== verification/Store_Properties.thy ===== *)
theory Store_Properties
  imports Store_Runs Event_Runs
begin

text \<open>
  The properties of the session store over sequences of operations: its invariant, exclusive locks,
  chat turns that commit at most once, transcripts that load back as they were appended, and deletion.
\<close>

section \<open>Every operation keeps the invariant\<close>

lemma create_ok:
  assumes ok: "store_ok d" and zero: "sr_message_count s = 0"
  shows "store_ok (snd (createSessionWrite e s d))"
  unfolding createSessionWrite_def
proof (rule with_tx_state [where P = store_ok, OF ok])
  fix a d'
  let ?d = "forget_completion (sr_namespace s) (sr_name s) d"
  assume "create_session_body s d = Commit a d'"
  then have ins: "insert_session (session_row s) ?d = Some d'"
    by (auto simp: create_session_body_def Let_def split: if_splits option.splits)
  show "store_ok d'"
    unfolding insert_row(2) [OF ins] by (rule new_session_ok) (use ok zero insert_row(1) [OF ins] in
      \<open>auto simp: forget_ok session_row_def\<close>)
qed

lemma acquire_ok:
  assumes ok: "store_ok d"
  shows "store_ok (snd (acquireLock e events n m t u y d))"
  unfolding acquireLock_def
  by (rule with_tx_state [where P = store_ok, OF ok])
    (auto simp: acquireSessionLock_def Let_def ok split: option.splits if_splits intro: update_ok)

lemma acquire_turn_ok:
  assumes ok: "store_ok d"
  shows "store_ok (snd (acquireChatTurnWrite e r t y d))"
proof (cases r)
  case (Some s)
  show ?thesis
    unfolding Some acquireChatTurnWrite_def option.case
  proof (rule checked_tx_state [where P = store_ok, OF ok])
    fix b d'
    assume "chat_turn_body (sx_now e) s t y d = Commit b d'"
    then show "store_ok d'"
    proof (rule chat_turn_commit)
      fix s' d2
      assume run: "ensure_chat_session (sx_now e) s (forget_completion (sr_namespace s) (sr_name s) d) = (b, d2)"
        and d': "d' = update_sessions (\<lambda>r. session_pk r = (sr_namespace s, sr_name s) \<and> turn_reservable (sx_now e) r)
          (reserve_turn t y (sx_now e)) d2"
      have ok1: "store_ok (forget_completion (sr_namespace s) (sr_name s) d)" using ok by (simp only: forget_ok)
      have row: "session_pk (chat_session_row (sx_now e) s) = (sr_namespace s, sr_name s)"
        "ss_message_count (chat_session_row (sx_now e) s) = 0"
        by (simp_all add: chat_session_row_def session_row_def session_pk_def)
      have "store_ok d2"
        using ensure_chat_row(2) [OF run] ok1 new_session_ok [OF ok1 _ row(2), unfolded row(1)] by (elim disjE conjE) simp_all
      then show ?thesis unfolding d' by (rule update_ok) simp_all
    qed
  qed
qed (simp add: acquireChatTurnWrite_def ok)

lemma release_turn_ok:
  assumes ok: "store_ok d"
  shows "store_ok (snd (releaseChatTurnWrite e n m t b d))"
proof (cases "t = []")
  case False
  have upd: "store_ok (update_sessions W release_turn d)" for W by (rule update_ok [OF ok]) simp_all
  show ?thesis
    using False unfolding releaseChatTurnWrite_def
    by (simp, intro with_tx_state [where P = store_ok] ok)
      (auto simp: Let_def upd split: if_splits sum.splits dest: delete_row_ok [OF ok])
qed (simp add: releaseChatTurnWrite_def ok)

lemma clear_ok: "store_ok d \<Longrightarrow> store_ok (update_sessions W release_task_lock d)"
  by (rule update_ok) simp_all

lemma is_locked_ok: "store_ok d \<Longrightarrow> store_ok (snd (is_locked_rounds c now n m t u d))"
  by (induction c arbitrary: d) (auto simp: Let_def clear_ok split: option.splits)

lemma inserted_ok:
  assumes ok: "store_ok d" and ins: "insertSessionMessagesTx e n m msgs d = Inr (c, d1)"
    and s: "row_at (n, m) d = Some s" and W: "\<And>r. W r \<longleftrightarrow> session_pk r = (n, m) \<and> P r" "P s"
    and f: "\<And>r. session_pk (f r) = session_pk r" "\<And>r. ss_message_count (f r) = ss_message_count r + int c"
  shows "store_ok (update_sessions W f d1)"
proof -
  from insert_messages_effect [of e n m 0 msgs d c d1] ins obtain ms where
    ms: "d1 = d\<lparr>session_messages := session_messages d @ ms\<rparr>" "length ms = c" "\<forall>r \<in> set ms. in_session n m r"
      "messages_ok (session_messages d) \<longrightarrow> messages_ok (session_messages d @ ms)"
    by (auto simp: insertSessionMessagesTx_def)
  have "db_ok d1" using ok by (simp add: ms(1) store_ok_def db_ok_def)
  then have "db_ok (update_sessions W f d1)" by (rule update_db_ok) (rule f(1))
  moreover have "transcripts_ok (update_sessions W f d1)"
    unfolding ms(1) by (rule counted_transcripts_ok [OF ok ms(3) _ s W f(1)])
      (use ok ms f in \<open>auto simp: store_ok_def transcripts_ok_def\<close>)
  ultimately show ?thesis by (simp add: store_ok_def)
qed

lemma append_body_commit:
  assumes "append_messages_body e n m t u ms d = Commit a d'"
  obtains s c d1 where "row_at (n, m) d = Some s" "insertSessionMessagesTx e n m ms d = Inr (c, d1)"
    "d' = (if c > 0 then update_sessions (\<lambda>r. session_pk r = (n, m)) (count_messages c (sx_now e)) d1 else d1)"
    "t \<noteq> [] \<or> u \<noteq> [] \<Longrightarrow> verifySessionWriteLockTx (sx_now e) n m t u d = None"
  using assms by (auto simp: append_messages_body_def split: option.splits sum.splits if_splits)

lemma append_ok:
  assumes ok: "store_ok d"
  shows "store_ok (snd (appendMessages e n m t u ms d))"
  unfolding appendMessages_def
proof (rule with_tx_state [where P = store_ok, OF ok])
  fix a d'
  assume "append_messages_body e n m t u ms d = Commit a d'"
  then show "store_ok d'"
  proof (rule append_body_commit)
    fix s c d1
    assume s: "row_at (n, m) d = Some s" and ins: "insertSessionMessagesTx e n m ms d = Inr (c, d1)"
      and d': "d' = (if c > 0 then update_sessions (\<lambda>r. session_pk r = (n, m)) (count_messages c (sx_now e)) d1 else d1)"
    have "store_ok (update_sessions (\<lambda>r. session_pk r = (n, m)) (count_messages c (sx_now e)) d1)"
      by (rule inserted_ok [OF ok ins s, where P = "\<lambda>_. True"]) simp_all
    moreover have "d1 = d" if "c = 0"
      using insert_messages_effect [of e n m 0 ms d c d1] ins that by (auto simp: insertSessionMessagesTx_def)
    ultimately show ?thesis using ok by (auto simp: d')
  qed
qed

lemma commit_turn_ok:
  assumes ok: "store_ok d"
  shows "store_ok (snd (commitSessionTurnWrite e r t c ms i j d))"
proof (cases r)
  case (Some s)
  show ?thesis
    unfolding Some commitSessionTurnWrite_def option.case
  proof (rule checked_tx_state [where P = store_ok, OF ok])
    fix a d'
    assume "commit_turn_body e s t c ms i j d = Commit a d'"
    then show "store_ok d'"
    proof (rule commit_turn_commit)
      fix s' d1 W
      assume ins: "insertSessionMessagesTx e (sr_namespace s) (sr_name s) ms d = Inr (length ms, d1)"
        and s': "row_at (sr_namespace s, sr_name s) d = Some s'" "turn_owned (sx_now e) t c s'"
        and W: "W = (\<lambda>r'. session_pk r' = (sr_namespace s, sr_name s) \<and> turn_owned (sx_now e) t c r')"
        and d': "d' = update_sessions W (count_chat_turn (length ms) i j (sx_now e)) d1"
      show ?thesis
        unfolding d' W by (rule inserted_ok [OF ok ins s'(1), where P = "turn_owned (sx_now e) t c"]) (simp_all add: s'(2))
    qed
  qed
qed (simp add: commitSessionTurnWrite_def ok)

lemma row_updates_ok:
  assumes ok: "store_ok d"
  shows "store_ok (snd (releaseLockWrite e n m t u d))" "store_ok (snd (updateTokenCountsWrite e n m i j d))"
    "store_ok (snd (updateTokenCountsWithLockWrite e n m t u i j d))"
    "store_ok (snd (releaseLockWithTokenUsageWrite e n m t u i j d))"
  unfolding releaseLockWrite_def updateTokenCountsWrite_def updateTokenCountsWithLockWrite_def
    releaseLockWithTokenUsageWrite_def
  by (rule with_tx_state [where P = store_ok, OF ok],
      auto simp: Let_def split: if_splits intro!: update_ok ok)+

lemma delete_session_ok:
  assumes ok: "store_ok (control d)"
  shows "store_ok (control (snd (deleteSessionWrite e n m d)))"
  unfolding deleteSessionWrite_def
proof (rule with_tx_state [where P = "\<lambda>d. store_ok (control d)", OF ok])
  fix a d'
  assume "delete_session_body (sx_now e) n m d = Commit a d'"
  then show "store_ok (control d')"
  proof (rule delete_commit)
    fix c c1 c2 j
    assume c: "ensureSessionLockQuiescentTx (sx_now e) n m (control d) = Inr c"
      and c1: "c1 = deleteNativeSessionTx n m (delete_turn_records n m c)"
      and del: "delete_session_row n m (\<lambda>s. ss_session_type s \<noteq> SessionTypeGateway) c1 = Inr (c2, j)"
      and d': "d' = detach_session_events n m ((advanceTaskDataCleanupGeneration n [] d)\<lparr>control := c2\<rparr>)"
    have "store_ok c" using quiescent_row(1) [OF c] ok by (auto intro: clear_ok)
    then have "store_ok c1" unfolding c1 by (intro delete_records_ok)
    from delete_row_ok [OF this del] show ?thesis by (simp add: d')
  qed
qed

text \<open>A new session record has no messages yet: the count of a created session is the caller's.\<close>

fun fresh_op :: "store_op \<Rightarrow> bool" where
  "fresh_op (CreateSession s) \<longleftrightarrow> sr_message_count s = 0"
| "fresh_op _ \<longleftrightarrow> True"

lemma exec_ok:
  assumes ok: "store_ok (control d)" and fresh: "fresh_op x"
  shows "store_ok (control (store_exec e x d))"
proof (cases x)
  case (LockUntil n m t u y)
  show ?thesis
    unfolding LockUntil store_exec.simps control_on_control AcquireLockUntil_def
    by (rule checked_state [where P = store_ok, OF ok]) (rule acquire_ok [OF ok])
next
  case (TurnOp e' y)
  have "db_ok (control d)" using ok by (simp add: store_ok_def)
  note step = session_step_effect [OF this, of e' y]
  show ?thesis using turn_step_transcripts [OF step(1)] step(2) ok by (simp add: TurnOp store_ok_def)
qed (use ok fresh in \<open>simp_all add: create_ok acquireLockWrite_def acquire_ok acquire_turn_ok
  release_turn_ok isLockedWrite_def is_locked_ok append_ok commit_turn_ok row_updates_ok delete_session_ok\<close>)

lemma run_ok:
  assumes "store_ok (control d)" "\<forall>(e, x) \<in> set ops. fresh_op x"
  shows "store_ok (control (store_run ops d))"
  using assms by (induction ops d rule: store_run.induct) (auto simp: exec_ok)

lemma run_append: "store_run (ops @ ops') d = store_run ops' (store_run ops d)"
  by (induction ops d rule: store_run.induct) simp_all

definition empty_store :: "string \<Rightarrow> store_db" where
  "empty_store dataset = event_db.extend empty_events (store_db.fields (empty_db dataset) [] [] [])"

lemma empty_store_ok: "store_ok (control (empty_store dataset))"
  by (simp add: empty_store_def store_db.defs event_db.defs store_ok_def db_ok_empty transcripts_ok_def)
    (simp add: empty_db_def messages_ok_def)


section \<open>What a row keeps\<close>

text \<open>
  A fact about a row that every allowed move keeps, and that no allowed operation removes, holds at the end
  of every sequence of allowed operations.
\<close>

locale row_contract =
  fixes keeps :: "SessionRow \<Rightarrow> bool" and allowed :: "session_env \<Rightarrow> store_op \<Rightarrow> bool"
  assumes moves: "row_move e op s s' \<Longrightarrow> keeps s \<Longrightarrow> allowed e op \<Longrightarrow> keeps s'"
    and stays: "row_gone e op s \<Longrightarrow> keeps s \<Longrightarrow> \<not> allowed e op"
begin

lemma persists:
  assumes "store_ok (control d)" "row_at k (control d) = Some s" "keeps s"
    and "\<forall>(e, op) \<in> set ops. fresh_op op \<and> allowed e op"
  shows "\<exists>s'. row_at k (control (store_run ops d)) = Some s' \<and> keeps s'"
  using assms
proof (induction ops d arbitrary: s rule: store_run.induct)
  case (2 e op ops d)
  have "db_ok (control d)" using 2(2) by (simp add: store_ok_def)
  from exec_row [OF this, of e op k] 2(3-5) obtain s1 where "row_at k (control (store_exec e op d)) = Some s1" "keeps s1"
    by (auto simp: row_follows_def split: option.splits dest: moves stays)
  with 2 show ?case by (auto simp: exec_ok)
qed auto

end

section \<open>Exclusive locks\<close>

definition lock_held :: "string \<Rightarrow> string \<Rightarrow> gotime option \<Rightarrow> SessionRow \<Rightarrow> bool" where
  "lock_held task uid x s \<longleftrightarrow>
     ss_active_task s = task \<and> ss_active_task_uid s = uid \<and> ss_active_task_expires_at s = x \<and> task \<noteq> [] \<and> uid \<noteq> []"

text \<open>The operations by which the Task itself renews or releases its lock.\<close>

fun by_owner :: "string \<Rightarrow> string \<Rightarrow> store_op \<Rightarrow> bool" where
  "by_owner task uid (AcquireLock n m t u) \<longleftrightarrow> t = task \<and> u = uid"
| "by_owner task uid (LockUntil n m t u x) \<longleftrightarrow> t = task \<and> u = uid"
| "by_owner task uid (ReleaseLock n m t u) \<longleftrightarrow> t = task \<and> u = uid"
| "by_owner task uid (ReleaseLockCounted n m t u i k) \<longleftrightarrow> t = task \<and> u = uid"
| "by_owner task uid (TurnOp e (FinalizeTurn q)) \<longleftrightarrow> tk_task_uid (sf_key q) = uid"
| "by_owner task uid _ \<longleftrightarrow> False"

lemma held_move:
  assumes "row_move e x s s'" "lock_held t u y s" "\<not> expired (sx_now e) y" "\<not> by_owner t u x"
  shows "lock_held t u y s'"
  using assms
  by (induction rule: row_move.induct)
    (auto simp: lock_held_def lock_acquirable_def turn_reservable_def turn_owned_def release_turn_def count_messages_def
      count_chat_turn_def count_tokens_def counted_session_def count_session_turn_def task_lock_held_def
      release_task_lock_def Let_def)

lemma held_stays:
  assumes "row_gone e x s" "lock_held t u y s"
  shows "expired (sx_now e) y"
  using assms by (induction rule: row_gone.induct) (auto simp: lock_held_def task_lock_live_def)

interpretation locked: row_contract "lock_held t u y" "\<lambda>e op. \<not> expired (sx_now e) y \<and> \<not> by_owner t u op" for t u y
  by unfold_locales (auto intro: held_move dest: held_stays)

text \<open>A refused operation answers with an error and changes nothing.\<close>

definition refused :: "('a + 'b) \<times> 'd \<Rightarrow> 'd \<Rightarrow> bool" where
  "refused r d \<longleftrightarrow> isl (fst r) \<and> snd r = d"

lemma refused_tx:
  assumes "\<And>a. body d \<noteq> ReturnTx a" "\<And>a d'. body d \<noteq> Commit a d'"
  shows "refused (with_tx flt body d) d"
  using assms by (auto simp: refused_def with_tx_def split: tx_result.splits)

lemma refused_checked: "refused (k d) d \<Longrightarrow> refused (checked c k d) d"
  by (auto simp: refused_def checked_def split: option.splits)

lemma acquire_refused:
  assumes ok: "sessions.table_ok (sessions d)" and "row_at (n, m) d = Some s" "\<not> lock_acquirable (sx_now e) t u s"
  shows "refused (acquireLockWrite e events n m t u d) d" "refused (AcquireLockUntil e events n m t u y d) d"
proof -
  have none: "affected (\<lambda>r. session_pk r = (n, m) \<and> lock_acquirable (sx_now e) t u r \<and> Q) d = 0" for Q
    using assms(2,3) sessions.find_row_eq [OF ok] by (fastforce simp: affected_def filter_empty_conv)
  have "refused (with_tx (sx_fault e) (acquireSessionLock (sx_now e) events n m t u z) d) d" for z
    by (rule refused_tx) (use assms none in \<open>auto simp: acquireSessionLock_def Let_def split: option.splits if_splits\<close>)
  then show "refused (acquireLockWrite e events n m t u d) d" "refused (AcquireLockUntil e events n m t u y d) d"
    by (auto simp: acquireLockWrite_def AcquireLockUntil_def acquireLock_def intro: refused_checked)
qed

lemma acquire_turn_refused:
  assumes "row_at (sr_namespace r, sr_name r) d = Some s" "task_lock_live (sx_now e) s \<or> chat_turn_live (sx_now e) s"
  shows "refused (acquireChatTurnWrite e (Some r) t y d) d"
proof -
  have "chat_turn_body (sx_now e) r t y d \<noteq> Commit b d'" for b d'
  proof
    assume "chat_turn_body (sx_now e) r t y d = Commit b d'"
    then show False
    proof (rule chat_turn_commit)
      fix s' d2
      assume run: "ensure_chat_session (sx_now e) r (forget_completion (sr_namespace r) (sr_name r) d) = (b, d2)"
        and "row_at (sr_namespace r, sr_name r) d2 = Some s'" "\<not> task_lock_live (sx_now e) s'" "\<not> chat_turn_live (sx_now e) s'"
      with ensure_chat_row(1) [OF run, of "(sr_namespace r, sr_name r)" s] assms show False by simp
    qed
  qed
  moreover have "chat_turn_body (sx_now e) r t y d \<noteq> ReturnTx b" for b
    by (auto simp: chat_turn_body_def Let_def split: prod.splits option.splits if_splits)
  ultimately show ?thesis
    unfolding acquireChatTurnWrite_def option.case by (intro refused_checked refused_tx) auto
qed

lemma commit_turn_refused:
  assumes "row_at (sr_namespace r, sr_name r) d = Some s" "\<not> turn_owned (sx_now e) t c s"
  shows "refused (commitSessionTurnWrite e (Some r) t c ms i j d) d"
proof -
  have "commit_turn_body e r t c ms i j d \<noteq> Commit a d'" for a d'
    using assms by (auto elim!: commit_turn_commit)
  moreover have "commit_turn_body e r t c ms i j d \<noteq> ReturnTx a" for a
    by (auto simp: commit_turn_body_def Let_def split: option.splits sum.splits if_splits)
  ultimately show ?thesis
    unfolding commitSessionTurnWrite_def option.case by (intro refused_checked refused_tx) auto
qed

lemma delete_refused:
  assumes "row_at (n, m) (control d) = Some s" "task_lock_live (sx_now e) s \<or> chat_turn_live (sx_now e) s"
  shows "refused (deleteSessionWrite e n m d) d"
  unfolding deleteSessionWrite_def
proof (rule refused_tx)
  have err: "ensureSessionLockQuiescentTx (sx_now e) n m (control d) \<noteq> Inr c" for c
    using quiescent_row(2) [of "sx_now e" n m "control d" c s] assms by auto
  then show "delete_session_body (sx_now e) n m d \<noteq> ReturnTx a" "delete_session_body (sx_now e) n m d \<noteq> Commit a d'" for a d'
    by (auto simp: delete_session_body_def Let_def split: sum.splits)
qed

lemma fenced_writes_refused:
  assumes ok: "sessions.table_ok (sessions d)" and s: "row_at (n, m) d = Some s"
    and other: "(ss_active_task s, ss_active_task_uid s) \<noteq> (t, u)"
  shows "(t, u) \<noteq> ([], []) \<Longrightarrow> refused (appendMessagesWithLockWrite e n m t u ms d) d"
    "refused (updateTokenCountsWithLockWrite e n m t u i j d) d"
proof -
  have "affected (owner_current (sx_now e) n m t u d) d = 0"
    using other sessions.find_row_eq [OF ok] s by (fastforce simp: affected_def filter_empty_conv owner_current_def)
  then show "(t, u) \<noteq> ([], []) \<Longrightarrow> refused (appendMessagesWithLockWrite e n m t u ms d) d"
    "refused (updateTokenCountsWithLockWrite e n m t u i j d) d"
    unfolding appendMessagesWithLockWrite_def appendMessages_def updateTokenCountsWithLockWrite_def
    by (auto intro!: refused_tx simp: append_messages_body_def verifySessionWriteLockTx_def Let_def
        split: option.splits sum.splits if_splits)
qed

text \<open>
  C14: a Task lock excludes everybody else until it expires or its Task lets it go.  Whatever operations run
  meanwhile, other than those of the Task itself, the session row still names the Task with the same
  expiry; another Task cannot acquire the lock, no chat turn can be reserved or committed, writes
  fenced by another owner are rejected, and the session cannot be deleted.  A refused operation
  changes nothing.
\<close>

theorem session_lock_exclusive:
  assumes ok: "store_ok (control d)" and row: "row_at (n, m) (control d) = Some s" "lock_held task uid x s"
    and ops: "\<forall>(e, op) \<in> set ops. fresh_op op \<and> \<not> expired (sx_now e) x \<and> \<not> by_owner task uid op"
    and now: "\<not> expired (sx_now e) x" and other: "(t, u) \<noteq> (task, uid)" and key: "sr_namespace r = n" "sr_name r = m"
    and c: "c = store_run ops d"
  shows "(\<exists>s'. row_at (n, m) (control c) = Some s' \<and> lock_held task uid x s') \<and>
    refused (acquireLockWrite e (gateway_events c) n m t u (control c)) (control c) \<and>
    refused (AcquireLockUntil e (gateway_events c) n m t u y (control c)) (control c) \<and>
    refused (acquireChatTurnWrite e (Some r) turn y (control c)) (control c) \<and>
    refused (commitSessionTurnWrite e (Some r) turn count ms i k (control c)) (control c) \<and>
    ((t, u) \<noteq> ([], []) \<longrightarrow> refused (appendMessagesWithLockWrite e n m t u ms (control c)) (control c)) \<and>
    refused (updateTokenCountsWithLockWrite e n m t u i k (control c)) (control c) \<and>
    refused (deleteSessionWrite e n m c) c"
proof -
  from locked.persists [OF ok row ops] c obtain s' where s': "row_at (n, m) (control c) = Some s'" and held: "lock_held task uid x s'"
    by auto
  have "store_ok (control c)" using run_ok [OF ok] ops by (auto simp: c)
  then have tab: "sessions.table_ok (sessions (control c))" by (simp add: store_ok_def db_ok_tables(4))
  have "\<not> lock_acquirable (sx_now e) t u s'" "task_lock_live (sx_now e) s'" "\<not> turn_owned (sx_now e) turn count s'"
    "(ss_active_task s', ss_active_task_uid s') \<noteq> (t, u)"
    using held now other by (auto simp: lock_held_def lock_acquirable_def task_lock_live_def turn_owned_def)
  with s' held key show ?thesis
    by (simp add: acquire_refused [OF tab] acquire_turn_refused commit_turn_refused delete_refused fenced_writes_refused [OF tab])
qed

section \<open>Chat turns\<close>

definition turn_held :: "string \<Rightarrow> gotime \<Rightarrow> SessionRow \<Rightarrow> bool" where
  "turn_held turnID x s \<longleftrightarrow> ss_chat_turn_id s = turnID \<and> ss_chat_turn_expires_at s = Some x \<and> turnID \<noteq> []"

fun releases_turn :: "string \<Rightarrow> store_op \<Rightarrow> bool" where
  "releases_turn turnID (ReleaseTurn n m t b) \<longleftrightarrow> t = turnID"
| "releases_turn turnID _ \<longleftrightarrow> False"

lemma turn_held_live: "turn_held t x s \<Longrightarrow> now < x \<Longrightarrow> chat_turn_live now s"
  by (simp add: turn_held_def chat_turn_live_def)

lemma turn_held_move:
  assumes "row_move e op s s'" "turn_held t x s" "sx_now e < x" "\<not> releases_turn t op"
  shows "turn_held t x s'"
  using assms
proof (induction rule: row_move.induct)
qed (auto simp: turn_held_live lock_acquirable_def turn_reservable_def, auto simp: turn_held_def count_messages_def
      count_chat_turn_def count_tokens_def counted_session_def count_session_turn_def release_task_lock_def Let_def)

lemma turn_held_stays:
  assumes "row_gone e op s" "turn_held t x s" "sx_now e < x"
  shows "releases_turn t op"
  using assms by (induction rule: row_gone.induct) (use turn_held_live in \<open>fastforce simp: turn_held_def\<close>)+

interpretation reserved: row_contract "turn_held t x" "\<lambda>e op. sx_now e < x \<and> \<not> releases_turn t op" for t x
  by unfold_locales (auto intro: turn_held_move dest: turn_held_stays)

lemma move_grows:
  "row_move e op s s' \<Longrightarrow> session_pk s' = session_pk s \<and> ss_message_count s \<le> ss_message_count s'"
  by (induction rule: row_move.induct) simp_all

interpretation counted: row_contract "\<lambda>s. session_pk s = (n, m) \<and> 0 < c \<and> c \<le> ss_message_count s"
  "\<lambda>e op. op \<noteq> DeleteSession n m" for n m c
  by unfold_locales (auto dest: move_grows elim!: row_gone.cases)

text \<open>
  C15: a reserved chat turn excludes Task locks and other turns until it expires or is released: whatever
  operations run meanwhile the row still names the turn with the same expiry, nobody acquires the
  lock, nobody reserves a turn, no other turn commits, and the session cannot be deleted.
\<close>

theorem chat_turn_exclusive:
  assumes ok: "store_ok (control d)" and row: "row_at (n, m) (control d) = Some s" "turn_held turn x s"
    and ops: "\<forall>(e, op) \<in> set ops. fresh_op op \<and> sx_now e < x \<and> \<not> releases_turn turn op"
    and now: "sx_now e < x" and other: "turn' \<noteq> turn" and key: "sr_namespace r = n" "sr_name r = m"
    and c: "c = store_run ops d"
  shows "(\<exists>s'. row_at (n, m) (control c) = Some s' \<and> turn_held turn x s') \<and>
    refused (acquireLockWrite e (gateway_events c) n m t u (control c)) (control c) \<and>
    refused (AcquireLockUntil e (gateway_events c) n m t u y (control c)) (control c) \<and>
    refused (acquireChatTurnWrite e (Some r) turn'' y (control c)) (control c) \<and>
    refused (commitSessionTurnWrite e (Some r) turn' count ms i k (control c)) (control c) \<and>
    refused (deleteSessionWrite e n m c) c"
proof -
  from reserved.persists [OF ok row ops] c obtain s' where s': "row_at (n, m) (control c) = Some s'" and held: "turn_held turn x s'"
    by auto
  have "store_ok (control c)" using run_ok [OF ok] ops by (auto simp: c)
  then have tab: "sessions.table_ok (sessions (control c))" by (simp add: store_ok_def db_ok_tables(4))
  have live: "chat_turn_live (sx_now e) s'" by (rule turn_held_live [OF held now])
  then have "\<not> lock_acquirable (sx_now e) t u s'" "\<not> turn_owned (sx_now e) turn' count s'"
    using held other by (auto simp: lock_acquirable_def turn_owned_def turn_held_def)
  with s' held live key show ?thesis
    by (simp add: acquire_refused [OF tab] acquire_turn_refused commit_turn_refused delete_refused)
qed

text \<open>
  C16: of the chat turns that observed the same message count at most one commits.  Once a turn has
  committed messages on that count, whatever runs afterwards short of the deletion of the session,
  every commit on the same count is refused and changes nothing, the retry of the same turn included.
\<close>

theorem chat_turn_commits_once:
  assumes ok: "store_ok (control d)"
    and first: "commitSessionTurnWrite e1 (Some r1) turn1 count ms1 i1 k1 (control d) = (Inr a, c1)" "ms1 \<noteq> []"
    and ops: "\<forall>(e, op) \<in> set ops. fresh_op op \<and> op \<noteq> DeleteSession (sr_namespace r1) (sr_name r1)"
    and key: "sr_namespace r2 = sr_namespace r1" "sr_name r2 = sr_name r1"
    and c: "c = control (store_run ops (d\<lparr>control := c1\<rparr>))"
  shows "refused (commitSessionTurnWrite e2 (Some r2) turn2 count ms2 i2 k2 c) c"
proof -
  have ok1: "store_ok c1" using commit_turn_ok [OF ok, of e1 "Some r1" turn1 count ms1 i1 k1] first(1) by simp
  from first(1) have "commit_turn_body e1 r1 turn1 count ms1 i1 k1 (control d) = Commit a c1" "0 \<le> count"
    by (auto simp: commitSessionTurnWrite_def checked_def with_tx_def fail_if_def split: option.splits if_splits tx_result.splits)
      (auto simp: commit_turn_body_def Let_def split: option.splits sum.splits if_splits)
  then obtain s1 where s1: "row_at (sr_namespace r1, sr_name r1) c1 = Some s1"
    "ss_message_count s1 = count + int (length ms1)"
    by (elim commit_turn_commit) (auto simp: update_row insertSessionMessagesTx_def turn_owned_def row_pk
        dest!: insert_messages_sessions)
  have pos: "0 < int (length ms1)" using first(2) by simp
  with \<open>0 \<le> count\<close> have "0 < count + int (length ms1)" by linarith
  have "\<exists>s2. row_at (sr_namespace r1, sr_name r1) c = Some s2 \<and> count + int (length ms1) \<le> ss_message_count s2"
    using counted.persists [of "d\<lparr>control := c1\<rparr>" "(sr_namespace r1, sr_name r1)" s1 "sr_namespace r1" "sr_name r1" "count + int (length ms1)" ops]
      \<open>0 < count + _\<close> ok1 s1 ops row_pk [OF s1(1)] by (auto simp: c)
  then obtain s2 where "row_at (sr_namespace r1, sr_name r1) c = Some s2" "count + int (length ms1) \<le> ss_message_count s2"
    by blast
  moreover from this(2) pos have "ss_message_count s2 \<noteq> count" by linarith
  ultimately show ?thesis by (intro commit_turn_refused) (auto simp: turn_owned_def key)
qed

section \<open>Reading back what was appended\<close>

text \<open>A message as the caller gives it: no explicit order, and JSON members that are absent or not empty.\<close>

definition plain_message :: "SessionMessage \<Rightarrow> bool" where
  "plain_message msg \<longleftrightarrow> ms_order msg \<le> 0 \<and> ms_input msg \<noteq> Some [] \<and> ms_tool_calls msg \<noteq> Some [] \<and>
     ms_metadata msg \<notin> {Some [], Some empty_object}"

text \<open>The message that a reader gets: its identifier, time and order were completed.\<close>

definition completed :: "session_env \<Rightarrow> SessionMessage \<Rightarrow> SessionMessage \<Rightarrow> bool" where
  "completed e msg new \<longleftrightarrow>
     new = msg\<lparr>ms_id := ms_id new, ms_order := ms_order new,
               ms_timestamp := (if time_is_zero (ms_timestamp msg) then sx_now e else ms_timestamp msg)\<rparr> \<and>
     (ms_id msg \<noteq> [] \<longrightarrow> ms_id new = ms_id msg)"

lemma scan_message_row:
  assumes "plain_message msg" "encodeSessionMessagePayload msg = Inr (input, toolCalls, metadata)"
    and "ms_id msg \<noteq> [] \<longrightarrow> mid = ms_id msg"
    and "ts = (if time_is_zero (ms_timestamp msg) then sx_now e else ms_timestamp msg)"
  shows "completed e msg (scanSessionMessage (message_row n m mid order ts input toolCalls metadata msg))"
    "ms_source_type msg \<noteq> SessionSoulAnchorSource"
  using assms
  by (auto simp: plain_message_def completed_def encodeSessionMessagePayload_def scanSessionMessage_def message_row_def
      nilIfEmpty_def empty_object_def fail_if_def Let_def split: option.splits if_splits)

lemma insort_key_snoc: "f x < f y \<Longrightarrow> insort_key f x (xs @ [y]) = insort_key f x xs @ [y]" for f :: "'a \<Rightarrow> 'b::linorder"
  by (induction xs) auto

lemma sort_key_snoc_last:
  fixes f :: "'a \<Rightarrow> 'b::linorder"
  assumes "\<forall>x \<in> set xs. f x < f y"
  shows "sort_key f (xs @ [y]) = sort_key f xs @ [y]"
  using assms by (induction xs) (auto simp: insort_key_snoc)

lemma load_inserted:
  assumes run: "insert_message e n m i msg d = Inr (True, d')" and plain: "plain_message msg"
  shows "\<exists>new. loadTranscriptFrom d' n m 0 0 = loadTranscriptFrom d n m 0 0 @ [new] \<and> completed e msg new"
proof -
  let ?order = "nextSessionMessageOrderTx n m d"
  from run plain obtain input tools meta mid ts where enc: "encodeSessionMessagePayload msg = Inr (input, tools, meta)"
    and mid: "ms_id msg \<noteq> [] \<longrightarrow> mid = ms_id msg" and ts: "ts = (if time_is_zero (ms_timestamp msg) then sx_now e else ms_timestamp msg)"
    and d': "d' = d\<lparr>session_messages := session_messages d @ [message_row n m mid ?order ts input tools meta msg]\<rparr>"
    unfolding insert_message_def plain_message_def Let_def
    by (auto simp: sql_insert_def split: sum.splits prod.splits option.splits if_splits)
  let ?r = "message_row n m mid ?order ts input tools meta msg"
  note scan = scan_message_row [OF plain enc mid ts]
  have r: "sm_sort_order ?r = ?order" "sm_source_type ?r = ms_source_type msg"
    "session_transcript n m d' = session_transcript n m d @ [?r]"
    by (simp_all add: message_row_def d' session_transcript_def)
  let ?keep = "filter (\<lambda>m. sm_source_type m \<noteq> SessionSoulAnchorSource)"
  have "sort_key sm_sort_order (?keep (session_transcript n m d) @ [?r]) =
      sort_key sm_sort_order (?keep (session_transcript n m d)) @ [?r]"
    by (rule sort_key_snoc_last) (auto simp: r next_order_above)
  then show ?thesis using scan r by (auto simp: loadTranscriptFrom_def)
qed

lemma insert_messages_bound: "insert_messages e n m i msgs d = Inr (c, d') \<Longrightarrow> c \<le> length msgs"
  by (induction msgs arbitrary: i d c) (fastforce split: sum.splits prod.splits if_splits)+

lemma load_all_inserted:
  assumes "insert_messages e n m i msgs d = Inr (length msgs, d')" "list_all plain_message msgs"
  shows "\<exists>new. loadTranscriptFrom d' n m 0 0 = loadTranscriptFrom d n m 0 0 @ new \<and> list_all2 (completed e) msgs new"
  using assms
proof (induction msgs arbitrary: i d)
  case (Cons msg msgs)
  then obtain b d1 c where one: "insert_message e n m i msg d = Inr (b, d1)"
    and rest: "insert_messages e n m (Suc i) msgs d1 = Inr (c, d')" and c: "Suc (length msgs) = (if b then Suc c else c)"
    by (auto split: sum.splits prod.splits)
  have "c \<le> length msgs" using rest by (rule insert_messages_bound)
  with c have b: "b" "c = length msgs" by (auto split: if_splits)
  from load_inserted [of e n m i msg d d1] one b Cons.prems(2) obtain new1 where new1:
    "loadTranscriptFrom d1 n m 0 0 = loadTranscriptFrom d n m 0 0 @ [new1]" "completed e msg new1" by auto
  from Cons.IH [OF rest [unfolded b(2)]] Cons.prems(2) obtain new2 where
    "loadTranscriptFrom d' n m 0 0 = loadTranscriptFrom d1 n m 0 0 @ new2" "list_all2 (completed e) msgs new2" by auto
  with new1 show ?case by (intro exI [of _ "new1 # new2"]) simp
qed auto

lemma count_messages_owner [simp]: "ss_owner_type (count_messages c now s) = ss_owner_type s"
  by (simp add: count_messages_def)

lemma load_updated [simp]: "loadTranscriptFrom (update_sessions W f d) = loadTranscriptFrom d"
  by (simp add: fun_eq_iff loadTranscriptFrom_def session_transcript_def)

lemma append_run:
  assumes "appendMessages e n m t u ms d = (Inr a, d')"
  shows "append_messages_body e n m t u ms d = Commit a d'" "sx_fault e = None"
  using assms with_tx_ok [of "sx_fault e" "append_messages_body e n m t u ms" d a d']
  by (auto simp: appendMessages_def append_messages_body_def with_tx_def split: option.splits sum.splits if_splits tx_result.splits)


text \<open>A message that is stored under its identifier, as a retry compares it.\<close>

definition stored_as :: "string \<Rightarrow> string \<Rightarrow> SessionMessage \<Rightarrow> db \<Rightarrow> bool" where
  "stored_as n m msg d \<longleftrightarrow>
     (case (find_row message_key (n, m, ms_id msg) (session_messages d), encodeSessionMessagePayload msg) of
        (Some r, Inr (input, toolCalls, metadata)) \<Rightarrow>
          sessionMessageMatches r (ms_order msg > 0) (ms_order msg) msg input toolCalls metadata
      | _ \<Rightarrow> False)"

lemma stored_as_append:
  "stored_as n m msg d \<Longrightarrow> stored_as n m msg (d\<lparr>session_messages := session_messages d @ ms\<rparr>)"
  by (auto simp: stored_as_def find_row_append split: option.splits)

lemma message_row_matches:
  "sessionMessageMatches (message_row n m mid (if ms_order msg \<le> 0 then k else ms_order msg)
     (if time_is_zero (ms_timestamp msg) then now else ms_timestamp msg) input toolCalls metadata msg)
     (ms_order msg > 0) (ms_order msg) msg input toolCalls metadata"
  by (auto simp: sessionMessageMatches_def message_row_def)

lemma matches_order:
  "sessionMessageMatches r (ms_order msg > 0) (if ms_order msg \<le> 0 then k else ms_order msg) msg i j l \<longleftrightarrow>
   sessionMessageMatches r (ms_order msg > 0) (ms_order msg) msg i j l"
  by (auto simp: sessionMessageMatches_def)

lemma insert_message_stored:
  assumes "insert_message e n m i msg d = Inr (b, d')" "ms_id msg \<noteq> []"
  shows "stored_as n m msg d'"
proof (cases "encodeSessionMessagePayload msg")
  case (Inr p)
  obtain input tools meta where p: "p = (input, tools, meta)" by (cases p)
  show ?thesis
  proof (cases "find_row message_key (n, m, ms_id msg) (session_messages d)")
    case None
    with assms Inr p show ?thesis
      by (auto simp: insert_message_def Let_def stored_as_def sql_insert_def find_row_append message_row_matches
          message_key_def message_row_def split: option.splits if_splits) (auto simp: sessionMessageMatches_def)
  next
    case (Some r)
    with assms Inr p show ?thesis
      by (auto simp: insert_message_def Let_def stored_as_def matches_order split: if_splits)
  qed
qed (use assms in \<open>simp add: insert_message_def\<close>)

lemma insert_stored:
  assumes "stored_as n m msg d" "ms_id msg \<noteq> []"
  shows "insert_message e n m i msg d = Inr (False, d)"
  using assms by (auto simp: stored_as_def insert_message_def Let_def sessionMessageMatches_def split: option.splits sum.splits)

lemma insert_all_stored:
  "list_all (\<lambda>msg. ms_id msg \<noteq> [] \<and> stored_as n m msg d) msgs \<Longrightarrow> insert_messages e n m i msgs d = Inr (0, d)"
  by (induction msgs arbitrary: i) (auto simp: insert_stored)

lemma insert_messages_stored:
  assumes "insert_messages e n m i msgs d = Inr (c, d')" "\<forall>msg \<in> set msgs. ms_id msg \<noteq> []"
  shows "\<forall>msg \<in> set msgs. stored_as n m msg d'"
  using assms
proof (induction msgs arbitrary: i d c)
  case (Cons msg msgs)
  then obtain b d1 c1 where one: "insert_message e n m i msg d = Inr (b, d1)"
    and rest: "insert_messages e n m (Suc i) msgs d1 = Inr (c1, d')"
    by (auto split: sum.splits prod.splits)
  have "stored_as n m msg d1" using one Cons.prems(2) by (auto intro: insert_message_stored)
  moreover obtain ms where "d' = d1\<lparr>session_messages := session_messages d1 @ ms\<rparr>"
    using insert_messages_effect [OF rest] by blast
  ultimately show ?case using Cons.IH [OF rest] Cons.prems(2) by (auto simp: stored_as_append)
qed simp

text \<open>
  C23: a repeated append is harmless: after an append of messages that carry identifiers has succeeded, the
  same messages, whoever sends them and at whatever time, add nothing to the transcript and count
  nothing, and the unfenced retry succeeds.  A message under a stored identifier with another role or
  another content is rejected with the transcript unchanged.
\<close>

theorem append_retry_harmless:
  assumes run: "appendMessagesWrite e n m msgs d = (Inr a, d')" and ids: "\<forall>msg \<in> set msgs. ms_id msg \<noteq> []"
  shows "snd (appendMessages e' n m t u msgs d') = d' \<and>
    (sx_fault e' = None \<longrightarrow> appendMessagesWrite e' n m msgs d' = (Inr (), d')) \<and>
    (\<forall>msg \<in> set msgs. \<forall>other. ms_id other = ms_id msg \<and> (ms_role other \<noteq> ms_role msg \<or> ms_content other \<noteq> ms_content msg) \<longrightarrow>
       refused (appendMessages e' n m t u [other] d') d')"
proof -
  from append_run(1) [OF run [unfolded appendMessagesWrite_def]] obtain s c d1 where
    s: "row_at (n, m) d = Some s" and ins: "insertSessionMessagesTx e n m msgs d = Inr (c, d1)"
    and d': "d' = (if c > 0 then update_sessions (\<lambda>r. session_pk r = (n, m)) (count_messages c (sx_now e)) d1 else d1)"
    by (rule append_body_commit)
  have "\<forall>msg \<in> set msgs. stored_as n m msg d1"
    using insert_messages_stored ins ids by (auto simp: insertSessionMessagesTx_def)
  then have stored: "\<forall>msg \<in> set msgs. stored_as n m msg d'" by (auto simp: d' stored_as_def)
  then have again: "insertSessionMessagesTx e' n m msgs d' = Inr (0, d')"
    using ids by (auto simp: insertSessionMessagesTx_def list_all_iff intro: insert_all_stored)
  have "snd (appendMessages e' n m t u msgs d') = d'"
    unfolding appendMessages_def by (rule with_tx_state) (auto simp: again elim!: append_body_commit)
  moreover have "appendMessagesWrite e' n m msgs d' = (Inr (), d')" if "sx_fault e' = None"
  proof -
    have "sessions d1 = sessions d" using ins by (auto simp: insertSessionMessagesTx_def dest: insert_messages_sessions)
    then have "\<exists>s'. row_at (n, m) d' = Some s' \<and> ss_owner_type s' = ss_owner_type s"
      using s row_pk [OF s] by (simp add: d' update_row)
    moreover have "rejectLegacyNativeSession n m d' = rejectLegacyNativeSession n m d"
      "ensureNoSessionCleanupIntentTx n m d' = ensureNoSessionCleanupIntentTx n m d"
      using insert_messages_effect [of e n m 0 msgs d c d1] ins
      by (auto simp: d' insertSessionMessagesTx_def rejectLegacyNativeSession_def ensureNoSessionCleanupIntentTx_def)
    ultimately show ?thesis
      using append_run(1) [OF run [unfolded appendMessagesWrite_def]] s that again
      by (auto simp: append_messages_body_def appendMessagesWrite_def appendMessages_def with_tx_def guards_Cons fail_if_def
          split: option.splits if_splits)
  qed
  moreover have "refused (appendMessages e' n m t u [other] d') d'"
    if "msg \<in> set msgs" "ms_id other = ms_id msg" "ms_role other \<noteq> ms_role msg \<or> ms_content other \<noteq> ms_content msg" for msg other
  proof -
    have "stored_as n m msg d'" "ms_id msg \<noteq> []" using stored ids that(1) by auto
    then have err: "insertSessionMessagesTx e' n m [other] d' \<noteq> Inr r" for r
      using that(2,3)
      by (auto simp: stored_as_def insertSessionMessagesTx_def insert_message_def sessionMessageMatches_def Let_def
          split: option.splits sum.splits prod.splits if_splits)
    show ?thesis unfolding appendMessages_def
      by (rule refused_tx) (use err in \<open>auto simp: append_messages_body_def split: option.splits sum.splits if_splits\<close>)
  qed
  ultimately show ?thesis by blast
qed

section \<open>Deletion\<close>

lemma quiescent_tables:
  assumes "ensureSessionLockQuiescentTx now n m d = Inr c"
  shows "session_messages c = session_messages d" "session_turns c = session_turns d"
    "session_controls c = session_controls d" "outbox_projections c = outbox_projections d"
    "native_session_snapshots c = native_session_snapshots d" "native_session_deleted_names c = native_session_deleted_names d"
  using quiescent_row(1) [OF assms] by (auto simp: update_sessions_def)

text \<open>What is left of the other tables, whether the session had a row or not.\<close>

lemma delete_tables:
  assumes c1: "c1 = deleteNativeSessionTx n m (delete_turn_records n m c)" and c2: "c2 = c1 \<or> c2 = cascade_session n m c1"
  shows "\<not> session_referenced n m c2" "find_row native_pk (n, m) (native_session_snapshots c2) = None"
    "find_row native_pk (n, m) (native_session_snapshots c) \<noteq> None \<Longrightarrow> ensureNativeSessionNameAvailableTx n m c2 = Some ErrConflict"
    "outbox_projections c2 = filter (\<lambda>p. \<not> turn_projection n m c p) (outbox_projections c)"
    "(a, b) \<noteq> (n, m) \<Longrightarrow> session_transcript a b c2 = session_transcript a b c"
proof -
  have names: "find_row native_pk (n, m) (native_session_snapshots c) \<noteq> None \<Longrightarrow> (n, m) \<in> set (native_session_deleted_names c1)"
    by (simp add: c1 deleteNativeSessionTx_def delete_turn_records_def List.member_iff)
  have tr: "(a, b) \<noteq> (n, m) \<Longrightarrow> session_transcript a b (cascade_session n m c1) = session_transcript a b c1"
    by (auto simp: session_transcript_def cascade_session_def intro: filter_cong)
  show "(a, b) \<noteq> (n, m) \<Longrightarrow> session_transcript a b c2 = session_transcript a b c"
    using c2 tr by (elim disjE) (simp_all add: c1, simp_all add: session_transcript_def)
  show "find_row native_pk (n, m) (native_session_snapshots c) \<noteq> None \<Longrightarrow>
      ensureNativeSessionNameAvailableTx n m c2 = Some ErrConflict"
    using names c2 by (auto simp: ensureNativeSessionNameAvailableTx_def cascade_session_def fail_if_def List.member_iff)
  show "\<not> session_referenced n m c2" "find_row native_pk (n, m) (native_session_snapshots c2) = None"
    "outbox_projections c2 = filter (\<lambda>p. \<not> turn_projection n m c p) (outbox_projections c)"
    using c2 by (auto simp: c1 cascade_session_def deleteNativeSessionTx_def delete_turn_records_def session_referenced_def
        list_ex_iff session_turn_of_def find_row_filter_pk)
qed


section \<open>Pages\<close>

text \<open>The whole listing that pages divide: the rows after a cursor, newest first and by name.\<close>

definition listing :: "db \<Rightarrow> string \<Rightarrow> SessionPageCursor option \<Rightarrow> string \<Rightarrow> SessionRow list" where
  "listing d namespace after excludeType = sort_key page_order (filter (page_row namespace after excludeType) (sessions d))"

definition cursor_at :: "SessionRow \<Rightarrow> SessionPageCursor" where
  "cursor_at s = \<lparr>pc_created_at = ss_created_at s, pc_name = ss_name s\<rparr>"

lemma page_row_cursor:
  "page_row namespace (Some (cursor_at s)) x r \<longleftrightarrow> page_row namespace None x r \<and> page_order s < page_order r"
  by (auto simp: page_row_def cursor_at_def page_order_def less_prod_def)

lemma page_row_after:
  "page_row namespace after x s \<Longrightarrow> page_order s < page_order r \<Longrightarrow> page_row namespace after x r \<longleftrightarrow> page_row namespace None x r"
  by (auto simp: page_row_def page_order_def less_prod_def split: option.splits)

lemma filter_above_nth:
  fixes f :: "'a \<Rightarrow> 'b::linorder"
  assumes "sorted_wrt (\<lambda>a b. f a < f b) xs" "i < length xs"
  shows "filter (\<lambda>x. f (xs ! i) < f x) xs = drop (Suc i) xs"
  using assms
proof (induction xs arbitrary: i)
  case (Cons x xs)
  show ?case
  proof (cases i)
    case 0
    with Cons.prems(1) show ?thesis by (auto intro: filter_True)
  next
    case (Suc j)
    with Cons show ?thesis by (auto dest: order.asym)
  qed
qed simp

lemma listing_strict:
  assumes "sessions.table_ok (sessions d)"
  shows "sorted_wrt (\<lambda>a b. page_order a < page_order b) (listing d namespace after x)"
proof -
  let ?t = "filter (page_row namespace after x) (sessions d)"
  have "distinct (map session_pk (sessions d))"
    using assms by (auto simp: sessions.table_ok_def distinct_conv_nth sorted_wrt_iff_nth_less) (metis linorder_neqE_nat)
  then have "distinct (map session_pk ?t)" by (rule distinct_map_filter)
  moreover have "inj_on page_order (set ?t)" if "inj_on session_pk (set ?t)"
    using that by (auto simp: inj_on_def page_order_def session_pk_def page_row_def)
  ultimately have "distinct (map page_order ?t)" by (auto simp: distinct_map)
  then have "distinct (map page_order (listing d namespace after x))"
    by (simp add: listing_def distinct_map)
  then show ?thesis
    by (simp add: listing_def strict_sorted_iff flip: sorted_wrt_map)
qed

text \<open>
  C29: paging is exact: a page is the next \<open>limit\<close> sessions of the listing and says whether more follow, and
  the listing after the cursor of the last session of a full page is exactly the rest of the listing,
  so that following the cursors shows every session once.
\<close>

theorem session_pages_exact:
  assumes ok: "store_ok d" and limit: "0 < limit" and l: "l = listing d namespace after excludeType"
  shows "ListSessionsPage d namespace after limit excludeType =
      (map session_metadata (take (nat limit) l), nat limit < length l) \<and>
    (nat limit \<le> length l \<longrightarrow>
       listing d namespace (Some (cursor_at (l ! (nat limit - 1)))) excludeType = drop (nat limit) l)"
proof -
  have strict: "sorted_wrt (\<lambda>a b. page_order a < page_order b) l"
    using ok unfolding l by (intro listing_strict) (simp add: store_ok_def db_ok_tables(4))
  have "listing d namespace (Some (cursor_at (l ! (nat limit - 1)))) excludeType = drop (nat limit) l"
    if len: "nat limit \<le> length l"
  proof -
    let ?s = "l ! (nat limit - 1)"
    have i: "nat limit - 1 < length l" "Suc (nat limit - 1) = nat limit" using limit len by simp_all
    have "?s \<in> set l" using i(1) by simp
    then have s: "page_row namespace after excludeType ?s" by (simp add: l listing_def)
    have "listing d namespace (Some (cursor_at ?s)) excludeType = filter (\<lambda>r. page_order ?s < page_order r) l"
      unfolding l listing_def filter_sort filter_filter
      using page_row_after [OF s] by (intro arg_cong [where f = "sort_key page_order"] filter_cong) (auto simp: page_row_cursor l listing_def)
    then show ?thesis using filter_above_nth [OF strict i(1)] i(2) by simp
  qed
  moreover have "ListSessionsPage d namespace after limit excludeType =
      (map session_metadata (take (nat limit) l), nat limit < length l)"
    using limit by (auto simp: ListSessionsPage_def l listing_def Let_def nat_add_distrib take_map min_def)
  ultimately show ?thesis by blast
qed

end
