(* ===== verification/Cleanup_Runs.thy ===== *)
theory Cleanup_Runs
  imports Session_Cleanup Store_Properties
begin

text \<open>
  Sequences of cleanup operations interleaved with the operations of the session store.  A stored plan
  stays until its own completion and refuses other work on the session; a completion reserves the
  identity of the deleted session for ever; completion archives every turn and removes the rest.
\<close>

section \<open>Operations\<close>

datatype cleanup_op =
    StoreOp session_env store_op
  | Prepare cleanup_env SessionCleanupIntent
  | Complete cleanup_env CompleteSessionCleanupRequest
  | BindIdentity env string string string
  | ReclaimTranscript cleanup_env string string gotime gotime
  | Deliveries "(string \<times> string) list"

fun cleanup_exec :: "cleanup_op \<Rightarrow> store_db \<Rightarrow> store_db" where
  "cleanup_exec (StoreOp e x) d = store_exec e x d"
| "cleanup_exec (Prepare e i) d = snd (prepareSessionCleanupWrite e i d)"
| "cleanup_exec (Complete e q) d = snd (completeSessionCleanupWrite e q d)"
| "cleanup_exec (BindIdentity e n m u) d = on_control (bindSessionCleanupIdentityWrite e n m u) d"
| "cleanup_exec (ReclaimTranscript e n m now cutoff) d =
     (case reclaimGatewayTranscriptTx e n m now cutoff d of Inl _ \<Rightarrow> d | Inr (_, d') \<Rightarrow> d')"
| "cleanup_exec (Deliveries v) d = d\<lparr>gateway_deliveries := v\<rparr>"

definition cleanup_run :: "cleanup_op list \<Rightarrow> store_db \<Rightarrow> store_db" where
  "cleanup_run ops d = fold cleanup_exec ops d"

section \<open>Plans and completions under the other operations\<close>

text \<open>What an operation of the session store may do to the two tables.\<close>

definition cleanup_kept :: "db \<Rightarrow> db \<Rightarrow> bool" where
  "cleanup_kept d d' \<longleftrightarrow>
     session_cleanup_intents d' = session_cleanup_intents d \<and>
     (session_cleanup_completions d' = session_cleanup_completions d \<or>
      (\<exists>n m. session_cleanup_completions d' =
         filter (\<lambda>c. \<not> reusable_completion n m c) (session_cleanup_completions d)))"

lemma cleanup_kept_refl [simp]: "cleanup_kept d d"
  by (simp add: cleanup_kept_def)

lemma cleanup_kept_tables:
  "cleanup_kept d (update_sessions W f d)" "cleanup_kept d (cascade_session n m d)"
  "cleanup_kept d (d\<lparr>session_messages := t\<rparr>)"
  by (simp_all add: cleanup_kept_def update_sessions_def cascade_session_def)

lemma cleanup_kept_cong:
  "session_cleanup_intents d2 = session_cleanup_intents d1 \<Longrightarrow> session_cleanup_completions d2 = session_cleanup_completions d1 \<Longrightarrow>
   cleanup_kept d d2 \<longleftrightarrow> cleanup_kept d d1"
  by (simp add: cleanup_kept_def)

lemma update_cleanup [simp]:
  "session_cleanup_completions (update_sessions W f d) = session_cleanup_completions d"
  "session_cleanup_intents (cascade_session n m d) = session_cleanup_intents d"
  "session_cleanup_completions (cascade_session n m d) = session_cleanup_completions d"
  by (simp_all add: update_sessions_def cascade_session_def)

lemma turn_step_cleanup:
  assumes "turn_step d d'"
  shows "session_cleanup_intents d' = session_cleanup_intents d"
    "session_cleanup_completions d' = session_cleanup_completions d"
proof -
  have "session_cleanup_intents d' = session_cleanup_intents d \<and> session_cleanup_completions d' = session_cleanup_completions d"
    using assms
  proof (induction rule: turn_step.induct)
    case (closed turn d row q p ms s d3 d')
    note fin = finalized_tables(6,7) [OF closed(2)]
    from fin(1) have "session_cleanup_intents d3 = session_cleanup_intents d" "session_cleanup_completions d3 = session_cleanup_completions d"
      by (auto elim!: native_stepE simp: counted_db_def)
    with arg_cong [OF fin(2), of session_cleanup_intents] arg_cong [OF fin(2), of session_cleanup_completions]
    show ?case by simp
  next
    case (saved q d d')
    then show ?case using save_native [OF saved(1)] by (auto simp: writeSealedNativeSessionTx_def)
  next
    case (staged q d a d')
    from staged(2) show ?case by (rule stage_commit) (simp add: writeSealedNativeSessionTx_def)
  qed simp_all
  then show "session_cleanup_intents d' = session_cleanup_intents d"
    "session_cleanup_completions d' = session_cleanup_completions d" by simp_all
qed

lemma insert_messages_cleanup:
  assumes "insertSessionMessagesTx e n m ms d = Inr (c, d1)"
  shows "session_cleanup_intents d1 = session_cleanup_intents d" "session_cleanup_completions d1 = session_cleanup_completions d"
  using insert_messages_effect [of e n m 0 ms d c d1] assms by (auto simp: insertSessionMessagesTx_def)

lemma create_cleanup: "cleanup_kept d (snd (createSessionWrite e s d))"
  unfolding createSessionWrite_def
  by (rule with_tx_state [where P = "cleanup_kept d"])
    (auto simp: create_session_body_def Let_def cleanup_kept_def forget_completion_def insert_session_def split: if_splits option.splits)

lemma acquire_cleanup: "cleanup_kept d (snd (acquireLock e events n m t u y d))"
  unfolding acquireLock_def
  by (rule with_tx_state [where P = "cleanup_kept d"])
    (auto simp: acquireSessionLock_def Let_def cleanup_kept_tables split: option.splits if_splits)

lemma acquire_turn_cleanup: "cleanup_kept d (snd (acquireChatTurnWrite e r t y d))"
proof (cases r)
  case (Some s)
  show ?thesis
    unfolding Some acquireChatTurnWrite_def option.case
  proof (rule checked_tx_state [where P = "cleanup_kept d"])
    fix b d'
    assume "chat_turn_body (sx_now e) s t y d = Commit b d'"
    then show "cleanup_kept d d'"
      by (rule chat_turn_commit)
        (auto simp: cleanup_kept_def forget_completion_def ensure_chat_session_def insert_session_def split: option.splits)
  qed simp
qed (simp add: acquireChatTurnWrite_def)

lemma release_turn_cleanup: "cleanup_kept d (snd (releaseChatTurnWrite e n m t b d))"
proof (cases "t = []")
  case False
  then show ?thesis
    unfolding releaseChatTurnWrite_def
    by (simp, intro with_tx_state [where P = "cleanup_kept d"])
      (auto simp: Let_def cleanup_kept_tables delete_session_row_def split: if_splits sum.splits option.splits)
qed (simp add: releaseChatTurnWrite_def)

lemma is_locked_cleanup: "cleanup_kept d d1 \<Longrightarrow> cleanup_kept d (snd (is_locked_rounds c now n m t u d1))"
  by (induction c arbitrary: d1) (auto simp: Let_def cleanup_kept_def split: option.splits)

lemma append_cleanup: "cleanup_kept d (snd (appendMessages e n m t u ms d))"
  unfolding appendMessages_def
  by (rule with_tx_state [where P = "cleanup_kept d"])
    (auto simp: cleanup_kept_def dest: insert_messages_cleanup elim!: append_body_commit)

lemma commit_cleanup: "cleanup_kept d (snd (commitSessionTurnWrite e r t c ms i j d))"
proof (cases r)
  case (Some s)
  show ?thesis
    unfolding Some commitSessionTurnWrite_def option.case
    by (rule checked_tx_state [where P = "cleanup_kept d"])
      (auto simp: cleanup_kept_def dest: insert_messages_cleanup elim!: commit_turn_commit)
qed (simp add: commitSessionTurnWrite_def)

lemma row_updates_cleanup:
  "cleanup_kept d (snd (releaseLockWrite e n m t u d))" "cleanup_kept d (snd (updateTokenCountsWrite e n m i j d))"
  "cleanup_kept d (snd (updateTokenCountsWithLockWrite e n m t u i j d))"
  "cleanup_kept d (snd (releaseLockWithTokenUsageWrite e n m t u i j d))"
  unfolding releaseLockWrite_def updateTokenCountsWrite_def updateTokenCountsWithLockWrite_def
    releaseLockWithTokenUsageWrite_def
  by (rule with_tx_state [where P = "cleanup_kept d"], auto simp: Let_def cleanup_kept_tables split: if_splits)+

lemma quiescent_cleanup:
  assumes "ensureSessionLockQuiescentTx now n m d = Inr c"
  shows "session_cleanup_intents c = session_cleanup_intents d" "session_cleanup_completions c = session_cleanup_completions d"
  using quiescent_row(1) [OF assms] by auto

lemma delete_cleanup: "cleanup_kept (control d) (control (snd (deleteSessionWrite e n m d)))"
  unfolding deleteSessionWrite_def
proof (rule with_tx_state [where P = "\<lambda>d'. cleanup_kept (control d) (control d')"])
  fix a d'
  assume "delete_session_body (sx_now e) n m d = Commit a d'"
  then show "cleanup_kept (control d) (control d')"
  proof (rule delete_commit)
    fix c c1 c2 j
    assume c: "ensureSessionLockQuiescentTx (sx_now e) n m (control d) = Inr c"
      and c1: "c1 = deleteNativeSessionTx n m (delete_turn_records n m c)"
      and del: "delete_session_row n m (\<lambda>s. ss_session_type s \<noteq> SessionTypeGateway) c1 = Inr (c2, j)"
      and d': "d' = detach_session_events n m ((advanceTaskDataCleanupGeneration n [] d)\<lparr>control := c2\<rparr>)"
    show ?thesis
      using delete_row [OF del] quiescent_cleanup [OF c]
      by (auto simp: d' cleanup_kept_def c1 deleteNativeSessionTx_def delete_turn_records_def)
  qed
qed simp

lemma exec_cleanup:
  assumes "db_ok (control d)"
  shows "cleanup_kept (control d) (control (store_exec e x d))"
proof (cases x)
  case (LockUntil n m t u y)
  show ?thesis
    unfolding LockUntil store_exec.simps control_on_control AcquireLockUntil_def
    by (rule checked_state [where P = "cleanup_kept (control d)"]) (simp_all add: acquire_cleanup)
next
  case (TurnOp e' y)
  from turn_step_cleanup [OF session_step_effect(1) [OF assms, of e' y]] show ?thesis by (simp add: TurnOp cleanup_kept_def)
qed (simp_all add: create_cleanup acquireLockWrite_def acquire_cleanup acquire_turn_cleanup release_turn_cleanup isLockedWrite_def
  is_locked_cleanup append_cleanup commit_cleanup row_updates_cleanup delete_cleanup)

section \<open>Names with a completion stay without a session\<close>

definition absent_kept :: "string \<times> string \<Rightarrow> db \<Rightarrow> db \<Rightarrow> bool" where
  "absent_kept k d d' \<longleftrightarrow>
     (row_at k d = None \<longrightarrow> row_at k d' = None \<or> find_row cleanup_completion_pk k (session_cleanup_completions d') = None)"

lemma absent_kept_refl [simp]: "absent_kept k d d"
  by (simp add: absent_kept_def)

lemma absent_kept_update:
  assumes "\<And>s. session_pk (f s) = session_pk s" "sessions d1 = sessions d"
  shows "absent_kept k d (update_sessions W f d1)"
  using assms(2) by (simp add: absent_kept_def update_row [OF assms(1)])

lemma create_absent: "absent_kept k d (snd (createSessionWrite e s d))"
  unfolding createSessionWrite_def
proof (rule with_tx_state [where P = "absent_kept k d"], simp)
  fix a d'
  let ?d = "forget_completion (sr_namespace s) (sr_name s) d"
  assume "create_session_body s d = Commit a d'"
  then have ins: "insert_session (session_row s) ?d = Some d'"
    and none: "find_row cleanup_completion_pk (sr_namespace s, sr_name s) (session_cleanup_completions ?d) = None"
    by (auto simp: create_session_body_def Let_def split: if_splits option.splits)
  show "absent_kept k d d'"
    using none unfolding insert_row(2) [OF ins] absent_kept_def
    by (auto simp: find_row_append session_row_def session_pk_def split: option.splits)
qed

lemma acquire_absent: "absent_kept k d (snd (acquireLock e events n m t u y d))"
  unfolding acquireLock_def
  by (rule with_tx_state [where P = "absent_kept k d"])
    (auto simp: acquireSessionLock_def Let_def split: option.splits if_splits intro: absent_kept_update)

lemma chat_turn_completion:
  assumes "chat_turn_body now r t y d = Commit b d'"
  shows "find_row cleanup_completion_pk (sr_namespace r, sr_name r)
    (session_cleanup_completions (forget_completion (sr_namespace r) (sr_name r) d)) = None"
  using assms unfolding chat_turn_body_def Let_def by (auto split: if_splits)

lemma acquire_turn_absent: "absent_kept k d (snd (acquireChatTurnWrite e r t y d))"
proof (cases r)
  case (Some s)
  show ?thesis
    unfolding Some acquireChatTurnWrite_def option.case
  proof (rule checked_tx_state [where P = "absent_kept k d"], simp)
    fix b d'
    assume body: "chat_turn_body (sx_now e) s t y d = Commit b d'"
    then show "absent_kept k d d'"
    proof (rule chat_turn_commit)
      fix s' d2
      assume run: "ensure_chat_session (sx_now e) s (forget_completion (sr_namespace s) (sr_name s) d) = (b, d2)"
        and d': "d' = update_sessions (\<lambda>r. session_pk r = (sr_namespace s, sr_name s) \<and> turn_reservable (sx_now e) r)
          (reserve_turn t y (sx_now e)) d2"
      have pk: "session_pk (chat_session_row (sx_now e) s) = (sr_namespace s, sr_name s)"
        by (simp add: chat_session_row_def session_row_def session_pk_def)
      from ensure_chat_row(2) [OF run] chat_turn_completion [OF body] pk show ?thesis
        unfolding absent_kept_def d' update_row [OF row_functions_pk(2)]
        by (elim disjE conjE) (auto simp: find_row_append split: option.splits)
    qed
  qed
qed (simp add: acquireChatTurnWrite_def)

lemma cascade_absent: "absent_kept k d (cascade_session n m d)"
  by (simp add: absent_kept_def cascade_row)

lemma release_turn_absent: "absent_kept k d (snd (releaseChatTurnWrite e n m t b d))"
proof (cases "t = []")
  case False
  have "absent_kept k d (update_sessions W release_turn d)" for W by (rule absent_kept_update) simp_all
  with False show ?thesis
    unfolding releaseChatTurnWrite_def
    by (simp, intro with_tx_state [where P = "absent_kept k d"])
      (auto simp: Let_def delete_session_row_def cascade_absent split: if_splits sum.splits option.splits)
qed (simp add: releaseChatTurnWrite_def)

lemma is_locked_absent: "row_at k d = None \<Longrightarrow> row_at k (snd (is_locked_rounds c now n m t u d)) = None"
  by (induction c arbitrary: d) (auto simp: Let_def update_row split: option.splits)

lemma append_absent: "absent_kept k d (snd (appendMessages e n m t u ms d))"
  unfolding appendMessages_def
proof (rule with_tx_state [where P = "absent_kept k d"], simp)
  fix a d'
  assume "append_messages_body e n m t u ms d = Commit a d'"
  then show "absent_kept k d d'"
  proof (rule append_body_commit)
    fix s c d1
    assume "insertSessionMessagesTx e n m ms d = Inr (c, d1)"
      and d': "d' = (if c > 0 then update_sessions (\<lambda>r. session_pk r = (n, m)) (count_messages c (sx_now e)) d1 else d1)"
    then have "sessions d1 = sessions d" by (auto simp: insertSessionMessagesTx_def dest: insert_messages_sessions)
    then show ?thesis by (auto simp: d' intro: absent_kept_update) (simp add: absent_kept_def)
  qed
qed

lemma commit_absent: "absent_kept k d (snd (commitSessionTurnWrite e r t c ms i j d))"
proof (cases r)
  case (Some s)
  show ?thesis
    unfolding Some commitSessionTurnWrite_def option.case
    by (rule checked_tx_state [where P = "absent_kept k d"])
      (auto simp: insertSessionMessagesTx_def dest!: insert_messages_sessions elim!: commit_turn_commit intro!: absent_kept_update)
qed (simp add: commitSessionTurnWrite_def)

lemma row_updates_absent:
  "absent_kept k d (snd (releaseLockWrite e n m t u d))" "absent_kept k d (snd (updateTokenCountsWrite e n m i j d))"
  "absent_kept k d (snd (updateTokenCountsWithLockWrite e n m t u i j d))"
  "absent_kept k d (snd (releaseLockWithTokenUsageWrite e n m t u i j d))"
  unfolding releaseLockWrite_def updateTokenCountsWrite_def updateTokenCountsWithLockWrite_def
    releaseLockWithTokenUsageWrite_def
  by (rule with_tx_state [where P = "absent_kept k d"], auto simp: Let_def split: if_splits intro!: absent_kept_update)+

lemma delete_absent: "absent_kept k (control d) (control (snd (deleteSessionWrite e n m d)))"
  unfolding deleteSessionWrite_def
proof (rule with_tx_state [where P = "\<lambda>d'. absent_kept k (control d) (control d')"], simp)
  fix a d'
  assume "delete_session_body (sx_now e) n m d = Commit a d'"
  then show "absent_kept k (control d) (control d')"
    by (rule delete_commit) (auto simp: absent_kept_def delete_rows(1))
qed

lemma turn_op_absent:
  assumes "turn_step d d'"
  shows "absent_kept k d d'"
  using assms
proof (induction rule: turn_step.induct)
  case (closed turn d row q p ms s d3 d')
  have s: "row_at (sf_namespace q, sf_session_name q) d = Some s" using closed(2) by (simp add: finalized_def)
  have "row_at k d' = None \<longleftrightarrow> row_at k d = None"
    unfolding finalized_tables(2) [OF closed(2)] by (rule find_row_put_row_None) (use row_pk [OF s] in simp)
  then show ?case by (simp add: absent_kept_def)
next
  case (saved q d d')
  then show ?case using save_native [OF saved(1)] by (auto simp: absent_kept_def writeSealedNativeSessionTx_def)
next
  case (staged q d a d')
  have none: "find_row cleanup_completion_pk (native_pk (sg_record q)) (session_cleanup_completions d) = None"
    using staged(2) by (auto simp: stage_body_def Let_def native_pk_def)
  from staged(2) show ?case
    by (rule stage_commit) (use none in \<open>auto simp: absent_kept_def writeSealedNativeSessionTx_def find_row_append
      staged_session_def session_pk_def native_pk_def split: option.splits\<close>)
qed (simp_all add: absent_kept_def)

lemma exec_absent:
  assumes "db_ok (control d)"
  shows "absent_kept k (control d) (control (store_exec e x d))"
proof (cases x)
  case (LockUntil n m t u y)
  show ?thesis
    unfolding LockUntil store_exec.simps control_on_control AcquireLockUntil_def
    by (rule checked_state [where P = "absent_kept k (control d)"]) (simp_all add: acquire_absent)
next
  case (IsLocked n m t u)
  then show ?thesis by (simp add: isLockedWrite_def absent_kept_def is_locked_absent)
next
  case (TurnOp e' y)
  from turn_op_absent [OF session_step_effect(1) [OF assms, of e' y]] show ?thesis by (simp add: TurnOp)
qed (simp_all add: create_absent acquireLockWrite_def acquire_absent acquire_turn_absent release_turn_absent append_absent
  commit_absent row_updates_absent delete_absent)

section \<open>The invariant of the cleanup tables\<close>

text \<open>
  Plans and completions are keyed by session, receipts by turn and by prompt attempt, and a session with
  a completion has no row.
\<close>

definition cleanup_tables_ok :: "db \<Rightarrow> bool" where
  "cleanup_tables_ok d \<longleftrightarrow>
     distinct (map cleanup_intent_pk (session_cleanup_intents d)) \<and>
     distinct (map cleanup_completion_pk (session_cleanup_completions d)) \<and>
     (\<forall>c \<in> set (session_cleanup_completions d). row_at (cleanup_completion_pk c) d = None)"

definition receipts_unique :: "TurnCleanupReceiptRow list \<Rightarrow> bool" where
  "receipts_unique rs \<longleftrightarrow> sorted_wrt (\<lambda>a b. \<not> turn_receipt_clash a b) rs"

definition cleanup_ok :: "store_db \<Rightarrow> bool" where
  "cleanup_ok d \<longleftrightarrow>
     store_ok (control d) \<and> cleanup_tables_ok (control d) \<and> receipts_unique (session_turn_cleanup_receipts d)"

lemma kept_tables_ok:
  assumes ok: "cleanup_tables_ok d" and kept: "cleanup_kept d d'" and absent: "\<And>k. absent_kept k d d'"
  shows "cleanup_tables_ok d'"
proof -
  have sub: "set (session_cleanup_completions d') \<subseteq> set (session_cleanup_completions d)"
    "distinct (map cleanup_completion_pk (session_cleanup_completions d'))"
    using kept ok by (auto simp: cleanup_kept_def cleanup_tables_ok_def intro: distinct_map_filter)
  have "row_at (cleanup_completion_pk c) d' = None" if c: "c \<in> set (session_cleanup_completions d')" for c
  proof -
    have "row_at (cleanup_completion_pk c) d = None" using c sub(1) ok by (auto simp: cleanup_tables_ok_def)
    moreover have "find_row cleanup_completion_pk (cleanup_completion_pk c) (session_cleanup_completions d') \<noteq> None"
      using c by (auto simp: find_row_None)
    ultimately show ?thesis using absent [of "cleanup_completion_pk c"] by (auto simp: absent_kept_def)
  qed
  then show ?thesis using sub(2) kept ok by (auto simp: cleanup_tables_ok_def cleanup_kept_def)
qed

lemma receipts_delete: "session_turn_cleanup_receipts (snd (deleteSessionWrite e n m d)) = session_turn_cleanup_receipts d"
  unfolding deleteSessionWrite_def
  by (rule with_tx_state [where P = "\<lambda>d'. session_turn_cleanup_receipts d' = session_turn_cleanup_receipts d"])
    (auto elim!: delete_commit simp: detach_session_events_def advanceTaskDataCleanupGeneration_def Let_def)

lemma receipts_exec [simp]: "session_turn_cleanup_receipts (store_exec e x d) = session_turn_cleanup_receipts d"
  by (cases x) (simp_all add: on_control_def receipts_delete)

lemma store_op_ok:
  assumes ok: "cleanup_ok d" and fresh: "fresh_op x"
  shows "cleanup_ok (store_exec e x d)"
proof -
  have db: "db_ok (control d)" using ok by (simp add: cleanup_ok_def store_ok_def)
  have "cleanup_tables_ok (control (store_exec e x d))"
    by (rule kept_tables_ok [OF _ exec_cleanup [OF db] exec_absent [OF db]]) (use ok in \<open>simp add: cleanup_ok_def\<close>)
  then show ?thesis using ok exec_ok [OF _ fresh] by (simp add: cleanup_ok_def)
qed

section \<open>Preparation and completion\<close>

lemma eligible:
  assumes "validateSessionCleanupEligibilityTx e i d = Inr c"
  shows "c = control d \<and> row_at (ci_namespace i, ci_session_name i) (control d) = None \<and> ci_session_uid i \<noteq> [] \<and> ci_gateway i = None \<or>
    ensureSessionLockQuiescentTx (env_now (cl_env e)) (ci_namespace i) (ci_session_name i) (control d) = Inr c \<and>
    (\<exists>s. row_at (ci_namespace i, ci_session_name i) (control d) = Some s \<and> cleanup_identity_error i s = None) \<and>
    \<not> unsettled_projection (ci_namespace i) (ci_session_name i) c \<and>
    list_all (\<lambda>t. session_turn_of (ci_namespace i) (ci_session_name i) t \<longrightarrow> \<not> unproven_turn e i t) (session_turns c)"
  using assms by (auto simp: validateSessionCleanupEligibilityTx_def Let_def list_ex_iff list_all_iff split: option.splits if_splits sum.splits)

lemma eligible_same:
  assumes "validateSessionCleanupEligibilityTx e i d = Inr c"
  shows "c = control d \<or> (\<exists>W. c = update_sessions W release_task_lock (control d))"
  using eligible [OF assms] by (auto dest!: quiescent_row(1))

lemma eligible_ok:
  assumes ok: "store_ok (control d)" "cleanup_tables_ok (control d)" and run: "validateSessionCleanupEligibilityTx e i d = Inr c"
  shows "store_ok c" "cleanup_tables_ok c" "session_cleanup_intents c = session_cleanup_intents (control d)"
    "session_cleanup_completions c = session_cleanup_completions (control d)" "session_turns c = session_turns (control d)"
    "outbox_projections c = outbox_projections (control d)" "session_messages c = session_messages (control d)"
    "row_at k c = None \<longleftrightarrow> row_at k (control d) = None"
proof -
  have upd: "store_ok (update_sessions W release_task_lock (control d))"
    "cleanup_tables_ok (update_sessions W release_task_lock (control d))" for W
    using clear_ok [OF ok(1)] ok(2) by (auto simp: cleanup_tables_ok_def update_row)
  show "store_ok c" "cleanup_tables_ok c" using eligible_same [OF run] ok upd by auto
  show "session_cleanup_intents c = session_cleanup_intents (control d)"
    "session_cleanup_completions c = session_cleanup_completions (control d)" "session_turns c = session_turns (control d)"
    "outbox_projections c = outbox_projections (control d)" "session_messages c = session_messages (control d)"
    "row_at k c = None \<longleftrightarrow> row_at k (control d) = None"
    using eligible_same [OF run] by (auto simp: update_row)
qed

lemma store_ok_cleanup [simp]:
  "store_ok (c\<lparr>session_cleanup_intents := t\<rparr>) \<longleftrightarrow> store_ok c" "store_ok (c\<lparr>session_cleanup_completions := t'\<rparr>) \<longleftrightarrow> store_ok c"
  by (simp_all add: store_ok_def db_ok_def transcripts_ok_def session_transcript_def)

lemma prepare_run:
  "prepareSessionCleanupWrite e i d = (r, d') \<Longrightarrow> d' = d \<or>
   (\<exists>j c. normalizeSessionCleanupIntent e i = Inr j \<and>
      getSessionCleanupIntentTx (ci_namespace j) (ci_session_name j) (control d) = None \<and>
      validateSessionCleanupEligibilityTx e j d = Inr c \<and> r = Inr j \<and>
      d' = d\<lparr>control := c\<lparr>session_cleanup_intents := session_cleanup_intents c @ [j]\<rparr>\<rparr>)"
  by (auto simp: prepareSessionCleanupWrite_def with_tx_def prepare_body_def guards_Cons split: sum.splits if_splits tx_result.splits option.splits)

lemma prepare_ok:
  assumes ok: "cleanup_ok d"
  shows "cleanup_ok (snd (prepareSessionCleanupWrite e i d))"
proof (cases "prepareSessionCleanupWrite e i d")
  case (Pair r d')
  from prepare_run [OF Pair] show ?thesis
  proof (elim disjE exE conjE)
    fix j c
    assume none: "getSessionCleanupIntentTx (ci_namespace j) (ci_session_name j) (control d) = None"
      and run: "validateSessionCleanupEligibilityTx e j d = Inr c"
      and d': "d' = d\<lparr>control := c\<lparr>session_cleanup_intents := session_cleanup_intents c @ [j]\<rparr>\<rparr>"
    from ok have "store_ok (control d)" "cleanup_tables_ok (control d)" by (simp_all add: cleanup_ok_def)
    note el = eligible_ok [OF this run]
    have "cleanup_intent_pk j \<notin> set (map cleanup_intent_pk (session_cleanup_intents c))"
      using none by (auto simp: el(3) getSessionCleanupIntentTx_def find_row_None cleanup_intent_pk_def [of j])
    with el(1,2) ok show ?thesis by (auto simp: Pair d' cleanup_ok_def cleanup_tables_ok_def)
  qed (simp add: Pair ok)
qed

lemma archive_turns_step:
  assumes "archive_turns e i d (t # ts) rs = Inr rs'"
  obtains p rs1 where "getOutboxProjection (st_projection_id t) d = Some p"
    "TurnCleanupReceipt_Validate (cl_env e) (ci_namespace i) (ci_session_name i) (st_id t) (turn_receipt i t p) = None"
    "rs1 = rs @ [receipt_row e i (turn_receipt i t p)]" "receipts_unique rs \<longrightarrow> receipts_unique rs1"
    "archive_turns e i d ts rs1 = Inr rs'"
  using assms
  by (auto simp: Let_def sql_insert_def receipts_unique_def sorted_wrt_append list_ex_iff turn_receipt_clash_def
      split: option.splits if_splits)

lemma archive_unique: "archive_turns e i d ts rs = Inr rs' \<Longrightarrow> receipts_unique rs \<Longrightarrow> receipts_unique rs'"
  by (induction ts arbitrary: rs) (simp, metis archive_turns_step)

lemma archive_mono: "archive_turns e i d ts rs = Inr rs' \<Longrightarrow> set rs \<subseteq> set rs'"
  by (induction ts arbitrary: rs) (simp, elim archive_turns_step, fastforce)

lemma upsert_pks:
  assumes "upsert_completion c t = Inr t'"
  shows "distinct (map cleanup_completion_pk t) \<Longrightarrow> distinct (map cleanup_completion_pk t')"
    "x \<in> set t' \<Longrightarrow> x = c \<or> x \<in> set t" "find_row cleanup_completion_pk (cleanup_completion_pk c) t' = Some c"
    "k \<noteq> cleanup_completion_pk c \<Longrightarrow> find_row cleanup_completion_pk k t' = find_row cleanup_completion_pk k t"
proof -
  have cases: "t' = put_row cleanup_completion_pk (cleanup_completion_pk c) c t \<and>
      find_row cleanup_completion_pk (cleanup_completion_pk c) t \<noteq> None \<or>
    t' = t @ [c] \<and> find_row cleanup_completion_pk (cleanup_completion_pk c) t = None"
    using assms by (auto simp: upsert_completion_def sql_insert_def split: option.splits if_splits)
  have pks: "map cleanup_completion_pk (put_row cleanup_completion_pk (cleanup_completion_pk c) c t) = map cleanup_completion_pk t"
    by (simp add: put_row_def)
  from cases pks show "distinct (map cleanup_completion_pk t) \<Longrightarrow> distinct (map cleanup_completion_pk t')"
    by (elim disjE) (auto simp: find_row_None)
  from cases show "x \<in> set t' \<Longrightarrow> x = c \<or> x \<in> set t" by (auto simp: put_row_def)
  from cases show "find_row cleanup_completion_pk (cleanup_completion_pk c) t' = Some c"
    by (auto simp: find_row_put_row_same find_row_append)
  from cases show "k \<noteq> cleanup_completion_pk c \<Longrightarrow> find_row cleanup_completion_pk k t' = find_row cleanup_completion_pk k t"
    by (auto simp: find_row_put_row_other find_row_append split: option.splits)
qed

text \<open>What a completion that finds its plan changes.\<close>

lemma complete_effect:
  assumes "completeSessionCleanupTx e q d = Inr d'"
    and "getSessionCleanupIntentTx (cs_namespace q) (cs_session_name q) (control d) = Some i"
  obtains c c1 c2 rs cs j where
    "ci_namespace i = cs_namespace q" "ci_session_name i = cs_session_name q" "intent_of q i"
    "validateSessionCleanupEligibilityTx e i d = Inr c"
    "archiveSessionTurnCleanupReceipts e i c (session_turn_cleanup_receipts d) = Inr rs"
    "c1 = deleteNativeSessionTx (cs_namespace q) (cs_session_name q) (delete_turn_records (cs_namespace q) (cs_session_name q) c)"
    "upsert_completion (cleanup_completion e i q) (session_cleanup_completions c) = Inr cs"
    "delete_session_row (cs_namespace q) (cs_session_name q) (\<lambda>_. True) (c1\<lparr>session_cleanup_completions := cs\<rparr>) = Inr (c2, j)"
    "control d' = forget_intent q c2" "session_turn_cleanup_receipts d' = rs"
    "execution_events d' = map (detached_row (cs_namespace q) (cs_session_name q)) (execution_events d)"
    "taskDataCleanupGeneration d' (cs_namespace q) [] = next_generation (cleanup_generations d (cs_namespace q))"
proof -
  from assms(2) have pk: "cleanup_intent_pk i = (cs_namespace q, cs_session_name q)"
    unfolding getSessionCleanupIntentTx_def using find_row_SomeD by fastforce
  have kept: "session_cleanup_completions (deleteNativeSessionTx n m (delete_turn_records n m c)) = session_cleanup_completions c" for n m c
    by (simp add: deleteNativeSessionTx_def delete_turn_records_def)
  show thesis
    using assms(1) pk assms(2) that
    by (auto simp: completeSessionCleanupTx_def complete_deletions_def Let_def kept cleanup_intent_pk_def intent_of_def
        detach_session_events_def advanceTaskDataCleanupGeneration_def taskDataCleanupGeneration_def namespace_generation_def
        split: sum.splits if_splits)
qed

lemma delete_any_row:
  assumes "delete_session_row n m (\<lambda>_. True) c = Inr (c2, j)"
  shows "c2 = c \<and> row_at (n, m) c = None \<or> c2 = cascade_session n m c \<and> row_at (n, m) c \<noteq> None"
    "row_at k c2 = (if k = (n, m) then None else row_at k c)"
  using assms by (auto simp: delete_session_row_def cascade_row split: option.splits if_splits)

lemma complete_tx_ok:
  assumes ok: "cleanup_ok d" and run: "completeSessionCleanupTx e q d = Inr d'"
  shows "cleanup_ok d'"
proof (cases "getSessionCleanupIntentTx (cs_namespace q) (cs_session_name q) (control d)")
  case None
  with run ok show ?thesis by (auto simp: completeSessionCleanupTx_def split: option.splits if_splits)
next
  case (Some i)
  let ?n = "cs_namespace q" and ?m = "cs_session_name q"
  from run Some show ?thesis
  proof (rule complete_effect)
    fix c c1 c2 rs cs j
    assume el: "validateSessionCleanupEligibilityTx e i d = Inr c"
      and rs: "archiveSessionTurnCleanupReceipts e i c (session_turn_cleanup_receipts d) = Inr rs"
      and c1: "c1 = deleteNativeSessionTx ?n ?m (delete_turn_records ?n ?m c)"
      and cs: "upsert_completion (cleanup_completion e i q) (session_cleanup_completions c) = Inr cs"
      and del: "delete_session_row ?n ?m (\<lambda>_. True) (c1\<lparr>session_cleanup_completions := cs\<rparr>) = Inr (c2, j)"
      and d': "control d' = forget_intent q c2" "session_turn_cleanup_receipts d' = rs"
    from ok have "store_ok (control d)" "cleanup_tables_ok (control d)" by (simp_all add: cleanup_ok_def)
    note el' = eligible_ok [OF this el]
    have "store_ok c2" by (rule delete_row_ok [OF _ del]) (simp add: c1 delete_records_ok el'(1))
    then have store: "store_ok (control d')" by (simp add: d' forget_intent_def)
    have tabs: "session_cleanup_intents c2 = session_cleanup_intents c" "session_cleanup_completions c2 = cs"
      using delete_any_row(1) [OF del] by (auto simp: c1 deleteNativeSessionTx_def delete_turn_records_def)
    have "row_at (cleanup_completion_pk x) c2 = None" if "x \<in> set cs" for x
    proof (cases "x \<in> set (session_cleanup_completions c)")
      case True
      with el'(2) show ?thesis by (simp add: cleanup_tables_ok_def delete_any_row(2) [OF del] c1)
    next
      case False
      then have "x = cleanup_completion e i q" using upsert_pks(2) [OF cs that] by simp
      then show ?thesis
        using delete_any_row(2) [OF del] by (simp add: cleanup_completion_def cleanup_completion_pk_def)
    qed
    with el'(2) have "cleanup_tables_ok (control d')"
      by (auto simp: d' cleanup_tables_ok_def forget_intent_def tabs upsert_pks(1) [OF cs] intro: distinct_map_filter)
    moreover have "receipts_unique rs"
      using ok rs archive_unique by (auto simp: cleanup_ok_def archiveSessionTurnCleanupReceipts_def split: sum.splits)
    ultimately show ?thesis using store by (simp add: cleanup_ok_def d')
  qed
qed

lemma complete_write_run:
  "completeSessionCleanupWrite e q d = (r, d') \<Longrightarrow> d' = d \<or>
   completeSessionCleanupTx e (q\<lparr>cs_operation_id := TrimSpace (cs_operation_id q), cs_operation_digest := TrimSpace (cs_operation_digest q)\<rparr>) d = Inr d' \<and> r = Inr ()"
  by (auto simp: completeSessionCleanupWrite_def checked_def with_tx_def Let_def split: option.splits if_splits tx_result.splits sum.splits)

lemma reclaim_run:
  assumes "reclaimGatewayTranscriptTx e n m now cutoff d = Inr (b, d')"
  shows "d' = d \<or> (\<exists>i q. cleanup_intent_pk i = (n, m) \<and> cs_namespace q = n \<and> cs_session_name q = m \<and>
      getSessionCleanupIntentTx n m (control d) = None \<and>
      completeSessionCleanupTx e q (d\<lparr>control := (control d)\<lparr>session_cleanup_intents := session_cleanup_intents (control d) @ [i]\<rparr>\<rparr>) = Inr d')"
proof (cases "row_at (n, m) (control d)")
  case (Some s)
  have key: "ss_namespace s = n" "ss_name s = m" using row_pk [OF Some] by (simp_all add: session_pk_def)
  have "cleanup_intent_pk j = (n, m)"
    if "normalizeSessionCleanupIntent e (retention_intent e now cutoff s owner) = Inr j" for j owner
    using that key
    by (auto simp: normalizeSessionCleanupIntent_def Let_def cleanup_intent_pk_def trimmed_intent_def retention_intent_def
        split: prod.splits if_splits)
  with assms Some key show ?thesis
    by (auto simp: reclaimGatewayTranscriptTx_def plain_gateway_session_def sessionCleanupIntentExists_def Let_def
        getSessionCleanupIntentTx_def split: if_splits option.splits sum.splits)
qed (use assms in \<open>simp add: reclaimGatewayTranscriptTx_def\<close>)

lemma plan_added_ok:
  assumes "cleanup_ok d" "getSessionCleanupIntentTx n m (control d) = None" "cleanup_intent_pk i = (n, m)"
  shows "cleanup_ok (d\<lparr>control := (control d)\<lparr>session_cleanup_intents := session_cleanup_intents (control d) @ [i]\<rparr>\<rparr>)"
  using assms by (auto simp: cleanup_ok_def cleanup_tables_ok_def getSessionCleanupIntentTx_def find_row_None)

lemma bind_ok:
  assumes ok: "cleanup_ok d"
  shows "cleanup_ok (on_control (bindSessionCleanupIdentityWrite e n m u) d)"
proof -
  have pk: "session_pk (s\<lparr>ss_control_session_uid := v\<rparr>) = session_pk s" for s v by (simp add: session_pk_def)
  have "cleanup_ok (d\<lparr>control := snd (bindSessionCleanupIdentityWrite e n m u (control d))\<rparr>)"
    unfolding bindSessionCleanupIdentityWrite_def Let_def
    by (rule checked_tx_state [where P = "\<lambda>c. cleanup_ok (d\<lparr>control := c\<rparr>)"])
      (use ok in \<open>auto simp: cleanup_ok_def cleanup_tables_ok_def update_row pk split: if_splits intro!: update_ok\<close>)
  then show ?thesis by (simp add: on_control_def)
qed

fun fresh_cleanup_op :: "cleanup_op \<Rightarrow> bool" where
  "fresh_cleanup_op (StoreOp e x) \<longleftrightarrow> fresh_op x"
| "fresh_cleanup_op _ \<longleftrightarrow> True"

lemma cleanup_exec_ok:
  assumes ok: "cleanup_ok d" and fresh: "fresh_cleanup_op x"
  shows "cleanup_ok (cleanup_exec x d)"
proof (cases x)
  case (Complete e q)
  obtain r d' where run: "completeSessionCleanupWrite e q d = (r, d')" by (cases "completeSessionCleanupWrite e q d")
  with complete_write_run [OF run] show ?thesis using ok complete_tx_ok [OF ok] by (auto simp: Complete)
next
  case (ReclaimTranscript e n m now cutoff)
  show ?thesis
    unfolding ReclaimTranscript cleanup_exec.simps
  proof (cases "reclaimGatewayTranscriptTx e n m now cutoff d")
    case (Inr p)
    obtain b d' where p: "p = (b, d')" by (cases p)
    from reclaim_run [OF Inr [unfolded p]] have "cleanup_ok d'"
      by (elim disjE exE conjE) (use ok complete_tx_ok plan_added_ok [OF ok] in \<open>blast+\<close>)
    with Inr p show "cleanup_ok (case reclaimGatewayTranscriptTx e n m now cutoff d of Inl _ \<Rightarrow> d | Inr (_, d') \<Rightarrow> d')" by simp
  qed (use ok in simp)
qed (use ok fresh in \<open>simp_all add: store_op_ok prepare_ok bind_ok, simp add: cleanup_ok_def\<close>)

lemma cleanup_run_ok:
  "cleanup_ok d \<Longrightarrow> list_all fresh_cleanup_op ops \<Longrightarrow> cleanup_ok (cleanup_run ops d)"
  unfolding cleanup_run_def by (induction ops arbitrary: d) (auto simp: cleanup_exec_ok)

section \<open>A deleted identity stays reserved\<close>

definition identity_reserved :: "SessionCleanupCompletion \<Rightarrow> db \<Rightarrow> bool" where
  "identity_reserved c d \<longleftrightarrow>
     (\<exists>c'. find_row cleanup_completion_pk (cleanup_completion_pk c) (session_cleanup_completions d) = Some c' \<and>
        cc_session_uid c' = cc_session_uid c \<and> cc_operation_id c' = cc_operation_id c \<and>
        cc_operation_digest c' = cc_operation_digest c)"

definition reserving :: "SessionCleanupCompletion \<Rightarrow> bool" where
  "reserving c \<longleftrightarrow> \<not> reusable_completion (cc_namespace c) (cc_session_name c) c"

lemma find_row_filter_keep:
  "find_row pk k t = Some r \<Longrightarrow> P r \<Longrightarrow> find_row pk k (filter P t) = Some r"
  by (induction t) auto

lemma reserved_kept:
  assumes "identity_reserved c d" "reserving c" "cleanup_kept d d'"
  shows "identity_reserved c d'"
proof -
  from assms(1) obtain c' where c': "find_row cleanup_completion_pk (cleanup_completion_pk c) (session_cleanup_completions d) = Some c'"
    "cc_session_uid c' = cc_session_uid c" "cc_operation_id c' = cc_operation_id c" "cc_operation_digest c' = cc_operation_digest c"
    by (auto simp: identity_reserved_def)
  have "cleanup_completion_pk c' = cleanup_completion_pk c" using find_row_SomeD [OF c'(1)] by simp
  with assms(2) c'(2,3) have "\<not> reusable_completion n m c'" for n m
    by (auto simp: reserving_def reusable_completion_def cleanup_completion_pk_def)
  with assms(3) c' show ?thesis
    by (auto simp: identity_reserved_def cleanup_kept_def find_row_filter_keep)
qed

lemma complete_completions:
  assumes ok: "cleanup_ok d" and run: "completeSessionCleanupTx e q d = Inr d'"
  shows "d' = d \<or> (\<exists>i cs. getSessionCleanupIntentTx (cs_namespace q) (cs_session_name q) (control d) = Some i \<and> intent_of q i \<and>
      upsert_completion (cleanup_completion e i q) (session_cleanup_completions (control d)) = Inr cs \<and>
      session_cleanup_completions (control d') = cs \<and>
      session_cleanup_intents (control d') = filter (\<lambda>i. \<not> intent_of q i) (session_cleanup_intents (control d)))"
proof (cases "getSessionCleanupIntentTx (cs_namespace q) (cs_session_name q) (control d)")
  case None
  with run show ?thesis by (auto simp: completeSessionCleanupTx_def split: option.splits if_splits)
next
  case (Some i)
  from run Some show ?thesis
  proof (rule complete_effect)
    fix c c1 c2 rs cs j
    assume i: "intent_of q i" and el: "validateSessionCleanupEligibilityTx e i d = Inr c"
      and c1: "c1 = deleteNativeSessionTx (cs_namespace q) (cs_session_name q) (delete_turn_records (cs_namespace q) (cs_session_name q) c)"
      and cs: "upsert_completion (cleanup_completion e i q) (session_cleanup_completions c) = Inr cs"
      and del: "delete_session_row (cs_namespace q) (cs_session_name q) (\<lambda>_. True) (c1\<lparr>session_cleanup_completions := cs\<rparr>) = Inr (c2, j)"
      and d': "control d' = forget_intent q c2"
    from ok have "store_ok (control d)" "cleanup_tables_ok (control d)" by (simp_all add: cleanup_ok_def)
    note el' = eligible_ok [OF this el]
    from delete_any_row(1) [OF del] Some i cs el' show ?thesis
      by (auto simp: d' forget_intent_def c1 deleteNativeSessionTx_def delete_turn_records_def)
  qed
qed

lemma complete_reserves:
  assumes ok: "cleanup_ok d" and run: "completeSessionCleanupTx e q d = Inr d'" and res: "identity_reserved c (control d)"
  shows "identity_reserved c (control d')"
  using complete_completions [OF ok run]
proof (elim disjE exE conjE)
  fix i cs
  let ?new = "cleanup_completion e i q"
  assume cs: "upsert_completion ?new (session_cleanup_completions (control d)) = Inr cs"
    and d': "session_cleanup_completions (control d') = cs"
  show ?thesis
  proof (cases "cleanup_completion_pk c = cleanup_completion_pk ?new")
    case True
    with res cs have "cc_session_uid ?new = cc_session_uid c \<and> cc_operation_id ?new = cc_operation_id c \<and>
        cc_operation_digest ?new = cc_operation_digest c"
      by (auto simp: identity_reserved_def upsert_completion_def split: if_splits)
    with upsert_pks(3) [OF cs] True show ?thesis by (auto simp: identity_reserved_def d')
  next
    case False
    with upsert_pks(4) [OF cs False] res show ?thesis by (simp add: identity_reserved_def d')
  qed
qed (use res in simp)

lemma prepare_kept:
  assumes ok: "cleanup_ok d"
  shows "session_cleanup_completions (control (snd (prepareSessionCleanupWrite e i d))) = session_cleanup_completions (control d)"
proof (cases "prepareSessionCleanupWrite e i d")
  case (Pair r d')
  from ok have db: "store_ok (control d)" "cleanup_tables_ok (control d)" by (simp_all add: cleanup_ok_def)
  from prepare_run [OF Pair] show ?thesis by (auto simp: Pair dest: eligible_ok(4) [OF db])
qed

lemma bind_kept:
  "session_cleanup_completions (snd (bindSessionCleanupIdentityWrite e n m u d)) = session_cleanup_completions d"
  "session_cleanup_intents (snd (bindSessionCleanupIdentityWrite e n m u d)) = session_cleanup_intents d"
  unfolding bindSessionCleanupIdentityWrite_def Let_def
  by (rule checked_tx_state [where P = "\<lambda>d'. session_cleanup_completions d' = session_cleanup_completions d"], auto split: if_splits)
    (rule checked_tx_state [where P = "\<lambda>d'. session_cleanup_intents d' = session_cleanup_intents d"], auto split: if_splits)

lemma reserved_exec:
  assumes ok: "cleanup_ok d" and res: "identity_reserved c (control d)" "reserving c"
  shows "identity_reserved c (control (cleanup_exec x d))"
proof (cases x)
  case (StoreOp e y)
  have "db_ok (control d)" using ok by (simp add: cleanup_ok_def store_ok_def)
  from reserved_kept [OF res exec_cleanup [OF this]] show ?thesis by (simp add: StoreOp)
next
  case (Complete e q)
  obtain r d' where run: "completeSessionCleanupWrite e q d = (r, d')" by (cases "completeSessionCleanupWrite e q d")
  with complete_write_run [OF run] show ?thesis using complete_reserves [OF ok _ res(1)] res by (auto simp: Complete)
next
  case (ReclaimTranscript e n m now cutoff)
  have "identity_reserved c (control d')" if "reclaimGatewayTranscriptTx e n m now cutoff d = Inr (b, d')" for b d'
    using reclaim_run [OF that]
  proof (elim disjE exE conjE)
    fix i q
    let ?d = "d\<lparr>control := (control d)\<lparr>session_cleanup_intents := session_cleanup_intents (control d) @ [i]\<rparr>\<rparr>"
    assume "cleanup_intent_pk i = (n, m)" "getSessionCleanupIntentTx n m (control d) = None" "completeSessionCleanupTx e q ?d = Inr d'"
    then show ?thesis using complete_reserves [of ?d e q d' c] plan_added_ok [OF ok] res(1) by (simp add: identity_reserved_def)
  qed (use res in simp)
  with res(1) show ?thesis by (auto simp: ReclaimTranscript split: sum.splits)
qed (use res in \<open>simp_all add: identity_reserved_def prepare_kept [OF ok] bind_kept\<close>)

text \<open>A fact that allowed operations keep holds after every sequence of them.\<close>

locale cleanup_contract =
  fixes keeps :: "store_db \<Rightarrow> bool" and allowed :: "cleanup_op \<Rightarrow> bool"
  assumes step: "cleanup_ok d \<Longrightarrow> keeps d \<Longrightarrow> allowed x \<Longrightarrow> keeps (cleanup_exec x d)"
begin

lemma run:
  "cleanup_ok d \<Longrightarrow> keeps d \<Longrightarrow> list_all (\<lambda>x. fresh_cleanup_op x \<and> allowed x) ops \<Longrightarrow> keeps (cleanup_run ops d)"
  unfolding cleanup_run_def by (induction ops arbitrary: d) (auto simp: cleanup_exec_ok step)

end

interpretation tombstone: cleanup_contract "\<lambda>d. identity_reserved c (control d) \<and> reserving c" "\<lambda>_. True" for c
  by unfold_locales (auto intro: reserved_exec)

lemma create_needs_name:
  assumes "find_row cleanup_completion_pk (sr_namespace s, sr_name s) (session_cleanup_completions d) = Some c'" "reserving c'"
  shows "refused (createSessionWrite e s d) d" "refused (acquireChatTurnWrite e (Some s) t y d) d"
proof -
  have "cleanup_completion_pk c' = (sr_namespace s, sr_name s)" using find_row_SomeD [OF assms(1)] by simp
  with assms(2) have "\<not> reusable_completion n m c'" for n m
    by (auto simp: reserving_def reusable_completion_def cleanup_completion_pk_def)
  then have found: "find_row cleanup_completion_pk (sr_namespace s, sr_name s)
      (session_cleanup_completions (forget_completion (sr_namespace s) (sr_name s) d)) = Some c'"
    by (simp add: forget_completion_def find_row_filter_keep [OF assms(1)])
  show "refused (createSessionWrite e s d) d"
    unfolding createSessionWrite_def
    by (rule refused_tx) (use found in \<open>auto simp: create_session_body_def Let_def\<close>)
  show "refused (acquireChatTurnWrite e (Some s) t y d) d"
    unfolding acquireChatTurnWrite_def option.case
    by (rule refused_checked, rule refused_tx) (use found in \<open>auto simp: chat_turn_body_def Let_def\<close>)
qed

text \<open>
  C26: the identity of a deleted session is never given to another.  Once a cleanup with a Kubernetes identity, or
  of a gateway session, has completed, then after any sequence of operations the completion of the
  name still carries that identity and operation, no session of the name exists, neither a creation
  nor a chat turn can bring one back, and the identity is reported as fenced.
\<close>

theorem deleted_identity_reserved:
  assumes ok: "cleanup_ok d" and comp: "getSessionCleanupCompletionTx n m (control d) = Some c" "reserving c"
    and ops: "list_all fresh_cleanup_op ops" and d': "d' = control (cleanup_run ops d)"
    and name: "sr_namespace s = n" "sr_name s = m"
  shows "(\<exists>c'. getSessionCleanupCompletionTx n m d' = Some c' \<and> cc_session_uid c' = cc_session_uid c \<and>
      cc_operation_id c' = cc_operation_id c \<and> cc_operation_digest c' = cc_operation_digest c) \<and>
    row_at (n, m) d' = None \<and>
    refused (createSessionWrite e s d') d' \<and> refused (acquireChatTurnWrite e (Some s) t y d') d' \<and>
    (cc_session_uid c \<noteq> [] \<and> TrimSpace (cc_session_uid c) = cc_session_uid c \<longrightarrow> HasSessionCleanupFenceForUID d' (cc_session_uid c))"
proof -
  have pk: "cleanup_completion_pk c = (n, m)" using comp(1) find_row_SomeD by (fastforce simp: getSessionCleanupCompletionTx_def)
  have "identity_reserved c d' \<and> reserving c"
    unfolding d' by (rule tombstone.run) (use ok comp pk ops in \<open>auto simp: identity_reserved_def getSessionCleanupCompletionTx_def\<close>)
  then obtain c' where c': "find_row cleanup_completion_pk (n, m) (session_cleanup_completions d') = Some c'"
    "cc_session_uid c' = cc_session_uid c" "cc_operation_id c' = cc_operation_id c" "cc_operation_digest c' = cc_operation_digest c"
    by (auto simp: identity_reserved_def pk)
  note in_d' = find_row_SomeD [OF c'(1)]
  have "reserving c'" using comp(2) c' in_d' pk by (auto simp: reserving_def reusable_completion_def cleanup_completion_pk_def)
  moreover have "row_at (n, m) d' = None"
    using cleanup_run_ok [OF ok ops] in_d' by (auto simp: d' cleanup_ok_def cleanup_tables_ok_def)
  moreover have "HasSessionCleanupFenceForUID d' (cc_session_uid c)"
    if "cc_session_uid c \<noteq> []" "TrimSpace (cc_session_uid c) = cc_session_uid c"
    using that in_d' c'(2) by (auto simp: HasSessionCleanupFenceForUID_def list_ex_iff Let_def)
  ultimately show ?thesis
    using c' create_needs_name [of s d' c'] name by (auto simp: getSessionCleanupCompletionTx_def)
qed

section \<open>A stored plan is exclusive\<close>

definition plan_stored :: "SessionCleanupIntent \<Rightarrow> db \<Rightarrow> bool" where
  "plan_stored i d \<longleftrightarrow> find_row cleanup_intent_pk (cleanup_intent_pk i) (session_cleanup_intents d) = Some i"

fun completes :: "SessionCleanupIntent \<Rightarrow> cleanup_op \<Rightarrow> bool" where
  "completes i (Complete e q) \<longleftrightarrow>
     cleanup_intent_pk i = (cs_namespace q, cs_session_name q) \<and> ci_operation_id i = TrimSpace (cs_operation_id q) \<and>
     ci_operation_digest i = TrimSpace (cs_operation_digest q)"
| "completes i _ \<longleftrightarrow> False"

lemma complete_keeps_plan:
  assumes ok: "cleanup_ok d" and run: "completeSessionCleanupTx e q d = Inr d'" and plan: "plan_stored i (control d)" "\<not> intent_of q i"
  shows "plan_stored i (control d')"
  using complete_completions [OF ok run] plan by (auto simp: plan_stored_def find_row_filter_keep)

lemma plan_exec:
  assumes ok: "cleanup_ok d" and plan: "plan_stored i (control d)" and other: "\<not> completes i x"
  shows "plan_stored i (control (cleanup_exec x d))"
proof (cases x)
  case (StoreOp e y)
  have "db_ok (control d)" using ok by (simp add: cleanup_ok_def store_ok_def)
  from exec_cleanup [OF this, of e y] plan show ?thesis by (simp add: StoreOp plan_stored_def cleanup_kept_def)
next
  case (Prepare e j)
  obtain r d' where run: "prepareSessionCleanupWrite e j d = (r, d')" by (cases "prepareSessionCleanupWrite e j d")
  from ok have db: "store_ok (control d)" "cleanup_tables_ok (control d)" by (simp_all add: cleanup_ok_def)
  from prepare_run [OF run] plan show ?thesis
    by (auto simp: Prepare run plan_stored_def find_row_append eligible_ok(3) [OF db])
next
  case (Complete e q)
  obtain r d' where run: "completeSessionCleanupWrite e q d = (r, d')" by (cases "completeSessionCleanupWrite e q d")
  have "\<not> intent_of (q\<lparr>cs_operation_id := TrimSpace (cs_operation_id q), cs_operation_digest := TrimSpace (cs_operation_digest q)\<rparr>) i"
    using other by (auto simp: Complete intent_of_def)
  with complete_write_run [OF run] complete_keeps_plan [OF ok _ plan] plan show ?thesis by (auto simp: Complete run)
next
  case (ReclaimTranscript e n m now cutoff)
  have "plan_stored i (control d')" if "reclaimGatewayTranscriptTx e n m now cutoff d = Inr (b, d')" for b d'
    using reclaim_run [OF that]
  proof (elim disjE exE conjE)
    fix j q
    let ?d = "d\<lparr>control := (control d)\<lparr>session_cleanup_intents := session_cleanup_intents (control d) @ [j]\<rparr>\<rparr>"
    assume j: "cleanup_intent_pk j = (n, m)" "cs_namespace q = n" "cs_session_name q = m" "getSessionCleanupIntentTx n m (control d) = None"
      and run: "completeSessionCleanupTx e q ?d = Inr d'"
    have "cleanup_intent_pk i \<noteq> (n, m)" using plan j(4) by (auto simp: plan_stored_def getSessionCleanupIntentTx_def)
    moreover have "plan_stored i (control ?d)" using plan by (simp add: plan_stored_def find_row_append)
    ultimately show ?thesis
      using complete_keeps_plan [OF plan_added_ok [OF ok j(4,1)] run] j(2,3) by (auto simp: intent_of_def)
  qed (use plan in simp)
  with plan show ?thesis by (auto simp: ReclaimTranscript split: sum.splits)
qed (use plan in \<open>simp_all add: plan_stored_def bind_kept\<close>)

interpretation plan: cleanup_contract "\<lambda>d. plan_stored i (control d)" "\<lambda>x. \<not> completes i x" for i
  by unfold_locales (rule plan_exec)

lemma plan_refuses:
  assumes "find_row cleanup_intent_pk (n, m) (session_cleanup_intents d) = Some i"
  shows "refused (acquireLockWrite e events n m t u d) d" "refused (AcquireLockUntil e events n m t u y d) d"
    "sr_namespace s = n \<Longrightarrow> sr_name s = m \<Longrightarrow> refused (acquireChatTurnWrite e (Some s) turn y d) d"
    "sr_namespace s = n \<Longrightarrow> sr_name s = m \<Longrightarrow> refused (commitSessionTurnWrite e (Some s) turn count ms j k d) d"
    "sr_namespace s = n \<Longrightarrow> sr_name s = m \<Longrightarrow> refused (createSessionWrite e s d) d"
    "refused (appendMessages e n m t u ms d) d" "refused (bindSessionCleanupIdentityWrite e' n m uid d) d"
proof -
  have no: "ensureNoSessionCleanupIntentTx n m d = Some ErrConflict"
    using assms by (simp add: ensureNoSessionCleanupIntentTx_def)
  have "refused (with_tx (sx_fault e) (acquireSessionLock (sx_now e) events n m t u z) d) d" for z
    by (rule refused_tx) (auto simp: acquireSessionLock_def affected_def no Let_def split: option.splits)
  then show "refused (acquireLockWrite e events n m t u d) d" "refused (AcquireLockUntil e events n m t u y d) d"
    by (auto simp: acquireLockWrite_def AcquireLockUntil_def acquireLock_def intro: refused_checked)
  show "refused (acquireChatTurnWrite e (Some s) turn y d) d" if "sr_namespace s = n" "sr_name s = m"
    unfolding acquireChatTurnWrite_def option.case
    by (rule refused_checked, rule refused_tx) (use no that in \<open>auto simp: chat_turn_body_def Let_def\<close>)
  show "refused (commitSessionTurnWrite e (Some s) turn count ms j k d) d" if "sr_namespace s = n" "sr_name s = m"
    unfolding commitSessionTurnWrite_def option.case
    by (rule refused_checked, rule refused_tx) (use no that in \<open>auto simp: commit_turn_body_def Let_def\<close>)
  show "refused (createSessionWrite e s d) d" if "sr_namespace s = n" "sr_name s = m"
    unfolding createSessionWrite_def
    by (rule refused_tx) (use assms that in \<open>auto simp: create_session_body_def Let_def\<close>)
  show "refused (appendMessages e n m t u ms d) d"
    unfolding appendMessages_def
    by (rule refused_tx) (auto simp: append_messages_body_def no split: option.splits)
  show "refused (bindSessionCleanupIdentityWrite e' n m uid d) d"
    unfolding bindSessionCleanupIdentityWrite_def Let_def
    by (rule refused_checked, rule refused_tx)
      (use assms in \<open>auto simp: affected_def bindable_def sessionCleanupIntentExists_def split: if_splits\<close>)
qed

lemma plan_refuses_delete:
  assumes "find_row cleanup_intent_pk (n, m) (session_cleanup_intents (control d)) = Some i"
  shows "refused (deleteSessionWrite e n m d) d"
  unfolding deleteSessionWrite_def
proof (rule refused_tx)
  have "ensureNoSessionCleanupIntentTx n m c \<noteq> None" if "ensureSessionLockQuiescentTx (sx_now e) n m (control d) = Inr c" for c
    using assms quiescent_cleanup [OF that] by (simp add: ensureNoSessionCleanupIntentTx_def)
  then show "delete_session_body (sx_now e) n m d \<noteq> ReturnTx a" "delete_session_body (sx_now e) n m d \<noteq> Commit a d'" for a d'
    by (auto simp: delete_session_body_def Let_def split: sum.splits)
qed

lemma normalized_operation:
  assumes "normalizeSessionCleanupIntent e i = Inr j"
  shows "ci_namespace j = ci_namespace i" "ci_session_name j = ci_session_name i"
    "ci_operation_id j = TrimSpace (ci_operation_id i)" "ci_operation_digest j = TrimSpace (ci_operation_digest i)"
  using assms by (auto simp: normalizeSessionCleanupIntent_def Let_def trimmed_intent_def split: if_splits)

text \<open>
  C25: a stored cleanup plan owns the session.  Until its own completion, whatever operations run, the same plan
  is stored, and new work is refused: no lock, chat turn, commit or message is accepted, the session
  is not created, rebound or deleted otherwise, and neither another plan nor the completion of
  another operation is accepted.
\<close>

theorem cleanup_plan_exclusive:
  assumes ok: "cleanup_ok d" and plan: "getSessionCleanupIntentTx n m (control d) = Some i"
    and ops: "list_all (\<lambda>x. fresh_cleanup_op x \<and> \<not> completes i x) ops" and c: "c = cleanup_run ops d"
    and s: "sr_namespace s = n" "sr_name s = m"
    and j: "ci_namespace j = n" "ci_session_name j = m"
      "(TrimSpace (ci_operation_id j), TrimSpace (ci_operation_digest j)) \<noteq> (ci_operation_id i, ci_operation_digest i)"
    and q: "cs_namespace q = n" "cs_session_name q = m"
      "(TrimSpace (cs_operation_id q), TrimSpace (cs_operation_digest q)) \<noteq> (ci_operation_id i, ci_operation_digest i)"
  shows "getSessionCleanupIntentTx n m (control c) = Some i \<and>
    refused (acquireLockWrite e (gateway_events c) n m t u (control c)) (control c) \<and>
    refused (AcquireLockUntil e (gateway_events c) n m t u y (control c)) (control c) \<and>
    refused (acquireChatTurnWrite e (Some s) turn y (control c)) (control c) \<and>
    refused (commitSessionTurnWrite e (Some s) turn count ms a b (control c)) (control c) \<and>
    refused (appendMessages e n m t u ms (control c)) (control c) \<and>
    refused (createSessionWrite e s (control c)) (control c) \<and>
    refused (bindSessionCleanupIdentityWrite (cl_env e') n m uid (control c)) (control c) \<and>
    refused (deleteSessionWrite e n m c) c \<and>
    refused (prepareSessionCleanupWrite e' j c) c \<and> refused (completeSessionCleanupWrite e' q c) c"
proof -
  have pk: "cleanup_intent_pk i = (n, m)" using plan find_row_SomeD by (fastforce simp: getSessionCleanupIntentTx_def)
  have "plan_stored i (control c)"
    unfolding c by (rule plan.run [OF ok _ ops]) (use plan pk in \<open>simp add: plan_stored_def getSessionCleanupIntentTx_def\<close>)
  then have found: "find_row cleanup_intent_pk (n, m) (session_cleanup_intents (control c)) = Some i"
    by (simp add: plan_stored_def pk)
  have "refused (prepareSessionCleanupWrite e' j c) c"
  proof (cases "normalizeSessionCleanupIntent e' j")
    case (Inr j')
    have "refused (with_tx (env_fault (cl_env e')) (prepare_body e' j') c) c"
      by (rule refused_tx) (use found j normalized_operation [OF Inr] in
        \<open>auto simp: prepare_body_def getSessionCleanupIntentTx_def guards_Cons fail_if_def\<close>)
    with Inr show ?thesis by (simp add: prepareSessionCleanupWrite_def)
  qed (simp add: prepareSessionCleanupWrite_def refused_def)
  moreover have "refused (completeSessionCleanupWrite e' q c) c"
    unfolding completeSessionCleanupWrite_def Let_def
    by (rule refused_checked, rule refused_tx)
      (use found q in \<open>auto simp: completeSessionCleanupTx_def getSessionCleanupIntentTx_def Let_def fail_if_def split: sum.splits\<close>)
  ultimately show ?thesis
    using found s plan_refuses [OF found] plan_refuses_delete [OF found] by (simp add: getSessionCleanupIntentTx_def)
qed

section \<open>What a completion leaves\<close>

lemma intents_forgotten:
  assumes "distinct (map cleanup_intent_pk t)" "find_row cleanup_intent_pk (cs_namespace q, cs_session_name q) t = Some i" "intent_of q i"
  shows "find_row cleanup_intent_pk (cs_namespace q, cs_session_name q) (filter (\<lambda>i. \<not> intent_of q i) t) = None"
proof -
  note i = find_row_SomeD [OF assms(2)]
  have "j = i" if "j \<in> set t" "cleanup_intent_pk j = (cs_namespace q, cs_session_name q)" for j
    using assms(1) i that by (metis distinct_map inj_onD)
  with assms(3) show ?thesis by (auto simp: find_row_None)
qed

lemma complete_write_success:
  assumes "completeSessionCleanupWrite e q d = (Inr a, d')"
    and "q' = q\<lparr>cs_operation_id := TrimSpace (cs_operation_id q), cs_operation_digest := TrimSpace (cs_operation_digest q)\<rparr>"
  shows "completeSessionCleanupTx e q' d = Inr d'"
    "env_fault (cl_env e') = None \<Longrightarrow> completeSessionCleanupTx e' q' d'' = Inr d3 \<Longrightarrow>
       completeSessionCleanupWrite e' q d'' = (Inr (), d3)"
  using assms
  by (auto simp: completeSessionCleanupWrite_def checked_def with_tx_def Let_def split: option.splits if_splits tx_result.splits sum.splits)

lemma eligible_rows:
  assumes "validateSessionCleanupEligibilityTx e i d = Inr c" "k \<noteq> (ci_namespace i, ci_session_name i)"
  shows "row_at k c = row_at k (control d)"
  using eligible [OF assms(1)] quiescent_rows(1) [OF _ assms(2)] by blast

lemma archive_update:
  "archiveSessionTurnCleanupReceipts e i (update_sessions W f c) rs = archiveSessionTurnCleanupReceipts e i c rs"
proof -
  have turn: "getSessionTurn t (update_sessions W f c) = getSessionTurn t c" for t
    by (simp add: getSessionTurn_def native_digest_def update_sessions_def)
  have "read_cleanup_turns e' i (update_sessions W f c) ids = read_cleanup_turns e' i c ids" for e' ids
    by (induction ids) (simp_all add: turn split: option.split)
  moreover have "archive_turns e i (update_sessions W f c) ts rs = archive_turns e i c ts rs" for ts
    by (induction ts arbitrary: rs) (auto simp: getOutboxProjection_def Let_def split: option.splits)
  ultimately show ?thesis by (simp add: archiveSessionTurnCleanupReceipts_def listSessionCleanupTurns_def split: sum.split)
qed

text \<open>The control database after a completion, apart from its plan.\<close>

lemma complete_tables:
  assumes ok: "cleanup_ok d" and run: "completeSessionCleanupTx e q d = Inr d'"
    and plan: "getSessionCleanupIntentTx n m (control d) = Some i" and key: "n = cs_namespace q" "m = cs_session_name q"
  shows "row_at k (control d') = (if k = (n, m) then None else row_at k (control d))"
    "\<not> session_referenced n m (control d')" "find_row native_pk (n, m) (native_session_snapshots (control d')) = None"
    "outbox_projections (control d') = filter (\<lambda>p. \<not> turn_projection n m (control d) p) (outbox_projections (control d))"
    "session_turns (control d') = filter (\<lambda>t. \<not> session_turn_of n m t) (session_turns (control d))"
    "k \<noteq> (n, m) \<Longrightarrow> session_transcript (fst k) (snd k) (control d') = session_transcript (fst k) (snd k) (control d)"
    "getSessionCleanupIntentTx n m (control d') = None" "intent_of q i"
    "getSessionCleanupCompletionTx n m (control d') = Some (cleanup_completion e i q)"
    "execution_events d' = map (detached_row n m) (execution_events d)"
    "taskDataCleanupGeneration d n [] < taskDataCleanupGeneration d' n []"
    "archiveSessionTurnCleanupReceipts e i (control d) (session_turn_cleanup_receipts d) = Inr (session_turn_cleanup_receipts d')"
proof -
  from run plan [unfolded key] obtain c c1 c2 rs cs j where
    i: "ci_namespace i = n" "ci_session_name i = m" "intent_of q i" and el: "validateSessionCleanupEligibilityTx e i d = Inr c"
    and rs: "archiveSessionTurnCleanupReceipts e i c (session_turn_cleanup_receipts d) = Inr rs"
    and c1: "c1 = deleteNativeSessionTx n m (delete_turn_records n m c)"
    and cs: "upsert_completion (cleanup_completion e i q) (session_cleanup_completions c) = Inr cs"
    and del: "delete_session_row n m (\<lambda>_. True) (c1\<lparr>session_cleanup_completions := cs\<rparr>) = Inr (c2, j)"
    and d': "control d' = forget_intent q c2" "session_turn_cleanup_receipts d' = rs"
      "execution_events d' = map (detached_row n m) (execution_events d)"
      "taskDataCleanupGeneration d' n [] = next_generation (cleanup_generations d n)"
    unfolding key by (rule complete_effect)
  from ok have db: "store_ok (control d)" "cleanup_tables_ok (control d)" by (simp_all add: cleanup_ok_def)
  note el' = eligible_ok [OF db el]
  let ?c = "c\<lparr>session_cleanup_completions := cs\<rparr>"
  have c1': "c1\<lparr>session_cleanup_completions := cs\<rparr> = deleteNativeSessionTx n m (delete_turn_records n m ?c)"
    by (simp add: c1 deleteNativeSessionTx_def delete_turn_records_def turn_projection_def)
  have c2: "c2 = c1\<lparr>session_cleanup_completions := cs\<rparr> \<or> c2 = cascade_session n m (c1\<lparr>session_cleanup_completions := cs\<rparr>)"
    using delete_any_row(1) [OF del] by auto
  note tabs = delete_tables [OF c1' c2]
  have same: "sessions (control d') = sessions c2" "session_turns (control d') = session_turns c2"
    "session_messages (control d') = session_messages c2" "outbox_projections (control d') = outbox_projections c2"
    "native_session_snapshots (control d') = native_session_snapshots c2" "session_controls (control d') = session_controls c2"
    "session_cleanup_completions (control d') = session_cleanup_completions c2"
    by (simp_all add: d' forget_intent_def)
  have rows: "row_at k c2 = (if k = (n, m) then None else row_at k (control d))" for k
    using eligible_rows [OF el] i by (simp add: delete_any_row(2) [OF del] c1)
  show "row_at k (control d') = (if k = (n, m) then None else row_at k (control d))" using rows by (simp add: same)
  show "\<not> session_referenced n m (control d')" using tabs(1) by (simp add: session_referenced_def same)
  show "find_row native_pk (n, m) (native_session_snapshots (control d')) = None" using tabs(2) by (simp add: same)
  show "outbox_projections (control d') = filter (\<lambda>p. \<not> turn_projection n m (control d) p) (outbox_projections (control d))"
    using tabs(4) by (simp add: same turn_projection_def el'(5,6))
  show "session_turns (control d') = filter (\<lambda>t. \<not> session_turn_of n m t) (session_turns (control d))"
    using c2 by (auto simp: same c1 cascade_session_def deleteNativeSessionTx_def delete_turn_records_def el'(5))
  show "k \<noteq> (n, m) \<Longrightarrow> session_transcript (fst k) (snd k) (control d') = session_transcript (fst k) (snd k) (control d)"
    using tabs(5) [of "fst k" "snd k"] by (simp add: session_transcript_def same el'(7))
  have intents: "session_cleanup_intents c2 = session_cleanup_intents (control d)"
    using c2 by (auto simp: c1 deleteNativeSessionTx_def delete_turn_records_def el'(3))
  show "getSessionCleanupIntentTx n m (control d') = None"
    using intents_forgotten [of "session_cleanup_intents (control d)" q i] plan i db(2)
    by (simp add: getSessionCleanupIntentTx_def d' forget_intent_def intents key cleanup_tables_ok_def)
  show "intent_of q i" by (rule i(3))
  have "session_cleanup_completions c2 = cs" using c2 by auto
  then show "getSessionCleanupCompletionTx n m (control d') = Some (cleanup_completion e i q)"
    using upsert_pks(3) [OF cs] by (simp add: getSessionCleanupCompletionTx_def same cleanup_completion_def cleanup_completion_pk_def key)
  show "execution_events d' = map (detached_row n m) (execution_events d)" by (rule d'(3))
  show "taskDataCleanupGeneration d n [] < taskDataCleanupGeneration d' n []"
    unfolding d'(4) using next_generation_greater [of d n] by (simp add: taskDataCleanupGeneration_def)
  show "archiveSessionTurnCleanupReceipts e i (control d) (session_turn_cleanup_receipts d) = Inr (session_turn_cleanup_receipts d')"
    using rs eligible_same [OF el] by (auto simp: d'(2) archive_update)
qed


lemma read_turns_all:
  assumes "read_cleanup_turns e i d ids = Inr ts" "tid \<in> set ids"
  shows "\<exists>t. getSessionTurn tid d = Some t \<and> cleanup_turn_error e i t = None \<and>
    t\<lparr>st_user_prompt := [], st_terminal_content := []\<rparr> \<in> set ts"
  using assms
proof (induction ids arbitrary: ts)
  case (Cons a ids)
  then obtain t ts' where t: "getSessionTurn a d = Some t" "cleanup_turn_error e i t = None"
    and rest: "read_cleanup_turns e i d ids = Inr ts'" and ts: "ts = t\<lparr>st_user_prompt := [], st_terminal_content := []\<rparr> # ts'"
    by (auto simp: map_sum_def split: option.splits sum.splits)
  show ?case
  proof (cases "tid = a")
    case False
    with Cons.prems(2) Cons.IH [OF rest] ts show ?thesis by auto
  qed (use t ts in auto)
qed simp

lemma archive_turns_all:
  assumes "archive_turns e i d ts rs = Inr rs'" "t \<in> set ts"
  shows "\<exists>p. getOutboxProjection (st_projection_id t) d = Some p \<and> receipt_row e i (turn_receipt i t p) \<in> set rs' \<and>
    TurnCleanupReceipt_Validate (cl_env e) (ci_namespace i) (ci_session_name i) (st_id t) (turn_receipt i t p) = None"
  using assms
proof (induction ts arbitrary: rs)
  case (Cons a ts)
  from Cons.prems(1) show ?case
  proof (rule archive_turns_step)
    fix p rs1
    assume p: "getOutboxProjection (st_projection_id a) d = Some p"
      "TurnCleanupReceipt_Validate (cl_env e) (ci_namespace i) (ci_session_name i) (st_id a) (turn_receipt i a p) = None"
      and rs1: "rs1 = rs @ [receipt_row e i (turn_receipt i a p)]" and rest: "archive_turns e i d ts rs1 = Inr rs'"
    from archive_mono [OF rest] p rs1 Cons.IH [OF rest] Cons.prems(2) show ?thesis by auto
  qed
qed simp

lemma receipts_unique_eq:
  "receipts_unique rs \<Longrightarrow> a \<in> set rs \<Longrightarrow> b \<in> set rs \<Longrightarrow> turn_receipt_clash a b \<Longrightarrow> a = b"
  by (induction rs) (auto simp: receipts_unique_def turn_receipt_clash_def)

lemma turn_receipt_cong:
  "s = (SessionTurn.truncate t)\<lparr>st_native_session_digest := x\<rparr> \<Longrightarrow>
   turn_receipt i (s\<lparr>st_user_prompt := [], st_terminal_content := []\<rparr>) p = turn_receipt i (SessionTurn.truncate t) p"
  by (simp add: turn_receipt_def SessionTurn.truncate_def)

text \<open>A receipt that a completion has archived is released by it.\<close>

lemma receipt_found:
  assumes unique: "receipts_unique (session_turn_cleanup_receipts d)" and row: "row \<in> set (session_turn_cleanup_receipts d)"
    and rel: "receipt_released n m pid d row"
  shows "find (receipt_released n m pid d) (session_turn_cleanup_receipts d) = Some row"
proof -
  obtain row' where row': "find (receipt_released n m pid d) (session_turn_cleanup_receipts d) = Some row'"
    using row rel by (cases "find (receipt_released n m pid d) (session_turn_cleanup_receipts d)") (auto simp: find_None_iff)
  then have "row' \<in> set (session_turn_cleanup_receipts d)" "receipt_released n m pid d row'" by (auto simp: find_Some_iff)
  then have "row' = row"
    using receipts_unique_eq [OF unique _ row] rel by (auto simp: receipt_released_def turn_receipt_clash_def)
  with row' show ?thesis by simp
qed

text \<open>
  C28: the evidence of every turn survives the session.  After a cleanup has completed, the receipt of each turn of the
  session can be read under its prompt attempt: it carries the identity, outcome and publication of the turn and the
  projection that the session had, which was delivered or dead-lettered, and it passes validation.
\<close>

theorem cleanup_receipts_readable:
  assumes ok: "cleanup_ok d" and plan: "getSessionCleanupIntentTx n m (control d) = Some i"
    and run: "completeSessionCleanupWrite e q d = (Inr a, d')" and key: "n = cs_namespace q" "m = cs_session_name q"
    and t: "t \<in> set (session_turns (control d))" "session_turn_of n m t"
  shows "st_state t = SessionTurnFinalized \<and>
    (\<exists>p. getOutboxProjection (st_projection_id t) (control d) = Some p \<and>
       ob_state p \<in> {OutboxProjectionDelivered, OutboxProjectionDeadLetter} \<and>
       GetSessionTurnCleanupReceipt e d' n m (st_prompt_attempt_id t) = Inr (turn_receipt i (SessionTurn.truncate t) p))"
proof -
  let ?q = "q\<lparr>cs_operation_id := TrimSpace (cs_operation_id q), cs_operation_digest := TrimSpace (cs_operation_digest q)\<rparr>"
  have key': "n = cs_namespace ?q" "m = cs_session_name ?q" using key by simp_all
  note tx = complete_write_success(1) [OF run refl]
  note tab = complete_tables [OF ok tx plan key']
  have i: "ci_namespace i = n" "ci_session_name i = m"
    using plan find_row_SomeD by (fastforce simp: getSessionCleanupIntentTx_def cleanup_intent_pk_def)+
  from tab(12) obtain ts where read: "listSessionCleanupTurns (cl_env e) i (control d) = Inr ts"
    and arch: "archive_turns e i (control d) ts (session_turn_cleanup_receipts d) = Inr (session_turn_cleanup_receipts d')"
    by (auto simp: archiveSessionTurnCleanupReceipts_def split: sum.splits)
  have "st_id t \<in> set (sort (map st_id (filter (session_turn_of n m) (session_turns (control d)))))" using t by auto
  from read_turns_all [OF read [unfolded listSessionCleanupTurns_def i] this] obtain s where
    s: "getSessionTurn (st_id t) (control d) = Some s" "cleanup_turn_error (cl_env e) i s = None"
      "s\<lparr>st_user_prompt := [], st_terminal_content := []\<rparr> \<in> set ts" by blast
  have "turns.table_ok (session_turns (control d))" using ok by (simp add: cleanup_ok_def store_ok_def db_ok_tables(6))
  from turns.find_row_eq [OF this t(1) refl] s(1) obtain x where
    s_t: "s = (SessionTurn.truncate t)\<lparr>st_native_session_digest := x\<rparr>"
    by (auto simp: getSessionTurn_def)
  have fields: "st_id s = st_id t" "st_projection_id s = st_projection_id t" "st_key s = st_key t" "st_state s = st_state t"
    by (simp_all add: s_t SessionTurn.truncate_def)
  from archive_turns_all [OF arch s(3)] turn_receipt_cong [OF s_t] obtain p where
    p: "getOutboxProjection (st_projection_id t) (control d) = Some p"
      "receipt_row e i (turn_receipt i (SessionTurn.truncate t) p) \<in> set (session_turn_cleanup_receipts d')"
      "TurnCleanupReceipt_Validate (cl_env e) n m (st_id t) (turn_receipt i (SessionTurn.truncate t) p) = None"
    by (auto simp: i fields)
  let ?r = "turn_receipt i (SessionTurn.truncate t) p" and ?row = "receipt_row e i (turn_receipt i (SessionTurn.truncate t) p)"
  have r: "tc_turn_id ?r = st_id t" "tc_prompt_attempt_id ?r = st_prompt_attempt_id t" "tc_key ?r = st_key t"
    "tc_operation_id ?r = ci_operation_id i" "tc_operation_digest ?r = ci_operation_digest i" "tc_projection_state ?r = ob_state p"
    "tc_namespace ?r = n" "tc_session_name ?r = m"
    by (simp_all add: turn_receipt_def SessionTurn.truncate_def i)
  have turn: "st_state t = SessionTurnFinalized" "tk_session_uid (st_key t) = ci_session_uid i"
    using s(2) by (auto simp: cleanup_turn_error_def fields)
  have "x = t" if "x \<in> set (session_turns (control d))" "st_id x = st_id t" for x
    using turns.find_row_eq [OF \<open>turns.table_ok _\<close> that] turns.find_row_eq [OF \<open>turns.table_ok _\<close> t(1) refl] by simp
  then have "find_row st_id (st_id t) (session_turns (control d')) = None"
    using t(2) by (auto simp: tab(5) find_row_None)
  then have rel: "receipt_released n m (st_prompt_attempt_id t) d' ?row"
    using tab(1) [of "(n, m)"] tab(2,4,7,9) t
    by (auto simp: receipt_released_def receipt_row_def r i getSessionCleanupIntentTx_def getSessionCleanupCompletionTx_def
        sessionCleanupIntentExists_def session_referenced_def list_ex_iff cleanup_completion_def turn_projection_def
        sessionTurnAggregateKind_def dest: find_row_SomeD)
  have "receipts_unique (session_turn_cleanup_receipts d')" using complete_tx_ok [OF ok tx] by (simp add: cleanup_ok_def)
  note found = receipt_found [OF this p(2) rel]
  have "ob_state p \<in> {OutboxProjectionDelivered, OutboxProjectionDeadLetter}"
    "ValidateControlIdentifier n = None" "ValidateControlIdentifier m = None" "ValidateControlIdentifier (st_prompt_attempt_id t) = None"
    using p(3) by (auto simp: TurnCleanupReceipt_Validate_def r split: if_splits)
  moreover have "GetSessionTurnCleanupReceipt e d' n m (st_prompt_attempt_id t) = Inr ?r"
    unfolding GetSessionTurnCleanupReceipt_def found
    using tab(8,9) p(3) turn calculation(2-4)
    by (simp add: r receipt_row_def cleanup_completion_def intent_of_def fail_if_def)
  ultimately show ?thesis using p(1) turn(1) by blast
qed

end
