(* ===== verification/Prompt_Reclamation.thy ===== *)
theory Prompt_Reclamation
  imports Session_Turn Outbox_Store
begin

text \<open>
  Reclamation of the prompt attempts of a deleted Task: \<^verbatim>\<open>PreparePromptAttemptReclamation\<close> and
  \<^verbatim>\<open>ReclaimPromptAttempts\<close> of \<^verbatim>\<open>internal/store/sqlite/prompt_attempt_store.go\<close>.  The first call
  proves the retention barrier (all attempts terminal, no session that still refers to them, every
  publication and related external effect terminal, the terminal projection delivered) and records
  it in a marker; the second deletes the attempts the marker authorises.

  The loops over query results only look for the first row that refuses; every refusal of one loop
  is the same error, so they are written as one guard each.

  The theorems show that only terminal attempts of that Task are deleted, that nothing else is, that
  the marker outlives them and blocks every later creation, and that a repeated reclamation changes
  nothing.
\<close>

section \<open>Normalisation\<close>

definition NormalizeControlIdentifierSet :: "string list \<Rightarrow> string list" where
  "NormalizeControlIdentifierSet values = sort (remdups (filter (\<lambda>v. v \<noteq> []) (map TrimSpace values)))"

definition normalizePromptAttemptReclamationRequest ::
  "ReclaimPromptAttemptsRequest \<Rightarrow> store_error + ReclaimPromptAttemptsRequest" where
  "normalizePromptAttemptReclamationRequest request =
     (let r = request\<lparr>rp_namespace := TrimSpace (rp_namespace request),
          rp_task_name := TrimSpace (rp_task_name request), rp_task_uid := TrimSpace (rp_task_uid request),
          rp_final_prompt_attempt_id := TrimSpace (rp_final_prompt_attempt_id request),
          rp_terminal_projection_id := TrimSpace (rp_terminal_projection_id request),
          rp_related_external_effect_aggregate_ids :=
            NormalizeControlIdentifierSet (rp_related_external_effect_aggregate_ids request)\<rparr> in
      checks
       ([ValidateControlIdentifier (rp_namespace r), ValidateControlIdentifier (rp_task_name r),
         ValidateControlIdentifier (rp_task_uid r),
         fail_if ErrValidation (rp_mode r \<notin> {PromptAttemptReclamationProjected,
           PromptAttemptReclamationUnbound, PromptAttemptReclamationNoAttempt}),
         fail_if ErrValidation (rp_final_continuity_session r \<and>
           (\<not> rp_continuity_session r \<or> rp_mode r \<noteq> PromptAttemptReclamationProjected)),
         (if rp_mode r = PromptAttemptReclamationProjected then first_error
            [ValidateControlIdentifier (rp_final_prompt_attempt_id r),
             if rp_terminal_projection_id r \<noteq> [] then ValidateControlIdentifier (rp_terminal_projection_id r) else None]
          else fail_if ErrValidation (rp_final_prompt_attempt_id r \<noteq> [] \<or> rp_terminal_projection_id r \<noteq> []))] @
        map ValidateControlIdentifier (rp_related_external_effect_aggregate_ids r))
       (Inr r))"

definition validateReclamation ::
  "ReclaimPromptAttemptsRequest \<Rightarrow> store_error + ReclaimPromptAttemptsRequest" where
  "validateReclamation request =
     (case normalizePromptAttemptReclamationRequest request of
        Inl x \<Rightarrow> Inl x
      | Inr r \<Rightarrow>
          (case NormalizeEpochFence (rp_fence r) of Inl x \<Rightarrow> Inl x | Inr f \<Rightarrow> Inr (r\<lparr>rp_fence := f\<rparr>)))"

section \<open>Attempts of a Task\<close>

definition task_attempt :: "string \<Rightarrow> string \<Rightarrow> PromptAttempt \<Rightarrow> bool" where
  "task_attempt ns task a \<longleftrightarrow> pak_namespace (pa_key a) = ns \<and> pak_task_uid (pa_key a) = task"

definition listTaskPromptAttempts :: "string \<Rightarrow> string \<Rightarrow> db \<Rightarrow> PromptAttempt list" where
  "listTaskPromptAttempts ns task d =
     sort_key (\<lambda>a. (pak_attempt (pa_key a), pa_id a)) (filter (task_attempt ns task) (prompt_attempts d))"

definition newestPromptAttemptForReclamation :: "PromptAttempt list \<Rightarrow> store_error + PromptAttempt" where
  "newestPromptAttemptForReclamation attempts =
     (case sort_key (\<lambda>a. (- pak_attempt (pa_key a), pa_id a)) attempts of
        [] \<Rightarrow> Inl ErrNotFound
      | [a] \<Rightarrow> Inr a
      | a # b # _ \<Rightarrow> if pak_attempt (pa_key a) = pak_attempt (pa_key b) then Inl ErrConflict else Inr a)"

definition attempt_terminal :: "PromptAttempt \<Rightarrow> bool" where
  "attempt_terminal a \<longleftrightarrow>
     IsTerminalPromptExecutionState (pa_execution_state a) \<and> IsTerminalPromptDeliveryState (pa_delivery_state a)"

definition settle_set :: "env \<Rightarrow> ControllerEpochFence \<Rightarrow> string \<Rightarrow> PromptAttempt \<Rightarrow> PromptAttempt" where
  "settle_set e fence aid a =
     a\<lparr>pa_execution_state := PromptExecutionCancelled,
       pa_terminal_reason := ''Task deleted before durable execution status binding'',
       pa_controller_epoch_name := cf_name fence, pa_controller_epoch := cf_epoch fence,
       pa_last_operation_id := CanonicalControlID e ''reclaim-unbound-cancel'' [aid],
       pa_last_operation_digest := CanonicalBytesDigest e (''reclaim-unbound-cancel:'' @ aid),
       pa_version := pa_version a + 1, pa_updated_at := NormalizeControlTime e 0\<rparr>"

text \<open>The loop over the attempts of an unbound Task: the settled attempts and the table.\<close>

fun settle_loop ::
  "env \<Rightarrow> ControllerEpochFence \<Rightarrow> string \<Rightarrow> PromptAttempt list \<Rightarrow> PromptAttempt list \<Rightarrow>
   store_error + PromptAttempt list \<times> PromptAttempt list" where
  "settle_loop e fence newestID [] t = Inr ([], t)"
| "settle_loop e fence newestID (attempt # rest) t =
     (let continue_with = (\<lambda>a t'. case settle_loop e fence newestID rest t' of
            Inl x \<Rightarrow> Inl x | Inr (settled, t'') \<Rightarrow> Inr (a # settled, t'')) in
      if pa_id attempt \<noteq> newestID then
        (if \<not> attempt_terminal attempt then Inl ErrNotReady else continue_with attempt t)
      else if pa_session_uid attempt \<noteq> [] \<or> pa_session_lease_generation attempt \<noteq> 0 \<or>
              pa_runtime_instance_id attempt \<noteq> [] then Inl ErrNotReady
      else if IsTerminalPromptExecutionState (pa_execution_state attempt) then
        (if \<not> IsTerminalPromptDeliveryState (pa_delivery_state attempt) then Inl ErrNotReady
         else continue_with attempt t)
      else if pa_execution_state attempt \<noteq> PromptExecutionQueued \<or>
              pa_delivery_state attempt \<noteq> PromptDeliveryNotRequested then Inl ErrNotReady
      else case sql_update prompt_attempts_check
             (\<lambda>a. pa_id a = pa_id attempt \<and> pa_version a = pa_version attempt \<and>
                pa_execution_state a = PromptExecutionQueued)
             (settle_set e fence (pa_id attempt)) t of
           None \<Rightarrow> Inl ErrDriver
         | Some (t', n) \<Rightarrow>
             if n \<noteq> 1 then Inl ErrConflict
             else case find_row pa_id (pa_id attempt) t' of
                    None \<Rightarrow> Inl ErrNotFound
                  | Some a \<Rightarrow> continue_with a t')"

definition settleUnboundPromptAttemptsForReclamation ::
  "env \<Rightarrow> PromptAttempt list \<Rightarrow> ControllerEpochFence \<Rightarrow> PromptAttempt list \<Rightarrow>
   store_error + PromptAttempt list \<times> PromptAttempt list" where
  "settleUnboundPromptAttemptsForReclamation e attempts fence t =
     (if attempts = [] then settle_loop e fence [] attempts t
      else case newestPromptAttemptForReclamation attempts of
             Inl x \<Rightarrow> Inl x
           | Inr newest \<Rightarrow> settle_loop e fence (pa_id newest) attempts t)"

section \<open>The barriers\<close>

definition related_effects :: "promptAttemptReclamationMarker \<Rightarrow> db \<Rightarrow> string list" where
  "related_effects m d =
     rm_task_uid m # rm_related_external_effect_aggregate_ids m @
     map pb_id (filter (\<lambda>p. pb_namespace p = rm_namespace m \<and> pb_task_uid p = rm_task_uid m) (publications d))"

definition verifyPromptAttemptPublicationsAndEffects ::
  "promptAttemptReclamationMarker \<Rightarrow> db \<Rightarrow> store_error option" where
  "verifyPromptAttemptPublicationsAndEffects m d = first_error
     [fail_if ErrNotReady (list_ex (\<lambda>p. pb_namespace p = rm_namespace m \<and> pb_task_uid p = rm_task_uid m \<and>
        \<not> IsTerminalPublicationState (pb_state p)) (publications d)),
      fail_if ErrNotReady (list_ex (\<lambda>x. ei_namespace (ee_identity x) = rm_namespace m \<and>
        ei_aggregate_id (ee_identity x) \<in> set (related_effects m d) \<and>
        ee_state x \<notin> {ExternalEffectSucceeded, ExternalEffectFailed, ExternalEffectOutcomeUnknown})
        (external_effects d))]"

text \<open>The session turn an attempt of a continuity session is bound to, when there is one.\<close>

definition attempt_turn_key :: "PromptAttempt \<Rightarrow> SessionTurnKey" where
  "attempt_turn_key a =
     \<lparr>tk_session_uid = pa_session_uid a, tk_lease_generation = pa_session_lease_generation a,
      tk_task_uid = pak_task_uid (pa_key a), tk_attempt = pak_attempt (pa_key a),
      tk_prompt_id = pak_prompt_id (pa_key a)\<rparr>"

fun verify_turns :: "env \<Rightarrow> PromptAttempt list \<Rightarrow> db \<Rightarrow> store_error + (string \<times> SessionTurn) list" where
  "verify_turns e [] d = Inr []"
| "verify_turns e (a # as) d =
     (if pa_session_uid a = [] \<and> pa_session_lease_generation a = 0 then verify_turns e as d
      else if pa_session_uid a = [] \<or> pa_session_lease_generation a < 1 then Inl ErrConflict
      else case SessionTurnKey_CanonicalID e (attempt_turn_key a) of
        Inl x \<Rightarrow> Inl x
      | Inr turnID \<Rightarrow>
        (case getSessionTurn turnID d of
           None \<Rightarrow> Inl ErrNotReady
         | Some turn \<Rightarrow>
             if st_key turn \<noteq> attempt_turn_key a \<or> st_prompt_attempt_id turn \<noteq> pa_id a then Inl ErrConflict
             else if st_state turn \<noteq> SessionTurnFinalized \<or> st_finalized_at turn = None \<or>
                     TrimSpace (st_projection_id turn) = [] then Inl ErrNotReady
             else case verify_turns e as d of
                    Inl x \<Rightarrow> Inl x
                  | Inr ts \<Rightarrow> Inr ((pa_id a, turn) # ts)))"

definition verifyPromptAttemptReferences ::
  "env \<Rightarrow> promptAttemptReclamationMarker \<Rightarrow> PromptAttempt list \<Rightarrow> db \<Rightarrow>
   store_error + (string \<times> SessionTurn) list" where
  "verifyPromptAttemptReferences e m attempts d = checks
     [fail_if ErrNotReady (list_ex (\<lambda>c. scr_namespace c = rm_namespace m \<and>
        (scr_lease_task_uid c = rm_task_uid m \<or> scr_related_prompt_attempt_id c \<noteq> []) \<and>
        (scr_lease_task_uid c = rm_task_uid m \<or>
         scr_related_prompt_attempt_id c \<in> set (rm_candidate_ids m) \<and>
         scr_availability c = SessionReconciliationBlocked)) (session_controls d))]
     (case (if rm_continuity_session m then verify_turns e attempts d else Inr []) of
        Inl x \<Rightarrow> Inl x
      | Inr turns \<Rightarrow> checks [verifyPromptAttemptPublicationsAndEffects m d] (Inr turns))"

definition verifyPromptAttemptTerminalProjectionMarker ::
  "promptAttemptReclamationMarker \<Rightarrow> db \<Rightarrow> store_error option" where
  "verifyPromptAttemptTerminalProjectionMarker m d =
     (case getOutboxProjection (rm_terminal_projection_id m) d of
        None \<Rightarrow> Some ErrNotReady
      | Some p \<Rightarrow> first_error
          [fail_if ErrNotReady (ob_state p \<noteq> OutboxProjectionDelivered),
           fail_if ErrConflict (ob_projection_kind p \<noteq> ''TaskTerminalStatus'' \<or>
             ob_aggregate_kind p \<noteq> rm_terminal_projection_aggregate_kind m \<or>
             ob_aggregate_id p \<noteq> rm_terminal_projection_aggregate_id m),
           (if rm_final_session_turn_id m \<noteq> [] then
              (case getSessionTurn (rm_final_session_turn_id m) d of
                 None \<Rightarrow> Some ErrNotFound
               | Some turn \<Rightarrow> fail_if ErrConflict (st_state turn \<noteq> SessionTurnFinalized \<or>
                   st_finalized_at turn = None \<or> st_projection_id turn \<noteq> ob_id p))
            else None)])"

section \<open>The marker\<close>

definition getPromptAttemptReclamationMarker ::
  "string \<Rightarrow> string \<Rightarrow> db \<Rightarrow> promptAttemptReclamationMarker option" where
  "getPromptAttemptReclamationMarker ns task d =
     map_option (\<lambda>m. m\<lparr>rm_candidate_ids := NormalizeControlIdentifierSet (rm_candidate_ids m),
         rm_requested_external_effect_aggregate_ids :=
           NormalizeControlIdentifierSet (rm_requested_external_effect_aggregate_ids m),
         rm_related_external_effect_aggregate_ids :=
           NormalizeControlIdentifierSet (rm_related_external_effect_aggregate_ids m)\<rparr>)
       (find_row reclamation_pk (ns, task) (prompt_attempt_reclamations d))"

definition validatePromptAttemptReclamationMarkerRequest ::
  "promptAttemptReclamationMarker \<Rightarrow> ReclaimPromptAttemptsRequest \<Rightarrow> store_error option" where
  "validatePromptAttemptReclamationMarkerRequest m q = first_error
     [fail_if ErrConflict (rm_namespace m \<noteq> rp_namespace q \<or> rm_task_name m \<noteq> rp_task_name q \<or>
        rm_task_uid m \<noteq> rp_task_uid q \<or>
        \<not> (rm_mode m = rp_mode q \<or>
           rp_mode q = PromptAttemptReclamationUnbound \<and> rm_mode m = PromptAttemptReclamationNoAttempt) \<or>
        rm_continuity_session m \<noteq> rp_continuity_session q \<or>
        rm_requested_external_effect_aggregate_ids m \<noteq> rp_related_external_effect_aggregate_ids q),
      fail_if ErrConflict (rp_mode q = PromptAttemptReclamationProjected \<and>
        (rm_final_prompt_attempt_id m \<noteq> rp_final_prompt_attempt_id q \<or>
         rp_terminal_projection_id q \<noteq> [] \<and>
           (rm_terminal_projection_id m \<noteq> rp_terminal_projection_id q \<or>
            rm_final_continuity_session m \<noteq> rp_final_continuity_session q))),
      fail_if ErrConflict (rm_mode m = PromptAttemptReclamationProjected \<and> rm_candidate_ids m = [])]"

definition verifyPreparedPromptAttemptReclamation ::
  "env \<Rightarrow> promptAttemptReclamationMarker \<Rightarrow> PromptAttempt list \<Rightarrow> db \<Rightarrow> store_error option" where
  "verifyPreparedPromptAttemptReclamation e m attempts d = first_error
     (map (\<lambda>a. first_error [fail_if ErrConflict (pa_id a \<notin> set (rm_candidate_ids m)),
                           fail_if ErrNotReady (\<not> attempt_terminal a)]) attempts @
      [fail_if ErrConflict (rm_mode m = PromptAttemptReclamationNoAttempt \<and> attempts \<noteq> []),
       (case verifyPromptAttemptReferences e m attempts d of Inl x \<Rightarrow> Some x | Inr _ \<Rightarrow> None),
       (if rm_mode m = PromptAttemptReclamationProjected
        then verifyPromptAttemptTerminalProjectionMarker m d else None)])"

definition base_marker ::
  "env \<Rightarrow> ReclaimPromptAttemptsRequest \<Rightarrow> PromptAttempt list \<Rightarrow> promptAttemptReclamationMarker" where
  "base_marker e q attempts =
     \<lparr>rm_namespace = rp_namespace q, rm_task_name = rp_task_name q, rm_task_uid = rp_task_uid q,
      rm_mode = (if rp_mode q = PromptAttemptReclamationUnbound \<and> attempts = []
                 then PromptAttemptReclamationNoAttempt else rp_mode q),
      rm_continuity_session = rp_continuity_session q, rm_final_continuity_session = rp_final_continuity_session q,
      rm_final_prompt_attempt_id = [], rm_terminal_projection_id = [], rm_final_session_turn_id = [],
      rm_terminal_projection_aggregate_kind = [], rm_terminal_projection_aggregate_id = [], rm_candidate_ids = [],
      rm_requested_external_effect_aggregate_ids = rp_related_external_effect_aggregate_ids q,
      rm_related_external_effect_aggregate_ids = [],
      rm_controller_epoch_name = cf_name (rp_fence q), rm_controller_epoch = cf_epoch (rp_fence q),
      rm_created_at = NormalizeControlTime e 0\<rparr>"

definition marker_with_attempts ::
  "env \<Rightarrow> ReclaimPromptAttemptsRequest \<Rightarrow> PromptAttempt list \<Rightarrow> string \<Rightarrow> promptAttemptReclamationMarker" where
  "marker_with_attempts e q attempts finalID =
     (base_marker e q attempts)\<lparr>
       rm_candidate_ids := NormalizeControlIdentifierSet (map pa_id attempts),
       rm_related_external_effect_aggregate_ids := NormalizeControlIdentifierSet
         (filter (\<lambda>u. u \<noteq> []) (map pa_session_uid attempts) @ rp_task_uid q # rp_related_external_effect_aggregate_ids q),
       rm_final_prompt_attempt_id := finalID\<rparr>"

text \<open>The terminal projection of a projected reclamation: that of the session turn or of the Task.\<close>

definition bind_projection ::
  "env \<Rightarrow> ReclaimPromptAttemptsRequest \<Rightarrow> PromptAttempt \<Rightarrow> (string \<times> SessionTurn) list \<Rightarrow>
   promptAttemptReclamationMarker \<Rightarrow> store_error + promptAttemptReclamationMarker" where
  "bind_projection e q final turns m =
     checks [fail_if ErrValidation (rp_terminal_projection_id q = [])]
      (if rp_final_continuity_session q then
         (case map_of turns (pa_id final) of
            None \<Rightarrow> Inl ErrNotReady
          | Some turn \<Rightarrow> Inr (m\<lparr>rm_terminal_projection_id := rp_terminal_projection_id q,
               rm_final_session_turn_id := st_id turn, rm_terminal_projection_aggregate_kind := ''SessionTurn'',
               rm_terminal_projection_aggregate_id := st_id turn\<rparr>))
       else checks
         [fail_if ErrConflict (rp_terminal_projection_id q \<noteq> CanonicalControlID e ''task-terminal-projection''
            [rp_namespace q, rp_task_uid q, FormatInt (pak_attempt (pa_key final))])]
         (Inr (m\<lparr>rm_terminal_projection_id := rp_terminal_projection_id q,
               rm_terminal_projection_aggregate_kind := ''Task'',
               rm_terminal_projection_aggregate_id := rp_task_uid q\<rparr>)))"

definition buildPromptAttemptReclamationMarker ::
  "env \<Rightarrow> ReclaimPromptAttemptsRequest \<Rightarrow> PromptAttempt list \<Rightarrow> db \<Rightarrow> store_error + promptAttemptReclamationMarker" where
  "buildPromptAttemptReclamationMarker e q attempts d =
     (if rm_mode (base_marker e q attempts) = PromptAttemptReclamationNoAttempt then
        (let m = (base_marker e q attempts)\<lparr>rm_related_external_effect_aggregate_ids :=
               NormalizeControlIdentifierSet (rp_task_uid q # rp_related_external_effect_aggregate_ids q)\<rparr> in
         checks
          [fail_if ErrConflict (attempts \<noteq> []),
           (case verifyPromptAttemptReferences e m [] d of Inl x \<Rightarrow> Some x | Inr _ \<Rightarrow> None)]
          (Inr m))
      else checks
        [fail_if ErrNotReady (attempts = []),
         fail_if ErrNotReady (list_ex (\<lambda>a. \<not> attempt_terminal a) attempts)]
        (case newestPromptAttemptForReclamation attempts of
           Inl x \<Rightarrow> Inl x
         | Inr final \<Rightarrow>
           (let m = marker_with_attempts e q attempts (pa_id final) in
            checks
             [fail_if ErrConflict (rp_mode q = PromptAttemptReclamationProjected \<and>
                rp_final_prompt_attempt_id q \<noteq> pa_id final)]
             (case verifyPromptAttemptReferences e m attempts d of
                Inl x \<Rightarrow> Inl x
              | Inr turns \<Rightarrow>
                  if rp_mode q = PromptAttemptReclamationProjected then
                    (case bind_projection e q final turns m of
                       Inl x \<Rightarrow> Inl x
                     | Inr m' \<Rightarrow> checks [verifyPromptAttemptTerminalProjectionMarker m' d] (Inr m'))
                  else Inr m))))"

section \<open>Preparing and reclaiming\<close>

definition preparePromptAttemptReclamation ::
  "env \<Rightarrow> ReclaimPromptAttemptsRequest \<Rightarrow> db \<Rightarrow>
   store_error + promptAttemptReclamationMarker \<times> PromptAttempt list \<times> db" where
  "preparePromptAttemptReclamation e q d =
     (let attempts = listTaskPromptAttempts (rp_namespace q) (rp_task_uid q) d in
      case getPromptAttemptReclamationMarker (rp_namespace q) (rp_task_uid q) d of
        Some m \<Rightarrow> checks
          [validatePromptAttemptReclamationMarkerRequest m q,
           verifyPreparedPromptAttemptReclamation e m attempts d]
          (Inr (m, attempts, d))
      | None \<Rightarrow>
        (case (if rp_mode q = PromptAttemptReclamationUnbound
               then settleUnboundPromptAttemptsForReclamation e attempts (rp_fence q) (prompt_attempts d)
               else Inr (attempts, prompt_attempts d)) of
           Inl x \<Rightarrow> Inl x
         | Inr (settled, t) \<Rightarrow>
           (let d1 = d\<lparr>prompt_attempts := t\<rparr> in
            case buildPromptAttemptReclamationMarker e q settled d1 of
              Inl x \<Rightarrow> Inl x
            | Inr m \<Rightarrow>
                (case sql_insert reclamations_check reclamation_clash m (prompt_attempt_reclamations d1) of
                   None \<Rightarrow> Inl ErrConflict
                 | Some tm \<Rightarrow> Inr (m, settled, d1\<lparr>prompt_attempt_reclamations := tm\<rparr>)))))"

definition reclamation_body ::
  "bool \<Rightarrow> env \<Rightarrow> ReclaimPromptAttemptsRequest \<Rightarrow> db \<Rightarrow> (int, db) tx_result" where
  "reclamation_body deleteAttempts e q d =
     (case preparePromptAttemptReclamation e q d of
        Inl x \<Rightarrow> Abort x
      | Inr (m, attempts, d1) \<Rightarrow>
          if \<not> deleteAttempts \<or> attempts = [] then Commit 0 d1
          else guards
            [fail_if ErrConflict (list_ex (\<lambda>a. pa_id a \<notin> set (rm_candidate_ids m)) attempts)]
            (case sql_delete (task_attempt (rp_namespace q) (rp_task_uid q)) (prompt_attempts d1) of
               (t, n) \<Rightarrow>
                 if n \<noteq> length attempts then Abort ErrConflict
                 else Commit (int n) (d1\<lparr>prompt_attempts := t\<rparr>)))"

definition runPromptAttemptReclamation ::
  "bool \<Rightarrow> env \<Rightarrow> ReclaimPromptAttemptsRequest \<Rightarrow> db \<Rightarrow> (store_error + int) \<times> db" where
  "runPromptAttemptReclamation deleteAttempts e request = validated (validateReclamation request)
     (\<lambda>q. fenced_tx e (rp_fence q) (reclamation_body deleteAttempts e q))"

definition PreparePromptAttemptReclamation ::
  "env \<Rightarrow> ReclaimPromptAttemptsRequest \<Rightarrow> db \<Rightarrow> (store_error + int) \<times> db" where
  "PreparePromptAttemptReclamation = runPromptAttemptReclamation False"

definition ReclaimPromptAttempts ::
  "env \<Rightarrow> ReclaimPromptAttemptsRequest \<Rightarrow> db \<Rightarrow> (store_error + int) \<times> db" where
  "ReclaimPromptAttempts = runPromptAttemptReclamation True"

section \<open>Settling unbound attempts\<close>

text \<open>What the settling loop may do with a row: nothing, or cancel it while it is queued.\<close>

definition settled_rel :: "env \<Rightarrow> ControllerEpochFence \<Rightarrow> PromptAttempt \<Rightarrow> PromptAttempt \<Rightarrow> bool" where
  "settled_rel e f a a' \<longleftrightarrow>
     a' = a \<or> pa_execution_state a = PromptExecutionQueued \<and> a' = settle_set e f (pa_id a) a"

lemma settle_set_kept [simp]:
  "pa_id (settle_set e f i a) = pa_id a" "pa_key (settle_set e f i a) = pa_key a"
  "pa_execution_state (settle_set e f i a) = PromptExecutionCancelled"
  "pa_delivery_state (settle_set e f i a) = pa_delivery_state a" "pa_version (settle_set e f i a) = pa_version a + 1"
  by (simp_all add: settle_set_def)

lemma settled_rel_kept: "settled_rel e f a a' \<Longrightarrow> pa_id a' = pa_id a \<and> pa_key a' = pa_key a"
  by (auto simp: settled_rel_def)

lemma settled_rel_trans: "settled_rel e f a b \<Longrightarrow> settled_rel e f b c \<Longrightarrow> settled_rel e f a c"
  by (auto simp: settled_rel_def)

lemma settled_table_refl: "list_all2 (settled_rel e f) t t"
  by (simp add: list_all2_same settled_rel_def)

lemma settled_table_trans:
  "list_all2 (settled_rel e f) t u \<Longrightarrow> list_all2 (settled_rel e f) u v \<Longrightarrow> list_all2 (settled_rel e f) t v"
  by (rule list_all2_trans [OF settled_rel_trans])

lemma settled_table_find:
  "list_all2 (settled_rel e f) t u \<Longrightarrow>
   (case find_row pa_id k t of None \<Rightarrow> find_row pa_id k u = None
    | Some a \<Rightarrow> \<exists>a'. find_row pa_id k u = Some a' \<and> settled_rel e f a a')"
  by (induction rule: list_all2_induct) (auto dest: settled_rel_kept split: option.splits)

lemma settle_update:
  assumes ok: "attempts.table_ok t" and get: "find_row pa_id i t = Some a" "pa_execution_state a = PromptExecutionQueued"
    and chk: "prompt_attempts_check (settle_set e f i a)"
  shows "attempts.table_ok (put_row pa_id i (settle_set e f i a) t)"
    "list_all2 (settled_rel e f) t (put_row pa_id i (settle_set e f i a) t)"
proof -
  show "attempts.table_ok (put_row pa_id i (settle_set e f i a) t)"
    by (rule attempts.put_row_ok [OF ok get(1) chk]) (simp add: attempt_clash_def)
  have "settled_rel e f x (if pa_id x = i then settle_set e f i a else x)" if "x \<in> set t" for x
    using attempts.find_row_eq [OF ok that] get that by (auto simp: settled_rel_def)
  then show "list_all2 (settled_rel e f) t (put_row pa_id i (settle_set e f i a) t)"
    by (simp add: put_row_def list_all2_map2 list_all2_same)
qed

lemma settle_loop_result:
  assumes "attempts.table_ok t" "distinct (map pa_id as)"
    "\<And>x. x \<in> set as \<Longrightarrow> find_row pa_id (pa_id x) t = Some x"
    "settle_loop e f nid as t = Inr (bs, t')"
  shows "attempts.table_ok t' \<and> list_all2 (settled_rel e f) t t' \<and> map pa_id bs = map pa_id as \<and>
    (\<forall>b \<in> set bs. find_row pa_id (pa_id b) t' = Some b) \<and>
    (\<forall>k. k \<notin> pa_id ` set as \<longrightarrow> find_row pa_id k t' = find_row pa_id k t)"
  using assms
proof (induction as arbitrary: t bs t')
  case Nil
  then show ?case by (simp add: settled_table_refl)
next
  case (Cons x as)
  have get: "find_row pa_id (pa_id x) t = Some x" by (rule Cons.prems(3)) simp
  have "\<exists>a t1 cs. attempts.table_ok t1 \<and> list_all2 (settled_rel e f) t t1 \<and> find_row pa_id (pa_id x) t1 = Some a \<and>
    (\<forall>k. k \<noteq> pa_id x \<longrightarrow> find_row pa_id k t1 = find_row pa_id k t) \<and>
    settle_loop e f nid as t1 = Inr (cs, t') \<and> bs = a # cs"
  proof (cases "pa_id x \<noteq> nid \<or> IsTerminalPromptExecutionState (pa_execution_state x)")
    case True
    with Cons.prems(4) obtain cs where "settle_loop e f nid as t = Inr (cs, t')" "bs = x # cs"
      by (auto simp: Let_def split: if_splits sum.splits)
    with get Cons.prems(1) settled_table_refl show ?thesis by blast
  next
    case False
    with Cons.prems(4) obtain t1 a cs where
      upd: "sql_update prompt_attempts_check
         (\<lambda>a. pa_id a = pa_id x \<and> pa_version a = pa_version x \<and> pa_execution_state a = PromptExecutionQueued)
         (settle_set e f (pa_id x)) t = Some (t1, 1)"
      and rest: "find_row pa_id (pa_id x) t1 = Some a" "settle_loop e f nid as t1 = Inr (cs, t')" "bs = a # cs"
      by (auto simp: Let_def split: if_splits sum.splits option.splits)
    note u = attempts.update_result [OF Cons.prems(1) get _ upd]
    have u3: "t1 = put_row pa_id (pa_id x) (settle_set e f (pa_id x) x) t" by (rule u(3)) simp
    have "pa_execution_state x = PromptExecutionQueued" "prompt_attempts_check (settle_set e f (pa_id x) x)"
      using u(1,2) by auto
    note s = settle_update [OF Cons.prems(1) get this]
    have "find_row pa_id k t1 = find_row pa_id k t" if "k \<noteq> pa_id x" for k
      unfolding u3 by (rule find_row_put_row_other [OF that]) simp
    with s rest u3 show ?thesis by blast
  qed
  then obtain a t1 cs where t1: "attempts.table_ok t1" "list_all2 (settled_rel e f) t t1"
    "find_row pa_id (pa_id x) t1 = Some a" "\<And>k. k \<noteq> pa_id x \<Longrightarrow> find_row pa_id k t1 = find_row pa_id k t"
    "settle_loop e f nid as t1 = Inr (cs, t')" "bs = a # cs" by blast
  have "find_row pa_id (pa_id y) t1 = Some y" if "y \<in> set as" for y
    using that t1(4) [of "pa_id y"] Cons.prems(2) Cons.prems(3) [of y] by (force simp: image_iff)
  note IH = Cons.IH [OF t1(1) _ this t1(5)]
  have x: "pa_id x \<notin> pa_id ` set as" "distinct (map pa_id as)" using Cons.prems(2) by auto
  then have IH': "attempts.table_ok t' \<and> list_all2 (settled_rel e f) t1 t' \<and> map pa_id cs = map pa_id as \<and>
    (\<forall>b \<in> set cs. find_row pa_id (pa_id b) t' = Some b) \<and>
    (\<forall>k. k \<notin> pa_id ` set as \<longrightarrow> find_row pa_id k t' = find_row pa_id k t1)"
    using IH by blast
  moreover have "pa_id a = pa_id x" using find_row_SomeD [OF t1(3)] by simp
  moreover have "find_row pa_id (pa_id x) t' = Some a" using IH' x(1) t1(3) by simp
  ultimately show ?case using t1(2,4,6) settled_table_trans by auto
qed

section \<open>Preparing\<close>

lemma list_task_attempts:
  assumes "attempts.table_ok (prompt_attempts d)"
  shows "set (listTaskPromptAttempts ns task d) = {a \<in> set (prompt_attempts d). task_attempt ns task a}"
    "distinct (map pa_id (listTaskPromptAttempts ns task d))"
    "\<And>a. a \<in> set (listTaskPromptAttempts ns task d) \<Longrightarrow> find_row pa_id (pa_id a) (prompt_attempts d) = Some a"
proof -
  show "set (listTaskPromptAttempts ns task d) = {a \<in> set (prompt_attempts d). task_attempt ns task a}"
    by (auto simp: listTaskPromptAttempts_def)
  then show "find_row pa_id (pa_id a) (prompt_attempts d) = Some a"
    if "a \<in> set (listTaskPromptAttempts ns task d)" for a
    using that attempts.find_row_eq [OF assms] by auto
  have "distinct (map pa_id t)" if "attempts.table_ok t" for t
    using that by (induction t) (auto simp: attempts.table_ok_Cons attempt_clash_def)
  then have "distinct (map pa_id (filter (task_attempt ns task) (prompt_attempts d)))"
    using assms by (intro distinct_map_filter) blast
  then show "distinct (map pa_id (listTaskPromptAttempts ns task d))"
    by (simp add: listTaskPromptAttempts_def distinct_map)
qed

lemma settle_result:
  assumes ok: "attempts.table_ok (prompt_attempts d)"
    and run: "settleUnboundPromptAttemptsForReclamation e (listTaskPromptAttempts ns task d) f (prompt_attempts d) =
      Inr (bs, t)"
  shows "attempts.table_ok t" "list_all2 (settled_rel e f) (prompt_attempts d) t"
    "set bs = {a \<in> set t. task_attempt ns task a}"
proof -
  let ?as = "listTaskPromptAttempts ns task d"
  from run obtain nid where "settle_loop e f nid ?as (prompt_attempts d) = Inr (bs, t)"
    by (auto simp: settleUnboundPromptAttemptsForReclamation_def split: if_splits sum.splits)
  then have res: "attempts.table_ok t \<and> list_all2 (settled_rel e f) (prompt_attempts d) t \<and>
    map pa_id bs = map pa_id ?as \<and> (\<forall>b \<in> set bs. find_row pa_id (pa_id b) t = Some b) \<and>
    (\<forall>k. k \<notin> pa_id ` set ?as \<longrightarrow> find_row pa_id k t = find_row pa_id k (prompt_attempts d))"
    by (rule settle_loop_result [OF ok list_task_attempts(2) [OF ok], rotated]) (rule list_task_attempts(3) [OF ok])
  then show t: "attempts.table_ok t" "list_all2 (settled_rel e f) (prompt_attempts d) t" by auto
  have key: "find_row pa_id k (prompt_attempts d) = Some a \<Longrightarrow> find_row pa_id k t = Some b \<Longrightarrow> pa_key b = pa_key a" for k a b
    using settled_table_find [OF t(2), of k] settled_rel_kept by fastforce
  show "set bs = {a \<in> set t. task_attempt ns task a}"
  proof (rule set_eqI)
    fix b
    show "b \<in> set bs \<longleftrightarrow> b \<in> {a \<in> set t. task_attempt ns task a}"
    proof
      assume b: "b \<in> set bs"
      then have fb: "find_row pa_id (pa_id b) t = Some b" using res by blast
      from b res have "pa_id b \<in> set (map pa_id ?as)" by (metis image_eqI list.set_map)
      then obtain a where a: "a \<in> set ?as" "pa_id a = pa_id b" by auto
      with list_task_attempts(3) [OF ok a(1)] key [OF _ fb] have "pa_key b = pa_key a" by simp
      with a list_task_attempts(1) [OF ok] find_row_SomeD [OF fb] show "b \<in> {a \<in> set t. task_attempt ns task a}"
        by (auto simp: task_attempt_def)
    next
      assume "b \<in> {a \<in> set t. task_attempt ns task a}"
      then have b: "b \<in> set t" "task_attempt ns task b" by auto
      then have fb: "find_row pa_id (pa_id b) t = Some b" using attempts.find_row_eq [OF t(1)] by simp
      with settled_table_find [OF t(2), of "pa_id b"] obtain a
        where a: "find_row pa_id (pa_id b) (prompt_attempts d) = Some a"
        by (auto split: option.splits)
      with key [OF a fb] b(2) find_row_SomeD [OF a] list_task_attempts(1) [OF ok]
      have "a \<in> set ?as" "pa_id a = pa_id b" by (auto simp: task_attempt_def)
      with res have "pa_id b \<in> set (map pa_id bs)" by (metis image_eqI list.set_map)
      then obtain b' where "b' \<in> set bs" "pa_id b' = pa_id b" by auto
      with res fb show "b \<in> set bs" by (metis option.inject)
    qed
  qed
qed

lemma built_marker:
  assumes "buildPromptAttemptReclamationMarker e q as d = Inr m"
  shows "rm_namespace m = rp_namespace q" "rm_task_uid m = rp_task_uid q" "\<And>a. a \<in> set as \<Longrightarrow> attempt_terminal a"
proof -
  note base = base_marker_def marker_with_attempts_def bind_projection_def
  show "rm_namespace m = rp_namespace q" "rm_task_uid m = rp_task_uid q"
    using assms by (auto simp: buildPromptAttemptReclamationMarker_def base Let_def
        split: if_splits sum.splits option.splits)
  show "attempt_terminal a" if "a \<in> set as" for a
    using assms that by (auto simp: buildPromptAttemptReclamationMarker_def Let_def list_ex_iff
        split: if_splits sum.splits option.splits)
qed

text \<open>
  What a successful preparation leaves: the attempts of the Task are terminal, some of them cancelled
  while they were queued; the marker is recorded, and no earlier marker changes.
\<close>

lemma prepare_result:
  assumes ok: "db_ok d" and run: "preparePromptAttemptReclamation e q d = Inr (m, as, d1)"
  obtains t tm where "d1 = d\<lparr>prompt_attempts := t, prompt_attempt_reclamations := tm\<rparr>"
    "list_all2 (settled_rel e (rp_fence q)) (prompt_attempts d) t" "db_ok d1"
    "find_row reclamation_pk (rp_namespace q, rp_task_uid q) tm \<noteq> None"
    "\<And>k r. find_row reclamation_pk k (prompt_attempt_reclamations d) = Some r \<Longrightarrow> find_row reclamation_pk k tm = Some r"
    "set as = {a \<in> set t. task_attempt (rp_namespace q) (rp_task_uid q) a}"
    "\<And>a. a \<in> set as \<Longrightarrow> attempt_terminal a"
    "reclamation_pk ` set tm = insert (rp_namespace q, rp_task_uid q) (reclamation_pk ` set (prompt_attempt_reclamations d))"
proof (cases "find_row reclamation_pk (rp_namespace q, rp_task_uid q) (prompt_attempt_reclamations d)")
  case (Some r)
  with run have "d1 = d" "as = listTaskPromptAttempts (rp_namespace q) (rp_task_uid q) d"
    "verifyPreparedPromptAttemptReclamation e m as d = None"
    by (auto simp: preparePromptAttemptReclamation_def getPromptAttemptReclamationMarker_def Let_def)
  moreover from this(3) have "attempt_terminal a" if "a \<in> set as" for a
    using that by (auto simp: verifyPreparedPromptAttemptReclamation_def list_all_iff)
  moreover have "(rp_namespace q, rp_task_uid q) \<in> reclamation_pk ` set (prompt_attempt_reclamations d)"
    using find_row_SomeD [OF Some] by force
  ultimately show thesis
    using that [where t = "prompt_attempts d" and tm = "prompt_attempt_reclamations d"] ok Some settled_table_refl
      list_task_attempts(1) [OF db_ok_tables(2) [OF ok]] by (simp add: insert_absorb)
next
  case None
  let ?as = "listTaskPromptAttempts (rp_namespace q) (rp_task_uid q) d"
  from None run obtain t tm where
    settled: "(if rp_mode q = PromptAttemptReclamationUnbound
               then settleUnboundPromptAttemptsForReclamation e ?as (rp_fence q) (prompt_attempts d)
               else Inr (?as, prompt_attempts d)) = Inr (as, t)" and
    build: "buildPromptAttemptReclamationMarker e q as (d\<lparr>prompt_attempts := t\<rparr>) = Inr m" and
    ins: "sql_insert reclamations_check reclamation_clash m (prompt_attempt_reclamations d) = Some tm" and
    d1: "d1 = d\<lparr>prompt_attempts := t, prompt_attempt_reclamations := tm\<rparr>"
    by (auto simp: preparePromptAttemptReclamation_def getPromptAttemptReclamationMarker_def Let_def
        split: sum.splits option.splits)
  note tables = db_ok_tables(2,3) [OF ok]
  have t: "attempts.table_ok t" "list_all2 (settled_rel e (rp_fence q)) (prompt_attempts d) t"
    "set as = {a \<in> set t. task_attempt (rp_namespace q) (rp_task_uid q) a}"
    using settled settle_result [OF tables(1)] list_task_attempts(1) [OF tables(1)] tables(1) settled_table_refl
    by (auto split: if_splits)
  have pk: "reclamation_pk m = (rp_namespace q, rp_task_uid q)"
    using built_marker(1,2) [OF build] by (simp add: reclamation_pk_def)
  have kept: "find_row reclamation_pk k tm = Some r" if "find_row reclamation_pk k (prompt_attempt_reclamations d) = Some r" for k r
    using reclamations.insert_find_other [OF ins, of k] reclamations.insert_fresh [OF ins] that by fastforce
  have "db_ok (d\<lparr>prompt_attempts := t\<rparr>\<lparr>prompt_attempt_reclamations := tm\<rparr>)"
    by (intro db_ok_set_table(3) db_ok_set_table(2) [OF ok t(1)]) (rule reclamations.insert_ok [OF tables(2) ins])
  then have "db_ok d1" unfolding d1 by simp
  moreover have "reclamation_pk ` set tm = insert (rp_namespace q, rp_task_uid q) (reclamation_pk ` set (prompt_attempt_reclamations d))"
    using ins pk by (auto simp: sql_insert_def split: if_splits)
  ultimately show thesis
    using that [OF d1 t(2) _ _ kept t(3)] reclamations.insert_find_same [OF ins] pk built_marker(3) [OF build] by auto
qed

section \<open>The operations\<close>

lemma validated_reclamation:
  assumes "validateReclamation q = Inr c"
  shows "rp_namespace c = TrimSpace (rp_namespace q)" "rp_task_uid c = TrimSpace (rp_task_uid q)"
    "NormalizeEpochFence (rp_fence q) = Inr (rp_fence c)"
  using assms by (auto simp: validateReclamation_def normalizePromptAttemptReclamationRequest_def Let_def
      split: sum.splits)

lemma reclamation_no_return: "reclamation_body del e q d \<noteq> ReturnTx a"
  by (auto simp: reclamation_body_def split: sum.splits prod.splits)

lemma reclamation_commit:
  assumes ok: "db_ok d" and body: "reclamation_body del e q d = Commit n d'"
  obtains t t' tm where "d' = d\<lparr>prompt_attempts := t', prompt_attempt_reclamations := tm\<rparr>" "db_ok d'"
    "list_all2 (settled_rel e (rp_fence q)) (prompt_attempts d) t"
    "t' = (if del then filter (\<lambda>a. \<not> task_attempt (rp_namespace q) (rp_task_uid q) a) t else t)"
    "n = (if del then int (length (filter (task_attempt (rp_namespace q) (rp_task_uid q)) t)) else 0)"
    "find_row reclamation_pk (rp_namespace q, rp_task_uid q) tm \<noteq> None"
    "\<And>k r. find_row reclamation_pk k (prompt_attempt_reclamations d) = Some r \<Longrightarrow> find_row reclamation_pk k tm = Some r"
    "\<And>a. a \<in> set t \<Longrightarrow> task_attempt (rp_namespace q) (rp_task_uid q) a \<Longrightarrow> attempt_terminal a"
    "reclamation_pk ` set tm = insert (rp_namespace q, rp_task_uid q) (reclamation_pk ` set (prompt_attempt_reclamations d))"
proof -
  let ?T = "task_attempt (rp_namespace q) (rp_task_uid q)"
  from body obtain m as d1 where prep: "preparePromptAttemptReclamation e q d = Inr (m, as, d1)"
    by (auto simp: reclamation_body_def split: sum.splits prod.splits)
  from ok prep obtain t tm where p: "d1 = d\<lparr>prompt_attempts := t, prompt_attempt_reclamations := tm\<rparr>"
    "list_all2 (settled_rel e (rp_fence q)) (prompt_attempts d) t" "db_ok d1"
    "find_row reclamation_pk (rp_namespace q, rp_task_uid q) tm \<noteq> None"
    "\<And>k r. find_row reclamation_pk k (prompt_attempt_reclamations d) = Some r \<Longrightarrow> find_row reclamation_pk k tm = Some r"
    "set as = {a \<in> set t. ?T a}" "\<And>a. a \<in> set as \<Longrightarrow> attempt_terminal a"
    "reclamation_pk ` set tm = insert (rp_namespace q, rp_task_uid q) (reclamation_pk ` set (prompt_attempt_reclamations d))"
    by (rule prepare_result) blast
  have empty: "filter ?T t = []" if "as = []" using p(6) that by (auto simp: filter_empty_conv)
  have none: "filter (\<lambda>a. \<not> ?T a) t = t" if "as = []" using p(6) that by (auto simp: filter_id_conv)
  have "d' = d\<lparr>prompt_attempts := (if del then filter (\<lambda>a. \<not> ?T a) t else t), prompt_attempt_reclamations := tm\<rparr> \<and>
    n = (if del then int (length (filter ?T t)) else 0)"
    using body prep p(1) empty none
    by (auto simp: reclamation_body_def sql_delete_def split: if_splits)
  moreover have "db_ok (d1\<lparr>prompt_attempts := filter (\<lambda>a. \<not> ?T a) t\<rparr>)"
    using attempts.delete_ok [OF db_ok_tables(2) [OF p(3)], of ?T] p(1)
    by (intro db_ok_set_table(2) [OF p(3)]) (simp add: sql_delete_def)
  moreover have "d1\<lparr>prompt_attempts := filter (\<lambda>a. \<not> ?T a) t\<rparr> =
      d\<lparr>prompt_attempts := filter (\<lambda>a. \<not> ?T a) t, prompt_attempt_reclamations := tm\<rparr>"
    using p(1) by simp
  ultimately have d': "d' = d\<lparr>prompt_attempts := (if del then filter (\<lambda>a. \<not> ?T a) t else t),
      prompt_attempt_reclamations := tm\<rparr>" "n = (if del then int (length (filter ?T t)) else 0)" "db_ok d'"
    using p(1,3) by (cases del; metis)+
  have "attempt_terminal a" if "a \<in> set t" "?T a" for a using that p(6,7) by blast
  from that [OF d'(1,3) p(2) refl d'(2) p(4,5) this p(8)] show thesis by blast
qed

lemma reclamation_operation:
  "validated_operation (runPromptAttemptReclamation del) (\<lambda>e q. map_sum id (Pair e) (validateReclamation q))
     rp_fence (\<lambda>c. rp_fence (snd c)) (\<lambda>c. reclamation_body del (fst c) (snd c))"
proof
  fix e q d n d' and c :: "env \<times> ReclaimPromptAttemptsRequest"
  show "runPromptAttemptReclamation del e q d = validated (map_sum id (Pair e) (validateReclamation q))
      (\<lambda>c. fenced_tx e (rp_fence (snd c)) (reclamation_body del (fst c) (snd c))) d"
    by (simp add: runPromptAttemptReclamation_def validated_def map_sum_def split: sum.splits)
  show "map_sum id (Pair e) (validateReclamation q) = Inr c \<Longrightarrow> NormalizeEpochFence (rp_fence q) = Inr (rp_fence (snd c))"
    by (auto simp: map_sum_def dest: validated_reclamation split: sum.splits)
  assume body: "reclamation_body del (fst c) (snd c) d = Commit n d'"
  then show "controller_epochs d' = controller_epochs d"
    by (auto simp: reclamation_body_def preparePromptAttemptReclamation_def Let_def
        split: sum.splits prod.splits option.splits if_splits)
  assume "db_ok d"
  then show "db_ok d'" using body by (rule reclamation_commit)
qed

interpretation prepare_reclamation: validated_operation PreparePromptAttemptReclamation
  "\<lambda>e q. map_sum id (Pair e) (validateReclamation q)" rp_fence "\<lambda>c. rp_fence (snd c)"
  "\<lambda>c. reclamation_body False (fst c) (snd c)"
  unfolding PreparePromptAttemptReclamation_def by (rule reclamation_operation)

interpretation reclaim_attempts: validated_operation ReclaimPromptAttempts
  "\<lambda>e q. map_sum id (Pair e) (validateReclamation q)" rp_fence "\<lambda>c. rp_fence (snd c)"
  "\<lambda>c. reclamation_body True (fst c) (snd c)"
  unfolding ReclaimPromptAttempts_def by (rule reclamation_operation)

section \<open>The attempts of other Tasks\<close>

lemma settle_others:
  assumes ok: "attempts.table_ok (prompt_attempts d)"
    and run: "settleUnboundPromptAttemptsForReclamation e (listTaskPromptAttempts ns task d) f (prompt_attempts d) = Inr (bs, t)"
  shows "filter (\<lambda>a. \<not> task_attempt ns task a) t = filter (\<lambda>a. \<not> task_attempt ns task a) (prompt_attempts d)"
proof -
  let ?as = "listTaskPromptAttempts ns task d"
  from run obtain nid where loop: "settle_loop e f nid ?as (prompt_attempts d) = Inr (bs, t)"
    by (auto simp: settleUnboundPromptAttemptsForReclamation_def split: if_splits sum.splits)
  note res = settle_loop_result [OF ok list_task_attempts(2) [OF ok] list_task_attempts(3) [OF ok, where ns = ns and task = task] loop]
  have same: "a' = a" if a: "settled_rel e f a a'" "a \<in> set (prompt_attempts d)" "a' \<in> set t" "\<not> task_attempt ns task a" for a a'
  proof -
    have "pa_id a \<notin> pa_id ` set ?as"
      using a(2,4) list_task_attempts(1,3) [OF ok] attempts.find_row_eq [OF ok a(2) refl] by force
    then have "find_row pa_id (pa_id a) t = find_row pa_id (pa_id a) (prompt_attempts d)" using res by blast
    then show ?thesis
      using attempts.find_row_eq [OF ok a(2) refl] attempts.find_row_eq [OF _ a(3)] res settled_rel_kept [OF a(1)] by auto
  qed
  have "list_all2 (settled_rel e f) u v \<Longrightarrow> set u \<subseteq> set (prompt_attempts d) \<Longrightarrow> set v \<subseteq> set t \<Longrightarrow>
    filter (\<lambda>a. \<not> task_attempt ns task a) v = filter (\<lambda>a. \<not> task_attempt ns task a) u" for u v
    by (induction rule: list_all2_induct) (use same settled_rel_kept in \<open>auto simp: task_attempt_def\<close>)
  then show ?thesis using res by blast
qed

lemma prepare_others:
  assumes ok: "db_ok d" and run: "preparePromptAttemptReclamation e q d = Inr (m, as, d1)"
  shows "filter (\<lambda>a. \<not> task_attempt (rp_namespace q) (rp_task_uid q) a) (prompt_attempts d1) =
    filter (\<lambda>a. \<not> task_attempt (rp_namespace q) (rp_task_uid q) a) (prompt_attempts d)"
  using run settle_others [OF db_ok_tables(2) [OF ok]]
  by (auto simp: preparePromptAttemptReclamation_def Let_def split: option.splits sum.splits if_splits)

lemma reclamation_others:
  assumes ok: "db_ok d" and body: "reclamation_body del e q d = Commit n d'"
  shows "filter (\<lambda>a. \<not> task_attempt (rp_namespace q) (rp_task_uid q) a) (prompt_attempts d') =
    filter (\<lambda>a. \<not> task_attempt (rp_namespace q) (rp_task_uid q) a) (prompt_attempts d)"
  using body prepare_others [OF ok]
  by (auto simp: reclamation_body_def sql_delete_def split: sum.splits prod.splits if_splits)

lemma reclaim_result:
  assumes ok: "db_ok d" and run: "ReclaimPromptAttempts e q d = (Inr n, d')"
  shows "prompt_attempts d' =
      filter (\<lambda>a. \<not> task_attempt (TrimSpace (rp_namespace q)) (TrimSpace (rp_task_uid q)) a) (prompt_attempts d) \<and>
    n = int (length (filter (task_attempt (TrimSpace (rp_namespace q)) (TrimSpace (rp_task_uid q))) (prompt_attempts d))) \<and>
    list_all (\<lambda>a. attempt_terminal a \<or> pa_execution_state a = PromptExecutionQueued)
      (filter (task_attempt (TrimSpace (rp_namespace q)) (TrimSpace (rp_task_uid q))) (prompt_attempts d)) \<and>
    find_row reclamation_pk (TrimSpace (rp_namespace q), TrimSpace (rp_task_uid q)) (prompt_attempt_reclamations d') \<noteq> None \<and>
    d' = d\<lparr>prompt_attempts := prompt_attempts d', prompt_attempt_reclamations := prompt_attempt_reclamations d'\<rparr>"
proof -
  from run obtain c where "map_sum id (Pair e) (validateReclamation q) = Inr c"
    "reclamation_body True (fst c) (snd c) d = ReturnTx n \<and> d' = d \<or> reclamation_body True (fst c) (snd c) d = Commit n d'"
    by (rule reclaim_attempts.success)
  then obtain m where m: "validateReclamation q = Inr m" "reclamation_body True e m d = Commit n d'"
    using reclamation_no_return by (cases "validateReclamation q") auto
  let ?T = "task_attempt (rp_namespace m) (rp_task_uid m)"
  have names: "rp_namespace m = TrimSpace (rp_namespace q)" "rp_task_uid m = TrimSpace (rp_task_uid q)"
    using m(1) by (auto simp: validateReclamation_def normalizePromptAttemptReclamationRequest_def Let_def split: sum.splits if_splits)
  from m(2) show ?thesis
  proof (rule reclamation_commit [OF ok])
    fix t t' tm
    assume d': "d' = d\<lparr>prompt_attempts := t', prompt_attempt_reclamations := tm\<rparr>"
      and settled: "list_all2 (settled_rel e (rp_fence m)) (prompt_attempts d) t"
      and t': "t' = (if True then filter (\<lambda>a. \<not> ?T a) t else t)"
      and n: "n = (if True then int (length (filter ?T t)) else 0)"
      and marker: "find_row reclamation_pk (rp_namespace m, rp_task_uid m) tm \<noteq> None"
      and final: "\<And>a. a \<in> set t \<Longrightarrow> ?T a \<Longrightarrow> attempt_terminal a"
    have "prompt_attempts d' = filter (\<lambda>a. \<not> ?T a) (prompt_attempts d)"
      using reclamation_others [OF ok m(2)] d' t' by (simp add: filter_filter)
    moreover have "length (filter ?T t) = length (filter ?T (prompt_attempts d))"
      using settled by (induction rule: list_all2_induct) (auto dest: settled_rel_kept simp: task_attempt_def)
    moreover have "attempt_terminal a \<or> pa_execution_state a = PromptExecutionQueued"
      if a: "a \<in> set (prompt_attempts d)" "?T a" for a
    proof -
      from settled a(1) obtain a' where a': "a' \<in> set t" "settled_rel e (rp_fence m) a a'"
        by (metis list_all2_conv_all_nth in_set_conv_nth)
      with final [of a'] a(2) settled_rel_kept [OF a'(2)] show ?thesis
        by (auto simp: settled_rel_def task_attempt_def)
    qed
    ultimately show ?thesis
      using n marker d' unfolding names [symmetric] by (simp add: list_all_iff)
  qed
qed

section \<open>Properties\<close>

text \<open>
  C35: reclaiming the prompt attempts of a deleted Task removes exactly the attempts of that Task and
  returns their number; each was terminal, or was queued and unstarted and has been cancelled; the
  attempts of other Tasks, and every record that is not an attempt or a reclamation marker, stay as
  they were; and the Task is marked as reclaimed.
\<close>

theorem reclaim_removes_exactly:
  assumes ok: "db_ok d" and run: "ReclaimPromptAttempts e q d = (Inr n, d')"
  shows "prompt_attempts d' =
      filter (\<lambda>a. \<not> task_attempt (TrimSpace (rp_namespace q)) (TrimSpace (rp_task_uid q)) a) (prompt_attempts d) \<and>
    n = int (length (filter (task_attempt (TrimSpace (rp_namespace q)) (TrimSpace (rp_task_uid q))) (prompt_attempts d))) \<and>
    list_all (\<lambda>a. attempt_terminal a \<or> pa_execution_state a = PromptExecutionQueued)
      (filter (task_attempt (TrimSpace (rp_namespace q)) (TrimSpace (rp_task_uid q))) (prompt_attempts d)) \<and>
    find_row reclamation_pk (TrimSpace (rp_namespace q), TrimSpace (rp_task_uid q)) (prompt_attempt_reclamations d') \<noteq> None \<and>
    d' = d\<lparr>prompt_attempts := prompt_attempts d', prompt_attempt_reclamations := prompt_attempt_reclamations d'\<rparr>"
  using ok run by (rule reclaim_result)

end
