(* ===== verification/Publication_Store.thy ===== *)
theory Publication_Store
  imports Branch_Claim
begin

text \<open>
  Publications: the clean-room delivery of a prompt result to a branch, with a receipt for every
  stage.  Operations of \<^verbatim>\<open>internal/store/sqlite/publication_store.go\<close>, receipt validation of
  \<^verbatim>\<open>internal/store/control_validate.go\<close> and \<^verbatim>\<open>NormalizePublicationForCreate\<close>.

  The receipts are stored as JSON; a column is modelled by the value it encodes.
\<close>

section \<open>Validation of intents and receipts\<close>

definition NormalizePullRequestIntent :: "PullRequestIntent \<Rightarrow> PullRequestIntent" where
  "NormalizePullRequestIntent i =
     i\<lparr>pri_base_repository_id := TrimSpace (pri_base_repository_id i), pri_base_ref := TrimSpace (pri_base_ref i),
       pri_head_repository_id := TrimSpace (pri_head_repository_id i), pri_head_ref := TrimSpace (pri_head_ref i),
       pri_expected_head_sha := TrimSpace (pri_expected_head_sha i)\<rparr>"

definition ValidatePullRequestIntent :: "PullRequestIntent \<Rightarrow> int \<Rightarrow> store_error option" where
  "ValidatePullRequestIntent i generation = first_error
     [ValidateControlIdentifier (pri_base_repository_id i),
      ValidateControlIdentifier (pri_head_repository_id i),
      ValidateFullBranchRef (pri_base_ref i),
      ValidateFullBranchRef (pri_head_ref i),
      fail_if ErrValidation (pri_publication_generation i \<noteq> generation),
      ValidateGitObjectID (pri_expected_head_sha i)]"

definition ValidatePullRequestReceipt :: "PullRequestOperationReceipt \<Rightarrow> store_error option" where
  "ValidatePullRequestReceipt r = first_error
     [ValidateControlIdentifier (TrimSpace (prr_operation_id r)),
      ValidateControlIdentifier (TrimSpace (prr_intent_key r)),
      ValidateControlIdentifier (TrimSpace (prr_forge_id r)),
      ValidateControlIdentifier (TrimSpace (prr_url r)),
      ValidateControlIdentifier (TrimSpace (prr_state r)),
      ValidateCanonicalDigest (prr_request_digest r),
      ValidateGitObjectID (prr_head_sha r),
      fail_if ErrValidation (time_is_zero (prr_reconciled_at r))]"

definition PreparedBundleMediaType :: string where
  "PreparedBundleMediaType = ''application/vnd.orka.git-bundle.v1''"

definition bundle_ref_prefix :: string where
  "bundle_ref_prefix = ''refs/orka/publications/''"

definition ValidatePreparedReceipt :: "PreparedPublicationReceipt \<Rightarrow> store_error option" where
  "ValidatePreparedReceipt r = first_error
     [ValidateControlIdentifier (ppr_operation_id r),
      ValidateCanonicalDigest (ppr_request_digest r),
      ValidateGitObjectID (ppr_tree_sha r),
      ValidateGitObjectID (ppr_commit_sha r),
      ValidateCanonicalDigest (ppr_manifest_digest r),
      ValidateWorkspaceRelativeRoot (ppr_relative_root r),
      ValidateControlIdentifier (ppr_bundle_artifact_id r),
      ValidateCanonicalDigest (ppr_bundle_digest r),
      fail_if ErrValidation (ppr_bundle_size_bytes r < 1 \<or> ppr_bundle_media_type r \<noteq> PreparedBundleMediaType \<or>
        \<not> has_prefix (ppr_bundle_ref r) bundle_ref_prefix \<or>
        length (trim_prefix (ppr_bundle_ref r) bundle_ref_prefix) \<noteq> 64),
      fail_if ErrValidation (time_is_zero (ppr_prepared_at r))]"

definition ValidatePublishReceipt ::
  "Publication \<Rightarrow> PublicationTransition \<Rightarrow> PublishOperationReceipt \<Rightarrow> store_error option" where
  "ValidatePublishReceipt p t r =
     (case pb_prepared_receipt p of
        None \<Rightarrow> Some ErrValidation
      | Some prepared \<Rightarrow> first_error
         [fail_if ErrValidation (por_operation_id r \<noteq> pt_operation_id t \<or> por_request_digest r \<noteq> pt_operation_digest t),
          fail_if ErrValidation (por_target_repository_id r \<noteq> pb_target_repository_id p \<or>
            por_target_ref r \<noteq> pb_target_ref p \<or> por_remote_before r \<noteq> pb_baseline p \<or>
            por_expected_commit_sha r \<noteq> ppr_commit_sha prepared),
          ValidateRemoteRefState (por_remote_before r),
          ValidateGitObjectID (por_expected_commit_sha r),
          fail_if ErrValidation (time_is_zero (por_published_at r))])"

definition ValidateVerificationReceipt ::
  "Publication \<Rightarrow> PublicationTransition \<Rightarrow> PublicationVerificationReceipt \<Rightarrow> store_error option" where
  "ValidateVerificationReceipt p t r =
     (case pb_prepared_receipt p of
        None \<Rightarrow> Some ErrValidation
      | Some prepared \<Rightarrow> first_error
         [fail_if ErrValidation (pb_publish_receipt p = None),
          fail_if ErrValidation (pvr_operation_id r \<noteq> pt_operation_id t \<or>
            pvr_request_digest r \<noteq> pt_operation_digest t \<or> pvr_outcome r \<noteq> pt_new_state t),
          fail_if ErrValidation (pvr_expected_commit_sha r \<noteq> ppr_commit_sha prepared),
          fail_if ErrValidation (time_is_zero (pvr_verified_at r)),
          (case pvr_outcome r of
             PublicationVerifiedExact \<Rightarrow> first_error
               [ValidateRemoteRefState (pvr_observed_remote r),
                fail_if ErrValidation (rr_absent (pvr_observed_remote r) \<or>
                  rr_sha (pvr_observed_remote r) \<noteq> pvr_expected_commit_sha r),
                fail_if ErrValidation (pvr_descendant_proof_digest r \<noteq> [])]
           | PublicationDeliveredSuperseded \<Rightarrow> first_error
               [ValidateRemoteRefState (pvr_observed_remote r),
                fail_if ErrValidation (rr_absent (pvr_observed_remote r) \<or>
                  rr_sha (pvr_observed_remote r) = pvr_expected_commit_sha r),
                ValidateCanonicalDigest (pvr_descendant_proof_digest r)]
           | PublicationDeliveryConflict \<Rightarrow> ValidateRemoteRefState (pvr_observed_remote r)
           | PublicationOutcomeUnknown \<Rightarrow>
               fail_if ErrValidation (rr_absent (pvr_observed_remote r) \<or>
                 rr_sha (pvr_observed_remote r) \<noteq> [] \<or> pvr_descendant_proof_digest r \<noteq> [])
           | _ \<Rightarrow> Some ErrValidation)])"

text \<open>Exactly one receipt, of the kind the destination state needs.\<close>

definition only_prepared :: "PublicationTransition \<Rightarrow> (PreparedPublicationReceipt \<Rightarrow> store_error option) \<Rightarrow> store_error option" where
  "only_prepared t f =
     (case pt_prepared_receipt t of
        None \<Rightarrow> Some ErrValidation
      | Some r \<Rightarrow> if pt_publish_receipt t \<noteq> None \<or> pt_verification_receipt t \<noteq> None then Some ErrValidation else f r)"

definition only_publish :: "PublicationTransition \<Rightarrow> (PublishOperationReceipt \<Rightarrow> store_error option) \<Rightarrow> store_error option" where
  "only_publish t f =
     (case pt_publish_receipt t of
        None \<Rightarrow> Some ErrValidation
      | Some r \<Rightarrow> if pt_prepared_receipt t \<noteq> None \<or> pt_verification_receipt t \<noteq> None then Some ErrValidation else f r)"

definition only_verification ::
  "PublicationTransition \<Rightarrow> (PublicationVerificationReceipt \<Rightarrow> store_error option) \<Rightarrow> store_error option" where
  "only_verification t f =
     (case pt_verification_receipt t of
        None \<Rightarrow> Some ErrValidation
      | Some r \<Rightarrow> if pt_prepared_receipt t \<noteq> None \<or> pt_publish_receipt t \<noteq> None then Some ErrValidation else f r)"

definition no_receipts :: "PublicationTransition \<Rightarrow> bool" where
  "no_receipts t \<longleftrightarrow>
     pt_prepared_receipt t = None \<and> pt_publish_receipt t = None \<and> pt_verification_receipt t = None"

definition transition_receipt_error :: "Publication \<Rightarrow> PublicationTransition \<Rightarrow> store_error option" where
  "transition_receipt_error p t =
     (case pt_new_state t of
        PublicationPrepared \<Rightarrow> only_prepared t ValidatePreparedReceipt
      | PublicationPublishing \<Rightarrow> fail_if ErrValidation (\<not> no_receipts t)
      | PublicationCancelledBeforePublish \<Rightarrow> fail_if ErrValidation (\<not> no_receipts t)
      | PublicationVerifying \<Rightarrow> only_publish t (ValidatePublishReceipt p t)
      | PublicationOutcomeUnknown \<Rightarrow>
          if (pt_expected_state t = PublicationPreparing \<or> pt_expected_state t = PublicationPublishing) \<and> no_receipts t
          then None else only_verification t (ValidateVerificationReceipt p t)
      | PublicationVerifiedExact \<Rightarrow> only_verification t (ValidateVerificationReceipt p t)
      | PublicationDeliveredSuperseded \<Rightarrow> only_verification t (ValidateVerificationReceipt p t)
      | PublicationDeliveryConflict \<Rightarrow>
          if pt_expected_state t = PublicationVerifying then only_verification t (ValidateVerificationReceipt p t)
          else fail_if ErrValidation (\<not> no_receipts t)
      | _ \<Rightarrow> fail_if ErrValidation (\<not> no_receipts t))"

definition ValidatePublicationTransitionReceipts :: "Publication \<Rightarrow> PublicationTransition \<Rightarrow> store_error option" where
  "ValidatePublicationTransitionReceipts p t = first_error
     [transition_receipt_error p t,
      fail_if ErrValidation
        (pt_new_state t \<in> {PublicationDeliveryConflict, PublicationCredentialBlocked,
           PublicationPreparationFailed, PublicationOutcomeUnknown} \<and> TrimSpace (pt_terminal_reason t) = [])]"

text \<open>
  \<open>EqualPreparedReceipt\<close>, \<open>EqualPublishReceipt\<close> and \<open>EqualVerificationReceipt\<close> compare every
  field, times as instants, so they are equality of the records.
\<close>

definition PublicationTransitionReceiptsMatch :: "Publication \<Rightarrow> PublicationTransition \<Rightarrow> bool" where
  "PublicationTransitionReceiptsMatch p t \<longleftrightarrow>
     (pt_prepared_receipt t \<noteq> None \<longrightarrow> pb_prepared_receipt p = pt_prepared_receipt t) \<and>
     (pt_publish_receipt t \<noteq> None \<longrightarrow> pb_publish_receipt p = pt_publish_receipt t) \<and>
     (pt_verification_receipt t \<noteq> None \<longrightarrow> pb_verification_receipt p = pt_verification_receipt t)"

definition SamePublicationCreation :: "Publication \<Rightarrow> Publication \<Rightarrow> bool" where
  "SamePublicationCreation a b \<longleftrightarrow>
     (pb_pr_intent b = None \<or> pb_pr_intent a = pb_pr_intent b) \<and>
     pb_id a = pb_id b \<and> pb_namespace a = pb_namespace b \<and> pb_generation a = pb_generation b \<and>
     pb_task_uid a = pb_task_uid b \<and> pb_attempt a = pb_attempt b \<and> pb_prompt_id a = pb_prompt_id b \<and>
     pb_session_uid a = pb_session_uid b \<and> pb_branch_claim_id a = pb_branch_claim_id b \<and>
     pb_branch_claim_generation a = pb_branch_claim_generation b \<and>
     pb_source_repository_id a = pb_source_repository_id b \<and> pb_source_ref a = pb_source_ref b \<and>
     pb_source_baseline_sha a = pb_source_baseline_sha b \<and>
     pb_target_repository_id a = pb_target_repository_id b \<and> pb_target_ref a = pb_target_ref b \<and>
     pb_baseline a = pb_baseline b \<and> pb_artifact_id a = pb_artifact_id b \<and>
     pb_artifact_digest a = pb_artifact_digest b \<and> pb_artifact_size_bytes a = pb_artifact_size_bytes b \<and>
     pb_artifact_media_type a = pb_artifact_media_type b \<and>
     pb_publication_credential_ref a = pb_publication_credential_ref b \<and>
     pb_commit_identity a = pb_commit_identity b \<and> pb_commit_message a = pb_commit_message b \<and>
     pb_commit_timestamp a = pb_commit_timestamp b \<and> pb_request_digest a = pb_request_digest b"

section \<open>Creation\<close>

definition publication_defaults :: "Publication \<Rightarrow> Publication" where
  "publication_defaults p =
     p\<lparr>pb_id := TrimSpace (pb_id p), pb_namespace := TrimSpace (pb_namespace p),
       pb_task_uid := TrimSpace (pb_task_uid p), pb_prompt_id := TrimSpace (pb_prompt_id p),
       pb_session_uid := TrimSpace (pb_session_uid p), pb_branch_claim_id := TrimSpace (pb_branch_claim_id p),
       pb_source_repository_id := TrimSpace (pb_source_repository_id p),
       pb_source_ref := TrimSpace (pb_source_ref p),
       pb_target_repository_id := TrimSpace (pb_target_repository_id p),
       pb_target_ref := TrimSpace (pb_target_ref p),
       pb_publication_credential_ref := TrimSpace (pb_publication_credential_ref p),
       pb_commit_identity := TrimSpace (pb_commit_identity p),
       pb_source_baseline_sha := TrimSpace (pb_source_baseline_sha p),
       pb_artifact_id := TrimSpace (pb_artifact_id p),
       pb_artifact_media_type := TrimSpace (pb_artifact_media_type p),
       pb_pr_intent := map_option NormalizePullRequestIntent (pb_pr_intent p),
       pb_state := (if pb_state p = Publication_other [] then PublicationPreparing else pb_state p)\<rparr>"

definition NormalizePublicationForCreate ::
  "env \<Rightarrow> Publication option \<Rightarrow> ControllerEpochFence \<Rightarrow> store_error + Publication \<times> ControllerEpochFence" where
  "NormalizePublicationForCreate e publication fence =
     (case publication of
        None \<Rightarrow> Inl ErrValidation
      | Some publication' \<Rightarrow>
        (let p = publication_defaults publication' in checks
          ([ValidateControlIdentifier v.
              v \<leftarrow> [pb_id p, pb_namespace p, pb_task_uid p, pb_prompt_id p, pb_branch_claim_id p,
                pb_source_repository_id p, pb_source_ref p, pb_target_repository_id p,
                pb_publication_credential_ref p, pb_commit_identity p]] @
           [(if pb_session_uid p \<noteq> [] then ValidateControlIdentifier (pb_session_uid p) else None),
            fail_if ErrValidation (pb_generation p < 1 \<or> pb_branch_claim_generation p < 1 \<or> pb_attempt p < 1),
            ValidateFullBranchRef (pb_target_ref p),
            ValidateRemoteRefState (pb_baseline p),
            ValidateCanonicalDigest (pb_artifact_digest p),
            ValidateGitObjectID (pb_source_baseline_sha p),
            ValidateControlIdentifier (pb_artifact_id p),
            fail_if ErrValidation (pb_artifact_size_bytes p < 1),
            fail_if ErrValidation (pb_artifact_media_type p = []),
            ValidateCanonicalDigest (pb_request_digest p),
            fail_if ErrValidation (TrimSpace (pb_commit_message p) = []),
            ValidateControlReason (pb_commit_message p),
            fail_if ErrValidation (time_is_zero (pb_commit_timestamp p)),
            (case pb_pr_intent p of None \<Rightarrow> None | Some i \<Rightarrow> ValidatePullRequestIntent i (pb_generation p)),
            fail_if ErrValidation (pb_state p \<noteq> PublicationPreparing),
            fail_if ErrValidation (pb_prepared_receipt p \<noteq> None \<or> pb_publish_receipt p \<noteq> None \<or>
              pb_verification_receipt p \<noteq> None \<or> pb_pull_request_receipt p \<noteq> None)])
          (case NormalizeEpochFence fence of
             Inl x \<Rightarrow> Inl x
           | Inr f \<Rightarrow> checks [fail_if ErrValidation (pb_version p \<noteq> 0 \<and> pb_version p \<noteq> 1)]
               (let now = NormalizeControlTime e (pb_created_at p) in
                Inr (p\<lparr>pb_created_at := now,
                       pb_updated_at := (if time_is_zero (pb_updated_at p) then now else pb_updated_at p),
                       pb_controller_epoch_name := cf_name f, pb_controller_epoch := cf_epoch f,
                       pb_version := 1, pb_last_operation_id := [], pb_last_operation_digest := [],
                       pb_terminal_reason := []\<rparr>, f)))))"

definition getPublication :: "string \<Rightarrow> db \<Rightarrow> Publication option" where
  "getPublication pid d = find_row pb_id pid (publications d)"

definition GetPublication :: "string \<Rightarrow> db \<Rightarrow> store_error + Publication" where
  "GetPublication pid d = checks [ValidateControlIdentifier (TrimSpace pid)]
     (case getPublication (TrimSpace pid) d of None \<Rightarrow> Inl ErrNotFound | Some p \<Rightarrow> Inr p)"

text \<open>The inserted row has no receipts, whatever the struct holds.\<close>

definition publication_row :: "Publication \<Rightarrow> Publication" where
  "publication_row p = p\<lparr>pb_prepared_receipt := None, pb_publish_receipt := None,
     pb_verification_receipt := None, pb_pull_request_receipt := None\<rparr>"

text \<open>
  The foreign key to \<^verbatim>\<open>branch_claims\<close> holds at the insertion, because the claim has just been read
  in the same transaction.
\<close>

definition create_publication_body :: "Publication \<Rightarrow> db \<Rightarrow> (Publication, db) tx_result" where
  "create_publication_body n d =
     (case getPublication (pb_id n) d of
        Some existing \<Rightarrow> if SamePublicationCreation existing n then ReturnTx existing else Abort ErrConflict
      | None \<Rightarrow>
          fetch bc_id (pb_branch_claim_id n) (branch_claims d) (\<lambda>claim.
            guards [fail_if ErrConflict (bc_repository_id claim \<noteq> pb_target_repository_id n \<or>
                bc_ref claim \<noteq> pb_target_ref n \<or> bc_generation claim \<noteq> pb_branch_claim_generation n \<or>
                bc_last_verified claim \<noteq> pb_baseline n \<or> bc_availability claim \<noteq> BranchClaimAvailable)]
              (case sql_insert publications_check publication_clash (publication_row n) (publications d) of
                 None \<Rightarrow>
                   (case getPublication (pb_id n) d of
                      Some existing \<Rightarrow>
                        if SamePublicationCreation existing n then ReturnTx existing else Abort ErrConflict
                    | None \<Rightarrow> Abort ErrConflict)
               | Some t \<Rightarrow> Commit n (d\<lparr>publications := t\<rparr>))))"

definition CreatePublication ::
  "env \<Rightarrow> Publication option \<times> ControllerEpochFence \<Rightarrow> db \<Rightarrow> (store_error + Publication) \<times> db" where
  "CreatePublication e q = validated (NormalizePublicationForCreate e (fst q) (snd q))
     (\<lambda>r. fenced_tx e (snd r) (create_publication_body (fst r)))"

section \<open>Pull-request intent and receipt\<close>

definition validatePRIntentRequest ::
  "env \<Rightarrow> SetPublicationPRIntentRequest \<Rightarrow> store_error + SetPublicationPRIntentRequest" where
  "validatePRIntentRequest e request =
     (let rid = TrimSpace (pi_id request) in
      checks [ValidateControlIdentifier rid]
       (case NormalizeEpochFence (pi_fence request) of
          Inl x \<Rightarrow> Inl x
        | Inr f \<Rightarrow>
          (let r = request\<lparr>pi_id := rid, pi_fence := f, pi_operation_id := TrimSpace (pi_operation_id request)\<rparr> in
           checks
            [fail_if ErrValidation (pi_expected_version r < 1 \<or> pi_expected_generation r < 1 \<or>
               pi_expected_state r \<noteq> PublicationPrepared \<and> pi_expected_state r \<noteq> PublicationVerifying),
             ValidatePullRequestIntent (pi_intent r) (pi_expected_generation r),
             ValidateControlIdentifier (pi_operation_id r),
             ValidateCanonicalDigest (pi_operation_digest r)]
            (Inr (r\<lparr>pi_updated_at := NormalizeControlTime e (pi_updated_at r)\<rparr>)))))"

definition pr_intent_set :: "SetPublicationPRIntentRequest \<Rightarrow> Publication \<Rightarrow> Publication" where
  "pr_intent_set q p =
     p\<lparr>pb_pr_intent := Some (pi_intent q), pb_controller_epoch_name := cf_name (pi_fence q),
       pb_controller_epoch := cf_epoch (pi_fence q), pb_last_operation_id := pi_operation_id q,
       pb_last_operation_digest := pi_operation_digest q, pb_version := pb_version p + 1,
       pb_updated_at := pi_updated_at q\<rparr>"

definition pr_intent_body :: "SetPublicationPRIntentRequest \<Rightarrow> db \<Rightarrow> (Publication, db) tx_result" where
  "pr_intent_body q d = fetch pb_id (pi_id q) (publications d) (\<lambda>publication.
     case pb_prepared_receipt publication of
       None \<Rightarrow> Abort ErrValidation
     | Some prepared \<Rightarrow>
         guards [fail_if ErrValidation (pi_expected_state q = PublicationPrepared \<and>
           ppr_commit_sha prepared \<noteq> pri_expected_head_sha (pi_intent q))]
          (if pb_last_operation_id publication = pi_operation_id q then
             (if pb_last_operation_digest publication = pi_operation_digest q \<and>
                 pb_pr_intent publication = Some (pi_intent q)
              then ReturnTx publication else Abort ErrConflict)
           else guards
             [fail_if ErrConflict (pb_version publication \<noteq> pi_expected_version q \<or>
                pb_generation publication \<noteq> pi_expected_generation q \<or>
                pb_state publication \<noteq> pi_expected_state q \<or> pb_pr_intent publication \<noteq> None)]
             (update_one publications_check
               (\<lambda>p. pb_id p = pi_id q \<and> pb_version p = pi_expected_version q \<and>
                  pb_generation p = pi_expected_generation q \<and> pb_state p = pi_expected_state q \<and>
                  pb_pr_intent p = None)
               (pr_intent_set q) (publications d)
               (\<lambda>t. Commit
                  (publication\<lparr>pb_pr_intent := Some (pi_intent q),
                     pb_controller_epoch_name := cf_name (pi_fence q), pb_controller_epoch := cf_epoch (pi_fence q),
                     pb_last_operation_id := pi_operation_id q, pb_last_operation_digest := pi_operation_digest q,
                     pb_version := pb_version publication + 1, pb_updated_at := pi_updated_at q\<rparr>)
                  (d\<lparr>publications := t\<rparr>)))))"

definition SetPublicationPRIntent ::
  "env \<Rightarrow> SetPublicationPRIntentRequest \<Rightarrow> db \<Rightarrow> (store_error + Publication) \<times> db" where
  "SetPublicationPRIntent e request = validated (validatePRIntentRequest e request)
     (\<lambda>q. fenced_tx e (pi_fence q) (pr_intent_body q))"

definition validatePRReceiptRequest ::
  "env \<Rightarrow> SetPublicationPRReceiptRequest \<Rightarrow> store_error + SetPublicationPRReceiptRequest" where
  "validatePRReceiptRequest e request =
     (let rid = TrimSpace (pq_id request) in
      checks [ValidateControlIdentifier rid]
       (case NormalizeEpochFence (pq_fence request) of
          Inl x \<Rightarrow> Inl x
        | Inr f \<Rightarrow>
          (let r = request\<lparr>pq_id := rid, pq_fence := f, pq_operation_id := TrimSpace (pq_operation_id request)\<rparr> in
           checks
            [fail_if ErrValidation (pq_expected_version r < 1 \<or> pq_expected_generation r < 1 \<or>
               pq_expected_state r \<noteq> PublicationVerifying),
             ValidateControlIdentifier (pq_operation_id r),
             ValidateCanonicalDigest (pq_operation_digest r),
             ValidatePullRequestReceipt (pq_receipt r)]
            (Inr (r\<lparr>pq_updated_at := NormalizeControlTime e (pq_updated_at r)\<rparr>)))))"

definition pr_receipt_set :: "SetPublicationPRReceiptRequest \<Rightarrow> Publication \<Rightarrow> Publication" where
  "pr_receipt_set q p =
     p\<lparr>pb_pull_request_receipt := Some (pq_receipt q), pb_controller_epoch_name := cf_name (pq_fence q),
       pb_controller_epoch := cf_epoch (pq_fence q), pb_last_operation_id := pq_operation_id q,
       pb_last_operation_digest := pq_operation_digest q, pb_version := pb_version p + 1,
       pb_updated_at := pq_updated_at q\<rparr>"

definition pr_receipt_body :: "SetPublicationPRReceiptRequest \<Rightarrow> db \<Rightarrow> (Publication, db) tx_result" where
  "pr_receipt_body q d = fetch pb_id (pq_id q) (publications d) (\<lambda>publication.
     case pb_pr_intent publication of
       None \<Rightarrow> Abort ErrValidation
     | Some intent \<Rightarrow>
         guards [fail_if ErrValidation (pri_expected_head_sha intent \<noteq> prr_head_sha (pq_receipt q))]
          (if pb_last_operation_id publication = pq_operation_id q then
             (if pb_last_operation_digest publication = pq_operation_digest q \<and>
                 pb_pull_request_receipt publication = Some (pq_receipt q)
              then ReturnTx publication else Abort ErrConflict)
           else guards
             [fail_if ErrConflict (pb_version publication \<noteq> pq_expected_version q \<or>
                pb_generation publication \<noteq> pq_expected_generation q \<or>
                pb_state publication \<noteq> pq_expected_state q \<or> pb_pull_request_receipt publication \<noteq> None)]
             (update_one publications_check
               (\<lambda>p. pb_id p = pq_id q \<and> pb_version p = pq_expected_version q \<and>
                  pb_generation p = pq_expected_generation q \<and> pb_state p = PublicationVerifying \<and>
                  pb_pull_request_receipt p = None)
               (pr_receipt_set q) (publications d)
               (\<lambda>t. Commit
                  (publication\<lparr>pb_pull_request_receipt := Some (pq_receipt q),
                     pb_controller_epoch_name := cf_name (pq_fence q), pb_controller_epoch := cf_epoch (pq_fence q),
                     pb_last_operation_id := pq_operation_id q, pb_last_operation_digest := pq_operation_digest q,
                     pb_version := pb_version publication + 1, pb_updated_at := pq_updated_at q\<rparr>)
                  (d\<lparr>publications := t\<rparr>)))))"

definition SetPublicationPRReceipt ::
  "env \<Rightarrow> SetPublicationPRReceiptRequest \<Rightarrow> db \<Rightarrow> (store_error + Publication) \<times> db" where
  "SetPublicationPRReceipt e request = validated (validatePRReceiptRequest e request)
     (\<lambda>q. fenced_tx e (pq_fence q) (pr_receipt_body q))"

section \<open>Transitions\<close>

definition validatePublicationTransitionRequest ::
  "env \<Rightarrow> PublicationTransition \<Rightarrow> store_error + PublicationTransition" where
  "validatePublicationTransitionRequest e transition =
     (let tid = TrimSpace (pt_id transition) in
      checks [ValidateControlIdentifier tid]
       (case NormalizeEpochFence (pt_fence transition) of
          Inl x \<Rightarrow> Inl x
        | Inr f \<Rightarrow>
          (let t = transition\<lparr>pt_id := tid, pt_fence := f,
               pt_operation_id := TrimSpace (pt_operation_id transition),
               pt_terminal_reason := TrimSpace (pt_terminal_reason transition)\<rparr> in
           checks
            [fail_if ErrValidation (pt_expected_version t < 1 \<or> pt_expected_generation t < 1),
             ValidatePublicationTransition (pt_expected_state t) (pt_new_state t),
             ValidateControlIdentifier (pt_operation_id t),
             ValidateCanonicalDigest (pt_operation_digest t),
             ValidateControlReason (pt_terminal_reason t)]
            (Inr (t\<lparr>pt_updated_at := NormalizeControlTime e (pt_updated_at t)\<rparr>)))))"

definition pt_prepared :: "PublicationTransition \<Rightarrow> Publication \<Rightarrow> PreparedPublicationReceipt option" where
  "pt_prepared q p =
     (if pt_prepared_receipt q \<noteq> None then pt_prepared_receipt q else pb_prepared_receipt p)"

definition pt_publish :: "PublicationTransition \<Rightarrow> Publication \<Rightarrow> PublishOperationReceipt option" where
  "pt_publish q p = (if pt_publish_receipt q \<noteq> None then pt_publish_receipt q else pb_publish_receipt p)"

definition pt_verification :: "PublicationTransition \<Rightarrow> Publication \<Rightarrow> PublicationVerificationReceipt option" where
  "pt_verification q p =
     (if pt_verification_receipt q \<noteq> None then pt_verification_receipt q else pb_verification_receipt p)"

definition pt_reason :: "PublicationTransition \<Rightarrow> Publication \<Rightarrow> string" where
  "pt_reason q p =
     (if pt_terminal_reason q \<noteq> [] \<or> IsTerminalPublicationState (pt_new_state q)
      then pt_terminal_reason q else pb_terminal_reason p)"

definition publication_set :: "PublicationTransition \<Rightarrow> Publication \<Rightarrow> Publication \<Rightarrow> Publication" where
  "publication_set q seen p =
     p\<lparr>pb_state := pt_new_state q, pb_prepared_receipt := pt_prepared q seen,
       pb_publish_receipt := pt_publish q seen, pb_verification_receipt := pt_verification q seen,
       pb_terminal_reason := pt_reason q seen, pb_controller_epoch_name := cf_name (pt_fence q),
       pb_controller_epoch := cf_epoch (pt_fence q), pb_last_operation_id := pt_operation_id q,
       pb_last_operation_digest := pt_operation_digest q, pb_version := pb_version p + 1,
       pb_updated_at := pt_updated_at q\<rparr>"

definition publication_result :: "PublicationTransition \<Rightarrow> Publication \<Rightarrow> Publication" where
  "publication_result q publication =
     publication\<lparr>pb_state := pt_new_state q, pb_prepared_receipt := pt_prepared q publication,
       pb_publish_receipt := pt_publish q publication,
       pb_verification_receipt := pt_verification q publication,
       pb_terminal_reason := pt_reason q publication, pb_controller_epoch_name := cf_name (pt_fence q),
       pb_controller_epoch := cf_epoch (pt_fence q), pb_last_operation_id := pt_operation_id q,
       pb_last_operation_digest := pt_operation_digest q, pb_version := pb_version publication + 1,
       pb_updated_at := pt_updated_at q\<rparr>"

definition publication_body :: "PublicationTransition \<Rightarrow> db \<Rightarrow> (Publication, db) tx_result" where
  "publication_body q d = fetch pb_id (pt_id q) (publications d) (\<lambda>publication.
     guards [ValidatePublicationTransitionReceipts publication q]
      (if pb_last_operation_id publication = pt_operation_id q then
         guards [fail_if ErrConflict (pb_last_operation_digest publication \<noteq> pt_operation_digest q)]
          (if pb_state publication = pt_new_state q \<and> PublicationTransitionReceiptsMatch publication q
           then ReturnTx publication else Abort ErrConflict)
       else guards
         [fail_if ErrConflict (pb_version publication \<noteq> pt_expected_version q \<or>
            pb_generation publication \<noteq> pt_expected_generation q \<or>
            pb_state publication \<noteq> pt_expected_state q)]
         (update_one publications_check
           (\<lambda>p. pb_id p = pt_id q \<and> pb_version p = pt_expected_version q \<and>
              pb_generation p = pt_expected_generation q \<and> pb_state p = pt_expected_state q)
           (publication_set q publication) (publications d)
           (\<lambda>t. Commit (publication_result q publication) (d\<lparr>publications := t\<rparr>)))))"

definition TransitionPublication ::
  "env \<Rightarrow> PublicationTransition \<Rightarrow> db \<Rightarrow> (store_error + Publication) \<times> db" where
  "TransitionPublication e transition = validated (validatePublicationTransitionRequest e transition)
     (\<lambda>q. fenced_tx e (pt_fence q) (publication_body q))"

definition publicationReceipt :: "Publication \<Rightarrow> PublicationReceipt" where
  "publicationReceipt p =
     \<lparr>prc_publication_id = pb_id p, prc_generation = pb_generation p, prc_state = pb_state p,
      prc_prepared = pb_prepared_receipt p, prc_publish = pb_publish_receipt p,
      prc_verification = pb_verification_receipt p, prc_pull_request = pb_pull_request_receipt p\<rparr>"

section \<open>The operations as compare-and-swap\<close>

lemma publication_set_result: "publication_set q p p = publication_result q p"
  by (simp add: publication_set_def publication_result_def)

lemma publication_results_kept [simp]:
  "pb_id (publication_result q p) = pb_id p" "pb_branch_claim_id (publication_result q p) = pb_branch_claim_id p"
  "pb_version (publication_result q p) = pb_version p + 1" "pb_state (publication_result q p) = pt_new_state q"
  "pb_id (pr_intent_set q' p) = pb_id p" "pb_branch_claim_id (pr_intent_set q' p) = pb_branch_claim_id p"
  "pb_version (pr_intent_set q' p) = pb_version p + 1" "pb_state (pr_intent_set q' p) = pb_state p"
  "pb_id (pr_receipt_set q'' p) = pb_id p" "pb_branch_claim_id (pr_receipt_set q'' p) = pb_branch_claim_id p"
  "pb_version (pr_receipt_set q'' p) = pb_version p + 1" "pb_state (pr_receipt_set q'' p) = pb_state p"
  by (simp_all add: publication_result_def pr_intent_set_def pr_receipt_set_def)

lemma put_publication_ok:
  assumes ok: "db_ok d" and get: "find_row pb_id pid (publications d) = Some p"
    and chk: "publications_check p'" and kept: "pb_id p' = pb_id p" "pb_branch_claim_id p' = pb_branch_claim_id p"
  shows "db_ok (d\<lparr>publications := put_row pb_id pid p' (publications d)\<rparr>)"
proof (rule db_ok_set_pubs [OF ok])
  show "pubs.table_ok (put_row pb_id pid p' (publications d))"
    using kept by (intro pubs.put_row_ok [OF db_ok_tables(8) [OF ok] get chk])
      (auto simp: publication_clash_def)
  fix x assume "x \<in> set (put_row pb_id pid p' (publications d))"
  then show "find_row bc_id (pb_branch_claim_id x) (branch_claims d) \<noteq> None"
    using kept find_row_SomeD [OF get] db_ok_foreign_key [OF ok] by (auto dest!: set_put_row)
qed

lemma publication_commit:
  assumes ok: "db_ok d" and body: "publication_body q d = Commit a d'"
  obtains p where "find_row pb_id (pt_id q) (publications d) = Some p"
    "ValidatePublicationTransitionReceipts p q = None"
    "pb_last_operation_id p \<noteq> pt_operation_id q" "pb_version p = pt_expected_version q"
    "pb_generation p = pt_expected_generation q" "pb_state p = pt_expected_state q"
    "a = publication_result q p" "publications_check a"
    "d' = d\<lparr>publications := put_row pb_id (pt_id q) a (publications d)\<rparr>"
proof -
  from body obtain p where row: "find_row pb_id (pt_id q) (publications d) = Some p"
    unfolding publication_body_def by (elim fetch_CommitE)
  with body have "\<exists>t. ValidatePublicationTransitionReceipts p q = None \<and>
    pb_last_operation_id p \<noteq> pt_operation_id q \<and> pb_version p = pt_expected_version q \<and>
    pb_generation p = pt_expected_generation q \<and> pb_state p = pt_expected_state q \<and>
    a = publication_result q p \<and>
    d' = d\<lparr>publications := t\<rparr> \<and>
    sql_update publications_check
           (\<lambda>p. pb_id p = pt_id q \<and> pb_version p = pt_expected_version q \<and>
              pb_generation p = pt_expected_generation q \<and> pb_state p = pt_expected_state q)
           (publication_set q p) (publications d) = Some (t, 1)"
    unfolding publication_body_def by (elim fetch_CommitE) (auto split: if_splits)
  with row obtain t where p: "find_row pb_id (pt_id q) (publications d) = Some p"
    "ValidatePublicationTransitionReceipts p q = None"
    "pb_last_operation_id p \<noteq> pt_operation_id q" "pb_version p = pt_expected_version q"
    "pb_generation p = pt_expected_generation q" "pb_state p = pt_expected_state q"
    "a = publication_result q p" "d' = d\<lparr>publications := t\<rparr>" and
    upd: "sql_update publications_check
           (\<lambda>p. pb_id p = pt_id q \<and> pb_version p = pt_expected_version q \<and>
              pb_generation p = pt_expected_generation q \<and> pb_state p = pt_expected_state q)
           (publication_set q p) (publications d) = Some (t, 1)" by blast
  from pubs.update_result [OF db_ok_tables(8) [OF ok] p(1) _ upd] p that show thesis
    by (auto simp: publication_set_result)
qed

lemma pr_intent_commit:
  assumes ok: "db_ok d" and body: "pr_intent_body q d = Commit a d'"
  obtains p where "find_row pb_id (pi_id q) (publications d) = Some p"
    "pb_prepared_receipt p \<noteq> None" "pb_pr_intent p = None"
    "pb_version p = pi_expected_version q" "pb_state p = pi_expected_state q"
    "a = pr_intent_set q p" "publications_check a"
    "d' = d\<lparr>publications := put_row pb_id (pi_id q) a (publications d)\<rparr>"
proof -
  from body obtain p where row: "find_row pb_id (pi_id q) (publications d) = Some p"
    unfolding pr_intent_body_def by (elim fetch_CommitE)
  with body have "\<exists>t. pb_prepared_receipt p \<noteq> None \<and> pb_pr_intent p = None \<and>
    pb_version p = pi_expected_version q \<and> pb_state p = pi_expected_state q \<and>
    a = pr_intent_set q p \<and>
    d' = d\<lparr>publications := t\<rparr> \<and>
    sql_update publications_check
           (\<lambda>p. pb_id p = pi_id q \<and> pb_version p = pi_expected_version q \<and>
                  pb_generation p = pi_expected_generation q \<and> pb_state p = pi_expected_state q \<and>
                  pb_pr_intent p = None)
           (pr_intent_set q) (publications d) = Some (t, 1)"
    unfolding pr_intent_body_def by (elim fetch_CommitE) (auto simp: pr_intent_set_def split: if_splits option.splits)
  with row obtain t where p: "find_row pb_id (pi_id q) (publications d) = Some p"
    "pb_prepared_receipt p \<noteq> None" "pb_pr_intent p = None"
    "pb_version p = pi_expected_version q" "pb_state p = pi_expected_state q"
    "a = pr_intent_set q p" "d' = d\<lparr>publications := t\<rparr>" and
    upd: "sql_update publications_check
           (\<lambda>p. pb_id p = pi_id q \<and> pb_version p = pi_expected_version q \<and>
                  pb_generation p = pi_expected_generation q \<and> pb_state p = pi_expected_state q \<and>
                  pb_pr_intent p = None)
           (pr_intent_set q) (publications d) = Some (t, 1)" by blast
  from pubs.update_result [OF db_ok_tables(8) [OF ok] p(1) _ upd] p that show thesis by auto
qed

lemma pr_receipt_commit:
  assumes ok: "db_ok d" and body: "pr_receipt_body q d = Commit a d'"
  obtains p i where "find_row pb_id (pq_id q) (publications d) = Some p"
    "pb_pr_intent p = Some i" "pri_expected_head_sha i = prr_head_sha (pq_receipt q)"
    "pb_pull_request_receipt p = None"
    "pb_version p = pq_expected_version q" "pb_state p = PublicationVerifying"
    "a = pr_receipt_set q p" "publications_check a"
    "d' = d\<lparr>publications := put_row pb_id (pq_id q) a (publications d)\<rparr>"
proof -
  from body obtain p where row: "find_row pb_id (pq_id q) (publications d) = Some p"
    unfolding pr_receipt_body_def by (elim fetch_CommitE)
  with body have "\<exists>i t. pb_pr_intent p = Some i \<and>
    pri_expected_head_sha i = prr_head_sha (pq_receipt q) \<and> pb_pull_request_receipt p = None \<and>
    pb_version p = pq_expected_version q \<and> a = pr_receipt_set q p \<and>
    d' = d\<lparr>publications := t\<rparr> \<and>
    sql_update publications_check
           (\<lambda>p. pb_id p = pq_id q \<and> pb_version p = pq_expected_version q \<and>
                  pb_generation p = pq_expected_generation q \<and> pb_state p = PublicationVerifying \<and>
                  pb_pull_request_receipt p = None)
           (pr_receipt_set q) (publications d) = Some (t, 1)"
    unfolding pr_receipt_body_def by (elim fetch_CommitE) (auto simp: pr_receipt_set_def split: if_splits option.splits)
  with row obtain i t where p: "find_row pb_id (pq_id q) (publications d) = Some p"
    "pb_pr_intent p = Some i" "pri_expected_head_sha i = prr_head_sha (pq_receipt q)"
    "pb_pull_request_receipt p = None" "pb_version p = pq_expected_version q"
    "a = pr_receipt_set q p" "d' = d\<lparr>publications := t\<rparr>" and
    upd: "sql_update publications_check
           (\<lambda>p. pb_id p = pq_id q \<and> pb_version p = pq_expected_version q \<and>
                  pb_generation p = pq_expected_generation q \<and> pb_state p = PublicationVerifying \<and>
                  pb_pull_request_receipt p = None)
           (pr_receipt_set q) (publications d) = Some (t, 1)" by blast
  from pubs.update_result [OF db_ok_tables(8) [OF ok] p(1) _ upd] p that show thesis by auto
qed

lemma validated_publication:
  assumes "validatePublicationTransitionRequest e q = Inr c"
  shows "pt_id c = TrimSpace (pt_id q)" "NormalizeEpochFence (pt_fence q) = Inr (pt_fence c)"
    "pt_expected_version c = pt_expected_version q"
    "pt_new_state c \<in> set (publicationTransitions (pt_expected_state c))"
    "IsKnownPublicationState (pt_new_state c)"
  using assms
  by (auto simp: validatePublicationTransitionRequest_def ValidatePublicationTransition_def Let_def
      split: sum.splits)

lemma validated_pr_intent:
  assumes "validatePRIntentRequest e q = Inr c"
  shows "pi_id c = TrimSpace (pi_id q)" "NormalizeEpochFence (pi_fence q) = Inr (pi_fence c)"
    "pi_expected_version c = pi_expected_version q"
  using assms by (auto simp: validatePRIntentRequest_def Let_def split: sum.splits)

lemma validated_pr_receipt:
  assumes "validatePRReceiptRequest e q = Inr c"
  shows "pq_id c = TrimSpace (pq_id q)" "NormalizeEpochFence (pq_fence q) = Inr (pq_fence c)"
    "pq_expected_version c = pq_expected_version q"
  using assms by (auto simp: validatePRReceiptRequest_def Let_def split: sum.splits)

interpretation publication: validated_cas TransitionPublication validatePublicationTransitionRequest
  pt_fence pt_fence publication_body publications pb_id "\<lambda>p. p" pb_version
  "\<lambda>q. TrimSpace (pt_id q)" pt_expected_version pt_id pt_expected_version
proof
  fix e q c d a d'
  show "TransitionPublication e q d =
      validated (validatePublicationTransitionRequest e q) (\<lambda>c. fenced_tx e (pt_fence c) (publication_body c)) d"
    by (simp add: TransitionPublication_def)
  show "publication_body c d = Commit a d' \<Longrightarrow> controller_epochs d' = controller_epochs d"
    by (auto simp: publication_body_def split: if_splits)
  show "publication_body c d = ReturnTx a \<Longrightarrow> \<exists>r. find_row pb_id (pt_id c) (publications d) = Some r \<and> a = r"
    by (auto simp: publication_body_def split: if_splits)
  assume ok: "db_ok d" and body: "publication_body c d = Commit a d'"
  show "db_ok d'" using body by (rule publication_commit [OF ok]) (auto intro: put_publication_ok [OF ok])
  show "\<exists>r r'. find_row pb_id (pt_id c) (publications d) = Some r \<and> pb_version r = pt_expected_version c \<and>
      pb_version r' = pb_version r + 1 \<and> pb_id r' = pt_id c \<and> a = r' \<and>
      publications d' = put_row pb_id (pt_id c) r' (publications d)"
    using body by (rule publication_commit [OF ok]) (use find_row_SomeD in fastforce)
qed (auto dest: validated_publication)

interpretation pr_intent: validated_cas SetPublicationPRIntent validatePRIntentRequest
  pi_fence pi_fence pr_intent_body publications pb_id "\<lambda>p. p" pb_version
  "\<lambda>q. TrimSpace (pi_id q)" pi_expected_version pi_id pi_expected_version
proof
  fix e q c d a d'
  show "SetPublicationPRIntent e q d =
      validated (validatePRIntentRequest e q) (\<lambda>c. fenced_tx e (pi_fence c) (pr_intent_body c)) d"
    by (simp add: SetPublicationPRIntent_def)
  show "pr_intent_body c d = Commit a d' \<Longrightarrow> controller_epochs d' = controller_epochs d"
    by (auto simp: pr_intent_body_def split: if_splits option.splits)
  show "pr_intent_body c d = ReturnTx a \<Longrightarrow> \<exists>r. find_row pb_id (pi_id c) (publications d) = Some r \<and> a = r"
    by (auto simp: pr_intent_body_def split: if_splits option.splits)
  assume ok: "db_ok d" and body: "pr_intent_body c d = Commit a d'"
  show "db_ok d'" using body by (rule pr_intent_commit [OF ok]) (auto intro: put_publication_ok [OF ok])
  show "\<exists>r r'. find_row pb_id (pi_id c) (publications d) = Some r \<and> pb_version r = pi_expected_version c \<and>
      pb_version r' = pb_version r + 1 \<and> pb_id r' = pi_id c \<and> a = r' \<and>
      publications d' = put_row pb_id (pi_id c) r' (publications d)"
    using body by (rule pr_intent_commit [OF ok]) (use find_row_SomeD in fastforce)
qed (auto dest: validated_pr_intent)

interpretation pr_receipt: validated_cas SetPublicationPRReceipt validatePRReceiptRequest
  pq_fence pq_fence pr_receipt_body publications pb_id "\<lambda>p. p" pb_version
  "\<lambda>q. TrimSpace (pq_id q)" pq_expected_version pq_id pq_expected_version
proof
  fix e q c d a d'
  show "SetPublicationPRReceipt e q d =
      validated (validatePRReceiptRequest e q) (\<lambda>c. fenced_tx e (pq_fence c) (pr_receipt_body c)) d"
    by (simp add: SetPublicationPRReceipt_def)
  show "pr_receipt_body c d = Commit a d' \<Longrightarrow> controller_epochs d' = controller_epochs d"
    by (auto simp: pr_receipt_body_def split: if_splits option.splits)
  show "pr_receipt_body c d = ReturnTx a \<Longrightarrow> \<exists>r. find_row pb_id (pq_id c) (publications d) = Some r \<and> a = r"
    by (auto simp: pr_receipt_body_def split: if_splits option.splits)
  assume ok: "db_ok d" and body: "pr_receipt_body c d = Commit a d'"
  show "db_ok d'" using body by (rule pr_receipt_commit [OF ok]) (auto intro: put_publication_ok [OF ok])
  show "\<exists>r r'. find_row pb_id (pq_id c) (publications d) = Some r \<and> pb_version r = pq_expected_version c \<and>
      pb_version r' = pb_version r + 1 \<and> pb_id r' = pq_id c \<and> a = r' \<and>
      publications d' = put_row pb_id (pq_id c) r' (publications d)"
    using body by (rule pr_receipt_commit [OF ok]) (use find_row_SomeD in fastforce)
qed (auto dest: validated_pr_receipt)

lemma normalized_publication:
  assumes "NormalizePublicationForCreate e q f = Inr (n, f')"
  shows "NormalizeEpochFence f = Inr f'" "pb_state n = PublicationPreparing" "pb_version n = 1"
    "pb_prepared_receipt n = None" "pb_publish_receipt n = None" "pb_verification_receipt n = None"
    "pb_pull_request_receipt n = None"
  using assms by (auto simp: NormalizePublicationForCreate_def Let_def split: option.splits sum.splits)

lemma create_publication_return:
  "create_publication_body n d = ReturnTx a \<Longrightarrow>
   getPublication (pb_id n) d = Some a \<and> SamePublicationCreation a n"
  by (auto simp: create_publication_body_def split: option.splits if_splits)

lemma create_publication_commit:
  "create_publication_body n d = Commit a d' \<Longrightarrow>
   a = n \<and> getPublication (pb_id n) d = None \<and>
   (\<exists>c t. find_row bc_id (pb_branch_claim_id n) (branch_claims d) = Some c \<and>
      bc_repository_id c = pb_target_repository_id n \<and> bc_ref c = pb_target_ref n \<and>
      bc_generation c = pb_branch_claim_generation n \<and> bc_last_verified c = pb_baseline n \<and>
      bc_availability c = BranchClaimAvailable \<and>
      sql_insert publications_check publication_clash (publication_row n) (publications d) = Some t \<and>
      d' = d\<lparr>publications := t\<rparr>)"
  by (auto simp: create_publication_body_def split: option.splits if_splits)

lemma publication_row_kept [simp]:
  "pb_id (publication_row n) = pb_id n" "pb_branch_claim_id (publication_row n) = pb_branch_claim_id n"
  "pb_state (publication_row n) = pb_state n"
  by (simp_all add: publication_row_def)

interpretation create_publication: validated_create CreatePublication
  "\<lambda>e q. NormalizePublicationForCreate e (fst q) (snd q)" snd snd
  "\<lambda>r. create_publication_body (fst r)" publications pb_id pb_id
proof
  fix e c d a d' and q :: "Publication option \<times> ControllerEpochFence"
  show "CreatePublication e q d =
      validated (NormalizePublicationForCreate e (fst q) (snd q))
        (\<lambda>c. fenced_tx e (snd c) (create_publication_body (fst c))) d"
    by (simp add: CreatePublication_def)
  show "create_publication_body (fst c) d = ReturnTx a \<Longrightarrow> find_row pb_id (pb_id a) (publications d) \<noteq> None"
    by (drule create_publication_return) (auto simp: getPublication_def SamePublicationCreation_def)
  assume body: "create_publication_body (fst c) d = Commit a d'"
  then show "controller_epochs d' = controller_epochs d"
    by (auto dest: create_publication_commit)
  show "\<exists>r. find_row pb_id (pb_id r) (publications d) = None \<and> publications d' = publications d @ [r] \<and>
      pb_id r = pb_id a"
    using create_publication_commit [OF body]
    by (intro exI [where x = "publication_row (fst c)"])
      (auto simp: getPublication_def sql_insert_def split: if_splits)
  assume ok: "db_ok d"
  obtain t where t: "sql_insert publications_check publication_clash (publication_row (fst c)) (publications d) = Some t"
    "d' = d\<lparr>publications := t\<rparr>" "find_row bc_id (pb_branch_claim_id (fst c)) (branch_claims d) \<noteq> None"
    using create_publication_commit [OF body] by auto
  have "x \<in> set (publications d) \<or> x = publication_row (fst c)" if "x \<in> set t" for x
    using t(1) that by (auto simp: sql_insert_def split: if_splits)
  then have "find_row bc_id (pb_branch_claim_id x) (branch_claims d) \<noteq> None" if "x \<in> set t" for x
    using t(3) db_ok_foreign_key [OF ok] that by fastforce
  then show "db_ok d'"
    using t(2) db_ok_set_pubs [OF ok pubs.insert_ok [OF db_ok_tables(8) [OF ok] t(1)]] by simp
qed (auto dest: normalized_publication)

section \<open>Receipts tell the truth about the stage\<close>

text \<open>
  The receipts a publication must hold in each state.  A prepared receipt is well formed; a publish
  receipt names the target, the baseline and the prepared commit of the publication; a verification
  receipt of an exact delivery observed the prepared commit on the remote, one of a superseded
  delivery observed another commit and carries a proof of descent.
\<close>

definition prepared_ok :: "Publication \<Rightarrow> bool" where
  "prepared_ok p \<longleftrightarrow>
     (case pb_prepared_receipt p of None \<Rightarrow> False | Some r \<Rightarrow> ValidatePreparedReceipt r = None)"

definition published_ok :: "Publication \<Rightarrow> bool" where
  "published_ok p \<longleftrightarrow>
     (case (pb_prepared_receipt p, pb_publish_receipt p) of
        (Some r, Some s) \<Rightarrow>
          por_target_repository_id s = pb_target_repository_id p \<and> por_target_ref s = pb_target_ref p \<and>
          por_remote_before s = pb_baseline p \<and> por_expected_commit_sha s = ppr_commit_sha r
      | _ \<Rightarrow> False)"

definition verified_ok :: "Publication \<Rightarrow> bool" where
  "verified_ok p \<longleftrightarrow>
     (case (pb_prepared_receipt p, pb_verification_receipt p) of
        (Some r, Some v) \<Rightarrow>
          pvr_outcome v = pb_state p \<and> pvr_expected_commit_sha v = ppr_commit_sha r \<and>
          \<not> rr_absent (pvr_observed_remote v) \<and>
          (if pb_state p = PublicationVerifiedExact then rr_sha (pvr_observed_remote v) = ppr_commit_sha r
           else rr_sha (pvr_observed_remote v) \<noteq> ppr_commit_sha r \<and>
             ValidateCanonicalDigest (pvr_descendant_proof_digest v) = None)
      | _ \<Rightarrow> False)"

definition receipts_ok :: "Publication \<Rightarrow> bool" where
  "receipts_ok p \<longleftrightarrow>
     (if pb_state p = PublicationPreparing then
        pb_prepared_receipt p = None \<and> pb_publish_receipt p = None \<and> pb_verification_receipt p = None
      else if pb_state p \<in> {PublicationPrepared, PublicationPublishing, PublicationCancelledBeforePublish} then
        prepared_ok p \<and> pb_publish_receipt p = None \<and> pb_verification_receipt p = None
      else if pb_state p = PublicationVerifying then
        prepared_ok p \<and> published_ok p \<and> pb_verification_receipt p = None
      else if pb_state p \<in> {PublicationVerifiedExact, PublicationDeliveredSuperseded} then
        prepared_ok p \<and> published_ok p \<and> verified_ok p
      else True)"

lemma no_receipts_result:
  "no_receipts q \<Longrightarrow> pb_prepared_receipt (publication_result q p) = pb_prepared_receipt p \<and>
     pb_publish_receipt (publication_result q p) = pb_publish_receipt p \<and>
     pb_verification_receipt (publication_result q p) = pb_verification_receipt p"
  by (simp add: no_receipts_def publication_result_def pt_prepared_def pt_publish_def pt_verification_def)

lemma publication_target_kept [simp]:
  "pb_target_repository_id (publication_result q p) = pb_target_repository_id p"
  "pb_target_ref (publication_result q p) = pb_target_ref p"
  "pb_baseline (publication_result q p) = pb_baseline p"
  by (simp_all add: publication_result_def)

text \<open>The state a transition comes from, by the state it goes to.\<close>

lemma publication_predecessor:
  "PublicationPrepared \<in> set (publicationTransitions s) \<Longrightarrow> s = PublicationPreparing"
  "PublicationPublishing \<in> set (publicationTransitions s) \<Longrightarrow> s = PublicationPrepared"
  "PublicationCancelledBeforePublish \<in> set (publicationTransitions s) \<Longrightarrow> s = PublicationPrepared"
  "PublicationVerifying \<in> set (publicationTransitions s) \<Longrightarrow> s = PublicationPublishing"
  "PublicationVerifiedExact \<in> set (publicationTransitions s) \<Longrightarrow> s = PublicationVerifying"
  "PublicationDeliveredSuperseded \<in> set (publicationTransitions s) \<Longrightarrow> s = PublicationVerifying"
  "PublicationPreparing \<in> set (publicationTransitions s) \<Longrightarrow> False"
  by (cases s; simp)+

lemma receipts_step_verified:
  assumes "only_verification q (ValidateVerificationReceipt p q) = None" "receipts_ok p"
    "pb_state p = PublicationVerifying"
    "pt_new_state q \<in> {PublicationVerifiedExact, PublicationDeliveredSuperseded}"
  shows "receipts_ok (publication_result q p)"
  using assms
  by (auto simp: only_verification_def ValidateVerificationReceipt_def receipts_ok_def prepared_ok_def
      published_ok_def verified_ok_def publication_result_def pt_prepared_def pt_publish_def
      pt_verification_def split: option.splits if_splits)

lemma receipts_step_verifying:
  assumes "only_publish q (ValidatePublishReceipt p q) = None" "receipts_ok p"
    "pb_state p = PublicationPublishing" "pt_new_state q = PublicationVerifying"
  shows "receipts_ok (publication_result q p)"
  using assms
  by (auto simp: only_publish_def ValidatePublishReceipt_def receipts_ok_def prepared_ok_def
      published_ok_def publication_result_def pt_prepared_def pt_publish_def
      pt_verification_def split: option.splits if_splits)

lemma receipts_step_prepared:
  assumes "only_prepared q ValidatePreparedReceipt = None" "receipts_ok p"
    "pb_state p = PublicationPreparing" "pt_new_state q = PublicationPrepared"
  shows "receipts_ok (publication_result q p)"
  using assms
  by (auto simp: only_prepared_def receipts_ok_def prepared_ok_def publication_result_def
      pt_prepared_def pt_publish_def pt_verification_def split: option.splits if_splits)

lemma receipts_step_none:
  assumes "no_receipts q" "receipts_ok p" "pb_state p = PublicationPrepared"
    "pt_new_state q \<in> {PublicationPublishing, PublicationCancelledBeforePublish}"
  shows "receipts_ok (publication_result q p)"
  using assms no_receipts_result [OF assms(1), of p] by (auto simp: receipts_ok_def prepared_ok_def)

lemma receipts_step:
  assumes v: "ValidatePublicationTransitionReceipts p q = None" and ok: "receipts_ok p"
    and src: "pb_state p = pt_expected_state q"
    and tr: "pt_new_state q \<in> set (publicationTransitions (pt_expected_state q))"
  shows "receipts_ok (publication_result q p)"
proof -
  have err: "transition_receipt_error p q = None"
    using v by (simp add: ValidatePublicationTransitionReceipts_def)
  note pre = publication_predecessor [of "pb_state p"]
  show ?thesis
    using err ok tr src pre
    by (cases "pt_new_state q")
      (simp_all add: transition_receipt_error_def receipts_step_verified receipts_step_verifying
        receipts_step_prepared receipts_step_none, simp_all add: receipts_ok_def)
qed

section \<open>Properties\<close>

text \<open>
  A publication can only be opened on a branch claim that is available, for exactly the repository
  and branch of the claim, at its current generation and on its last verified state of the remote.
\<close>

theorem publication_opened_on_claim:
  assumes "CreatePublication e q d = (Inr p, d')" "d' \<noteq> d"
  shows "\<exists>c. find_row bc_id (pb_branch_claim_id p) (branch_claims d) = Some c \<and>
    bc_repository_id c = pb_target_repository_id p \<and> bc_ref c = pb_target_ref p \<and>
    bc_generation c = pb_branch_claim_generation p \<and> bc_last_verified c = pb_baseline p \<and>
    bc_availability c = BranchClaimAvailable \<and> pb_state p = PublicationPreparing \<and>
    publications d' = publications d @ [publication_row p]"
proof -
  from assms obtain c where c: "NormalizePublicationForCreate e (fst q) (snd q) = Inr c"
    "create_publication_body (fst c) d = Commit p d'" by (auto elim!: create_publication.success)
  obtain n f where [simp]: "c = (n, f)" by (cases c)
  from create_publication_commit [OF c(2)] normalized_publication [OF c(1) [simplified]]
  show ?thesis by (auto simp: sql_insert_def split: if_splits)
qed

end
