(* ===== verification/External_Effect_Store.thy ===== *)
theory External_Effect_Store
  imports Controller_Epoch
begin

text \<open>
  External effects: one idempotency record per call to the outside world.  Operations of
  \<^verbatim>\<open>internal/store/sqlite/external_effect_store.go\<close>.

  A missing response is the empty byte string.  The theorems show that a terminal effect is final,
  that a lease that has not expired cannot be taken by another owner, and that an identity is never
  reused for another request.
\<close>

section \<open>Identity\<close>

definition ValidateExternalEffectIdentity :: "ExternalEffectIdentity \<Rightarrow> store_error option" where
  "ValidateExternalEffectIdentity i = first_error
     [ValidateControlIdentifier (ei_kind i), ValidateControlIdentifier (ei_namespace i),
      ValidateControlIdentifier (ei_aggregate_id i), ValidateControlIdentifier (ei_operation_id i)]"

definition effect_id :: "env \<Rightarrow> ExternalEffectIdentity \<Rightarrow> string" where
  "effect_id e i = CanonicalControlID e ''external-effect''
     [ei_kind i, ei_namespace i, ei_aggregate_id i, ei_operation_id i]"

definition ExternalEffectIdentity_CanonicalID :: "env \<Rightarrow> ExternalEffectIdentity \<Rightarrow> store_error + string" where
  "ExternalEffectIdentity_CanonicalID e i = checks [ValidateExternalEffectIdentity i] (Inr (effect_id e i))"

definition trim_identity :: "ExternalEffectIdentity \<Rightarrow> ExternalEffectIdentity" where
  "trim_identity i = \<lparr>ei_kind = TrimSpace (ei_kind i), ei_namespace = TrimSpace (ei_namespace i),
     ei_aggregate_id = TrimSpace (ei_aggregate_id i), ei_operation_id = TrimSpace (ei_operation_id i)\<rparr>"

section \<open>Reservation\<close>

definition getExternalEffect :: "string \<Rightarrow> db \<Rightarrow> ExternalEffect option" where
  "getExternalEffect eid d = find_row ee_id eid (external_effects d)"

definition GetExternalEffect :: "string \<Rightarrow> db \<Rightarrow> store_error + ExternalEffect" where
  "GetExternalEffect eid d = checks [ValidateControlIdentifier (TrimSpace eid)]
     (case getExternalEffect (TrimSpace eid) d of None \<Rightarrow> Inl ErrNotFound | Some x \<Rightarrow> Inr x)"

definition GetExternalEffectByIdentity ::
  "env \<Rightarrow> ExternalEffectIdentity \<Rightarrow> db \<Rightarrow> store_error + ExternalEffect" where
  "GetExternalEffectByIdentity e identity d =
     (let i = trim_identity identity in
      checks [ValidateExternalEffectIdentity i]
       (case GetExternalEffect (effect_id e i) d of
          Inl x \<Rightarrow> Inl x
        | Inr x \<Rightarrow> checks [fail_if ErrConflict (ee_identity x \<noteq> i)] (Inr x)))"

definition validateReserve :: "env \<Rightarrow> ReserveExternalEffectRequest \<Rightarrow> store_error + ReserveExternalEffectRequest" where
  "validateReserve e request =
     (let i = trim_identity (er_identity request) in
      checks [ValidateExternalEffectIdentity i, ValidateCanonicalDigest (er_request_digest request)]
       (case NormalizeEpochFence (er_fence request) of
          Inl x \<Rightarrow> Inl x
        | Inr f \<Rightarrow> Inr (request\<lparr>er_identity := i, er_fence := f,
            er_created_at := NormalizeControlTime e (er_created_at request)\<rparr>)))"

text \<open>The struct that the handler inserts and returns.\<close>

definition reserved_effect :: "env \<Rightarrow> ReserveExternalEffectRequest \<Rightarrow> ExternalEffect" where
  "reserved_effect e q =
     \<lparr>ee_id = effect_id e (er_identity q), ee_identity = er_identity q, ee_request_digest = er_request_digest q,
      ee_state = ExternalEffectPending, ee_response_digest = [], ee_response = [], ee_lease_owner = [],
      ee_lease_expires_at = None, ee_attempts = 0, ee_controller_epoch_name = cf_name (er_fence q),
      ee_controller_epoch = cf_epoch (er_fence q), ee_version = 1, ee_created_at = er_created_at q,
      ee_updated_at = er_created_at q\<rparr>"

definition reserve_body ::
  "ExternalEffect \<times> ControllerEpochFence \<Rightarrow> db \<Rightarrow> (ExternalEffect, db) tx_result" where
  "reserve_body q d =
     (let effect = fst q in
      case sql_insert external_effects_check external_effect_clash effect (external_effects d) of
        Some t \<Rightarrow> Commit effect (d\<lparr>external_effects := t\<rparr>)
      | None \<Rightarrow>
          (case getExternalEffect (ee_id effect) d of
             Some existing \<Rightarrow>
               if ee_identity existing = ee_identity effect \<and> ee_request_digest existing = ee_request_digest effect
               then ReturnTx existing else Abort ErrConflict
           | None \<Rightarrow> Abort ErrConflict))"

definition prepareReserve ::
  "env \<Rightarrow> ReserveExternalEffectRequest \<Rightarrow> store_error + ExternalEffect \<times> ControllerEpochFence" where
  "prepareReserve e request = map_sum id (\<lambda>q. (reserved_effect e q, er_fence q)) (validateReserve e request)"

definition ReserveExternalEffect ::
  "env \<Rightarrow> ReserveExternalEffectRequest \<Rightarrow> db \<Rightarrow> (store_error + ExternalEffect) \<times> db" where
  "ReserveExternalEffect e request = validated (prepareReserve e request)
     (\<lambda>q. fenced_tx e (snd q) (reserve_body q))"

section \<open>Transitions\<close>

definition validateEffectTransition ::
  "env \<Rightarrow> ExternalEffectTransition \<Rightarrow> store_error + ExternalEffectTransition" where
  "validateEffectTransition e transition =
     (let tid = TrimSpace (et_id transition) in
      checks [ValidateControlIdentifier tid]
       (case NormalizeEpochFence (et_fence transition) of
          Inl x \<Rightarrow> Inl x
        | Inr f \<Rightarrow>
          (let t = transition\<lparr>et_id := tid, et_fence := f,
               et_expected_lease_owner := TrimSpace (et_expected_lease_owner transition),
               et_lease_owner := TrimSpace (et_lease_owner transition),
               et_lease_expires_at := NormalizeOptionalControlTime (et_lease_expires_at transition),
               et_updated_at := NormalizeControlTime e (et_updated_at transition)\<rparr> in
           checks
            [fail_if ErrValidation (et_expected_version t < 1),
             fail_if ErrValidation (\<not> IsKnownExternalEffectState (et_expected_state t) \<or>
               \<not> IsKnownExternalEffectState (et_new_state t)),
             fail_if ErrValidation (\<not> ValidExternalEffectTransition (et_expected_state t) (et_new_state t)),
             ValidateCanonicalDigest (et_request_digest t),
             (if et_expected_state t = ExternalEffectInFlight
              then ValidateControlIdentifier (et_expected_lease_owner t)
              else fail_if ErrValidation (et_expected_lease_owner t \<noteq> [])),
             (if et_new_state t = ExternalEffectInFlight then
                first_error
                 [ValidateControlIdentifier (et_lease_owner t),
                  (case et_lease_expires_at t of
                     None \<Rightarrow> Some ErrValidation
                   | Some x \<Rightarrow> fail_if ErrValidation (\<not> x > et_updated_at t)),
                  fail_if ErrValidation (et_response t \<noteq> [] \<or> et_response_digest t \<noteq> [])]
              else
                first_error
                 [fail_if ErrValidation (et_lease_owner t \<noteq> [] \<or> et_lease_expires_at t \<noteq> None),
                  (if et_response t \<noteq> [] then
                     first_error
                      [ValidateControlPayload e (et_response t),
                       ValidateCanonicalDigest (et_response_digest t),
                       fail_if ErrValidation (CanonicalBytesDigest e (et_response t) \<noteq> et_response_digest t)]
                   else fail_if ErrValidation (et_response_digest t \<noteq> []))])]
            (Inr t))))"

definition effect_set :: "ExternalEffectTransition \<Rightarrow> ExternalEffect \<Rightarrow> ExternalEffect" where
  "effect_set q x =
     x\<lparr>ee_state := et_new_state q, ee_response_digest := et_response_digest q, ee_response := et_response q,
       ee_lease_owner := et_lease_owner q, ee_lease_expires_at := et_lease_expires_at q,
       ee_attempts := ee_attempts x + (if et_new_state q = ExternalEffectInFlight then 1 else 0),
       ee_controller_epoch_name := cf_name (et_fence q), ee_controller_epoch := cf_epoch (et_fence q),
       ee_version := ee_version x + 1, ee_updated_at := et_updated_at q\<rparr>"

definition effect_result :: "ExternalEffectTransition \<Rightarrow> ExternalEffect \<Rightarrow> ExternalEffect" where
  "effect_result q effect =
     (let increment = (if et_new_state q = ExternalEffectInFlight then 1 else 0) in
      effect\<lparr>ee_state := et_new_state q, ee_response_digest := et_response_digest q, ee_response := et_response q,
       ee_lease_owner := et_lease_owner q, ee_lease_expires_at := et_lease_expires_at q,
       ee_attempts := ee_attempts effect + increment,
       ee_controller_epoch_name := cf_name (et_fence q), ee_controller_epoch := cf_epoch (et_fence q),
       ee_version := ee_version effect + 1, ee_updated_at := et_updated_at q\<rparr>)"

definition lease_live :: "gotime \<Rightarrow> ExternalEffect \<Rightarrow> bool" where
  "lease_live now x \<longleftrightarrow> (case ee_lease_expires_at x of None \<Rightarrow> False | Some t \<Rightarrow> t > now)"

definition effect_body :: "ExternalEffectTransition \<Rightarrow> db \<Rightarrow> (ExternalEffect, db) tx_result" where
  "effect_body q d = fetch ee_id (et_id q) (external_effects d) (\<lambda>effect.
     guards [fail_if ErrConflict (ee_request_digest effect \<noteq> et_request_digest q)]
      (if ee_state effect = et_new_state q \<and> ee_response_digest effect = et_response_digest q \<and>
          ee_response effect = et_response q \<and> ee_lease_owner effect = et_lease_owner q \<and>
          ee_lease_expires_at effect = et_lease_expires_at q
       then ReturnTx effect
       else guards
        [fail_if ErrConflict (ee_version effect \<noteq> et_expected_version q \<or> ee_state effect \<noteq> et_expected_state q \<or>
           ee_lease_owner effect \<noteq> et_expected_lease_owner q),
         fail_if ErrConflict (et_expected_state q = ExternalEffectInFlight \<and>
           et_new_state q = ExternalEffectInFlight \<and> ee_lease_owner effect \<noteq> et_lease_owner q \<and>
           lease_live (et_updated_at q) effect)]
        (update_one external_effects_check
          (\<lambda>x. ee_id x = et_id q \<and> ee_version x = et_expected_version q \<and> ee_state x = et_expected_state q \<and>
             ee_request_digest x = et_request_digest q \<and> ee_lease_owner x = et_expected_lease_owner q)
          (effect_set q) (external_effects d)
          (\<lambda>t. Commit (effect_result q effect) (d\<lparr>external_effects := t\<rparr>)))))"

definition TransitionExternalEffect ::
  "env \<Rightarrow> ExternalEffectTransition \<Rightarrow> db \<Rightarrow> (store_error + ExternalEffect) \<times> db" where
  "TransitionExternalEffect e transition = validated (validateEffectTransition e transition)
     (\<lambda>q. fenced_tx e (et_fence q) (effect_body q))"

section \<open>The operations as creation and compare-and-swap\<close>

lemma effect_set_result: "effect_set q x = effect_result q x"
  by (simp add: effect_set_def effect_result_def)

lemma effect_result_kept [simp]:
  "ee_id (effect_result q x) = ee_id x" "ee_identity (effect_result q x) = ee_identity x"
  "ee_request_digest (effect_result q x) = ee_request_digest x"
  "ee_version (effect_result q x) = ee_version x + 1" "ee_state (effect_result q x) = et_new_state q"
  "ee_lease_owner (effect_result q x) = et_lease_owner q"
  by (simp_all add: effect_result_def Let_def)

lemma put_effect_ok:
  assumes ok: "db_ok d" and get: "find_row ee_id eid (external_effects d) = Some x"
    and chk: "external_effects_check x'" and kept: "ee_id x' = ee_id x" "ee_identity x' = ee_identity x"
  shows "db_ok (d\<lparr>external_effects := put_row ee_id eid x' (external_effects d)\<rparr>)"
  using kept
  by (intro db_ok_set_table(5) [OF ok] effects.put_row_ok [OF db_ok_tables(9) [OF ok] get chk])
    (auto simp: external_effect_clash_def)

lemma effect_commit:
  assumes ok: "db_ok d" and body: "effect_body q d = Commit a d'"
  obtains x where "find_row ee_id (et_id q) (external_effects d) = Some x"
    "ee_request_digest x = et_request_digest q" "ee_version x = et_expected_version q"
    "ee_state x = et_expected_state q" "ee_lease_owner x = et_expected_lease_owner q"
    "et_expected_state q = ExternalEffectInFlight \<Longrightarrow> et_new_state q = ExternalEffectInFlight \<Longrightarrow>
     ee_lease_owner x \<noteq> et_lease_owner q \<Longrightarrow> \<not> lease_live (et_updated_at q) x"
    "a = effect_result q x" "external_effects_check a"
    "d' = d\<lparr>external_effects := put_row ee_id (et_id q) a (external_effects d)\<rparr>"
proof -
  from body obtain x t where x: "find_row ee_id (et_id q) (external_effects d) = Some x"
    "ee_request_digest x = et_request_digest q" "ee_version x = et_expected_version q"
    "ee_state x = et_expected_state q" "ee_lease_owner x = et_expected_lease_owner q"
    "et_expected_state q = ExternalEffectInFlight \<Longrightarrow> et_new_state q = ExternalEffectInFlight \<Longrightarrow>
     ee_lease_owner x \<noteq> et_lease_owner q \<Longrightarrow> \<not> lease_live (et_updated_at q) x"
    "a = effect_result q x" "d' = d\<lparr>external_effects := t\<rparr>"
    and upd: "sql_update external_effects_check
          (\<lambda>x. ee_id x = et_id q \<and> ee_version x = et_expected_version q \<and> ee_state x = et_expected_state q \<and>
             ee_request_digest x = et_request_digest q \<and> ee_lease_owner x = et_expected_lease_owner q)
          (effect_set q) (external_effects d) = Some (t, 1)"
    by (auto simp: effect_body_def split: if_splits)
  from effects.update_result [OF db_ok_tables(9) [OF ok] x(1) _ upd]
  have "external_effects_check a" "t = put_row ee_id (et_id q) a (external_effects d)"
    using x(7) by (auto simp: effect_set_result)
  with x that show thesis by blast
qed

lemma validated_effect:
  assumes "validateEffectTransition e q = Inr c"
  shows "et_id c = TrimSpace (et_id q)" "NormalizeEpochFence (et_fence q) = Inr (et_fence c)"
    "et_expected_version c = et_expected_version q" "et_expected_state c = et_expected_state q"
    "et_new_state c = et_new_state q"
    "et_lease_owner c = TrimSpace (et_lease_owner q)"
    "et_updated_at c = NormalizeControlTime e (et_updated_at q)"
    "ValidExternalEffectTransition (et_expected_state c) (et_new_state c)"
  using assms by (auto simp: validateEffectTransition_def Let_def split: sum.splits)

interpretation effect: validated_cas TransitionExternalEffect validateEffectTransition
  et_fence et_fence effect_body external_effects ee_id "\<lambda>x. x" ee_version
  "\<lambda>q. TrimSpace (et_id q)" et_expected_version et_id et_expected_version
proof
  fix e q c d a d'
  show "TransitionExternalEffect e q d =
      validated (validateEffectTransition e q) (\<lambda>c. fenced_tx e (et_fence c) (effect_body c)) d"
    by (simp add: TransitionExternalEffect_def)
  show "effect_body c d = Commit a d' \<Longrightarrow> controller_epochs d' = controller_epochs d"
    by (auto simp: effect_body_def split: if_splits)
  show "effect_body c d = ReturnTx a \<Longrightarrow> \<exists>r. find_row ee_id (et_id c) (external_effects d) = Some r \<and> a = r"
    by (auto simp: effect_body_def split: if_splits)
  assume ok: "db_ok d" and body: "effect_body c d = Commit a d'"
  show "db_ok d'" using body by (rule effect_commit [OF ok]) (auto intro: put_effect_ok [OF ok])
  show "\<exists>r r'. find_row ee_id (et_id c) (external_effects d) = Some r \<and> ee_version r = et_expected_version c \<and>
      ee_version r' = ee_version r + 1 \<and> ee_id r' = et_id c \<and> a = r' \<and>
      external_effects d' = put_row ee_id (et_id c) r' (external_effects d)"
    using body by (rule effect_commit [OF ok]) (use find_row_SomeD in fastforce)
qed (auto dest: validated_effect)

lemma prepared_reserve:
  assumes "prepareReserve e q = Inr (x, f)"
  shows "NormalizeEpochFence (er_fence q) = Inr f" "ee_id x = effect_id e (ee_identity x)"
    "ee_identity x = trim_identity (er_identity q)" "ee_request_digest x = er_request_digest q"
    "ee_state x = ExternalEffectPending" "external_effects_check x"
proof -
  from assms obtain r where r: "validateReserve e q = Inr r" "x = reserved_effect e r" "f = er_fence r"
    by (cases "validateReserve e q") (auto simp: prepareReserve_def)
  then show "NormalizeEpochFence (er_fence q) = Inr f" "ee_id x = effect_id e (ee_identity x)"
    "ee_identity x = trim_identity (er_identity q)" "ee_request_digest x = er_request_digest q"
    "ee_state x = ExternalEffectPending" "external_effects_check x"
    by (auto simp: validateReserve_def Let_def reserved_effect_def external_effects_check_def
        dest: normalized_fence(4) split: sum.splits)
qed

interpretation reserve: validated_create ReserveExternalEffect prepareReserve er_fence snd reserve_body
  external_effects ee_id ee_id
proof
  fix e q c d a d'
  show "ReserveExternalEffect e q d =
      validated (prepareReserve e q) (\<lambda>c. fenced_tx e (snd c) (reserve_body c)) d"
    by (simp add: ReserveExternalEffect_def)
  show "reserve_body c d = ReturnTx a \<Longrightarrow> find_row ee_id (ee_id a) (external_effects d) \<noteq> None"
    by (auto simp: reserve_body_def getExternalEffect_def Let_def split: option.splits if_splits
        dest: find_row_self)
  show "prepareReserve e q = Inr c \<Longrightarrow> NormalizeEpochFence (er_fence q) = Inr (snd c)"
    by (cases c) (auto dest: prepared_reserve)
  assume "reserve_body c d = Commit a d'"
  then have ins: "sql_insert external_effects_check external_effect_clash (fst c) (external_effects d) =
      Some (external_effects d')" "a = fst c" "d' = d\<lparr>external_effects := external_effects d'\<rparr>"
    by (auto simp: reserve_body_def Let_def split: option.splits if_splits)
  then obtain t where "d' = d\<lparr>external_effects := t\<rparr>" by blast
  then show "controller_epochs d' = controller_epochs d" by simp
  show "\<exists>r. find_row ee_id (ee_id r) (external_effects d) = None \<and>
      external_effects d' = external_effects d @ [r] \<and> ee_id r = ee_id a"
    using effects.insert_fresh [OF ins(1)] ins(1,2) by (auto simp: sql_insert_def split: if_splits)
  assume "db_ok d"
  then have "db_ok (d\<lparr>external_effects := external_effects d'\<rparr>)"
    using db_ok_set_table(5) effects.insert_ok [OF db_ok_tables(9) ins(1)] by blast
  with ins(3) show "db_ok d'" by simp
qed

section \<open>Properties\<close>

text \<open>
  While the lease of an effect in flight has not expired at the time of the request, no other
  owner can take the effect over.
\<close>

theorem effect_lease_exclusive:
  assumes ok: "db_ok d" and x: "find_row ee_id (TrimSpace (et_id q)) (external_effects d) = Some x"
    and lease: "ee_state x = ExternalEffectInFlight" "ee_lease_expires_at x = Some t"
      "NormalizeControlTime e (et_updated_at q) < t"
    and other: "et_new_state q = ExternalEffectInFlight" "TrimSpace (et_lease_owner q) \<noteq> ee_lease_owner x"
  shows "\<exists>err. TransitionExternalEffect e q d = (Inl err, d)"
proof (cases "fst (TransitionExternalEffect e q d)")
  case (Inl err)
  then show ?thesis using effect.failure [of e q d err] by (cases "TransitionExternalEffect e q d") auto
next
  case (Inr a)
  then obtain d' where "TransitionExternalEffect e q d = (Inr a, d')" by (cases "TransitionExternalEffect e q d") auto
  then obtain c where c: "validateEffectTransition e q = Inr c"
    "effect_body c d = ReturnTx a \<and> d' = d \<or> effect_body c d = Commit a d'" by (rule effect.success)
  note v = validated_effect [OF c(1)]
  from c(2) have False
  proof
    assume "effect_body c d = ReturnTx a \<and> d' = d"
    with v x other show False by (auto simp: effect_body_def split: if_splits)
  next
    assume "effect_body c d = Commit a d'"
    then show False by (rule effect_commit [OF ok]) (use v x lease other in \<open>auto simp: lease_live_def\<close>)
  qed
  then show ?thesis ..
qed

end
