(* ===== verification/Control_Evolution.thy ===== *)
theory Control_Evolution
  imports Prompt_Reclamation Publication_Store External_Effect_Store
begin

text \<open>
  What a record may become.  For each kind of record, a preorder on rows states what every operation
  preserves: identities are immutable, versions and generations do not decrease, states only move
  along the transition tables, receipts once written stay, final states are final.  The locale
  \<open>evolution\<close> lifts such a preorder to tables; \<open>Control_Runs\<close> collects the tables and shows that every
  operation of the store respects it.
\<close>

section \<open>Evolution of tables\<close>

locale evolution =
  fixes R :: "'r \<Rightarrow> 'r \<Rightarrow> bool"
  assumes row_refl: "R r r"
    and row_trans: "R r s \<Longrightarrow> R s t \<Longrightarrow> R r t"
begin

definition rows_evolve :: "'r list \<Rightarrow> 'r list \<Rightarrow> bool" where
  "rows_evolve t t' \<longleftrightarrow> (\<forall>r \<in> set t. \<exists>r' \<in> set t'. R r r')"

lemma rows_refl: "rows_evolve t t"
  by (auto simp: rows_evolve_def intro: row_refl)

lemma rows_trans: "rows_evolve t t' \<Longrightarrow> rows_evolve t' t'' \<Longrightarrow> rows_evolve t t''"
  unfolding rows_evolve_def by (meson row_trans)

lemma rows_insert: "sql_insert chk clash r t = Some t' \<Longrightarrow> rows_evolve t t'"
  by (auto simp: rows_evolve_def sql_insert_def split: if_splits intro: row_refl)

lemma rows_map: "(\<And>r. r \<in> set t \<Longrightarrow> R r (f r)) \<Longrightarrow> rows_evolve t (map f t)"
  by (auto simp: rows_evolve_def)

text \<open>One row replaced by another that continues it.\<close>

lemma rows_put:
  assumes "\<And>x. x \<in> set t \<Longrightarrow> pk x = k \<Longrightarrow> x = r" "R r r'"
  shows "rows_evolve t (put_row pk k r' t)"
  unfolding put_row_def by (rule rows_map) (use assms in \<open>auto intro: row_refl\<close>)

lemma rowsD: "rows_evolve t t' \<Longrightarrow> r \<in> set t \<Longrightarrow> \<exists>r' \<in> set t'. R r r'"
  by (simp add: rows_evolve_def)

end

text \<open>In a table that satisfies its schema, the row with a key is unique.\<close>

context keyed_table
begin

lemma only_row: "table_ok t \<Longrightarrow> find_row pk k t = Some r \<Longrightarrow> x \<in> set t \<Longrightarrow> pk x = k \<Longrightarrow> x = r"
  using find_row_eq by fastforce

end

section \<open>Prompt attempts\<close>

text \<open>
  An execution moves along its transition table, or back to \<open>Reserved\<close> from a state in which the
  prompt is not known to be accepted.
\<close>

definition exec_step :: "PromptExecutionState \<Rightarrow> PromptExecutionState \<Rightarrow> bool" where
  "exec_step s s' \<longleftrightarrow> s' \<in> set (promptExecutionTransitions s) \<or>
     s' = PromptExecutionReserved \<and> s \<in> {PromptExecutionReserved, PromptExecutionSessionStarting,
       PromptExecutionPlanned, PromptExecutionSubmitting}"

definition delivery_step :: "PromptDeliveryState \<Rightarrow> PromptDeliveryState \<Rightarrow> bool" where
  "delivery_step s s' \<longleftrightarrow> s' \<in> set (promptDeliveryTransitions s)"

text \<open>States in which the prompt may still be sent to the runtime.\<close>

definition before_submission :: "PromptExecutionState \<Rightarrow> bool" where
  "before_submission s \<longleftrightarrow> s \<in> {PromptExecutionQueued, PromptExecutionReserved, PromptExecutionSessionStarting,
     PromptExecutionPlanned, PromptExecutionSubmitting}"

definition attempt_evolves :: "PromptAttempt \<Rightarrow> PromptAttempt \<Rightarrow> bool" where
  "attempt_evolves a a' \<longleftrightarrow>
     pa_id a' = pa_id a \<and> pa_key a' = pa_key a \<and> pa_request_digest a' = pa_request_digest a \<and>
     (a' = a \<or> pa_version a < pa_version a') \<and>
     exec_step\<^sup>*\<^sup>* (pa_execution_state a) (pa_execution_state a') \<and>
     delivery_step\<^sup>*\<^sup>* (pa_delivery_state a) (pa_delivery_state a')"

interpretation attempt_ev: evolution attempt_evolves
  by unfold_locales (auto simp: attempt_evolves_def)

lemma exec_step_final:
  "exec_step s s' \<Longrightarrow> IsTerminalPromptExecutionState s \<Longrightarrow> False"
  by (cases s) (auto simp: exec_step_def IsTerminalPromptExecutionState_def)

lemma exec_reach_final:
  "exec_step\<^sup>*\<^sup>* s s' \<Longrightarrow> IsTerminalPromptExecutionState s \<Longrightarrow> s' = s"
  by (induction rule: converse_rtranclp_induct) (auto dest: exec_step_final)

lemma exec_step_past: "exec_step s s' \<Longrightarrow> \<not> before_submission s \<Longrightarrow> \<not> before_submission s'"
  by (cases s) (auto simp: exec_step_def before_submission_def)

lemma exec_reach_past: "exec_step\<^sup>*\<^sup>* s s' \<Longrightarrow> \<not> before_submission s \<Longrightarrow> \<not> before_submission s'"
  by (induction rule: rtranclp_induct) (auto dest: exec_step_past)

lemma delivery_step_final:
  "delivery_step s s' \<Longrightarrow> IsTerminalPromptDeliveryState s \<Longrightarrow> s = PromptDeliveryNotRequested"
  by (cases s) (auto simp: delivery_step_def IsTerminalPromptDeliveryState_def)

lemma delivery_reach_final:
  "delivery_step\<^sup>*\<^sup>* s s' \<Longrightarrow> IsTerminalPromptDeliveryState s \<Longrightarrow> s \<noteq> PromptDeliveryNotRequested \<Longrightarrow> s' = s"
  by (induction rule: converse_rtranclp_induct) (auto dest: delivery_step_final)

lemma attempt_results_digest [simp]:
  "pa_request_digest (execution_result q a) = pa_request_digest a"
  "pa_request_digest (delivery_result q' a) = pa_request_digest a"
  "pa_request_digest (recover_result q'' a) = pa_request_digest a"
  "pa_request_digest (settle_set e f i a) = pa_request_digest a"
  by (simp_all add: execution_result_def delivery_result_def recover_result_def settle_set_def Let_def)

lemma execution_evolves:
  "xt_new_state q \<in> set (promptExecutionTransitions (pa_execution_state a)) \<Longrightarrow>
   attempt_evolves a (execution_result q a)"
  by (auto simp: attempt_evolves_def exec_step_def)

lemma delivery_evolves:
  "dt_new_state q \<in> set (promptDeliveryTransitions (pa_delivery_state a)) \<Longrightarrow>
   attempt_evolves a (delivery_result q a)"
  by (auto simp: attempt_evolves_def delivery_step_def)

lemma recovery_evolves:
  "pa_execution_state a \<in> {PromptExecutionReserved, PromptExecutionSessionStarting, PromptExecutionPlanned,
     PromptExecutionSubmitting} \<Longrightarrow> attempt_evolves a (recover_result q a)"
  by (auto simp: attempt_evolves_def exec_step_def)

lemma settled_evolves: "settled_rel e f a a' \<Longrightarrow> attempt_evolves a a'"
  by (auto simp: settled_rel_def attempt_evolves_def exec_step_def)

text \<open>The Tasks whose attempts have been reclaimed.\<close>

definition reclaimed :: "string \<Rightarrow> string \<Rightarrow> db \<Rightarrow> bool" where
  "reclaimed ns task d \<longleftrightarrow> find_row reclamation_pk (ns, task) (prompt_attempt_reclamations d) \<noteq> None"

text \<open>A Task that is marked reclaimed and has no attempts.\<close>

definition task_gone :: "string \<Rightarrow> string \<Rightarrow> db \<Rightarrow> bool" where
  "task_gone ns task d \<longleftrightarrow> reclaimed ns task d \<and> \<not> list_ex (task_attempt ns task) (prompt_attempts d)"

text \<open>
  The attempts of a database and of a later one: an attempt continues or its Task is gone, a
  reclaimed Task stays so, and no attempt appears for a Task that had been reclaimed.
\<close>

definition attempts_evolve :: "db \<Rightarrow> db \<Rightarrow> bool" where
  "attempts_evolve d d' \<longleftrightarrow>
     (\<forall>ns task. reclaimed ns task d \<longrightarrow> reclaimed ns task d') \<and>
     (\<forall>a \<in> set (prompt_attempts d).
        (\<exists>a' \<in> set (prompt_attempts d'). attempt_evolves a a') \<or>
        task_gone (pak_namespace (pa_key a)) (pak_task_uid (pa_key a)) d') \<and>
     (\<forall>a' \<in> set (prompt_attempts d').
        (\<exists>a \<in> set (prompt_attempts d). pa_key a = pa_key a') \<or>
        \<not> reclaimed (pak_namespace (pa_key a')) (pak_task_uid (pa_key a')) d)"

lemma attempts_evolve_refl: "attempts_evolve d d"
  by (auto simp: attempts_evolve_def intro: attempt_ev.row_refl)

lemma attempts_evolveD:
  assumes "attempts_evolve d d'"
  shows "reclaimed ns task d \<Longrightarrow> reclaimed ns task d'"
    "a \<in> set (prompt_attempts d) \<Longrightarrow> (\<exists>a' \<in> set (prompt_attempts d'). attempt_evolves a a') \<or>
        task_gone (pak_namespace (pa_key a)) (pak_task_uid (pa_key a)) d'"
    "a' \<in> set (prompt_attempts d') \<Longrightarrow> (\<exists>a \<in> set (prompt_attempts d). pa_key a = pa_key a') \<or>
        \<not> reclaimed (pak_namespace (pa_key a')) (pak_task_uid (pa_key a')) d"
  using assms by (simp_all add: attempts_evolve_def)

lemma attempts_evolve_gone:
  assumes ev: "attempts_evolve d d'" and gone: "task_gone ns task d"
  shows "task_gone ns task d'"
proof -
  have "\<not> task_attempt ns task a'" if a': "a' \<in> set (prompt_attempts d')" for a'
  proof
    assume t: "task_attempt ns task a'"
    with gone attempts_evolveD(3) [OF ev a'] obtain a where "a \<in> set (prompt_attempts d)" "pa_key a = pa_key a'"
      by (auto simp: task_gone_def task_attempt_def)
    with t gone show False by (auto simp: task_gone_def task_attempt_def list_ex_iff)
  qed
  with gone attempts_evolveD(1) [OF ev] show ?thesis by (auto simp: task_gone_def list_ex_iff)
qed

lemma attempts_evolve_trans:
  assumes "attempts_evolve d d'" "attempts_evolve d' d''"
  shows "attempts_evolve d d''"
  unfolding attempts_evolve_def
proof (intro conjI ballI allI impI)
  note first = attempts_evolveD [OF assms(1)] and later = attempts_evolveD [OF assms(2)]
  show "reclaimed ns task d \<Longrightarrow> reclaimed ns task d''" for ns task using first(1) later(1) by blast
  fix a
  show "(\<exists>a' \<in> set (prompt_attempts d''). attempt_evolves a a') \<or>
      task_gone (pak_namespace (pa_key a)) (pak_task_uid (pa_key a)) d''" if "a \<in> set (prompt_attempts d)"
    using first(2) [OF that]
  proof
    assume "\<exists>a' \<in> set (prompt_attempts d'). attempt_evolves a a'"
    then obtain a' where a': "a' \<in> set (prompt_attempts d')" "attempt_evolves a a'" by blast
    then have key: "pa_key a' = pa_key a" by (simp add: attempt_evolves_def)
    from later(2) [OF a'(1)] show ?thesis
      unfolding key using a'(2) by (blast intro: attempt_ev.row_trans)
  qed (blast intro: attempts_evolve_gone [OF assms(2)])
  show "(\<exists>b \<in> set (prompt_attempts d). pa_key b = pa_key a) \<or>
      \<not> reclaimed (pak_namespace (pa_key a)) (pak_task_uid (pa_key a)) d" if "a \<in> set (prompt_attempts d'')"
    using later(3) [OF that]
  proof
    assume "\<exists>b \<in> set (prompt_attempts d'). pa_key b = pa_key a"
    then obtain b where b: "b \<in> set (prompt_attempts d')" "pa_key b = pa_key a" by blast
    from first(3) [OF b(1)] show ?thesis unfolding b(2) .
  qed (blast intro: first(1))
qed

lemma attempts_evolve_rows:
  assumes "attempt_ev.rows_evolve (prompt_attempts d) t"
    "\<And>a'. a' \<in> set t \<Longrightarrow> (\<exists>a \<in> set (prompt_attempts d). pa_key a = pa_key a') \<or>
      \<not> reclaimed (pak_namespace (pa_key a')) (pak_task_uid (pa_key a')) d"
  shows "attempts_evolve d (d\<lparr>prompt_attempts := t\<rparr>)"
  using assms by (auto simp: attempts_evolve_def reclaimed_def dest: attempt_ev.rowsD)

text \<open>Keys are unique, so an attempt with the key of an earlier one continues it.\<close>

lemma attempt_continues:
  assumes "attempts_evolve d d'" "attempts.table_ok (prompt_attempts d')" "a \<in> set (prompt_attempts d)"
    "a' \<in> set (prompt_attempts d')" "pa_key a' = pa_key a"
  shows "attempt_evolves a a'"
  using attempts_evolveD(2) [OF assms(1,3)]
proof
  assume "\<exists>b \<in> set (prompt_attempts d'). attempt_evolves a b"
  then obtain b where b: "b \<in> set (prompt_attempts d')" "attempt_evolves a b" by blast
  then have "attempt_clash b a'" using assms(5) by (simp add: attempt_evolves_def attempt_clash_def)
  with attempts.row_unique [OF assms(2) b(1) assms(4)] b(2) show ?thesis by simp
next
  assume "task_gone (pak_namespace (pa_key a)) (pak_task_uid (pa_key a)) d'"
  with assms(4,5) show ?thesis by (auto simp: task_gone_def task_attempt_def list_ex_iff)
qed

section \<open>Publications\<close>

definition publication_step :: "PublicationState \<Rightarrow> PublicationState \<Rightarrow> bool" where
  "publication_step s s' \<longleftrightarrow> s' \<in> set (publicationTransitions s)"

text \<open>A receipt, once written, stays.\<close>

definition keeps_value :: "'a option \<Rightarrow> 'a option \<Rightarrow> bool" where
  "keeps_value x y \<longleftrightarrow> x = None \<or> y = x"

lemma keeps_value_refl [simp]: "keeps_value x x"
  by (simp add: keeps_value_def)

definition publication_evolves :: "Publication \<Rightarrow> Publication \<Rightarrow> bool" where
  "publication_evolves p p' \<longleftrightarrow>
     SamePublicationCreation p' p \<and>
     (p' = p \<or> pb_version p < pb_version p') \<and>
     publication_step\<^sup>*\<^sup>* (pb_state p) (pb_state p') \<and>
     keeps_value (pb_prepared_receipt p) (pb_prepared_receipt p') \<and>
     keeps_value (pb_publish_receipt p) (pb_publish_receipt p') \<and>
     keeps_value (pb_verification_receipt p) (pb_verification_receipt p') \<and>
     keeps_value (pb_pull_request_receipt p) (pb_pull_request_receipt p')"

lemma keeps_value_trans: "keeps_value x y \<Longrightarrow> keeps_value y z \<Longrightarrow> keeps_value x z"
  by (auto simp: keeps_value_def)

lemma same_publication_trans:
  "SamePublicationCreation b a \<Longrightarrow> SamePublicationCreation c b \<Longrightarrow> SamePublicationCreation c a"
  by (auto simp: SamePublicationCreation_def)

interpretation publication_ev: evolution publication_evolves
proof
  fix r s t
  show "publication_evolves r r" by (simp add: publication_evolves_def SamePublicationCreation_def)
  assume "publication_evolves r s" "publication_evolves s t"
  then show "publication_evolves r t"
    unfolding publication_evolves_def
    by (auto intro: same_publication_trans keeps_value_trans)
qed

lemma publication_step_final: "publication_step s s' \<Longrightarrow> \<not> IsTerminalPublicationState s"
  by (cases s) (auto simp: publication_step_def IsTerminalPublicationState_def)

lemma publication_reach_final:
  "publication_step\<^sup>*\<^sup>* s s' \<Longrightarrow> IsTerminalPublicationState s \<Longrightarrow> s' = s"
  by (induction rule: converse_rtranclp_induct) (auto dest: publication_step_final)

text \<open>A transition writes a receipt only where there is none: what \<open>receipts_ok\<close> says of its source state.\<close>

lemma receipts_written_once:
  assumes v: "ValidatePublicationTransitionReceipts p q = None" and ok: "receipts_ok p"
    and src: "pb_state p = pt_expected_state q"
    and tr: "pt_new_state q \<in> set (publicationTransitions (pt_expected_state q))"
  shows "keeps_value (pb_prepared_receipt p) (pt_prepared q p)"
    "keeps_value (pb_publish_receipt p) (pt_publish q p)"
    "keeps_value (pb_verification_receipt p) (pt_verification q p)"
proof -
  have err: "transition_receipt_error p q = None"
    using v by (simp add: ValidatePublicationTransitionReceipts_def)
  have state: "pb_state p \<in> {PublicationPreparing, PublicationPrepared, PublicationPublishing, PublicationVerifying}"
    using tr unfolding src [symmetric] by (cases "pb_state p") auto
  have "pt_prepared_receipt q \<noteq> None \<Longrightarrow> pt_new_state q = PublicationPrepared"
    using err by (cases "pt_new_state q")
      (auto simp: transition_receipt_error_def only_prepared_def only_publish_def only_verification_def
        no_receipts_def split: option.splits if_splits)
  then have "pt_prepared_receipt q \<noteq> None \<Longrightarrow> pb_state p = PublicationPreparing"
    using publication_predecessor(1) tr src by metis
  then show "keeps_value (pb_prepared_receipt p) (pt_prepared q p)"
    using ok by (auto simp: keeps_value_def pt_prepared_def receipts_ok_def)
  have "pt_publish_receipt q \<noteq> None \<Longrightarrow> pt_new_state q = PublicationVerifying"
    using err by (cases "pt_new_state q")
      (auto simp: transition_receipt_error_def only_prepared_def only_publish_def only_verification_def
        no_receipts_def split: option.splits if_splits)
  then have "pt_publish_receipt q \<noteq> None \<Longrightarrow> pb_state p = PublicationPublishing"
    using publication_predecessor(4) tr src by metis
  then show "keeps_value (pb_publish_receipt p) (pt_publish q p)"
    using ok by (auto simp: keeps_value_def pt_publish_def receipts_ok_def)
  show "keeps_value (pb_verification_receipt p) (pt_verification q p)"
    using ok state by (auto simp: keeps_value_def pt_verification_def receipts_ok_def)
qed

lemma transition_evolves:
  assumes "ValidatePublicationTransitionReceipts p q = None" "receipts_ok p" "pb_state p = pt_expected_state q"
    "pt_new_state q \<in> set (publicationTransitions (pt_expected_state q))"
  shows "publication_evolves p (publication_result q p)"
  using receipts_written_once [OF assms] assms(3,4)
  by (auto simp: publication_evolves_def SamePublicationCreation_def publication_result_def publication_step_def)

lemma pr_intent_evolves: "pb_pr_intent p = None \<Longrightarrow> publication_evolves p (pr_intent_set q p)"
  by (auto simp: publication_evolves_def SamePublicationCreation_def pr_intent_set_def)

lemma pr_receipt_evolves:
  "pb_pull_request_receipt p = None \<Longrightarrow> publication_evolves p (pr_receipt_set q p)"
  by (auto simp: publication_evolves_def SamePublicationCreation_def pr_receipt_set_def keeps_value_def)

section \<open>External effects\<close>

definition effect_final :: "ExternalEffectState \<Rightarrow> bool" where
  "effect_final s \<longleftrightarrow> s \<in> {ExternalEffectSucceeded, ExternalEffectFailed, ExternalEffectOutcomeUnknown}"

definition effect_evolves :: "ExternalEffect \<Rightarrow> ExternalEffect \<Rightarrow> bool" where
  "effect_evolves x x' \<longleftrightarrow>
     ee_id x' = ee_id x \<and> ee_identity x' = ee_identity x \<and> ee_request_digest x' = ee_request_digest x \<and>
     (x' = x \<or> ee_version x < ee_version x' \<and> \<not> effect_final (ee_state x))"

interpretation effect_ev: evolution effect_evolves
  by unfold_locales (auto simp: effect_evolves_def)

lemma effect_transition_evolves:
  "ValidExternalEffectTransition (ee_state x) (et_new_state q) \<Longrightarrow> effect_evolves x (effect_result q x)"
  by (cases "ee_state x") (auto simp: effect_evolves_def effect_final_def ValidExternalEffectTransition_def)

section \<open>Outbox projections\<close>

definition outbox_final :: "OutboxProjectionState \<Rightarrow> bool" where
  "outbox_final s \<longleftrightarrow> s \<in> {OutboxProjectionDelivered, OutboxProjectionDeadLetter}"

definition outbox_evolves :: "OutboxProjection \<Rightarrow> OutboxProjection \<Rightarrow> bool" where
  "outbox_evolves p p' \<longleftrightarrow>
     ob_id p' = ob_id p \<and> ob_aggregate_kind p' = ob_aggregate_kind p \<and> ob_aggregate_id p' = ob_aggregate_id p \<and>
     ob_projection_kind p' = ob_projection_kind p \<and> ob_payload p' = ob_payload p \<and>
     ob_payload_digest p' = ob_payload_digest p \<and> ob_attempts p \<le> ob_attempts p' \<and>
     (p' = p \<or> ob_version p < ob_version p' \<and> \<not> outbox_final (ob_state p))"

interpretation outbox_ev: evolution outbox_evolves
  by unfold_locales (auto simp: outbox_evolves_def)

lemma claim_evolves: "outbox_due now p \<Longrightarrow> outbox_evolves p (claim_result q p)"
  by (auto simp: outbox_evolves_def claim_result_def outbox_due_def outbox_final_def)

lemma completion_evolves:
  "ob_state p = OutboxProjectionDelivering \<Longrightarrow> outbox_evolves p (complete_result q p)"
  by (auto simp: outbox_evolves_def complete_result_def outbox_final_def)

section \<open>Session controls\<close>

text \<open>
  Two leases with the same generation are the same lease, so a generation number identifies its
  holder for ever.
\<close>

definition same_lease_generation :: "SessionControlRow \<Rightarrow> SessionControlRow \<Rightarrow> bool" where
  "same_lease_generation r r' \<longleftrightarrow>
     scr_lease_generation r' = scr_lease_generation r \<longrightarrow> scan_lease r' = None \<or> scan_lease r' = scan_lease r"

definition control_evolves :: "SessionControlRow \<Rightarrow> SessionControlRow \<Rightarrow> bool" where
  "control_evolves r r' \<longleftrightarrow>
     session_control_pk r' = session_control_pk r \<and> scr_session_uid r' = scr_session_uid r \<and>
     scr_request_digest r' = scr_request_digest r \<and>
     (r' = r \<or> scr_version r < scr_version r') \<and>
     scr_lease_generation r \<le> scr_lease_generation r' \<and>
     scr_runtime_session_generation r \<le> scr_runtime_session_generation r' \<and>
     same_lease_generation r r'"

interpretation control_ev: evolution control_evolves
proof
  fix r s t
  show "control_evolves r r" by (simp add: control_evolves_def same_lease_generation_def)
  assume "control_evolves r s" "control_evolves s t"
  then show "control_evolves r t"
    by (auto simp: control_evolves_def same_lease_generation_def)
qed

lemma acquire_evolves: "control_evolves r (acquire_set q (scr_lease_generation r + 1) r)"
  by (simp add: control_evolves_def same_lease_generation_def acquire_set_def session_control_pk_def)

lemma generation_evolves:
  "scr_runtime_session_generation r < cg_generation q \<Longrightarrow> control_evolves r (generation_set q r)"
  by (simp add: control_evolves_def same_lease_generation_def generation_set_def session_control_pk_def scan_lease_def)

lemma release_evolves: "control_evolves r (release_set q r)"
  by (simp add: control_evolves_def same_lease_generation_def release_set_def session_control_pk_def scan_lease_def)

lemma reconcile_evolves: "control_evolves r (reconcile_set q r)"
  by (simp add: control_evolves_def same_lease_generation_def reconcile_set_def session_control_pk_def scan_lease_def)

section \<open>Branch claims\<close>

definition claim_kept :: "BranchClaim \<Rightarrow> BranchClaim \<Rightarrow> bool" where
  "claim_kept c c' \<longleftrightarrow>
     bc_id c' = bc_id c \<and> bc_repository_id c' = bc_repository_id c \<and> bc_ref c' = bc_ref c \<and>
     bc_owner_kind c' = bc_owner_kind c \<and> bc_owner_uid c' = bc_owner_uid c \<and>
     bc_request_digest c' = bc_request_digest c \<and>
     (c' = c \<or> bc_version c < bc_version c') \<and> bc_generation c \<le> bc_generation c'"

interpretation claim_ev: evolution claim_kept
  by unfold_locales (auto simp: claim_kept_def)

lemma cas_claim_evolves:
  "bx_new_generation q = bc_generation c \<or> bx_new_generation q = bc_generation c + 1 \<Longrightarrow>
   claim_kept c (cas_claim_result q c)"
  by (auto simp: claim_kept_def)

lemma reconcile_claim_evolves: "claim_kept c (reconcile_claim_set q c)"
  by (simp add: claim_kept_def reconcile_claim_set_def)

end
