(* ===== verification/Control_Runs.thy ===== *)
theory Control_Runs
  imports Control_Evolution
begin

text \<open>
  Histories of the store.  \<open>control_op\<close> has one constructor per mutating operation of the store with
  its request; \<open>apply_op\<close> runs it, and \<open>run_ops\<close> a sequence of them, each in an environment of its own
  (clock, faults).  Calls are sequential, as SQLite's write lock makes the transactions.  The lemmas
  lift what the operations guarantee to histories: the schema and the receipt invariant are kept, the
  epoch moves forward, every record evolves along its preorder.
\<close>

section \<open>Operations\<close>

datatype control_op =
    OpCompareAndSwapControllerEpoch ControllerEpochCAS
  | OpSyncControllerEpochMirror ControllerEpoch
  | OpAdvanceControllerEpoch AdvanceControllerEpochRequest
  | OpCreateBranchClaim "BranchClaim option" ControllerEpochFence
  | OpCompareAndSwapBranchClaim BranchClaimCAS
  | OpReclaimBranchClaim ReclaimBranchClaimRequest
  | OpCreatePromptAttempt "PromptAttempt option" ControllerEpochFence
  | OpRecoverPromptAttempt PromptAttemptPreSubmissionRecovery
  | OpTransitionExecution PromptAttemptExecutionTransition
  | OpTransitionDelivery PromptAttemptDeliveryTransition
  | OpPrepareReclamation ReclaimPromptAttemptsRequest
  | OpReclaimPromptAttempts ReclaimPromptAttemptsRequest
  | OpCreateSessionControl "SessionControl option" ControllerEpochFence
  | OpAcquireLease AcquireSessionMutationLeaseRequest
  | OpCommitRuntimeGeneration CommitSessionRuntimeGenerationRequest
  | OpReleaseLease ReleaseSessionMutationLeaseRequest
  | OpReconcileSession ReconcileSessionControlRequest
  | OpCreateSessionTurn CreateSessionTurnRequest
  | OpCreatePublication "Publication option" ControllerEpochFence
  | OpSetPRIntent SetPublicationPRIntentRequest
  | OpSetPRReceipt SetPublicationPRReceiptRequest
  | OpTransitionPublication PublicationTransition
  | OpReserveEffect ReserveExternalEffectRequest
  | OpTransitionEffect ExternalEffectTransition
  | OpEnqueueOutbox "OutboxProjection option" ControllerEpochFence
  | OpClaimOutbox ClaimOutboxProjectionsRequest
  | OpCompleteOutbox CompleteOutboxProjectionRequest

text \<open>The error of a call, and the database after it.\<close>

definition outcome :: "(store_error + 'a) \<times> db \<Rightarrow> store_error option \<times> db" where
  "outcome r = ((case fst r of Inl x \<Rightarrow> Some x | Inr _ \<Rightarrow> None), snd r)"

fun apply_op :: "env \<Rightarrow> control_op \<Rightarrow> db \<Rightarrow> store_error option \<times> db" where
  "apply_op e (OpCompareAndSwapControllerEpoch q) d = outcome (CompareAndSwapControllerEpoch e q d)"
| "apply_op e (OpSyncControllerEpochMirror q) d = outcome (SyncControllerEpochMirror e q d)"
| "apply_op e (OpAdvanceControllerEpoch q) d = outcome (AdvanceControllerEpoch e q d)"
| "apply_op e (OpCreateBranchClaim c f) d = outcome (CreateBranchClaim e (c, f) d)"
| "apply_op e (OpCompareAndSwapBranchClaim q) d = outcome (CompareAndSwapBranchClaim e q d)"
| "apply_op e (OpReclaimBranchClaim q) d = outcome (ReclaimBranchClaim e q d)"
| "apply_op e (OpCreatePromptAttempt a f) d = outcome (CreatePromptAttempt e (a, f) d)"
| "apply_op e (OpRecoverPromptAttempt q) d = outcome (RecoverPromptAttemptPreSubmission e q d)"
| "apply_op e (OpTransitionExecution q) d = outcome (TransitionPromptAttemptExecution e q d)"
| "apply_op e (OpTransitionDelivery q) d = outcome (TransitionPromptAttemptDelivery e q d)"
| "apply_op e (OpPrepareReclamation q) d = outcome (PreparePromptAttemptReclamation e q d)"
| "apply_op e (OpReclaimPromptAttempts q) d = outcome (ReclaimPromptAttempts e q d)"
| "apply_op e (OpCreateSessionControl c f) d = outcome (CreateSessionControl e (c, f) d)"
| "apply_op e (OpAcquireLease q) d = outcome (AcquireSessionMutationLease e q d)"
| "apply_op e (OpCommitRuntimeGeneration q) d = outcome (CommitSessionRuntimeGeneration e q d)"
| "apply_op e (OpReleaseLease q) d = outcome (ReleaseSessionMutationLease e q d)"
| "apply_op e (OpReconcileSession q) d = outcome (ReconcileSessionControl e q d)"
| "apply_op e (OpCreateSessionTurn q) d = outcome (CreateSessionTurn e q d)"
| "apply_op e (OpCreatePublication p f) d = outcome (CreatePublication e (p, f) d)"
| "apply_op e (OpSetPRIntent q) d = outcome (SetPublicationPRIntent e q d)"
| "apply_op e (OpSetPRReceipt q) d = outcome (SetPublicationPRReceipt e q d)"
| "apply_op e (OpTransitionPublication q) d = outcome (TransitionPublication e q d)"
| "apply_op e (OpReserveEffect q) d = outcome (ReserveExternalEffect e q d)"
| "apply_op e (OpTransitionEffect q) d = outcome (TransitionExternalEffect e q d)"
| "apply_op e (OpEnqueueOutbox p f) d = outcome (EnqueueOutboxProjection e (p, f) d)"
| "apply_op e (OpClaimOutbox q) d = outcome (ClaimOutboxProjections e q d)"
| "apply_op e (OpCompleteOutbox q) d = outcome (CompleteOutboxProjection e q d)"

text \<open>The fence a request carries; the operations on the epoch itself carry none.\<close>

fun op_fence :: "control_op \<Rightarrow> ControllerEpochFence option" where
  "op_fence (OpCompareAndSwapControllerEpoch q) = None"
| "op_fence (OpSyncControllerEpochMirror q) = None"
| "op_fence (OpAdvanceControllerEpoch q) = None"
| "op_fence (OpCreateBranchClaim c f) = Some f"
| "op_fence (OpCompareAndSwapBranchClaim q) = Some (bx_fence q)"
| "op_fence (OpReclaimBranchClaim q) = Some (br_fence q)"
| "op_fence (OpCreatePromptAttempt a f) = Some f"
| "op_fence (OpRecoverPromptAttempt q) = Some (pr_fence q)"
| "op_fence (OpTransitionExecution q) = Some (xt_fence q)"
| "op_fence (OpTransitionDelivery q) = Some (dt_fence q)"
| "op_fence (OpPrepareReclamation q) = Some (rp_fence q)"
| "op_fence (OpReclaimPromptAttempts q) = Some (rp_fence q)"
| "op_fence (OpCreateSessionControl c f) = Some f"
| "op_fence (OpAcquireLease q) = Some (aq_fence q)"
| "op_fence (OpCommitRuntimeGeneration q) = Some (cg_fence q)"
| "op_fence (OpReleaseLease q) = Some (rl_fence q)"
| "op_fence (OpReconcileSession q) = Some (rc_fence q)"
| "op_fence (OpCreateSessionTurn q) = Some (ct_fence q)"
| "op_fence (OpCreatePublication p f) = Some f"
| "op_fence (OpSetPRIntent q) = Some (pi_fence q)"
| "op_fence (OpSetPRReceipt q) = Some (pq_fence q)"
| "op_fence (OpTransitionPublication q) = Some (pt_fence q)"
| "op_fence (OpReserveEffect q) = Some (er_fence q)"
| "op_fence (OpTransitionEffect q) = Some (et_fence q)"
| "op_fence (OpEnqueueOutbox p f) = Some f"
| "op_fence (OpClaimOutbox q) = Some (oc_fence q)"
| "op_fence (OpCompleteOutbox q) = Some (od_fence q)"

fun run_ops :: "(env \<times> control_op) list \<Rightarrow> db \<Rightarrow> db" where
  "run_ops [] d = d"
| "run_ops ((e, x) # xs) d = run_ops xs (snd (apply_op e x d))"

text \<open>The states a history can reach from an initial one.\<close>

inductive reachable :: "db \<Rightarrow> db \<Rightarrow> bool" where
  reachable_refl: "reachable d d"
| reachable_step: "reachable d d' \<Longrightarrow> reachable d (snd (apply_op e x d'))"

lemma outcome_simps [simp]:
  "snd (outcome r) = snd r" "fst (outcome r) = None \<longleftrightarrow> (\<exists>a. fst r = Inr a)"
  by (auto simp: outcome_def split: sum.splits)

lemma outcome_pair: "outcome r = (c, d') \<longleftrightarrow> (case fst r of Inl x \<Rightarrow> c = Some x | Inr _ \<Rightarrow> c = None) \<and> d' = snd r"
  by (auto simp: outcome_def split: sum.splits)

lemma run_ops_append: "run_ops (xs @ ys) d = run_ops ys (run_ops xs d)"
  by (induction xs arbitrary: d) auto

lemma reachable_run: "reachable d (run_ops xs d)"
proof (induction xs rule: rev_induct)
  case Nil
  show ?case by (simp add: reachable_refl)
next
  case (snoc x xs)
  then show ?case by (cases x) (auto simp: run_ops_append intro: reachable_step)
qed

lemma run_of_reachable: "reachable d d' \<Longrightarrow> \<exists>xs. d' = run_ops xs d"
proof (induction rule: reachable.induct)
  case (reachable_refl d)
  show ?case by (rule exI [of _ "[]"]) simp
next
  case (reachable_step d d' e x)
  then obtain xs where "d' = run_ops xs d" by blast
  then have "snd (apply_op e x d') = run_ops (xs @ [(e, x)]) d" by (simp add: run_ops_append)
  then show ?case by blast
qed

section \<open>Fencing\<close>

text \<open>Every operation that carries a fence is an instance of the fencing contract.\<close>

lemma stale_outcome:
  assumes "\<exists>x. r = (Inl x, d)"
  shows "\<exists>x. outcome r = (Some x, d)"
  using assms by (auto simp: outcome_def)

lemmas stale_writers =
  create_claim.stale_writer_rejected cas_claim.stale_writer_rejected reclaim_claim.stale_writer_rejected
  create_attempt.stale_writer_rejected recovery.stale_writer_rejected execution.stale_writer_rejected
  delivery.stale_writer_rejected prepare_reclamation.stale_writer_rejected
  reclaim_attempts.stale_writer_rejected create_control.stale_writer_rejected
  acquire.stale_writer_rejected generation.stale_writer_rejected release.stale_writer_rejected
  reconcile.stale_writer_rejected create_turn.stale_writer_rejected create_publication.stale_writer_rejected
  pr_intent.stale_writer_rejected pr_receipt.stale_writer_rejected publication.stale_writer_rejected
  reserve.stale_writer_rejected effect.stale_writer_rejected enqueue.stale_writer_rejected
  claim.stale_writer_rejected complete.stale_writer_rejected

lemma stale_op_rejected:
  assumes "op_fence x = Some f" "current_epoch d \<noteq> Some (fence_epoch f)"
  shows "\<exists>err. apply_op e x d = (Some err, d)"
  using assms by (cases x) (auto intro!: stale_outcome stale_writers)

lemmas unchanged_epochs =
  create_claim.epoch_unchanged cas_claim.epoch_unchanged reclaim_claim.epoch_unchanged
  create_attempt.epoch_unchanged recovery.epoch_unchanged execution.epoch_unchanged
  delivery.epoch_unchanged prepare_reclamation.epoch_unchanged reclaim_attempts.epoch_unchanged
  create_control.epoch_unchanged acquire.epoch_unchanged generation.epoch_unchanged
  release.epoch_unchanged reconcile.epoch_unchanged create_turn.epoch_unchanged
  create_publication.epoch_unchanged pr_intent.epoch_unchanged pr_receipt.epoch_unchanged
  publication.epoch_unchanged reserve.epoch_unchanged effect.epoch_unchanged
  enqueue.epoch_unchanged claim.epoch_unchanged complete.epoch_unchanged

lemma op_epoch_forward:
  "db_ok d \<Longrightarrow> epoch_forward (current_epoch d) (current_epoch (snd (apply_op e x d)))"
  by (cases x) (simp_all add: unchanged_epochs cas_epoch.forward sync_epoch.forward advance_epoch.forward)

lemma create_claim_keeps_ok: "db_ok d \<Longrightarrow> db_ok (snd (CreateBranchClaim e q d))"
  by (rule after_atomic [where d = d]) (auto dest: create_claim.atomic create_claim_ok elim!: create_claim_run)

lemmas keep_schema =
  cas_epoch.keeps_ok sync_epoch.keeps_ok advance_epoch.keeps_ok create_claim_keeps_ok
  cas_claim.keeps_ok reclaim_claim.keeps_ok create_attempt.keeps_ok recovery.keeps_ok execution.keeps_ok
  delivery.keeps_ok prepare_reclamation.keeps_ok reclaim_attempts.keeps_ok create_control.keeps_ok
  acquire.keeps_ok generation.keeps_ok release.keeps_ok reconcile.keeps_ok create_turn.keeps_ok
  create_publication.keeps_ok pr_intent.keeps_ok pr_receipt.keeps_ok publication.keeps_ok
  reserve.keeps_ok effect.keeps_ok enqueue.keeps_ok claim.keeps_ok complete.keeps_ok

lemma op_keeps_ok: "db_ok d \<Longrightarrow> db_ok (snd (apply_op e x d))"
  by (cases x) (simp_all add: keep_schema)

lemma run_keeps_ok: "db_ok d \<Longrightarrow> db_ok (run_ops xs d)"
proof (induction xs arbitrary: d)
  case (Cons x xs)
  then show ?case by (cases x) (auto dest: op_keeps_ok)
qed simp

lemma run_epoch_forward: "db_ok d \<Longrightarrow> epoch_forward (current_epoch d) (current_epoch (run_ops xs d))"
proof (induction xs arbitrary: d)
  case (Cons x xs)
  obtain e y where x: "x = (e, y)" by (cases x)
  note later = Cons.IH [OF op_keeps_ok [OF Cons.prems]]
  from epoch_forward_trans [OF op_epoch_forward [OF Cons.prems] later, of e y] show ?case by (simp add: x)
qed simp

lemmas atomic_ops =
  cas_epoch.epoch_atomic sync_epoch.epoch_atomic advance_epoch.epoch_atomic create_claim.atomic
  cas_claim.atomic reclaim_claim.atomic create_attempt.atomic recovery.atomic execution.atomic
  delivery.atomic prepare_reclamation.atomic reclaim_attempts.atomic create_control.atomic
  acquire.atomic generation.atomic release.atomic reconcile.atomic create_turn.atomic
  create_publication.atomic pr_intent.atomic pr_receipt.atomic publication.atomic
  reserve.atomic effect.atomic enqueue.atomic claim.atomic complete.atomic

lemma outcome_atomic:
  assumes "outcome r = (Some x, d')" "\<And>y d''. r = (Inl y, d'') \<Longrightarrow> d'' = d"
  shows "d' = d"
  using assms by (cases r; cases "fst r") (auto simp: outcome_def)

lemma op_atomic: "apply_op e x d = (Some err, d') \<Longrightarrow> d' = d"
  by (cases x) (auto elim!: outcome_atomic dest: atomic_ops)

section \<open>Records evolve\<close>

text \<open>The invariant of all states: the schema, and receipts that fit the state of their publication.\<close>

definition receipts_inv :: "db \<Rightarrow> bool" where
  "receipts_inv d \<longleftrightarrow> (\<forall>p \<in> set (publications d). receipts_ok p)"

definition records_evolve :: "db \<Rightarrow> db \<Rightarrow> bool" where
  "records_evolve d d' \<longleftrightarrow>
     receipts_inv d' \<and> attempts_evolve d d' \<and>
     publication_ev.rows_evolve (publications d) (publications d') \<and>
     effect_ev.rows_evolve (external_effects d) (external_effects d') \<and>
     outbox_ev.rows_evolve (outbox_projections d) (outbox_projections d') \<and>
     control_ev.rows_evolve (session_controls d) (session_controls d')"

lemmas evolve_refl = publication_ev.rows_refl effect_ev.rows_refl outbox_ev.rows_refl control_ev.rows_refl
lemmas evolve_trans = publication_ev.rows_trans effect_ev.rows_trans outbox_ev.rows_trans control_ev.rows_trans

lemma records_refl: "receipts_inv d \<Longrightarrow> records_evolve d d"
  by (simp add: records_evolve_def evolve_refl attempts_evolve_refl)

lemma records_trans: "records_evolve d d' \<Longrightarrow> records_evolve d' d'' \<Longrightarrow> records_evolve d d''"
  unfolding records_evolve_def by (blast intro: evolve_trans attempts_evolve_trans)

lemma attempts_same:
  "prompt_attempts d' = prompt_attempts d \<Longrightarrow> prompt_attempt_reclamations d' = prompt_attempt_reclamations d \<Longrightarrow>
   attempts_evolve d d'"
  using attempts_evolve_refl [of d] by (simp add: attempts_evolve_def reclaimed_def task_gone_def)

text \<open>An operation that changes one table only has to account for that table.\<close>

lemma records_same:
  "receipts_inv d \<Longrightarrow> prompt_attempts d' = prompt_attempts d \<Longrightarrow>
   prompt_attempt_reclamations d' = prompt_attempt_reclamations d \<Longrightarrow> publications d' = publications d \<Longrightarrow>
   external_effects d' = external_effects d \<Longrightarrow> outbox_projections d' = outbox_projections d \<Longrightarrow>
   session_controls d' = session_controls d \<Longrightarrow> records_evolve d d'"
  by (simp add: records_evolve_def evolve_refl attempts_same receipts_inv_def)

lemma records_attempts:
  assumes "receipts_inv d" "attempt_ev.rows_evolve (prompt_attempts d) t"
    "\<And>a'. a' \<in> set t \<Longrightarrow> (\<exists>a \<in> set (prompt_attempts d). pa_key a = pa_key a') \<or>
      \<not> reclaimed (pak_namespace (pa_key a')) (pak_task_uid (pa_key a')) d"
  shows "records_evolve d (d\<lparr>prompt_attempts := t\<rparr>)"
  using assms attempts_evolve_rows by (simp add: records_evolve_def evolve_refl receipts_inv_def)

lemma records_publications:
  "receipts_inv (d\<lparr>publications := t\<rparr>) \<Longrightarrow> publication_ev.rows_evolve (publications d) t \<Longrightarrow>
   records_evolve d (d\<lparr>publications := t\<rparr>)"
  by (simp add: records_evolve_def evolve_refl attempts_same)

lemma records_effects:
  "receipts_inv d \<Longrightarrow> effect_ev.rows_evolve (external_effects d) t \<Longrightarrow> records_evolve d (d\<lparr>external_effects := t\<rparr>)"
  by (simp add: records_evolve_def evolve_refl attempts_same receipts_inv_def)

lemma records_outbox:
  "receipts_inv d \<Longrightarrow> outbox_ev.rows_evolve (outbox_projections d) t \<Longrightarrow> records_evolve d (d\<lparr>outbox_projections := t\<rparr>)"
  by (simp add: records_evolve_def evolve_refl attempts_same receipts_inv_def)

lemma records_controls:
  assumes "receipts_inv d" "control_ev.rows_evolve (session_controls d) (session_controls d')"
    "prompt_attempts d' = prompt_attempts d" "prompt_attempt_reclamations d' = prompt_attempt_reclamations d"
    "publications d' = publications d" "external_effects d' = external_effects d"
    "outbox_projections d' = outbox_projections d"
  shows "records_evolve d d'"
  using assms by (simp add: records_evolve_def evolve_refl attempts_same receipts_inv_def)

subsection \<open>Prompt attempts\<close>

lemma put_attempt_evolves:
  assumes "db_ok d" "receipts_inv d" "find_row pa_id k (prompt_attempts d) = Some a" "attempt_evolves a a'"
  shows "records_evolve d (d\<lparr>prompt_attempts := put_row pa_id k a' (prompt_attempts d)\<rparr>)"
proof (rule records_attempts [OF assms(2)])
  show "attempt_ev.rows_evolve (prompt_attempts d) (put_row pa_id k a' (prompt_attempts d))"
    using assms by (intro attempt_ev.rows_put [where r = a]) (auto intro: attempts.only_row [OF db_ok_tables(2)])
  have "pa_key a' = pa_key a" using assms(4) by (simp add: attempt_evolves_def)
  then show "(\<exists>b \<in> set (prompt_attempts d). pa_key b = pa_key x) \<or>
      \<not> reclaimed (pak_namespace (pa_key x)) (pak_task_uid (pa_key x)) d"
    if "x \<in> set (put_row pa_id k a' (prompt_attempts d))" for x
    using set_put_row [OF that] find_row_SomeD [OF assms(3)] by metis
qed

lemma execution_records:
  assumes ok: "db_ok d" and inv: "receipts_inv d"
  shows "records_evolve d (snd (TransitionPromptAttemptExecution e q d))"
proof (rule execution.after)
  fix c a d'
  assume n: "validateExecutionTransition e q = Inr c" and body: "execution_body c d = Commit a d'"
  from body show "records_evolve d d'"
    by (rule execution_commit [OF ok])
      (use validated_execution(7) [OF n] in \<open>auto intro!: put_attempt_evolves [OF ok inv] execution_evolves\<close>)
qed (rule records_refl [OF inv])

lemma delivery_records:
  assumes ok: "db_ok d" and inv: "receipts_inv d"
  shows "records_evolve d (snd (TransitionPromptAttemptDelivery e q d))"
proof (rule delivery.after)
  fix c a d'
  assume n: "validateDeliveryTransition e q = Inr c" and body: "delivery_body c d = Commit a d'"
  from body show "records_evolve d d'"
    by (rule delivery_commit [OF ok])
      (use validated_delivery(4) [OF n] in \<open>auto intro!: put_attempt_evolves [OF ok inv] delivery_evolves\<close>)
qed (rule records_refl [OF inv])

lemma recovery_records:
  assumes ok: "db_ok d" and inv: "receipts_inv d"
  shows "records_evolve d (snd (RecoverPromptAttemptPreSubmission e q d))"
proof (rule recovery.after)
  fix c a d'
  assume n: "validateRecovery e q = Inr c" and body: "recover_body c d = Commit a d'"
  from body show "records_evolve d d'"
    by (rule recover_commit [OF ok])
      (use validated_recovery(6) [OF n] in \<open>auto intro!: put_attempt_evolves [OF ok inv] recovery_evolves\<close>)
qed (rule records_refl [OF inv])

lemma create_attempt_records:
  assumes ok: "db_ok d" and inv: "receipts_inv d"
  shows "records_evolve d (snd (CreatePromptAttempt e q d))"
proof (rule create_attempt.after)
  fix c a d'
  assume "create_attempt_body (fst c) d = Commit a d'"
  from create_attempt_commit [OF this] obtain t where
    fresh: "\<not> reclaimed (pak_namespace (pa_key (fst c))) (pak_task_uid (pa_key (fst c))) d" and
    t: "sql_insert prompt_attempts_check attempt_clash (attempt_row (fst c)) (prompt_attempts d) = Some t"
      "d' = d\<lparr>prompt_attempts := t\<rparr>" by (auto simp: reclaimed_def)
  have "(\<exists>b \<in> set (prompt_attempts d). pa_key b = pa_key x) \<or>
      \<not> reclaimed (pak_namespace (pa_key x)) (pak_task_uid (pa_key x)) d" if "x \<in> set t" for x
    using that t(1) fresh by (auto simp: sql_insert_def split: if_splits)
  then show "records_evolve d d'"
    unfolding t(2) by (intro records_attempts [OF inv] attempt_ev.rows_insert [OF t(1)])
qed (rule records_refl [OF inv])

lemma reclamation_records:
  assumes ok: "db_ok d" and inv: "receipts_inv d" and body: "reclamation_body del e q d = Commit n d'"
  shows "records_evolve d d'"
  using body
proof (rule reclamation_commit [OF ok])
  let ?T = "task_attempt (rp_namespace q) (rp_task_uid q)"
  fix t t' tm
  assume d': "d' = d\<lparr>prompt_attempts := t', prompt_attempt_reclamations := tm\<rparr>"
    and settled: "list_all2 (settled_rel e (rp_fence q)) (prompt_attempts d) t"
    and t': "t' = (if del then filter (\<lambda>a. \<not> ?T a) t else t)"
    and marker: "find_row reclamation_pk (rp_namespace q, rp_task_uid q) tm \<noteq> None"
    and kept: "\<And>k r. find_row reclamation_pk k (prompt_attempt_reclamations d) = Some r \<Longrightarrow> find_row reclamation_pk k tm = Some r"
  have gone: "del \<Longrightarrow> task_gone (rp_namespace q) (rp_task_uid q) d'"
    using marker d' t' by (auto simp: task_gone_def reclaimed_def list_ex_iff)
  have "(\<exists>a' \<in> set t'. attempt_evolves a a') \<or>
      del \<and> pak_namespace (pa_key a) = rp_namespace q \<and> pak_task_uid (pa_key a) = rp_task_uid q"
    if "a \<in> set (prompt_attempts d)" for a
  proof -
    from settled that obtain a' where a': "a' \<in> set t" "settled_rel e (rp_fence q) a a'"
      by (metis list_all2_conv_all_nth in_set_conv_nth)
    show ?thesis
    proof (cases "del \<and> ?T a'")
      case True
      with settled_rel_kept [OF a'(2)] show ?thesis by (simp add: task_attempt_def)
    next
      case False
      with a' t' settled_evolves [OF a'(2)] show ?thesis by auto
    qed
  qed
  moreover have "\<exists>a \<in> set (prompt_attempts d). pa_key a = pa_key a'" if "a' \<in> set t'" for a'
  proof -
    have "a' \<in> set t" using that t' by (auto split: if_splits)
    with settled obtain a where "a \<in> set (prompt_attempts d)" "settled_rel e (rp_fence q) a a'"
      by (metis list_all2_conv_all_nth in_set_conv_nth)
    with settled_rel_kept show ?thesis by metis
  qed
  ultimately have "attempts_evolve d d'"
    unfolding attempts_evolve_def using gone kept d' by (fastforce simp: reclaimed_def)
  then show ?thesis using inv d' by (simp add: records_evolve_def evolve_refl receipts_inv_def)
qed

lemma prepare_records: "db_ok d \<Longrightarrow> receipts_inv d \<Longrightarrow> records_evolve d (snd (PreparePromptAttemptReclamation e q d))"
  by (rule prepare_reclamation.after) (auto intro: reclamation_records records_refl)

lemma reclaim_records: "db_ok d \<Longrightarrow> receipts_inv d \<Longrightarrow> records_evolve d (snd (ReclaimPromptAttempts e q d))"
  by (rule reclaim_attempts.after) (auto intro: reclamation_records records_refl)

subsection \<open>Publications\<close>

lemma put_publication_evolves:
  assumes "db_ok d" "receipts_inv d" "find_row pb_id k (publications d) = Some p" "publication_evolves p p'"
    "receipts_ok p'"
  shows "records_evolve d (d\<lparr>publications := put_row pb_id k p' (publications d)\<rparr>)"
  using assms by (intro records_publications publication_ev.rows_put [where r = p])
    (auto simp: receipts_inv_def dest: set_put_row intro: pubs.only_row [OF db_ok_tables(8)])

lemma publication_records:
  assumes ok: "db_ok d" and inv: "receipts_inv d"
  shows "records_evolve d (snd (TransitionPublication e q d))"
proof (rule publication.after)
  fix c a d'
  assume n: "validatePublicationTransitionRequest e q = Inr c" and body: "publication_body c d = Commit a d'"
  note tr = validated_publication(4) [OF n]
  from body obtain p where p: "find_row pb_id (pt_id c) (publications d) = Some p"
    "ValidatePublicationTransitionReceipts p c = None" "pb_state p = pt_expected_state c"
    "d' = d\<lparr>publications := put_row pb_id (pt_id c) (publication_result c p) (publications d)\<rparr>"
    by (rule publication_commit [OF ok]) blast
  have r: "receipts_ok p" using inv find_row_SomeD [OF p(1)] by (simp add: receipts_inv_def)
  show "records_evolve d d'"
    unfolding p(4)
    by (rule put_publication_evolves [OF ok inv p(1) transition_evolves [OF p(2) r p(3) tr] receipts_step [OF p(2) r p(3) tr]])
qed (rule records_refl [OF inv])

lemma pr_sets_receipts [simp]:
  "receipts_ok (pr_intent_set q p) = receipts_ok p" "receipts_ok (pr_receipt_set q' p) = receipts_ok p"
  by (simp_all add: receipts_ok_def prepared_ok_def published_ok_def verified_ok_def pr_intent_set_def
      pr_receipt_set_def split: option.splits)

lemma pr_intent_records:
  assumes ok: "db_ok d" and inv: "receipts_inv d"
  shows "records_evolve d (snd (SetPublicationPRIntent e q d))"
proof (rule pr_intent.after)
  fix c a d'
  assume "pr_intent_body c d = Commit a d'"
  then obtain p where p: "find_row pb_id (pi_id c) (publications d) = Some p" "pb_pr_intent p = None"
    "d' = d\<lparr>publications := put_row pb_id (pi_id c) (pr_intent_set c p) (publications d)\<rparr>"
    by (rule pr_intent_commit [OF ok]) blast
  then show "records_evolve d d'"
    using inv find_row_SomeD [OF p(1)]
    by (auto simp: receipts_inv_def intro!: put_publication_evolves [OF ok inv] pr_intent_evolves)
qed (rule records_refl [OF inv])

lemma pr_receipt_records:
  assumes ok: "db_ok d" and inv: "receipts_inv d"
  shows "records_evolve d (snd (SetPublicationPRReceipt e q d))"
proof (rule pr_receipt.after)
  fix c a d'
  assume "pr_receipt_body c d = Commit a d'"
  then obtain p where p: "find_row pb_id (pq_id c) (publications d) = Some p" "pb_pull_request_receipt p = None"
    "d' = d\<lparr>publications := put_row pb_id (pq_id c) (pr_receipt_set c p) (publications d)\<rparr>"
    by (rule pr_receipt_commit [OF ok]) blast
  then show "records_evolve d d'"
    using inv find_row_SomeD [OF p(1)]
    by (auto simp: receipts_inv_def intro!: put_publication_evolves [OF ok inv] pr_receipt_evolves)
qed (rule records_refl [OF inv])

lemma new_publication_receipts:
  "NormalizePublicationForCreate e q f = Inr (n, f') \<Longrightarrow> receipts_ok (publication_row n)"
  using normalized_publication [of e q f n f'] by (simp add: receipts_ok_def publication_row_def)

lemma create_publication_records:
  assumes ok: "db_ok d" and inv: "receipts_inv d"
  shows "records_evolve d (snd (CreatePublication e q d))"
proof (rule create_publication.after)
  fix c a d'
  assume n: "NormalizePublicationForCreate e (fst q) (snd q) = Inr c" and "create_publication_body (fst c) d = Commit a d'"
  from create_publication_commit [OF this(2)] obtain t where
    t: "sql_insert publications_check publication_clash (publication_row (fst c)) (publications d) = Some t"
      "d' = d\<lparr>publications := t\<rparr>" by blast
  have "receipts_ok (publication_row (fst c))" using n new_publication_receipts by (metis prod.collapse)
  with t inv have "receipts_inv (d\<lparr>publications := t\<rparr>)"
    by (auto simp: receipts_inv_def sql_insert_def split: if_splits)
  with t(2) show "records_evolve d d'"
    using records_publications publication_ev.rows_insert [OF t(1)] by blast
qed (rule records_refl [OF inv])

subsection \<open>Effects and outbox\<close>

lemma effect_records:
  assumes ok: "db_ok d" and inv: "receipts_inv d"
  shows "records_evolve d (snd (TransitionExternalEffect e q d))"
proof (rule effect.after)
  fix c a d'
  assume n: "validateEffectTransition e q = Inr c" and body: "effect_body c d = Commit a d'"
  from body obtain x where x: "find_row ee_id (et_id c) (external_effects d) = Some x"
    "ee_state x = et_expected_state c"
    "d' = d\<lparr>external_effects := put_row ee_id (et_id c) (effect_result c x) (external_effects d)\<rparr>"
    by (rule effect_commit [OF ok]) blast
  with validated_effect(8) [OF n] show "records_evolve d d'"
    by (auto intro!: records_effects [OF inv] effect_ev.rows_put [where r = x] effect_transition_evolves
        intro: effects.only_row [OF db_ok_tables(9) [OF ok]])
qed (rule records_refl [OF inv])

lemma reserve_records:
  assumes ok: "db_ok d" and inv: "receipts_inv d"
  shows "records_evolve d (snd (ReserveExternalEffect e q d))"
  by (rule reserve.after)
    (auto simp: reserve_body_def Let_def split: option.splits if_splits
      intro: records_effects [OF inv] effect_ev.rows_insert records_refl [OF inv])

lemma enqueue_records:
  assumes ok: "db_ok d" and inv: "receipts_inv d"
  shows "records_evolve d (snd (EnqueueOutboxProjection e q d))"
proof (rule enqueue.after)
  fix c a d'
  assume "enqueue_body c d = Commit a d'"
  then have "enqueueOutboxProjectionTx (fst (snd c)) (fst c) d = (Inr a, d')"
    by (auto simp: enqueue_body_def split: prod.splits sum.splits)
  from enqueue_tx_ok [OF this] show "records_evolve d d'"
    by (metis outbox_ev.rows_insert records_outbox [OF inv] records_refl [OF inv])
qed (rule records_refl [OF inv])

lemma claim_records:
  assumes ok: "db_ok d" and inv: "receipts_inv d"
  shows "records_evolve d (snd (ClaimOutboxProjections e q d))"
proof (rule claim.after)
  fix c a d'
  assume n: "validateClaim e q = Inr c" and body: "claim_body c d = Commit a d'"
  let ?D = "due_rows c (outbox_projections d)"
  have "outbox_evolves p (if ob_id p \<in> ob_id ` set ?D then claim_result c p else p)"
    if p: "p \<in> set (outbox_projections d)" for p
  proof (cases "ob_id p \<in> ob_id ` set ?D")
    case True
    then obtain p' where p': "p' \<in> set ?D" "ob_id p' = ob_id p" by auto
    note t = db_ok_tables(10) [OF ok]
    from due_rows_find [OF t p'(1)] p'(2) outbox.find_row_eq [OF t p refl] have "p' = p" by simp
    with True due_rows_due [OF p'(1)] claim_evolves show ?thesis by auto
  qed (simp add: outbox_ev.row_refl)
  then show "records_evolve d d'"
    using body claim_body_run [OF ok validated_claim(6) [OF n]]
    by (auto intro!: records_outbox [OF inv] outbox_ev.rows_map)
qed (rule records_refl [OF inv])

lemma complete_records:
  assumes ok: "db_ok d" and inv: "receipts_inv d"
  shows "records_evolve d (snd (CompleteOutboxProjection e q d))"
proof (rule complete.after)
  fix c a d'
  assume "complete_body c d = Commit a d'"
  then obtain p where p: "find_row ob_id (od_id c) (outbox_projections d) = Some p"
    "ob_state p = OutboxProjectionDelivering"
    "d' = d\<lparr>outbox_projections := put_row ob_id (od_id c) (complete_result c p) (outbox_projections d)\<rparr>"
    by (rule complete_commit [OF ok]) blast
  then show "records_evolve d d'"
    by (auto intro!: records_outbox [OF inv] outbox_ev.rows_put [where r = p] completion_evolves
        intro: outbox.only_row [OF db_ok_tables(10) [OF ok]])
qed (rule records_refl [OF inv])

subsection \<open>Session controls\<close>

lemma put_control_evolves:
  assumes "db_ok d" "receipts_inv d" "find_row session_control_pk k (session_controls d) = Some r" "control_evolves r r'"
    "session_controls d' = put_row session_control_pk k r' (session_controls d)"
    "prompt_attempts d' = prompt_attempts d" "prompt_attempt_reclamations d' = prompt_attempt_reclamations d"
    "publications d' = publications d" "external_effects d' = external_effects d"
    "outbox_projections d' = outbox_projections d"
  shows "records_evolve d d'"
  using assms by (intro records_controls)
    (auto intro!: control_ev.rows_put [where r = r] intro: controls.only_row [OF db_ok_tables(5)])

lemma acquire_records:
  assumes ok: "db_ok d" and inv: "receipts_inv d"
  shows "records_evolve d (snd (AcquireSessionMutationLease e q d))"
proof (rule acquire.after)
  fix c a d'
  assume "acquire_body c d = Commit a d'"
  then show "records_evolve d d'"
    by (rule acquire_commit [OF ok]) (erule put_control_evolves [OF ok inv _ acquire_evolves [where q = c]]; simp)
qed (rule records_refl [OF inv])

lemma generation_records:
  assumes ok: "db_ok d" and inv: "receipts_inv d"
  shows "records_evolve d (snd (CommitSessionRuntimeGeneration e q d))"
proof (rule generation.after)
  fix c a d'
  assume "generation_body c d = Commit a d'"
  then show "records_evolve d d'"
    by (rule generation_commit [OF ok]) (erule put_control_evolves [OF ok inv _ generation_evolves [where q = c]]; simp)
qed (rule records_refl [OF inv])

lemma release_records:
  assumes ok: "db_ok d" and inv: "receipts_inv d"
  shows "records_evolve d (snd (ReleaseSessionMutationLease e q d))"
proof (rule release.after)
  fix c a d'
  assume "release_body c d = Commit a d'"
  then show "records_evolve d d'"
    by (rule release_commit [OF ok]) (erule put_control_evolves [OF ok inv _ release_evolves [where q = c]]; simp)
qed (rule records_refl [OF inv])

lemma reconcile_records:
  assumes ok: "db_ok d" and inv: "receipts_inv d"
  shows "records_evolve d (snd (ReconcileSessionControl e q d))"
proof (rule reconcile.after)
  fix c a d'
  assume "reconcile_body c d = Commit a d'"
  then show "records_evolve d d'"
    by (rule reconcile_commit [OF ok]) (erule put_control_evolves [OF ok inv _ reconcile_evolves [where q = c]]; simp)
qed (rule records_refl [OF inv])

lemma create_control_records:
  assumes inv: "receipts_inv d"
  shows "records_evolve d (snd (CreateSessionControl e q d))"
proof (rule create_control.after)
  fix c a d'
  assume "create_control_body (fst c) d = Commit a d'"
  from create_control_commit [OF this] obtain t where
    t: "sql_insert session_controls_check session_control_clash (control_row (fst c)) (session_controls d) = Some t"
      "d' = d\<lparr>session_controls := t\<rparr>" by blast
  show "records_evolve d d'"
    using control_ev.rows_insert [OF t(1)] t(2) by (intro records_controls [OF inv]) simp_all
qed (rule records_refl [OF inv])

subsection \<open>Operations that touch none of these records\<close>

lemma epoch_records:
  assumes inv: "receipts_inv d" and op: "epoch_operation operation"
  shows "records_evolve d (snd (operation e q d))"
proof (rule after_atomic [where d = d])
  show "operation e q d = (Inl x, d') \<Longrightarrow> d' = d" for x d'
    using op by (rule epoch_operation.epoch_atomic)
  show "records_evolve d d'" if run: "operation e q d = (Inr a, d')" for a d'
  proof -
    from epoch_operation.epoch_frame [OF op run] obtain t ds
      where "d' = d\<lparr>controller_epochs := t, store_dataset := ds\<rparr>" by blast
    then show ?thesis by (intro records_same [OF inv]) simp_all
  qed
qed (rule records_refl [OF inv])

lemma create_claim_records:
  assumes inv: "receipts_inv d"
  shows "records_evolve d (snd (CreateBranchClaim e q d))"
proof (rule after_atomic [where d = d])
  show "CreateBranchClaim e q d = (Inl x, d') \<Longrightarrow> d' = d" for x d' by (rule create_claim.atomic)
  show "records_evolve d d'" if "CreateBranchClaim e q d = (Inr a, d')" for a d'
  proof -
    from that obtain fresh where "CreateBranchClaimWithResult e q d = (Inr (a, fresh), d')" by (rule create_claim_run)
    then show ?thesis by (rule create_claim_success) (auto intro: records_same [OF inv] records_refl [OF inv])
  qed
qed (rule records_refl [OF inv])

lemma cas_claim_records:
  "db_ok d \<Longrightarrow> receipts_inv d \<Longrightarrow> records_evolve d (snd (CompareAndSwapBranchClaim e q d))"
  by (rule cas_claim.after) (auto simp: cas_claim_body_def split: if_splits intro: records_same records_refl)

lemma reclaim_claim_records:
  assumes ok: "db_ok d" and inv: "receipts_inv d"
  shows "records_evolve d (snd (ReclaimBranchClaim e q d))"
proof (rule reclaim_claim.after)
  fix c a d'
  assume "reclaim_claim_body c d = Commit a d'"
  then show "records_evolve d d'" by (rule reclaim_commit [OF ok]) (auto intro: records_same [OF inv])
qed (rule records_refl [OF inv])

lemma create_turn_records:
  assumes inv: "receipts_inv d"
  shows "records_evolve d (snd (CreateSessionTurn e q d))"
proof (rule create_turn.after)
  fix c a d'
  assume "create_turn_body c d = Commit a d'"
  then show "records_evolve d d'"
    by (cases c) (auto elim!: create_turn_commit intro: records_same [OF inv])
qed (rule records_refl [OF inv])

section \<open>Histories\<close>

lemmas op_record_lemmas =
  epoch_records [OF _ cas_epoch.epoch_operation_axioms] epoch_records [OF _ sync_epoch.epoch_operation_axioms]
  epoch_records [OF _ advance_epoch.epoch_operation_axioms] create_claim_records cas_claim_records
  reclaim_claim_records create_attempt_records recovery_records execution_records delivery_records
  prepare_records reclaim_records create_control_records acquire_records generation_records
  release_records reconcile_records create_turn_records create_publication_records pr_intent_records
  pr_receipt_records publication_records reserve_records effect_records enqueue_records claim_records
  complete_records

lemma op_records: "db_ok d \<Longrightarrow> receipts_inv d \<Longrightarrow> records_evolve d (snd (apply_op e x d))"
  by (cases x) (simp_all add: op_record_lemmas)

lemma run_records:
  "db_ok d \<Longrightarrow> receipts_inv d \<Longrightarrow> records_evolve d (run_ops xs d)"
proof (induction xs arbitrary: d)
  case Nil
  then show ?case by (simp add: records_refl)
next
  case (Cons x xs)
  obtain e y where x: "x = (e, y)" by (cases x)
  note first = op_records [OF Cons.prems, of e y]
  then have "receipts_inv (snd (apply_op e y d))" by (simp add: records_evolve_def)
  from records_trans [OF first Cons.IH [OF op_keeps_ok [OF Cons.prems(1)] this]] show ?case by (simp add: x)
qed

section \<open>Branch claims keep their owner\<close>

text \<open>The operations that leave the branch claims alone.\<close>

lemma claims_unchanged:
  assumes ok: "db_ok d"
  shows
    "branch_claims (snd (CreatePromptAttempt e q0 d)) = branch_claims d"
    "branch_claims (snd (RecoverPromptAttemptPreSubmission e q1 d)) = branch_claims d"
    "branch_claims (snd (TransitionPromptAttemptExecution e q2 d)) = branch_claims d"
    "branch_claims (snd (TransitionPromptAttemptDelivery e q3 d)) = branch_claims d"
    "branch_claims (snd (PreparePromptAttemptReclamation e q4 d)) = branch_claims d"
    "branch_claims (snd (ReclaimPromptAttempts e q5 d)) = branch_claims d"
    "branch_claims (snd (CreateSessionControl e q6 d)) = branch_claims d"
    "branch_claims (snd (AcquireSessionMutationLease e q7 d)) = branch_claims d"
    "branch_claims (snd (CommitSessionRuntimeGeneration e q8 d)) = branch_claims d"
    "branch_claims (snd (ReleaseSessionMutationLease e q9 d)) = branch_claims d"
    "branch_claims (snd (CreateSessionTurn e q10 d)) = branch_claims d"
    "branch_claims (snd (CreatePublication e q11 d)) = branch_claims d"
    "branch_claims (snd (SetPublicationPRIntent e q12 d)) = branch_claims d"
    "branch_claims (snd (SetPublicationPRReceipt e q13 d)) = branch_claims d"
    "branch_claims (snd (TransitionPublication e q14 d)) = branch_claims d"
    "branch_claims (snd (TransitionExternalEffect e q15 d)) = branch_claims d"
    "branch_claims (snd (CompleteOutboxProjection e q16 d)) = branch_claims d"
    "branch_claims (snd (ReserveExternalEffect e q17 d)) = branch_claims d"
    "branch_claims (snd (ClaimOutboxProjections e q18 d)) = branch_claims d"
    "branch_claims (snd (EnqueueOutboxProjection e q19 d)) = branch_claims d"
  subgoal by (rule create_attempt.after) (auto dest!: create_attempt_commit)
  subgoal by (rule recovery.after) (auto elim!: recover_commit [OF ok])
  subgoal by (rule execution.after) (auto elim!: execution_commit [OF ok])
  subgoal by (rule delivery.after) (auto elim!: delivery_commit [OF ok])
  subgoal by (rule prepare_reclamation.after) (auto elim!: reclamation_commit [OF ok])
  subgoal by (rule reclaim_attempts.after) (auto elim!: reclamation_commit [OF ok])
  subgoal by (rule create_control.after) (auto dest!: create_control_commit)
  subgoal by (rule acquire.after) (auto elim!: acquire_commit [OF ok])
  subgoal by (rule generation.after) (auto elim!: generation_commit [OF ok])
  subgoal by (rule release.after) (auto elim!: release_commit [OF ok])
  subgoal by (rule create_turn.after) (auto elim!: create_turn_commit)
  subgoal by (rule create_publication.after) (auto dest!: create_publication_commit)
  subgoal by (rule pr_intent.after) (auto elim!: pr_intent_commit [OF ok])
  subgoal by (rule pr_receipt.after) (auto elim!: pr_receipt_commit [OF ok])
  subgoal by (rule publication.after) (auto elim!: publication_commit [OF ok])
  subgoal by (rule effect.after) (auto elim!: effect_commit [OF ok])
  subgoal by (rule complete.after) (auto elim!: complete_commit [OF ok])
  subgoal by (rule reserve.after) (auto simp: reserve_body_def Let_def split: option.splits if_splits)
  subgoal by (rule claim.after) (auto simp: claim_body_def split: sum.splits prod.splits)
  subgoal by (rule enqueue.after) (auto simp: enqueue_body_def enqueueOutboxProjectionTx_def split: prod.splits sum.splits option.splits if_splits)
  done

text \<open>A branch claim is kept by every operation but the one that deletes it.\<close>

abbreviation claims_kept :: "db \<Rightarrow> db \<Rightarrow> bool" where
  "claims_kept d d' \<equiv> claim_ev.rows_evolve (branch_claims d) (branch_claims d')"

lemma claims_kept_same: "branch_claims d' = branch_claims d \<Longrightarrow> claims_kept d d'"
  by (simp add: claim_ev.rows_refl)

lemma put_claim_kept:
  assumes "db_ok d" "find_row bc_id k (branch_claims d) = Some c" "claim_kept c c'"
    "branch_claims d' = put_row bc_id k c' (branch_claims d)"
  shows "claims_kept d d'"
  using assms by (auto intro!: claim_ev.rows_put [where r = c] intro: claims.only_row [OF db_ok_tables(7)])

lemma epoch_claims:
  assumes op: "epoch_operation operation"
  shows "claims_kept d (snd (operation e q d))"
proof (rule after_atomic [where d = d])
  show "operation e q d = (Inl x, d') \<Longrightarrow> d' = d" for x d'
    using op by (rule epoch_operation.epoch_atomic)
  show "claims_kept d d'" if "operation e q d = (Inr a, d')" for a d'
    using epoch_operation.epoch_frame [OF op that] by (auto intro: claims_kept_same)
qed (rule claim_ev.rows_refl)

lemma create_claim_claims: "claims_kept d (snd (CreateBranchClaim e q d))"
proof (rule after_atomic [where d = d])
  show "CreateBranchClaim e q d = (Inl x, d') \<Longrightarrow> d' = d" for x d' by (rule create_claim.atomic)
  show "claims_kept d d'" if "CreateBranchClaim e q d = (Inr a, d')" for a d'
  proof -
    from that obtain fresh where "CreateBranchClaimWithResult e q d = (Inr (a, fresh), d')" by (rule create_claim_run)
    then show ?thesis by (rule create_claim_success) (auto intro: claim_ev.rows_refl claim_ev.rows_insert)
  qed
qed (rule claim_ev.rows_refl)

lemma cas_claim_claims:
  assumes ok: "db_ok d"
  shows "claims_kept d (snd (CompareAndSwapBranchClaim e q d))"
proof (rule cas_claim.after)
  fix c a d'
  assume n: "validateBranchClaimCAS e q = Inr c" and body: "cas_claim_body c d = Commit a d'"
  from body obtain r where r: "find_row bc_id (bx_id c) (branch_claims d) = Some r"
    "bc_generation r = bx_expected_generation c"
    "branch_claims d' = put_row bc_id (bx_id c) (cas_claim_result c r) (branch_claims d)"
    by (rule cas_claim_commit [OF ok]) auto
  have "claim_kept r (cas_claim_result c r)"
    using cas_claim_evolves validated_claim_cas(7) [OF n] r(2) by auto
  then show "claims_kept d d'" by (rule put_claim_kept [OF ok r(1) _ r(3)])
qed (rule claim_ev.rows_refl)

lemma reconcile_claims:
  assumes ok: "db_ok d"
  shows "claims_kept d (snd (ReconcileSessionControl e q d))"
proof (rule reconcile.after)
  fix c a d'
  assume "reconcile_body c d = Commit a d'"
  then show "claims_kept d d'"
    by (rule reconcile_commit [OF ok]) (erule put_claim_kept [OF ok _ reconcile_claim_evolves [where q = c]]; simp)
qed (rule claim_ev.rows_refl)

lemmas op_claim_lemmas =
  epoch_claims [OF cas_epoch.epoch_operation_axioms] epoch_claims [OF sync_epoch.epoch_operation_axioms]
  epoch_claims [OF advance_epoch.epoch_operation_axioms] create_claim_claims cas_claim_claims reconcile_claims
  claims_unchanged [THEN claims_kept_same]

fun deletes_claim :: "control_op \<Rightarrow> bool" where
  "deletes_claim (OpReclaimBranchClaim q) = True"
| "deletes_claim _ = False"

lemma op_claims: "db_ok d \<Longrightarrow> \<not> deletes_claim x \<Longrightarrow> claims_kept d (snd (apply_op e x d))"
  by (cases x) (simp_all add: op_claim_lemmas)

lemma run_claims: "db_ok d \<Longrightarrow> list_all (\<lambda>(e, x). \<not> deletes_claim x) xs \<Longrightarrow> claims_kept d (run_ops xs d)"
proof (induction xs arbitrary: d)
  case Nil
  then show ?case by (simp add: claim_ev.rows_refl)
next
  case (Cons x xs)
  obtain e y where x: "x = (e, y)" by (cases x)
  from Cons.prems x have first: "claims_kept d (snd (apply_op e y d))" by (intro op_claims) auto
  from Cons.IH [OF op_keeps_ok [OF Cons.prems(1)], of e y] Cons.prems(2) x
  show ?case using claim_ev.rows_trans [OF first] by simp
qed

section \<open>Reading a history\<close>

lemma run_inv:
  assumes "db_ok d" "receipts_inv d"
  shows "db_ok (run_ops xs d)" "records_evolve d (run_ops xs d)"
  using run_keeps_ok run_records assms by blast+

lemma publication_continues:
  assumes "db_ok d" "receipts_inv d" "find_row pb_id k (publications d) = Some p"
  shows "\<exists>p'. find_row pb_id k (publications (run_ops xs d)) = Some p' \<and> publication_evolves p p'"
proof (rule pubs.find_continues [OF db_ok_tables(8) [OF run_inv(1) [OF assms(1,2)]] assms(3)])
  show "\<exists>p' \<in> set (publications (run_ops xs d)). publication_evolves p p'"
    using run_inv(2) [OF assms(1,2), of xs] find_row_SomeD [OF assms(3)] publication_ev.rowsD
    unfolding records_evolve_def by blast
qed (simp add: publication_evolves_def SamePublicationCreation_def)

lemma effect_continues:
  assumes "db_ok d" "receipts_inv d" "find_row ee_id k (external_effects d) = Some x"
  shows "\<exists>x'. find_row ee_id k (external_effects (run_ops xs d)) = Some x' \<and> effect_evolves x x'"
proof (rule effects.find_continues [OF db_ok_tables(9) [OF run_inv(1) [OF assms(1,2)]] assms(3)])
  show "\<exists>x' \<in> set (external_effects (run_ops xs d)). effect_evolves x x'"
    using run_inv(2) [OF assms(1,2), of xs] find_row_SomeD [OF assms(3)] effect_ev.rowsD
    unfolding records_evolve_def by blast
qed (simp add: effect_evolves_def)

lemma outbox_continues:
  assumes "db_ok d" "receipts_inv d" "find_row ob_id k (outbox_projections d) = Some p"
  shows "\<exists>p'. find_row ob_id k (outbox_projections (run_ops xs d)) = Some p' \<and> outbox_evolves p p'"
proof (rule outbox.find_continues [OF db_ok_tables(10) [OF run_inv(1) [OF assms(1,2)]] assms(3)])
  show "\<exists>p' \<in> set (outbox_projections (run_ops xs d)). outbox_evolves p p'"
    using run_inv(2) [OF assms(1,2), of xs] find_row_SomeD [OF assms(3)] outbox_ev.rowsD
    unfolding records_evolve_def by blast
qed (simp add: outbox_evolves_def)

lemma control_continues:
  assumes "db_ok d" "receipts_inv d" "find_row session_control_pk k (session_controls d) = Some r"
  shows "\<exists>r'. find_row session_control_pk k (session_controls (run_ops xs d)) = Some r' \<and> control_evolves r r'"
proof (rule controls.find_continues [OF db_ok_tables(5) [OF run_inv(1) [OF assms(1,2)]] assms(3)])
  show "\<exists>r' \<in> set (session_controls (run_ops xs d)). control_evolves r r'"
    using run_inv(2) [OF assms(1,2), of xs] find_row_SomeD [OF assms(3)] control_ev.rowsD
    unfolding records_evolve_def by blast
qed (simp add: control_evolves_def)

lemma claim_continues:
  assumes "db_ok d" "list_all (\<lambda>(e, x). \<not> deletes_claim x) xs" "find_row bc_id k (branch_claims d) = Some c"
  shows "\<exists>c'. find_row bc_id k (branch_claims (run_ops xs d)) = Some c' \<and> claim_kept c c'"
proof (rule claims.find_continues [OF db_ok_tables(7) [OF run_keeps_ok [OF assms(1)]] assms(3)])
  show "\<exists>c' \<in> set (branch_claims (run_ops xs d)). claim_kept c c'"
    using run_claims [OF assms(1,2)] find_row_SomeD [OF assms(3)] claim_ev.rowsD by blast
qed (simp add: claim_kept_def)

lemma attempt_history:
  assumes "db_ok d" "receipts_inv d" "a \<in> set (prompt_attempts d)"
    "a' \<in> set (prompt_attempts (run_ops xs d))" "pa_key a' = pa_key a"
  shows "attempt_evolves a a'"
  using run_inv(2) [OF assms(1,2), of xs] attempt_continues [OF _ db_ok_tables(2) [OF run_inv(1) [OF assms(1,2)]] assms(3-5)]
  by (simp add: records_evolve_def)

section \<open>Faults\<close>

lemma create_claim_fault: "env_fault e \<noteq> None \<Longrightarrow> snd (CreateBranchClaim e q d) = d"
  unfolding CreateBranchClaim_def CreateBranchClaimWithResult_def snd_apfst
  by (rule validated_fault) (auto simp: with_tx_recover_fault simp del: not_None_eq)

lemma epoch_fault:
  "env_fault e \<noteq> None \<Longrightarrow> snd (CompareAndSwapControllerEpoch e q d) = d"
  "env_fault e \<noteq> None \<Longrightarrow> snd (SyncControllerEpochMirror e q' d) = d"
  "env_fault e \<noteq> None \<Longrightarrow> snd (AdvanceControllerEpoch e q'' d) = d"
  unfolding CompareAndSwapControllerEpoch_def SyncControllerEpochMirror_def AdvanceControllerEpoch_def
  by (rule validated_fault, rule with_tx_fault, assumption)+

lemmas fault_lemmas =
  epoch_fault create_claim_fault cas_claim.fault_changes_nothing reclaim_claim.fault_changes_nothing
  create_attempt.fault_changes_nothing recovery.fault_changes_nothing execution.fault_changes_nothing
  delivery.fault_changes_nothing prepare_reclamation.fault_changes_nothing
  reclaim_attempts.fault_changes_nothing create_control.fault_changes_nothing
  acquire.fault_changes_nothing generation.fault_changes_nothing release.fault_changes_nothing
  reconcile.fault_changes_nothing create_turn.fault_changes_nothing
  create_publication.fault_changes_nothing pr_intent.fault_changes_nothing
  pr_receipt.fault_changes_nothing publication.fault_changes_nothing reserve.fault_changes_nothing
  effect.fault_changes_nothing enqueue.fault_changes_nothing claim.fault_changes_nothing
  complete.fault_changes_nothing

lemma op_fault: "env_fault e \<noteq> None \<Longrightarrow> snd (apply_op e x d) = d"
  by (cases x; simp only: apply_op.simps outcome_simps; erule fault_lemmas)

end
