(* ===== verification/Attempt_Spec.thy ===== *)
theory Attempt_Spec
  imports Control_Runs
begin

text \<open>
  What the control store promises about prompt attempts, as an abstract machine: a map from keys to
  execution and delivery states, and the set of retired Tasks.  Every operation of the store, seen
  through the abstraction \<open>attempt_abs\<close>, is a sequence of steps of the machine; the operations on other
  records are sequences of length zero.
\<close>

section \<open>The abstract machine\<close>

record attempt_spec =
  sp_live :: "PromptAttemptKey \<rightharpoonup> PromptExecutionState \<times> PromptDeliveryState"
  sp_retired :: "(string \<times> string) set"

definition key_task :: "PromptAttemptKey \<Rightarrow> string \<times> string" where
  "key_task k = (pak_namespace k, pak_task_uid k)"

inductive spec_step :: "attempt_spec \<Rightarrow> attempt_spec \<Rightarrow> bool" where
  spec_create: "sp_live S k = None \<Longrightarrow> key_task k \<notin> sp_retired S \<Longrightarrow>
    spec_step S (S\<lparr>sp_live := (sp_live S)(k \<mapsto> (PromptExecutionQueued, PromptDeliveryNotRequested))\<rparr>)"
| spec_execute: "sp_live S k = Some (s, t) \<Longrightarrow> s' \<in> set (promptExecutionTransitions s) \<Longrightarrow>
    spec_step S (S\<lparr>sp_live := (sp_live S)(k \<mapsto> (s', t))\<rparr>)"
| spec_recover: "sp_live S k = Some (s, t) \<Longrightarrow>
    s \<in> {PromptExecutionReserved, PromptExecutionSessionStarting, PromptExecutionPlanned, PromptExecutionSubmitting} \<Longrightarrow>
    spec_step S (S\<lparr>sp_live := (sp_live S)(k \<mapsto> (PromptExecutionReserved, t))\<rparr>)"
| spec_deliver: "sp_live S k = Some (s, t) \<Longrightarrow> t' \<in> set (promptDeliveryTransitions t) \<Longrightarrow>
    spec_step S (S\<lparr>sp_live := (sp_live S)(k \<mapsto> (s, t'))\<rparr>)"
| spec_retire: "(\<And>k s t. sp_live S k = Some (s, t) \<Longrightarrow> key_task k = x \<Longrightarrow>
      IsTerminalPromptExecutionState s \<and> IsTerminalPromptDeliveryState t) \<Longrightarrow>
    spec_step S (S\<lparr>sp_retired := insert x (sp_retired S)\<rparr>)"
| spec_forget: "x \<in> sp_retired S \<Longrightarrow>
    spec_step S (S\<lparr>sp_live := sp_live S |` {k. key_task k \<noteq> x}\<rparr>)"

section \<open>The abstraction\<close>

definition attempt_status :: "PromptAttempt \<Rightarrow> PromptAttemptKey \<times> PromptExecutionState \<times> PromptDeliveryState" where
  "attempt_status a = (pa_key a, pa_execution_state a, pa_delivery_state a)"

definition live_map :: "PromptAttempt list \<Rightarrow> PromptAttemptKey \<rightharpoonup> PromptExecutionState \<times> PromptDeliveryState" where
  "live_map t = map_of (map attempt_status t)"

definition attempt_abs :: "db \<Rightarrow> attempt_spec" where
  "attempt_abs d = \<lparr>sp_live = live_map (prompt_attempts d),
     sp_retired = reclamation_pk ` set (prompt_attempt_reclamations d)\<rparr>"

lemma live_map_simps [simp]:
  "live_map [] = Map.empty"
  "live_map (a # t) = (live_map t)(pa_key a \<mapsto> (pa_execution_state a, pa_delivery_state a))"
  by (simp_all add: live_map_def attempt_status_def)

lemma live_map_snoc:
  "pa_key a \<notin> pa_key ` set t \<Longrightarrow>
   live_map (t @ [a]) = (live_map t)(pa_key a \<mapsto> (pa_execution_state a, pa_delivery_state a))"
  by (induction t) (auto simp: fun_upd_twist)

lemma live_map_None: "live_map t k = None \<longleftrightarrow> k \<notin> pa_key ` set t"
  by (induction t) auto

lemma live_map_Some: "live_map t k = Some v \<Longrightarrow>
  \<exists>a \<in> set t. pa_key a = k \<and> v = (pa_execution_state a, pa_delivery_state a)"
  by (induction t) (auto split: if_splits)

lemma keys_distinct: "attempts.table_ok t \<Longrightarrow> distinct (map pa_key t)"
  by (induction t) (auto simp: attempts.table_ok_Cons attempts.table_ok_Nil attempt_clash_def)

lemma live_map_member:
  "distinct (map pa_key t) \<Longrightarrow> a \<in> set t \<Longrightarrow> live_map t (pa_key a) = Some (pa_execution_state a, pa_delivery_state a)"
  by (induction t) (auto simp: image_iff)

lemma live_map_put:
  assumes "attempts.table_ok t" "find_row pa_id k t = Some a" "pa_key a' = pa_key a"
  shows "live_map (put_row pa_id k a' t) = (live_map t)(pa_key a \<mapsto> (pa_execution_state a', pa_delivery_state a'))"
  using assms
proof (induction t)
  case (Cons x t)
  have fresh: "\<forall>y \<in> set t. \<not> attempt_clash x y" and ok: "attempts.table_ok t"
    using Cons.prems(1) unfolding attempts.table_ok_Cons by simp_all
  show ?case
  proof (cases "pa_id x = k")
    case True
    with fresh have "pa_id y \<noteq> k" if "y \<in> set t" for y using that by (auto simp: attempt_clash_def)
    then have "put_row pa_id k a' t = t" by (auto simp: put_row_def intro: map_idI)
    with True Cons.prems show ?thesis by (auto simp: put_row_def)
  next
    case False
    with Cons.prems(2) have get: "find_row pa_id k t = Some a" by simp
    with fresh have "pa_key x \<noteq> pa_key a" using find_row_SomeD [OF get] by (auto simp: attempt_clash_def)
    with False Cons.IH [OF ok get Cons.prems(3)] show ?thesis by (auto simp: put_row_def fun_eq_iff)
  qed
qed simp

lemma live_map_filter:
  "distinct (map pa_key t) \<Longrightarrow> (\<And>a. a \<in> set t \<Longrightarrow> P a \<longleftrightarrow> pa_key a \<in> K) \<Longrightarrow> live_map (filter P t) = live_map t |` K"
  by (induction t) (auto simp: restrict_map_insert fun_eq_iff restrict_map_def)

section \<open>Simulation\<close>

abbreviation spec_steps :: "db \<Rightarrow> db \<Rightarrow> bool" where
  "spec_steps d d' \<equiv> spec_step\<^sup>*\<^sup>* (attempt_abs d) (attempt_abs d')"

lemma steps_same:
  "prompt_attempts d' = prompt_attempts d \<Longrightarrow> prompt_attempt_reclamations d' = prompt_attempt_reclamations d \<Longrightarrow>
   spec_steps d d'"
  by (simp add: attempt_abs_def)

lemma put_attempt_step:
  assumes "db_ok d" "find_row pa_id k (prompt_attempts d) = Some a" "pa_key a' = pa_key a"
    "spec_step (attempt_abs d) (attempt_abs d\<lparr>sp_live := (sp_live (attempt_abs d))
       (pa_key a \<mapsto> (pa_execution_state a', pa_delivery_state a'))\<rparr>)"
  shows "spec_steps d (d\<lparr>prompt_attempts := put_row pa_id k a' (prompt_attempts d)\<rparr>)"
  using assms(4) live_map_put [OF db_ok_tables(2) [OF assms(1)] assms(2,3)]
  by (simp add: attempt_abs_def r_into_rtranclp)

lemma stored_status:
  assumes "db_ok d" "find_row pa_id k (prompt_attempts d) = Some a"
  shows "sp_live (attempt_abs d) (pa_key a) = Some (pa_execution_state a, pa_delivery_state a)"
  using live_map_member [OF keys_distinct [OF db_ok_tables(2) [OF assms(1)]]] find_row_SomeD [OF assms(2)]
  by (simp add: attempt_abs_def)

lemma execution_simulates:
  assumes ok: "db_ok d"
  shows "spec_steps d (snd (TransitionPromptAttemptExecution e q d))"
proof (rule execution.after)
  fix c a d'
  assume n: "validateExecutionTransition e q = Inr c" and body: "execution_body c d = Commit a d'"
  from body obtain r where r: "find_row pa_id (xt_id c) (prompt_attempts d) = Some r" "a = execution_result c r"
    "pa_execution_state r = xt_expected_state c"
    "d' = d\<lparr>prompt_attempts := put_row pa_id (xt_id c) a (prompt_attempts d)\<rparr>" by (rule execution_commit [OF ok])
  then show "spec_steps d d'"
    unfolding r(4) using spec_execute [OF stored_status [OF ok r(1)], of "xt_new_state c"] validated_execution(7) [OF n]
    by (intro put_attempt_step [OF ok r(1)]) simp_all
qed simp

lemma delivery_simulates:
  assumes ok: "db_ok d"
  shows "spec_steps d (snd (TransitionPromptAttemptDelivery e q d))"
proof (rule delivery.after)
  fix c a d'
  assume n: "validateDeliveryTransition e q = Inr c" and body: "delivery_body c d = Commit a d'"
  from body obtain r where r: "find_row pa_id (dt_id c) (prompt_attempts d) = Some r" "a = delivery_result c r"
    "pa_delivery_state r = dt_expected_state c"
    "d' = d\<lparr>prompt_attempts := put_row pa_id (dt_id c) a (prompt_attempts d)\<rparr>" by (rule delivery_commit [OF ok])
  then show "spec_steps d d'"
    unfolding r(4) using spec_deliver [OF stored_status [OF ok r(1)], of "dt_new_state c"] validated_delivery(4) [OF n]
    by (intro put_attempt_step [OF ok r(1)]) simp_all
qed simp

lemma recovery_simulates:
  assumes ok: "db_ok d"
  shows "spec_steps d (snd (RecoverPromptAttemptPreSubmission e q d))"
proof (rule recovery.after)
  fix c a d'
  assume n: "validateRecovery e q = Inr c" and body: "recover_body c d = Commit a d'"
  from body obtain r where r: "find_row pa_id (pr_id c) (prompt_attempts d) = Some r" "a = recover_result c r"
    "pa_execution_state r = pr_expected_state c"
    "d' = d\<lparr>prompt_attempts := put_row pa_id (pr_id c) a (prompt_attempts d)\<rparr>" by (rule recover_commit [OF ok])
  then show "spec_steps d d'"
    unfolding r(4) using spec_recover [OF stored_status [OF ok r(1)]] validated_recovery(6) [OF n]
    by (intro put_attempt_step [OF ok r(1)]) auto
qed simp

lemma create_simulates:
  assumes ok: "db_ok d"
  shows "spec_steps d (snd (CreatePromptAttempt e q d))"
proof (rule create_attempt.after)
  fix c a d'
  assume n: "NormalizePromptAttemptForCreate e (fst q) (snd q) = Inr c" and body: "create_attempt_body (fst c) d = Commit a d'"
  obtain m f where c: "c = (m, f)" by (cases c)
  from create_attempt_commit [OF body] obtain t where t: "d' = d\<lparr>prompt_attempts := t\<rparr>"
    "sql_insert prompt_attempts_check attempt_clash (attempt_row m) (prompt_attempts d) = Some t"
    "find_row reclamation_pk (pak_namespace (pa_key m), pak_task_uid (pa_key m)) (prompt_attempt_reclamations d) = None"
    by (auto simp: c)
  then have new: "t = prompt_attempts d @ [attempt_row m]" "pa_key m \<notin> pa_key ` set (prompt_attempts d)"
    by (auto simp: sql_insert_def list_ex_iff attempt_clash_def split: if_splits)
  have "live_map t = (live_map (prompt_attempts d))(pa_key m \<mapsto> (PromptExecutionQueued, PromptDeliveryNotRequested))"
    using normalized_attempt(4,5) [OF n [unfolded c]] new live_map_snoc [of "attempt_row m" "prompt_attempts d"]
    by (simp add: attempt_row_def)
  moreover have "key_task (pa_key m) \<notin> sp_retired (attempt_abs d)"
    using t(3) by (auto simp: attempt_abs_def key_task_def find_row_None image_iff)
  ultimately show "spec_steps d d'"
    using spec_create [of "attempt_abs d" "pa_key m"] new(2) t(1)
    by (auto simp: attempt_abs_def live_map_None intro!: r_into_rtranclp)
qed simp

text \<open>Settling is a sequence of cancellations of queued attempts.\<close>

definition with_live :: "db \<Rightarrow> PromptAttempt list \<Rightarrow> attempt_spec" where
  "with_live d t = attempt_abs d\<lparr>sp_live := live_map t\<rparr>"

lemma settle_steps:
  assumes "list_all2 (settled_rel e f) t u" "distinct (map pa_key (pre @ t))"
  shows "spec_step\<^sup>*\<^sup>* (with_live d (pre @ t)) (with_live d (pre @ u))"
  using assms
proof (induction t u arbitrary: pre rule: list_all2_induct)
  case (Cons a t a' u)
  have keys: "pa_key a' = pa_key a" using settled_rel_kept [OF Cons.hyps(1)] by simp
  let ?S = "with_live d (pre @ a # t)"
  have one: "spec_step\<^sup>*\<^sup>* ?S (with_live d (pre @ a' # t))"
  proof (cases "a' = a")
    case False
    with Cons.hyps(1) have q: "pa_execution_state a = PromptExecutionQueued" "pa_execution_state a' = PromptExecutionCancelled"
      "pa_delivery_state a' = pa_delivery_state a" by (auto simp: settled_rel_def)
    have "live_map (pre @ a' # t) = (live_map (pre @ a # t))(pa_key a \<mapsto> (pa_execution_state a', pa_delivery_state a'))"
      using Cons.prems keys by (induction pre) (auto simp: fun_upd_twist)
    moreover have "sp_live ?S (pa_key a) = Some (PromptExecutionQueued, pa_delivery_state a)"
      using live_map_member [OF Cons.prems, of a] q(1) by (simp add: with_live_def)
    from spec_execute [OF this, of PromptExecutionCancelled]
    have "spec_step ?S (?S\<lparr>sp_live := (sp_live ?S)(pa_key a \<mapsto> (PromptExecutionCancelled, pa_delivery_state a))\<rparr>)" by simp
    ultimately show ?thesis using q by (auto simp: with_live_def intro!: r_into_rtranclp)
  qed simp
  have "distinct (map pa_key ((pre @ [a']) @ t))" using Cons.prems keys by simp
  from rtranclp_trans [OF one] Cons.IH [OF this] show ?case by simp
qed simp

lemma reclamation_simulates:
  assumes ok: "db_ok d" and body: "reclamation_body del e q d = Commit n d'"
  shows "spec_steps d d'"
  using body
proof (rule reclamation_commit [OF ok])
  let ?T = "task_attempt (rp_namespace q) (rp_task_uid q)" and ?x = "(rp_namespace q, rp_task_uid q)"
  fix t t' tm
  assume d': "d' = d\<lparr>prompt_attempts := t', prompt_attempt_reclamations := tm\<rparr>" "db_ok d'"
    and settled: "list_all2 (settled_rel e (rp_fence q)) (prompt_attempts d) t"
    and t': "t' = (if del then filter (\<lambda>a. \<not> ?T a) t else t)"
    and tm: "reclamation_pk ` set tm = insert ?x (reclamation_pk ` set (prompt_attempt_reclamations d))"
    and final: "\<And>a. a \<in> set t \<Longrightarrow> ?T a \<Longrightarrow> attempt_terminal a"
  note keys = keys_distinct [OF db_ok_tables(2) [OF ok]]
  have "map pa_key t = map pa_key (prompt_attempts d)"
    using settled by (induction rule: list_all2_induct) (auto dest: settled_rel_kept)
  with keys have keys': "distinct (map pa_key t)" by simp
  have task: "?T a \<longleftrightarrow> key_task (pa_key a) = ?x" for a by (simp add: task_attempt_def key_task_def)
  have settle: "spec_step\<^sup>*\<^sup>* (attempt_abs d) (with_live d t)"
    using settle_steps [OF settled, of "[]" d] keys by (simp add: with_live_def attempt_abs_def)
  let ?R = "with_live d t\<lparr>sp_retired := insert ?x (sp_retired (with_live d t))\<rparr>"
  have retire: "spec_step (with_live d t) ?R"
    by (rule spec_retire) (use final task in \<open>auto simp: with_live_def attempt_terminal_def dest!: live_map_Some\<close>)
  have "spec_step\<^sup>*\<^sup>* ?R (attempt_abs d')"
  proof (cases del)
    case True
    have "spec_step ?R (?R\<lparr>sp_live := sp_live ?R |` {k. key_task k \<noteq> ?x}\<rparr>)" by (rule spec_forget) simp
    moreover have "live_map t' = live_map t |` {k. key_task k \<noteq> ?x}"
      using True t' task live_map_filter [OF keys', of "\<lambda>a. \<not> ?T a" "{k. key_task k \<noteq> ?x}"] by simp
    ultimately show ?thesis using tm d'(1) by (auto simp: with_live_def attempt_abs_def intro!: r_into_rtranclp)
  next
    case False
    then show ?thesis using tm d'(1) t' by (simp add: with_live_def attempt_abs_def)
  qed
  with settle retire show ?thesis by (meson rtranclp_trans converse_rtranclp_into_rtranclp)
qed

text \<open>The operations that leave the attempts and the reclamation markers alone.\<close>

definition attempt_tables :: "db \<Rightarrow> PromptAttempt list \<times> promptAttemptReclamationMarker list" where
  "attempt_tables d = (prompt_attempts d, prompt_attempt_reclamations d)"

lemma steps_same_tables: "attempt_tables d' = attempt_tables d \<Longrightarrow> spec_steps d d'"
  by (simp add: attempt_tables_def steps_same)

lemma epoch_attempts:
  assumes op: "epoch_operation operation"
  shows "attempt_tables (snd (operation e q d)) = attempt_tables d"
proof (rule after_atomic [where d = d])
  show "operation e q d = (Inl x, d') \<Longrightarrow> d' = d" for x d'
    using op by (rule epoch_operation.epoch_atomic)
  show "attempt_tables d' = attempt_tables d" if "operation e q d = (Inr a, d')" for a d'
    using epoch_operation.epoch_frame [OF op that] by (auto simp: attempt_tables_def)
qed simp

lemma create_claim_attempts: "attempt_tables (snd (CreateBranchClaim e q d)) = attempt_tables d"
proof (rule after_atomic [where d = d])
  show "CreateBranchClaim e q d = (Inl x, d') \<Longrightarrow> d' = d" for x d' by (rule create_claim.atomic)
  show "attempt_tables d' = attempt_tables d" if "CreateBranchClaim e q d = (Inr a, d')" for a d'
  proof -
    from that obtain fresh where "CreateBranchClaimWithResult e q d = (Inr (a, fresh), d')" by (rule create_claim_run)
    then show ?thesis by (rule create_claim_success) (auto simp: attempt_tables_def)
  qed
qed simp

lemma attempts_unchanged:
  assumes ok: "db_ok d"
  shows
    "attempt_tables (snd (CompareAndSwapBranchClaim e q0 d)) = attempt_tables d"
    "attempt_tables (snd (ReclaimBranchClaim e q1 d)) = attempt_tables d"
    "attempt_tables (snd (CreateSessionControl e q2 d)) = attempt_tables d"
    "attempt_tables (snd (AcquireSessionMutationLease e q3 d)) = attempt_tables d"
    "attempt_tables (snd (CommitSessionRuntimeGeneration e q4 d)) = attempt_tables d"
    "attempt_tables (snd (ReleaseSessionMutationLease e q5 d)) = attempt_tables d"
    "attempt_tables (snd (ReconcileSessionControl e q6 d)) = attempt_tables d"
    "attempt_tables (snd (CreateSessionTurn e q7 d)) = attempt_tables d"
    "attempt_tables (snd (CreatePublication e q8 d)) = attempt_tables d"
    "attempt_tables (snd (SetPublicationPRIntent e q9 d)) = attempt_tables d"
    "attempt_tables (snd (SetPublicationPRReceipt e q10 d)) = attempt_tables d"
    "attempt_tables (snd (TransitionPublication e q11 d)) = attempt_tables d"
    "attempt_tables (snd (TransitionExternalEffect e q12 d)) = attempt_tables d"
    "attempt_tables (snd (CompleteOutboxProjection e q13 d)) = attempt_tables d"
    "attempt_tables (snd (ReserveExternalEffect e q14 d)) = attempt_tables d"
    "attempt_tables (snd (ClaimOutboxProjections e q15 d)) = attempt_tables d"
    "attempt_tables (snd (EnqueueOutboxProjection e q16 d)) = attempt_tables d"
  unfolding attempt_tables_def
  subgoal by (rule cas_claim.after) (auto simp: cas_claim_body_def split: if_splits)
  subgoal by (rule reclaim_claim.after) (auto elim!: reclaim_commit [OF ok])
  subgoal by (rule create_control.after) (auto dest!: create_control_commit)
  subgoal by (rule acquire.after) (auto elim!: acquire_commit [OF ok])
  subgoal by (rule generation.after) (auto elim!: generation_commit [OF ok])
  subgoal by (rule release.after) (auto elim!: release_commit [OF ok])
  subgoal by (rule reconcile.after) (auto elim!: reconcile_commit [OF ok])
  subgoal by (rule create_turn.after) (auto elim!: create_turn_commit)
  subgoal by (rule create_publication.after) (auto dest!: create_publication_commit)
  subgoal by (rule pr_intent.after) (auto elim!: pr_intent_commit [OF ok])
  subgoal by (rule pr_receipt.after) (auto elim!: pr_receipt_commit [OF ok])
  subgoal by (rule publication.after) (auto elim!: publication_commit [OF ok])
  subgoal by (rule effect.after) (auto elim!: effect_commit [OF ok])
  subgoal by (rule complete.after) (auto elim!: complete_commit [OF ok])
  subgoal by (rule reserve.after) (auto simp: reserve_body_def Let_def split: option.splits if_splits)
  subgoal by (rule claim.after) (auto simp: claim_body_def split: sum.splits prod.splits)
  subgoal by (rule enqueue.after) (auto simp: enqueue_body_def enqueueOutboxProjectionTx_def split: prod.splits sum.splits option.splits if_splits)
  done

lemma prepare_simulates: "db_ok d \<Longrightarrow> spec_steps d (snd (PreparePromptAttemptReclamation e q d))"
  by (rule prepare_reclamation.after) (auto intro: reclamation_simulates)

lemma reclaim_simulates: "db_ok d \<Longrightarrow> spec_steps d (snd (ReclaimPromptAttempts e q d))"
  by (rule reclaim_attempts.after) (auto intro: reclamation_simulates)

lemmas op_simulations =
  execution_simulates delivery_simulates recovery_simulates create_simulates prepare_simulates reclaim_simulates
  attempts_unchanged [THEN steps_same_tables] create_claim_attempts [THEN steps_same_tables]
  epoch_attempts [OF cas_epoch.epoch_operation_axioms, THEN steps_same_tables]
  epoch_attempts [OF sync_epoch.epoch_operation_axioms, THEN steps_same_tables]
  epoch_attempts [OF advance_epoch.epoch_operation_axioms, THEN steps_same_tables]

lemma op_simulates: "db_ok d \<Longrightarrow> spec_steps d (snd (apply_op e x d))"
  by (cases x) (simp_all add: op_simulations)

text \<open>
  C19: the store implements the abstract machine of prompt attempts: every history of operations, on
  whatever records, is through the abstraction a run of the machine, in which attempts are created
  once, move along the two transition tables, are recovered only before submission, and disappear only
  with their retired Task, all of whose attempts are terminal.
\<close>

theorem store_refines_attempt_spec:
  assumes "db_ok d"
  shows "spec_step\<^sup>*\<^sup>* (attempt_abs d) (attempt_abs (run_ops xs d))"
  using assms
proof (induction xs arbitrary: d)
  case (Cons x xs)
  obtain e y where x: "x = (e, y)" by (cases x)
  from rtranclp_trans [OF op_simulates [OF Cons.prems] Cons.IH [OF op_keeps_ok [OF Cons.prems]], of e y]
  show ?case by (simp add: x)
qed simp

end
