(* ===== verification/Control_Retries.thy ===== *)
theory Control_Retries
  imports Publication_Store Session_Lease Prompt_Attempt
begin

text \<open>
  Retries.  A caller that lost the answer of a call repeats the request.  Each operation below records
  the operation ID and digest of its last change in the row, and recognises its own repetition: it is
  an instance of the contract \<open>retryable_operation\<close>, so the repeated call returns the first answer and
  changes nothing.
\<close>

section \<open>Requests\<close>

text \<open>A repeated request passes validation again; only the time stamp it defaults to may differ.\<close>

lemma checks_replace: "checks cs k = Inr c \<Longrightarrow> (k = Inr c \<Longrightarrow> k' = Inr c') \<Longrightarrow> checks cs k' = Inr c'"
  by simp

lemma execution_retry_request:
  assumes "validateExecutionTransition e q = Inr c"
  shows "validateExecutionTransition (retry_env e t) q =
    Inr (c\<lparr>xt_updated_at := NormalizeControlTime (retry_env e t) (xt_updated_at q)\<rparr>)"
  using assms unfolding validateExecutionTransition_def Let_def
  by (elim checks_replace) (cases "NormalizeEpochFence (xt_fence q)"; simp only: sum.case; (elim checks_replace)?; auto)

lemma delivery_retry_request:
  assumes "validateDeliveryTransition e q = Inr c"
  shows "validateDeliveryTransition (retry_env e t) q =
    Inr (c\<lparr>dt_updated_at := NormalizeControlTime (retry_env e t) (dt_updated_at q)\<rparr>)"
  using assms unfolding validateDeliveryTransition_def Let_def
  by (elim checks_replace) (cases "NormalizeEpochFence (dt_fence q)"; simp only: sum.case; (elim checks_replace)?; auto)

lemma recovery_retry_request:
  assumes "validateRecovery e q = Inr c"
  shows "validateRecovery (retry_env e t) q =
    Inr (c\<lparr>pr_recovered_at := NormalizeControlTime (retry_env e t) (pr_recovered_at q)\<rparr>)"
  using assms unfolding validateRecovery_def Let_def
  by (elim checks_replace) (cases "NormalizeEpochFence (pr_fence q)"; simp only: sum.case; (elim checks_replace)?; auto)

lemma publication_retry_request:
  assumes "validatePublicationTransitionRequest e q = Inr c"
  shows "validatePublicationTransitionRequest (retry_env e t) q =
    Inr (c\<lparr>pt_updated_at := NormalizeControlTime (retry_env e t) (pt_updated_at q)\<rparr>)"
  using assms unfolding validatePublicationTransitionRequest_def Let_def
  by (elim checks_replace) (cases "NormalizeEpochFence (pt_fence q)"; simp only: sum.case; (elim checks_replace)?; auto)

lemma claim_retry_request:
  assumes "validateBranchClaimCAS e q = Inr c"
  shows "validateBranchClaimCAS (retry_env e t) q =
    Inr (c\<lparr>bx_updated_at := NormalizeControlTime (retry_env e t) (bx_updated_at q)\<rparr>)"
  using assms unfolding validateBranchClaimCAS_def Let_def
  by (elim checks_replace) (cases "NormalizeEpochFence (bx_fence q)"; simp only: sum.case; (elim checks_replace)?; auto)

section \<open>Bodies\<close>

text \<open>The branch of each body that recognises its own operation.\<close>

lemma execution_replays:
  assumes "find_row pa_id (xt_id c) (prompt_attempts d) = Some a" "pa_last_operation_id a = xt_operation_id c"
    "pa_last_operation_digest a = xt_operation_digest c" "pa_execution_state a = xt_new_state c"
  shows "execution_body c d = ReturnTx a"
  using assms by (simp add: execution_body_def)

lemma delivery_replays:
  assumes "find_row pa_id (dt_id c) (prompt_attempts d) = Some a" "pa_last_operation_id a = dt_operation_id c"
    "pa_last_operation_digest a = dt_operation_digest c" "pa_delivery_state a = dt_new_state c"
  shows "delivery_body c d = ReturnTx a"
  using assms by (simp add: delivery_body_def)

lemma recovery_replays:
  assumes "find_row pa_id (pr_id c) (prompt_attempts d) = Some a" "pa_last_operation_id a = pr_operation_id c"
    "pa_last_operation_digest a = pr_operation_digest c" "pa_execution_state a = PromptExecutionReserved"
  shows "recover_body c d = ReturnTx a"
  using assms by (simp add: recover_body_def)

lemma publication_replays:
  assumes "find_row pb_id (pt_id c) (publications d) = Some a" "ValidatePublicationTransitionReceipts a c = None"
    "pb_last_operation_id a = pt_operation_id c" "pb_last_operation_digest a = pt_operation_digest c"
    "pb_state a = pt_new_state c" "PublicationTransitionReceiptsMatch a c"
  shows "publication_body c d = ReturnTx a"
  using assms by (simp add: publication_body_def)

lemma claim_replays:
  assumes "find_row bc_id (bx_id c) (branch_claims d) = Some a" "bc_last_operation_id a = bx_operation_id c"
    "bc_last_operation_digest a = bx_operation_digest c" "bc_generation a = bx_new_generation c"
    "bc_last_verified a = bx_new_last_verified c" "bc_availability a = bx_new_availability c"
    "bc_blocked_reason a = bx_blocked_reason c" "bc_related_publication_id a = bx_related_publication_id c"
  shows "cas_claim_body c d = ReturnTx a"
  using assms by (simp add: cas_claim_body_def)

lemma put_found: "find_row pk k t = Some r \<Longrightarrow> pk r' = pk r \<Longrightarrow> find_row pk k (put_row pk k r' t) = Some r'"
  using find_row_SomeD [of pk k t r] find_row_put_row_same [of pk k t r r'] by simp

lemma attempt_results_operation [simp]:
  "pa_last_operation_id (execution_result q a) = xt_operation_id q"
  "pa_last_operation_digest (execution_result q a) = xt_operation_digest q"
  "pa_last_operation_id (delivery_result q' a) = dt_operation_id q'"
  "pa_last_operation_digest (delivery_result q' a) = dt_operation_digest q'"
  "pa_last_operation_id (recover_result q'' a) = pr_operation_id q''"
  "pa_last_operation_digest (recover_result q'' a) = pr_operation_digest q''"
  by (simp_all add: execution_result_def delivery_result_def recover_result_def Let_def)

lemma execution_result_replays:
  assumes "db_ok d" "execution_body c d = Commit a d'"
  shows "execution_body (c\<lparr>xt_updated_at := u\<rparr>) d' = ReturnTx a"
  using assms(2) by (rule execution_commit [OF assms(1)]) (rule execution_replays; simp add: put_found)

lemma delivery_result_replays:
  assumes "db_ok d" "delivery_body c d = Commit a d'"
  shows "delivery_body (c\<lparr>dt_updated_at := u\<rparr>) d' = ReturnTx a"
  using assms(2) by (rule delivery_commit [OF assms(1)]) (rule delivery_replays; simp add: put_found)

lemma recovery_result_replays:
  assumes "db_ok d" "recover_body c d = Commit a d'"
  shows "recover_body (c\<lparr>pr_recovered_at := u\<rparr>) d' = ReturnTx a"
  using assms(2) by (rule recover_commit [OF assms(1)]) (rule recovery_replays; simp add: put_found)

lemma claim_result_replays:
  assumes "db_ok d" "cas_claim_body c d = Commit a d'"
  shows "cas_claim_body (c\<lparr>bx_updated_at := u\<rparr>) d' = ReturnTx a"
  using assms(2)
  by (rule cas_claim_commit [OF assms(1)]) (rule claim_replays; simp add: put_found; simp add: cas_claim_result_def)

text \<open>The receipts a transition wrote are the ones its repetition carries.\<close>

lemma receipts_accepted_again:
  assumes "ValidatePublicationTransitionReceipts p q = None"
  shows "ValidatePublicationTransitionReceipts (publication_result q p) (q\<lparr>pt_updated_at := u\<rparr>) = None"
    "PublicationTransitionReceiptsMatch (publication_result q p) (q\<lparr>pt_updated_at := u\<rparr>)"
proof -
  show "PublicationTransitionReceiptsMatch (publication_result q p) (q\<lparr>pt_updated_at := u\<rparr>)"
    by (simp add: PublicationTransitionReceiptsMatch_def publication_result_def pt_prepared_def pt_publish_def
        pt_verification_def)
  have "transition_receipt_error (publication_result q p) (q\<lparr>pt_updated_at := u\<rparr>) = None"
    using assms by (cases "pt_new_state q")
      (auto simp: ValidatePublicationTransitionReceipts_def transition_receipt_error_def only_prepared_def
        only_publish_def only_verification_def no_receipts_def ValidatePublishReceipt_def
        ValidateVerificationReceipt_def publication_result_def pt_prepared_def pt_publish_def pt_verification_def
        split: option.splits if_splits)
  with assms show "ValidatePublicationTransitionReceipts (publication_result q p) (q\<lparr>pt_updated_at := u\<rparr>) = None"
    by (simp add: ValidatePublicationTransitionReceipts_def)
qed

lemma publication_result_replays:
  assumes "db_ok d" "publication_body c d = Commit a d'"
  shows "publication_body (c\<lparr>pt_updated_at := u\<rparr>) d' = ReturnTx a"
  using assms(2)
  by (rule publication_commit [OF assms(1)])
    (rule publication_replays; simp add: put_found receipts_accepted_again; simp add: publication_result_def)

text \<open>The time stamp of a transition plays no part in the checks of its receipts.\<close>

lemma receipt_checks_stamp [simp]:
  "only_prepared (q\<lparr>pt_updated_at := u\<rparr>) f = only_prepared q f"
  "only_publish (q\<lparr>pt_updated_at := u\<rparr>) g = only_publish q g"
  "only_verification (q\<lparr>pt_updated_at := u\<rparr>) h = only_verification q h"
  "no_receipts (q\<lparr>pt_updated_at := u\<rparr>) = no_receipts q"
  "ValidatePublishReceipt p (q\<lparr>pt_updated_at := u\<rparr>) = ValidatePublishReceipt p q"
  "ValidateVerificationReceipt p (q\<lparr>pt_updated_at := u\<rparr>) = ValidateVerificationReceipt p q"
  by (simp_all add: only_prepared_def only_publish_def only_verification_def no_receipts_def fun_eq_iff
      ValidatePublishReceipt_def ValidateVerificationReceipt_def split: option.splits)

lemma ValidatePublicationTransitionReceipts_stamp:
  "ValidatePublicationTransitionReceipts p (q\<lparr>pt_updated_at := u\<rparr>) = ValidatePublicationTransitionReceipts p q"
  by (cases "pt_new_state q")
    (simp_all add: ValidatePublicationTransitionReceipts_def transition_receipt_error_def)

section \<open>The operations as retryable operations\<close>

text \<open>A call that was itself a repetition is repeated with the same answer.\<close>

lemma replays_again:
  "execution_body c0 d = ReturnTx a0 \<Longrightarrow> execution_body (c0\<lparr>xt_updated_at := u\<rparr>) d = ReturnTx a0"
  "delivery_body c1 d = ReturnTx a1 \<Longrightarrow> delivery_body (c1\<lparr>dt_updated_at := u\<rparr>) d = ReturnTx a1"
  "recover_body c2 d = ReturnTx a2 \<Longrightarrow> recover_body (c2\<lparr>pr_recovered_at := u\<rparr>) d = ReturnTx a2"
  "publication_body c3 d = ReturnTx a3 \<Longrightarrow> publication_body (c3\<lparr>pt_updated_at := u\<rparr>) d = ReturnTx a3"
  "cas_claim_body c4 d = ReturnTx a4 \<Longrightarrow> cas_claim_body (c4\<lparr>bx_updated_at := u\<rparr>) d = ReturnTx a4"
  subgoal by (auto simp: execution_body_def split: if_splits)
  subgoal by (auto simp: delivery_body_def split: if_splits)
  subgoal by (auto simp: recover_body_def split: if_splits)
  subgoal by (auto simp: publication_body_def ValidatePublicationTransitionReceipts_stamp PublicationTransitionReceiptsMatch_def split: if_splits)
  subgoal by (auto simp: cas_claim_body_def split: if_splits)
  done

interpretation execution_retry: retryable_operation TransitionPromptAttemptExecution validateExecutionTransition
  xt_fence xt_fence execution_body
  by unfold_locales (metis execution_retry_request replays_again execution_result_replays)

interpretation delivery_retry: retryable_operation TransitionPromptAttemptDelivery validateDeliveryTransition
  dt_fence dt_fence delivery_body
  by unfold_locales (metis delivery_retry_request replays_again delivery_result_replays)

interpretation recovery_retry: retryable_operation RecoverPromptAttemptPreSubmission validateRecovery
  pr_fence pr_fence recover_body
  by unfold_locales (metis recovery_retry_request replays_again recovery_result_replays)

interpretation publication_retry: retryable_operation TransitionPublication validatePublicationTransitionRequest
  pt_fence pt_fence publication_body
  by unfold_locales (metis publication_retry_request replays_again publication_result_replays)

interpretation claim_retry: retryable_operation CompareAndSwapBranchClaim validateBranchClaimCAS
  bx_fence bx_fence cas_claim_body
  by unfold_locales (metis claim_retry_request replays_again claim_result_replays)

section \<open>Properties\<close>

text \<open>
  An execution transition that succeeded can be repeated, whatever the clock says and even if the
  first answer was lost: the repetition returns the same attempt and leaves the database alone.
\<close>

theorem execution_retry_idempotent:
  assumes "db_ok d" "TransitionPromptAttemptExecution e q d = (Inr a, d')"
  shows "TransitionPromptAttemptExecution (retry_env e t) q d' = (Inr a, d')"
  using assms by (rule execution_retry.retry_returns_same)

text \<open>
  A publication transition that succeeded, receipts included, can be repeated with the same answer
  and no further change.
\<close>

theorem publication_retry_idempotent:
  assumes "db_ok d" "TransitionPublication e q d = (Inr p, d')"
  shows "TransitionPublication (retry_env e t) q d' = (Inr p, d')"
  using assms by (rule publication_retry.retry_returns_same)

text \<open>
  A compare-and-swap of a branch claim that succeeded can be repeated with the same answer and no
  further change, although the version it expected is gone.
\<close>

theorem claim_retry_idempotent:
  assumes "db_ok d" "CompareAndSwapBranchClaim e q d = (Inr c, d')"
  shows "CompareAndSwapBranchClaim (retry_env e t) q d' = (Inr c, d')"
  using assms by (rule claim_retry.retry_returns_same)

end
