(* ===== verification/Control_Examples.thy ===== *)
theory Control_Examples
  imports Attempt_Spec Control_Retries
begin

text \<open>
  A concrete database with rows in every table, and requests on it.  They show that the hypotheses of
  the properties can hold: each witness applies its property to one of these requests, after the
  kernel has evaluated the operation on the database.
\<close>

section \<open>The environment\<close>

definition ex_env :: env where
  "ex_env = \<lparr>env_now = 1000, env_sha256 = (\<lambda>s. replicate 64 (if length s mod 2 = 0 then CHR ''b'' else CHR ''c'')),
     env_json_valid = (\<lambda>_. True), env_uuid_valid = (\<lambda>_. True), env_fault = None\<rparr>"

definition ex_digest :: string where
  "ex_digest = ''sha256:'' @ replicate 64 (CHR ''a'')"

definition ex_sha :: "char \<Rightarrow> string" where
  "ex_sha c = replicate 40 c"

definition ex_fence :: ControllerEpochFence where
  "ex_fence = \<lparr>cf_name = [], cf_epoch = 1, cf_holder_id = ''pod-a''\<rparr>"

definition ex_remote :: RemoteRefState where
  "ex_remote = \<lparr>rr_absent = False, rr_sha = ex_sha (CHR ''d'')\<rparr>"

section \<open>Rows\<close>

definition ex_epoch :: ControllerEpochRow where
  "ex_epoch = \<lparr>ce_name = DefaultControllerEpochName, ce_epoch = 1, ce_holder_id = ''pod-a'',
     ce_request_digest = ex_digest, ce_version = 1, ce_acquired_at = 10, ce_updated_at = 10,
     cer_previous_epoch = None, cer_previous_holder_id = None, cer_advanced_at = None\<rparr>"

definition ex_attempt :: "string \<Rightarrow> string \<Rightarrow> string \<Rightarrow> int \<Rightarrow> PromptExecutionState \<Rightarrow> PromptDeliveryState \<Rightarrow> PromptAttempt" where
  "ex_attempt aid task session lease exec deliv =
     \<lparr>pa_id = aid, pa_key = \<lparr>pak_namespace = ''ns'', pak_task_uid = task, pak_attempt = 1, pak_prompt_id = ''p''\<rparr>,
      pa_session_uid = session, pa_session_lease_generation = lease, pa_runtime_instance_id = ''rt'',
      pa_request_digest = ex_digest, pa_binding_digest = ex_digest, pa_snapshot_digest = ex_digest,
      pa_credential_bindings = [], pa_execution_state = exec, pa_delivery_state = deliv,
      pa_terminal_reason = [], pa_outcome_marker = [], pa_controller_epoch_name = DefaultControllerEpochName,
      pa_controller_epoch = 1, pa_last_operation_id = [], pa_last_operation_digest = [], pa_version = 3,
      pa_created_at = 20, pa_updated_at = 20\<rparr>"

definition ex_attempts :: "PromptAttempt list" where
  "ex_attempts =
     [ex_attempt ''a-leased'' ''t-leased'' ''uid-leased'' 1 PromptExecutionAccepted PromptDeliveryNotRequested,
      (ex_attempt ''a-queued'' ''t-queued'' [] 0 PromptExecutionQueued PromptDeliveryNotRequested)
        \<lparr>pa_runtime_instance_id := []\<rparr>,
      ex_attempt ''a-submitting'' ''t-submitting'' [] 0 PromptExecutionSubmitting PromptDeliveryNotRequested,
      ex_attempt ''a-done'' ''t-done'' [] 0 PromptExecutionSucceeded PromptDeliveryVerifiedExact]"

definition ex_control :: "string \<Rightarrow> string \<Rightarrow> SessionControlRow" where
  "ex_control name uid =
     \<lparr>scr_namespace = ''ns'', scr_session_name = name, scr_session_uid = uid, scr_request_digest = ex_digest,
      scr_availability = SessionAvailable, scr_runtime_session_generation = 0, scr_lease_generation = 1,
      scr_lease_task_uid = [], scr_lease_attempt = 0, scr_lease_prompt_id = [], scr_lease_request_digest = [],
      scr_lease_acquired_at = None, scr_lease_expires_at = None, scr_blocked_reason = [],
      scr_related_prompt_attempt_id = [], scr_related_publication_id = [], scr_verified_repository_id = [],
      scr_verified_ref = [], scr_verified_sha = [], scr_controller_epoch_name = DefaultControllerEpochName,
      scr_controller_epoch = 1, scr_last_operation_id = [], scr_last_operation_digest = [], scr_version = 2,
      scr_created_at = 20, scr_updated_at = 20\<rparr>"

definition ex_controls :: "SessionControlRow list" where
  "ex_controls =
     [(ex_control ''leased'' ''uid-leased'')\<lparr>scr_lease_task_uid := ''t-leased'', scr_lease_attempt := 1,
        scr_lease_prompt_id := ''p'', scr_lease_request_digest := ex_digest, scr_lease_acquired_at := Some 30\<rparr>,
      ex_control ''free'' ''uid-free'',
      (ex_control ''blocked'' ''uid-blocked'')\<lparr>scr_availability := SessionReconciliationBlocked,
        scr_blocked_reason := ''conflict'', scr_related_publication_id := ''pub-open''\<rparr>]"

definition ex_session :: "string \<Rightarrow> string \<Rightarrow> string \<Rightarrow> SessionRow" where
  "ex_session name uid task =
     \<lparr>ss_namespace = ''ns'', ss_name = name, ss_session_type = ''task'', ss_owner_type = [], ss_owner_ref = [],
      ss_active_task = task, ss_active_task_uid = [], ss_active_task_expires_at = None, ss_chat_turn_id = [],
      ss_chat_turn_expires_at = None, ss_control_session_uid = uid, ss_message_count = 0, ss_input_tokens = 5,
      ss_output_tokens = 7, ss_cancelled = False, ss_created_at = 20, ss_updated_at = 30\<rparr>"

definition ex_sessions :: "SessionRow list" where
  "ex_sessions =
     [ex_session ''leased'' ''uid-leased'' ''t-leased'', ex_session ''free'' ''uid-free'' [],
      ex_session ''blocked'' ''uid-blocked'' []]"

definition ex_claim :: "string \<Rightarrow> string \<Rightarrow> BranchClaim" where
  "ex_claim cid ref =
     \<lparr>bc_id = cid, bc_repository_id = ''repo'', bc_ref = ref, bc_owner_kind = BranchClaimOwnerTask,
      bc_owner_uid = ''t-leased'', bc_generation = 1, bc_last_verified = ex_remote,
      bc_availability = BranchClaimAvailable, bc_blocked_reason = [], bc_related_publication_id = [],
      bc_request_digest = ex_digest, bc_controller_epoch_name = DefaultControllerEpochName,
      bc_controller_epoch = 1, bc_last_operation_id = [], bc_last_operation_digest = [], bc_version = 1,
      bc_created_at = 20, bc_updated_at = 20\<rparr>"

definition ex_spare_claim :: string where
  "ex_spare_claim = CanonicalControlID ex_env ''branch-claim'' [''repo'', ''refs/heads/spare'']"

definition ex_claims :: "BranchClaim list" where
  "ex_claims =
     [ex_claim ''c-main'' ''refs/heads/main'', ex_claim ex_spare_claim ''refs/heads/spare'',
      (ex_claim ''c-blocked'' ''refs/heads/blocked'')\<lparr>bc_owner_kind := BranchClaimOwnerSession,
        bc_owner_uid := ''uid-blocked'', bc_availability := BranchClaimReconciliationBlocked,
        bc_blocked_reason := ''conflict'', bc_related_publication_id := ''pub-open''\<rparr>]"

definition ex_prepared :: PreparedPublicationReceipt where
  "ex_prepared = \<lparr>ppr_operation_id = ''op-prepare'', ppr_request_digest = ex_digest, ppr_tree_sha = ex_sha (CHR ''1''),
     ppr_commit_sha = ex_sha (CHR ''2''), ppr_manifest_digest = ex_digest, ppr_relative_root = ''.'',
     ppr_bundle_artifact_id = ''bundle'', ppr_bundle_digest = ex_digest, ppr_bundle_size_bytes = 10,
     ppr_bundle_media_type = PreparedBundleMediaType,
     ppr_bundle_ref = bundle_ref_prefix @ replicate 64 (CHR ''a''), ppr_prepared_at = 40\<rparr>"

definition ex_publish :: PublishOperationReceipt where
  "ex_publish = \<lparr>por_operation_id = ''op-publish'', por_request_digest = ex_digest, por_target_repository_id = ''repo'',
     por_target_ref = ''refs/heads/main'', por_remote_before = ex_remote, por_expected_commit_sha = ex_sha (CHR ''2''),
     por_acknowledgement_unknown = False, por_published_at = 50\<rparr>"

definition ex_verification :: PublicationVerificationReceipt where
  "ex_verification = \<lparr>pvr_operation_id = ''op-verify'', pvr_request_digest = ex_digest,
     pvr_outcome = PublicationVerifiedExact, pvr_expected_commit_sha = ex_sha (CHR ''2''),
     pvr_observed_remote = \<lparr>rr_absent = False, rr_sha = ex_sha (CHR ''2'')\<rparr>, pvr_descendant_proof_digest = [],
     pvr_verified_at = 60\<rparr>"

definition ex_publication :: "string \<Rightarrow> Publication" where
  "ex_publication pid =
     \<lparr>pb_id = pid, pb_namespace = ''ns'', pb_generation = 1, pb_task_uid = ''t-leased'', pb_attempt = 1,
      pb_prompt_id = ''p'', pb_session_uid = ''uid-leased'', pb_branch_claim_id = ''c-main'',
      pb_branch_claim_generation = 1, pb_source_repository_id = ''repo'', pb_source_ref = ''refs/heads/main'',
      pb_source_baseline_sha = ex_sha (CHR ''d''), pb_target_repository_id = ''repo'',
      pb_target_ref = ''refs/heads/main'', pb_baseline = ex_remote, pb_artifact_id = ''artifact'',
      pb_artifact_digest = ex_digest, pb_artifact_size_bytes = 10, pb_artifact_media_type = ''application/x-tar'',
      pb_publication_credential_ref = ''credential'', pb_commit_identity = ''orka'', pb_commit_message = ''change'',
      pb_commit_timestamp = 35, pb_pr_intent = None, pb_request_digest = ex_digest, pb_state = PublicationPreparing,
      pb_prepared_receipt = None, pb_publish_receipt = None, pb_verification_receipt = None,
      pb_pull_request_receipt = None, pb_terminal_reason = [], pb_controller_epoch_name = DefaultControllerEpochName,
      pb_controller_epoch = 1, pb_last_operation_id = [], pb_last_operation_digest = [], pb_version = 1,
      pb_created_at = 35, pb_updated_at = 35\<rparr>"

definition ex_publications :: "Publication list" where
  "ex_publications =
     [(ex_publication ''pub-open'')\<lparr>pb_state := PublicationPrepared, pb_prepared_receipt := Some ex_prepared\<rparr>,
      (ex_publication ''pub-exact'')\<lparr>pb_state := PublicationVerifiedExact, pb_prepared_receipt := Some ex_prepared,
        pb_publish_receipt := Some ex_publish, pb_verification_receipt := Some ex_verification\<rparr>]"

definition ex_effect :: "string \<Rightarrow> string \<Rightarrow> ExternalEffect" where
  "ex_effect eid op =
     \<lparr>ee_id = eid, ee_identity = \<lparr>ei_kind = ''git-push'', ei_namespace = ''ns'', ei_aggregate_id = ''pub-open'',
        ei_operation_id = op\<rparr>,
      ee_request_digest = ex_digest, ee_state = ExternalEffectInFlight, ee_response_digest = [], ee_response = [],
      ee_lease_owner = ''worker-a'', ee_lease_expires_at = Some 2000, ee_attempts = 1,
      ee_controller_epoch_name = DefaultControllerEpochName, ee_controller_epoch = 1, ee_version = 2,
      ee_created_at = 45, ee_updated_at = 45\<rparr>"

definition ex_effects :: "ExternalEffect list" where
  "ex_effects =
     [ex_effect ''e-flight'' ''op-flight'',
      (ex_effect ''e-done'' ''op-done'')\<lparr>ee_state := ExternalEffectSucceeded, ee_response_digest := ex_digest,
        ee_response := ''{}'', ee_lease_owner := [], ee_lease_expires_at := None\<rparr>]"

definition ex_projection :: "string \<Rightarrow> OutboxProjection" where
  "ex_projection pid =
     \<lparr>ob_id = pid, ob_aggregate_kind = ''Task'', ob_aggregate_id = ''t-done'', ob_projection_kind = ''TaskTerminalStatus'',
      ob_payload_digest = ex_digest, ob_payload = ''{}'', ob_state = OutboxProjectionPending, ob_attempts = 0,
      ob_initial_available_at = 70, ob_available_at = 70, ob_lease_owner = [], ob_lease_expires_at = None,
      ob_delivery_digest = [], ob_last_error = [], ob_last_operation_id = [], ob_last_operation_digest = [],
      ob_controller_epoch_name = DefaultControllerEpochName, ob_controller_epoch = 1, ob_version = 1,
      ob_created_at = 70, ob_updated_at = 70, ob_delivered_at = None\<rparr>"

definition ex_projections :: "OutboxProjection list" where
  "ex_projections =
     [ex_projection ''o-pending'',
      (ex_projection ''o-delivering'')\<lparr>ob_state := OutboxProjectionDelivering, ob_lease_owner := ''worker-a'',
        ob_lease_expires_at := Some 2000, ob_attempts := 1, ob_version := 2\<rparr>,
      (ex_projection ''o-delivered'')\<lparr>ob_state := OutboxProjectionDelivered, ob_delivered_at := Some 80\<rparr>]"

definition ex_db :: db where
  "ex_db = \<lparr>controller_epochs = [ex_epoch], prompt_attempts = ex_attempts, prompt_attempt_reclamations = [],
     sessions = ex_sessions, session_messages = [], session_cleanup_intents = [], session_cleanup_completions = [],
     native_session_deleted_names = [], native_session_snapshots = [], native_session_operations = [],
     native_session_finalizations = [], session_controls = ex_controls, session_turns = [], branch_claims = ex_claims,
     publications = ex_publications, external_effects = ex_effects, outbox_projections = ex_projections,
     store_dataset = new_dataset ''dataset''\<rparr>"

section \<open>The database satisfies its invariant\<close>

lemmas table_oks = epochs.table_ok_def attempts.table_ok_def reclamations.table_ok_def sessions.table_ok_def
  controls.table_ok_def turns.table_ok_def claims.table_ok_def pubs.table_ok_def effects.table_ok_def
  outbox.table_ok_def

lemma ex_tables:
  "epochs.table_ok (controller_epochs ex_db)" "attempts.table_ok (prompt_attempts ex_db)"
  "reclamations.table_ok (prompt_attempt_reclamations ex_db)" "sessions.table_ok (sessions ex_db)"
  "controls.table_ok (session_controls ex_db)" "turns.table_ok (session_turns ex_db)"
  "claims.table_ok (branch_claims ex_db)" "pubs.table_ok (publications ex_db)"
  "effects.table_ok (external_effects ex_db)" "outbox.table_ok (outbox_projections ex_db)"
  subgoal unfolding table_oks by code_simp
  subgoal unfolding table_oks by code_simp
  subgoal unfolding table_oks by code_simp
  subgoal unfolding table_oks by code_simp
  subgoal unfolding table_oks by code_simp
  subgoal unfolding table_oks by code_simp
  subgoal unfolding table_oks by code_simp
  subgoal unfolding table_oks by code_simp
  subgoal unfolding table_oks by code_simp
  subgoal unfolding table_oks by code_simp
  done

lemma ex_keys:
  "\<forall>p \<in> set (publications ex_db). find_row bc_id (pb_branch_claim_id p) (branch_claims ex_db) \<noteq> None"
  "\<forall>c \<in> set (session_controls ex_db). find_row session_pk (session_control_pk c) (sessions ex_db) \<noteq> None"
  subgoal by code_simp
  subgoal by code_simp
  done

lemma ex_ok: "db_ok ex_db"
  unfolding db_ok_def using ex_tables ex_keys by (intro conjI)

lemma ex_receipts: "receipts_inv ex_db"
  by code_simp

section \<open>Requests\<close>

definition ex_cas :: ControllerEpochCAS where
  "ex_cas = \<lparr>cas_name = [], cas_expected_version = 1, cas_expected_epoch = 1, cas_new_epoch = 2,
     cas_holder_id = ''pod-b'', cas_request_digest = ex_digest, cas_updated_at = 0\<rparr>"

definition ex_advance :: AdvanceControllerEpochRequest where
  "ex_advance = \<lparr>ax_dataset_id = ''dataset'',
     ax_epoch = \<lparr>ce_name = DefaultControllerEpochName, ce_epoch = 2, ce_holder_id = ''pod-b'',
       ce_request_digest = ex_digest, ce_version = 2, ce_acquired_at = 90, ce_updated_at = 90\<rparr>,
     ax_installation_id = ''installation'', ax_acknowledged_epoch = 1\<rparr>"

definition ex_execution :: "string \<Rightarrow> PromptExecutionState \<Rightarrow> PromptExecutionState \<Rightarrow> PromptAttemptExecutionTransition" where
  "ex_execution aid src dst = \<lparr>xt_id = aid, xt_fence = ex_fence, xt_expected_version = 3,
     xt_expected_state = src, xt_new_state = dst, xt_operation_id = ''op-execution'',
     xt_operation_digest = ex_digest, xt_runtime_instance_id = [], xt_session_uid = [],
     xt_session_lease_generation = 0, xt_terminal_reason = [], xt_outcome_marker = [], xt_updated_at = 0\<rparr>"

definition ex_recovery :: PromptAttemptPreSubmissionRecovery where
  "ex_recovery = \<lparr>pr_id = ''a-submitting'', pr_fence = ex_fence, pr_expected_version = 3,
     pr_expected_state = PromptExecutionSubmitting, pr_proven_not_accepted = True, pr_preserve_bindings = False,
     pr_operation_id = ''op-recover'', pr_operation_digest = ex_digest, pr_recovered_at = 0\<rparr>"

definition ex_claim_cas :: BranchClaimCAS where
  "ex_claim_cas = \<lparr>bx_id = ''c-main'', bx_fence = ex_fence, bx_expected_version = 1, bx_expected_generation = 1,
     bx_new_generation = 2, bx_expected_last_verified = ex_remote,
     bx_new_last_verified = \<lparr>rr_absent = False, rr_sha = ex_sha (CHR ''2'')\<rparr>,
     bx_expected_availability = BranchClaimAvailable, bx_new_availability = BranchClaimAvailable,
     bx_blocked_reason = [], bx_related_publication_id = [], bx_operation_id = ''op-claim'',
     bx_operation_digest = ex_digest, bx_updated_at = 0\<rparr>"

definition ex_new_publication :: "Publication option \<times> ControllerEpochFence" where
  "ex_new_publication = (Some (ex_publication ''pub-new''), ex_fence)"

definition ex_publication_step :: PublicationTransition where
  "ex_publication_step = \<lparr>pt_id = ''pub-open'', pt_fence = ex_fence, pt_expected_version = 1,
     pt_expected_generation = 1, pt_expected_state = PublicationPrepared, pt_new_state = PublicationPublishing,
     pt_operation_id = ''op-publish'', pt_operation_digest = ex_digest, pt_prepared_receipt = None,
     pt_publish_receipt = None, pt_verification_receipt = None, pt_terminal_reason = [], pt_updated_at = 0\<rparr>"

definition ex_effect_step :: "string \<Rightarrow> ExternalEffectTransition" where
  "ex_effect_step owner = \<lparr>et_id = ''e-flight'', et_fence = ex_fence, et_expected_version = 2,
     et_expected_state = ExternalEffectInFlight, et_new_state = ExternalEffectInFlight, et_request_digest = ex_digest,
     et_response_digest = [], et_response = [], et_expected_lease_owner = ''worker-a'', et_lease_owner = owner,
     et_lease_expires_at = Some 3000, et_updated_at = 1500\<rparr>"

definition ex_claim_outbox :: "string \<Rightarrow> ClaimOutboxProjectionsRequest" where
  "ex_claim_outbox worker = \<lparr>oc_fence = ex_fence, oc_worker_id = worker, oc_limit = 10, oc_lease_duration = 5000,
     oc_now = 2500\<rparr>"

definition ex_acquire :: "string \<Rightarrow> string \<Rightarrow> AcquireSessionMutationLeaseRequest" where
  "ex_acquire name uid = \<lparr>aq_namespace = ''ns'', aq_session_name = name, aq_session_uid = uid, aq_fence = ex_fence,
     aq_expected_version = 2, aq_expected_lease_generation = 1, aq_task_uid = ''t-other'', aq_attempt = 1,
     aq_prompt_id = ''p'', aq_request_digest = ex_digest, aq_acquired_at = 0, aq_expires_at = None\<rparr>"

definition ex_turn :: CreateSessionTurnRequest where
  "ex_turn = \<lparr>ct_turn = \<lparr>st_id = [],
       st_key = \<lparr>tk_session_uid = ''uid-leased'', tk_lease_generation = 1, tk_task_uid = ''t-leased'', tk_attempt = 1,
         tk_prompt_id = ''p''\<rparr>,
       st_prompt_attempt_id = ''a-leased'', st_request_digest = ex_digest, st_user_prompt = ''fix it'',
       st_state = SessionTurn_other [], st_terminal_kind = SessionTurnTerminal_other [], st_terminal_content = [],
       st_finalization_digest = [], st_native_session_digest = [], st_publication_id = [],
       st_publication_receipt = None, st_projection_id = [], st_projection_kind = [], st_projection_digest = [],
       st_projection_available_at = 0, st_controller_epoch_name = [], st_controller_epoch = 0, st_version = 0,
       st_created_at = 0, st_finalized_at = None, st_updated_at = 0\<rparr>,
     ct_fence = ex_fence, ct_expected_session_version = 2\<rparr>"

definition ex_reclaim :: ReclaimPromptAttemptsRequest where
  "ex_reclaim = \<lparr>rp_namespace = ''ns'', rp_task_name = ''task'', rp_task_uid = ''t-queued'',
     rp_mode = PromptAttemptReclamationUnbound, rp_continuity_session = False, rp_final_continuity_session = False,
     rp_final_prompt_attempt_id = [], rp_terminal_projection_id = [], rp_related_external_effect_aggregate_ids = [],
     rp_fence = ex_fence\<rparr>"

definition ex_reserve :: PromptAttemptExecutionTransition where
  "ex_reserve = ex_execution ''a-queued'' PromptExecutionQueued PromptExecutionReserved"

definition ex_cancel :: PromptAttemptExecutionTransition where
  "ex_cancel = ex_execution ''a-queued'' PromptExecutionQueued PromptExecutionCancelled"

section \<open>The requests succeed and change the database\<close>

definition changes :: "(store_error + 'a) \<times> db \<Rightarrow> db \<Rightarrow> bool" where
  "changes r d \<longleftrightarrow> \<not> isl (fst r) \<and> snd r \<noteq> d"

lemma changesE:
  assumes "changes r d"
  obtains a d' where "r = (Inr a, d')" "d' \<noteq> d"
  using assms by (cases r; cases "fst r") (auto simp: changes_def)

lemma ex_advance_runs: "changes (AdvanceControllerEpoch ex_env ex_advance ex_db) ex_db"
  by code_simp

lemma ex_reserve_runs: "changes (TransitionPromptAttemptExecution ex_env ex_reserve ex_db) ex_db"
  by code_simp

lemma ex_recovery_runs: "changes (RecoverPromptAttemptPreSubmission ex_env ex_recovery ex_db) ex_db"
  by code_simp

lemma ex_new_publication_runs: "changes (CreatePublication ex_env ex_new_publication ex_db) ex_db"
  by code_simp

lemma ex_claim_outbox_runs: "changes (ClaimOutboxProjections ex_env (ex_claim_outbox ''worker-b'') ex_db) ex_db"
  by code_simp

lemma ex_acquire_runs: "changes (AcquireSessionMutationLease ex_env (ex_acquire ''free'' ''uid-free'') ex_db) ex_db"
  by code_simp

lemma ex_reclaim_runs: "changes (ReclaimPromptAttempts ex_env ex_reclaim ex_db) ex_db"
  by code_simp

end
