(* ===== verification/Cleanup_Witnesses.thy ===== *)
theory Cleanup_Witnesses
  imports Cleanup_Runs Control_Examples
begin

text \<open>
  A cleanup at concrete inputs: a session with one finalized turn whose projection was delivered, its plan, the completion of
  the plan, and the properties of \<^verbatim>\<open>Cleanup_Runs\<close> at them.
\<close>

section \<open>A session to clean up\<close>

definition ex_cleanup_env :: cleanup_env where
  "ex_cleanup_env = \<lparr>cl_env = ex_env, cl_marshal_strings = concat, cl_marshal_receipt = tc_turn_id, cl_marker_decodes = (\<lambda>_. True)\<rparr>"

definition ex_closed_id :: string where
  "ex_closed_id = CanonicalControlID ex_env ''session-turn'' [''uid-leased'', ''1'', ''t-leased'', ''1'', ''p'']"

definition ex_settled :: OutboxProjection where
  "ex_settled = (ex_projection (CanonicalControlID ex_env ''outbox'' [ex_closed_id, ''TaskTerminalStatus'']))
     \<lparr>ob_aggregate_kind := sessionTurnAggregateKind, ob_aggregate_id := ex_closed_id,
      ob_payload_digest := CanonicalBytesDigest ex_env ''{}'', ob_state := OutboxProjectionDelivered,
      ob_delivered_at := Some 95, ob_delivery_digest := ex_digest\<rparr>"

definition ex_closed_turn :: SessionTurnRow where
  "ex_closed_turn = (open_turn_row ''ns'' ''leased'' ((ct_turn ex_turn)\<lparr>st_id := ex_closed_id,
       st_controller_epoch_name := DefaultControllerEpochName, st_controller_epoch := 1\<rparr>))
     \<lparr>st_state := SessionTurnFinalized, st_terminal_kind := SessionTurnAssistantResult, st_terminal_content := ''fixed'',
      st_finalization_digest := ex_digest, st_projection_id := ob_id ex_settled, st_projection_kind := ''TaskTerminalStatus'',
      st_projection_digest := ob_payload_digest ex_settled, st_finalized_at := Some 90\<rparr>"

definition ex_closing_db :: db where
  "ex_closing_db = (empty_db ''dataset'')\<lparr>sessions := [ex_session ''leased'' ''uid-leased'' [], ex_session ''free'' [] []],
     session_turns := [ex_closed_turn], outbox_projections := [ex_settled]\<rparr>"

definition ex_plan :: SessionCleanupIntent where
  "ex_plan = \<lparr>ci_namespace = ''ns'', ci_session_name = ''leased'', ci_session_uid = ''uid-leased'', ci_control_object_uid = [],
     ci_control_request_digest = [], ci_expected_control_version = 0, ci_expected_lease_generation = 0,
     ci_expected_control_last_operation_id = [], ci_expected_control_last_digest = [], ci_expected_verified_baseline = None,
     ci_lease_name = [], ci_lease_object_uid = [], ci_branch_claims = [], ci_operation_id = ''op-clean'',
     ci_operation_digest = ex_digest, ci_prepared_at = 100, ci_gateway = None\<rparr>"

definition ex_complete :: CompleteSessionCleanupRequest where
  "ex_complete = \<lparr>cs_namespace = ''ns'', cs_session_name = ''leased'', cs_operation_id = ''op-clean'', cs_operation_digest = ex_digest\<rparr>"

definition ex_open :: store_db where
  "ex_open = (empty_store ''dataset'')\<lparr>control := ex_closing_db\<rparr>"

definition ex_planned :: store_db where
  "ex_planned = cleanup_run [Prepare ex_cleanup_env ex_plan] ex_open"

definition ex_cleaned :: store_db where
  "ex_cleaned = cleanup_run [Complete ex_cleanup_env ex_complete] ex_planned"

definition ex_again :: SessionRecord where
  "ex_again = \<lparr>sr_namespace = ''ns'', sr_name = ''leased'', sr_session_type = ''task'', sr_active_task = [], sr_active_task_uid = [],
     sr_message_count = 0, sr_input_tokens = 0, sr_output_tokens = 0, sr_cancelled = False, sr_created_at = 3,
     sr_updated_at = 3, sr_messages = []\<rparr>"

definition ex_next :: session_env where
  "ex_next = \<lparr>sx_now = 2000, sx_fault = None, sx_random = (\<lambda>i. Some (FormatInt (int i)))\<rparr>"

definition ex_after_ops :: "cleanup_op list" where
  "ex_after_ops = [StoreOp ex_next (CreateSession ex_again), BindIdentity ex_env ''ns'' ''leased'' ''uid-other'']"

section \<open>Evaluation\<close>

lemma ex_closing_tables:
  "sessions.table_ok (sessions ex_closing_db)" "turns.table_ok (session_turns ex_closing_db)"
  "outbox.table_ok (outbox_projections ex_closing_db)"
  unfolding table_oks by code_simp+

lemma ex_open_ok: "cleanup_ok ex_open"
proof -
  have "db_ok ex_closing_db"
    using ex_closing_tables db_ok_empty [of "''dataset''"] by (simp add: db_ok_def ex_closing_db_def empty_db_def)
  then show ?thesis
    by (simp add: cleanup_ok_def store_ok_def transcripts_ok_def messages_ok_def cleanup_tables_ok_def receipts_unique_def
        ex_open_def ex_closing_db_def empty_db_def empty_store_def store_db.defs event_db.defs ex_session_def session_transcript_def)
qed

lemma ex_planned_ok: "cleanup_ok ex_planned"
  unfolding ex_planned_def by (rule cleanup_run_ok [OF ex_open_ok]) simp

lemma ex_cleaned_ok: "cleanup_ok ex_cleaned"
  unfolding ex_cleaned_def by (rule cleanup_run_ok [OF ex_planned_ok]) simp

lemma ex_planned_intents: "session_cleanup_intents (control ex_planned) = [ex_plan]"
  by code_simp

lemma ex_planned_found: "getSessionCleanupIntentTx ''ns'' ''leased'' (control ex_planned) = Some ex_plan"
  by (simp add: getSessionCleanupIntentTx_def ex_planned_intents ex_plan_def cleanup_intent_pk_def find_row_def)

lemma ex_complete_runs: "fst (completeSessionCleanupWrite ex_cleanup_env ex_complete ex_planned) = Inr ()"
  by code_simp

lemma ex_completed: "completeSessionCleanupWrite ex_cleanup_env ex_complete ex_planned = (Inr (), ex_cleaned)"
  using ex_complete_runs by (simp add: ex_cleaned_def cleanup_run_def prod_eq_iff)

lemma ex_planned_turns: "session_turns (control ex_planned) = [ex_closed_turn]"
  by code_simp

lemma ex_cleaned_completions:
  "session_cleanup_completions (control ex_cleaned) = [cleanup_completion ex_cleanup_env ex_plan ex_complete]"
  by code_simp

section \<open>Witnesses\<close>

theorem deleted_identity_reserved_witness:
  "refused (createSessionWrite ex_next ex_again (control (cleanup_run ex_after_ops ex_cleaned)))
     (control (cleanup_run ex_after_ops ex_cleaned)) \<and>
   HasSessionCleanupFenceForUID (control (cleanup_run ex_after_ops ex_cleaned)) ''uid-leased''"
proof -
  let ?c = "cleanup_completion ex_cleanup_env ex_plan ex_complete"
  have c: "getSessionCleanupCompletionTx ''ns'' ''leased'' (control ex_cleaned) = Some ?c"
    by (simp add: getSessionCleanupCompletionTx_def ex_cleaned_completions cleanup_completion_def ex_complete_def
        cleanup_completion_pk_def find_row_def)
  have r: "reserving ?c" "cc_session_uid ?c = ''uid-leased''"
    by (simp_all add: reserving_def reusable_completion_def cleanup_completion_def ex_plan_def)
  have ops: "list_all fresh_cleanup_op ex_after_ops" by (simp add: ex_after_ops_def ex_again_def)
  have trim: "TrimSpace ''uid-leased'' = ''uid-leased''" by code_simp
  show ?thesis
    using deleted_identity_reserved [OF ex_cleaned_ok c r(1) ops refl, of ex_again ex_next] by (simp add: r(2) trim ex_again_def)
qed

theorem cleanup_plan_exclusive_witness:
  "getSessionCleanupIntentTx ''ns'' ''leased'' (control (cleanup_run ex_after_ops ex_planned)) = Some ex_plan \<and>
   refused (deleteSessionWrite ex_next ''ns'' ''leased'' (cleanup_run ex_after_ops ex_planned)) (cleanup_run ex_after_ops ex_planned)"
proof -
  have ops: "list_all (\<lambda>x. fresh_cleanup_op x \<and> \<not> completes ex_plan x) ex_after_ops" by (simp add: ex_after_ops_def ex_again_def)
  have trim: "TrimSpace ''op-other'' \<noteq> ''op-clean''" by code_simp
  show ?thesis
    using cleanup_plan_exclusive [OF ex_planned_ok ex_planned_found ops refl, of ex_again "ex_plan\<lparr>ci_operation_id := ''op-other''\<rparr>"
        "ex_complete\<lparr>cs_operation_id := ''op-other''\<rparr>" ex_next] trim
    by (simp add: ex_again_def ex_plan_def ex_complete_def)
qed


theorem cleanup_receipts_readable_witness:
  "\<exists>p. getOutboxProjection (st_projection_id ex_closed_turn) (control ex_planned) = Some p \<and>
     GetSessionTurnCleanupReceipt ex_cleanup_env ex_cleaned ''ns'' ''leased'' ''a-leased'' =
       Inr (turn_receipt ex_plan (SessionTurn.truncate ex_closed_turn) p)"
proof -
  have key: "''ns'' = cs_namespace ex_complete" "''leased'' = cs_session_name ex_complete" by (simp_all add: ex_complete_def)
  have t: "ex_closed_turn \<in> set (session_turns (control ex_planned))" "session_turn_of ''ns'' ''leased'' ex_closed_turn"
    "st_prompt_attempt_id ex_closed_turn = ''a-leased''"
    by (simp_all add: ex_planned_turns ex_closed_turn_def session_turn_of_def open_turn_row_def SessionTurn.defs SessionTurnRow.defs
        ex_turn_def)
  from cleanup_receipts_readable [OF ex_planned_ok ex_planned_found ex_completed key t(1,2)] t(3) show ?thesis by auto
qed

end
