(* ===== verification/Store_Witnesses.thy ===== *)
theory Store_Witnesses
  imports Store_Properties
begin

text \<open>Concrete runs of the session store: the properties of \<^verbatim>\<open>Store_Properties\<close> at concrete inputs.\<close>

section \<open>Example sessions and runs\<close>

definition ex_sx :: "int \<Rightarrow> session_env" where
  "ex_sx now = \<lparr>sx_now = now, sx_fault = None, sx_random = (\<lambda>i. Some (FormatInt (int i)))\<rparr>"

definition ex_record :: "string \<Rightarrow> SessionRecord" where
  "ex_record name =
     \<lparr>sr_namespace = ''ns'', sr_name = name, sr_session_type = ''chat'', sr_active_task = [], sr_active_task_uid = [],
      sr_message_count = 0, sr_input_tokens = 0, sr_output_tokens = 0, sr_cancelled = False, sr_created_at = 3,
      sr_updated_at = 3, sr_messages = []\<rparr>"

definition ex_message :: "string \<Rightarrow> string \<Rightarrow> SessionMessage" where
  "ex_message mid content =
     \<lparr>ms_id = mid, ms_order = 0, ms_role = ''user'', ms_content = content, ms_name = [], ms_input = None,
      ms_tool_calls = None, ms_tool_call_id = [], ms_source_type = [], ms_source_ref = [], ms_metadata = None,
      ms_timestamp = 0\<rparr>"

definition ex_locked :: "(session_env \<times> store_op) list" where
  "ex_locked = [(ex_sx 5, CreateSession (ex_record ''s'')), (ex_sx 6, LockUntil ''ns'' ''s'' ''task'' ''uid'' 100)]"

definition ex_reserved :: "(session_env \<times> store_op) list" where
  "ex_reserved = [(ex_sx 5, AcquireTurn (Some (ex_record ''s'')) ''turn'' 100)]"

definition ex_traffic :: "(session_env \<times> store_op) list" where
  "ex_traffic = [(ex_sx 20, IsLocked ''ns'' ''s'' ''other'' ''u''),
     (ex_sx 30, AppendMessages ''ns'' ''s'' [] [] [ex_message ''m1'' ''hello''])]"

definition ex_state :: "(session_env \<times> store_op) list \<Rightarrow> store_db" where
  "ex_state ops = store_run ops (empty_store ''dataset'')"

lemma ex_state_ok: "\<forall>(e, op) \<in> set ops. fresh_op op \<Longrightarrow> store_ok (control (ex_state ops))"
  unfolding ex_state_def by (rule run_ok [OF empty_store_ok])

lemma ex_ops_fresh:
  "\<forall>(e, op) \<in> set ex_locked. fresh_op op" "\<forall>(e, op) \<in> set ex_reserved. fresh_op op" "\<forall>(e, op) \<in> set ex_traffic. fresh_op op"
  by (simp_all add: ex_locked_def ex_reserved_def ex_traffic_def ex_record_def)

definition ex_locked_row :: SessionRow where
  "ex_locked_row = take_lock ''task'' ''uid'' (Some 100) (session_row (ex_record ''s''))"

lemma ex_locked_found: "row_at (''ns'', ''s'') (control (ex_state ex_locked)) = Some ex_locked_row"
  by code_simp

lemma ex_reserved_found:
  "row_at (''ns'', ''s'') (control (ex_state ex_reserved)) =
     Some (reserve_turn ''turn'' 100 5 (chat_session_row 5 (ex_record ''s'')))"
  by code_simp

definition ex_batch :: "SessionMessage list" where
  "ex_batch = [ex_message ''m1'' ''hello'', ex_message ''m2'' ''world'']"

definition ex_append :: "(store_error + unit) \<times> db" where
  "ex_append = appendMessagesWrite (ex_sx 10) ''ns'' ''s'' ex_batch (control (ex_state ex_locked))"

definition ex_commit :: "(store_error + unit) \<times> db" where
  "ex_commit = commitSessionTurnWrite (ex_sx 10) (Some (ex_record ''s'')) ''turn'' 0 ex_batch 1 2 (control (ex_state ex_reserved))"

definition ex_pages :: "(session_env \<times> store_op) list" where
  "ex_pages = [(ex_sx 5, CreateSession (ex_record ''b'')), (ex_sx 6, CreateSession (ex_record ''a''))]"

lemma ex_append_succeeds: "fst ex_append = Inr ()"
  by code_simp

lemma ex_commit_succeeds: "fst ex_commit = Inr ()"
  by code_simp

lemma ex_appended_row:
  "row_at (''ns'', ''s'') (snd ex_append) = Some (count_messages 2 10 ex_locked_row)"
  by code_simp

section \<open>Witnesses\<close>


theorem session_lock_exclusive_witness:
  "refused (deleteSessionWrite (ex_sx 40) ''ns'' ''s'' (store_run ex_traffic (ex_state ex_locked)))
     (store_run ex_traffic (ex_state ex_locked))"
proof -
  have held: "lock_held ''task'' ''uid'' (Some 100) ex_locked_row"
    by (simp add: lock_held_def ex_locked_row_def take_lock_def)
  have ops: "\<forall>(e, op) \<in> set ex_traffic. fresh_op op \<and> \<not> expired (sx_now e) (Some 100) \<and> \<not> by_owner ''task'' ''uid'' op"
    by (simp add: ex_traffic_def ex_sx_def expired_def)
  show ?thesis
    using session_lock_exclusive [OF ex_state_ok [OF ex_ops_fresh(1)] ex_locked_found held ops, of "ex_sx 40" "''other''" "''u''"
        "ex_record ''s''", OF _ _ _ _ refl]
    by (simp add: ex_sx_def expired_def ex_record_def)
qed

theorem chat_turn_exclusive_witness:
  "refused (acquireLockWrite (ex_sx 40) [] ''ns'' ''s'' ''task'' ''uid'' (control (store_run ex_traffic (ex_state ex_reserved))))
     (control (store_run ex_traffic (ex_state ex_reserved)))"
proof -
  have held: "turn_held ''turn'' 100 (reserve_turn ''turn'' 100 5 (chat_session_row 5 (ex_record ''s'')))"
    by (simp add: turn_held_def reserve_turn_def)
  have ops: "\<forall>(e, op) \<in> set ex_traffic. fresh_op op \<and> sx_now e < 100 \<and> \<not> releases_turn ''turn'' op"
    by (simp add: ex_traffic_def ex_sx_def)
  have "gateway_events (store_run ex_traffic (ex_state ex_reserved)) = []"
    by (simp add: ex_traffic_def ex_reserved_def ex_state_def on_control_def empty_store_def store_db.defs event_db.defs)
  then show ?thesis
    using chat_turn_exclusive [OF ex_state_ok [OF ex_ops_fresh(2)] ex_reserved_found held ops, of "ex_sx 40" "''other''"
        "ex_record ''s''", OF _ _ _ _ refl]
    by (simp add: ex_sx_def ex_record_def)
qed

theorem chat_turn_commits_once_witness:
  "refused (commitSessionTurnWrite (ex_sx 40) (Some (ex_record ''s'')) ''turn'' 0 ex_batch 1 2
     (control (store_run ex_traffic ((ex_state ex_reserved)\<lparr>control := snd ex_commit\<rparr>))))
     (control (store_run ex_traffic ((ex_state ex_reserved)\<lparr>control := snd ex_commit\<rparr>)))"
proof -
  have first: "commitSessionTurnWrite (ex_sx 10) (Some (ex_record ''s'')) ''turn'' 0 ex_batch 1 2 (control (ex_state ex_reserved)) =
      (Inr (), snd ex_commit)"
    using ex_commit_succeeds by (simp add: ex_commit_def prod_eq_iff)
  show ?thesis
    by (rule chat_turn_commits_once [OF ex_state_ok [OF ex_ops_fresh(2)] first _ _ refl refl refl])
      (simp_all add: ex_batch_def ex_traffic_def)
qed


theorem append_retry_harmless_witness:
  "appendMessagesWrite (ex_sx 50) ''ns'' ''s'' ex_batch (snd ex_append) = (Inr (), snd ex_append)"
proof -
  have run: "appendMessagesWrite (ex_sx 10) ''ns'' ''s'' ex_batch (control (ex_state ex_locked)) = (Inr (), snd ex_append)"
    using ex_append_succeeds by (simp add: ex_append_def prod_eq_iff)
  show ?thesis
    using append_retry_harmless [OF run, of "ex_sx 50"] by (simp add: ex_batch_def ex_message_def ex_sx_def)
qed


theorem session_pages_exact_witness:
  "map sd_name (fst (ListSessionsPage (control (ex_state ex_pages)) ''ns'' None 1 [])) = [''a''] \<and>
   map ss_name (listing (control (ex_state ex_pages)) ''ns''
     (Some (cursor_at (listing (control (ex_state ex_pages)) ''ns'' None [] ! 0))) []) = [''b'']"
proof -
  have ok: "store_ok (control (ex_state ex_pages))" by (rule ex_state_ok) (simp add: ex_pages_def ex_record_def)
  have "map ss_name (listing (control (ex_state ex_pages)) ''ns'' None []) = [''a'', ''b'']" by code_simp
  then show ?thesis
    using session_pages_exact [OF ok, of 1 _ "''ns''" None "[]", OF _ refl]
    by (cases "listing (control (ex_state ex_pages)) ''ns'' None []") (auto simp: session_metadata_def)
qed

end
