(* ===== verification/Event_Witnesses.thy ===== *)
theory Event_Witnesses
  imports Event_Runs
begin

text \<open>Concrete runs of the execution event store: the properties of \<^verbatim>\<open>Event_Runs\<close> at concrete inputs.\<close>

section \<open>Example events and runs\<close>

definition ex_event :: "string \<Rightarrow> string \<Rightarrow> ExecutionEvent" where
  "ex_event typ tool =
     \<lparr>ev_id = [], ev_namespace = ''ns'', ev_stream_type = [], ev_stream_id = ''task-1'', ev_seq = 0,
      ev_type = typ, ev_severity = ''Warning'', ev_task_name = ''task-1'', ev_session_name = ''chat'',
      ev_agent_name = [], ev_tool_name = [], ev_tool_call_id = tool, ev_summary = ''s'',
      ev_content = Document (JObject [(''id'', JString ''a1'')]), ev_content_text = [], ev_truncation = None,
      ev_created_at = 0, ev_usage = None\<rparr>"

definition ex_event_env :: append_env where
  "ex_event_env = \<lparr>ae_now = 5, ae_plan_now = 6, ae_fault = None, ae_attempt = (\<lambda>_. AttemptRuns)\<rparr>"

definition ex_busy_env :: append_env where
  "ex_busy_env = \<lparr>ae_now = 7, ae_plan_now = 8, ae_fault = None, ae_attempt = (\<lambda>_. AttemptBusy)\<rparr>"

definition ex_log :: "event_op list" where
  "ex_log =
     [OpAppendIfAbsent ex_event_env None (Some (ex_event ''ToolCallStarted'' ''c1'')) ''k0'',
      OpAppend ex_event_env None (Some (ex_event ''ModelMessage'' []))]"

definition ex_job :: TaskJobIdentity where
  "ex_job = \<lparr>tj_namespace = ''ns'', tj_task_uid = ''uid'', tj_job_uid = ''job''\<rparr>"

definition ex_data_fence :: TaskDataFence where
  "ex_data_fence = \<lparr>tf_namespace = ''ns'', tf_task_name = ''t'', tf_generation = 0, tf_jobs = []\<rparr>"

text \<open>The task is cleaned, its name is reclaimed and registered again.\<close>

definition ex_reuse :: "event_op list" where
  "ex_reuse = [OpRegister None ''ns'' ''t'', OpDeletePlan None ''ns'' ''t'', OpReclaim None ''ns'' ''t'' ''uid'',
     OpRegister None ''ns'' ''t'']"

lemma ex_fence_resolved: "ResolveTaskDataFence (event_run [] empty_events) ''ns'' ''t'' = Inr (ex_data_fence, False)"
  by code_simp

lemma ex_log_length: "length (execution_events (event_run ex_log empty_events)) = 2"
  by code_simp

section \<open>Witnesses\<close>

theorem stale_fence_refused_witness:
  "checkTaskDataFence (event_run ex_reuse (event_run [] empty_events)) (ex_data_fence\<lparr>tf_jobs := []\<rparr>) =
     Some ErrTaskDataCleanupChanged"
  using stale_fence_refused [OF refl ex_fence_resolved, of "OpDeletePlan None ''ns'' ''t''" ex_reuse, OF _ _ refl]
  by (simp add: ex_reuse_def)


text \<open>A call that completes and a late report that it failed race under one key.\<close>

definition ex_completed :: ExecutionEvent where
  "ex_completed = ex_event ''ToolCallCompleted'' ''c1''"

definition ex_failed :: ExecutionEvent where
  "ex_failed = ex_event ''ToolCallFailed'' ''c1''"

definition ex_stored :: "event_db \<Rightarrow> ExecutionEvent" where
  "ex_stored d = (case appendExecutionEventIfAbsentWrite ex_event_env None (Some ex_completed) ''k1'' d of
     (Inr (ev, _), _) \<Rightarrow> ev | _ \<Rightarrow> ex_completed)"

definition ex_after :: "event_db \<Rightarrow> event_db" where
  "ex_after d = snd (appendExecutionEventIfAbsentWrite ex_event_env None (Some ex_completed) ''k1'' d)"

definition ex_normal :: "ExecutionEvent \<Rightarrow> ExecutionEvent" where
  "ex_normal e = (case normalizeSQLiteExecutionEvent e of Inr c \<Rightarrow> c | Inl _ \<Rightarrow> e)"

text \<open>Between the two, another event is appended and the session is deleted.\<close>

definition ex_between :: "event_op list" where
  "ex_between = [OpAppend ex_event_env None (Some (ex_event ''ModelMessage'' [])), OpDetachSession None ''ns'' ''chat'']"

lemma ex_appended:
  "appendExecutionEventIfAbsentWrite ex_event_env None (Some ex_completed) ''k1'' (event_run ex_log empty_events) =
   (Inr (ex_stored (event_run ex_log empty_events), True), ex_after (event_run ex_log empty_events))"
proof -
  have "case fst (appendExecutionEventIfAbsentWrite ex_event_env None (Some ex_completed) ''k1'' (event_run ex_log empty_events))
      of Inr (_, b) \<Rightarrow> b | Inl _ \<Rightarrow> False"
    by code_simp
  then show ?thesis
    by (cases "appendExecutionEventIfAbsentWrite ex_event_env None (Some ex_completed) ''k1'' (event_run ex_log empty_events)")
      (auto simp: ex_stored_def ex_after_def split: sum.splits)
qed

lemma ex_stored_fields:
  "ev_namespace (ex_stored (event_run ex_log empty_events)) = ''ns''"
  "ev_stream_id (ex_stored (event_run ex_log empty_events)) = ''task-1''"
  "ev_type (ex_stored (event_run ex_log empty_events)) = ''ToolCallCompleted''"
  by code_simp+

lemma ex_failed_normal: "normalizeSQLiteExecutionEvent ex_failed = Inr (ex_normal ex_failed)"
proof -
  have "case normalizeSQLiteExecutionEvent ex_failed of Inr _ \<Rightarrow> True | Inl _ \<Rightarrow> False" by code_simp
  then show ?thesis by (auto simp: ex_normal_def split: sum.splits)
qed

lemma ex_failed_fields:
  "ev_namespace (ex_normal ex_failed) = ''ns''" "ev_stream_id (ex_normal ex_failed) = ''task-1''"
  "sameExecutionEventIdentity (ex_stored (event_run ex_log empty_events)) (ex_normal ex_failed)"
  by code_simp+


lemma ex_completed_normal: "normalizeSQLiteExecutionEvent ex_completed = Inr (ex_normal ex_completed)"
proof -
  have "case normalizeSQLiteExecutionEvent ex_completed of Inr _ \<Rightarrow> True | Inl _ \<Rightarrow> False" by code_simp
  then show ?thesis by (auto simp: ex_normal_def split: sum.splits)
qed

lemma ex_key_normal: "NormalizeExecutionEventDedupeKey ''k1'' = Inr ''k1''"
  by code_simp

lemma ex_append_allowed:
  "\<forall>r \<in> set (execution_events (event_run ex_log empty_events)). slash_free (er_event r)"
  "slash_free (ex_normal ex_completed)"
  "\<forall>r \<in> set (execution_events (event_run ex_log empty_events)).
     in_stream (ev_namespace (ex_normal ex_completed)) ExecutionEventStreamTypeTask (ev_stream_id (ex_normal ex_completed)) r \<longrightarrow>
     er_dedupe_key r \<noteq> ''k1''"
  "\<not> existingSQLiteTerminalApprovalEvent (event_run ex_log empty_events) (ex_normal ex_completed)"
  "ev_usage ex_completed = None" "ae_attempt ex_event_env 0 = AttemptRuns"
  "latest_stream_seq (event_run ex_log empty_events) (ev_namespace (ex_normal ex_completed))
     (ev_stream_type (ex_normal ex_completed)) (ev_stream_id (ex_normal ex_completed)) = 2"
  by code_simp+

theorem append_assigns_next_witness:
  "\<exists>ev d'. appendExecutionEventIfAbsentWrite ex_event_env None (Some ex_completed) ''k1'' (event_run ex_log empty_events) =
     (Inr (ev, True), d') \<and> ev_seq ev = 3"
  using append_assigns_next [OF refl ex_completed_normal ex_key_normal ex_append_allowed(1-6)] ex_append_allowed(7)
  by auto

theorem revoked_job_stays_refused_witness:
  "checkTaskDataFence (event_run ([OpRegister None ''ns'' ''t''] @ OpRevoke None ex_job # [OpReclaim None ''ns'' ''t'' ''uid''])
     (event_run [] empty_events)) (ex_data_fence\<lparr>tf_jobs := [ex_job]\<rparr>) \<noteq> None"
  using revoked_job_stays_refused [OF refl ex_fence_resolved, of ex_job "[ex_job]" "[OpRegister None ''ns'' ''t'']"
      "[OpReclaim None ''ns'' ''t'' ''uid'']", OF _ _ _ _ refl]
  by (simp add: ex_job_def job_incomplete_def)

lemma ex_group_fails:
  "appendExecutionEventsIfAbsentWrite ex_event_env None [(Some ex_completed, ''k1''), (None, ''k2'')] empty_events =
   (Inl ErrValidation, snd (appendExecutionEventsIfAbsentWrite ex_event_env None [(Some ex_completed, ''k1''), (None, ''k2'')] empty_events))"
proof -
  have "case fst (appendExecutionEventsIfAbsentWrite ex_event_env None [(Some ex_completed, ''k1''), (None, ''k2'')] empty_events)
      of Inl x \<Rightarrow> x = ErrValidation | Inr _ \<Rightarrow> False"
    by code_simp
  then show ?thesis
    by (cases "appendExecutionEventsIfAbsentWrite ex_event_env None [(Some ex_completed, ''k1''), (None, ''k2'')] empty_events")
      (auto split: sum.splits)
qed

theorem append_errors_change_nothing_witness:
  "snd (appendExecutionEventsIfAbsentWrite ex_event_env None [(Some ex_completed, ''k1''), (None, ''k2'')] empty_events) = empty_events"
  using append_errors_change_nothing [of ex_event_env None None empty_events "''k1''" None "[(Some ex_completed, ''k1''), (None, ''k2'')]"]
    ex_group_fails by blast

lemma ex_heads:
  "\<exists>m. GetLatestExecutionEventSeqs (event_run ex_log empty_events) ''ns'' [] ['' task-1'', ''task-1'', ''none''] = Inr m"
  "GetLatestExecutionEventSeq (event_run ex_log empty_events) ''ns'' [] ''task-1'' = Inr 2"
proof -
  have "case GetLatestExecutionEventSeqs (event_run ex_log empty_events) ''ns'' [] ['' task-1'', ''task-1'', ''none''] of
      Inr m \<Rightarrow> True | Inl x \<Rightarrow> False"
    by code_simp
  then show "\<exists>m. GetLatestExecutionEventSeqs (event_run ex_log empty_events) ''ns'' [] ['' task-1'', ''task-1'', ''none''] = Inr m"
    by (auto split: sum.splits)
  show "GetLatestExecutionEventSeq (event_run ex_log empty_events) ''ns'' [] ''task-1'' = Inr 2" by code_simp
qed

lemma ex_head_requested: "''task-1'' \<in> TrimSpace ` set ['' task-1'', ''task-1'', ''none'']"
  by code_simp

theorem latest_seqs_exact_witness:
  "\<exists>m. GetLatestExecutionEventSeqs (event_run ex_log empty_events) ''ns'' [] ['' task-1'', ''task-1'', ''none''] = Inr m \<and>
     m ''task-1'' = Some 2"
  using ex_heads latest_seqs_exact [of "event_run ex_log empty_events" "''ns''" "[]" "['' task-1'', ''task-1'', ''none'']" _ "''task-1''"]
    ex_head_requested by auto

end
