(* ===== verification/Control_Witnesses.thy ===== *)
theory Control_Witnesses
  imports Control_Examples
begin

text \<open>
  Witnesses for the properties of the single components: each property applied to the example
  database.
\<close>

section \<open>Identities and tables\<close>

lemma ex_preimages:
  "env_sha256 ex_env (canonical_preimage [''branch-claim'', ''abc'']) \<noteq>
   env_sha256 ex_env (canonical_preimage [''branch-claim'', ''a'', ''b''])"
  by code_simp

theorem canonical_id_unique_witness:
  "CanonicalControlID ex_env ''branch-claim'' [''abc''] \<noteq> CanonicalControlID ex_env ''branch-claim'' [''a'', ''b'']"
  using canonical_id_unique [of ex_env "''branch-claim''" "[''abc'']" "''branch-claim''" "[''a'', ''b'']"]
    ex_preimages by (simp add: ex_env_def)

theorem execution_terminates_witness:
  "length [PromptExecutionReserved, PromptExecutionSessionStarting, PromptExecutionPlanned, PromptExecutionSubmitting,
     PromptExecutionAccepted, PromptExecutionRunning, PromptExecutionSettling, PromptExecutionSucceeded] \<le> 8"
proof -
  have "execution_path [PromptExecutionQueued, PromptExecutionReserved, PromptExecutionSessionStarting,
    PromptExecutionPlanned, PromptExecutionSubmitting, PromptExecutionAccepted, PromptExecutionRunning,
    PromptExecutionSettling, PromptExecutionSucceeded]" by code_simp
  from execution_terminates [OF _ this] show ?thesis by simp
qed

section \<open>Epochs\<close>

theorem epoch_advance_bound_witness:
  "ds_installation (store_dataset (snd (AdvanceControllerEpoch ex_env ex_advance ex_db))) = ''installation''"
proof -
  obtain a d' where "AdvanceControllerEpoch ex_env ex_advance ex_db = (Inr a, d')" "d' \<noteq> ex_db"
    using ex_advance_runs by (rule changesE)
  with epoch_advance_bound [OF ex_ok this(1)] show ?thesis by (simp add: ex_advance_def)
qed

section \<open>Prompt attempts\<close>

theorem execution_transition_correct_witness:
  "\<exists>a d'. TransitionPromptAttemptExecution ex_env ex_reserve ex_db = (Inr a, d') \<and> d' \<noteq> ex_db \<and>
     pa_execution_state a = PromptExecutionReserved"
proof -
  obtain a d' where run: "TransitionPromptAttemptExecution ex_env ex_reserve ex_db = (Inr a, d')" "d' \<noteq> ex_db"
    using ex_reserve_runs by (rule changesE)
  with execution_transition_correct [OF ex_ok run(1)] show ?thesis by (simp add: ex_reserve_def ex_execution_def)
qed

lemma ex_submitting:
  "find_row pa_id (TrimSpace (pr_id ex_recovery)) (prompt_attempts ex_db) =
   Some (ex_attempt ''a-submitting'' ''t-submitting'' [] 0 PromptExecutionSubmitting PromptDeliveryNotRequested)"
  by code_simp

theorem recovery_needs_proof_witness: "pr_proven_not_accepted ex_recovery"
proof -
  obtain a d' where run: "RecoverPromptAttemptPreSubmission ex_env ex_recovery ex_db = (Inr a, d')" "d' \<noteq> ex_db"
    using ex_recovery_runs by (rule changesE)
  from recovery_needs_proof [OF ex_ok run(1) ex_submitting] show ?thesis by (simp add: ex_attempt_def)
qed

theorem reclaim_removes_exactly_witness:
  "\<exists>n d'. ReclaimPromptAttempts ex_env ex_reclaim ex_db = (Inr n, d') \<and> d' \<noteq> ex_db \<and>
     n = int (length (filter (task_attempt (TrimSpace ''ns'') (TrimSpace ''t-queued'')) (prompt_attempts ex_db)))"
proof -
  obtain n d' where run: "ReclaimPromptAttempts ex_env ex_reclaim ex_db = (Inr n, d')" "d' \<noteq> ex_db"
    using ex_reclaim_runs by (rule changesE)
  with reclaim_removes_exactly [OF ex_ok run(1)] show ?thesis by (simp add: ex_reclaim_def)
qed

section \<open>Branches and publications\<close>

theorem publication_opened_on_claim_witness:
  "\<exists>p d' c. CreatePublication ex_env ex_new_publication ex_db = (Inr p, d') \<and>
     find_row bc_id (pb_branch_claim_id p) (branch_claims ex_db) = Some c \<and> bc_availability c = BranchClaimAvailable"
proof -
  obtain p d' where run: "CreatePublication ex_env ex_new_publication ex_db = (Inr p, d')" "d' \<noteq> ex_db"
    using ex_new_publication_runs by (rule changesE)
  from run(1) publication_opened_on_claim [OF run] show ?thesis by blast
qed

section \<open>Effects and projections\<close>

lemma ex_flight:
  "find_row ee_id (TrimSpace (et_id (ex_effect_step ''worker-b''))) (external_effects ex_db) =
   Some (ex_effect ''e-flight'' ''op-flight'')"
  by code_simp

lemma ex_flight_time: "NormalizeControlTime ex_env (et_updated_at (ex_effect_step ''worker-b'')) < 2000"
  by code_simp

lemma ex_flight_owner: "TrimSpace (et_lease_owner (ex_effect_step ''worker-b'')) \<noteq> ''worker-a''"
  by code_simp

theorem effect_lease_exclusive_witness:
  "\<exists>err. TransitionExternalEffect ex_env (ex_effect_step ''worker-b'') ex_db = (Inl err, ex_db)"
  using effect_lease_exclusive [OF ex_ok ex_flight _ _ ex_flight_time] ex_flight_owner
  by (simp add: ex_effect_def ex_effect_step_def)

theorem outbox_claim_exact_witness:
  "\<exists>ps d' q taken. ClaimOutboxProjections ex_env (ex_claim_outbox ''worker-b'') ex_db = (Inr ps, d') \<and>
     ps = map (claim_result q) taken \<and> distinct (map ob_id taken) \<and> sorted (map due_order taken)"
proof -
  obtain ps d' where run: "ClaimOutboxProjections ex_env (ex_claim_outbox ''worker-b'') ex_db = (Inr ps, d')" "d' \<noteq> ex_db"
    using ex_claim_outbox_runs by (rule changesE)
  from run(1) outbox_claim_exact [OF ex_ok run(1)] show ?thesis by (elim exE conjE) (intro exI conjI)
qed

lemma ex_second_claim:
  "\<not> isl (fst (ClaimOutboxProjections ex_env (ex_claim_outbox ''worker-c'')
     (snd (ClaimOutboxProjections ex_env (ex_claim_outbox ''worker-b'') ex_db))))"
  by code_simp

theorem outbox_no_double_claim_witness:
  "\<exists>ps1 d1 ps2 d2. ClaimOutboxProjections ex_env (ex_claim_outbox ''worker-b'') ex_db = (Inr ps1, d1) \<and>
     ClaimOutboxProjections ex_env (ex_claim_outbox ''worker-c'') d1 = (Inr ps2, d2) \<and>
     ob_id ` set ps1 \<inter> ob_id ` set ps2 = {}"
proof -
  obtain ps1 d1 where first: "ClaimOutboxProjections ex_env (ex_claim_outbox ''worker-b'') ex_db = (Inr ps1, d1)" "d1 \<noteq> ex_db"
    using ex_claim_outbox_runs by (rule changesE)
  then obtain ps2 d2 where second: "ClaimOutboxProjections ex_env (ex_claim_outbox ''worker-c'') d1 = (Inr ps2, d2)"
    using ex_second_claim
    by (cases "ClaimOutboxProjections ex_env (ex_claim_outbox ''worker-c'') d1"; cases "fst (ClaimOutboxProjections ex_env (ex_claim_outbox ''worker-c'') d1)") auto
  from first(1) second outbox_no_double_claim [OF ex_ok first(1) second] show ?thesis
    by (simp add: ex_claim_outbox_def NormalizeControlTime_def ex_env_def)
qed

section \<open>Sessions\<close>

lemma ex_leased:
  "find_row session_control_pk (TrimSpace (aq_namespace (ex_acquire ''leased'' ''uid-leased'')),
     TrimSpace (aq_session_name (ex_acquire ''leased'' ''uid-leased''))) (session_controls ex_db) = Some (hd ex_controls)"
  by code_simp

lemma ex_lease: "scan_lease (hd ex_controls) = Some \<lparr>sl_generation = 1, sl_task_uid = ''t-leased'', sl_attempt = 1,
    sl_prompt_id = ''p'', sl_request_digest = ex_digest, sl_acquired_at = 30, sl_expires_at = None\<rparr>"
  by code_simp

lemma ex_other_task: "''t-leased'' \<noteq> TrimSpace (aq_task_uid (ex_acquire ''leased'' ''uid-leased''))"
  by code_simp

theorem lease_exclusive_witness:
  "\<exists>err. AcquireSessionMutationLease ex_env (ex_acquire ''leased'' ''uid-leased'') ex_db = (Inl err, ex_db)"
  using lease_exclusive [OF ex_ok ex_leased ex_lease] ex_other_task by simp

theorem lease_granted_witness:
  "\<exists>a d' l. AcquireSessionMutationLease ex_env (ex_acquire ''free'' ''uid-free'') ex_db = (Inr a, d') \<and>
     sc_lease a = Some l \<and> sl_task_uid l = TrimSpace ''t-other''"
proof -
  obtain a d' where run: "AcquireSessionMutationLease ex_env (ex_acquire ''free'' ''uid-free'') ex_db = (Inr a, d')" "d' \<noteq> ex_db"
    using ex_acquire_runs by (rule changesE)
  from run(1) lease_granted [OF ex_ok run] show ?thesis by (auto simp: ex_acquire_def)
qed

section \<open>Retries\<close>

theorem execution_retry_idempotent_witness:
  "\<exists>a d'. TransitionPromptAttemptExecution ex_env ex_reserve ex_db = (Inr a, d') \<and> d' \<noteq> ex_db \<and>
     TransitionPromptAttemptExecution (retry_env ex_env 5000) ex_reserve d' = (Inr a, d')"
proof -
  obtain a d' where run: "TransitionPromptAttemptExecution ex_env ex_reserve ex_db = (Inr a, d')" "d' \<noteq> ex_db"
    using ex_reserve_runs by (rule changesE)
  with execution_retry_idempotent [OF ex_ok run(1), of 5000] show ?thesis by blast
qed

section \<open>Progress and refinement\<close>

lemma ex_current_fence: "requireControllerEpoch ex_db ex_fence = None"
  by code_simp

lemma ex_leased_row:
  "find_row pa_id ''a-leased'' (prompt_attempts ex_db) =
   Some (ex_attempt ''a-leased'' ''t-leased'' ''uid-leased'' 1 PromptExecutionAccepted PromptDeliveryNotRequested)"
  by code_simp

lemma ex_leased_id: "ValidateControlIdentifier ''a-leased'' = None"
  by code_simp

theorem execution_never_stuck_witness:
  "\<exists>q a' d'. xt_fence q = ex_fence \<and> TransitionPromptAttemptExecution ex_env q ex_db = (Inr a', d') \<and>
     IsTerminalPromptExecutionState (pa_execution_state a')"
  using execution_never_stuck [OF ex_ok _ ex_current_fence ex_leased_row ex_leased_id, of ex_env]
  by (auto simp: ex_env_def ex_attempt_def IsTerminalPromptExecutionState_def)

theorem store_refines_attempt_spec_witness:
  "spec_step\<^sup>*\<^sup>* (attempt_abs ex_db) (attempt_abs (run_ops [(ex_env, OpTransitionExecution ex_reserve),
     (ex_env, OpReclaimPromptAttempts ex_reclaim)] ex_db))"
  by (rule store_refines_attempt_spec [OF ex_ok])

end
