(* ===== verification/Operation_Receipts.thy ===== *)
theory Operation_Receipts
  imports Controller_Epoch
begin

text \<open>
  Write envelopes and operation receipts: \<^verbatim>\<open>internal/store/sqlite/operation_receipt_store.go\<close> with
  the contract types of \<^verbatim>\<open>pkg/storage/v1\<close> (\<^verbatim>\<open>envelope.go\<close>, \<^verbatim>\<open>operation.go\<close>, the write methods of
  \<^verbatim>\<open>methods.go\<close>).  \<open>writeOperation\<close> wraps the body of every contract write: it checks the envelope
  against the dataset, the receipt table, the clock and the controller epoch, runs the body, and
  records a receipt in the same transaction.  \<open>ResolveOperation\<close> settles an operation whose outcome is
  unknown, \<open>PruneOperationReceipts\<close> bounds the table, \<open>clearCustodyReceipts\<close> removes sealed results.

  The state is the control database with the table of receipts.  The body of a write is a function on
  that state; its result type is a parameter, and the receipt codec of the result (reflection over
  the result type, \<^verbatim>\<open>receipt_codec.go\<close>) is given by its two functions.  A write runs in its own
  transaction: the savepoint variant inside an enclosing task-data transaction and the Task data fence
  that a context may carry are left out.

  The main theorem is about every interleaving of writes, resolutions, prunings and other changes:
  under the clock assumption that the code documents an operation is settled at most once, so that it
  never takes effect twice and never both commits and aborts.
\<close>

section \<open>Contract constants\<close>

text \<open>Durations are nanoseconds.\<close>

definition second_ns :: int where
  "second_ns = 1000000000"

definition MaxOperationIDBytes :: nat where
  "MaxOperationIDBytes = 256"

definition MaxOperationAge :: int where
  "MaxOperationAge = 15 * 60 * second_ns"

definition MaxClockSkew :: int where
  "MaxClockSkew = 30 * second_ns"

definition MinReceiptRetention :: int where
  "MinReceiptRetention = 60 * 60 * second_ns"

definition receiptClockStepAllowance :: int where
  "receiptClockStepAllowance = 15 * 60 * second_ns"

definition receiptRetention :: int where
  "receiptRetention = MinReceiptRetention + receiptClockStepAllowance"

definition maxReceiptResultBytes :: int where
  "maxReceiptResultBytes = 1000000000"

definition receiptPruneBatch :: int where
  "receiptPruneBatch = 1000"

lemmas receipt_constants = second_ns_def MaxOperationAge_def MaxClockSkew_def MinReceiptRetention_def
  receiptClockStepAllowance_def receiptRetention_def

section \<open>Envelopes\<close>

record WriteEnvelope =
  we_dataset_id :: string
  we_fence :: ControllerEpochFence
  we_operation_id :: string
  we_request_digest :: string
  we_issued_at :: gotime
  we_sequence :: nat

text \<open>
  \<open>strings.IndexFunc(id, unicode.IsControl) >= 0\<close> on a valid UTF-8 string: a byte of the ASCII
  controls, or the encoding \<^verbatim>\<open>C2 80\<close> to \<^verbatim>\<open>C2 9F\<close> of a C1 control.
\<close>

fun has_control_rune :: "string \<Rightarrow> bool" where
  "has_control_rune [] = False"
| "has_control_rune (c # s) =
     (control_char c \<or>
      byte c = 0xC2 \<and> (case s of [] \<Rightarrow> False | b # _ \<Rightarrow> 0x80 \<le> byte b \<and> byte b \<le> 0x9F) \<or>
      has_control_rune s)"

definition ValidateOperationID :: "string \<Rightarrow> store_error option" where
  "ValidateOperationID oid = first_error
     [fail_if ErrValidation (oid = []),
      fail_if ErrValidation (length oid > MaxOperationIDBytes),
      ValidateControlIdentifier oid,
      fail_if ErrValidation (has_control_rune oid)]"

lemma operation_id_code [code]:
  "ValidateOperationID oid = first_error
     [fail_if ErrValidation (oid = []), fail_if ErrValidation (int (length oid) > 256),
      ValidateControlIdentifier oid, fail_if ErrValidation (has_control_rune oid)]"
  by (simp add: ValidateOperationID_def MaxOperationIDBytes_def)

definition WriteEnvelope_Validate :: "WriteEnvelope \<Rightarrow> store_error option" where
  "WriteEnvelope_Validate en = first_error
     [ValidateControlIdentifier (we_dataset_id en),
      ValidateControlIdentifier (cf_name (we_fence en)),
      ValidateControlIdentifier (cf_holder_id (we_fence en)),
      fail_if ErrValidation (cf_epoch (we_fence en) < 1),
      ValidateOperationID (we_operation_id en),
      ValidateCanonicalDigest (we_request_digest en),
      fail_if ErrValidation (time_is_zero (we_issued_at en)),
      fail_if ErrValidation (we_sequence en < 1)]"

text \<open>The entries of \<open>methodCatalog\<close> whose kind is \<open>MethodWrite\<close>.\<close>

definition contract_write_methods :: "string list" where
  "contract_write_methods =
     [''AcquireChatTurn'', ''AcquireLock'', ''ActivateSessionTurnProjection'', ''AdmitGatewayEvent'',
      ''AppendExecutionEvent'', ''AppendExecutionEventIfAbsent'', ''AppendExecutionEventWithPlanIfAbsent'',
      ''AppendExecutionEventsIfAbsent'', ''AppendMessages'', ''AppendMessagesWithLock'',
      ''ArchiveMemoryProposal'', ''BindPatchProposalPublicationEvidence'', ''BindSessionCleanupIdentity'',
      ''CancelWorkActions'', ''ClaimNextGatewayDelivery'', ''ClaimNextGatewayEvent'',
      ''ClaimOutboxProjectionRecords'', ''CommitMemoryProposalApplication'', ''CommitScanTaskIngestion'',
      ''CommitSealedConnectorCompletion'', ''CommitSealedSessionTurnFinalization'', ''CommitSessionTurn'',
      ''CompleteOutboxProjectionRecord'', ''CompleteScanRunCancellation'', ''CompleteScanTaskIngestion'',
      ''CompleteSessionCleanup'', ''ConsumeSealedConnectorCompletion'', ''ConsumeSealedConnectorConsent'',
      ''CreateActionRecord'', ''CreateCommandEvent'', ''CreateDroppedFinding'', ''CreateGatewayDelivery'',
      ''CreateGitHubMutationRecord'', ''CreateImplementationJob'', ''CreateMemory'', ''CreateMemoryProposal'',
      ''CreateMonitorEvent'', ''CreateMonitorRun'', ''CreatePatchProposal'', ''CreateRepairJob'',
      ''CreateReviewPublishRecord'', ''CreateReviewRecord'', ''CreateScanRun'',
      ''CreateSealedAgentExecutionSnapshot'', ''CreateSealedConnectorCompletion'',
      ''CreateSealedConnectorConsent'', ''CreateSession'', ''CreateSessionTurnRecord'', ''CreateWorkAction'',
      ''DeferGatewayEventProjection'', ''DeleteAgentExecutionSnapshot'', ''DeleteAgentExecutionSnapshots'',
      ''DeleteArtifacts'', ''DeleteConnectorCompletion'', ''DeleteConnectorConsentsForConnection'',
      ''DeleteConnectorCredential'', ''DeleteExecutionEvents'', ''DeleteGatewayTaskCleanupReceipt'',
      ''DeleteMemory'', ''DeleteParentMessages'', ''DeletePlan'', ''DeleteRepositoryMonitor'',
      ''DeleteResult'', ''DeleteSession'', ''DeleteTaskJobRevocations'', ''DeleteTaskMessages'',
      ''EnqueueGatewayMessage'', ''EnqueueOutboxProjectionRecord'', ''EnsureSessionSoulWithLock'',
      ''ExpireGatewayEvent'', ''ExpireGatewayEventWithDelivery'',
      ''FreezeGatewayEventTaskRuntimeAllowedTools'', ''GetMessages'', ''IsLocked'', ''LinkUsagePullRequest'',
      ''MaintainGatewayRecords'', ''MarkExpiredGatewayEventDeadLettered'', ''MarkFindingDuplicate'',
      ''MarkGatewayDeliveryDelivered'', ''MarkGatewayDeliveryTerminal'', ''MarkGatewayEventTaskCreated'',
      ''PrepareSessionCleanup'', ''ProjectGatewayTerminal'', ''ProjectSessionLineage'', ''PruneUsage'',
      ''PutSealedConnectorCredential'', ''RecordUsage'', ''RecordUsagePullRequest'',
      ''RegisterTaskDataFence'', ''RegisterUsageTask'', ''RegisterUsageWork'', ''ReleaseChatTurn'',
      ''ReleaseLock'', ''ReleaseLockWithTokenUsage'', ''ReleaseTaskDataFence'', ''RenewGatewayEventClaim'',
      ''ReplaceSealedConnectorCredential'', ''RequestScanRunCancellation'', ''ResolveFindingIfCurrent'',
      ''RetireSealedConnectorCredential'', ''RetryGatewayDelivery'', ''RetryGatewayEvent'',
      ''ReviewMemoryProposal'', ''RevokeTaskJob'', ''SaveArtifact'', ''SavePlan'',
      ''SavePromptResultReceipt'', ''SaveResult'', ''SaveSealedNativeSession'', ''SaveThreatModel'',
      ''SaveThreatModelIfVersion'', ''ScheduleGatewayDeliveryRetry'', ''SendMessage'', ''SetMemoryDisabled'',
      ''ShredConnectorCredential'', ''StageSealedNativeSessionImport'', ''TombstoneConnectorCustody'',
      ''UpdateActionRecord'', ''UpdateCommandEvent'', ''UpdateFindingState'', ''UpdateGitHubMutationRecord'',
      ''UpdateImplementationJob'', ''UpdateMemory'', ''UpdateMonitorRun'', ''UpdatePatchProposal'',
      ''UpdateRepairJob'', ''UpdateReviewPublishRecord'', ''UpdateReviewSliceStatus'', ''UpdateScanRun'',
      ''UpdateTokenCounts'', ''UpdateTokenCountsWithLock'', ''UpdateWorkAction'', ''UpsertFinding'',
      ''UpsertMonitorItem'', ''UpsertObservedFinding'', ''UpsertRepositoryMonitor'', ''UpsertReviewSlice'']"

definition is_write_method :: "string \<Rightarrow> bool" where
  "is_write_method m \<longleftrightarrow> List.member contract_write_methods m"

section \<open>Receipts\<close>

datatype OperationState = OperationCommitted | OperationAborted

datatype DatasetState = DatasetReady | DatasetMigrating | DatasetImporting | DatasetIncompatible

text \<open>
  A row of \<^verbatim>\<open>operation_receipts\<close>.  The time columns hold \<open>UnixNano\<close> of the instants, which reading
  turns back into them.
\<close>

record operationReceipt =
  or_operation_id :: string
  or_method :: string
  or_digest :: string
  or_state :: OperationState
  or_fence :: ControllerEpochFence
  or_issued_at :: gotime
  or_recorded_at :: gotime
  or_result :: "string option"
  or_custody_scope :: string
  or_cleared :: bool

record OperationOutcome =
  oo_operation_id :: string
  oo_method :: string
  oo_request_digest :: string
  oo_state :: OperationState
  oo_fence :: ControllerEpochFence
  oo_issued_at :: gotime
  oo_recorded_at :: gotime

record op_store =
  os_db :: db
  os_receipts :: "operationReceipt list"

text \<open>The settings of an open store: \<open>requireWriteEnvelopes\<close> and \<open>datasetState()\<close>.\<close>

record store_config =
  sc_require_write_envelopes :: bool
  sc_dataset_state :: DatasetState

text \<open>
  What a call's context carries: whether it runs inside the body of a write operation
  (\<open>writeOperationKey\<close>), and the write envelope.
\<close>

record write_ctx =
  wx_in_operation :: bool
  wx_envelope :: "WriteEnvelope option"

definition receipt_clash :: "operationReceipt \<Rightarrow> operationReceipt \<Rightarrow> bool" where
  "receipt_clash r r' \<longleftrightarrow> or_operation_id r = or_operation_id r'"

definition receipt_matches :: "operationReceipt \<Rightarrow> string \<Rightarrow> string \<Rightarrow> store_error option" where
  "receipt_matches r method digest =
     fail_if ErrDuplicateMismatch (or_method r \<noteq> method \<or> or_digest r \<noteq> digest)"

definition receipt_outcome :: "operationReceipt \<Rightarrow> OperationOutcome" where
  "receipt_outcome r =
     \<lparr>oo_operation_id = or_operation_id r, oo_method = or_method r, oo_request_digest = or_digest r,
      oo_state = or_state r, oo_fence = or_fence r, oo_issued_at = or_issued_at r,
      oo_recorded_at = or_recorded_at r\<rparr>"

definition readOperationReceipt :: "string \<Rightarrow> op_store \<Rightarrow> operationReceipt option" where
  "readOperationReceipt oid s = find_row or_operation_id oid (os_receipts s)"

definition insertOperationReceipt :: "operationReceipt \<Rightarrow> op_store \<Rightarrow> store_error + op_store" where
  "insertOperationReceipt r s =
     (case sql_insert (\<lambda>_. True) receipt_clash r (os_receipts s) of
        None \<Rightarrow> Inl ErrDriver
      | Some t \<Rightarrow> Inr (s\<lparr>os_receipts := t\<rparr>))"

text \<open>
  The receipt codec of a result type.  A method that returns only an error has the result \<open>noResult\<close>,
  which is kept as \<^verbatim>\<open>NULL\<close>; any other result is marshalled.
\<close>

datatype 'r receipt_codec =
    NoResult 'r
  | Codec (marshalReceiptValue: "'r \<Rightarrow> string option") (unmarshalReceiptValue: "string \<Rightarrow> 'r option")

fun encodeReceiptResult :: "'r receipt_codec \<Rightarrow> 'r \<Rightarrow> store_error + string option" where
  "encodeReceiptResult (NoResult _) r = Inr None"
| "encodeReceiptResult (Codec marshal _) r =
     (case marshal r of
        None \<Rightarrow> Inl ErrDriver
      | Some encoded \<Rightarrow>
          if int (length encoded) > maxReceiptResultBytes then Inl ErrTooLarge else Inr (Some encoded))"

fun decodeReceiptResult :: "'r receipt_codec \<Rightarrow> string option \<Rightarrow> store_error + 'r" where
  "decodeReceiptResult (NoResult r) data = Inr r"
| "decodeReceiptResult (Codec _ unmarshal) data =
     (case unmarshal (case data of None \<Rightarrow> [] | Some b \<Rightarrow> b) of None \<Rightarrow> Inl ErrDriver | Some r \<Rightarrow> Inr r)"

section \<open>The write operation\<close>

definition requireEnvelopeFence :: "ControllerEpochFence \<Rightarrow> ControllerEpochFence \<Rightarrow> store_error option" where
  "requireEnvelopeFence explicit envelope =
     (case NormalizeEpochFence explicit of
        Inl x \<Rightarrow> Some x
      | Inr normalized \<Rightarrow> fail_if ErrValidation (normalized \<noteq> envelope))"

definition requireCompatibleDataset :: "store_config \<Rightarrow> store_error option" where
  "requireCompatibleDataset cfg = fail_if ErrIncompatible (sc_dataset_state cfg = DatasetIncompatible)"

definition requireNotDetached :: "db \<Rightarrow> store_error option" where
  "requireNotDetached d = first_error
     [validateBinding (store_dataset d), refuseDetached (store_dataset d)]"

text \<open>
  \<open>checkWrite\<close>: \<open>Inr (Some stored)\<close> is a replay of a committed operation with its stored result,
  \<open>Inr None\<close> a new operation.
\<close>

definition checkWrite ::
  "store_config \<Rightarrow> env \<Rightarrow> string \<Rightarrow> WriteEnvelope \<Rightarrow> op_store \<Rightarrow> store_error + string option option" where
  "checkWrite cfg e method en s = checks
     [requireCompatibleDataset cfg, requireDataset e (we_dataset_id en) (os_db s)]
     (case readOperationReceipt (we_operation_id en) s of
        Some r \<Rightarrow> checks
          [receipt_matches r method (we_request_digest en),
           fail_if ErrOperationAborted (or_state r = OperationAborted),
           fail_if ErrConflict (or_cleared r)]
          (Inr (Some (or_result r)))
      | None \<Rightarrow> checks
          [fail_if ErrOperationExpired (env_now e - we_issued_at en > MaxOperationAge),
           fail_if ErrClockSkew (we_issued_at en - env_now e > MaxClockSkew),
           fail_if ErrNotReady (sc_dataset_state cfg \<noteq> DatasetReady),
           requireNotDetached (os_db s),
           requireControllerEpoch (os_db s) (we_fence en)]
          (Inr None))"

text \<open>One call of a contract write: its arguments and what it takes from its surroundings.\<close>

record 'r write_call =
  wr_config :: store_config
  wr_env :: env
  wr_recorded_at :: gotime
  wr_ctx :: write_ctx
  wr_method :: string
  wr_explicit_fence :: "ControllerEpochFence option"
  wr_codec :: "'r receipt_codec"
  wr_custody_scope :: "('r \<Rightarrow> string) option"
  wr_body :: "op_store \<Rightarrow> (store_error + 'r) \<times> op_store"

definition committed_receipt :: "'r write_call \<Rightarrow> WriteEnvelope \<Rightarrow> string option \<Rightarrow> 'r \<Rightarrow> operationReceipt" where
  "committed_receipt w en encoded r =
     \<lparr>or_operation_id = we_operation_id en, or_method = wr_method w, or_digest = we_request_digest en,
      or_state = OperationCommitted, or_fence = we_fence en, or_issued_at = we_issued_at en,
      or_recorded_at = wr_recorded_at w, or_result = encoded,
      or_custody_scope = (case wr_custody_scope w of None \<Rightarrow> [] | Some scope \<Rightarrow> scope r),
      or_cleared = False\<rparr>"

definition write_transaction :: "'r write_call \<Rightarrow> WriteEnvelope \<Rightarrow> op_store \<Rightarrow> ('r, op_store) tx_result" where
  "write_transaction w en s =
     (case checkWrite (wr_config w) (wr_env w) (wr_method w) en s of
        Inl x \<Rightarrow> Abort x
      | Inr (Some stored) \<Rightarrow>
          (case decodeReceiptResult (wr_codec w) stored of
             Inl x \<Rightarrow> Abort x
           | Inr r \<Rightarrow> Commit r s)
      | Inr None \<Rightarrow>
          (case wr_body w s of
             (Inl x, _) \<Rightarrow> Abort x
           | (Inr r, s1) \<Rightarrow>
               (case encodeReceiptResult (wr_codec w) r of
                  Inl x \<Rightarrow> Abort x
                | Inr encoded \<Rightarrow>
                    (case insertOperationReceipt (committed_receipt w en encoded r) s1 of
                       Inl x \<Rightarrow> Abort x
                     | Inr s2 \<Rightarrow> Commit r s2))))"

definition writeOperation :: "'r write_call \<Rightarrow> op_store \<Rightarrow> (store_error + 'r) \<times> op_store" where
  "writeOperation w s =
     (if wx_in_operation (wr_ctx w) then wr_body w s
      else case wx_envelope (wr_ctx w) of
        None \<Rightarrow>
          if sc_require_write_envelopes (wr_config w) then (Inl ErrValidation, s) else wr_body w s
      | Some en \<Rightarrow>
          (case first_error
             [fail_if ErrDriver (\<not> is_write_method (wr_method w)),
              WriteEnvelope_Validate en,
              case wr_explicit_fence w of None \<Rightarrow> None | Some f \<Rightarrow> requireEnvelopeFence f (we_fence en)] of
             Some x \<Rightarrow> (Inl x, s)
           | None \<Rightarrow> with_tx (env_fault (wr_env w)) (write_transaction w en) s))"

section \<open>Resolution and retention\<close>

record ResolveOperationRequest =
  ro_dataset_id :: string
  ro_operation_id :: string
  ro_method :: string
  ro_request_digest :: string
  ro_issued_at :: gotime

definition ResolveOperationRequest_Validate :: "ResolveOperationRequest \<Rightarrow> store_error option" where
  "ResolveOperationRequest_Validate q = first_error
     [ValidateControlIdentifier (ro_dataset_id q),
      ValidateOperationID (ro_operation_id q),
      fail_if ErrValidation (\<not> is_write_method (ro_method q)),
      ValidateCanonicalDigest (ro_request_digest q),
      fail_if ErrValidation (time_is_zero (ro_issued_at q))]"

definition requireOwnTransaction :: "write_ctx \<Rightarrow> store_error option" where
  "requireOwnTransaction ctx = fail_if ErrValidation (wx_in_operation ctx)"

definition aborted_receipt :: "ResolveOperationRequest \<Rightarrow> gotime \<Rightarrow> operationReceipt" where
  "aborted_receipt q now =
     \<lparr>or_operation_id = ro_operation_id q, or_method = ro_method q, or_digest = ro_request_digest q,
      or_state = OperationAborted, or_fence = \<lparr>cf_name = [], cf_epoch = 0, cf_holder_id = []\<rparr>,
      or_issued_at = ro_issued_at q, or_recorded_at = now, or_result = None, or_custody_scope = [],
      or_cleared = False\<rparr>"

definition resolve_transaction ::
  "store_config \<Rightarrow> env \<Rightarrow> ResolveOperationRequest \<Rightarrow> op_store \<Rightarrow> (OperationOutcome, op_store) tx_result" where
  "resolve_transaction cfg e q s = guards
     [requireDataset e (ro_dataset_id q) (os_db s)]
     (case readOperationReceipt (ro_operation_id q) s of
        Some r \<Rightarrow> guards [receipt_matches r (ro_method q) (ro_request_digest q)]
          (Commit (receipt_outcome r) s)
      | None \<Rightarrow> guards
          [fail_if ErrNotReady (sc_dataset_state cfg \<noteq> DatasetReady),
           fail_if ErrClockSkew (ro_issued_at q - env_now e > MaxClockSkew),
           fail_if ErrOperationExpired (env_now e - ro_issued_at q > MinReceiptRetention - MaxClockSkew)]
          (let aborted = aborted_receipt q (env_now e) in
           case insertOperationReceipt aborted s of
             Inl x \<Rightarrow> Abort x
           | Inr s' \<Rightarrow> Commit (receipt_outcome aborted) s'))"

definition ResolveOperation ::
  "store_config \<Rightarrow> env \<Rightarrow> write_ctx \<Rightarrow> ResolveOperationRequest \<Rightarrow> op_store \<Rightarrow>
   (store_error + OperationOutcome) \<times> op_store" where
  "ResolveOperation cfg e ctx q s =
     (case first_error
        [ResolveOperationRequest_Validate q, requireOwnTransaction ctx, requireCompatibleDataset cfg] of
        Some x \<Rightarrow> (Inl x, s)
      | None \<Rightarrow> with_tx (env_fault e) (resolve_transaction cfg e q) s)"

text \<open>The subquery of the \<^verbatim>\<open>DELETE\<close>: the oldest rows before the cutoff, at most \<open>limit\<close>.\<close>

definition prunable :: "gotime \<Rightarrow> int \<Rightarrow> operationReceipt list \<Rightarrow> operationReceipt list" where
  "prunable cutoff limit t =
     take (nat limit) (sort_key or_recorded_at (filter (\<lambda>r. or_recorded_at r < cutoff) t))"

definition PruneOperationReceipts :: "env \<Rightarrow> int \<Rightarrow> op_store \<Rightarrow> (store_error + int) \<times> op_store" where
  "PruneOperationReceipts e limit s =
     (if limit < 1 then (Inl ErrValidation, s)
      else if env_fault e \<noteq> None then (Inl ErrDriver, s)
      else
        let ids = map or_operation_id (prunable (env_now e - receiptRetention) limit (os_receipts s));
            (t, removed) = sql_delete (\<lambda>r. List.member ids (or_operation_id r)) (os_receipts s)
        in (Inr (int removed), s\<lparr>os_receipts := t\<rparr>))"

definition clearCustodyReceipts :: "env \<Rightarrow> string \<Rightarrow> op_store \<Rightarrow> (store_error + bool) \<times> op_store" where
  "clearCustodyReceipts e connectionUID s =
     (if connectionUID = [] then (Inr False, s)
      else if env_fault e \<noteq> None then (Inl ErrDriver, s)
      else
        case sql_update (\<lambda>_. True)
               (\<lambda>r. or_custody_scope r = connectionUID \<and> or_custody_scope r \<noteq> [] \<and> \<not> or_cleared r)
               (\<lambda>r. r\<lparr>or_result := None, or_cleared := True\<rparr>) (os_receipts s) of
          None \<Rightarrow> (Inl ErrDriver, s)
        | Some (t, cleared) \<Rightarrow> (Inr (cleared > 0), s\<lparr>os_receipts := t\<rparr>))"

text \<open>
  The maintenance loop.  Every iteration reads the clock again; \<open>clock i\<close> is the environment of the
  \<open>i\<close>-th statement.  It ends because every full batch makes the table smaller.
\<close>

lemma prune_shrinks:
  assumes "PruneOperationReceipts e limit s = (Inr removed, s')"
  shows "int (length (os_receipts s')) = int (length (os_receipts s)) - removed"
proof -
  have "length (filter W t) + length (filter (\<lambda>r. \<not> W r) t) = length t"
    for W :: "operationReceipt \<Rightarrow> bool" and t
    by (rule sum_length_filter_compl)
  with assms show ?thesis
    by (auto simp: PruneOperationReceipts_def sql_delete_def Let_def split: if_splits)
      (metis add_diff_cancel_left' of_nat_add)
qed

function pruneExpiredOperationReceipts ::
  "(nat \<Rightarrow> env) \<Rightarrow> nat \<Rightarrow> op_store \<Rightarrow> store_error option \<times> op_store" where
  "pruneExpiredOperationReceipts clock i s =
     (case PruneOperationReceipts (clock i) receiptPruneBatch s of
        (Inl x, s') \<Rightarrow> (Some x, s')
      | (Inr removed, s') \<Rightarrow>
          if removed < receiptPruneBatch then (None, s')
          else pruneExpiredOperationReceipts clock (Suc i) s')"
  by pat_completeness auto
termination
  by (relation "measure (\<lambda>(_, _, s). length (os_receipts s))")
    (auto simp: receiptPruneBatch_def dest!: prune_shrinks [OF sym])

declare pruneExpiredOperationReceipts.simps [simp del]

section \<open>The receipt table\<close>

interpretation receipts: keyed_table or_operation_id "\<lambda>_. True" receipt_clash
  by unfold_locales (auto simp: receipt_clash_def)

text \<open>The primary key of the table.\<close>

abbreviation receipt_table_ok :: "op_store \<Rightarrow> bool" where
  "receipt_table_ok s \<equiv> receipts.table_ok (os_receipts s)"

lemma receipts_distinct: "receipts.table_ok t \<Longrightarrow> distinct t"
  by (induction t) (auto simp: receipts.table_ok_Cons receipt_clash_def)

lemma read_receipt_in: "readOperationReceipt oid s = Some r \<Longrightarrow> r \<in> set (os_receipts s) \<and> or_operation_id r = oid"
  unfolding readOperationReceipt_def by (rule find_row_SomeD)

lemma insert_receipt:
  assumes "insertOperationReceipt r s = Inr s'"
  shows "s' = s\<lparr>os_receipts := os_receipts s @ [r]\<rparr>" "readOperationReceipt (or_operation_id r) s = None"
    "readOperationReceipt (or_operation_id r) s' = Some r" "receipt_table_ok s \<Longrightarrow> receipt_table_ok s'"
proof -
  from assms obtain t where t: "sql_insert (\<lambda>_. True) receipt_clash r (os_receipts s) = Some t"
    and s': "s' = s\<lparr>os_receipts := t\<rparr>"
    by (auto simp: insertOperationReceipt_def split: option.splits)
  from t s' show "s' = s\<lparr>os_receipts := os_receipts s @ [r]\<rparr>"
    by (auto simp: sql_insert_def split: if_splits)
  from receipts.insert_fresh [OF t] receipts.insert_find_same [OF t] receipts.insert_ok [OF _ t] s'
  show "readOperationReceipt (or_operation_id r) s = None"
    "readOperationReceipt (or_operation_id r) s' = Some r" "receipt_table_ok s \<Longrightarrow> receipt_table_ok s'"
    by (auto simp: readOperationReceipt_def)
qed

lemma insert_receipt_fresh:
  "readOperationReceipt (or_operation_id r) s = None \<Longrightarrow>
   insertOperationReceipt r s = Inr (s\<lparr>os_receipts := os_receipts s @ [r]\<rparr>)"
  by (auto simp: insertOperationReceipt_def sql_insert_def readOperationReceipt_def find_row_None
      receipt_clash_def list_ex_iff)

section \<open>Writes\<close>

text \<open>
  The operations settled by a call: what the receipt table lists with their recording time.  A body may
  change other tables and clear results, but it neither adds nor removes receipts.
\<close>

definition ledger :: "op_store \<Rightarrow> (string \<times> gotime) list" where
  "ledger s = map (\<lambda>r. (or_operation_id r, or_recorded_at r)) (os_receipts s)"

definition settled :: "string \<Rightarrow> op_store \<Rightarrow> bool" where
  "settled oid s \<longleftrightarrow> readOperationReceipt oid s \<noteq> None"

definition keeps_ledger :: "(op_store \<Rightarrow> 'a \<times> op_store) \<Rightarrow> bool" where
  "keeps_ledger body \<longleftrightarrow> (\<forall>s. ledger (snd (body s)) = ledger s)"

lemma settled_ledger: "settled oid s \<longleftrightarrow> oid \<in> fst ` set (ledger s)"
  by (auto simp: settled_def readOperationReceipt_def find_row_None ledger_def image_iff)

lemma keeps_ledgerD: "keeps_ledger body \<Longrightarrow> body s = (a, s') \<Longrightarrow> ledger s' = ledger s"
  by (metis keeps_ledger_def snd_conv)

text \<open>The call runs as a write operation of its own, under the envelope \<open>en\<close>.\<close>

definition enveloped :: "'r write_call \<Rightarrow> WriteEnvelope \<Rightarrow> bool" where
  "enveloped w en \<longleftrightarrow> \<not> wx_in_operation (wr_ctx w) \<and> wx_envelope (wr_ctx w) = Some en"

lemma enveloped_write:
  assumes "enveloped w en"
  shows "writeOperation w s =
    (case first_error
       [fail_if ErrDriver (\<not> is_write_method (wr_method w)), WriteEnvelope_Validate en,
        case wr_explicit_fence w of None \<Rightarrow> None | Some f \<Rightarrow> requireEnvelopeFence f (we_fence en)] of
       Some x \<Rightarrow> (Inl x, s)
     | None \<Rightarrow> with_tx (env_fault (wr_env w)) (write_transaction w en) s)"
  using assms by (simp add: writeOperation_def enveloped_def)

lemma write_error:
  assumes "enveloped w en" "writeOperation w s = (Inl x, s')"
  shows "s' = s"
  using assms(2) unfolding enveloped_write [OF assms(1)]
  by (auto split: option.splits dest: with_tx_error)

text \<open>A new operation passed every check.\<close>

definition write_admitted :: "'r write_call \<Rightarrow> WriteEnvelope \<Rightarrow> op_store \<Rightarrow> bool" where
  "write_admitted w en s \<longleftrightarrow>
     \<not> settled (we_operation_id en) s \<and>
     ds_id (store_dataset (os_db s)) = we_dataset_id en \<and>
     ds_state (store_dataset (os_db s)) \<noteq> bindingStateDetached \<and>
     sc_dataset_state (wr_config w) = DatasetReady \<and>
     env_now (wr_env w) - we_issued_at en \<le> MaxOperationAge \<and>
     we_issued_at en - env_now (wr_env w) \<le> MaxClockSkew \<and>
     current_epoch (os_db s) = Some (fence_epoch (we_fence en))"

lemma check_write_new:
  "checkWrite cfg e method en s = Inr None \<Longrightarrow>
   readOperationReceipt (we_operation_id en) s = None \<and> ds_id (store_dataset (os_db s)) = we_dataset_id en \<and>
   sc_dataset_state cfg = DatasetReady \<and> env_now e - we_issued_at en \<le> MaxOperationAge \<and>
   we_issued_at en - env_now e \<le> MaxClockSkew \<and> requireNotDetached (os_db s) = None \<and>
   requireControllerEpoch (os_db s) (we_fence en) = None"
  by (auto simp: checkWrite_def requireDataset_def split: option.splits)

lemma check_write_replay:
  "checkWrite cfg e method en s = Inr (Some stored) \<longleftrightarrow>
   requireCompatibleDataset cfg = None \<and> requireDataset e (we_dataset_id en) (os_db s) = None \<and>
   (\<exists>r. readOperationReceipt (we_operation_id en) s = Some r \<and> or_method r = method \<and>
        or_digest r = we_request_digest en \<and> or_state r = OperationCommitted \<and> \<not> or_cleared r \<and>
        or_result r = stored)"
  by (auto simp: checkWrite_def receipt_matches_def split: option.splits)
    (metis OperationState.exhaust)+

text \<open>What a success means: a replay that changes nothing, or a new operation with its receipt.\<close>

lemma write_success:
  assumes "enveloped w en" "writeOperation w s = (Inr r, s')"
  shows "WriteEnvelope_Validate en = None \<and> is_write_method (wr_method w) \<and>
    ((\<exists>stored. checkWrite (wr_config w) (wr_env w) (wr_method w) en s = Inr (Some stored) \<and>
        decodeReceiptResult (wr_codec w) stored = Inr r \<and> s' = s) \<or>
     (\<exists>s1 encoded. checkWrite (wr_config w) (wr_env w) (wr_method w) en s = Inr None \<and>
        wr_body w s = (Inr r, s1) \<and> encodeReceiptResult (wr_codec w) r = Inr encoded \<and>
        insertOperationReceipt (committed_receipt w en encoded r) s1 = Inr s'))"
proof -
  from assms(2) have pre: "WriteEnvelope_Validate en = None" "is_write_method (wr_method w)"
    and tx: "with_tx (env_fault (wr_env w)) (write_transaction w en) s = (Inr r, s')"
    unfolding enveloped_write [OF assms(1)] by (auto split: option.splits)
  have "write_transaction w en s \<noteq> ReturnTx r"
    by (auto simp: write_transaction_def split: sum.splits option.splits prod.splits)
  with with_tx_ok [OF tx] have "write_transaction w en s = Commit r s'" by simp
  then show ?thesis
    using pre by (auto simp: write_transaction_def split: sum.splits option.splits prod.splits)
qed

lemma write_new_admitted:
  "checkWrite (wr_config w) (wr_env w) (wr_method w) en s = Inr None \<Longrightarrow> write_admitted w en s"
  by (auto simp: write_admitted_def settled_def requireNotDetached_def refuseDetached_def
      dest!: check_write_new requireControllerEpoch_None)

section \<open>The ledger of settled operations\<close>

text \<open>
  What the receipt table is about, without its data: the settled operations with the times at which
  they were recorded, and the clock readings of each step.  \<open>issued\<close> gives the time at which the
  controller created an operation; every attempt and the resolution of an operation repeat it.
\<close>

inductive ledger_step ::
  "(string \<Rightarrow> gotime) \<Rightarrow> gotime list \<Rightarrow> (string \<times> gotime) list \<Rightarrow> (string \<times> gotime) list \<Rightarrow> bool"
  for issued where
  keep: "ledger_step issued ts k k"
| settle: "oid \<notin> fst ` set k \<Longrightarrow> now - issued oid \<le> MinReceiptRetention - MaxClockSkew \<Longrightarrow>
    issued oid - now \<le> MaxClockSkew \<Longrightarrow>
    ledger_step issued (now # ts) k (k @ [(oid, last (now # ts))])"
| prune: "\<forall>x \<in> set k. P x \<or> snd x < now - receiptRetention \<Longrightarrow>
    ledger_step issued (now # ts) k (filter P k)"

text \<open>How far a clock has moved back in total over a list of readings.\<close>

fun regression :: "gotime list \<Rightarrow> int" where
  "regression (t # u # ts) = max 0 (t - u) + regression (u # ts)"
| "regression _ = 0"

lemma regression_nonneg: "0 \<le> regression ts"
  by (induction ts rule: regression.induct) auto

lemma regression_append:
  "regression (c # xs @ ys) = regression (c # xs) + regression (last (c # xs) # ys)"
  by (induction xs arbitrary: c) auto

lemma regression_last: "c - last (c # ts) \<le> regression (c # ts)"
proof (induction ts arbitrary: c)
  case (Cons t ts)
  from Cons [of t] show ?case by auto
qed simp

text \<open>
  The bound on one operation, relative to the clock \<open>c\<close> and the regression \<open>g\<close> so far: while its
  receipt is kept, and after the receipt was pruned.
\<close>

definition receipt_bound :: "(string \<Rightarrow> gotime) \<Rightarrow> string \<Rightarrow> int \<Rightarrow> (string \<times> gotime) list \<Rightarrow> bool" where
  "receipt_bound issued oid g k \<longleftrightarrow>
     (\<forall>(i, t) \<in> set k. i = oid \<longrightarrow> issued oid \<le> t + g + MaxClockSkew)"

definition pruned_bound :: "(string \<Rightarrow> gotime) \<Rightarrow> string \<Rightarrow> int \<Rightarrow> gotime \<Rightarrow> bool" where
  "pruned_bound issued oid g c \<longleftrightarrow> issued oid + receiptRetention < c + g + MaxClockSkew"

lemma receipt_bound_mono: "receipt_bound issued oid g k \<Longrightarrow> g \<le> g' \<Longrightarrow> receipt_bound issued oid g' k"
  by (fastforce simp: receipt_bound_def)

lemma pruned_bound_later:
  "pruned_bound issued oid g c \<Longrightarrow> pruned_bound issued oid (g + regression (c # ts)) (last (c # ts))"
  using regression_last [of c ts] by (auto simp: pruned_bound_def)

text \<open>A pruned operation is too old for every later write and every later resolution.\<close>

lemma pruned_not_settled:
  assumes "pruned_bound issued oid g c" "g + regression (c # now # ts) \<le> receiptClockStepAllowance"
  shows "\<not> now - issued oid \<le> MinReceiptRetention - MaxClockSkew"
  using assms regression_nonneg [of "now # ts"]
  by (auto simp: pruned_bound_def receiptRetention_def)

lemma ledger_step_settled:
  assumes step: "ledger_step issued ts k k'"
    and bound: "g + regression (c # ts) \<le> receiptClockStepAllowance"
    and state: "oid \<in> fst ` set k \<and> receipt_bound issued oid g k \<or>
      oid \<notin> fst ` set k \<and> pruned_bound issued oid g c"
  shows "\<not> (oid \<notin> fst ` set k \<and> oid \<in> fst ` set k') \<and>
    (oid \<in> fst ` set k' \<and> receipt_bound issued oid (g + regression (c # ts)) k' \<or>
     oid \<notin> fst ` set k' \<and> pruned_bound issued oid (g + regression (c # ts)) (last (c # ts)))"
  using step
proof cases
  case keep
  with state receipt_bound_mono [of issued oid g k "g + regression (c # ts)"]
    pruned_bound_later [of issued oid g c ts] regression_nonneg [of "c # ts"]
  show ?thesis by auto
next
  case (settle new now us)
  show ?thesis
  proof (cases "oid \<in> fst ` set k")
    case True
    with settle have "new \<noteq> oid" by auto
    with settle(2) True state receipt_bound_mono [of issued oid g k "g + regression (c # ts)"]
      regression_nonneg [of "c # ts"]
    show ?thesis by (auto simp: receipt_bound_def)
  next
    case False
    with state have "pruned_bound issued oid g c" by simp
    with settle(1,4) bound pruned_not_settled [of issued oid g c now us] have "new \<noteq> oid" by auto
    with settle(2) False state pruned_bound_later [of issued oid g c ts] show ?thesis by auto
  qed
next
  case (prune P now us)
  show ?thesis
  proof (cases "oid \<in> fst ` set k")
    case False
    with state prune(2) pruned_bound_later [of issued oid g c ts] show ?thesis by auto
  next
    case True
    with state have rb: "receipt_bound issued oid g k" by simp
    then have kept: "receipt_bound issued oid (g + regression (c # ts)) k'"
      using receipt_bound_mono [of issued oid g k "g + regression (c # ts)"] regression_nonneg [of "c # ts"]
        prune(2) by (auto simp: receipt_bound_def)
    from True obtain t where t: "(oid, t) \<in> set k" by auto
    have "pruned_bound issued oid (g + regression (c # ts)) (last (c # ts))" if "oid \<notin> fst ` set k'"
    proof -
      from that t prune(2) have "\<not> P (oid, t)" by force
      with prune(3) t have "t < now - receiptRetention" by fastforce
      with rb t have "pruned_bound issued oid g now" by (fastforce simp: receipt_bound_def pruned_bound_def)
      with pruned_bound_later [of issued oid g now us] prune(1) show ?thesis
        by (auto simp: pruned_bound_def)
    qed
    with True kept show ?thesis by auto
  qed
qed

lemma ledger_step_fresh:
  assumes step: "ledger_step issued ts k k'" and fresh: "oid \<notin> fst ` set k" and g: "0 \<le> g"
  shows "oid \<notin> fst ` set k' \<or> receipt_bound issued oid (g + regression (c # ts)) k'"
  using step
proof cases
  case (settle new now us)
  show ?thesis
  proof (cases "new = oid")
    case True
    have "issued oid \<le> last ts + regression ts + MaxClockSkew"
      using settle(1,5) True regression_last [of now us] by auto
    moreover have "regression ts \<le> g + regression (c # ts)" using settle(1) g by simp
    moreover have "(oid, t) \<notin> set k" for t using fresh by force
    ultimately show ?thesis
      using settle(1,2) True by (auto simp: receipt_bound_def)
  next
    case False
    with settle(2) fresh show ?thesis by auto
  qed
qed (use fresh in auto)

section \<open>Runs\<close>

text \<open>
  What happens at the store, in any order: contract writes with any body, resolutions, prunings,
  clearing of custody results, and changes of the other tables by administrative methods.
\<close>

datatype 'r receipt_event =
    WriteEvent "'r write_call"
  | ResolveEvent store_config env write_ctx ResolveOperationRequest
  | PruneEvent env int
  | ClearEvent env string
  | DatabaseEvent "db \<Rightarrow> db"

fun apply_event :: "'r receipt_event \<Rightarrow> op_store \<Rightarrow> op_store" where
  "apply_event (WriteEvent w) s = snd (writeOperation w s)"
| "apply_event (ResolveEvent cfg e ctx q) s = snd (ResolveOperation cfg e ctx q s)"
| "apply_event (PruneEvent e limit) s = snd (PruneOperationReceipts e limit s)"
| "apply_event (ClearEvent e uid) s = snd (clearCustodyReceipts e uid s)"
| "apply_event (DatabaseEvent f) s = s\<lparr>os_db := f (os_db s)\<rparr>"

text \<open>The readings of the store's clock by an event, in order.\<close>

fun event_clocks :: "'r receipt_event \<Rightarrow> gotime list" where
  "event_clocks (WriteEvent w) = [env_now (wr_env w), wr_recorded_at w]"
| "event_clocks (ResolveEvent cfg e ctx q) = [env_now e]"
| "event_clocks (PruneEvent e limit) = [env_now e]"
| "event_clocks (ClearEvent e uid) = []"
| "event_clocks (DatabaseEvent f) = []"

text \<open>
  Every attempt of an operation, and its resolution, carry the time at which the operation was issued;
  the body of a write neither adds nor removes receipts.
\<close>

fun event_ok :: "(string \<Rightarrow> gotime) \<Rightarrow> 'r receipt_event \<Rightarrow> bool" where
  "event_ok issued (WriteEvent w) \<longleftrightarrow> keeps_ledger (wr_body w) \<and>
     (\<forall>en. wx_envelope (wr_ctx w) = Some en \<longrightarrow> we_issued_at en = issued (we_operation_id en))"
| "event_ok issued (ResolveEvent cfg e ctx q) \<longleftrightarrow> ro_issued_at q = issued (ro_operation_id q)"
| "event_ok issued _ \<longleftrightarrow> True"

text \<open>How many events of a run settle an operation: commit it, or record it as aborted.\<close>

fun settlements :: "string \<Rightarrow> 'r receipt_event list \<Rightarrow> op_store \<Rightarrow> nat" where
  "settlements oid [] s = 0"
| "settlements oid (ev # evs) s =
     (if \<not> settled oid s \<and> settled oid (apply_event ev s) then 1 else 0) +
     settlements oid evs (apply_event ev s)"

lemma ledger_append_receipt:
  "ledger (s\<lparr>os_receipts := os_receipts s @ [r]\<rparr>) = ledger s @ [(or_operation_id r, or_recorded_at r)]"
  by (simp add: ledger_def)

lemma write_step:
  assumes ok: "event_ok issued (WriteEvent w)"
  shows "ledger_step issued [env_now (wr_env w), wr_recorded_at w] (ledger s) (ledger (snd (writeOperation w s)))"
proof (cases "\<exists>en. enveloped w en")
  case False
  with ok have "ledger (snd (writeOperation w s)) = ledger s"
    by (auto simp: writeOperation_def enveloped_def keeps_ledger_def split: option.splits)
  then show ?thesis by (simp add: ledger_step.keep)
next
  case True
  then obtain en where en: "enveloped w en" ..
  obtain res s' where run: "writeOperation w s = (res, s')" by fastforce
  consider "s' = s" | s1 encoded r where
    "checkWrite (wr_config w) (wr_env w) (wr_method w) en s = Inr None" "wr_body w s = (Inr r, s1)"
    "insertOperationReceipt (committed_receipt w en encoded r) s1 = Inr s'"
    using run by (cases res) (auto dest: write_error [OF en] dest!: write_success [OF en])
  then show ?thesis
  proof cases
    case 1
    with run show ?thesis by (simp add: ledger_step.keep)
  next
    case 2
    from ok 2(2) have same: "ledger s1 = ledger s" by (auto dest: keeps_ledgerD)
    from insert_receipt(1) [OF 2(3)] same
    have "ledger s' = ledger s @ [(we_operation_id en, wr_recorded_at w)]"
      by (simp add: ledger_append_receipt committed_receipt_def)
    moreover have "we_issued_at en = issued (we_operation_id en)"
      using ok en by (simp add: enveloped_def)
    ultimately show ?thesis
      using run write_new_admitted [OF 2(1)]
        ledger_step.settle [of "we_operation_id en" "ledger s" "env_now (wr_env w)" issued "[wr_recorded_at w]"]
      by (auto simp: write_admitted_def settled_ledger receipt_constants)
  qed
qed

lemma resolve_success:
  assumes "ResolveOperation cfg e ctx q s = (Inr out, s')"
  shows "(\<exists>r. readOperationReceipt (ro_operation_id q) s = Some r \<and> or_method r = ro_method q \<and>
      or_digest r = ro_request_digest q \<and> out = receipt_outcome r \<and> s' = s) \<or>
    (\<not> settled (ro_operation_id q) s \<and> ro_issued_at q - env_now e \<le> MaxClockSkew \<and>
     env_now e - ro_issued_at q \<le> MinReceiptRetention - MaxClockSkew \<and>
     out = receipt_outcome (aborted_receipt q (env_now e)) \<and>
     insertOperationReceipt (aborted_receipt q (env_now e)) s = Inr s')"
proof -
  from assms have "with_tx (env_fault e) (resolve_transaction cfg e q) s = (Inr out, s')"
    by (auto simp: ResolveOperation_def split: option.splits)
  moreover have "resolve_transaction cfg e q s \<noteq> ReturnTx out"
    by (auto simp: resolve_transaction_def Let_def split: option.splits sum.splits)
  ultimately have "resolve_transaction cfg e q s = Commit out s'" by (auto dest: with_tx_ok)
  then show ?thesis
    by (auto simp: resolve_transaction_def receipt_matches_def settled_def Let_def
        split: option.splits sum.splits)
qed

lemma resolve_error: "ResolveOperation cfg e ctx q s = (Inl x, s') \<Longrightarrow> s' = s"
  by (auto simp: ResolveOperation_def split: option.splits dest: with_tx_error)

lemma resolve_step:
  assumes ok: "ro_issued_at q = issued (ro_operation_id q)"
  shows "ledger_step issued [env_now e] (ledger s) (ledger (snd (ResolveOperation cfg e ctx q s)))"
proof -
  obtain res s' where run: "ResolveOperation cfg e ctx q s = (res, s')" by fastforce
  show ?thesis
  proof (cases "s' = s")
    case True
    with run show ?thesis by (simp add: ledger_step.keep)
  next
    case False
    with run have new: "\<not> settled (ro_operation_id q) s" "ro_issued_at q - env_now e \<le> MaxClockSkew"
      "env_now e - ro_issued_at q \<le> MinReceiptRetention - MaxClockSkew"
      and ins: "insertOperationReceipt (aborted_receipt q (env_now e)) s = Inr s'"
      by (cases res; auto dest: resolve_error dest!: resolve_success)+
    from insert_receipt(1) [OF ins] have "ledger s' = ledger s @ [(ro_operation_id q, env_now e)]"
      by (simp add: ledger_append_receipt aborted_receipt_def)
    with run new ok ledger_step.settle [of "ro_operation_id q" "ledger s" "env_now e" issued "[]"]
    show ?thesis by (auto simp: settled_ledger)
  qed
qed

lemma prunable_old: "r \<in> set (prunable cutoff limit t) \<Longrightarrow> r \<in> set t \<and> or_recorded_at r < cutoff"
  by (auto simp: prunable_def dest!: in_set_takeD)

lemma prune_step:
  assumes "receipt_table_ok s"
  shows "ledger_step issued [env_now e] (ledger s) (ledger (snd (PruneOperationReceipts e limit s)))"
proof (cases "limit < 1 \<or> env_fault e \<noteq> None")
  case True
  then show ?thesis by (auto simp: PruneOperationReceipts_def ledger_step.keep)
next
  case False
  define xs where "xs = prunable (env_now e - receiptRetention) limit (os_receipts s)"
  define ids where "ids = map or_operation_id xs"
  have "ledger (snd (PruneOperationReceipts e limit s)) = filter (\<lambda>x. \<not> List.member ids (fst x)) (ledger s)"
    using False by (simp add: PruneOperationReceipts_def sql_delete_def ledger_def filter_map o_def ids_def xs_def)
  moreover have "\<not> List.member ids (fst x) \<or> snd x < env_now e - receiptRetention" if "x \<in> set (ledger s)" for x
  proof -
    from that obtain r where r: "r \<in> set (os_receipts s)" "x = (or_operation_id r, or_recorded_at r)"
      by (auto simp: ledger_def)
    have "or_recorded_at r < env_now e - receiptRetention" if "List.member ids (fst x)"
    proof -
      from that obtain y where y: "y \<in> set xs" "or_operation_id y = or_operation_id r"
        using r by (auto simp: ids_def)
      with prunable_old [of y] r receipts.row_unique [OF assms, of y r] show ?thesis
        by (auto simp: xs_def receipt_clash_def)
    qed
    with r show ?thesis by auto
  qed
  ultimately show ?thesis
    using ledger_step.prune [of "ledger s" "\<lambda>x. \<not> List.member ids (fst x)" "env_now e" issued "[]"] by simp
qed

lemma clear_ledger: "ledger (snd (clearCustodyReceipts e uid s)) = ledger s"
  by (auto simp: clearCustodyReceipts_def sql_update_def ledger_def list_ex_iff split: prod.splits)

lemma receipt_table_ok_ledger: "receipt_table_ok s \<longleftrightarrow> distinct (map fst (ledger s))"
proof -
  have "receipts.table_ok t \<longleftrightarrow> distinct (map or_operation_id t)" for t
    unfolding receipts.table_ok_def receipt_clash_def by (induction t) auto
  then show ?thesis by (simp add: ledger_def o_def)
qed

lemma event_step:
  assumes "event_ok issued ev" "receipt_table_ok s"
  shows "ledger_step issued (event_clocks ev) (ledger s) (ledger (apply_event ev s))"
proof (cases ev)
  case (WriteEvent w)
  with assms write_step [of issued w s] show ?thesis by simp
next
  case (ResolveEvent cfg e ctx q)
  with assms resolve_step [of q issued e s cfg ctx] show ?thesis by simp
next
  case (PruneEvent e limit)
  with assms prune_step [of s issued e limit] show ?thesis by simp
qed (auto simp: clear_ledger ledger_step.keep, simp add: ledger_def ledger_step.keep)

lemma ledger_step_distinct: "ledger_step issued ts k k' \<Longrightarrow> distinct (map fst k) \<Longrightarrow> distinct (map fst k')"
  by (induction rule: ledger_step.induct) (auto simp: distinct_map_filter image_iff)

lemma event_receipts_ok:
  "event_ok issued ev \<Longrightarrow> receipt_table_ok s \<Longrightarrow> receipt_table_ok (apply_event ev s)"
  using ledger_step_distinct [OF event_step [of issued ev s]] by (simp add: receipt_table_ok_ledger)

abbreviation run_clocks :: "'r receipt_event list \<Rightarrow> gotime list" where
  "run_clocks evs \<equiv> concat (map event_clocks evs)"

text \<open>Once an operation has been settled no event settles it again, pruned or not.\<close>

lemma settled_operation_final:
  assumes "\<forall>ev \<in> set evs. event_ok issued ev" "receipt_table_ok s"
    and "g + regression (c # run_clocks evs) \<le> receiptClockStepAllowance"
    and "settled oid s \<and> receipt_bound issued oid g (ledger s) \<or>
      \<not> settled oid s \<and> pruned_bound issued oid g c"
  shows "settlements oid evs s = 0"
  using assms
proof (induction evs arbitrary: s c g)
  case (Cons ev evs)
  let ?ts = "event_clocks ev" and ?s = "apply_event ev s"
  from Cons.prems(1,2) have step: "ledger_step issued ?ts (ledger s) (ledger ?s)" and ok: "receipt_table_ok ?s"
    using event_step [of issued ev s] event_receipts_ok [of issued ev s] by auto
  have split: "regression (c # run_clocks (ev # evs)) =
    regression (c # ?ts) + regression (last (c # ?ts) # run_clocks evs)"
    using regression_append [of c ?ts "run_clocks evs"] by simp
  with Cons.prems(3) regression_nonneg [of "last (c # ?ts) # run_clocks evs"]
  have "g + regression (c # ?ts) \<le> receiptClockStepAllowance" by linarith
  note next_state = ledger_step_settled [OF step this Cons.prems(4) [unfolded settled_ledger]]
  then have "settlements oid evs ?s = 0"
    using Cons.prems(1,3) ok split
    by (intro Cons.IH [of ?s "g + regression (c # ?ts)" "last (c # ?ts)"]) (simp_all add: settled_ledger)
  with next_state show ?case by (auto simp: settled_ledger)
qed simp

lemma settlements_bound:
  assumes "\<forall>ev \<in> set evs. event_ok issued ev" "receipt_table_ok s" "0 \<le> g"
    and "g + regression (c # run_clocks evs) \<le> receiptClockStepAllowance" "\<not> settled oid s"
  shows "settlements oid evs s \<le> 1"
  using assms
proof (induction evs arbitrary: s c g)
  case (Cons ev evs)
  let ?ts = "event_clocks ev" and ?s = "apply_event ev s" and ?g = "g + regression (c # event_clocks ev)"
  from Cons.prems(1,2) have step: "ledger_step issued ?ts (ledger s) (ledger ?s)" and ok: "receipt_table_ok ?s"
    using event_step [of issued ev s] event_receipts_ok [of issued ev s] by auto
  have rest: "?g + regression (last (c # ?ts) # run_clocks evs) \<le> receiptClockStepAllowance"
    using regression_append [of c ?ts "run_clocks evs"] Cons.prems(4) by simp
  show ?case
  proof (cases "settled oid ?s")
    case True
    with ledger_step_fresh [OF step, of oid g c] Cons.prems(3,5)
    have "receipt_bound issued oid ?g (ledger ?s)" by (simp add: settled_ledger)
    with settled_operation_final [of evs issued ?s ?g "last (c # ?ts)" oid] Cons.prems(1) ok rest True
    have "settlements oid evs ?s = 0" by simp
    then show ?thesis by simp
  next
    case False
    with Cons.IH [of ?s ?g "last (c # ?ts)"] Cons.prems(1,3) ok rest regression_nonneg [of "c # ?ts"]
    show ?thesis by simp
  qed
qed simp

section \<open>Pruning\<close>

text \<open>The rows a pruning statement selects are the rows it removes, one for each.\<close>

lemma selected_rows:
  assumes ok: "receipts.table_ok t" and xs: "set xs \<subseteq> set t" "distinct xs"
  shows "r \<in> set t \<Longrightarrow> or_operation_id r \<in> or_operation_id ` set xs \<longleftrightarrow> r \<in> set xs"
    and "length (filter (\<lambda>r. or_operation_id r \<in> or_operation_id ` set xs) t) = length xs"
proof -
  have member: "or_operation_id r \<in> or_operation_id ` set xs \<longleftrightarrow> r \<in> set xs" if "r \<in> set t" for r
    using receipts.row_unique [OF ok that] xs(1) by (fastforce simp: receipt_clash_def)
  then show "r \<in> set t \<Longrightarrow> or_operation_id r \<in> or_operation_id ` set xs \<longleftrightarrow> r \<in> set xs" .
  have "filter (\<lambda>r. or_operation_id r \<in> or_operation_id ` set xs) t = filter (\<lambda>r. r \<in> set xs) t"
    using member by (intro filter_cong) auto
  moreover have "set (filter (\<lambda>r. r \<in> set xs) t) = set xs" using xs(1) by auto
  moreover have "distinct (filter (\<lambda>r. r \<in> set xs) t)" using receipts_distinct [OF ok] by simp
  ultimately show "length (filter (\<lambda>r. or_operation_id r \<in> or_operation_id ` set xs) t) = length xs"
    using xs(2) distinct_card by metis
qed

abbreviation expired_receipts :: "env \<Rightarrow> op_store \<Rightarrow> operationReceipt list" where
  "expired_receipts e s \<equiv> filter (\<lambda>r. or_recorded_at r < env_now e - receiptRetention) (os_receipts s)"

lemma prune_result:
  assumes ok: "receipt_table_ok s" and run: "PruneOperationReceipts e limit s = (Inr n, s')"
  shows "n = min limit (int (length (expired_receipts e s)))"
    and "s' = s\<lparr>os_receipts := filter
           (\<lambda>r. r \<notin> set (prunable (env_now e - receiptRetention) limit (os_receipts s))) (os_receipts s)\<rparr>"
proof -
  let ?xs = "prunable (env_now e - receiptRetention) limit (os_receipts s)"
  have xs: "set ?xs \<subseteq> set (os_receipts s)" using prunable_old by blast
  have dist: "distinct ?xs" using receipts_distinct [OF ok] by (simp add: prunable_def)
  note sel = selected_rows [OF ok xs dist]
  have len: "int (length ?xs) = min limit (int (length (expired_receipts e s)))" if "0 < limit"
  proof -
    have "int (length ?xs) = int (min (length (expired_receipts e s)) (nat limit))"
      by (simp add: prunable_def)
    with that show ?thesis by linarith
  qed
  have pos: "0 < limit" using run by (auto simp: PruneOperationReceipts_def split: if_splits)
  have del: "n = int (length (filter (\<lambda>r. or_operation_id r \<in> or_operation_id ` set ?xs) (os_receipts s)))"
    "s' = s\<lparr>os_receipts := filter (\<lambda>r. or_operation_id r \<notin> or_operation_id ` set ?xs) (os_receipts s)\<rparr>"
    using run by (auto simp: PruneOperationReceipts_def sql_delete_def Let_def split: if_splits)
  then show "n = min limit (int (length (expired_receipts e s)))" using sel(2) len [OF pos] by simp
  have "filter (\<lambda>r. or_operation_id r \<notin> or_operation_id ` set ?xs) (os_receipts s) =
    filter (\<lambda>r. r \<notin> set ?xs) (os_receipts s)"
    using sel(1) by (intro filter_cong) auto
  with del(2) show "s' = s\<lparr>os_receipts := filter (\<lambda>r. r \<notin> set ?xs) (os_receipts s)\<rparr>" by simp
qed

text \<open>A short batch removed every expired receipt.\<close>

lemma prune_short:
  assumes "int (length (expired_receipts e s)) \<le> limit" "r \<in> set (os_receipts s)"
  shows "r \<in> set (prunable (env_now e - receiptRetention) limit (os_receipts s)) \<longleftrightarrow>
    or_recorded_at r < env_now e - receiptRetention"
  using assms by (auto simp: prunable_def)

lemma prune_keeps_valid:
  assumes "receipt_table_ok s" "PruneOperationReceipts e limit s = (Inr n, s')"
  shows "receipt_table_ok s' \<and> filter (\<lambda>r. \<not> or_recorded_at r < env_now e - receiptRetention) (os_receipts s') =
    filter (\<lambda>r. \<not> or_recorded_at r < env_now e - receiptRetention) (os_receipts s)"
proof -
  have "\<not> or_recorded_at r < c \<Longrightarrow> r \<notin> set (prunable c limit t)" for r c t
    using prunable_old by blast
  then have "filter (\<lambda>r. \<not> or_recorded_at r < c) (filter (\<lambda>r. r \<notin> set (prunable c limit t)) t) =
    filter (\<lambda>r. \<not> or_recorded_at r < c) t" for c t
    by (auto intro!: filter_cong simp: conj_commute)
  then show ?thesis
    using prune_result(2) [OF assms] assms(1) receipts.delete_ok
    by (simp add: receipts.table_ok_def sorted_wrt_filter list_all_iff)
qed

section \<open>Properties\<close>

text \<open>
  C5: an operation is settled at most once.  Whatever writes, resolutions, prunings and other changes
  happen in whatever order, as long as each operation keeps its issue time and the clock moves back by
  at most the documented allowance in total, at most one event commits the operation or records it as
  aborted: it never takes effect twice and never both commits and aborts, pruned receipt or not.
\<close>

theorem operation_settled_once:
  assumes "receipt_table_ok s" "\<not> settled oid s" "\<forall>ev \<in> set evs. event_ok issued ev"
    and "regression (run_clocks evs) \<le> receiptClockStepAllowance"
  shows "settlements oid evs s \<le> 1"
proof -
  obtain c where c: "regression (c # run_clocks evs) = regression (run_clocks evs)"
    by (cases "run_clocks evs") (auto intro: that [of 0] that [of "hd (run_clocks evs)"])
  with settlements_bound [of evs issued s 0 c oid] assms show ?thesis by simp
qed

text \<open>
  C33: a write under an envelope changes the store only as one new operation: every check held (the
  dataset is the named one, ready and not detached, the operation unsettled and issued within the
  window, the fence the stored controller epoch), and the change is exactly that of the body together
  with the receipt of its result.  In every other case, errors and driver failures included, it
  changes nothing.
\<close>

theorem write_effect_exact:
  assumes "enveloped w en" "writeOperation w s = (res, s')" "s' \<noteq> s"
  shows "write_admitted w en s \<and>
    (\<exists>r s1 encoded. res = Inr r \<and> wr_body w s = (Inr r, s1) \<and>
       encodeReceiptResult (wr_codec w) r = Inr encoded \<and>
       \<not> settled (we_operation_id en) s1 \<and>
       s' = s1\<lparr>os_receipts := os_receipts s1 @ [committed_receipt w en encoded r]\<rparr>)"
proof -
  from assms obtain r where res: "res = Inr r" by (cases res) (auto dest: write_error)
  from write_success [OF assms(1) assms(2) [unfolded res]] assms(3)
  obtain s1 encoded where new: "checkWrite (wr_config w) (wr_env w) (wr_method w) en s = Inr None"
    and body: "wr_body w s = (Inr r, s1)" "encodeReceiptResult (wr_codec w) r = Inr encoded"
    and ins: "insertOperationReceipt (committed_receipt w en encoded r) s1 = Inr s'" by auto
  have "or_operation_id (committed_receipt w en encoded r) = we_operation_id en"
    by (simp add: committed_receipt_def)
  with insert_receipt(1,2) [OF ins] body res write_new_admitted [OF new] show ?thesis
    by (auto simp: settled_def)
qed

text \<open>A codec that reads back what it wrote.\<close>

definition codec_ok :: "'r receipt_codec \<Rightarrow> bool" where
  "codec_ok c \<longleftrightarrow> (\<forall>r encoded. encodeReceiptResult c r = Inr encoded \<longrightarrow> decodeReceiptResult c encoded = Inr r)"


text \<open>
  Once an operation has been resolved as aborted, no write of it commits while the record is kept:
  every attempt fails and changes nothing; and resolving it again gives the same outcome.
\<close>

theorem aborted_operation_dead:
  assumes "ResolveOperation cfg e ctx q s = (Inr out, s')" "oo_state out = OperationAborted"
    and "readOperationReceipt (ro_operation_id q) t = readOperationReceipt (ro_operation_id q) s'"
  shows "(enveloped w en \<and> we_operation_id en = ro_operation_id q \<longrightarrow> (\<exists>x. writeOperation w t = (Inl x, t))) \<and>
    (ResolveOperation cfg' e' ctx' q t = (Inr out', t') \<longrightarrow> out' = out \<and> t' = t)"
proof -
  have "\<exists>r. readOperationReceipt (ro_operation_id q) s' = Some r \<and> out = receipt_outcome r"
    using resolve_success [OF assms(1)] insert_receipt(3) [of "aborted_receipt q (env_now e)" s s']
    by (auto simp: aborted_receipt_def)
  with assms(3) obtain r where r: "readOperationReceipt (ro_operation_id q) t = Some r"
    and out: "out = receipt_outcome r" by auto
  from assms(2) out have aborted: "or_state r = OperationAborted" by (simp add: receipt_outcome_def)
  have "\<exists>x. writeOperation w t = (Inl x, t)"
    if en: "enveloped w en \<and> we_operation_id en = ro_operation_id q"
  proof -
    obtain res u where run: "writeOperation w t = (res, u)" by fastforce
    have "\<nexists>v. checkWrite (wr_config w) (wr_env w) (wr_method w) en t = Inr v"
      using r aborted en by (auto simp: checkWrite_def)
    with write_success [of w en t _ u] en run obtain x where "res = Inl x" by (cases res) auto
    with write_error [of w en t x u] run en show ?thesis by auto
  qed
  moreover have "ResolveOperation cfg' e' ctx' q t = (Inr out', t') \<Longrightarrow> out' = out \<and> t' = t"
    using r out resolve_success [of cfg' e' ctx' q t out' t'] by (auto simp: settled_def)
  ultimately show ?thesis by blast
qed

text \<open>
  The maintenance loop ends, and when the database does not fail and the clock stands still it
  has removed exactly the receipts recorded longer ago than the retention, in whatever number of
  batches.
\<close>

theorem prune_expired_exact:
  assumes "receipt_table_ok s" "env_fault e = None"
  shows "pruneExpiredOperationReceipts (\<lambda>_. e) i s =
    (None, s\<lparr>os_receipts :=
       filter (\<lambda>r. \<not> or_recorded_at r < env_now e - receiptRetention) (os_receipts s)\<rparr>)"
  using assms
proof (induction "length (os_receipts s)" arbitrary: s i rule: less_induct)
  case less
  obtain n s' where run: "PruneOperationReceipts e receiptPruneBatch s = (Inr n, s')"
    using less.prems(2) by (auto simp: PruneOperationReceipts_def receiptPruneBatch_def sql_delete_def Let_def)
  note step = prune_result [OF less.prems(1) run] and kept = prune_keeps_valid [OF less.prems(1) run]
  show ?case
  proof (cases "n < receiptPruneBatch")
    case True
    with step(1) have "int (length (expired_receipts e s)) \<le> receiptPruneBatch" by linarith
    from prune_short [OF this] step(2)
    have "s' = s\<lparr>os_receipts := filter (\<lambda>r. \<not> or_recorded_at r < env_now e - receiptRetention) (os_receipts s)\<rparr>"
      by (auto cong: filter_cong)
    with True run show ?thesis by (subst pruneExpiredOperationReceipts.simps) simp
  next
    case False
    with prune_shrinks [OF run] have "length (os_receipts s') < length (os_receipts s)"
      by (simp add: receiptPruneBatch_def)
    with less.hyps [of s' "Suc i"] less.prems(2) kept
    have "pruneExpiredOperationReceipts (\<lambda>_. e) (Suc i) s' =
      (None, s'\<lparr>os_receipts := filter (\<lambda>r. \<not> or_recorded_at r < env_now e - receiptRetention) (os_receipts s)\<rparr>)"
      by simp
    moreover have "os_db s' = os_db s" using step(2) by simp
    ultimately show ?thesis
      using False run by (subst pruneExpiredOperationReceipts.simps) simp
  qed
qed

end
