(* ===== verification/Contract_Writes.thy ===== *)
theory Contract_Writes
  imports Operation_Receipts Session_Turn_Records
begin

text \<open>
  The contract writes of the outbox, of session turns and of native sessions
  (\<^verbatim>\<open>outbox_store.go\<close>, \<^verbatim>\<open>session_turn_persistence.go\<close>, \<^verbatim>\<open>native_session_store.go\<close>): the methods that the
  Kubernetes control store and the storage client call.  Each runs the operation of its store as the
  body of a write operation, with the fence of its request, if it has one, as the explicit fence.
\<close>

text \<open>What every contract write takes from its caller and its surroundings.\<close>

record write_site =
  ws_config :: store_config
  ws_env :: env
  ws_recorded_at :: gotime
  ws_ctx :: write_ctx

text \<open>
  A body that works on the control database.  Inside a write operation \<^verbatim>\<open>beginTx\<close> joins its
  transaction by a savepoint, so the driver can fail only as the transaction of the write does.
\<close>

definition db_body ::
  "(env \<Rightarrow> db \<Rightarrow> (store_error + 'r) \<times> db) \<Rightarrow> env \<Rightarrow> op_store \<Rightarrow> (store_error + 'r) \<times> op_store" where
  "db_body f e s = (case f (e\<lparr>env_fault := None\<rparr>) (os_db s) of (r, d) \<Rightarrow> (r, s\<lparr>os_db := d\<rparr>))"

definition contract_write ::
  "write_site \<Rightarrow> string \<Rightarrow> ControllerEpochFence option \<Rightarrow> 'r receipt_codec \<Rightarrow>
   (op_store \<Rightarrow> (store_error + 'r) \<times> op_store) \<Rightarrow> 'r write_call" where
  "contract_write site method fence codec body =
     \<lparr>wr_config = ws_config site, wr_env = ws_env site, wr_recorded_at = ws_recorded_at site,
      wr_ctx = ws_ctx site, wr_method = method, wr_explicit_fence = fence, wr_codec = codec,
      wr_custody_scope = None, wr_body = body\<rparr>"

definition EnqueueOutboxProjectionRecord ::
  "OutboxProjection receipt_codec \<Rightarrow> write_site \<Rightarrow> OutboxProjection option \<times> ControllerEpochFence \<Rightarrow>
   op_store \<Rightarrow> (store_error + OutboxProjection) \<times> op_store" where
  "EnqueueOutboxProjectionRecord codec site q =
     writeOperation (contract_write site ''EnqueueOutboxProjectionRecord'' (Some (snd q)) codec
       (db_body (\<lambda>e. EnqueueOutboxProjection e q) (ws_env site)))"

definition ClaimOutboxProjectionRecords ::
  "OutboxProjection list receipt_codec \<Rightarrow> write_site \<Rightarrow> ClaimOutboxProjectionsRequest \<Rightarrow>
   op_store \<Rightarrow> (store_error + OutboxProjection list) \<times> op_store" where
  "ClaimOutboxProjectionRecords codec site request =
     writeOperation (contract_write site ''ClaimOutboxProjectionRecords'' (Some (oc_fence request)) codec
       (db_body (\<lambda>e. ClaimOutboxProjections e request) (ws_env site)))"

definition CompleteOutboxProjectionRecord ::
  "OutboxProjection receipt_codec \<Rightarrow> write_site \<Rightarrow> CompleteOutboxProjectionRequest \<Rightarrow>
   op_store \<Rightarrow> (store_error + OutboxProjection) \<times> op_store" where
  "CompleteOutboxProjectionRecord codec site request =
     writeOperation (contract_write site ''CompleteOutboxProjectionRecord'' (Some (od_fence request)) codec
       (db_body (\<lambda>e. CompleteOutboxProjection e request) (ws_env site)))"

definition CreateSessionTurnRecord ::
  "SessionTurn receipt_codec \<Rightarrow> write_site \<Rightarrow> CreateSessionTurnRecordRequest \<Rightarrow>
   op_store \<Rightarrow> (store_error + SessionTurn) \<times> op_store" where
  "CreateSessionTurnRecord codec site request =
     writeOperation (contract_write site ''CreateSessionTurnRecord'' (Some (cr_fence request)) codec
       (db_body (\<lambda>e. createSessionTurnRecordWrite e request) (ws_env site)))"

definition CommitSealedSessionTurnFinalization ::
  "SessionTurn receipt_codec \<Rightarrow> write_site \<Rightarrow> SealedSessionTurnFinalization \<Rightarrow>
   op_store \<Rightarrow> (store_error + SessionTurn) \<times> op_store" where
  "CommitSealedSessionTurnFinalization codec site finalization =
     writeOperation (contract_write site ''CommitSealedSessionTurnFinalization'' (Some (sf_fence finalization)) codec
       (db_body (\<lambda>e. commitSealedSessionTurnFinalizationWrite e finalization) (ws_env site)))"

definition ActivateSessionTurnProjection ::
  "OutboxProjection receipt_codec \<Rightarrow> write_site \<Rightarrow> ActivateSessionTurnProjectionRequest \<Rightarrow>
   op_store \<Rightarrow> (store_error + OutboxProjection) \<times> op_store" where
  "ActivateSessionTurnProjection codec site request =
     writeOperation (contract_write site ''ActivateSessionTurnProjection'' (Some (av_fence request)) codec
       (db_body (\<lambda>e. activateSessionTurnProjectionWrite e request) (ws_env site)))"

text \<open>A method that returns only an error keeps no result.\<close>

definition SaveSealedNativeSession ::
  "write_site \<Rightarrow> SaveSealedNativeSessionRequest \<Rightarrow> op_store \<Rightarrow> (store_error + unit) \<times> op_store" where
  "SaveSealedNativeSession site request =
     writeOperation (contract_write site ''SaveSealedNativeSession'' None (NoResult ())
       (db_body (\<lambda>e. saveSealedNativeSessionWrite e request) (ws_env site)))"

definition StageSealedNativeSessionImport ::
  "NativeSessionImportReceipt receipt_codec \<Rightarrow> write_site \<Rightarrow> StageSealedNativeSessionImportRequest \<Rightarrow>
   op_store \<Rightarrow> (store_error + NativeSessionImportReceipt) \<times> op_store" where
  "StageSealedNativeSessionImport codec site request =
     writeOperation (contract_write site ''StageSealedNativeSessionImport'' None codec
       (db_body (\<lambda>e. stageSealedNativeSessionImportWrite e request) (ws_env site)))"

lemma contract_write_simps [simp]:
  "wr_config (contract_write site method fence codec body) = ws_config site"
  "wr_env (contract_write site method fence codec body) = ws_env site"
  "wr_recorded_at (contract_write site method fence codec body) = ws_recorded_at site"
  "wr_ctx (contract_write site method fence codec body) = ws_ctx site"
  "wr_method (contract_write site method fence codec body) = method"
  "wr_explicit_fence (contract_write site method fence codec body) = fence"
  "wr_codec (contract_write site method fence codec body) = codec"
  "wr_custody_scope (contract_write site method fence codec body) = None"
  "wr_body (contract_write site method fence codec body) = body"
  by (simp_all add: contract_write_def)

lemma db_body_result:
  "db_body f e s = (r, s') \<longleftrightarrow> (\<exists>d. f (e\<lparr>env_fault := None\<rparr>) (os_db s) = (r, d) \<and> s' = s\<lparr>os_db := d\<rparr>)"
  by (auto simp: db_body_def split: prod.splits)

lemma db_body_keeps_ledger: "keeps_ledger (db_body f e)"
  by (auto simp: keeps_ledger_def db_body_def ledger_def split: prod.splits)

text \<open>Such writes are events of a run that settles every operation at most once.\<close>

lemma contract_write_event_ok:
  assumes "\<forall>en. wx_envelope (ws_ctx site) = Some en \<longrightarrow> we_issued_at en = issued (we_operation_id en)"
  shows "event_ok issued (WriteEvent (contract_write site method fence codec (db_body f e)))"
  using assms by (simp add: db_body_keeps_ledger)

end
