(* ===== verification/Receipt_Witnesses.thy ===== *)
theory Receipt_Witnesses
  imports Control_Examples Contract_Writes
begin

text \<open>
  Witnesses for the properties of operation receipts: a projection enqueued through a write envelope,
  its retry, the resolution of an operation that never arrived, and the pruning of its record.
\<close>

section \<open>Calls\<close>

definition ex_envelope :: "string \<Rightarrow> WriteEnvelope" where
  "ex_envelope oid = \<lparr>we_dataset_id = ''dataset'',
     we_fence = \<lparr>cf_name = DefaultControllerEpochName, cf_epoch = 1, cf_holder_id = ''pod-a''\<rparr>,
     we_operation_id = oid, we_request_digest = ex_digest, we_issued_at = 900, we_sequence = 1\<rparr>"

definition ex_config :: store_config where
  "ex_config = \<lparr>sc_require_write_envelopes = True, sc_dataset_state = DatasetReady\<rparr>"

definition ex_site :: "string \<Rightarrow> write_site" where
  "ex_site oid = \<lparr>ws_config = ex_config, ws_env = ex_env, ws_recorded_at = 1005,
     ws_ctx = \<lparr>wx_in_operation = False, wx_envelope = Some (ex_envelope oid)\<rparr>\<rparr>"

definition ex_enqueue :: "OutboxProjection option \<times> ControllerEpochFence" where
  "ex_enqueue = (Some ((ex_projection ''o-new'')
     \<lparr>ob_payload_digest := CanonicalBytesDigest ex_env (ob_payload (ex_projection ''o-new'')), ob_version := 0\<rparr>), ex_fence)"

text \<open>A codec for one projection.\<close>

definition ex_created :: OutboxProjection where
  "ex_created = (case fst (EnqueueOutboxProjection ex_env ex_enqueue ex_db) of
     Inr p \<Rightarrow> p | Inl _ \<Rightarrow> ex_projection ''o-none'')"

definition ex_codec :: "OutboxProjection receipt_codec" where
  "ex_codec = Codec (\<lambda>p. if p = ex_created then Some ''projection'' else None)
     (\<lambda>b. if b = ''projection'' then Some ex_created else None)"

definition ex_write :: "string \<Rightarrow> OutboxProjection write_call" where
  "ex_write oid = contract_write (ex_site oid) ''EnqueueOutboxProjectionRecord'' (Some (snd ex_enqueue)) ex_codec
     (db_body (\<lambda>e. EnqueueOutboxProjection e ex_enqueue) ex_env)"

definition ex_store :: op_store where
  "ex_store = \<lparr>os_db = ex_db, os_receipts = []\<rparr>"

definition ex_written :: op_store where
  "ex_written = \<lparr>os_db = snd (EnqueueOutboxProjection ex_env ex_enqueue ex_db),
     os_receipts = [committed_receipt (ex_write ''op-1'') (ex_envelope ''op-1'') (Some ''projection'') ex_created]\<rparr>"

definition ex_resolve :: ResolveOperationRequest where
  "ex_resolve = \<lparr>ro_dataset_id = ''dataset'', ro_operation_id = ''op-2'',
     ro_method = ''EnqueueOutboxProjectionRecord'', ro_request_digest = ex_digest, ro_issued_at = 900\<rparr>"

definition ex_later :: "int \<Rightarrow> env" where
  "ex_later t = ex_env\<lparr>env_now := t\<rparr>"

definition ex_resolved :: op_store where
  "ex_resolved = ex_store\<lparr>os_receipts := [aborted_receipt ex_resolve 1000]\<rparr>"

section \<open>What the calls do\<close>

lemma ex_checks:
  "is_write_method ''EnqueueOutboxProjectionRecord''"
  "WriteEnvelope_Validate (ex_envelope ''op-1'') = None" "WriteEnvelope_Validate (ex_envelope ''op-2'') = None"
  "requireEnvelopeFence (snd ex_enqueue) (we_fence (ex_envelope ''op-1'')) = None"
  "checkWrite ex_config ex_env ''EnqueueOutboxProjectionRecord'' (ex_envelope ''op-1'') ex_store = Inr None"
  "fst (EnqueueOutboxProjection ex_env ex_enqueue ex_db) = Inr ex_created"
  "store_dataset (snd (EnqueueOutboxProjection ex_env ex_enqueue ex_db)) = store_dataset ex_db"
  "requireDataset ex_env ''dataset'' ex_db = None"
  "ResolveOperationRequest_Validate ex_resolve = None"
  by code_simp+

lemma ex_encoded: "encodeReceiptResult ex_codec ex_created = Inr (Some ''projection'')"
  by (simp add: ex_codec_def maxReceiptResultBytes_def)

lemma ex_codec_ok: "codec_ok ex_codec"
  by (auto simp: codec_ok_def ex_codec_def split: if_splits)

lemma ex_write_call:
  "enveloped (ex_write oid) (ex_envelope oid)" "wr_method (ex_write oid) = ''EnqueueOutboxProjectionRecord''"
  "wr_config (ex_write oid) = ex_config" "wr_env (ex_write oid) = ex_env" "wr_codec (ex_write oid) = ex_codec"
  "wr_explicit_fence (ex_write oid) = Some (snd ex_enqueue)"
  "wr_body (ex_write oid) = db_body (\<lambda>e. EnqueueOutboxProjection e ex_enqueue) ex_env"
  by (simp_all add: ex_write_def enveloped_def ex_site_def)

lemma ex_env_now: "env_fault ex_env = None" "env_now ex_env = 1000" "ex_env\<lparr>env_fault := None\<rparr> = ex_env"
  by (simp_all add: ex_env_def)

lemma ex_body: "wr_body (ex_write oid) ex_store =
  (Inr ex_created, ex_store\<lparr>os_db := snd (EnqueueOutboxProjection ex_env ex_enqueue ex_db)\<rparr>)"
  using ex_checks(6) by (simp add: ex_write_call db_body_def ex_env_now ex_store_def prod.case_eq_if)

lemma ex_insert:
  "insertOperationReceipt r (ex_store\<lparr>os_db := d\<rparr>) = Inr \<lparr>os_db = d, os_receipts = [r]\<rparr>"
  "insertOperationReceipt r ex_store = Inr \<lparr>os_db = ex_db, os_receipts = [r]\<rparr>"
  by (simp_all add: insertOperationReceipt_def sql_insert_def ex_store_def)

lemma ex_write_runs: "writeOperation (ex_write ''op-1'') ex_store = (Inr ex_created, ex_written)"
  by (simp add: enveloped_write [OF ex_write_call(1)] ex_write_call ex_checks ex_env_now with_tx_no_fault
      write_transaction_def ex_body [unfolded ex_write_call] ex_encoded ex_insert ex_written_def)

lemma ex_written_changed: "ex_written \<noteq> ex_store"
  by (simp add: ex_written_def ex_store_def)

lemma ex_resolve_fields:
  "ro_dataset_id ex_resolve = ''dataset''" "ro_issued_at ex_resolve = 900" "os_db ex_store = ex_db"
  "readOperationReceipt oid ex_store = None" "wx_in_operation (ws_ctx (ex_site oid)) = False"
  "sc_dataset_state ex_config = DatasetReady" "ex_resolved = \<lparr>os_db = ex_db, os_receipts = [aborted_receipt ex_resolve 1000]\<rparr>"
  by (simp_all add: ex_resolve_def ex_store_def readOperationReceipt_def ex_site_def ex_config_def ex_resolved_def)

lemma ex_resolve_runs:
  "ResolveOperation ex_config ex_env (ws_ctx (ex_site ''op-2'')) ex_resolve ex_store =
   (Inr (receipt_outcome (aborted_receipt ex_resolve 1000)), ex_resolved)"
  by (simp add: ResolveOperation_def ex_checks ex_env_now with_tx_no_fault resolve_transaction_def requireOwnTransaction_def
      requireCompatibleDataset_def ex_resolve_fields receipt_constants ex_insert Let_def)

section \<open>Witnesses\<close>

theorem write_effect_exact_witness: "write_admitted (ex_write ''op-1'') (ex_envelope ''op-1'') ex_store"
  using write_effect_exact [OF ex_write_call(1) ex_write_runs ex_written_changed] by simp


theorem aborted_operation_dead_witness:
  "\<exists>x. writeOperation (ex_write ''op-2'') ex_resolved = (Inl x, ex_resolved)"
  using aborted_operation_dead [OF ex_resolve_runs _ refl,
      of "ex_write ''op-2''" "ex_envelope ''op-2''"] ex_write_call(1) [of "''op-2''"]
  by (simp add: receipt_outcome_def aborted_receipt_def ex_envelope_def ex_resolve_def)

text \<open>An hour and a quarter later the record of the resolution may be pruned.\<close>

theorem prune_expired_exact_witness:
  "pruneExpiredOperationReceipts (\<lambda>_. ex_later (2000 + receiptRetention)) 0 ex_resolved =
   (None, ex_resolved\<lparr>os_receipts := []\<rparr>)"
proof -
  have "receipt_table_ok ex_resolved" unfolding receipt_table_ok_ledger by (simp add: ledger_def ex_resolved_def)
  from prune_expired_exact [OF this, of "ex_later (2000 + receiptRetention)" 0] show ?thesis
    by (simp add: ex_later_def ex_env_def ex_resolved_def aborted_receipt_def)
qed

theorem operation_settled_once_witness:
  "settlements ''op-1''
     [WriteEvent (ex_write ''op-1''),
      PruneEvent (ex_later (2000 + receiptRetention)) 10,
      WriteEvent ((ex_write ''op-1'')\<lparr>wr_env := ex_later (2000 + receiptRetention - receiptClockStepAllowance),
        wr_recorded_at := 2000 + receiptRetention\<rparr>)] ex_store \<le> 1"
proof -
  have call: "wx_envelope (wr_ctx (ex_write ''op-1'')) = Some (ex_envelope ''op-1'')"
    using ex_write_call(1) by (simp add: enveloped_def)
  have start: "receipt_table_ok ex_store" "\<not> settled ''op-1'' ex_store"
    unfolding receipt_table_ok_ledger settled_ledger by (simp_all add: ledger_def ex_store_def)
  have clocks: "wr_recorded_at (ex_write ''op-1'') = 1005" by (simp add: ex_write_def ex_site_def)
  show ?thesis
    by (rule operation_settled_once [OF start, where issued = "\<lambda>_. 900"])
      (simp_all add: call db_body_keeps_ledger clocks ex_write_call ex_envelope_def ex_later_def ex_env_now receipt_constants)
qed

end
