(* ===== verification/Turn_Witnesses.thy ===== *)
theory Turn_Witnesses
  imports Control_Examples Session_Runs
begin

text \<open>
  Witnesses for the properties of turns: an open turn finalized with a captured native state, the same
  call repeated, and the projection of a finalized turn activated.
\<close>

section \<open>An open turn and its finalization\<close>

definition ex_turn_key :: SessionTurnKey where
  "ex_turn_key = st_key (ct_turn ex_turn)"

definition ex_turn_id :: string where
  "ex_turn_id = ''session-turn:sha256:'' @ replicate 64 (CHR ''c'')"

definition ex_turn_row :: SessionTurnRow where
  "ex_turn_row = open_turn_row ''ns'' ''leased'' ((ct_turn ex_turn)\<lparr>st_id := ex_turn_id,
     st_controller_epoch_name := DefaultControllerEpochName, st_controller_epoch := 1, st_created_at := 500,
     st_updated_at := 500\<rparr>)"

definition ex_turn_db :: db where
  "ex_turn_db = (empty_db ''dataset'')\<lparr>controller_epochs := [ex_epoch],
     sessions := [ex_session ''leased'' ''uid-leased'' ''t-leased''], session_turns := [ex_turn_row]\<rparr>"

definition ex_native :: SealedNativeSession where
  "ex_native = \<lparr>ns_namespace = ''ns'', ns_session_name = ''leased'', ns_session_uid = ''uid-leased'',
     ns_record_digest = ex_digest, ns_data_digest = ex_digest, ns_source_operation_id = ''op-capture'',
     ns_runtime_generation = 1, ns_message_count = 2, ns_through_message_id = ''m-answer'',
     ns_nonce = ''nonce'', ns_ciphertext = ''sealed''\<rparr>"

definition ex_capture :: SealedNativeSessionFinalization where
  "ex_capture = \<lparr>fn_record = ex_native, fn_carried = False, fn_request_digest = ex_digest,
     fn_expected_message_count = 0, fn_expected_last_message_id = [], fn_expected_record_digest = []\<rparr>"

definition ex_terminal :: OutboxProjection where
  "ex_terminal = (ex_projection ''o-turn'')\<lparr>ob_aggregate_kind := sessionTurnAggregateKind,
     ob_aggregate_id := ex_turn_id, ob_payload_digest := ''sha256:'' @ replicate 64 (CHR ''b'')\<rparr>"

definition ex_finalization :: SealedSessionTurnFinalization where
  "ex_finalization = \<lparr>sf_key = ex_turn_key, sf_namespace = ''ns'', sf_session_name = ''leased'', sf_fence = ex_fence,
     sf_expected_turn_version = 1, sf_finalization_digest = ex_digest, sf_terminal_kind = SessionTurnAssistantResult,
     sf_terminal_content = ''fixed'', sf_skip_transcript_append = False, sf_skip_user_prompt_append = False,
     sf_publication_id = [], sf_publication_receipt = None, sf_projection = ex_terminal, sf_finalized_at = 900,
     sf_user_message_id = ''m-prompt'', sf_terminal_message_id = ''m-answer'',
     sf_native_session_digest = ex_digest, sf_native_session = Some ex_capture,
     sf_input_tokens = 11, sf_output_tokens = 13\<rparr>"

definition ex_norm :: SealedSessionTurnFinalization where
  "ex_norm = ex_finalization\<lparr>sf_fence := \<lparr>cf_name = DefaultControllerEpochName, cf_epoch = 1, cf_holder_id = ''pod-a''\<rparr>\<rparr>"

section \<open>Evaluation\<close>

text \<open>
  The steps of a transaction are unfolded to case distinctions, whose branches are evaluated only when
  they are taken.
\<close>

declare bind_tx_def [code_unfold] update_one_def [code_unfold] fetch_def [code_unfold]

lemma ex_turn_tables:
  "epochs.table_ok (controller_epochs ex_turn_db)" "sessions.table_ok (sessions ex_turn_db)"
  "turns.table_ok (session_turns ex_turn_db)"
  unfolding table_oks by code_simp+

lemma ex_turn_ok: "db_ok ex_turn_db"
  using ex_turn_tables db_ok_empty [of "''dataset''"] by (simp add: db_ok_def ex_turn_db_def empty_db_def)

lemma ex_turn_session_ok: "session_tables_ok ex_turn_db"
  by (simp add: session_tables_ok_def messages_ok_def native_ok_def finalizations_ok_def ex_turn_db_def empty_db_def
      snapshots.table_ok_Nil native_operations.table_ok_Nil native_finalizations.table_ok_Nil ex_session_def
      session_transcript_def)

lemma ex_normalized:
  "normalizeSealedSessionTurnFinalization ex_env ex_finalization = Inr (ex_norm, ex_terminal\<lparr>ob_created_at := 900\<rparr>)"
  by code_simp

lemma ex_fence_holds: "requireControllerEpoch ex_turn_db (sf_fence ex_norm) = None"
  by code_simp

lemma ex_finalize_body:
  "case finalize_turn_body ex_env (ex_norm, ex_terminal\<lparr>ob_created_at := 900\<rparr>) ex_turn_db of
     Commit t d \<Rightarrow> length (session_messages d) = 2 | _ \<Rightarrow> False"
  by code_simp

lemma ex_finalization_runs:
  "changes (commitSealedSessionTurnFinalizationWrite ex_env ex_finalization ex_turn_db) ex_turn_db"
proof -
  have "session_messages ex_turn_db = []" by (simp add: ex_turn_db_def empty_db_def)
  then show ?thesis
    using ex_finalize_body by (auto simp: commitSealedSessionTurnFinalizationWrite_def validated_def ex_normalized fenced_tx_def
        ex_fence_holds with_tx_no_fault ex_env_def [THEN arg_cong, of env_fault] changes_def split: tx_result.splits)
qed

definition ex_finalized :: "SessionTurn \<times> db" where
  "ex_finalized = (case commitSealedSessionTurnFinalizationWrite ex_env ex_finalization ex_turn_db of
     (Inr t, d) \<Rightarrow> (t, d) | (Inl _, d) \<Rightarrow> (ct_turn ex_turn, d))"

lemma ex_finalized_run:
  "commitSealedSessionTurnFinalizationWrite ex_env ex_finalization ex_turn_db = (Inr (fst ex_finalized), snd ex_finalized)"
  "snd ex_finalized \<noteq> ex_turn_db"
  using ex_finalization_runs by (auto simp: ex_finalized_def elim!: changesE)

lemma ex_fields:
  "sf_key ex_finalization = ex_turn_key" "sf_namespace ex_finalization = ''ns''"
  "sf_session_name ex_finalization = ''leased''" "sf_native_session ex_finalization = Some ex_capture"
  "sf_projection ex_finalization = ex_terminal" "sf_finalized_at ex_finalization = 900"
  "ob_id ex_terminal = ''o-turn''" "ob_projection_kind ex_terminal = ''TaskTerminalStatus''"
  "tk_session_uid ex_turn_key = ''uid-leased''" "fn_record ex_capture = ex_native" "fn_carried ex_capture = False"
  "native_session_operations ex_turn_db = []" "outbox_projections ex_turn_db = []"
  "sf_input_tokens ex_finalization = 11" "sf_skip_transcript_append ex_finalization = False"
  "sf_terminal_kind ex_finalization = SessionTurnAssistantResult"
  by (simp_all add: ex_finalization_def ex_terminal_def ex_projection_def ex_turn_key_def ex_turn_def ex_capture_def
      ex_turn_db_def empty_db_def)

lemma ex_trim:
  "TrimSpace ''ns'' = ''ns''" "TrimSpace ''leased'' = ''leased''" "TrimSpace ''o-turn'' = ''o-turn''"
  "TrimSpace ''TaskTerminalStatus'' = ''TaskTerminalStatus''"
  by code_simp+

lemma ex_closed_ok: "db_ok (snd ex_finalized)"
  using commit_turn.keeps_ok [OF ex_turn_ok, of ex_env ex_finalization] by (simp add: ex_finalized_run(1))

section \<open>Witnesses\<close>

theorem turn_finalization_exact_witness:
  "getSessionTurn (st_id (fst ex_finalized)) (snd ex_finalized) = Some (fst ex_finalized) \<and>
   st_state (fst ex_finalized) = SessionTurnFinalized \<and>
   (\<exists>ms. session_messages (snd ex_finalized) = session_messages ex_turn_db @ ms \<and> length ms = 2)"
proof -
  have "finalizations_ok ex_turn_db" using ex_turn_session_ok by (simp add: session_tables_ok_def)
  from turn_finalization_exact [OF ex_turn_ok this ex_finalized_run] show ?thesis
  proof (elim exE conjE)
    fix row s s' ms
    assume t: "getSessionTurn (st_id (fst ex_finalized)) (snd ex_finalized) = Some (fst ex_finalized)"
        "st_state (fst ex_finalized) = SessionTurnFinalized"
      and ms: "session_messages (snd ex_finalized) = session_messages ex_turn_db @ ms"
      and views: "map message_view ms = (if sf_skip_transcript_append ex_finalization then []
        else turn_messages (sf_user_message_id ex_finalization) (st_user_prompt row)
          (sf_terminal_message_id ex_finalization) (terminal_role ex_finalization) (sf_terminal_content ex_finalization))"
    from arg_cong [OF views, of length] have "length ms = 2" by (simp add: turn_messages_def ex_finalization_def)
    with t ms show ?thesis by blast
  qed
qed

theorem native_checkpoint_readable_witness:
  "GetSealedNativeSession ''ns'' ''leased'' ''uid-leased'' (snd ex_finalized) = Inr ex_native"
proof -
  have "sf_native_session ex_finalization = Some ex_capture" by (simp add: ex_fields)
  from native_checkpoint_readable [OF ex_turn_ok ex_finalized_run this] show ?thesis by (simp add: ex_fields ex_trim)
qed


theorem session_tables_typed_witness:
  "session_tables_ok (session_run [(ex_env, FinalizeTurn ex_finalization), (ex_env, FinalizeTurn ex_finalization)] ex_turn_db)"
  using session_tables_typed [OF ex_turn_ok ex_turn_session_ok] by blast


lemma claim_runs:
  assumes "db_ok d" "validateClaim e q = Inr c" "requireControllerEpoch d (oc_fence c) = None" "env_fault e = None"
  shows "\<exists>ps d2. ClaimOutboxProjections e q d = (Inr ps, d2)"
  using assms claim_body_run [OF assms(1) validated_claim(6) [OF assms(2)]]
  by (simp add: ClaimOutboxProjections_def validated_def fenced_tx_def with_tx_no_fault)

theorem projection_deferred_witness:
  "\<exists>ps d2. ClaimOutboxProjections ex_env (ex_claim_outbox ''worker-b'') (snd ex_finalized) = (Inr ps, d2) \<and>
     (\<forall>p \<in> set ps. ob_id p \<noteq> ''o-turn'')"
proof -
  obtain c where c: "validateClaim ex_env (ex_claim_outbox ''worker-b'') = Inr c" "requireControllerEpoch ex_turn_db (oc_fence c) = None"
  proof -
    have "case validateClaim ex_env (ex_claim_outbox ''worker-b'') of Inl _ \<Rightarrow> False
      | Inr c \<Rightarrow> requireControllerEpoch ex_turn_db (oc_fence c) = None" by code_simp
    with that show thesis by (auto split: sum.splits)
  qed
  have "requireControllerEpoch (snd ex_finalized) (oc_fence c) = None"
    using c(2) requireControllerEpoch_epochs [OF commit_turn.epochs_kept [OF ex_finalized_run(1)]] by simp
  from claim_runs [OF ex_closed_ok c(1) this] obtain ps d2 where
    run: "ClaimOutboxProjections ex_env (ex_claim_outbox ''worker-b'') (snd ex_finalized) = (Inr ps, d2)"
    by (auto simp: ex_env_def)
  have "NormalizeControlTime ex_env (oc_now (ex_claim_outbox ''worker-b'')) < deferredSessionTurnProjectionTime"
    by (simp add: NormalizeControlTime_def ex_claim_outbox_def deferredSessionTurnProjectionTime_def)
  from projection_deferred [OF ex_turn_ok ex_finalized_run, of "[]" ex_env "ex_claim_outbox ''worker-b''" ps d2] run this
  show ?thesis by (simp add: ex_fields ex_trim)
qed

section \<open>Activation\<close>

definition ex_done_db :: db where
  "ex_done_db = ex_turn_db\<lparr>session_turns := [finalize_set ex_norm ex_terminal ex_turn_row],
     outbox_projections := [ex_terminal\<lparr>ob_available_at := deferredSessionTurnProjectionTime\<rparr>]\<rparr>"

definition ex_activation :: ActivateSessionTurnProjectionRequest where
  "ex_activation = \<lparr>av_turn_id = ex_turn_id, av_projection_id = ''o-turn'', av_fence = ex_fence,
     av_finalization_digest = ex_digest, av_expected_aggregate_kind = sessionTurnAggregateKind,
     av_expected_projection_kind = ''TaskTerminalStatus'', av_expected_payload_digest = ob_payload_digest ex_terminal,
     av_available_at = 950, av_updated_at = 950\<rparr>"

lemma ex_done_tables:
  "turns.table_ok (session_turns ex_done_db)" "outbox.table_ok (outbox_projections ex_done_db)"
  unfolding table_oks by code_simp+

lemma ex_done_ok: "db_ok ex_done_db"
  using db_ok_set_table(6) [OF db_ok_set_table(4) [OF ex_turn_ok ex_done_tables(1)] ex_done_tables(2)]
  by (simp add: ex_done_db_def)

lemma ex_activation_runs: "changes (activateSessionTurnProjectionWrite ex_env ex_activation ex_done_db) ex_done_db"
  by code_simp

theorem activation_exact_witness:
  "\<exists>p d'. activateSessionTurnProjectionWrite ex_env ex_activation ex_done_db = (Inr p, d') \<and>
     outbox_due 950 p \<and> \<not> outbox_due 949 p"
proof -
  obtain p d' where run: "activateSessionTurnProjectionWrite ex_env ex_activation ex_done_db = (Inr p, d')" "d' \<noteq> ex_done_db"
    using ex_activation_runs by (rule changesE)
  from activation_exact [OF ex_done_ok run] show ?thesis using run by (auto simp: ex_activation_def)
qed

end
