(* ===== verification/Spec2Isabelle.thy ===== *)
theory Spec2Isabelle
  imports Cleanup_Witnesses Store_Witnesses Event_Witnesses Control_Witnesses Receipt_Witnesses Turn_Witnesses
begin

text \<open>
  Verification of Orka's durable control plane on SQL.

  \<^bold>\<open>The program.\<close>  Orka runs coding agents as Kubernetes workloads.  A controller drives each Task:
  it records a prompt attempt, takes the mutation lease of the session, submits the prompt to an agent
  runtime, publishes the result to a branch and projects the outcome.  What must survive a crash or a
  second controller is kept in the control store: epochs that fence superseded controllers, prompt
  attempts, session controls and turns, branch claims, publications with their receipts, external
  effects, and an outbox of projections.  This development models the SQL implementation of that
  store, \<^verbatim>\<open>internal/store/sqlite\<close>, with the contract types it shares with every implementation,
  \<^verbatim>\<open>internal/store\<close> and \<^verbatim>\<open>pkg/storage/v1\<close>.  In a deployment the control records live in Kubernetes
  resources and the SQL store holds the other half of the contract: the outbox and turn records, written
  through write envelopes with operation receipts; the SQL control records are the second implementation
  of the same contract, which the code keeps beside the Kubernetes one.  All operations act on one database, and they meet in it:
  a publication needs a branch claim, a turn needs the lease and the attempt, reclamation waits for
  attempts, turns, publications, effects and projections, and every mutation compares the caller's
  fence with the stored epoch.

  \<^bold>\<open>The theories\<close>, in the order of the code.
  \<^item> \<open>Go_Prelude\<close>: error classes, chains of checks with early returns, Go strings (trimming, UTF-8, hex).
  \<^item> \<open>Sql_Tables\<close>: tables as lists of rows, \<^verbatim>\<open>INSERT\<close>, \<^verbatim>\<open>UPDATE\<close>, \<^verbatim>\<open>DELETE\<close>, transactions that may fail
    at begin, at a statement or at commit; the locale \<open>keyed_table\<close>.
  \<^item> \<open>Control_Identity\<close>, \<open>Control_Types\<close>: validators and canonical identities
    (\<^verbatim>\<open>pkg/storage/v1/control_types.go\<close>, \<^verbatim>\<open>control_normalize.go\<close>); state machines and records
    (\<^verbatim>\<open>control_types.go\<close>, \<^verbatim>\<open>control_store.go\<close>).
  \<^item> \<open>Control_DB\<close>: the schema (\<^verbatim>\<open>control_schema.go\<close>), the fence \<^verbatim>\<open>requireControllerEpoch\<close>
    (\<^verbatim>\<open>control_helpers.go\<close>), and the contracts as locales: \<open>fenced_operation\<close>, \<open>cas_operation\<close>,
    \<open>retryable_operation\<close> and others.
  \<^item> \<open>Controller_Epoch\<close> (\<^verbatim>\<open>controller_epoch_store.go\<close>, \<^verbatim>\<open>controller_epoch_advance.go\<close>), \<open>Branch_Claim\<close>
    (\<^verbatim>\<open>branch_claim_store.go\<close>), \<open>Prompt_Attempt\<close> and \<open>Prompt_Reclamation\<close> (\<^verbatim>\<open>prompt_attempt_store.go\<close>),
    \<open>Publication_Store\<close> (\<^verbatim>\<open>publication_store.go\<close>, \<^verbatim>\<open>control_validate.go\<close>, \<^verbatim>\<open>control_normalize.go\<close>),
    \<open>External_Effect_Store\<close>, \<open>Outbox_Store\<close>, \<open>Session_Lease\<close> and \<open>Session_Turn\<close>
    (\<^verbatim>\<open>session_control_store.go\<close>): one definition per operation with the name of its method.  An operation
    is \<open>validated\<close> (trimming, defaults, checks) followed by \<open>fenced_tx\<close> of a body; the body reads rows,
    tests guards in the order of the code, updates with the \<^verbatim>\<open>WHERE\<close> and \<^verbatim>\<open>SET\<close> clauses of the
    statement, and commits.
  \<^item> \<open>Control_Retries\<close>: repeated calls.  \<open>Control_Evolution\<close>: what may happen to a record over time.
  \<^item> \<open>Control_Runs\<close>: histories, sequences of the 27 mutating operations in any order.
  \<^item> \<open>Attempt_Spec\<close>: an abstract machine of prompt attempts and the simulation of it by histories.
  \<^item> \<open>Operation_Receipts\<close> (\<^verbatim>\<open>operation_receipt_store.go\<close>, \<^verbatim>\<open>envelope.go\<close>, \<^verbatim>\<open>operation.go\<close>,
    \<^verbatim>\<open>methods.go\<close>): contract writes under a write envelope, their receipts, resolution and retention;
    \<open>Contract_Writes\<close>: the outbox, turn and native session methods that run as contract writes.
  \<^item> \<open>Native_Session\<close> (\<^verbatim>\<open>native_session_store.go\<close>) and \<open>Session_Turn_Records\<close>
    (\<^verbatim>\<open>session_turn_persistence.go\<close>): the SQL half of a deployment's session turns, which are opened,
    finalized with transcript, usage, sealed native state and a deferred projection, and whose projection is
    activated later.  \<open>Turn_Finalization\<close>: what a finalization changes, its retries, its native
    checkpoint.  \<open>Session_Runs\<close>: sequences of these operations, their invariant, the finality of finalized
    turns and the deferral of projections.
  \<^item> \<open>Task_Data\<close> (\<^verbatim>\<open>task_data_fence.go\<close>, \<^verbatim>\<open>task_job_authority.go\<close>): the fences that order task data access
    against cleanup, and the revocation of Jobs; the locale \<open>fencing_tokens\<close>.  \<open>Execution_Events\<close>
    (\<^verbatim>\<open>pkg/storage/v1/execution_event.go\<close>): the vocabulary, filters and keys of execution events.
    \<open>Event_Store\<close> (\<^verbatim>\<open>execution_event_store.go\<close>, \<^verbatim>\<open>plan_store.go\<close>, \<^verbatim>\<open>usage_events.go\<close>): the tables of the event
    timeline and its operations, each with the fence of its context as an argument.  \<open>Event_Log\<close>: the
    invariant of the timeline.  \<open>Event_Runs\<close>: sequences of event, plan and fence operations.
  \<^item> \<open>Session_Store\<close> (\<^verbatim>\<open>session_store.go\<close>): session records, the Task lock and the reservation of a chat turn,
    transcripts, token counters, pages and deletion; its database \<open>store_db\<close> joins the tables of the event store
    with those of the control store, because a deletion changes both.  \<open>Store_Runs\<close>: sequences of these
    operations with those of \<open>Session_Runs\<close>, the state machine of a session row (\<open>row_move\<close>, \<open>row_gone\<close>) that
    every operation follows, and the invariant.  \<open>Store_Properties\<close>: what follows, with the locale
    \<open>row_contract\<close> for facts that a row keeps.
  \<^item> \<open>Session_Cleanup\<close> (\<^verbatim>\<open>session_cleanup.go\<close>, \<^verbatim>\<open>session_turn_cleanup.go\<close>, \<^verbatim>\<open>gateway_session_cleanup.go\<close>): the deletion of a
    session across stores, with a durable plan, a completion that archives its turns, and the retention of
    gateway transcripts.  \<open>Cleanup_Runs\<close>: sequences of these operations with those of the session store, their
    invariant, and the locale \<open>cleanup_contract\<close> for what every operation keeps.
  \<^item> \<open>Control_Examples\<close>, \<open>Control_Witnesses\<close>, \<open>Receipt_Witnesses\<close>, \<open>Turn_Witnesses\<close>, \<open>Event_Witnesses\<close>,
    \<open>Store_Witnesses\<close>, \<open>Cleanup_Witnesses\<close>: a database with rows in
    every table, on which the operations are evaluated, and the properties of the components applied to it.

  \<^bold>\<open>What is shown.\<close>  Component lemmas give the result of every operation on success, that an error
  changes nothing, and that the schema is kept; each operation interprets the locales it is an instance
  of.  On top of them: fencing (a superseded controller is rejected for ever, one holder per epoch),
  at-most-once submission, finality of outcomes, truthfulness of verified publications, exclusiveness
  of leases of sessions, effects and projections, exactness of reclamation, idempotence of retries, that
  the current controller can always end an attempt, and the invariants of all histories.  For contract
  writes: an operation is settled at most once in every interleaving of writes, resolutions and prunings,
  a retry returns the recorded result, and a refused write leaves nothing.  For session turns: a
  finalization appends, counts and checkpoints exactly once, its retry changes nothing, a finalized turn
  never changes, and its projection is claimable only after its activation.  For execution events: a fence read before a
  cleanup or authorized with a revoked Job is never accepted again, sequences are dense at the end of a
  stream and never shared, the first event under a key is the one every retry gets, an approval has one
  outcome, failed appends leave nothing, and the batched read of heads is the single one.  For sessions: a Task
  lock and a chat turn exclude everybody else until they expire or are let go, of the turns that saw the same
  transcript one commits, messages load back as they were appended and a repeated append is harmless, every
  session counts its messages, pages divide the listing exactly, and a deletion leaves nothing of an idle
  session and touches nothing else.  For cleanups: a stored plan excludes every other work on its session until it
  completes, a completion is exact and repeatable, the evidence of every turn stays readable, and the identity
  of a deleted session is never given away.  This theory holds the
  properties of histories.

  \<^bold>\<open>Modelling decisions.\<close>  Errors are their classes, messages are not modelled.  Instants are integers
  (nanoseconds since Go's zero time); \<^verbatim>\<open>int64\<close> counters are integers, since no operation can bring one
  near \<open>2 ^ 63\<close> except a caller's request, which the stored value bounds.  SHA-256, \<^verbatim>\<open>json.Valid\<close>, the UUID
  test, the clock and driver failures are fields of the environment record \<open>env\<close>, and the theorems hold
  for every environment; only the uniqueness of canonical identities assumes that two given preimages do
  not collide.  Columns with JSON hold the value they encode.  A failed commit is a rolled back one.
  Calls are sequential: SQLite serialises writing transactions.  A returned struct is modelled apart
  from the stored row, because they differ in places.  A loop over rows that only refuses is one guard;
  the order of rows is that of the query where it shows.  Recursion is structural, or terminates by a
  measure (\<open>trim_left_with\<close>, \<open>read_seq_batches\<close>); the retry loop of an append is bounded by its eight attempts; no definition uses fuel.  An operation of the session store
  reads the clock once; JSON members of a message are their encoding.  Histories of the control store start from any database that satisfies
  the schema, because session rows are created by the session store.

  \<^bold>\<open>Not modelled.\<close>  \<^verbatim>\<open>FinalizeSessionTurn\<close> of the SQL control records; the deletion of Kubernetes objects between the
  preparation and the completion of a cleanup; soul anchors (\<^verbatim>\<open>session_soul.go\<close>), whose messages a transcript does
  not count, and the listing of native sessions; sealing, which happens outside the store;
  contract writes inside an enclosing task-data transaction; the redaction and the mapping of worker events
  before they reach the store; the usage reports and the registration of usage; the
  reflective codec of receipt results, a parameter whose round trip is a hypothesis; attaching, detaching and re-keying of
  datasets; the Kubernetes implementation of the contract; session lineage, which the SQL store does
  not persist; and everything outside the control store: controllers, API server, workers, gateway,
  publisher, user interfaces.
\<close>

section \<open>Every history keeps the schema\<close>


section \<open>Fencing\<close>

text \<open>
  C2: a controller that has been superseded is fenced for ever: once a larger epoch is stored, every
  later mutation that carries the smaller one fails and changes nothing.
\<close>

theorem fenced_forever:
  assumes "db_ok d" "current_epoch d = Some (n, h)" "op_fence x = Some f" "cf_epoch f < n"
  shows "\<exists>err. apply_op e x (run_ops xs d) = (Some err, run_ops xs d)"
proof (rule stale_op_rejected [OF assms(3)])
  show "current_epoch (run_ops xs d) \<noteq> Some (fence_epoch f)"
    using epoch_passed [OF _ assms(4)] run_epoch_forward [OF assms(1), of xs] assms(2)
    by (metis fence_epoch_def)
qed

text \<open>
  C3: one epoch has one holder: of two mutations that succeed in one history the later carries an epoch
  that is not smaller, and if it is the same epoch, the same holder.
\<close>

theorem one_holder_per_epoch:
  assumes "db_ok d" "apply_op e1 x1 d = (None, d1)" "op_fence x1 = Some f1"
    "apply_op e2 x2 (run_ops xs d1) = (None, d2)" "op_fence x2 = Some f2"
  shows "cf_epoch f1 \<le> cf_epoch f2 \<and>
    (cf_epoch f1 = cf_epoch f2 \<longrightarrow> TrimSpace (cf_holder_id f1) = TrimSpace (cf_holder_id f2))"
proof -
  have first: "current_epoch d = Some (fence_epoch f1)"
    using stale_op_rejected [OF assms(3), of d e1] assms(2) by auto
  have later: "current_epoch (run_ops xs d1) = Some (fence_epoch f2)"
    using stale_op_rejected [OF assms(5), of "run_ops xs d1" e2] assms(4) by auto
  have "run_ops xs d1 = run_ops ((e1, x1) # xs) d" using assms(2) by simp
  with run_epoch_forward [OF assms(1), of "(e1, x1) # xs"] first later show ?thesis
    by (auto simp: epoch_forward_def fence_epoch_def)
qed

section \<open>Atomicity\<close>


section \<open>Prompt attempts\<close>

text \<open>
  C6: a prompt is submitted at most once: an attempt that has left the states before and during
  submission never returns to them in any history, and its identity and request never change.
\<close>

theorem attempt_submitted_once:
  assumes "db_ok d" "receipts_inv d" "a \<in> set (prompt_attempts d)" "\<not> before_submission (pa_execution_state a)"
    "a' \<in> set (prompt_attempts (run_ops xs d))" "pa_key a' = pa_key a"
  shows "\<not> before_submission (pa_execution_state a') \<and> pa_id a' = pa_id a \<and>
    pa_request_digest a' = pa_request_digest a \<and> pa_version a \<le> pa_version a'"
  using attempt_history [OF assms(1-3,5,6)] exec_reach_past assms(4) by (auto simp: attempt_evolves_def)

text \<open>
  C7: a terminal execution outcome is final, and so is a terminal delivery outcome once delivery was
  requested.
\<close>

theorem attempt_outcome_final:
  assumes "db_ok d" "receipts_inv d" "a \<in> set (prompt_attempts d)"
    "a' \<in> set (prompt_attempts (run_ops xs d))" "pa_key a' = pa_key a"
  shows "(IsTerminalPromptExecutionState (pa_execution_state a) \<longrightarrow> pa_execution_state a' = pa_execution_state a) \<and>
    (IsTerminalPromptDeliveryState (pa_delivery_state a) \<and> pa_delivery_state a \<noteq> PromptDeliveryNotRequested \<longrightarrow>
     pa_delivery_state a' = pa_delivery_state a)"
  using attempt_history [OF assms] exec_reach_final delivery_reach_final by (auto simp: attempt_evolves_def)

text \<open>
  An attempt disappears only when its Task is reclaimed as a whole; until then every later state of
  the database has it, under the same key.
\<close>

theorem attempt_kept_until_reclaimed:
  assumes "db_ok d" "receipts_inv d" "a \<in> set (prompt_attempts d)"
  shows "(\<exists>a' \<in> set (prompt_attempts (run_ops xs d)). pa_key a' = pa_key a \<and> pa_id a' = pa_id a) \<or>
    task_gone (pak_namespace (pa_key a)) (pak_task_uid (pa_key a)) (run_ops xs d)"
  using attempts_evolveD(2) [OF _ assms(3)] run_inv(2) [OF assms(1,2), of xs]
  by (fastforce simp: records_evolve_def attempt_evolves_def)

text \<open>
  C36: once the attempts of a Task have been reclaimed, the Task never has an attempt again: its marker
  stays, and no later operation brings an attempt of the Task back.
\<close>

theorem reclaimed_task_stays_gone:
  assumes "db_ok d" "receipts_inv d" "ReclaimPromptAttempts e q d = (Inr n, d')"
  shows "task_gone (TrimSpace (rp_namespace q)) (TrimSpace (rp_task_uid q)) (run_ops xs d')"
proof -
  let ?ns = "TrimSpace (rp_namespace q)" and ?task = "TrimSpace (rp_task_uid q)"
  have d': "d' = snd (apply_op e (OpReclaimPromptAttempts q) d)" using assms(3) by simp
  have gone: "task_gone ?ns ?task d'"
    using reclaim_result [OF assms(1,3)] by (auto simp: task_gone_def reclaimed_def list_ex_iff)
  have ok: "db_ok d'" unfolding d' by (rule op_keeps_ok [OF assms(1)])
  have "receipts_inv d'"
    unfolding d' using op_records [OF assms(1,2), of e "OpReclaimPromptAttempts q"] by (simp only: records_evolve_def)
  from run_inv(2) [OF ok this, of xs] have "attempts_evolve d' (run_ops xs d')" by (simp add: records_evolve_def)
  then show ?thesis using gone by (rule attempts_evolve_gone)
qed

section \<open>Publications\<close>

text \<open>
  C18: a publication keeps its identity for ever, its state moves only along the transition table, a
  terminal state is final, and a receipt once recorded is never changed or removed.
\<close>

theorem publication_history:
  assumes "db_ok d" "receipts_inv d" "getPublication k d = Some p"
  shows "\<exists>p'. getPublication k (run_ops xs d) = Some p' \<and> SamePublicationCreation p' p \<and>
    publication_step\<^sup>*\<^sup>* (pb_state p) (pb_state p') \<and>
    (IsTerminalPublicationState (pb_state p) \<longrightarrow> pb_state p' = pb_state p) \<and>
    (pb_prepared_receipt p \<noteq> None \<longrightarrow> pb_prepared_receipt p' = pb_prepared_receipt p) \<and>
    (pb_publish_receipt p \<noteq> None \<longrightarrow> pb_publish_receipt p' = pb_publish_receipt p) \<and>
    (pb_verification_receipt p \<noteq> None \<longrightarrow> pb_verification_receipt p' = pb_verification_receipt p) \<and>
    (pb_pull_request_receipt p \<noteq> None \<longrightarrow> pb_pull_request_receipt p' = pb_pull_request_receipt p)"
  using publication_continues [OF assms(1,2) assms(3) [unfolded getPublication_def]] publication_reach_final
  by (fastforce simp: publication_evolves_def keeps_value_def getPublication_def)

text \<open>
  C8: a publication that claims exact delivery tells the truth: in every history such a publication
  holds the prepared, publish and verification receipts, the push started from the baseline of the
  publication, and the commit observed on the remote is the prepared one.
\<close>

theorem verified_publication_truthful:
  assumes "db_ok d" "receipts_inv d" "getPublication k (run_ops xs d) = Some p"
    "pb_state p = PublicationVerifiedExact"
  shows "\<exists>r s v. pb_prepared_receipt p = Some r \<and> pb_publish_receipt p = Some s \<and>
    pb_verification_receipt p = Some v \<and> ValidatePreparedReceipt r = None \<and>
    por_target_repository_id s = pb_target_repository_id p \<and> por_target_ref s = pb_target_ref p \<and>
    por_remote_before s = pb_baseline p \<and> por_expected_commit_sha s = ppr_commit_sha r \<and>
    \<not> rr_absent (pvr_observed_remote v) \<and> rr_sha (pvr_observed_remote v) = ppr_commit_sha r"
proof -
  have "p \<in> set (publications (run_ops xs d))"
    using assms(3) find_row_SomeD by (fastforce simp: getPublication_def)
  then have "receipts_ok p" using run_inv(2) [OF assms(1,2), of xs] by (simp add: records_evolve_def receipts_inv_def)
  with assms(4) show ?thesis
    by (auto simp: receipts_ok_def prepared_ok_def published_ok_def verified_ok_def split: option.splits)
qed

section \<open>Effects and projections\<close>

text \<open>
  An external effect is settled once: a succeeded, failed or unknown effect keeps its row, response
  included, in every later state.
\<close>

theorem effect_settled_once:
  assumes "db_ok d" "receipts_inv d" "getExternalEffect k d = Some x" "effect_final (ee_state x)"
  shows "getExternalEffect k (run_ops xs d) = Some x"
  using effect_continues [OF assms(1,2) assms(3) [unfolded getExternalEffect_def]] assms(4)
  by (auto simp: effect_evolves_def getExternalEffect_def)

text \<open>
  An outbox projection is never lost or altered: every later state has it with the same payload and
  aggregate and no fewer delivery attempts, and a delivered or dead-lettered projection is final.
\<close>

theorem projection_kept:
  assumes "db_ok d" "receipts_inv d" "getOutboxProjection k d = Some p"
  shows "\<exists>p'. getOutboxProjection k (run_ops xs d) = Some p' \<and>
    ob_payload p' = ob_payload p \<and> ob_payload_digest p' = ob_payload_digest p \<and>
    ob_aggregate_kind p' = ob_aggregate_kind p \<and> ob_aggregate_id p' = ob_aggregate_id p \<and>
    ob_attempts p \<le> ob_attempts p' \<and> (outbox_final (ob_state p) \<longrightarrow> p' = p)"
  using outbox_continues [OF assms(1,2) assms(3) [unfolded getOutboxProjection_def]]
  by (fastforce simp: outbox_evolves_def getOutboxProjection_def)

section \<open>Sessions and branches\<close>

text \<open>
  C37: a lease generation identifies one lease for ever: lease and runtime generations of a session
  never decrease, and while the lease generation is the same the session is leased to the same holder
  or to nobody.
\<close>

theorem lease_generation_unique:
  assumes "db_ok d" "receipts_inv d" "find_row session_control_pk k (session_controls d) = Some r"
  shows "\<exists>r'. find_row session_control_pk k (session_controls (run_ops xs d)) = Some r' \<and>
    scr_session_uid r' = scr_session_uid r \<and> scr_lease_generation r \<le> scr_lease_generation r' \<and>
    scr_runtime_session_generation r \<le> scr_runtime_session_generation r' \<and>
    (scr_lease_generation r' = scr_lease_generation r \<longrightarrow> scan_lease r' = None \<or> scan_lease r' = scan_lease r)"
  using control_continues [OF assms] by (auto simp: control_evolves_def same_lease_generation_def)

text \<open>
  A branch has one owner: as long as no claim is reclaimed, every claim on a branch of a repository,
  now or later in a history, is the same record with the same owner.
\<close>

theorem branch_single_owner:
  assumes "db_ok d" "list_all (\<lambda>(e, x). \<not> deletes_claim x) xs" "c \<in> set (branch_claims d)"
    "c' \<in> set (branch_claims (run_ops xs d))" "bc_repository_id c' = bc_repository_id c" "bc_ref c' = bc_ref c"
  shows "bc_id c' = bc_id c \<and> bc_owner_kind c' = bc_owner_kind c \<and> bc_owner_uid c' = bc_owner_uid c \<and>
    bc_generation c \<le> bc_generation c'"
proof -
  from run_claims [OF assms(1,2)] assms(3) obtain x where
    x: "x \<in> set (branch_claims (run_ops xs d))" "claim_kept c x" using claim_ev.rowsD by blast
  then have "branch_claim_clash x c'" using assms(5,6) by (auto simp: claim_kept_def branch_claim_clash_def)
  with claims.row_unique [OF db_ok_tables(7) [OF run_keeps_ok [OF assms(1)]] x(1) assms(4)] have "c' = x" by simp
  with x(2) show ?thesis by (simp add: claim_kept_def)
qed

section \<open>Witnesses\<close>

text \<open>A history of the example database: a new controller takes over, a transition of the old one fails.\<close>

definition ex_takeover :: "(env \<times> control_op) list" where
  "ex_takeover = [(ex_env, OpCompareAndSwapControllerEpoch ex_cas), (ex_env, OpTransitionExecution ex_reserve)]"


definition ex_second_epoch :: db where
  "ex_second_epoch = snd (apply_op ex_env (OpCompareAndSwapControllerEpoch ex_cas) ex_db)"

lemma ex_second_epoch_ok: "db_ok ex_second_epoch"
  unfolding ex_second_epoch_def by (rule op_keeps_ok [OF ex_ok])

lemma ex_second_epoch_current: "current_epoch ex_second_epoch = Some (2, ''pod-b'')"
  by code_simp

theorem fenced_forever_witness:
  "\<exists>err. apply_op ex_env (OpTransitionExecution ex_reserve) (run_ops ex_takeover ex_second_epoch) =
     (Some err, run_ops ex_takeover ex_second_epoch)"
  by (rule fenced_forever [OF ex_second_epoch_ok ex_second_epoch_current, where f = ex_fence])
    (simp_all add: ex_reserve_def ex_execution_def ex_fence_def)

definition ex_fence_b :: ControllerEpochFence where
  "ex_fence_b = \<lparr>cf_name = [], cf_epoch = 2, cf_holder_id = ''pod-b''\<rparr>"

lemma ex_first_mutation: "fst (apply_op ex_env (OpTransitionExecution ex_reserve) ex_db) = None"
  by code_simp

lemma ex_second_mutation:
  "fst (apply_op ex_env (OpCompareAndSwapBranchClaim (ex_claim_cas\<lparr>bx_fence := ex_fence_b\<rparr>))
     (run_ops [(ex_env, OpCompareAndSwapControllerEpoch ex_cas)]
       (snd (apply_op ex_env (OpTransitionExecution ex_reserve) ex_db)))) = None"
  by code_simp

theorem one_holder_per_epoch_witness: "cf_epoch ex_fence \<le> cf_epoch ex_fence_b"
proof -
  let ?x1 = "OpTransitionExecution ex_reserve" and ?x2 = "OpCompareAndSwapBranchClaim (ex_claim_cas\<lparr>bx_fence := ex_fence_b\<rparr>)"
  let ?xs = "[(ex_env, OpCompareAndSwapControllerEpoch ex_cas)]"
  obtain d1 where first: "apply_op ex_env ?x1 ex_db = (None, d1)"
    using ex_first_mutation prod.collapse by metis
  then have "fst (apply_op ex_env ?x2 (run_ops ?xs d1)) = None" using ex_second_mutation by (simp only: snd_conv)
  then obtain d2 where second: "apply_op ex_env ?x2 (run_ops ?xs d1) = (None, d2)"
    using prod.collapse by metis
  have "op_fence ?x1 = Some ex_fence" "op_fence ?x2 = Some ex_fence_b"
    by (simp_all add: ex_reserve_def ex_execution_def)
  from one_holder_per_epoch [OF ex_ok first this(1) second this(2)] show ?thesis by simp
qed


text \<open>The accepted attempt starts running; the finished one is asked to fail.\<close>

definition ex_progress :: "(env \<times> control_op) list" where
  "ex_progress =
     [(ex_env, OpTransitionExecution (ex_execution ''a-leased'' PromptExecutionAccepted PromptExecutionRunning)),
      (ex_env, OpTransitionExecution (ex_execution ''a-done'' PromptExecutionSucceeded PromptExecutionFailed))]"

definition ex_leased_attempt :: PromptAttempt where
  "ex_leased_attempt = ex_attempt ''a-leased'' ''t-leased'' ''uid-leased'' 1 PromptExecutionAccepted PromptDeliveryNotRequested"

definition ex_done_attempt :: PromptAttempt where
  "ex_done_attempt = ex_attempt ''a-done'' ''t-done'' [] 0 PromptExecutionSucceeded PromptDeliveryVerifiedExact"

lemma ex_progress_result:
  "list_ex (\<lambda>a. pa_key a = pa_key ex_leased_attempt \<and> pa_execution_state a = PromptExecutionRunning)
     (prompt_attempts (run_ops ex_progress ex_db)) \<and>
   list_ex (\<lambda>a. pa_key a = pa_key ex_done_attempt) (prompt_attempts (run_ops ex_progress ex_db))"
  by code_simp

lemma ex_stored_attempts: "ex_leased_attempt \<in> set (prompt_attempts ex_db)" "ex_done_attempt \<in> set (prompt_attempts ex_db)"
  by (simp_all add: ex_db_def ex_attempts_def ex_leased_attempt_def ex_done_attempt_def)

theorem attempt_submitted_once_witness:
  "\<exists>a. a \<in> set (prompt_attempts (run_ops ex_progress ex_db)) \<and> pa_execution_state a = PromptExecutionRunning \<and>
     \<not> before_submission (pa_execution_state a) \<and> pa_id a = ''a-leased''"
proof -
  obtain a where a: "a \<in> set (prompt_attempts (run_ops ex_progress ex_db))" "pa_key a = pa_key ex_leased_attempt"
    "pa_execution_state a = PromptExecutionRunning" using ex_progress_result by (auto simp: list_ex_iff)
  have "\<not> before_submission (pa_execution_state ex_leased_attempt)" by code_simp
  from attempt_submitted_once [OF ex_ok ex_receipts ex_stored_attempts(1) this a(1,2)] a(1,3) show ?thesis
    by (auto simp: ex_leased_attempt_def ex_attempt_def)
qed

theorem attempt_outcome_final_witness:
  "\<exists>a. a \<in> set (prompt_attempts (run_ops ex_progress ex_db)) \<and> pa_execution_state a = PromptExecutionSucceeded \<and>
     pa_delivery_state a = PromptDeliveryVerifiedExact"
proof -
  obtain a where a: "a \<in> set (prompt_attempts (run_ops ex_progress ex_db))" "pa_key a = pa_key ex_done_attempt"
    using ex_progress_result by (auto simp: list_ex_iff)
  have "IsTerminalPromptExecutionState PromptExecutionSucceeded" "IsTerminalPromptDeliveryState PromptDeliveryVerifiedExact"
    by (simp_all add: IsTerminalPromptExecutionState_def IsTerminalPromptDeliveryState_def)
  with attempt_outcome_final [OF ex_ok ex_receipts ex_stored_attempts(2) a] a(1) show ?thesis
    by (auto simp: ex_done_attempt_def ex_attempt_def)
qed

theorem reclaimed_task_stays_gone_witness:
  "\<exists>n d'. ReclaimPromptAttempts ex_env ex_reclaim ex_db = (Inr n, d') \<and>
     task_gone (TrimSpace (rp_namespace ex_reclaim)) (TrimSpace (rp_task_uid ex_reclaim)) (run_ops ex_takeover d')"
proof -
  obtain n d' where run: "ReclaimPromptAttempts ex_env ex_reclaim ex_db = (Inr n, d')" "d' \<noteq> ex_db"
    using ex_reclaim_runs by (rule changesE)
  from reclaimed_task_stays_gone [OF ex_ok ex_receipts run(1)] run(1) show ?thesis by blast
qed

text \<open>The open publication starts publishing.\<close>

definition ex_publishing :: "(env \<times> control_op) list" where
  "ex_publishing = [(ex_env, OpTransitionPublication ex_publication_step)]"

lemma ex_open_publication: "getPublication ''pub-open'' ex_db = Some (hd ex_publications)"
  by code_simp

theorem publication_history_witness:
  "\<exists>p. getPublication ''pub-open'' (run_ops ex_publishing ex_db) = Some p \<and> pb_prepared_receipt p = Some ex_prepared \<and>
     publication_step\<^sup>*\<^sup>* PublicationPrepared (pb_state p)"
  using publication_history [OF ex_ok ex_receipts ex_open_publication, of ex_publishing]
  by (auto simp: ex_publications_def)

lemma ex_exact_publication:
  "getPublication ''pub-exact'' (run_ops ex_publishing ex_db) = Some (ex_publications ! 1)"
  by code_simp

theorem verified_publication_truthful_witness:
  "\<exists>r v. pb_prepared_receipt (ex_publications ! 1) = Some r \<and> pb_verification_receipt (ex_publications ! 1) = Some v \<and>
     rr_sha (pvr_observed_remote v) = ppr_commit_sha r"
  using verified_publication_truthful [OF ex_ok ex_receipts ex_exact_publication]
  by (auto simp: ex_publications_def)

lemma ex_done_effect: "getExternalEffect ''e-done'' ex_db = Some (ex_effects ! 1)"
  by code_simp

theorem effect_settled_once_witness: "getExternalEffect ''e-done'' (run_ops ex_takeover ex_db) = Some (ex_effects ! 1)"
  by (rule effect_settled_once [OF ex_ok ex_receipts ex_done_effect]) code_simp

lemma ex_delivered: "getOutboxProjection ''o-delivered'' ex_db = Some (ex_projections ! 2)"
  by code_simp

lemma ex_delivered_final: "outbox_final (ob_state (ex_projections ! 2))"
  by code_simp

theorem projection_kept_witness: "getOutboxProjection ''o-delivered'' (run_ops ex_takeover ex_db) = Some (ex_projections ! 2)"
  using projection_kept [OF ex_ok ex_receipts ex_delivered, of ex_takeover] ex_delivered_final by auto

definition ex_lease_history :: "(env \<times> control_op) list" where
  "ex_lease_history = [(ex_env, OpAcquireLease (ex_acquire ''free'' ''uid-free''))]"

lemma ex_free: "find_row session_control_pk (''ns'', ''free'') (session_controls ex_db) = Some (ex_control ''free'' ''uid-free'')"
  by code_simp

theorem lease_generation_unique_witness:
  "\<exists>r. find_row session_control_pk (''ns'', ''free'') (session_controls (run_ops ex_lease_history ex_db)) = Some r \<and>
     scr_session_uid r = ''uid-free'' \<and> 1 \<le> scr_lease_generation r"
  using lease_generation_unique [OF ex_ok ex_receipts ex_free, of ex_lease_history] by (auto simp: ex_control_def)

definition ex_claim_history :: "(env \<times> control_op) list" where
  "ex_claim_history = [(ex_env, OpCompareAndSwapBranchClaim ex_claim_cas)]"

lemma ex_claim_moved:
  "list_ex (\<lambda>c. bc_repository_id c = ''repo'' \<and> bc_ref c = ''refs/heads/main'' \<and> bc_generation c = 2)
     (branch_claims (run_ops ex_claim_history ex_db))"
  by code_simp

theorem branch_single_owner_witness:
  "\<exists>c. c \<in> set (branch_claims (run_ops ex_claim_history ex_db)) \<and> bc_generation c = 2 \<and> bc_id c = ''c-main'' \<and>
     bc_owner_uid c = ''t-leased''"
proof -
  obtain c where c: "c \<in> set (branch_claims (run_ops ex_claim_history ex_db))" "bc_repository_id c = ''repo''"
    "bc_ref c = ''refs/heads/main''" "bc_generation c = 2" using ex_claim_moved by (auto simp: list_ex_iff)
  have kept: "list_all (\<lambda>(e, x). \<not> deletes_claim x) ex_claim_history" by (simp add: ex_claim_history_def)
  have main: "ex_claim ''c-main'' ''refs/heads/main'' \<in> set (branch_claims ex_db)" by (simp add: ex_db_def ex_claims_def)
  from branch_single_owner [OF ex_ok kept main c(1)] c show ?thesis by (auto simp: ex_claim_def)
qed

end
